(* ===== verification/Prelude.thy ===== *)
theory Prelude
  imports Main "HOL-Library.Multiset"
begin

text \<open>
  Shared vocabulary of the development: the types of identifiers, money and time, the
  operations of the relational store the server talks to (a table is the list of its
  rows in insertion order), list sums, the string operations of the source language
  that several components use, and the \<open>named_theorems\<close> collections.
\<close>

section \<open>Types\<close>

text \<open>
  Identifiers are strings, money is an unbounded integer of micro-units (a \<open>bigint\<close> of
  the source), an instant is a number of milliseconds since the epoch.
\<close>

type_synonym uuid = string
type_synonym micro = int
type_synonym msec = int

named_theorems table_simps "rewrite rules of the table operations"
named_theorems frame_simps "fields that an operation leaves alone"

section \<open>Options\<close>

text \<open>The nullish coalescing operator \<open>a ?? b\<close>.\<close>

definition nullish :: "'a option \<Rightarrow> 'a \<Rightarrow> 'a" where
  "nullish a b = (case a of None \<Rightarrow> b | Some x \<Rightarrow> x)"

lemma nullish_simps [simp]: "nullish None b = b" "nullish (Some x) b = x"
  by (simp_all add: nullish_def)

text \<open>The same with an optional right operand.\<close>

definition nullish_opt :: "'a option \<Rightarrow> 'a option \<Rightarrow> 'a option" where
  "nullish_opt a b = (case a of None \<Rightarrow> b | Some x \<Rightarrow> Some x)"

lemma nullish_opt_simps [simp]: "nullish_opt None b = b" "nullish_opt (Some x) b = Some x"
  by (simp_all add: nullish_opt_def)

section \<open>Tables\<close>

text \<open>
  \<open>update_where\<close> is an update of every row that satisfies a predicate (an update by
  primary key is the case of a predicate that compares the key).
\<close>

definition update_where :: "('r \<Rightarrow> bool) \<Rightarrow> ('r \<Rightarrow> 'r) \<Rightarrow> 'r list \<Rightarrow> 'r list" where
  "update_where p f t = map (\<lambda>r. if p r then f r else r) t"

definition count_where :: "('r \<Rightarrow> bool) \<Rightarrow> 'r list \<Rightarrow> nat" where
  "count_where p t = length (filter p t)"

lemma update_where_Nil [table_simps, simp]: "update_where p f [] = []"
  by (simp add: update_where_def)

lemma update_where_Cons [table_simps, simp]:
  "update_where p f (r # t) = (if p r then f r else r) # update_where p f t"
  by (simp add: update_where_def)

lemma update_where_append [table_simps]:
  "update_where p f (s @ t) = update_where p f s @ update_where p f t"
  by (simp add: update_where_def)

lemma length_update_where [table_simps, simp]: "length (update_where p f t) = length t"
  by (simp add: update_where_def)

lemma set_update_where: "set (update_where p f t) = (\<lambda>r. if p r then f r else r) ` set t"
  by (simp add: update_where_def)

lemma in_update_whereE:
  assumes "r \<in> set (update_where p f t)"
  obtains r0 where "r0 \<in> set t" "r = (if p r0 then f r0 else r0)"
  using assms by (auto simp: set_update_where)

text \<open>An update that keeps the key keeps every key.\<close>

lemma map_key_update_where:
  "(\<And>r. r \<in> set t \<Longrightarrow> p r \<Longrightarrow> k (f r) = k r) \<Longrightarrow> map k (update_where p f t) = map k t"
  by (induction t) (auto simp: update_where_def)

lemma update_where_none:
  "(\<And>r. r \<in> set t \<Longrightarrow> \<not> p r) \<Longrightarrow> update_where p f t = t"
  by (induction t) (auto simp: update_where_def)

lemma filter_update_where_other:
  "(\<And>r. r \<in> set t \<Longrightarrow> p r \<Longrightarrow> \<not> q r) \<Longrightarrow> (\<And>r. r \<in> set t \<Longrightarrow> p r \<Longrightarrow> \<not> q (f r)) \<Longrightarrow>
   filter q (update_where p f t) = filter q t"
  by (induction t) (auto simp: update_where_def)

lemma find_update_where_key:
  assumes "\<And>r. k (f r) = k r"
  shows "find (\<lambda>r. k r = x) (update_where (\<lambda>r. k r = y) f t) =
    (if x = y then map_option f (find (\<lambda>r. k r = x) t) else find (\<lambda>r. k r = x) t)"
  by (induction t) (auto simp: assms)

lemma find_append_row: "find p (s @ t) = (case find p s of None \<Rightarrow> find p t | Some r \<Rightarrow> Some r)"
  by (induction s) auto

lemma find_SomeD: "find p t = Some r \<Longrightarrow> r \<in> set t \<and> p r"
  by (auto simp: find_Some_iff)

section \<open>Sums and bounds over lists\<close>

definition sum_by :: "('r \<Rightarrow> int) \<Rightarrow> 'r list \<Rightarrow> int" where
  "sum_by f t = sum_list (map f t)"

lemma sum_by_simps [simp]: "sum_by f [] = 0" "sum_by f (r # t) = f r + sum_by f t"
  by (simp_all add: sum_by_def)

lemma sum_by_append [simp]: "sum_by f (s @ t) = sum_by f s + sum_by f t"
  by (simp add: sum_by_def)

lemma sum_by_nonneg: "(\<And>r. r \<in> set t \<Longrightarrow> 0 \<le> f r) \<Longrightarrow> 0 \<le> sum_by f t"
  by (induction t) auto

lemma sum_by_mono: "(\<And>r. r \<in> set t \<Longrightarrow> f r \<le> g r) \<Longrightarrow> sum_by f t \<le> sum_by g t"
  by (induction t) (auto intro: add_mono)

lemma sum_by_cong: "(\<And>r. r \<in> set t \<Longrightarrow> f r = g r) \<Longrightarrow> sum_by f t = sum_by g t"
  by (induction t) auto

lemma foldl_add_sum_by: "foldl (\<lambda>a r. a + f r) (x :: int) t = x + sum_by f t"
  by (induction t arbitrary: x) auto

lemma sum_by_sort_key [simp]: "sum_by f (sort_key k t) = sum_by f t"
proof -
  have "mset (map f (sort_key k t)) = mset (map f t)" by simp
  then have "sum_mset (mset (map f (sort_key k t))) = sum_mset (mset (map f t))" by simp
  then show ?thesis unfolding sum_by_def sum_mset_sum_list .
qed

lemma insort_key_map: "insort_key k (g x) (map g xs) = map g (insort_key (\<lambda>y. k (g y)) x xs)"
  by (induction xs) auto

lemma sort_key_map: "sort_key k (map g xs) = map g (sort_key (\<lambda>y. k (g y)) xs)"
  by (induction xs) (simp_all add: insort_key_map)

text \<open>Mapping a function that keeps key and membership over a table maps it over a sorted selection.\<close>

lemma sorted_selection_map:
  assumes "\<And>r. k (g r) = k r" "\<And>r. p (g r) = p r"
  shows "sort_key k (filter p (map g t)) = map g (sort_key k (filter p t))"
  by (simp add: filter_map o_def sort_key_map assms)

lemma zdiv_less: "0 < (q :: int) \<Longrightarrow> a div q < b \<longleftrightarrow> a < b * q"
proof -
  assume q: "0 < q"
  have "b \<le> a div q \<longleftrightarrow> b * q \<le> a"
  proof
    assume "b \<le> a div q"
    then have "b * q \<le> (a div q) * q" using q by (intro mult_right_mono) auto
    also have "\<dots> \<le> a" using q div_mult_mod_eq [of a q] pos_mod_sign [of q a] by linarith
    finally show "b * q \<le> a" .
  next
    assume "b * q \<le> a"
    then have "b * q div q \<le> a div q" using q by (intro zdiv_mono1)
    then show "b \<le> a div q" using q by simp
  qed
  then show ?thesis by linarith
qed

section \<open>Strings\<close>

text \<open>\<open>s.slice(i, j)\<close> for \<open>0 \<le> i \<le> j\<close>.\<close>

definition str_slice :: "nat \<Rightarrow> nat \<Rightarrow> 'a list \<Rightarrow> 'a list" where
  "str_slice i j s = take (j - i) (drop i s)"

lemma length_str_slice: "length (str_slice i j s) \<le> j - i"
  by (simp add: str_slice_def)

text \<open>A string that counts as true: present and not empty.\<close>

definition truthy :: "string option \<Rightarrow> bool" where
  "truthy v = (case v of None \<Rightarrow> False | Some s \<Rightarrow> s \<noteq> [])"

section \<open>Time\<close>

definition DAY_MS :: msec where
  "DAY_MS = 86400000"

text \<open>Midnight (UTC) of the day of an instant.\<close>

definition utc_day_start :: "msec \<Rightarrow> msec" where
  "utc_day_start t = t - t mod DAY_MS"

lemma utc_day_start_le: "utc_day_start t \<le> t"
  by (simp add: utc_day_start_def DAY_MS_def)

lemma utc_day_start_gt: "t < utc_day_start t + DAY_MS"
  by (simp add: utc_day_start_def DAY_MS_def)

lemma utc_day_start_idem [simp]: "utc_day_start (utc_day_start t) = utc_day_start t"
  by (simp add: utc_day_start_def DAY_MS_def mod_diff_eq)

section \<open>First and last rows\<close>

text \<open>The last element, and the row with the greatest key (the later row of a tie).\<close>

definition last_opt :: "'a list \<Rightarrow> 'a option" where
  "last_opt xs = (if xs = [] then None else Some (last xs))"

definition latest_by :: "('r \<Rightarrow> 'k::linorder) \<Rightarrow> 'r list \<Rightarrow> 'r option" where
  "latest_by k rs = last_opt (sort_key k rs)"

lemma sort_key_Nil_iff [simp]: "sort_key k rs = [] \<longleftrightarrow> rs = []"
  using set_sort [of k rs] by (metis set_empty)

lemma latest_by_None [simp]: "latest_by k rs = None \<longleftrightarrow> rs = []"
  by (simp add: latest_by_def last_opt_def)

lemma latest_by_in: "latest_by k rs = Some r \<Longrightarrow> r \<in> set rs"
  using last_in_set [of "sort_key k rs"] by (auto simp: latest_by_def last_opt_def split: if_splits)

lemma latest_by_greatest:
  assumes "latest_by k rs = Some r" "x \<in> set rs"
  shows "k x \<le> k r"
proof -
  let ?s = "sort_key k rs"
  have ne: "?s \<noteq> []" and r: "r = last ?s"
    using assms(1) by (auto simp: latest_by_def last_opt_def split: if_splits)
  have "x \<in> set (butlast ?s @ [last ?s])" 
    using assms(2) by (simp only: append_butlast_last_id [OF ne] set_sort)
  moreover have "sorted (map k (butlast ?s @ [last ?s]))" 
    by (simp only: append_butlast_last_id [OF ne] sorted_sort_key)
  then have "\<forall>y \<in> set (butlast ?s). k y \<le> k (last ?s)" by (simp add: sorted_append)
  ultimately show ?thesis using r by auto
qed

text \<open>A new row with the greatest key of all is the latest.\<close>

lemma insort_key_snoc: "k x \<le> k r \<Longrightarrow> insort_key k x (ys @ [r]) = insort_key k x ys @ [r]"
  by (induction ys) simp_all

lemma sort_key_snoc: "\<forall>x \<in> set rs. k x \<le> k r \<Longrightarrow> sort_key k (rs @ [r]) = sort_key k rs @ [r]"
  by (induction rs) (simp_all add: insort_key_snoc)

lemma latest_by_snoc: "\<forall>x \<in> set rs. k x \<le> k r \<Longrightarrow> latest_by k (rs @ [r]) = Some r"
  by (simp add: latest_by_def last_opt_def sort_key_snoc)

section \<open>Machines driven by events\<close>

text \<open>
  A component that takes events in any order, with an invariant that the events allowed keep:
  it holds after every sequence of them.
\<close>

locale event_machine =
  fixes step :: "'e \<Rightarrow> 's \<Rightarrow> 's" and allowed :: "'e \<Rightarrow> bool" and inv :: "'s \<Rightarrow> bool"
  assumes step_inv: "inv s \<Longrightarrow> allowed e \<Longrightarrow> inv (step e s)"
begin

lemma run_inv: "inv s \<Longrightarrow> list_all allowed es \<Longrightarrow> inv (fold step es s)"
  by (induction es arbitrary: s) (simp_all add: step_inv)

lemma run_append_inv: "inv (fold step es s) \<Longrightarrow> list_all allowed es' \<Longrightarrow> inv (fold step (es @ es') s)"
  by (simp add: run_inv)

end

end
