(* ===== verification/CircuitBreaker.thy ===== *)
theory CircuitBreaker
  imports Prelude
begin

text \<open>
  The circuit breaker of \<^verbatim>\<open>apps/rgs-server/src/wallet/CircuitBreaker.ts\<close>: one entry per
  key, three states, and the three operations \<open>tryAcquire\<close>, \<open>recordSuccess\<close> and
  \<open>recordFailure\<close>. The class's mutable map is the field \<open>cb_entries\<close>; the injected
  clock is the argument \<open>now\<close> of the operations that read it.
\<close>

section \<open>State\<close>

datatype circuit_state = CLOSED | OPEN | HALF_OPEN

record cb_entry =
  ce_state :: circuit_state
  ce_failures :: nat
  ce_openedAt :: msec
  ce_probeInflight :: bool

record breaker =
  cb_entries :: "string \<rightharpoonup> cb_entry"
  cb_threshold :: int
  cb_cooldownMs :: msec

record breaker_decision =
  bd_state :: circuit_state
  bd_allow :: bool

text \<open>The constructor: absent options take the defaults 5 and 30 seconds.\<close>

definition new_breaker :: "int option \<Rightarrow> msec option \<Rightarrow> breaker" where
  "new_breaker failureThreshold cooldownMs =
     \<lparr>cb_entries = Map.empty,
      cb_threshold = nullish failureThreshold 5,
      cb_cooldownMs = nullish cooldownMs 30000\<rparr>"

definition fresh_entry :: cb_entry where
  "fresh_entry = \<lparr>ce_state = CLOSED, ce_failures = 0, ce_openedAt = 0, ce_probeInflight = False\<rparr>"

text \<open>\<open>ensure\<close> returns the entry of the key, creating it on first use.\<close>

definition ensure_entry :: "breaker \<Rightarrow> string \<Rightarrow> cb_entry" where
  "ensure_entry b key = (case cb_entries b key of None \<Rightarrow> fresh_entry | Some e \<Rightarrow> e)"

definition put_entry :: "breaker \<Rightarrow> string \<Rightarrow> cb_entry \<Rightarrow> breaker" where
  "put_entry b key e = b\<lparr>cb_entries := (cb_entries b)(key \<mapsto> e)\<rparr>"

section \<open>Operations\<close>

definition tryAcquire :: "breaker \<Rightarrow> msec \<Rightarrow> string \<Rightarrow> breaker_decision \<times> breaker" where
  "tryAcquire b now key =
     (let e = ensure_entry b key in
      if ce_state e = OPEN \<and> \<not> cb_cooldownMs b \<le> now - ce_openedAt e
      then (\<lparr>bd_state = OPEN, bd_allow = False\<rparr>, put_entry b key e)
      else
        (let e1 = (if ce_state e = OPEN
                   then e\<lparr>ce_state := HALF_OPEN, ce_probeInflight := False\<rparr> else e) in
         if ce_state e1 = HALF_OPEN
         then (if ce_probeInflight e1
               then (\<lparr>bd_state = HALF_OPEN, bd_allow = False\<rparr>, put_entry b key e1)
               else (\<lparr>bd_state = HALF_OPEN, bd_allow = True\<rparr>,
                     put_entry b key (e1\<lparr>ce_probeInflight := True\<rparr>)))
         else (\<lparr>bd_state = CLOSED, bd_allow = True\<rparr>, put_entry b key e1)))"

definition recordSuccess :: "breaker \<Rightarrow> string \<Rightarrow> breaker" where
  "recordSuccess b key =
     put_entry b key ((ensure_entry b key)
       \<lparr>ce_state := CLOSED, ce_failures := 0, ce_probeInflight := False\<rparr>)"

definition recordFailure :: "breaker \<Rightarrow> msec \<Rightarrow> string \<Rightarrow> breaker" where
  "recordFailure b now key =
     (let e = ensure_entry b key;
          e1 = e\<lparr>ce_failures := ce_failures e + 1, ce_probeInflight := False\<rparr> in
      if ce_state e1 = HALF_OPEN \<or> cb_threshold b \<le> int (ce_failures e1)
      then put_entry b key (e1\<lparr>ce_state := OPEN, ce_openedAt := now\<rparr>)
      else put_entry b key e1)"

text \<open>What \<open>snapshot\<close> shows of each entry, and \<open>reset\<close>.\<close>

definition cb_snapshot :: "breaker \<Rightarrow> string \<Rightarrow> (circuit_state \<times> nat \<times> msec) option" where
  "cb_snapshot b key =
     map_option (\<lambda>e. (ce_state e, ce_failures e, ce_openedAt e)) (cb_entries b key)"

definition cb_reset :: "breaker \<Rightarrow> breaker" where
  "cb_reset b = b\<lparr>cb_entries := Map.empty\<rparr>"

section \<open>Runs\<close>

text \<open>
  What callers do with a breaker: any interleaving of acquisitions and outcome records,
  on any keys, with any clock readings.
\<close>

datatype cb_event = Acquire msec string | Success string | Failure msec string

fun cb_step :: "breaker \<Rightarrow> cb_event \<Rightarrow> breaker" where
  "cb_step b (Acquire now key) = snd (tryAcquire b now key)"
| "cb_step b (Success key) = recordSuccess b key"
| "cb_step b (Failure now key) = recordFailure b now key"

fun cb_run :: "breaker \<Rightarrow> cb_event list \<Rightarrow> breaker" where
  "cb_run b [] = b"
| "cb_run b (ev # evs) = cb_run (cb_step b ev) evs"

fun cb_event_key :: "cb_event \<Rightarrow> string" where
  "cb_event_key (Acquire now key) = key"
| "cb_event_key (Success key) = key"
| "cb_event_key (Failure now key) = key"

section \<open>Basic facts\<close>

lemma ensure_put [simp]:
  "ensure_entry (put_entry b k e) k' = (if k = k' then e else ensure_entry b k')"
  by (simp add: ensure_entry_def put_entry_def)

lemma put_entry_frame [frame_simps, simp]:
  "cb_threshold (put_entry b k e) = cb_threshold b"
  "cb_cooldownMs (put_entry b k e) = cb_cooldownMs b"
  by (simp_all add: put_entry_def)

lemma cb_step_frame [frame_simps, simp]:
  "cb_threshold (cb_step b ev) = cb_threshold b"
  "cb_cooldownMs (cb_step b ev) = cb_cooldownMs b"
  by (cases ev; simp add: tryAcquire_def recordSuccess_def recordFailure_def Let_def)+

lemma cb_run_frame [frame_simps, simp]:
  "cb_threshold (cb_run b evs) = cb_threshold b"
  "cb_cooldownMs (cb_run b evs) = cb_cooldownMs b"
  by (induction evs arbitrary: b) simp_all

lemma cb_run_append: "cb_run b (xs @ ys) = cb_run (cb_run b xs) ys"
  by (induction xs arbitrary: b) simp_all

lemma cb_step_other_key:
  "cb_event_key ev \<noteq> key \<Longrightarrow> ensure_entry (cb_step b ev) key = ensure_entry b key"
  by (cases ev) (auto simp: tryAcquire_def recordSuccess_def recordFailure_def Let_def)

section \<open>The entry invariant\<close>

text \<open>
  Between operations a closed entry has fewer failures than the threshold, an open or
  half-open one has reached it, and only a half-open entry has a probe in flight.
\<close>

definition entry_inv :: "breaker \<Rightarrow> cb_entry \<Rightarrow> bool" where
  "entry_inv b e \<longleftrightarrow>
     (ce_state e = CLOSED \<longleftrightarrow> int (ce_failures e) < cb_threshold b) \<and>
     (ce_probeInflight e \<longrightarrow> ce_state e = HALF_OPEN)"

definition breaker_inv :: "breaker \<Rightarrow> bool" where
  "breaker_inv b \<longleftrightarrow> (\<forall>k. entry_inv b (ensure_entry b k))"

lemma entry_inv_frame:
  "cb_threshold b = cb_threshold b' \<Longrightarrow> entry_inv b e = entry_inv b' e"
  by (simp add: entry_inv_def)

lemma new_breaker_inv: "0 < nullish th 5 \<Longrightarrow> breaker_inv (new_breaker th cd)"
  by (simp add: breaker_inv_def entry_inv_def new_breaker_def ensure_entry_def fresh_entry_def)

lemma cb_step_inv:
  assumes "0 < cb_threshold b" and "breaker_inv b"
  shows "breaker_inv (cb_step b ev)"
proof -
  have e: "entry_inv b (ensure_entry b k)" for k
    using assms(2) by (simp add: breaker_inv_def)
  have "entry_inv b (ensure_entry (cb_step b ev) k)" for k
  proof (cases "cb_event_key ev = k")
    case False
    then show ?thesis using e by (simp add: cb_step_other_key)
  next
    case True
    then show ?thesis using e [of k] assms(1)
      by (cases ev; cases "ce_state (ensure_entry b k)")
        (auto simp: entry_inv_def tryAcquire_def recordSuccess_def recordFailure_def Let_def)
  qed
  then show ?thesis
    unfolding breaker_inv_def using entry_inv_frame [OF cb_step_frame(1)] by blast
qed

lemma cb_run_inv:
  "0 < cb_threshold b \<Longrightarrow> breaker_inv b \<Longrightarrow> breaker_inv (cb_run b evs)"
  by (induction evs arbitrary: b) (simp_all add: cb_step_inv)

section \<open>Properties\<close>

text \<open>From a new breaker with a positive threshold, every interleaving of
  acquisitions and outcome records on any keys keeps the entry invariant: an entry is
  closed exactly while its consecutive failures are below the threshold, and a probe is in
  flight only in the half-open state.\<close>

theorem breaker_run_invariant:
  assumes "0 < th"
  shows "breaker_inv (cb_run (new_breaker (Some th) cd) evs)"
  using assms by (intro cb_run_inv new_breaker_inv) (simp_all add: new_breaker_def)

theorem breaker_run_invariant_witness:
  "breaker_inv (cb_run (new_breaker (Some 2) None)
     [Failure 0 ''op:BET'', Failure 5 ''op:BET'', Acquire 40000 ''op:BET''])"
  by (rule breaker_run_invariant) simp

end
