(* ===== verification/JsNum.thy ===== *)
theory JsNum
  imports Prelude Complex_Main
begin

text \<open>
  The numbers of the source language. A finite \<open>number\<close> is an IEEE-754 binary64 value;
  it is modelled by the rational it denotes, and every arithmetic operation of the source
  is the exact operation followed by \<open>fl\<close>, rounding to the nearest value with a 53-bit
  significand, ties to even. \<open>fl\<close> has no exponent limits, so it agrees with binary64
  for magnitudes from \<open>2 ^ (-1022)\<close> up to \<open>2 ^ 1024\<close>; infinities are written out
  where the code can produce one.
\<close>

type_synonym jsnum = rat

section \<open>Rounding to 53 bits\<close>

text \<open>Bit length of a positive integer.\<close>

fun blen :: "int \<Rightarrow> nat" where
  "blen n = (if n \<le> 0 then 0 else Suc (blen (n div 2)))"

declare blen.simps [simp del]

text \<open>The exponent of a positive rational: \<open>2 powi (flog2 x) \<le> x < 2 powi (flog2 x + 1)\<close>.\<close>

definition flog2 :: "rat \<Rightarrow> int" where
  "flog2 x = (let (p, q) = quotient_of x; k = int (blen p) - int (blen q)
              in if 2 powi k \<le> x then k else k - 1)"

definition round_even :: "rat \<Rightarrow> int" where
  "round_even y =
     (let f = \<lfloor>y\<rfloor>; d = y - of_int f
      in if d < 1 / 2 then f else if 1 / 2 < d then f + 1 else if even f then f else f + 1)"

definition fl :: "rat \<Rightarrow> jsnum" where
  "fl x = (if x = 0 then 0
           else let s = 52 - flog2 \<bar>x\<bar> in of_int (round_even (x * 2 powi s)) * 2 powi (- s))"

section \<open>The exponent\<close>

lemma blen_bounds: "0 < n \<Longrightarrow> 2 ^ (blen n - 1) \<le> n \<and> n < 2 ^ blen n \<and> 0 < blen n"
proof (induction n rule: blen.induct)
  case (1 n)
  show ?case
  proof (cases "n = 1")
    case True
    then show ?thesis by (simp add: blen.simps [of 1] blen.simps [of 0])
  next
    case False
    with "1.prems" have h: "0 < n div 2" by simp
    with "1.IH" "1.prems" have ih: "2 ^ (blen (n div 2) - 1) \<le> n div 2" "n div 2 < 2 ^ blen (n div 2)"
      "0 < blen (n div 2)" by auto
    have e: "(2::int) ^ blen (n div 2) = 2 * 2 ^ (blen (n div 2) - 1)"
      using ih(3) by (metis power_minus_mult mult.commute)
    have n: "2 * (n div 2) \<le> n" "n < 2 * (n div 2) + 2" by simp_all
    have "2 ^ blen (n div 2) \<le> n" using ih(1) e n by linarith
    moreover have "n < 2 * 2 ^ blen (n div 2)" using ih(2) n by linarith
    ultimately show ?thesis using "1.prems" by (simp add: blen.simps [of n])
  qed
qed

lemma powi_pos [simp]: "0 < (2::rat) powi k"
  by (simp add: zero_less_power_int)

lemma powi_mono: "i \<le> j \<Longrightarrow> (2::rat) powi i \<le> 2 powi j"
  by (rule power_int_increasing) auto

lemma powi_Suc: "(2::rat) powi (k + 1) = 2 * 2 powi k"
  by (simp add: power_int_add)

lemma flog2_bounds:
  assumes "0 < x"
  shows "2 powi (flog2 x) \<le> x" and "x < 2 powi (flog2 x + 1)"
proof -
  obtain p q where pq: "quotient_of x = (p, q)" by fastforce
  have q: "0 < q" using quotient_of_denom_pos [OF pq] .
  have x: "x = of_int p / of_int q" using quotient_of_div [OF pq] .
  have p: "0 < p" using assms q x by (simp add: zero_less_divide_iff)
  define a b where "a = blen p" and "b = blen q"
  have P: "2 ^ (a - 1) \<le> p" "p < 2 ^ a" "0 < a" and Q: "2 ^ (b - 1) \<le> q" "q < 2 ^ b" "0 < b"
    using blen_bounds [OF p] blen_bounds [OF q] by (auto simp: a_def b_def)
  have P': "(2::rat) powi (int a - 1) \<le> of_int p" "of_int p < (2::rat) powi int a"
  proof -
    have "(2::rat) powi (int a - 1) = of_int (2 ^ (a - 1))"
      using P(3) by (simp add: power_int_def nat_diff_distrib)
    then show "(2::rat) powi (int a - 1) \<le> of_int p" using P(1) by (metis of_int_le_iff)
    have "(2::rat) powi int a = of_int (2 ^ a)" by simp
    then show "of_int p < (2::rat) powi int a" using P(2) by (metis of_int_less_iff)
  qed
  have Q': "(2::rat) powi (int b - 1) \<le> of_int q" "of_int q < (2::rat) powi int b"
  proof -
    have "(2::rat) powi (int b - 1) = of_int (2 ^ (b - 1))"
      using Q(3) by (simp add: power_int_def nat_diff_distrib)
    then show "(2::rat) powi (int b - 1) \<le> of_int q" using Q(1) by (metis of_int_le_iff)
    have "(2::rat) powi int b = of_int (2 ^ b)" by simp
    then show "of_int q < (2::rat) powi int b" using Q(2) by (metis of_int_less_iff)
  qed
  define k where "k = int a - int b"
  have up: "x < 2 powi (k + 1)"
  proof -
    have "of_int p < (2::rat) powi (k + 1) * 2 powi (int b - 1)"
      using P'(2) by (simp add: k_def flip: power_int_add)
    also have "\<dots> \<le> 2 powi (k + 1) * of_int q"
      using Q'(1) by (intro mult_left_mono) auto
    finally show ?thesis using q by (simp add: x divide_less_eq)
  qed
  have lo: "2 powi (k - 1) \<le> x"
  proof -
    have "(2::rat) powi (k - 1) * of_int q \<le> 2 powi (k - 1) * 2 powi int b"
      using Q'(2) by (intro mult_left_mono) auto
    also have "\<dots> = 2 powi (k - 1 + int b)"
      by (rule power_int_add [symmetric]) simp
    also have "k - 1 + int b = int a - 1" by (simp add: k_def)
    also have "(2::rat) powi (int a - 1) \<le> of_int p" by (rule P'(1))
    finally show ?thesis using q by (simp add: x le_divide_eq)
  qed
  have F: "flog2 x = (if 2 powi k \<le> x then k else k - 1)"
    by (simp add: flog2_def pq k_def a_def b_def)
  show "2 powi (flog2 x) \<le> x" using F lo by simp
  show "x < 2 powi (flog2 x + 1)" using F up by (simp add: not_le)
qed

lemma flog2_unique:
  assumes "2 powi e \<le> x" and "x < 2 powi (e + 1)"
  shows "flog2 x = e"
proof -
  have x: "0 < x" using assms(1) powi_pos [of e] by linarith
  note b = flog2_bounds [OF x]
  have "\<not> flog2 x < e"
  proof
    assume "flog2 x < e"
    then have "(2::rat) powi (flog2 x + 1) \<le> 2 powi e" by (intro powi_mono) simp
    with b(2) assms(1) show False by simp
  qed
  moreover have "\<not> e < flog2 x"
  proof
    assume "e < flog2 x"
    then have "(2::rat) powi (e + 1) \<le> 2 powi flog2 x" by (intro powi_mono) simp
    with b(1) assms(2) show False by simp
  qed
  ultimately show ?thesis by simp
qed

lemma flog2_mono: "0 < x \<Longrightarrow> x \<le> y \<Longrightarrow> flog2 x \<le> flog2 y"
proof (rule ccontr)
  assume a: "0 < x" "x \<le> y" "\<not> flog2 x \<le> flog2 y"
  then have "(2::rat) powi (flog2 y + 1) \<le> 2 powi flog2 x" by (intro powi_mono) simp
  with flog2_bounds(1) [of x] flog2_bounds(2) [of y] a show False by simp
qed

section \<open>Rounding to an integer\<close>

lemma round_even_close: "\<bar>of_int (round_even y) - y\<bar> \<le> 1 / 2"
proof -
  have "of_int \<lfloor>y\<rfloor> \<le> y" "y < of_int \<lfloor>y\<rfloor> + 1" by linarith+
  then show ?thesis by (auto simp: round_even_def Let_def)
qed

lemma round_even_of_int [simp]: "round_even (of_int n) = n"
  by (simp add: round_even_def)

lemma round_even_mono: "x \<le> y \<Longrightarrow> round_even x \<le> round_even y"
proof -
  assume "x \<le> y"
  then have le: "\<lfloor>x\<rfloor> \<le> \<lfloor>y\<rfloor>" by (rule floor_mono)
  show ?thesis
  proof (cases "\<lfloor>x\<rfloor> = \<lfloor>y\<rfloor>")
    case True
    with \<open>x \<le> y\<close> show ?thesis by (auto simp: round_even_def Let_def)
  next
    case False
    with le have "\<lfloor>x\<rfloor> + 1 \<le> \<lfloor>y\<rfloor>" by simp
    moreover have "round_even x \<le> \<lfloor>x\<rfloor> + 1" "\<lfloor>y\<rfloor> \<le> round_even y"
      by (auto simp: round_even_def Let_def)
    ultimately show ?thesis by simp
  qed
qed

lemma round_even_ge: "of_int n \<le> y \<Longrightarrow> n \<le> round_even y"
  using round_even_mono [of "of_int n" y] by simp

lemma round_even_le: "y \<le> of_int n \<Longrightarrow> round_even y \<le> n"
  using round_even_mono [of y "of_int n"] by simp

section \<open>Properties of the rounding\<close>

lemma fl_0 [simp]: "fl 0 = 0"
  by (simp add: fl_def)

lemma round_even_minus: "round_even (- y) = - round_even y"
proof (cases "y = of_int \<lfloor>y\<rfloor>")
  case True
  then show ?thesis by (metis of_int_minus round_even_of_int)
next
  case False
  define f where "f = \<lfloor>y\<rfloor>"
  have f: "of_int f < y" "y < of_int f + 1"
    using False of_int_floor_le [of y] floor_less_iff [of y "\<lfloor>y\<rfloor> + 1"] by (auto simp: f_def less_le)
  have "\<lfloor>- y\<rfloor> = - f - 1"
    by (rule floor_unique) (use f in auto)
  then show ?thesis using f
    by (auto simp: round_even_def Let_def f_def [symmetric])
qed

lemma fl_minus: "fl (- x) = - fl x"
  by (simp add: fl_def Let_def round_even_minus)

lemma fl_binade:
  assumes "0 < x"
  shows "2 powi flog2 x \<le> fl x" and "fl x \<le> 2 powi (flog2 x + 1)"
proof -
  define s where "s = 52 - flog2 x"
  have F: "fl x = of_int (round_even (x * 2 powi s)) * 2 powi (- s)"
    using assms by (simp add: fl_def s_def)
  note b = flog2_bounds [OF assms]
  have "(2::rat) powi flog2 x * 2 powi s \<le> x * 2 powi s"
    using b(1) by (intro mult_right_mono) auto
  moreover have "(2::rat) powi flog2 x * 2 powi s = of_int (2 ^ 52)"
    by (subst power_int_add [symmetric]) (simp_all add: s_def)
  ultimately have lo: "of_int (2 ^ 52) \<le> x * 2 powi s"
    by linarith
  have "x * 2 powi s \<le> 2 powi (flog2 x + 1) * 2 powi s"
    using b(2) by (intro mult_right_mono) auto
  moreover have "(2::rat) powi (flog2 x + 1) * 2 powi s = of_int (2 ^ 53)"
    by (subst power_int_add [symmetric]) (simp_all add: s_def)
  ultimately have hi: "x * 2 powi s \<le> of_int (2 ^ 53)"
    by linarith
  have e1: "(2::rat) powi flog2 x = of_int (2 ^ 52) * 2 powi (- s)"
  proof -
    have "of_int (2 ^ 52) * (2::rat) powi (- s) = 2 powi 52 * 2 powi (- s)" by simp
    also have "\<dots> = 2 powi (52 + - s)" by (rule power_int_add [symmetric]) simp
    finally show ?thesis by (simp add: s_def)
  qed
  have e2: "(2::rat) powi (flog2 x + 1) = of_int (2 ^ 53) * 2 powi (- s)"
  proof -
    have "of_int (2 ^ 53) * (2::rat) powi (- s) = 2 powi 53 * 2 powi (- s)" by simp
    also have "\<dots> = 2 powi (53 + - s)" by (rule power_int_add [symmetric]) simp
    also have "53 + - s = flog2 x + 1" by (simp add: s_def)
    finally show ?thesis by simp
  qed
  show "2 powi flog2 x \<le> fl x"
    unfolding F e1 using round_even_ge [OF lo] by (intro mult_right_mono) (auto simp: of_int_le_iff)
  show "fl x \<le> 2 powi (flog2 x + 1)"
    unfolding F e2 using round_even_le [OF hi] by (intro mult_right_mono) (auto simp: of_int_le_iff)
qed

lemma fl_pos: "0 < x \<Longrightarrow> 0 < fl x"
  using fl_binade(1) [of x] powi_pos [of "flog2 x"] by linarith

lemma fl_nonneg: "0 \<le> x \<Longrightarrow> 0 \<le> fl x"
  using fl_pos [of x] by (cases "x = 0") auto

lemma fl_eq_0_iff [simp]: "fl x = 0 \<longleftrightarrow> x = 0"
  using fl_pos [of x] fl_pos [of "- x"] by (cases "x = 0"; cases "0 < x") (auto simp: fl_minus)

lemma fl_mono_pos:
  assumes "0 < x" and "x \<le> y"
  shows "fl x \<le> fl y"
proof (cases "flog2 x = flog2 y")
  case True
  define s where "s = 52 - flog2 y"
  have "x * 2 powi s \<le> y * 2 powi s" using assms(2) by (intro mult_right_mono) auto
  then have "round_even (x * 2 powi s) \<le> round_even (y * 2 powi s)" by (rule round_even_mono)
  then have "of_int (round_even (x * 2 powi s)) * (2::rat) powi (- s)
      \<le> of_int (round_even (y * 2 powi s)) * 2 powi (- s)"
    by (intro mult_right_mono) auto
  then show ?thesis using assms True by (simp add: fl_def s_def)
next
  case False
  with flog2_mono [OF assms] have "(2::rat) powi (flog2 x + 1) \<le> 2 powi flog2 y"
    by (intro powi_mono) simp
  with fl_binade(2) [of x] fl_binade(1) [of y] assms show ?thesis by linarith
qed

lemma fl_mono: "x \<le> y \<Longrightarrow> fl x \<le> fl y"
proof -
  assume le: "x \<le> y"
  consider "0 < x" | "x \<le> 0" "0 \<le> y" | "y < 0" by linarith
  then show ?thesis
  proof cases
    case 1
    then show ?thesis using le by (rule fl_mono_pos)
  next
    case 2
    then show ?thesis using fl_nonneg [of y] fl_nonneg [of "- x"] by (simp add: fl_minus)
  next
    case 3
    then show ?thesis using fl_mono_pos [of "- y" "- x"] le by (simp add: fl_minus)
  qed
qed

text \<open>Values with at most 53 significant bits are represented exactly.\<close>

lemma fl_exact_pos:
  assumes "0 < m" and "m < 2 ^ 53"
  shows "fl (of_int m * 2 powi k) = of_int m * 2 powi k"
proof -
  define x where "x = of_int m * (2::rat) powi k"
  have x: "0 < x" using assms(1) by (simp add: x_def)
  have "x < of_int (2 ^ 53) * 2 powi k"
    unfolding x_def using assms(2) by (intro mult_strict_right_mono) (auto simp only: of_int_less_iff powi_pos)
  also have "\<dots> = 2 powi 53 * 2 powi k" by simp
  also have "\<dots> = 2 powi (53 + k)" by (rule power_int_add [symmetric]) simp
  finally have "x < 2 powi (53 + k)" .
  with flog2_bounds(1) [OF x] have "(2::rat) powi flog2 x < 2 powi (53 + k)" by linarith
  then have e: "flog2 x < 53 + k"
    using powi_mono [of "53 + k" "flog2 x"] by (meson not_le)
  define s where "s = 52 - flog2 x"
  have ks: "0 \<le> k + s" using e by (simp add: s_def)
  have "x * 2 powi s = of_int m * (2 powi k * 2 powi s)" by (simp add: x_def)
  also have "(2::rat) powi k * 2 powi s = 2 powi (k + s)"
    by (rule power_int_add [symmetric]) simp
  also have "of_int m * (2::rat) powi (k + s) = of_int (m * 2 ^ nat (k + s))"
    using ks by (simp add: power_int_def)
  finally have n: "x * 2 powi s = of_int (m * 2 ^ nat (k + s))" .
  have "fl x = of_int (round_even (x * 2 powi s)) * 2 powi (- s)"
    using x by (simp add: fl_def s_def)
  also have "\<dots> = (x * 2 powi s) * 2 powi (- s)" unfolding n by (simp only: round_even_of_int)
  also have "\<dots> = x * (2 powi s * 2 powi (- s))" by (simp only: mult.assoc)
  also have "(2::rat) powi s * 2 powi (- s) = 2 powi (s + - s)"
    by (rule power_int_add [symmetric]) simp
  finally show ?thesis by (simp add: x_def)
qed

lemma fl_exact:
  assumes "\<bar>m\<bar> < 2 ^ 53"
  shows "fl (of_int m * 2 powi k) = of_int m * 2 powi k"
proof -
  consider "m = 0" | "0 < m" | "m < 0" by linarith
  then show ?thesis
  proof cases
    case 1
    then show ?thesis by simp
  next
    case 2
    then show ?thesis using assms by (intro fl_exact_pos) auto
  next
    case 3
    have "fl (of_int (- m) * 2 powi k) = of_int (- m) * 2 powi k"
      using assms 3 by (intro fl_exact_pos) auto
    then show ?thesis by (simp add: fl_minus)
  qed
qed

lemma fl_of_int: "\<bar>m\<bar> < 2 ^ 53 \<Longrightarrow> fl (of_int m) = of_int m"
  using fl_exact [of m 0] by simp

text \<open>A rounded value is a number: rounding it again changes nothing.\<close>

lemma fl_fl [simp]: "fl (fl x) = fl x"
proof -
  have pos: "fl (fl y) = fl y" if y: "0 < y" for y
  proof -
    define s where "s = 52 - flog2 y"
    define m where "m = round_even (y * 2 powi s)"
    have F: "fl y = of_int m * 2 powi (- s)"
      using y by (simp add: fl_def s_def m_def)
    have e: "(2::rat) powi (flog2 y + 1) = of_int (2 ^ 53) * 2 powi (- s)"
    proof -
      have "of_int (2 ^ 53) * (2::rat) powi (- s) = 2 powi 53 * 2 powi (- s)" by simp
      also have "\<dots> = 2 powi (53 + - s)" by (rule power_int_add [symmetric]) simp
      also have "53 + - s = flog2 y + 1" by (simp add: s_def)
      finally show ?thesis by simp
    qed
    have "of_int m * (2::rat) powi (- s) \<le> of_int (2 ^ 53) * 2 powi (- s)"
      using fl_binade(2) [OF y] unfolding F e .
    then have "(of_int m :: rat) \<le> of_int (2 ^ 53)"
      by (rule mult_right_le_imp_le) simp
    then have m: "m \<le> 2 ^ 53" by (simp only: of_int_le_iff)
    have m0: "0 \<le> m"
      using fl_pos [OF y] powi_pos [of "- s"] unfolding F zero_less_mult_iff by auto
    show ?thesis
    proof (cases "m = 2 ^ 53")
      case True
      have "fl (of_int 1 * 2 powi (flog2 y + 1)) = of_int 1 * 2 powi (flog2 y + 1)"
        by (rule fl_exact) simp
      then show ?thesis unfolding F True e [symmetric] by simp
    next
      case False
      with m m0 show ?thesis unfolding F by (intro fl_exact) auto
    qed
  qed
  show ?thesis
    using pos [of x] pos [of "- x"] by (cases "x = 0"; cases "0 < x") (auto simp: fl_minus)
qed

text \<open>The relative error of one rounding.\<close>

lemma fl_error_ulp:
  assumes "0 < x"
  shows "\<bar>fl x - x\<bar> \<le> 2 powi (flog2 x) / 2 ^ 53"
proof -
  define s where "s = 52 - flog2 x"
  define y where "y = x * (2::rat) powi s"
  have inv: "(2::rat) powi s * 2 powi (- s) = 1"
    by (subst power_int_add [symmetric]) auto
  then have xy: "x = y * 2 powi (- s)" by (simp add: y_def mult.assoc)
  have "fl x = of_int (round_even y) * 2 powi (- s)"
    using assms by (simp add: fl_def s_def y_def)
  then have "fl x - x = (of_int (round_even y) - y) * 2 powi (- s)"
    using xy by (simp add: left_diff_distrib)
  then have "\<bar>fl x - x\<bar> = \<bar>of_int (round_even y) - y\<bar> * 2 powi (- s)"
    by (simp add: abs_mult)
  also have "\<dots> \<le> 1 / 2 * 2 powi (- s)"
    by (intro mult_right_mono round_even_close) auto
  also have "\<dots> = 2 powi (flog2 x) / 2 ^ 53"
  proof -
    have "(2::rat) powi (- s) * 2 ^ 52 = 2 powi (- s) * 2 powi 52" by simp
    also have "\<dots> = 2 powi (- s + 52)" by (rule power_int_add [symmetric]) simp
    also have "- s + 52 = flog2 x" by (simp add: s_def)
    finally show ?thesis by simp
  qed
  finally show ?thesis .
qed

lemma fl_error:
  assumes "0 < x"
  shows "\<bar>fl x - x\<bar> \<le> x / 2 ^ 53"
proof -
  have "2 powi (flog2 x) / 2 ^ 53 \<le> x / 2 ^ 53"
    using flog2_bounds(1) [OF assms] by (intro divide_right_mono) auto
  then show ?thesis using fl_error_ulp [OF assms] by linarith
qed

text \<open>Below 1 the spacing halves, and so does the error.\<close>

lemma fl_error_lt_1:
  assumes "0 \<le> x" and "x < 1"
  shows "\<bar>fl x - x\<bar> \<le> 1 / 2 ^ 54"
proof (cases "x = 0")
  case False
  with assms have x: "0 < x" by simp
  have "flog2 x < 0"
  proof (rule ccontr)
    assume "\<not> flog2 x < 0"
    then have "(2::rat) powi 0 \<le> 2 powi flog2 x" by (intro powi_mono) simp
    with flog2_bounds(1) [OF x] assms(2) show False by simp
  qed
  then have "(2::rat) powi flog2 x \<le> 2 powi (- 1)" by (intro powi_mono) simp
  then have "(2::rat) powi flog2 x \<le> 1 / 2" by (simp add: power_int_minus)
  then show ?thesis using fl_error_ulp [OF x] by simp
qed simp

section \<open>The operations of the source\<close>

definition jadd :: "jsnum \<Rightarrow> jsnum \<Rightarrow> jsnum" where "jadd x y = fl (x + y)"
definition jsub :: "jsnum \<Rightarrow> jsnum \<Rightarrow> jsnum" where "jsub x y = fl (x - y)"
definition jmul :: "jsnum \<Rightarrow> jsnum \<Rightarrow> jsnum" where "jmul x y = fl (x * y)"
definition jdiv :: "jsnum \<Rightarrow> jsnum \<Rightarrow> jsnum" where "jdiv x y = fl (x / y)"

text \<open>
  \<open>Math.round\<close> rounds ties up; \<open>Math.floor\<close> and \<open>Math.ceil\<close> are exact. A decimal literal
  of the source is the nearest representable value.
\<close>

definition js_round :: "jsnum \<Rightarrow> int" where "js_round x = \<lfloor>x + 1 / 2\<rfloor>"

definition js_floor :: "jsnum \<Rightarrow> jsnum" where "js_floor x = of_int \<lfloor>x\<rfloor>"

definition js_ceil :: "jsnum \<Rightarrow> jsnum" where "js_ceil x = of_int \<lceil>x\<rceil>"

lemma js_round_mono: "x \<le> y \<Longrightarrow> js_round x \<le> js_round y"
  by (simp add: js_round_def floor_mono)

lemma js_round_nonneg: "0 \<le> x \<Longrightarrow> 0 \<le> js_round x"
  by (simp add: js_round_def)

lemma jops_fl [simp]:
  "fl (jadd x y) = jadd x y" "fl (jsub x y) = jsub x y"
  "fl (jmul x y) = jmul x y" "fl (jdiv x y) = jdiv x y"
  by (simp_all add: jadd_def jsub_def jmul_def jdiv_def)

text \<open>A rational that a program variable can hold.\<close>

definition representable :: "rat \<Rightarrow> bool" where
  "representable x \<longleftrightarrow> fl x = x"

lemma representable_of_int: "\<bar>m\<bar> < 2 ^ 53 \<Longrightarrow> representable (of_int m)"
  by (simp add: representable_def fl_of_int)

lemma jadd_ge: "representable x \<Longrightarrow> 0 \<le> y \<Longrightarrow> x \<le> jadd x y"
  using fl_mono [of x "x + y"] by (simp add: jadd_def representable_def)

lemma jdiv_le_1: "0 < y \<Longrightarrow> x \<le> y \<Longrightarrow> jdiv x y \<le> 1"
  using fl_mono [of "x / y" 1] fl_of_int [of 1] by (simp add: jdiv_def)

text \<open>A number of hundredths survives the division by 100 and the multiplication back.\<close>

lemma hundredths_roundtrip:
  assumes "0 \<le> k" and "k < 2 ^ 50"
  shows "js_round (jmul (jdiv (of_int k) 100) 100) = k"
proof (cases "k = 0")
  case True
  then show ?thesis by (simp add: jdiv_def jmul_def js_round_def floor_eq_iff)
next
  case False
  define r where "r = (of_int k :: rat)"
  have "r < of_int (2 ^ 50)" unfolding r_def using assms(2) by (simp only: of_int_less_iff)
  moreover have "0 < r" unfolding r_def using assms(1) False by simp
  ultimately have r: "0 < r" "r < 2 ^ 50" by simp_all
  define m where "m = fl (r / 100)"
  have m: "\<bar>m - r / 100\<bar> \<le> r / 100 / 2 ^ 53" unfolding m_def by (rule fl_error) (use r in simp)
  define p where "p = m * 100"
  have p: "\<bar>p - r\<bar> \<le> r / 2 ^ 53" using m unfolding p_def by (simp add: abs_le_iff) (simp add: field_simps)
  have p0: "0 < p" unfolding p_def m_def using fl_pos [of "r / 100"] r by simp
  have q: "\<bar>fl p - p\<bar> \<le> p / 2 ^ 53" by (rule fl_error [OF p0])
  have p2: "p \<le> 2 * r"
  proof -
    have "r / 2 ^ 53 \<le> r" using r by simp
    then show ?thesis using p by linarith
  qed
  have "r / 2 ^ 53 < 1 / 8" "p / 2 ^ 53 < 1 / 4" using r p2 by auto
  then have "\<bar>fl p - r\<bar> < 1 / 2" using p q by linarith
  then have "\<lfloor>fl p + 1 / 2\<rfloor> = k"
    unfolding r_def by (intro floor_unique) linarith+
  then show ?thesis by (simp add: jmul_def jdiv_def js_round_def p_def m_def r_def)
qed

end
