(* ===== verification/RngCore.thy ===== *)
theory RngCore
  imports JsNum "HOL-Library.Word"
begin

text \<open>
  The provably-fair primitives of \<^verbatim>\<open>packages/rng-core/src/index.ts\<close>. The two functions of
  the runtime's \<^verbatim>\<open>node:crypto\<close> module that the code relies on, SHA-256 and HMAC-SHA256,
  are parameters (\<open>sha256\<close>, \<open>hmac\<close>) that return a 256-bit word; what the code does with
  their output, the lower-case hexadecimal digest string and the reading of digits back
  out of it, is modelled in full.
\<close>

section \<open>Errors of the game packages\<close>

datatype game_error =
    NonceNotNatural jsnum
  | WeightsNotPositive jsnum jsnum
  | HouseEdgeOutOfRange jsnum
  | MaxMultiplierTooSmall jsnum
  | DigestNotHex

type_synonym digest = "256 word"
type_synonym hmac_fun = "string \<Rightarrow> string \<Rightarrow> digest"
type_synonym sha_fun = "string \<Rightarrow> digest"

section \<open>Hexadecimal\<close>

definition hex_char :: "int \<Rightarrow> char" where
  "hex_char n = (if n < 10 then char_of (48 + nat n) else char_of (87 + nat n))"

definition hex_val :: "char \<Rightarrow> int option" where
  "hex_val c =
     (let n = int (of_char c) in
      if 48 \<le> n \<and> n \<le> 57 then Some (n - 48)
      else if 97 \<le> n \<and> n \<le> 102 then Some (n - 87)
      else if 65 \<le> n \<and> n \<le> 70 then Some (n - 55)
      else None)"

text \<open>The \<open>n\<close> low hexadecimal digits of a value, most significant first.\<close>

fun hex_digits :: "nat \<Rightarrow> int \<Rightarrow> string" where
  "hex_digits 0 v = []"
| "hex_digits (Suc n) v = hex_digits n (v div 16) @ [hex_char (v mod 16)]"

text \<open>\<open>digest('hex')\<close> of a 256-bit value: 64 lower-case digits.\<close>

definition digest_hex :: "digest \<Rightarrow> string" where
  "digest_hex w = hex_digits 64 (uint w)"

text \<open>
  Reading digits: \<open>parseInt(s, 16)\<close> takes the longest prefix of digits and gives
  \<open>NaN\<close> (here \<open>None\<close>) when there is none; \<open>BigInt('0x' + s)\<close> wants every character to be
  a digit. The strings read here are slices of a digest, so neither a sign nor
  a \<open>0x\<close> prefix nor white space can occur in them.
\<close>

fun hex_fold :: "int \<Rightarrow> string \<Rightarrow> int" where
  "hex_fold a [] = a"
| "hex_fold a (c # cs) = (case hex_val c of None \<Rightarrow> a | Some d \<Rightarrow> hex_fold (16 * a + d) cs)"

definition is_hex :: "char \<Rightarrow> bool" where
  "is_hex c \<longleftrightarrow> hex_val c \<noteq> None"

definition parseInt16 :: "string \<Rightarrow> int option" where
  "parseInt16 s = (if s = [] \<or> \<not> is_hex (hd s) then None else Some (hex_fold 0 s))"

definition bigInt16 :: "string \<Rightarrow> int option" where
  "bigInt16 s = (if s = [] \<or> \<not> list_all is_hex s then None else Some (hex_fold 0 s))"

text \<open>\<open>Buffer.from(s, 'hex')\<close>: bytes up to the first pair that is not two digits.\<close>

fun hex_bytes :: "string \<Rightarrow> int list" where
  "hex_bytes (a # b # cs) =
     (case (hex_val a, hex_val b) of (Some x, Some y) \<Rightarrow> (16 * x + y) # hex_bytes cs | _ \<Rightarrow> [])"
| "hex_bytes _ = []"

section \<open>Decimal\<close>

text \<open>\<open>Number.prototype.toString\<close> and \<open>BigInt.prototype.toString\<close> on integers.\<close>

fun dec_digits :: "nat \<Rightarrow> string" where
  "dec_digits n = (if n < 10 then [char_of (48 + n)]
                   else dec_digits (n div 10) @ [char_of (48 + n mod 10)])"

declare dec_digits.simps [simp del]

definition show_int :: "int \<Rightarrow> string" where
  "show_int i = (if i < 0 then CHR ''-'' # dec_digits (nat (- i)) else dec_digits (nat i))"

section \<open>Operations\<close>

record seed_pair =
  sp_serverSeed :: string
  sp_serverSeedHash :: string

record rng_context =
  rc_serverSeed :: string
  rc_clientSeed :: string
  rc_nonce :: jsnum

text \<open>The random bytes drawn by the runtime are the argument \<open>random\<close>, already in hexadecimal.\<close>

definition generateSeedPair :: "sha_fun \<Rightarrow> string \<Rightarrow> seed_pair" where
  "generateSeedPair sha256 random =
     \<lparr>sp_serverSeed = random, sp_serverSeedHash = digest_hex (sha256 random)\<rparr>"

definition generateClientSeed :: "string \<Rightarrow> string" where
  "generateClientSeed random = random"

definition verifyServerSeed :: "sha_fun \<Rightarrow> string \<Rightarrow> string \<Rightarrow> bool" where
  "verifyServerSeed sha256 serverSeed expectedHash =
     (let a = hex_bytes (digest_hex (sha256 serverSeed)); b = hex_bytes expectedHash
      in length a = length b \<and> a = b)"

definition is_integer :: "jsnum \<Rightarrow> bool" where
  "is_integer x \<longleftrightarrow> of_int \<lfloor>x\<rfloor> = x"

definition round_message :: "rng_context \<Rightarrow> string" where
  "round_message ctx = rc_clientSeed ctx @ '':'' @ show_int \<lfloor>rc_nonce ctx\<rfloor>"

definition roundHmac :: "hmac_fun \<Rightarrow> rng_context \<Rightarrow> game_error + string" where
  "roundHmac hmac ctx =
     (if \<not> is_integer (rc_nonce ctx) \<or> rc_nonce ctx < 0
      then Inl (NonceNotNatural (rc_nonce ctx))
      else Inr (digest_hex (hmac (rc_serverSeed ctx) (round_message ctx))))"

definition uint32At :: "string \<Rightarrow> nat \<Rightarrow> int option" where
  "uint32At hmacHex hexOffset = parseInt16 (str_slice hexOffset (hexOffset + 8) hmacHex)"

section \<open>Hexadecimal digits: lemmas\<close>

lemma hex_val_char [simp]: "0 \<le> n \<Longrightarrow> n < 16 \<Longrightarrow> hex_val (hex_char n) = Some n"
  by (auto simp: hex_val_def hex_char_def of_char_of Let_def)

lemma is_hex_char [simp]: "0 \<le> n \<Longrightarrow> n < 16 \<Longrightarrow> is_hex (hex_char n)"
  by (simp add: is_hex_def)

lemma length_hex_digits [simp]: "length (hex_digits n v) = n"
  by (induction n arbitrary: v) auto

lemma hex_digits_all: "list_all is_hex (hex_digits n v)"
  by (induction n arbitrary: v) auto

lemma hex_fold_append:
  "list_all is_hex s \<Longrightarrow> hex_fold a (s @ t) = hex_fold (hex_fold a s) t"
  by (induction a s rule: hex_fold.induct) (auto simp: is_hex_def)

lemma hex_fold_digits: "hex_fold a (hex_digits n v) = a * 16 ^ n + v mod 16 ^ n"
proof (induction n arbitrary: a v)
  case 0
  then show ?case by simp
next
  case (Suc n)
  have "v mod (16 * 16 ^ n) = 16 * (v div 16 mod 16 ^ n) + v mod 16"
    by (rule zmod_zmult2_eq) simp
  then show ?case
    by (simp add: hex_fold_append hex_digits_all Suc)
qed

lemma take_hex_digits: "k \<le> n \<Longrightarrow> take k (hex_digits n v) = hex_digits k (v div 16 ^ (n - k))"
proof (induction n arbitrary: v)
  case 0
  then show ?case by simp
next
  case (Suc n)
  show ?case
  proof (cases "k = Suc n")
    case True
    then show ?thesis by simp
  next
    case False
    with Suc.prems have k: "k \<le> n" by simp
    then have "Suc n - k = Suc (n - k)" by simp
    then show ?thesis using k by (simp add: Suc.IH zdiv_zmult2_eq)
  qed
qed

lemma drop_hex_digits: "k \<le> n \<Longrightarrow> drop k (hex_digits n v) = hex_digits (n - k) v"
proof (induction n arbitrary: v)
  case 0
  then show ?case by simp
next
  case (Suc n)
  show ?case
  proof (cases "k = Suc n")
    case True
    then show ?thesis by simp
  next
    case False
    with Suc.prems have "k \<le> n" by simp
    then show ?thesis by (simp add: Suc.IH Suc_diff_le)
  qed
qed

lemma slice_hex_digits:
  assumes "i \<le> j" and "j \<le> n"
  shows "str_slice i j (hex_digits n v) = hex_digits (j - i) (v div 16 ^ (n - j))"
proof -
  have "n - i - (j - i) = n - j" using assms by simp
  then show ?thesis using assms
    by (simp add: str_slice_def drop_hex_digits take_hex_digits)
qed

lemma parseInt16_digits: "0 < n \<Longrightarrow> parseInt16 (hex_digits n v) = Some (v mod 16 ^ n)"
proof -
  assume n: "0 < n"
  have "hex_digits n v \<noteq> []" using n by (metis length_hex_digits length_0_conv not_gr0)
  moreover from this have "is_hex (hd (hex_digits n v))"
    using hex_digits_all [of n v] by (cases "hex_digits n v") auto
  ultimately show ?thesis by (simp add: parseInt16_def hex_fold_digits)
qed

lemma bigInt16_digits: "0 < n \<Longrightarrow> bigInt16 (hex_digits n v) = Some (v mod 16 ^ n)"
  by (auto simp: bigInt16_def hex_fold_digits hex_digits_all simp flip: length_0_conv)

text \<open>The 32-bit reads of a digest are the corresponding bit fields of the digest word.\<close>

lemma uint32At_digest:
  assumes "off + 8 \<le> 64"
  shows "uint32At (digest_hex w) off = Some (uint w div 16 ^ (56 - off) mod 2 ^ 32)"
proof -
  have "64 - (off + 8) = 56 - off" by simp
  then show ?thesis using assms
    by (simp add: uint32At_def digest_hex_def slice_hex_digits parseInt16_digits)
qed

lemma bits52_digest: "bigInt16 (str_slice 0 13 (digest_hex w)) = Some (uint w div 16 ^ 51 mod 2 ^ 52)"
  by (simp add: digest_hex_def slice_hex_digits bigInt16_digits)

text \<open>Decoding a digest string gives its bytes back: two digests agree iff their strings do.\<close>

lemma hex_bytes_inj:
  assumes "list_all is_hex s" and "list_all is_hex t"
    and "\<forall>c \<in> set s \<union> set t. \<not> (65 \<le> (of_char c :: nat) \<and> of_char c \<le> (70 :: nat))"
    and "even (length s)" and "even (length t)" and "hex_bytes s = hex_bytes t"
  shows "s = t"
  using assms
proof (induction s arbitrary: t rule: hex_bytes.induct)
  case (1 a b cs)
  then obtain x y where xy: "hex_val a = Some x" "hex_val b = Some y"
    by (auto simp: is_hex_def)
  from "1.prems" xy obtain a' b' ds where t: "t = a' # b' # ds"
    by (cases t rule: hex_bytes.cases) (auto simp: is_hex_def)
  from "1.prems" t obtain x' y' where xy': "hex_val a' = Some x'" "hex_val b' = Some y'"
    by (auto simp: is_hex_def)
  have digit: "0 \<le> d \<and> d < 16" if "hex_val c = Some d" for c d
    using that by (auto simp: hex_val_def Let_def split: if_splits)
  have inj: "c = c'" if "hex_val c = Some d" "hex_val c' = Some d"
      "\<not> (65 \<le> (of_char c :: nat) \<and> of_char c \<le> (70 :: nat))"
      "\<not> (65 \<le> (of_char c' :: nat) \<and> of_char c' \<le> (70 :: nat))" for c c' d
  proof -
    have "(of_char c :: nat) = of_char c'"
      using that by (auto simp: hex_val_def Let_def split: if_splits)
    then show ?thesis by (simp add: of_char_eq_iff)
  qed
  from "1.prems"(6) t xy xy' have eq: "16 * x + y = 16 * x' + y'" and rest: "hex_bytes cs = hex_bytes ds"
    by auto
  from eq digit [OF xy(1)] digit [OF xy(2)] digit [OF xy'(1)] digit [OF xy'(2)]
  have x: "x = x'" by linarith
  with eq have "y = y'" by simp
  note x this
  with inj xy xy' "1.prems"(3) t have "a = a'" "b = b'" by auto
  moreover have "cs = ds"
    using "1.IH" xy rest "1.prems" t by auto
  ultimately show ?case using t by simp
next
  case "2_1"
  then show ?case by (cases t rule: hex_bytes.cases) (auto simp: is_hex_def)
next
  case "2_2"
  then show ?case by simp
qed

lemma hex_char_lower: "0 \<le> n \<Longrightarrow> n < 16 \<Longrightarrow> \<not> (65 \<le> (of_char (hex_char n) :: nat) \<and> of_char (hex_char n) \<le> (70 :: nat))"
  by (auto simp: hex_char_def of_char_of)

lemma hex_digits_lower: "c \<in> set (hex_digits n v) \<Longrightarrow> \<not> (65 \<le> (of_char c :: nat) \<and> of_char c \<le> (70 :: nat))"
proof (induction n arbitrary: v)
  case 0
  then show ?case by simp
next
  case (Suc n)
  then show ?case using hex_char_lower [of "v mod 16"] by auto
qed

lemma digest_hex_inj: "digest_hex v = digest_hex w \<Longrightarrow> v = w"
proof -
  assume "digest_hex v = digest_hex w"
  then have "hex_fold 0 (digest_hex v) = hex_fold 0 (digest_hex w)" by simp
  moreover have "uint x mod 16 ^ 64 = uint x" for x :: digest
    using uint_lt2p [of x] by simp
  ultimately show ?thesis by (simp add: digest_hex_def hex_fold_digits word_uint_eq_iff)
qed

lemma digest_bytes_inj: "hex_bytes (digest_hex v) = hex_bytes (digest_hex w) \<Longrightarrow> v = w"
proof -
  assume e: "hex_bytes (digest_hex v) = hex_bytes (digest_hex w)"
  have "list_all is_hex (digest_hex x)" "even (length (digest_hex x))" for x
    by (simp_all add: digest_hex_def hex_digits_all)
  with e have "digest_hex v = digest_hex w"
    using hex_digits_lower by (intro hex_bytes_inj) (auto simp: digest_hex_def)
  then show ?thesis by (rule digest_hex_inj)
qed

lemma hex_bytes_range: "b \<in> set (hex_bytes s) \<Longrightarrow> 0 \<le> b \<and> b < 256"
proof (induction s rule: hex_bytes.induct)
  case (1 x y cs)
  have d: "0 \<le> d \<and> d < 16" if "hex_val c = Some d" for c d
    using that by (auto simp: hex_val_def Let_def split: if_splits)
  have "0 \<le> 16 * p + q \<and> 16 * p + q < 256" if "hex_val x = Some p" "hex_val y = Some q" for p q
    using d [OF that(1)] d [OF that(2)] by linarith
  with 1 show ?case by (auto split: option.splits)
qed auto

section \<open>Commit and reveal\<close>

text \<open>
  A published commitment, the hexadecimal digest of the seed, is verified by exactly the
  seeds with that digest.
\<close>

lemma verifyServerSeed_iff:
  "verifyServerSeed sha s (digest_hex d) \<longleftrightarrow> sha s = d"
  by (auto simp: verifyServerSeed_def Let_def dest: digest_bytes_inj)

end
