(* ===== verification/Json.thy ===== *)
theory Json
  imports RngCore "HOL-Library.Char_ord" "HOL-Library.List_Lexorder"
begin

text \<open>
  Values of the source language as they reach validators and serialisers, the ISO-8601
  rendering of an instant, and the canonical JSON encoder. The encoder exists twice in
  the repository, in \<^verbatim>\<open>apps/rgs-server/src/services/AuditChain.ts\<close> (which hashes it) and in
  \<^verbatim>\<open>packages/webhook-spec/src/index.ts\<close> (which signs it); both are modelled.
  The rendering of a number as a string is the parameter \<open>numstr\<close>.
\<close>

datatype json =
    JUndefined
  | JNull
  | JBool bool
  | JNum jsnum
  | JBig int
  | JStr string
  | JDate msec
  | JArr "json list"
  | JObj "(string \<times> json) list"

section \<open>Property access\<close>

text \<open>\<open>o.k\<close>: undefined when the property is absent or the value is not an object.\<close>

definition get_prop :: "json \<Rightarrow> string \<Rightarrow> json" where
  "get_prop v k = (case v of JObj kvs \<Rightarrow> (case map_of kvs k of None \<Rightarrow> JUndefined | Some x \<Rightarrow> x)
                   | _ \<Rightarrow> JUndefined)"

text \<open>An object without keys outside a list (a strict schema rejects the others).\<close>

definition only_keys :: "string list \<Rightarrow> json \<Rightarrow> bool" where
  "only_keys ks v = (case v of JObj kvs \<Rightarrow> list_all (\<lambda>kv. fst kv \<in> set ks) kvs | _ \<Rightarrow> False)"

section \<open>Instants\<close>

text \<open>
  The calendar date of a day number (days since 1 January 1970), by counting in
  400-year eras that begin on 1 March.
\<close>

definition civil_from_days :: "int \<Rightarrow> int \<times> int \<times> int" where
  "civil_from_days days =
     (let z = days + 719468;
          era = z div 146097;
          doe = z mod 146097;
          yoe = (doe - doe div 1460 + doe div 36524 - doe div 146096) div 365;
          doy = doe - (365 * yoe + yoe div 4 - yoe div 100);
          mp = (5 * doy + 2) div 153;
          d = doy - (153 * mp + 2) div 5 + 1;
          m = (if mp < 10 then mp + 3 else mp - 9);
          y = yoe + era * 400 + (if m \<le> 2 then 1 else 0)
      in (y, m, d))"

definition pad_int :: "nat \<Rightarrow> int \<Rightarrow> string" where
  "pad_int n i = (let s = show_int i in replicate (n - length s) (CHR ''0'') @ s)"

definition iso_day :: "msec \<Rightarrow> string" where
  "iso_day t = (let (y, m, d) = civil_from_days (t div DAY_MS)
                in pad_int 4 y @ ''-'' @ pad_int 2 m @ ''-'' @ pad_int 2 d)"

definition toISOString :: "msec \<Rightarrow> string" where
  "toISOString t =
     (let r = t mod DAY_MS
      in iso_day t @ ''T'' @ pad_int 2 (r div 3600000) @ '':'' @
         pad_int 2 (r div 60000 mod 60) @ '':'' @ pad_int 2 (r div 1000 mod 60) @ ''.'' @
         pad_int 3 (r mod 1000) @ ''Z'')"

section \<open>JSON text\<close>

definition quote_char :: "char \<Rightarrow> string" where
  "quote_char c =
     (let n = (of_char c :: nat) in
      if n = 34 then [char_of (92 :: nat), c]
      else if n = 92 then [c, c]
      else if n = 8 then [char_of (92 :: nat), CHR ''b'']
      else if n = 9 then [char_of (92 :: nat), CHR ''t'']
      else if n = 10 then [char_of (92 :: nat), CHR ''n'']
      else if n = 12 then [char_of (92 :: nat), CHR ''f'']
      else if n = 13 then [char_of (92 :: nat), CHR ''r'']
      else if n < 32 then char_of (92 :: nat) # ''u00'' @ hex_digits 2 (int n)
      else [c])"

definition DQ :: char where "DQ = char_of (34 :: nat)"

text \<open>\<open>JSON.stringify\<close> of a string.\<close>

definition quote_string :: "string \<Rightarrow> string" where
  "quote_string s = DQ # concat (map quote_char s) @ [DQ]"

fun join_comma :: "string list \<Rightarrow> string" where
  "join_comma [] = []"
| "join_comma [s] = s"
| "join_comma (s # t # r) = s @ '','' @ join_comma (t # r)"

lemma size_json_list [termination_simp]: "x \<in> set xs \<Longrightarrow> size x < Suc (size_list size xs)"
  by (induction xs) auto

lemma size_json_obj [termination_simp]:
  "(k, v) \<in> set kvs \<Longrightarrow> size v < Suc (size_list (size_prod (\<lambda>x. 0) size) kvs)"
  by (induction kvs) auto

fun canonicalJson :: "(jsnum \<Rightarrow> string) \<Rightarrow> json \<Rightarrow> string" where
  "canonicalJson numstr JUndefined = ''null''"
| "canonicalJson numstr JNull = ''null''"
| "canonicalJson numstr (JBig i) = DQ # show_int i @ [DQ]"
| "canonicalJson numstr (JDate t) = DQ # toISOString t @ [DQ]"
| "canonicalJson numstr (JArr vs) = ''['' @ join_comma (map (\<lambda>v. canonicalJson numstr v) vs) @ '']''"
| "canonicalJson numstr (JObj kvs) =
     (let entries = sort_key fst (filter (\<lambda>kv. snd kv \<noteq> JUndefined) kvs)
      in ''{'' @ join_comma (map (\<lambda>(k, v). quote_string k @ '':'' @ canonicalJson numstr v) entries) @ ''}'')"
| "canonicalJson numstr (JBool b) = (if b then ''true'' else ''false'')"
| "canonicalJson numstr (JNum x) = numstr x"
| "canonicalJson numstr (JStr s) = quote_string s"

text \<open>The copy of the encoder that \<^verbatim>\<open>packages/webhook-spec\<close> ships to operators.\<close>

fun webhookCanonicalJson :: "(jsnum \<Rightarrow> string) \<Rightarrow> json \<Rightarrow> string" where
  "webhookCanonicalJson numstr JUndefined = ''null''"
| "webhookCanonicalJson numstr JNull = ''null''"
| "webhookCanonicalJson numstr (JBig i) = DQ # show_int i @ [DQ]"
| "webhookCanonicalJson numstr (JDate t) = DQ # toISOString t @ [DQ]"
| "webhookCanonicalJson numstr (JArr vs) =
     ''['' @ join_comma (map (\<lambda>v. webhookCanonicalJson numstr v) vs) @ '']''"
| "webhookCanonicalJson numstr (JObj kvs) =
     (let entries = sort_key fst (filter (\<lambda>kv. snd kv \<noteq> JUndefined) kvs)
      in ''{'' @ join_comma (map (\<lambda>(k, v). quote_string k @ '':'' @ webhookCanonicalJson numstr v) entries)
         @ ''}'')"
| "webhookCanonicalJson numstr (JBool b) = (if b then ''true'' else ''false'')"
| "webhookCanonicalJson numstr (JNum x) = numstr x"
| "webhookCanonicalJson numstr (JStr s) = quote_string s"

section \<open>Facts\<close>

lemma filter_key_single:
  "distinct (map k zs) \<Longrightarrow> x \<in> set zs \<Longrightarrow> filter (\<lambda>y. k x = k y) zs = [x]"
proof (induction zs)
  case (Cons z zs)
  show ?case
  proof (cases "x = z")
    case True
    with Cons.prems have "\<forall>y \<in> set zs. k x \<noteq> k y" by auto
    with True show ?thesis by (simp add: filter_empty_conv)
  next
    case False
    with Cons.prems have m: "x \<in> set zs" by simp
    then have "k x \<in> k ` set zs" by (rule imageI)
    with Cons.prems have "k x \<noteq> k z" by auto
    with m Cons show ?thesis by simp
  qed
qed simp

lemma sort_key_perm:
  assumes "mset xs = mset ys" and "distinct (map k xs)"
  shows "sort_key k xs = sort_key k ys"
proof (rule properties_for_sort_key)
  show "mset (sort_key k ys) = mset xs" using assms by simp
  show "sorted (map k (sort_key k ys))" by simp
next
  have "mset (map k (sort_key k ys)) = mset (map k xs)" using assms(1) by simp
  then have d: "distinct (map k (sort_key k ys))"
    using assms(2) by (metis mset_eq_imp_distinct_iff)
  fix x assume x: "x \<in> set (sort_key k ys)"
  then have "x \<in> set xs" using assms(1) by (auto dest: mset_eq_setD)
  then show "filter (\<lambda>y. k x = k y) (sort_key k ys) = filter (\<lambda>y. k x = k y) xs"
    using filter_key_single [OF d x] filter_key_single [OF assms(2)] by simp
qed

lemma canonicalJson_key_order:
  assumes "mset kvs = mset kvs'" and "distinct (map fst kvs)"
  shows "canonicalJson numstr (JObj kvs) = canonicalJson numstr (JObj kvs')"
proof -
  have "mset (filter p kvs) = mset (filter p kvs')" for p
    using assms(1) by (metis mset_filter)
  moreover have "distinct (map fst (filter p kvs))" for p
    using assms(2) by (auto simp: distinct_map intro: inj_on_subset)
  ultimately have "sort_key fst (filter (\<lambda>kv. snd kv \<noteq> JUndefined) kvs)
      = sort_key fst (filter (\<lambda>kv. snd kv \<noteq> JUndefined) kvs')"
    by (intro sort_key_perm) auto
  then show ?thesis by simp
qed

lemma webhook_canonical_eq: "webhookCanonicalJson numstr v = canonicalJson numstr v"
proof (induction v rule: canonicalJson.induct [of _ numstr])
  case (5 numstr vs)
  then show ?case by (auto intro!: arg_cong [of _ _ join_comma])
next
  case (6 numstr kvs)
  then show ?case by (auto simp: Let_def intro!: arg_cong [of _ _ join_comma])
qed auto

end
