(* ===== verification/GameContract.thy ===== *)
theory GameContract
  imports Json
begin

text \<open>
  The plugin contract of \<^verbatim>\<open>packages/game-contract/src/index.ts\<close>: outcomes, selections,
  settlement results, the record of operations a game provides, and, as locales, what the
  engine relies on. \<open>MultiEventOutcome\<close> has no producer in the repository and is left out
  of the outcome type.
\<close>

section \<open>Data\<close>

datatype side = LOW | HIGH

datatype slot = SlotA | SlotB

datatype game_outcome =
    DiceOutcome (diceValues: "int list") (outcomeSum: int) (outcomeSide: side)
  | CrashOutcome (crashMultiplier: jsnum) (crashU: jsnum)

text \<open>A selection that has passed the \<open>selectionSchema\<close> of its game.\<close>

datatype bet_selection =
    DiceSelection side
  | CrashSelection jsnum
  | LempiSelection slot "jsnum option"

datatype win_meta =
    DiceMeta side
  | CrashMeta jsnum jsnum
  | LempiAutoMeta slot jsnum jsnum
  | LempiManualMeta slot jsnum

record settlement_result =
  sr_won :: bool
  sr_payoutMicro :: micro
  sr_winMeta :: "win_meta option"

definition lost :: settlement_result where
  "lost = \<lparr>sr_won = False, sr_payoutMicro = 0, sr_winMeta = None\<rparr>"

text \<open>The math configuration of each game after its \<open>configSchema\<close>.\<close>

record lempi_config =
  lc_houseEdge :: jsnum
  lc_maxMultiplier :: jsnum
  lc_growthRate :: jsnum
  lc_minFlightMs :: jsnum
  lc_maxFlightMs :: jsnum
  lc_botCashouts :: bool

datatype game_config =
    DiceConfig jsnum jsnum
  | CrashConfig jsnum jsnum
  | LempiConfig lempi_config

record wire_outcome =
  wo_outcomeType :: string
  wo_outcome :: game_outcome

section \<open>The plugin record\<close>

record live_crash =
  lv_multiplierAtElapsedMs :: "jsnum \<Rightarrow> game_config \<Rightarrow> jsnum"
  lv_elapsedMsForMultiplier :: "jsnum \<Rightarrow> game_config \<Rightarrow> jsnum"
  lv_slotId :: "bet_selection \<Rightarrow> slot option"
  lv_autoCashoutMultiplier :: "bet_selection \<Rightarrow> jsnum option"
  lv_settleCashout :: "bet_selection \<Rightarrow> micro \<Rightarrow> jsnum \<Rightarrow> micro \<Rightarrow> settlement_result"

record game_plugin =
  gp_gameCode :: string
  gp_rngVersion :: string
  gp_selectionSchema :: "json \<Rightarrow> bet_selection option"
  gp_configSchema :: "json \<Rightarrow> game_config option"
  gp_defaultConfig :: game_config
  gp_sampleSelection :: bet_selection
  gp_computeOutcome :: "rng_context \<Rightarrow> game_config \<Rightarrow> game_error + game_outcome"
  gp_verifyOutcome :: "rng_context \<Rightarrow> game_config \<Rightarrow> game_outcome \<Rightarrow> game_error + bool"
  gp_settleBet :: "bet_selection \<Rightarrow> micro \<Rightarrow> game_outcome \<Rightarrow> game_config \<Rightarrow> micro \<Rightarrow> settlement_result"
  gp_outcomeForWire :: "game_outcome \<Rightarrow> wire_outcome"
  gp_liveCrash :: "live_crash option"

section \<open>Money\<close>

text \<open>
  Every game deducts a flat commission from the gross payout and never pays a negative
  amount: \<open>gross > commission ? gross - commission : 0\<close>.
\<close>

definition net_payout :: "micro \<Rightarrow> micro \<Rightarrow> micro" where
  "net_payout gross commissionMicro = (if commissionMicro < gross then gross - commissionMicro else 0)"

lemma net_payout_nonneg [simp]: "0 \<le> net_payout g c"
  by (simp add: net_payout_def)

lemma net_payout_le: "0 \<le> g \<Longrightarrow> 0 \<le> c \<Longrightarrow> net_payout g c \<le> g"
  by (simp add: net_payout_def)

lemma net_payout_mono: "g \<le> h \<Longrightarrow> net_payout g c \<le> net_payout h c"
  by (simp add: net_payout_def)

text \<open>
  Division of non-negative \<open>bigint\<close>s truncates, which is \<open>div\<close> on these operands; the
  dividend here is a product of a stake and a positive number of hundredths.
\<close>

definition bigint_div :: "int \<Rightarrow> int \<Rightarrow> int" where
  "bigint_div a b = sgn a * sgn b * (\<bar>a\<bar> div \<bar>b\<bar>)"

lemma bigint_div_nonneg: "0 \<le> a \<Longrightarrow> 0 < b \<Longrightarrow> bigint_div a b = a div b"
  by (cases "a = 0") (simp_all add: bigint_div_def)

section \<open>Interfaces\<close>

text \<open>
  What the engine relies on when it settles a bet: a lost bet pays nothing, a payout is
  never negative and never exceeds what the game's table allows for the stake and the
  outcome.
\<close>

locale settlement_rules =
  fixes settle :: "'s \<Rightarrow> micro \<Rightarrow> 'o \<Rightarrow> micro \<Rightarrow> settlement_result"
    and cap :: "'s \<Rightarrow> micro \<Rightarrow> 'o \<Rightarrow> micro"
    and legal :: "'s \<Rightarrow> 'o \<Rightarrow> bool"
  assumes lost_pays_nothing: "\<not> sr_won (settle s a out c) \<Longrightarrow> sr_payoutMicro (settle s a out c) = 0"
    and payout_nonneg: "0 \<le> sr_payoutMicro (settle s a out c)"
    and payout_capped: "legal s out \<Longrightarrow> 0 \<le> a \<Longrightarrow> 0 \<le> c \<Longrightarrow>
          sr_payoutMicro (settle s a out c) \<le> cap s a out"
begin

text \<open>The liability of a round: the payouts of a list of bets under one outcome.\<close>

lemma round_liability:
  assumes "\<And>b. b \<in> set bets \<Longrightarrow> legal (fst b) out \<and> 0 \<le> snd b" and "0 \<le> c"
  shows "0 \<le> sum_by (\<lambda>(s, a). sr_payoutMicro (settle s a out c)) bets"
    and "sum_by (\<lambda>(s, a). sr_payoutMicro (settle s a out c)) bets
         \<le> sum_by (\<lambda>(s, a). cap s a out) bets"
proof -
  show "0 \<le> sum_by (\<lambda>(s, a). sr_payoutMicro (settle s a out c)) bets"
    by (rule sum_by_nonneg) (auto simp: payout_nonneg)
  show "sum_by (\<lambda>(s, a). sr_payoutMicro (settle s a out c)) bets
        \<le> sum_by (\<lambda>(s, a). cap s a out) bets"
    using assms by (intro sum_by_mono) (auto intro!: payout_capped)
qed

end

text \<open>
  What a verifier relies on: recomputing an outcome from the revealed seeds accepts the
  outcome that was played, and accepts nothing that differs from it.
\<close>

locale provably_fair =
  fixes compute :: "rng_context \<Rightarrow> 'c \<Rightarrow> game_error + 'o"
    and verify :: "rng_context \<Rightarrow> 'c \<Rightarrow> 'o \<Rightarrow> game_error + bool"
    and agrees :: "'o \<Rightarrow> 'o \<Rightarrow> bool"
  assumes verify_def: "verify ctx cfg claimed =
      (case compute ctx cfg of Inl e \<Rightarrow> Inl e | Inr out \<Rightarrow> Inr (agrees out claimed))"
    and agrees_refl: "agrees out out"
begin

lemma verify_complete: "compute ctx cfg = Inr out \<Longrightarrow> verify ctx cfg out = Inr True"
  by (simp add: verify_def agrees_refl)

lemma verify_sound:
  "verify ctx cfg claimed = Inr True \<Longrightarrow> \<exists>out. compute ctx cfg = Inr out \<and> agrees out claimed"
  by (auto simp: verify_def split: sum.splits)

lemma verify_fails_iff: "(\<exists>e. verify ctx cfg claimed = Inl e) \<longleftrightarrow> (\<exists>e. compute ctx cfg = Inl e)"
  by (auto simp: verify_def split: sum.splits)

end

end
