(* ===== verification/WalletSpec.thy ===== *)
theory WalletSpec
  imports Json
begin

text \<open>
  The shared wallet contract of \<^verbatim>\<open>packages/wallet-spec/src/index.ts\<close> and its mirror in
  \<^verbatim>\<open>apps/rgs-server/src/wallet/types.ts\<close>: status codes and their classification, request
  and response records, the decimal money conversions, the HMAC request signature and its
  verification. The runtime functions the file uses (\<open>BigInt\<close> of a string, base64) are
  modelled on strings of characters below 256.
\<close>

section \<open>Reading integers\<close>

definition js_space :: "char \<Rightarrow> bool" where
  "js_space c = ((of_char c :: nat) \<in> {9, 10, 11, 12, 13, 32, 160})"

definition js_trim :: "string \<Rightarrow> string" where
  "js_trim s = rev (dropWhile js_space (rev (dropWhile js_space s)))"

text \<open>The value of a digit string in a base; \<open>None\<close> on a character that is no digit.\<close>

fun base_fold :: "int \<Rightarrow> int \<Rightarrow> string \<Rightarrow> int option" where
  "base_fold b a [] = Some a"
| "base_fold b a (c # cs) =
     (case hex_val c of None \<Rightarrow> None
      | Some d \<Rightarrow> if d < b then base_fold b (b * a + d) cs else None)"

definition read_base :: "int \<Rightarrow> string \<Rightarrow> int option" where
  "read_base b s = (if s = [] then None else base_fold b 0 s)"

text \<open>\<open>BigInt(s)\<close>: \<open>None\<close> is the SyntaxError.\<close>

definition js_BigInt :: "string \<Rightarrow> int option" where
  "js_BigInt s =
     (let t = js_trim s in
      if t = [] then Some 0
      else if take 2 t \<in> {''0x'', ''0X''} then read_base 16 (drop 2 t)
      else if take 2 t \<in> {''0o'', ''0O''} then read_base 8 (drop 2 t)
      else if take 2 t \<in> {''0b'', ''0B''} then read_base 2 (drop 2 t)
      else if hd t = CHR ''-'' then map_option uminus (read_base 10 (tl t))
      else if hd t = CHR ''+'' then read_base 10 (tl t)
      else read_base 10 t)"

definition is_dec :: "char \<Rightarrow> bool" where
  "is_dec c \<longleftrightarrow> (of_char c :: nat) \<in> {48..57}"

lemma is_dec_char [simp]: "n < 10 \<Longrightarrow> is_dec (char_of (48 + n))" for n :: nat
  by (simp add: is_dec_def of_char_of)

lemma hex_val_dec [simp]: "n < 10 \<Longrightarrow> hex_val (char_of (48 + n)) = Some (int n)" for n :: nat
  by (simp add: hex_val_def of_char_of)

lemma is_dec_hex_val: "is_dec c \<Longrightarrow> \<exists>d. hex_val c = Some d \<and> 0 \<le> d \<and> d < 10"
  by (auto simp: is_dec_def hex_val_def Let_def)

lemma dec_digits_is_dec: "list_all is_dec (dec_digits n)"
proof (induction n rule: dec_digits.induct)
  case (1 n)
  then show ?case by (subst dec_digits.simps) auto
qed

lemma dec_digits_not_Nil [simp]: "dec_digits n \<noteq> []"
  by (subst dec_digits.simps) auto

lemma base_fold_append:
  "base_fold b a (s @ t) = (case base_fold b a s of None \<Rightarrow> None | Some x \<Rightarrow> base_fold b x t)"
  by (induction s arbitrary: a) (auto split: option.splits)

lemma base_fold_dec_digits_0: "base_fold 10 0 (dec_digits n) = Some (int n)"
proof (induction n rule: dec_digits.induct)
  case (1 n)
  show ?case
  proof (cases "n < 10")
    case True
    then show ?thesis by (subst dec_digits.simps) simp
  next
    case False
    have "base_fold 10 (int (n div 10)) [char_of (48 + n mod 10)] = Some (10 * int (n div 10) + int (n mod 10))"
      by simp
    also have "10 * int (n div 10) + int (n mod 10) = int n" by presburger
    finally show ?thesis using 1 [OF False] False
      by (subst dec_digits.simps) (simp add: base_fold_append)
  qed
qed

lemma base_fold_zeros: "base_fold 10 0 (replicate k (CHR ''0'') @ s) = base_fold 10 0 s"
  by (induction k) (simp_all add: hex_val_def)

lemma is_dec_not_space: "is_dec c \<Longrightarrow> \<not> js_space c"
  by (auto simp: is_dec_def js_space_def)

lemma js_trim_noop: "s \<noteq> [] \<Longrightarrow> \<not> js_space (hd s) \<Longrightarrow> \<not> js_space (last s) \<Longrightarrow> js_trim s = s"
  by (simp add: js_trim_def dropWhile_eq_self_iff [THEN iffD2] hd_rev)

lemma second_is_dec:
  assumes "list_all is_dec s"
  shows "take 2 s \<notin> {''0x'', ''0X''}" "take 2 s \<notin> {''0o'', ''0O''}" "take 2 s \<notin> {''0b'', ''0B''}"
  using assms by (cases s; cases "tl s"; force simp: is_dec_def)+

lemma js_BigInt_decimal:
  assumes "list_all is_dec s" "s \<noteq> []"
  shows "js_BigInt s = base_fold 10 0 s" and "js_BigInt (CHR ''-'' # s) = map_option uminus (base_fold 10 0 s)"
proof -
  have d: "is_dec (hd s)" "is_dec (last s)"
    using assms by (auto simp: list_all_iff)
  have t: "js_trim s = s" using assms d by (intro js_trim_noop) (auto dest: is_dec_not_space)
  have "hd s \<noteq> CHR ''-''" "hd s \<noteq> CHR ''+''" using d by (auto simp: is_dec_def)
  then show "js_BigInt s = base_fold 10 0 s"
    unfolding js_BigInt_def t Let_def using second_is_dec [OF assms(1)] assms(2)
    by (simp add: read_base_def)
  have t': "js_trim (CHR ''-'' # s) = CHR ''-'' # s"
    using assms d by (intro js_trim_noop) (auto dest: is_dec_not_space simp: js_space_def)
  have "take 2 (CHR ''-'' # s) \<notin> {''0x'', ''0X''}" "take 2 (CHR ''-'' # s) \<notin> {''0o'', ''0O''}"
    "take 2 (CHR ''-'' # s) \<notin> {''0b'', ''0B''}" by (cases s; simp)+
  then show "js_BigInt (CHR ''-'' # s) = map_option uminus (base_fold 10 0 s)"
    unfolding js_BigInt_def t' Let_def using assms(2) by (simp add: read_base_def)
qed

text \<open>Amounts cross the wire as decimal strings and come back unchanged.\<close>

lemma js_BigInt_show_int [simp]: "js_BigInt (show_int i) = Some i"
proof (cases "i < 0")
  case True
  then show ?thesis
    by (simp add: show_int_def js_BigInt_decimal dec_digits_is_dec base_fold_dec_digits_0)
next
  case False
  then show ?thesis
    by (simp add: show_int_def js_BigInt_decimal dec_digits_is_dec base_fold_dec_digits_0)
qed

section \<open>Money\<close>

definition MICRO_PER_UNIT :: micro where
  "MICRO_PER_UNIT = 100000"

definition pad_start :: "nat \<Rightarrow> string \<Rightarrow> string" where
  "pad_start n s = replicate (n - length s) (CHR ''0'') @ s"

text \<open>\<open>value.split('.')\<close>: the first part, and the second or its default.\<close>

definition int_part :: "string \<Rightarrow> string" where
  "int_part v = takeWhile (\<lambda>c. c \<noteq> CHR ''.'') v"

definition frac_part :: "string \<Rightarrow> string" where
  "frac_part v = takeWhile (\<lambda>c. c \<noteq> CHR ''.'') (tl (dropWhile (\<lambda>c. c \<noteq> CHR ''.'') v))"

text \<open>\<open>toMicro\<close> of a string; \<open>None\<close> is the SyntaxError of \<open>BigInt\<close>. And of a number.\<close>

definition toMicro :: "string \<Rightarrow> micro option" where
  "toMicro v =
     (let frac = take 5 (frac_part v @ ''00000'')
      in case (js_BigInt (if int_part v = [] then ''0'' else int_part v), js_BigInt frac) of
           (Some i, Some f) \<Rightarrow> Some (i * MICRO_PER_UNIT + f)
         | _ \<Rightarrow> None)"

definition toMicro_number :: "jsnum \<Rightarrow> micro" where
  "toMicro_number v = js_round (jmul v (of_int MICRO_PER_UNIT))"

definition strip_zeros :: "string \<Rightarrow> string" where
  "strip_zeros s = rev (dropWhile (\<lambda>c. c = CHR ''0'') (rev s))"

definition fromMicro :: "micro \<Rightarrow> string" where
  "fromMicro m =
     (let neg = m < 0;
          a = (if neg then - m else m);
          intPart = a div MICRO_PER_UNIT;
          fracPart = strip_zeros (pad_start 5 (show_int (a mod MICRO_PER_UNIT)));
          s = (if 0 < length fracPart then show_int intPart @ ''.'' @ fracPart else show_int intPart)
      in if neg then CHR ''-'' # s else s)"

lemma not_dec_dot [simp]: "\<not> is_dec (CHR ''.'')"
  by (simp add: is_dec_def)

lemma dec_no_dot: "list_all is_dec s \<Longrightarrow> CHR ''.'' \<notin> set s"
  using not_dec_dot by (auto simp only: list_all_iff)

lemma dropWhile_dec: "list_all is_dec s \<Longrightarrow> dropWhile (\<lambda>c. c \<noteq> CHR ''.'') (s @ CHR ''.'' # t) = CHR ''.'' # t"
  by (induction s) auto

lemma takeWhile_dec_all: "list_all is_dec s \<Longrightarrow> takeWhile (\<lambda>c. c \<noteq> CHR ''.'') s = s"
  by (rule takeWhile_eq_all_conv [THEN iffD2]) (metis dec_no_dot)

lemma takeWhile_dec: "list_all is_dec s \<Longrightarrow> takeWhile (\<lambda>c. c \<noteq> CHR ''.'') (s @ CHR ''.'' # t) = s"
  by (subst takeWhile_tail) (simp_all only: takeWhile_dec_all not_True_eq_False not_False_eq_True)

lemma dropWhile_dec_all: "list_all is_dec s \<Longrightarrow> dropWhile (\<lambda>c. c \<noteq> CHR ''.'') s = []"
  by (rule dropWhile_eq_Nil_conv [THEN iffD2]) (metis dec_no_dot)

lemma strip_zeros_pad: "\<exists>k. s = strip_zeros s @ replicate k (CHR ''0'')"
proof -
  let ?p = "\<lambda>c. c = CHR ''0''"
  have "rev s = takeWhile ?p (rev s) @ dropWhile ?p (rev s)" by simp
  then have "s = rev (dropWhile ?p (rev s)) @ rev (takeWhile ?p (rev s))"
    by (metis rev_append rev_rev_ident)
  moreover have "rev (takeWhile ?p (rev s)) = replicate (length (takeWhile ?p (rev s))) (CHR ''0'')"
    by (rule replicate_eqI [symmetric, THEN sym]) (auto dest: set_takeWhileD)
  ultimately show ?thesis unfolding strip_zeros_def by metis
qed

text \<open>Padding the stripped fraction with five zeros and cutting gives the five digits back.\<close>

lemma take_strip_zeros: "length s = 5 \<Longrightarrow> take 5 (strip_zeros s @ ''00000'') = s"
proof -
  assume l: "length s = 5"
  obtain k where k: "s = strip_zeros s @ replicate k (CHR ''0'')" using strip_zeros_pad by blast
  have len: "length (strip_zeros s) + k = 5" using k l by (metis length_append length_replicate)
  have "''00000'' = replicate 5 (CHR ''0'')" by (simp add: numeral_eq_Suc)
  then have "take 5 (strip_zeros s @ ''00000'') = strip_zeros s @ replicate k (CHR ''0'')"
    using len by auto
  then show ?thesis using k by simp
qed

lemma length_dec_digits: "n < 10 ^ k \<Longrightarrow> 0 < k \<Longrightarrow> length (dec_digits n) \<le> k"
proof (induction k arbitrary: n)
  case 0
  then show ?case by simp
next
  case (Suc k)
  show ?case
  proof (cases "n < 10")
    case True
    then show ?thesis by (subst dec_digits.simps) simp
  next
    case False
    then have "0 < k" using Suc.prems by (cases k) auto
    moreover have "n div 10 < 10 ^ k" using Suc.prems by (simp add: less_mult_imp_div_less)
    ultimately have "length (dec_digits (n div 10)) \<le> k" using Suc.IH by simp
    then show ?thesis using False by (subst dec_digits.simps) simp
  qed
qed

definition micro_fraction :: "int \<Rightarrow> string" where
  "micro_fraction r = pad_start 5 (show_int r)"

lemma micro_fraction_props:
  assumes "0 \<le> r" "r < 100000"
  shows "length (micro_fraction r) = 5" "list_all is_dec (micro_fraction r)"
    and "js_BigInt (micro_fraction r) = Some r"
proof -
  have s: "show_int r = dec_digits (nat r)" using assms by (simp add: show_int_def)
  have "length (dec_digits (nat r)) \<le> 5" using assms by (intro length_dec_digits) auto
  then show len: "length (micro_fraction r) = 5" by (simp add: micro_fraction_def pad_start_def s)
  have "is_dec (CHR ''0'')" by (simp add: is_dec_def)
  then show dec: "list_all is_dec (micro_fraction r)"
    by (auto simp: micro_fraction_def pad_start_def s dec_digits_is_dec list_all_iff
        dec_digits_is_dec [unfolded list_all_iff, rule_format])
  have "micro_fraction r \<noteq> []" using len by auto
  then show "js_BigInt (micro_fraction r) = Some r"
    using assms dec by (simp add: js_BigInt_decimal micro_fraction_def pad_start_def s
        base_fold_zeros base_fold_dec_digits_0)
qed

lemma list_all_strip_zeros: "list_all P s \<Longrightarrow> list_all P (strip_zeros s)"
  by (auto simp: strip_zeros_def list_all_iff dest: set_dropWhileD)

text \<open>
  Reading back what \<open>fromMicro\<close> writes. For a negative amount the sign is applied to the
  integer part only, so the fraction is added where it should be subtracted.
\<close>

lemma toMicro_parts:
  assumes d: "list_all is_dec p" "p \<noteq> []" and r: "0 \<le> r" "r < 100000"
    and b: "js_BigInt p' = Some i" and p': "p' = p \<or> p' = CHR ''-'' # p"
    and f: "f = strip_zeros (micro_fraction r)"
  shows "toMicro (if 0 < length f then p' @ ''.'' @ f else p') = Some (i * 100000 + r)"
proof -
  note m = micro_fraction_props [OF r]
  have fd: "list_all is_dec f" using m f by (simp add: list_all_strip_zeros)
  have frac: "take 5 (f @ ''00000'') = micro_fraction r" 
    unfolding f by (rule take_strip_zeros) (rule m(1))
  have p'ne: "p' \<noteq> []" using d p' by auto
  show ?thesis
  proof (cases "0 < length f")
    case True
    have "int_part (p' @ ''.'' @ f) = p'" using d p' takeWhile_dec [OF d(1), of f]
      by (auto simp: int_part_def)
    moreover have "frac_part (p' @ ''.'' @ f) = f" using d p' dropWhile_dec [OF d(1), of f] fd
      by (auto simp: frac_part_def takeWhile_dec_all)
    ultimately show ?thesis using True frac b m p'ne
      by (simp add: toMicro_def MICRO_PER_UNIT_def del: append.simps append_Cons)
  next
    case False
    then have "f = []" by simp
    have "int_part p' = p'" using p' takeWhile_dec_all [OF d(1)] by (elim disjE) (simp_all add: int_part_def)
    moreover have "frac_part p' = []" using p'
      by (elim disjE) (simp_all add: frac_part_def dropWhile_dec_all [OF d(1)])
    ultimately show ?thesis using \<open>f = []\<close> frac b m p'ne
      by (simp add: toMicro_def MICRO_PER_UNIT_def)
  qed
qed

lemma toMicro_fromMicro_aux:
  "toMicro (fromMicro m) = Some (if m < 0 then m + 2 * (- m mod 100000) else m)"
proof -
  let ?a = "\<bar>m\<bar>"
  let ?p = "dec_digits (nat (?a div 100000))"
  have r: "0 \<le> ?a mod 100000" "?a mod 100000 < 100000" by simp_all
  have p: "list_all is_dec ?p" "?p \<noteq> []" by (simp_all add: dec_digits_is_dec)
  have sp: "show_int (?a div 100000) = ?p" by (simp add: show_int_def not_less pos_imp_zdiv_nonneg_iff)
  have bp: "js_BigInt ?p = Some (?a div 100000)" "js_BigInt (CHR ''-'' # ?p) = Some (- (?a div 100000))"
    using js_BigInt_decimal [OF p] by (simp_all add: base_fold_dec_digits_0 pos_imp_zdiv_nonneg_iff)
  show ?thesis
  proof (cases "m < 0")
    case True
    have "fromMicro m = (let f = strip_zeros (micro_fraction (?a mod 100000)) in
        if 0 < length f then (CHR ''-'' # ?p) @ ''.'' @ f else CHR ''-'' # ?p)"
      using True sp by (simp add: fromMicro_def MICRO_PER_UNIT_def micro_fraction_def Let_def)
    then have "toMicro (fromMicro m) = Some (- (?a div 100000) * 100000 + ?a mod 100000)"
      using toMicro_parts [OF p r bp(2) _ refl] by (simp add: Let_def)
    moreover have "- (?a div 100000) * 100000 + ?a mod 100000 = m + 2 * (- m mod 100000)"
      using True minus_div_mult_eq_mod [of "- m" 100000] by simp
    ultimately show ?thesis using True by simp
  next
    case False
    have "fromMicro m = (let f = strip_zeros (micro_fraction (?a mod 100000)) in
        if 0 < length f then ?p @ ''.'' @ f else ?p)"
      using False sp by (simp add: fromMicro_def MICRO_PER_UNIT_def micro_fraction_def Let_def)
    then have "toMicro (fromMicro m) = Some ((?a div 100000) * 100000 + ?a mod 100000)"
      using toMicro_parts [OF p r bp(1) _ refl] by (simp add: Let_def)
    then show ?thesis using False by simp
  qed
qed

section \<open>Base64\<close>

definition b64_char :: "int \<Rightarrow> char" where
  "b64_char n =
     (if n < 26 then char_of (65 + nat n) else if n < 52 then char_of (71 + nat n)
      else if n < 62 then char_of (nat n - 4) else if n = 62 then CHR ''+'' else CHR ''/'')"

text \<open>The decoder also takes the two characters of the URL alphabet and skips everything else.\<close>

definition b64_val :: "char \<Rightarrow> int option" where
  "b64_val c =
     (let n = int (of_char c) in
      if 65 \<le> n \<and> n \<le> 90 then Some (n - 65)
      else if 97 \<le> n \<and> n \<le> 122 then Some (n - 71)
      else if 48 \<le> n \<and> n \<le> 57 then Some (n + 4)
      else if n = 43 \<or> n = 45 then Some 62
      else if n = 47 \<or> n = 95 then Some 63
      else None)"

fun b64_encode :: "int list \<Rightarrow> string" where
  "b64_encode (a # b # c # r) =
     b64_char (a div 4) # b64_char (a mod 4 * 16 + b div 16) #
     b64_char (b mod 16 * 4 + c div 64) # b64_char (c mod 64) # b64_encode r"
| "b64_encode [a, b] =
     [b64_char (a div 4), b64_char (a mod 4 * 16 + b div 16), b64_char (b mod 16 * 4), CHR ''='']"
| "b64_encode [a] = [b64_char (a div 4), b64_char (a mod 4 * 16), CHR ''='', CHR ''='']"
| "b64_encode [] = []"

fun b64_bytes :: "int list \<Rightarrow> int list" where
  "b64_bytes (p # q # r # s # t) =
     (p * 4 + q div 16) # (q mod 16 * 16 + r div 4) # (r mod 4 * 64 + s) # b64_bytes t"
| "b64_bytes [p, q, r] = [p * 4 + q div 16, q mod 16 * 16 + r div 4]"
| "b64_bytes [p, q] = [p * 4 + q div 16]"
| "b64_bytes _ = []"

definition b64_decode :: "string \<Rightarrow> int list" where
  "b64_decode s = b64_bytes (List.map_filter b64_val s)"

lemma b64_val_char: "0 \<le> n \<Longrightarrow> n < 64 \<Longrightarrow> b64_val (b64_char n) = Some n"
proof -
  assume n: "0 \<le> n" "n < 64"
  then consider "n < 26" | "26 \<le> n" "n < 52" | "52 \<le> n" "n < 62" | "n = 62" | "n = 63" by linarith
  then show ?thesis
  proof cases
    case 1
    then show ?thesis using n by (simp add: b64_char_def b64_val_def of_char_of)
  next
    case 2
    then show ?thesis using n by (simp add: b64_char_def b64_val_def of_char_of)
  next
    case 3
    then show ?thesis using n by (simp add: b64_char_def b64_val_def of_char_of)
  qed (simp_all add: b64_char_def b64_val_def)
qed

definition is_byte :: "int \<Rightarrow> bool" where
  "is_byte b \<longleftrightarrow> 0 \<le> b \<and> b < 256"

lemma byte_sextets:
  assumes "is_byte a" "is_byte b"
  shows "b64_val (b64_char (a div 4)) = Some (a div 4)"
    "b64_val (b64_char (a mod 4 * 16 + b div 16)) = Some (a mod 4 * 16 + b div 16)"
    "b64_val (b64_char (a mod 16 * 4 + b div 64)) = Some (a mod 16 * 4 + b div 64)"
    "b64_val (b64_char (a mod 4 * 16)) = Some (a mod 4 * 16)"
    "b64_val (b64_char (a mod 16 * 4)) = Some (a mod 16 * 4)"
    "b64_val (b64_char (a mod 64)) = Some (a mod 64)"
  using assms by (auto simp: is_byte_def intro!: b64_val_char)

lemma digit_split: "0 \<le> y \<Longrightarrow> y < k \<Longrightarrow> (x * k + y) div k = (x :: int)"
    "0 \<le> y \<Longrightarrow> y < k \<Longrightarrow> (x * k + y) mod k = (y :: int)"
  by simp_all

lemma byte_recombine:
  assumes "is_byte a" "is_byte b" "is_byte c"
  shows "a div 4 * 4 + (a mod 4 * 16 + b div 16) div 16 = a"
    "(a mod 4 * 16 + b div 16) mod 16 * 16 + (b mod 16 * 4 + c div 64) div 4 = b"
    "(a mod 4 * 16 + b div 16) mod 16 * 16 + b mod 16 = b"
    "(b mod 16 * 4 + c div 64) mod 4 * 64 + c mod 64 = c"
proof -
  have d: "0 \<le> b div 16" "b div 16 < 16" "0 \<le> c div 64" "c div 64 < 4"
    using assms by (simp_all add: is_byte_def pos_imp_zdiv_nonneg_iff zdiv_less)
  then show "a div 4 * 4 + (a mod 4 * 16 + b div 16) div 16 = a"
    "(a mod 4 * 16 + b div 16) mod 16 * 16 + (b mod 16 * 4 + c div 64) div 4 = b"
    "(a mod 4 * 16 + b div 16) mod 16 * 16 + b mod 16 = b"
    "(b mod 16 * 4 + c div 64) mod 4 * 64 + c mod 64 = c"
    by (simp_all only: digit_split div_mult_mod_eq)
qed

lemma b64_val_pad: "b64_val (CHR ''='') = None"
  by (simp add: b64_val_def)

lemma b64_roundtrip: "list_all is_byte bs \<Longrightarrow> b64_decode (b64_encode bs) = bs"
proof (induction bs rule: b64_encode.induct)
  case (1 a b c r)
  then have "is_byte a" "is_byte b" "is_byte c" by simp_all
  note s = byte_sextets [OF this(1,2)] byte_sextets [OF this(2,3)] byte_sextets [OF this(3,3)]
    and r = byte_recombine [OF this]
  have "b64_bytes (List.map_filter b64_val (b64_encode r)) = r" using 1 by (simp add: b64_decode_def)
  then show ?case
    by (simp only: b64_decode_def b64_encode.simps List.map_filter_simps s option.case b64_bytes.simps r)
next
  case (2 a b)
  then have "is_byte a" "is_byte b" by simp_all
  note s = byte_sextets [OF this] byte_sextets [OF this(2,2)] and r = byte_recombine [OF this this(2)]
  have "b mod 16 * 4 div 4 = b mod 16" by simp
  then show ?case
    by (simp only: b64_decode_def b64_encode.simps List.map_filter_simps s option.case b64_val_pad
        b64_bytes.simps r)
next
  case (3 a)
  then have "is_byte a" by simp
  note s = byte_sextets [OF this this]
  have "a mod 4 * 16 div 16 = a mod 4" by simp
  then show ?case
    by (simp only: b64_decode_def b64_encode.simps List.map_filter_simps s option.case b64_val_pad
        b64_bytes.simps div_mult_mod_eq)
qed (simp add: b64_decode_def)

section \<open>Signatures\<close>

definition digest_bytes :: "digest \<Rightarrow> int list" where
  "digest_bytes d = hex_bytes (digest_hex d)"

lemma digest_bytes_bytes: "list_all is_byte (digest_bytes d)"
  using hex_bytes_range by (auto simp: digest_bytes_def list_all_iff is_byte_def)

lemma digest_bytes_eq_iff [simp]: "digest_bytes d = digest_bytes e \<longleftrightarrow> d = e"
  using digest_bytes_inj by (auto simp: digest_bytes_def)

lemma length_digest_bytes [simp]: "length (digest_bytes d) = 32"
proof -
  have "list_all is_hex s \<Longrightarrow> even (length s) \<Longrightarrow> length (hex_bytes s) = length s div 2" for s
    by (induction s rule: hex_bytes.induct) (auto simp: is_hex_def)
  then show ?thesis by (simp add: digest_bytes_def digest_hex_def hex_digits_all)
qed

definition to_upper :: "char \<Rightarrow> char" where
  "to_upper c = (let n = (of_char c :: nat) in if 97 \<le> n \<and> n \<le> 122 then char_of (n - 32) else c)"

definition NL :: char where "NL = char_of (10 :: nat)"

text \<open>A timestamp header, or the number the signer passes.\<close>

datatype timestamp = TsNumber int | TsString string

fun ts_text :: "timestamp \<Rightarrow> string" where
  "ts_text (TsNumber i) = show_int i"
| "ts_text (TsString s) = s"

definition canonicalString :: "sha_fun \<Rightarrow> string \<Rightarrow> string \<Rightarrow> timestamp \<Rightarrow> string \<Rightarrow> string" where
  "canonicalString sha256 meth path ts body =
     map to_upper meth @ NL # path @ NL # ts_text ts @ NL # digest_hex (sha256 body)"

definition signPayload ::
    "sha_fun \<Rightarrow> hmac_fun \<Rightarrow> string \<Rightarrow> string \<Rightarrow> string \<Rightarrow> timestamp \<Rightarrow> string \<Rightarrow> string" where
  "signPayload sha256 hmac secret meth path ts body =
     b64_encode (digest_bytes (hmac secret (canonicalString sha256 meth path ts body)))"

text \<open>\<open>Number.parseInt(s, 10)\<close>: white space, a sign, the longest run of digits.\<close>

definition parseInt10 :: "string \<Rightarrow> int option" where
  "parseInt10 s =
     (let t = dropWhile js_space s;
          neg = (t \<noteq> [] \<and> hd t = CHR ''-'');
          u = (if t \<noteq> [] \<and> hd t \<in> {CHR ''-'', CHR ''+''} then tl t else t)
      in map_option (\<lambda>v. if neg then - v else v) (read_base 10 (takeWhile is_dec u)))"

fun ts_number :: "timestamp \<Rightarrow> int option" where
  "ts_number (TsNumber i) = Some i"
| "ts_number (TsString s) = parseInt10 s"

record verify_opts =
  vo_secret :: string
  vo_method :: string
  vo_path :: string
  vo_timestamp :: timestamp
  vo_body :: string
  vo_signature :: string
  vo_toleranceSeconds :: "int option"
  vo_nowSeconds :: int

definition verifyPayload :: "sha_fun \<Rightarrow> hmac_fun \<Rightarrow> verify_opts \<Rightarrow> bool" where
  "verifyPayload sha256 hmac opts =
     (case ts_number (vo_timestamp opts) of
        None \<Rightarrow> False
      | Some tsNum \<Rightarrow>
          if nullish (vo_toleranceSeconds opts) 30 < \<bar>vo_nowSeconds opts - tsNum\<bar> then False
          else let expected = signPayload sha256 hmac (vo_secret opts) (vo_method opts)
                     (vo_path opts) (vo_timestamp opts) (vo_body opts);
                   a = b64_decode expected;
                   b = b64_decode (vo_signature opts)
               in if length a = 0 \<or> length a \<noteq> length b then False else a = b)"

lemma sign_decode [simp]:
  "b64_decode (signPayload sha256 hmac secret m p ts body) =
   digest_bytes (hmac secret (canonicalString sha256 m p ts body))"
  by (simp add: signPayload_def b64_roundtrip digest_bytes_bytes)

lemma verifyPayload_iff:
  "verifyPayload sha256 hmac opts \<longleftrightarrow>
     (\<exists>t. ts_number (vo_timestamp opts) = Some t \<and>
          \<bar>vo_nowSeconds opts - t\<bar> \<le> nullish (vo_toleranceSeconds opts) 30) \<and>
     b64_decode (vo_signature opts) =
       digest_bytes (hmac (vo_secret opts)
         (canonicalString sha256 (vo_method opts) (vo_path opts) (vo_timestamp opts) (vo_body opts)))"
proof -
  have "length (digest_bytes d) \<noteq> length x \<Longrightarrow> x \<noteq> digest_bytes d" for d x by auto
  moreover have "digest_bytes d \<noteq> []" for d using length_digest_bytes [of d]
    by (metis list.size(3) zero_neq_numeral)
  ultimately show ?thesis
    by (auto simp: verifyPayload_def Let_def split: option.splits)
qed

lemma split_at_sep: "c \<notin> set a \<Longrightarrow> c \<notin> set b \<Longrightarrow> a @ c # x = b @ c # y \<longleftrightarrow> a = b \<and> x = y"
proof (induction a arbitrary: b)
  case Nil
  then show ?case by (cases b) auto
next
  case (Cons d a)
  then show ?case by (cases b) auto
qed

text \<open>The canonical string determines every signed field.\<close>

lemma canonicalString_inj:
  assumes "NL \<notin> set (map to_upper m)" "NL \<notin> set p" "NL \<notin> set (ts_text t)"
    and "NL \<notin> set (map to_upper m')" "NL \<notin> set p'" "NL \<notin> set (ts_text t')"
    and "canonicalString sha256 m p t b = canonicalString sha256 m' p' t' b'"
  shows "map to_upper m = map to_upper m'" "p = p'" "ts_text t = ts_text t'" "sha256 b = sha256 b'"
  using assms by (simp_all add: canonicalString_def split_at_sep) (auto dest: digest_hex_inj)

section \<open>Properties of the specification package\<close>

text \<open>Reading back a printed amount gives the amount, for every non-negative amount and
  for every negative amount that is a whole number of units; a negative amount with a
  fraction comes back off by twice its fraction, because the sign of the string is
  applied to the integer part only.\<close>

theorem money_roundtrip:
  "toMicro (fromMicro m) = Some (if m < 0 then m + 2 * (- m mod MICRO_PER_UNIT) else m)"
  by (simp add: toMicro_fromMicro_aux MICRO_PER_UNIT_def)

text \<open>C34. A signature made for one request and accepted for another within the replay window
  shows that method, path and timestamp are the signed ones and that the two bodies are
  equal or collide under SHA-256, unless the two canonical strings differ and collide
  under HMAC with the shared secret.\<close>

theorem signature_binds_request:
  assumes "verifyPayload sha256 hmac
      \<lparr>vo_secret = k, vo_method = m', vo_path = p', vo_timestamp = t', vo_body = b',
       vo_signature = signPayload sha256 hmac k m p t b,
       vo_toleranceSeconds = tol, vo_nowSeconds = now\<rparr>"
    and "NL \<notin> set (map to_upper m) \<union> set p \<union> set (ts_text t) \<union>
              set (map to_upper m') \<union> set p' \<union> set (ts_text t')"
  shows "(\<exists>s. ts_number t' = Some s \<and> \<bar>now - s\<bar> \<le> nullish tol 30) \<and>
     ((map to_upper m = map to_upper m' \<and> p = p' \<and> ts_text t = ts_text t' \<and>
         (b = b' \<or> b \<noteq> b' \<and> sha256 b = sha256 b')) \<or>
      (canonicalString sha256 m p t b \<noteq> canonicalString sha256 m' p' t' b' \<and>
       hmac k (canonicalString sha256 m p t b) = hmac k (canonicalString sha256 m' p' t' b')))"
proof -
  have "hmac k (canonicalString sha256 m p t b) = hmac k (canonicalString sha256 m' p' t' b')"
    using assms(1) by (simp add: verifyPayload_iff)
  moreover note canonicalString_inj [of m p t m' p' t' sha256 b b']
  ultimately show ?thesis
    using assms by (auto simp: verifyPayload_iff)
qed

theorem signature_binds_request_witness:
  "\<exists>s. ts_number (TsString ''1700000000'') = Some s \<and> \<bar>1700000010 - s\<bar> \<le> (30 :: int)"
  using signature_binds_request [of "\<lambda>_. 0" "\<lambda>_ _. 0" "''k''" "''post''" "''/wallet/bet''" "TsString ''1700000000''"
     "[]" "''POST''" "''/wallet/bet''" "TsString ''1700000000''" "[]" None 1700000010]
  by (simp add: verifyPayload_iff parseInt10_def read_base_def js_space_def is_dec_def hex_val_def
      NL_def to_upper_def canonicalString_def)

end
