(* ===== verification/WalletTypes.thy ===== *)
theory WalletTypes
  imports WalletSpec
begin

text \<open>
  The wallet interface of \<^verbatim>\<open>apps/rgs-server/src/wallet/types.ts\<close> and
  \<^verbatim>\<open>apps/rgs-server/src/wallet/WalletAdapter.ts\<close>: status codes and their two classifiers, the
  four requests, the response, and the rules every adapter has to honour, as locales that
  the adapters interpret.
\<close>

section \<open>Status codes\<close>

text \<open>\<open>RsOther\<close> is a status string outside the table, which an operator can return.\<close>

datatype rs_status =
    RsOK
  | RsUNKNOWN
  | RsINVALID_TOKEN
  | RsINVALID_SIGNATURE
  | RsINVALID_PARTNER
  | RsNOT_ENOUGH_MONEY
  | RsUSER_DISABLED
  | RsTOKEN_EXPIRED
  | RsWRONG_CURRENCY
  | RsWRONG_SYNTAX
  | RsWRONG_TYPES
  | RsDUPLICATE_TRANSACTION
  | RsTRANSACTION_NOT_FOUND
  | RsLIMIT_REACHED
  | RsTIMEOUT
  | RsOther string

definition rs_table :: "(rs_status \<times> string) list" where
  "rs_table =
     [(RsOK, ''RS_OK''), (RsUNKNOWN, ''RS_ERROR_UNKNOWN''),
      (RsINVALID_TOKEN, ''RS_ERROR_INVALID_TOKEN''),
      (RsINVALID_SIGNATURE, ''RS_ERROR_INVALID_SIGNATURE''),
      (RsINVALID_PARTNER, ''RS_ERROR_INVALID_PARTNER''),
      (RsNOT_ENOUGH_MONEY, ''RS_ERROR_NOT_ENOUGH_MONEY''),
      (RsUSER_DISABLED, ''RS_ERROR_USER_DISABLED''),
      (RsTOKEN_EXPIRED, ''RS_ERROR_TOKEN_EXPIRED''),
      (RsWRONG_CURRENCY, ''RS_ERROR_WRONG_CURRENCY''),
      (RsWRONG_SYNTAX, ''RS_ERROR_WRONG_SYNTAX''),
      (RsWRONG_TYPES, ''RS_ERROR_WRONG_TYPES''),
      (RsDUPLICATE_TRANSACTION, ''RS_ERROR_DUPLICATE_TRANSACTION''),
      (RsTRANSACTION_NOT_FOUND, ''RS_ERROR_TRANSACTION_DOES_NOT_EXIST''),
      (RsLIMIT_REACHED, ''RS_ERROR_LIMIT_REACHED''),
      (RsTIMEOUT, ''RS_ERROR_TIMEOUT'')]"

definition rs_string :: "rs_status \<Rightarrow> string" where
  "rs_string st = (case st of RsOther s \<Rightarrow> s
     | _ \<Rightarrow> (case map_of rs_table st of Some s \<Rightarrow> s | None \<Rightarrow> []))"

definition rs_of_string :: "string \<Rightarrow> rs_status" where
  "rs_of_string s = (case find (\<lambda>p. snd p = s) rs_table of Some p \<Rightarrow> fst p | None \<Rightarrow> RsOther s)"

lemma rs_string_of_string [simp]: "rs_string (rs_of_string s) = s"
  unfolding rs_of_string_def rs_table_def rs_string_def by simp

definition isRejectStatus :: "rs_status \<Rightarrow> bool" where
  "isRejectStatus s = (s \<in> {RsNOT_ENOUGH_MONEY, RsLIMIT_REACHED, RsUSER_DISABLED})"

definition isSuccessOrDuplicate :: "rs_status \<Rightarrow> bool" where
  "isSuccessOrDuplicate s = (s = RsOK \<or> s \<in> {RsDUPLICATE_TRANSACTION})"

lemma status_classes_disjoint: "isSuccessOrDuplicate s \<Longrightarrow> \<not> isRejectStatus s"
  by (auto simp: isRejectStatus_def isSuccessOrDuplicate_def)

section \<open>Requests and responses\<close>

record wallet_common =
  wq_requestUuid :: uuid
  wq_operatorId :: string
  wq_playerRef :: string
  wq_currency :: string
  wq_gameCode :: string

record bet_request = wallet_common +
  wb_transactionUuid :: uuid
  wb_amountMicro :: micro
  wb_roundId :: uuid
  wb_isFree :: "bool option"
  wb_meta :: "json option"

record win_request = wallet_common +
  ww_transactionUuid :: uuid
  ww_referenceTransactionUuid :: uuid
  ww_amountMicro :: micro
  ww_roundId :: uuid
  ww_meta :: "json option"

record rollback_request = wallet_common +
  wr_transactionUuid :: uuid
  wr_referenceTransactionUuid :: uuid
  wr_roundId :: "uuid option"
  wr_meta :: "json option"

record wallet_response =
  ws_status :: rs_status
  ws_requestUuid :: uuid
  ws_balanceMicro :: "micro option"
  ws_currency :: "string option"
  ws_message :: "string option"

text \<open>The four operations of an adapter as one type, so that a run is a list.\<close>

datatype wallet_op =
    WBalance wallet_common
  | WBet bet_request
  | WWin win_request
  | WRollback rollback_request

fun op_tx :: "wallet_op \<Rightarrow> uuid option" where
  "op_tx (WBalance r) = None"
| "op_tx (WBet r) = Some (wb_transactionUuid r)"
| "op_tx (WWin r) = Some (ww_transactionUuid r)"
| "op_tx (WRollback r) = Some (wr_transactionUuid r)"

text \<open>The transaction that an operation reverses.\<close>

fun op_reverses :: "wallet_op \<Rightarrow> uuid option" where
  "op_reverses (WRollback r) = Some (wr_referenceTransactionUuid r)"
| "op_reverses _ = None"

fun op_is_payment :: "wallet_op \<Rightarrow> bool" where
  "op_is_payment (WBet r) = True"
| "op_is_payment (WWin r) = True"
| "op_is_payment _ = False"

section \<open>The rules of the interface\<close>

text \<open>
  \<open>step\<close> serves one operation, \<open>funds\<close> is what a player holds, \<open>settled\<close> says that the
  adapter remembers a transaction. The laws: reading a balance moves nothing; a payment
  answered with success is remembered; what is remembered stays so until an operation
  reverses it; a payment whose transaction is remembered moves nothing.
\<close>

locale wallet_rules =
  fixes step :: "'s \<Rightarrow> wallet_op \<Rightarrow> wallet_response \<times> 's"
    and funds :: "'s \<Rightarrow> string \<Rightarrow> micro"
    and settled :: "'s \<Rightarrow> uuid \<Rightarrow> bool"
  assumes balance_reads: "funds (snd (step s (WBalance q))) p = funds s p"
    and success_settles: "op_is_payment oper \<Longrightarrow> op_tx oper = Some t \<Longrightarrow>
          ws_status (fst (step s oper)) = RsOK \<Longrightarrow> settled (snd (step s oper)) t"
    and settled_stays: "settled s t \<Longrightarrow> op_reverses oper \<noteq> Some t \<Longrightarrow> settled (snd (step s oper)) t"
    and settled_inert: "op_is_payment oper \<Longrightarrow> op_tx oper = Some t \<Longrightarrow> settled s t \<Longrightarrow>
          funds (snd (step s oper)) p = funds s p"
begin

primrec run :: "'s \<Rightarrow> wallet_op list \<Rightarrow> 's" where
  "run s [] = s"
| "run s (oper # ops) = run (snd (step s oper)) ops"

lemma run_settled:
  "settled s t \<Longrightarrow> list_all (\<lambda>oper. op_reverses oper \<noteq> Some t) ops \<Longrightarrow> settled (run s ops) t"
  by (induction ops arbitrary: s) (simp_all add: settled_stays)

text \<open>No double debit: however the adapter was used since a payment succeeded, short of
  reversing it, submitting its transaction again moves no money.\<close>

lemma no_double_payment:
  assumes "op_is_payment oper" "op_tx oper = Some t" "ws_status (fst (step s oper)) = RsOK"
    and "list_all (\<lambda>oper. op_reverses oper \<noteq> Some t) ops"
    and "op_is_payment again" "op_tx again = Some t"
  shows "funds (run s (oper # ops @ [again])) p = funds (run s (oper # ops)) p"
proof -
  have "settled (run s (oper # ops)) t"
    using run_settled [OF success_settles [OF assms(1-3)] assms(4)] by simp
  moreover have "run s (oper # ops @ [again]) = snd (step (run s (oper # ops)) again)"
    by (induction ops arbitrary: s oper) simp_all
  ultimately show ?thesis using settled_inert [OF assms(5,6)] by simp
qed

end

text \<open>
  The stronger contract of the interface's rule 1 (a transaction returns a consistent
  result across retries): a remembered transaction stays remembered even after it has
  been reversed.
\<close>

locale durable_wallet = wallet_rules +
  assumes settled_forever: "settled s t \<Longrightarrow> settled (snd (step s oper)) t"
begin

lemma run_settled_forever: "settled s t \<Longrightarrow> settled (run s ops) t"
  by (induction ops arbitrary: s) (simp_all add: settled_forever)

lemma never_twice:
  assumes "op_is_payment oper" "op_tx oper = Some t" "ws_status (fst (step s oper)) = RsOK"
    and "op_is_payment again" "op_tx again = Some t"
  shows "funds (run s (oper # ops @ [again])) p = funds (run s (oper # ops)) p"
proof -
  have "settled (run s (oper # ops)) t"
    using run_settled_forever [OF success_settles [OF assms(1-3)]] by simp
  moreover have "run s (oper # ops @ [again]) = snd (step (run s (oper # ops)) again)"
    by (induction ops arbitrary: s oper) simp_all
  ultimately show ?thesis using settled_inert [OF assms(4,5)] by simp
qed

end

end
