(* ===== verification/Jurisdiction.thy ===== *)
theory Jurisdiction
  imports JsNum Prelude
begin

text \<open>
  The regulatory ruleset of \<^verbatim>\<open>packages/jurisdiction-rules/src/index.ts\<close>: the profiles, the
  lookup, the check of a bet (\<open>checkJurisdictionRules\<close>) and the overlay of the operator's
  limits on the regulator's (\<open>effectiveRGFloor\<close>). The field \<open>sourceRefs\<close> of a profile is a
  list of citations that nothing reads; it is left out of the record.
\<close>

section \<open>Profiles\<close>

record jurisdiction_rules =
  jr_code :: string
  jr_label :: string
  jr_regulator :: string
  jr_maxStakeMicro :: "micro option"
  jr_minSpinMs :: msec
  jr_autoplayAllowed :: bool
  jr_turboAllowed :: bool
  jr_realityCheckIntervalMs :: msec
  jr_mustShowNetLoss :: bool
  jr_maxSessionTimeSec :: "jsnum option"
  jr_maxSessionLossMicro :: "micro option"
  jr_maxDailyLossMicro :: "micro option"
  jr_requiresSelfExclusionCheck :: bool
  jr_selfExclusionRegistry :: "string option"
  jr_allowedCurrencies :: "string list"
  jr_cryptoAllowed :: bool
  jr_demoAllowedWithoutKyc :: bool

definition UK :: jurisdiction_rules where
  "UK = \<lparr>jr_code = ''GB'', jr_label = ''United Kingdom'', jr_regulator = ''UKGC'',
     jr_maxStakeMicro = Some 200000, jr_minSpinMs = 2500,
     jr_autoplayAllowed = False, jr_turboAllowed = False,
     jr_realityCheckIntervalMs = 60 * 60000, jr_mustShowNetLoss = True,
     jr_maxSessionTimeSec = None, jr_maxSessionLossMicro = None, jr_maxDailyLossMicro = None,
     jr_requiresSelfExclusionCheck = True, jr_selfExclusionRegistry = Some ''GAMSTOP'',
     jr_allowedCurrencies = [''GBP''], jr_cryptoAllowed = False,
     jr_demoAllowedWithoutKyc = False\<rparr>"

definition DE :: jurisdiction_rules where
  "DE = \<lparr>jr_code = ''DE'', jr_label = ''Germany'', jr_regulator = ''GGL'',
     jr_maxStakeMicro = Some 100000, jr_minSpinMs = 5000,
     jr_autoplayAllowed = False, jr_turboAllowed = False,
     jr_realityCheckIntervalMs = 60 * 60000, jr_mustShowNetLoss = True,
     jr_maxSessionTimeSec = None, jr_maxSessionLossMicro = None, jr_maxDailyLossMicro = None,
     jr_requiresSelfExclusionCheck = True, jr_selfExclusionRegistry = Some ''OASIS'',
     jr_allowedCurrencies = [''EUR''], jr_cryptoAllowed = False,
     jr_demoAllowedWithoutKyc = True\<rparr>"

definition ES :: jurisdiction_rules where
  "ES = \<lparr>jr_code = ''ES'', jr_label = ''Spain'', jr_regulator = ''DGOJ'',
     jr_maxStakeMicro = None, jr_minSpinMs = 0,
     jr_autoplayAllowed = True, jr_turboAllowed = True,
     jr_realityCheckIntervalMs = 60 * 60000, jr_mustShowNetLoss = True,
     jr_maxSessionTimeSec = None, jr_maxSessionLossMicro = None, jr_maxDailyLossMicro = None,
     jr_requiresSelfExclusionCheck = True, jr_selfExclusionRegistry = Some ''RGIAJ'',
     jr_allowedCurrencies = [''EUR''], jr_cryptoAllowed = False,
     jr_demoAllowedWithoutKyc = True\<rparr>"

definition ON_CA :: jurisdiction_rules where
  "ON_CA = \<lparr>jr_code = ''ON-CA'', jr_label = ''Ontario, Canada'', jr_regulator = ''AGCO'',
     jr_maxStakeMicro = None, jr_minSpinMs = 2500,
     jr_autoplayAllowed = False, jr_turboAllowed = False,
     jr_realityCheckIntervalMs = 60 * 60000, jr_mustShowNetLoss = True,
     jr_maxSessionTimeSec = None, jr_maxSessionLossMicro = None, jr_maxDailyLossMicro = None,
     jr_requiresSelfExclusionCheck = True, jr_selfExclusionRegistry = Some ''iGO-SE'',
     jr_allowedCurrencies = [''CAD''], jr_cryptoAllowed = False,
     jr_demoAllowedWithoutKyc = True\<rparr>"

definition MT :: jurisdiction_rules where
  "MT = \<lparr>jr_code = ''MT'', jr_label = ''Malta'', jr_regulator = ''MGA'',
     jr_maxStakeMicro = None, jr_minSpinMs = 2500,
     jr_autoplayAllowed = True, jr_turboAllowed = True,
     jr_realityCheckIntervalMs = 60 * 60000, jr_mustShowNetLoss = False,
     jr_maxSessionTimeSec = None, jr_maxSessionLossMicro = None, jr_maxDailyLossMicro = None,
     jr_requiresSelfExclusionCheck = True, jr_selfExclusionRegistry = Some ''MGA-SE'',
     jr_allowedCurrencies = [''EUR'', ''USD'', ''GBP''], jr_cryptoAllowed = True,
     jr_demoAllowedWithoutKyc = True\<rparr>"

definition SE :: jurisdiction_rules where
  "SE = \<lparr>jr_code = ''SE'', jr_label = ''Sweden'', jr_regulator = ''Spelinspektionen'',
     jr_maxStakeMicro = None, jr_minSpinMs = 3000,
     jr_autoplayAllowed = False, jr_turboAllowed = False,
     jr_realityCheckIntervalMs = 60 * 60000, jr_mustShowNetLoss = True,
     jr_maxSessionTimeSec = None, jr_maxSessionLossMicro = None, jr_maxDailyLossMicro = None,
     jr_requiresSelfExclusionCheck = True, jr_selfExclusionRegistry = Some ''SPELPAUS'',
     jr_allowedCurrencies = [''SEK'', ''EUR''], jr_cryptoAllowed = False,
     jr_demoAllowedWithoutKyc = False\<rparr>"

definition RO :: jurisdiction_rules where
  "RO = \<lparr>jr_code = ''RO'', jr_label = ''Romania'', jr_regulator = ''ONJN'',
     jr_maxStakeMicro = None, jr_minSpinMs = 2000,
     jr_autoplayAllowed = True, jr_turboAllowed = True,
     jr_realityCheckIntervalMs = 30 * 60000, jr_mustShowNetLoss = True,
     jr_maxSessionTimeSec = None, jr_maxSessionLossMicro = None, jr_maxDailyLossMicro = None,
     jr_requiresSelfExclusionCheck = True, jr_selfExclusionRegistry = Some ''ONJN-RSE'',
     jr_allowedCurrencies = [''RON'', ''EUR''], jr_cryptoAllowed = False,
     jr_demoAllowedWithoutKyc = True\<rparr>"

definition BR :: jurisdiction_rules where
  "BR = \<lparr>jr_code = ''BR'', jr_label = ''Brazil'', jr_regulator = ''SPA'',
     jr_maxStakeMicro = None, jr_minSpinMs = 2000,
     jr_autoplayAllowed = False, jr_turboAllowed = False,
     jr_realityCheckIntervalMs = 60 * 60000, jr_mustShowNetLoss = True,
     jr_maxSessionTimeSec = None, jr_maxSessionLossMicro = None, jr_maxDailyLossMicro = None,
     jr_requiresSelfExclusionCheck = True, jr_selfExclusionRegistry = Some ''SPA-AUTOEXCLUSAO'',
     jr_allowedCurrencies = [''BRL''], jr_cryptoAllowed = False,
     jr_demoAllowedWithoutKyc = False\<rparr>"

definition HN :: jurisdiction_rules where
  "HN = \<lparr>jr_code = ''HN'', jr_label = ''Honduras'', jr_regulator = ''CNJ'',
     jr_maxStakeMicro = None, jr_minSpinMs = 2000,
     jr_autoplayAllowed = True, jr_turboAllowed = True,
     jr_realityCheckIntervalMs = 60 * 60000, jr_mustShowNetLoss = True,
     jr_maxSessionTimeSec = None, jr_maxSessionLossMicro = None, jr_maxDailyLossMicro = None,
     jr_requiresSelfExclusionCheck = False, jr_selfExclusionRegistry = None,
     jr_allowedCurrencies = [''HNL''], jr_cryptoAllowed = False,
     jr_demoAllowedWithoutKyc = True\<rparr>"

definition INTL :: jurisdiction_rules where
  "INTL = \<lparr>jr_code = ''INTL'', jr_label = ''International / test'', jr_regulator = ''none'',
     jr_maxStakeMicro = None, jr_minSpinMs = 0,
     jr_autoplayAllowed = True, jr_turboAllowed = True,
     jr_realityCheckIntervalMs = 0, jr_mustShowNetLoss = False,
     jr_maxSessionTimeSec = None, jr_maxSessionLossMicro = None, jr_maxDailyLossMicro = None,
     jr_requiresSelfExclusionCheck = False, jr_selfExclusionRegistry = None,
     jr_allowedCurrencies = [], jr_cryptoAllowed = True,
     jr_demoAllowedWithoutKyc = True\<rparr>"

definition JURISDICTIONS :: "(string \<times> jurisdiction_rules) list" where
  "JURISDICTIONS =
     [(''GB'', UK), (''GB-UK'', UK), (''DE'', DE), (''ES'', ES), (''MT'', MT), (''SE'', SE),
      (''RO'', RO), (''BR'', BR), (''HN'', HN), (''ON'', ON_CA), (''ON-CA'', ON_CA),
      (''INTL'', INTL), (''MULTI'', INTL)]"

section \<open>Lookup\<close>

text \<open>
  A property read of an object literal also finds the members that every object inherits;
  such a member is an object or a function, not a profile.
\<close>

definition object_prototype_names :: "string list" where
  "object_prototype_names =
     [''constructor'', ''__proto__'', ''__defineGetter__'', ''__defineSetter__'',
      ''__lookupGetter__'', ''__lookupSetter__'', ''hasOwnProperty'', ''isPrototypeOf'',
      ''propertyIsEnumerable'', ''toLocaleString'', ''toString'', ''valueOf'']"

datatype jurisdiction_lookup = Profile jurisdiction_rules | InheritedMember

definition getJurisdiction :: "string \<Rightarrow> jurisdiction_lookup" where
  "getJurisdiction code =
     (case map_of JURISDICTIONS code of
        Some r \<Rightarrow> Profile r
      | None \<Rightarrow> if code \<in> set object_prototype_names then InheritedMember else Profile INTL)"

definition hasJurisdiction :: "string \<Rightarrow> bool" where
  "hasJurisdiction code =
     (code \<in> set (map fst JURISDICTIONS) \<or> code \<in> set object_prototype_names)"

section \<open>The check of a bet\<close>

datatype jurisdiction_breach =
    StakeAboveJurisdictionMax
  | AutoplayNotPermitted
  | TurboNotPermitted
  | CurrencyNotPermitted
  | SpinTooFast
  | DemoNotAllowedWithoutKyc

datatype session_mode = Real | Demo

record jurisdiction_check_input =
  ji_jurisdiction :: string
  ji_stakeMicro :: micro
  ji_currency :: string
  ji_timeSincePreviousBetMs :: "msec option"
  ji_autoplay :: "bool option"
  ji_turbo :: "bool option"
  ji_mode :: "session_mode option"
  ji_playerKycVerified :: "bool option"

datatype jurisdiction_result =
    JAllowed
  | JRefused jurisdiction_breach "micro option"

text \<open>\<open>Inl ()\<close>: reading \<open>rules.allowedCurrencies.length\<close> of an inherited member throws.\<close>

definition checkJurisdictionRules ::
    "jurisdiction_check_input \<Rightarrow> unit + jurisdiction_result" where
  "checkJurisdictionRules input =
     (case getJurisdiction (ji_jurisdiction input) of
        InheritedMember \<Rightarrow> Inl ()
      | Profile rules \<Rightarrow> Inr (
          if 0 < length (jr_allowedCurrencies rules) \<and>
             ji_currency input \<notin> set (jr_allowedCurrencies rules)
          then JRefused CurrencyNotPermitted None
          else if ji_mode input = Some Demo \<and> \<not> jr_demoAllowedWithoutKyc rules \<and>
             ji_playerKycVerified input \<noteq> Some True
          then JRefused DemoNotAllowedWithoutKyc None
          else if jr_maxStakeMicro rules \<noteq> None \<and>
             the (jr_maxStakeMicro rules) < ji_stakeMicro input
          then JRefused StakeAboveJurisdictionMax (jr_maxStakeMicro rules)
          else if ji_autoplay input = Some True \<and> \<not> jr_autoplayAllowed rules
          then JRefused AutoplayNotPermitted None
          else if ji_turbo input = Some True \<and> \<not> jr_turboAllowed rules
          then JRefused TurboNotPermitted None
          else if 0 < jr_minSpinMs rules \<and> ji_timeSincePreviousBetMs input \<noteq> None \<and>
             0 < the (ji_timeSincePreviousBetMs input) \<and>
             the (ji_timeSincePreviousBetMs input) < jr_minSpinMs rules
          then JRefused SpinTooFast None
          else JAllowed))"

section \<open>The effective limits\<close>

record rg_floor =
  rf_sessionTimeSeconds :: "jsnum option"
  rf_sessionLossMicro :: "micro option"
  rf_dailyLossMicro :: "micro option"
  rf_realityCheckIntervalMs :: "msec option"

record operator_limits =
  ol_sessionTimeSeconds :: "jsnum option"
  ol_sessionLossMicro :: "micro option"
  ol_dailyLossMicro :: "micro option"

text \<open>
  The smallest of the candidates: the regulator's value when there is one, then the
  operator's when there is one. The infinite default of the session-time branch is
  filtered out again by the finiteness test, so it is an absent candidate here.
\<close>

definition tightest :: "('n :: linorder) option \<Rightarrow> 'n option \<Rightarrow> 'n option" where
  "tightest regulator operator =
     (case regulator of
        None \<Rightarrow> operator
      | Some a \<Rightarrow> (case operator of None \<Rightarrow> Some a | Some b \<Rightarrow> Some (if a < b then a else b)))"

definition profile_limit :: "(jurisdiction_rules \<Rightarrow> 'n option) \<Rightarrow> string \<Rightarrow> 'n option" where
  "profile_limit field jurisdiction =
     (case getJurisdiction jurisdiction of InheritedMember \<Rightarrow> None | Profile r \<Rightarrow> field r)"

definition effectiveRGFloor :: "string \<Rightarrow> operator_limits option \<Rightarrow> rg_floor" where
  "effectiveRGFloor jurisdiction operatorLimits =
     \<lparr>rf_sessionTimeSeconds =
        tightest (profile_limit jr_maxSessionTimeSec jurisdiction)
          (Option.bind operatorLimits ol_sessionTimeSeconds),
      rf_sessionLossMicro =
        tightest (profile_limit jr_maxSessionLossMicro jurisdiction)
          (Option.bind operatorLimits ol_sessionLossMicro),
      rf_dailyLossMicro =
        tightest (profile_limit jr_maxDailyLossMicro jurisdiction)
          (Option.bind operatorLimits ol_dailyLossMicro),
      rf_realityCheckIntervalMs =
        profile_limit (\<lambda>r. if 0 < jr_realityCheckIntervalMs r
                           then Some (jr_realityCheckIntervalMs r) else None) jurisdiction\<rparr>"

section \<open>What the check decides\<close>

text \<open>The rule behind each refusal, stated over a profile and a bet.\<close>

fun breaks_rule :: "jurisdiction_rules \<Rightarrow> jurisdiction_check_input \<Rightarrow> jurisdiction_breach \<Rightarrow> bool" where
  "breaks_rule r i CurrencyNotPermitted =
     (jr_allowedCurrencies r \<noteq> [] \<and> ji_currency i \<notin> set (jr_allowedCurrencies r))"
| "breaks_rule r i DemoNotAllowedWithoutKyc =
     (ji_mode i = Some Demo \<and> \<not> jr_demoAllowedWithoutKyc r \<and> ji_playerKycVerified i \<noteq> Some True)"
| "breaks_rule r i StakeAboveJurisdictionMax =
     (case jr_maxStakeMicro r of None \<Rightarrow> False | Some m \<Rightarrow> m < ji_stakeMicro i)"
| "breaks_rule r i AutoplayNotPermitted = (ji_autoplay i = Some True \<and> \<not> jr_autoplayAllowed r)"
| "breaks_rule r i TurboNotPermitted = (ji_turbo i = Some True \<and> \<not> jr_turboAllowed r)"
| "breaks_rule r i SpinTooFast =
     (case ji_timeSincePreviousBetMs i of None \<Rightarrow> False | Some t \<Rightarrow> 0 < t \<and> t < jr_minSpinMs r)"

lemma check_first_broken:
  assumes "getJurisdiction (ji_jurisdiction i) = Profile r"
  shows "checkJurisdictionRules i = Inr (
     if breaks_rule r i CurrencyNotPermitted then JRefused CurrencyNotPermitted None
     else if breaks_rule r i DemoNotAllowedWithoutKyc then JRefused DemoNotAllowedWithoutKyc None
     else if breaks_rule r i StakeAboveJurisdictionMax
     then JRefused StakeAboveJurisdictionMax (jr_maxStakeMicro r)
     else if breaks_rule r i AutoplayNotPermitted then JRefused AutoplayNotPermitted None
     else if breaks_rule r i TurboNotPermitted then JRefused TurboNotPermitted None
     else if breaks_rule r i SpinTooFast then JRefused SpinTooFast None
     else JAllowed)"
proof -
  have "(jr_maxStakeMicro r \<noteq> None \<and> the (jr_maxStakeMicro r) < ji_stakeMicro i) =
      breaks_rule r i StakeAboveJurisdictionMax"
    by (simp split: option.splits)
  moreover have "(0 < jr_minSpinMs r \<and> ji_timeSincePreviousBetMs i \<noteq> None \<and>
       0 < the (ji_timeSincePreviousBetMs i) \<and>
       the (ji_timeSincePreviousBetMs i) < jr_minSpinMs r) = breaks_rule r i SpinTooFast"
    by (auto split: option.splits)
  ultimately show ?thesis
    unfolding checkJurisdictionRules_def assms by simp
qed

lemma check_refused:
  "getJurisdiction (ji_jurisdiction i) = Profile r \<Longrightarrow>
   checkJurisdictionRules i = Inr (JRefused b rem) \<Longrightarrow>
   breaks_rule r i b \<and> rem = (if b = StakeAboveJurisdictionMax then jr_maxStakeMicro r else None)"
  by (subst (asm) check_first_broken, assumption) (simp del: breaks_rule.simps split: if_splits)

lemma check_allowed:
  "getJurisdiction (ji_jurisdiction i) = Profile r \<Longrightarrow>
   checkJurisdictionRules i = Inr JAllowed \<Longrightarrow> \<not> breaks_rule r i b"
  by (subst (asm) check_first_broken, assumption)
    (cases b; simp del: breaks_rule.simps split: if_splits)

text \<open>The specification of a combined limit: absent only when both sides are absent,
  otherwise one of the two and not larger than either.\<close>

definition tightest_of :: "('n :: linorder) option \<Rightarrow> 'n option \<Rightarrow> 'n option \<Rightarrow> bool" where
  "tightest_of a b m =
     (case m of None \<Rightarrow> a = None \<and> b = None
      | Some v \<Rightarrow> (a = Some v \<or> b = Some v) \<and>
                  (\<forall>x \<in> set_option a \<union> set_option b. v \<le> x))"

lemma tightest_correct: "tightest_of a b (tightest a b)"
  by (auto simp: tightest_of_def tightest_def split: option.splits)

lemma getJurisdiction_known:
  "code \<notin> set object_prototype_names \<Longrightarrow> \<exists>r. getJurisdiction code = Profile r"
  by (auto simp: getJurisdiction_def split: option.splits)

section \<open>Properties\<close>


definition uk_bet :: jurisdiction_check_input where
  "uk_bet = \<lparr>ji_jurisdiction = ''GB'', ji_stakeMicro = 200001, ji_currency = ''GBP'',
     ji_timeSincePreviousBetMs = Some 3000, ji_autoplay = None, ji_turbo = None,
     ji_mode = Some Real, ji_playerKycVerified = None\<rparr>"


text \<open>The effective limits are the tightest ones: none of the three limits is looser than
  the operator's or the profile's, each limit is one of the two, and a limit is absent
  only when both are.\<close>

theorem rg_floor_tightest:
  assumes "getJurisdiction j = Profile r"
  shows "tightest_of (jr_maxSessionTimeSec r) (ol_sessionTimeSeconds op)
            (rf_sessionTimeSeconds (effectiveRGFloor j (Some op))) \<and>
         tightest_of (jr_maxSessionLossMicro r) (ol_sessionLossMicro op)
            (rf_sessionLossMicro (effectiveRGFloor j (Some op))) \<and>
         tightest_of (jr_maxDailyLossMicro r) (ol_dailyLossMicro op)
            (rf_dailyLossMicro (effectiveRGFloor j (Some op)))"
  using assms by (simp add: effectiveRGFloor_def profile_limit_def tightest_correct)

definition op_limits :: operator_limits where
  "op_limits = \<lparr>ol_sessionTimeSeconds = None, ol_sessionLossMicro = None,
     ol_dailyLossMicro = Some 500\<rparr>"

theorem rg_floor_tightest_witness:
  "tightest_of (jr_maxDailyLossMicro DE) (Some 500)
     (rf_dailyLossMicro (effectiveRGFloor ''DE'' (Some op_limits)))"
  using rg_floor_tightest [of "''DE''" DE op_limits]
  by (simp add: getJurisdiction_def JURISDICTIONS_def op_limits_def)

end
