(* ===== verification/Db.thy ===== *)
theory Db
  imports GameContract WalletTypes Jurisdiction
begin

text \<open>
  The rows of \<^verbatim>\<open>apps/rgs-server/prisma/schema.prisma\<close> that the engine reads and writes, the
  tables as lists in insertion order, and the queries and updates on them. Columns of an
  enum type are datatypes; a nullable column is an option; the plugin's JSON payloads
  (\<open>selection\<close>, \<open>outcomeData\<close>) are kept as the plugin's own values.
\<close>

section \<open>Rows\<close>

datatype db_mode = REAL | DEMO

record session_row =
  se_id :: uuid
  se_operatorId :: uuid
  se_playerRef :: string
  se_gameCode :: string
  se_currency :: string
  se_lang :: string
  se_jurisdiction :: string
  se_mode :: db_mode
  se_rgLimits :: json
  se_returnUrl :: "string option"
  se_serverSeed :: string
  se_serverSeedHash :: string
  se_clientSeed :: string
  se_nonce :: int
  se_createdAt :: msec
  se_expiresAt :: msec
  se_terminatedAt :: "msec option"
  se_terminationReason :: "string option"

datatype round_state = RPending | RBettingOpen | RRolling | RResult | RSettled | RVoided

record round_row =
  ro_id :: uuid
  ro_operatorId :: uuid
  ro_sessionId :: uuid
  ro_gameCode :: string
  ro_currency :: string
  ro_nonce :: int
  ro_state :: round_state
  ro_outcomeType :: "string option"
  ro_outcomeData :: "game_outcome option"
  ro_gameConfigVersion :: "string option"
  ro_serverSeed :: string
  ro_serverSeedHash :: string
  ro_clientSeed :: string
  ro_totalBetsMicro :: micro
  ro_totalPayoutsMicro :: micro
  ro_startedAt :: "msec option"
  ro_rolledAt :: "msec option"
  ro_settledAt :: "msec option"
  ro_voidedAt :: "msec option"
  ro_settled :: bool
  ro_rngVersion :: string
  ro_buildHash :: "string option"
  ro_startedAtMonoNs :: "int option"
  ro_prevRowHash :: "string option"
  ro_rowHash :: "string option"

datatype bet_status = BPending | BAccepted | BRejected | BSettled | BVoided | BFailed

record bet_row =
  be_id :: uuid
  be_operatorId :: uuid
  be_sessionId :: uuid
  be_roundId :: uuid
  be_playerRef :: string
  be_selection :: bet_selection
  be_selectionType :: string
  be_amountMicro :: micro
  be_commissionMicro :: micro
  be_currency :: string
  be_status :: bet_status
  be_wonAmountMicro :: "micro option"
  be_won :: "bool option"
  be_cashoutMultiplier :: "jsnum option"
  be_cashoutElapsedMs :: "msec option"
  be_cashoutMode :: "string option"
  be_cashoutAt :: "msec option"
  be_cashoutPayoutMicro :: "micro option"
  be_betTransactionUuid :: uuid
  be_winTransactionUuid :: "uuid option"
  be_placedAt :: msec
  be_settledAt :: "msec option"

datatype held_state = HHeld | HResolved | HRefunded

record held_row =
  he_operatorId :: uuid
  he_betId :: uuid
  he_roundId :: uuid
  he_state :: held_state
  he_heldAt :: msec
  he_resolvedAt :: "msec option"
  he_refundedAt :: "msec option"
  he_resolutionReason :: "string option"

datatype wallet_endpoint = EBALANCE | EBET | EWIN | EROLLBACK

record job_payload =
  jp_requestUuid :: uuid
  jp_transactionUuid :: uuid
  jp_referenceTransactionUuid :: "uuid option"
  jp_playerRef :: string
  jp_currency :: string
  jp_gameCode :: string
  jp_amountMicro :: "string option"
  jp_roundId :: "uuid option"

record job_row =
  jo_id :: uuid
  jo_operatorId :: uuid
  jo_endpoint :: wallet_endpoint
  jo_betId :: "uuid option"
  jo_roundId :: "uuid option"
  jo_payload :: job_payload
  jo_attempts :: nat
  jo_nextAttemptAt :: msec
  jo_lastError :: "string option"
  jo_lockedUntil :: "msec option"
  jo_completedAt :: "msec option"

section \<open>JSON views of columns\<close>

definition jopt :: "('a \<Rightarrow> json) \<Rightarrow> 'a option \<Rightarrow> json" where
  "jopt f x = (case x of None \<Rightarrow> JNull | Some v \<Rightarrow> f v)"

definition jint :: "int \<Rightarrow> json" where
  "jint i = JNum (of_int i)"

definition side_string :: "side \<Rightarrow> string" where
  "side_string s = (case s of LOW \<Rightarrow> ''LOW'' | HIGH \<Rightarrow> ''HIGH'')"

definition slot_string :: "slot \<Rightarrow> string" where
  "slot_string s = (case s of SlotA \<Rightarrow> ''A'' | SlotB \<Rightarrow> ''B'')"

fun selection_json :: "bet_selection \<Rightarrow> json" where
  "selection_json (DiceSelection s) = JObj [(''side'', JStr (side_string s))]"
| "selection_json (CrashSelection m) = JObj [(''cashoutMultiplier'', JNum m)]"
| "selection_json (LempiSelection s a) =
     JObj ((''slotId'', JStr (slot_string s)) #
       (case a of None \<Rightarrow> [] | Some m \<Rightarrow> [(''autoCashoutMultiplier'', JNum m)]))"

fun outcome_json :: "game_outcome \<Rightarrow> json" where
  "outcome_json (DiceOutcome vs n s) =
     JObj [(''type'', JStr ''DICE''), (''diceValues'', JArr (map jint vs)),
           (''outcomeSum'', jint n), (''outcomeSide'', JStr (side_string s))]"
| "outcome_json (CrashOutcome m u) =
     JObj [(''type'', JStr ''CRASH''), (''crashMultiplier'', JNum m), (''u'', JNum u)]"

fun outcome_type :: "game_outcome \<Rightarrow> string" where
  "outcome_type (DiceOutcome vs n s) = ''DICE''"
| "outcome_type (CrashOutcome m u) = ''CRASH''"

fun win_meta_fields :: "win_meta \<Rightarrow> (string \<times> json) list" where
  "win_meta_fields (DiceMeta s) = [(''side'', JStr (side_string s))]"
| "win_meta_fields (CrashMeta target crash) =
     [(''cashoutMultiplier'', JNum target), (''crashMultiplier'', JNum crash)]"
| "win_meta_fields (LempiAutoMeta s target crash) =
     [(''slotId'', JStr (slot_string s)), (''cashoutMode'', JStr ''AUTO''),
      (''cashoutMultiplier'', JNum target), (''crashMultiplier'', JNum crash)]"
| "win_meta_fields (LempiManualMeta s m) =
     [(''slotId'', JStr (slot_string s)), (''cashoutMode'', JStr ''MANUAL''),
      (''cashoutMultiplier'', JNum m)]"

text \<open>\<open>{ ...xs, ...ys }\<close>: a later value of a key replaces an earlier one in place.\<close>

fun obj_put :: "(string \<times> json) list \<Rightarrow> string \<Rightarrow> json \<Rightarrow> (string \<times> json) list" where
  "obj_put [] k v = [(k, v)]"
| "obj_put ((k', v') # o') k v = (if k' = k then (k, v) # o' else (k', v') # obj_put o' k v)"

definition obj_spread :: "(string \<times> json) list \<Rightarrow> (string \<times> json) list \<Rightarrow> (string \<times> json) list" where
  "obj_spread xs ys = foldl (\<lambda>acc (k, v). obj_put acc k v) xs ys"

lemma map_of_obj_put: "map_of (obj_put xs k v) = (map_of xs)(k \<mapsto> v)"
  by (induction xs k v rule: obj_put.induct) auto

fun state_string :: "round_state \<Rightarrow> string" where
  "state_string RPending = ''PENDING''"
| "state_string RBettingOpen = ''BETTING_OPEN''"
| "state_string RRolling = ''ROLLING''"
| "state_string RResult = ''RESULT''"
| "state_string RSettled = ''SETTLED''"
| "state_string RVoided = ''VOIDED''"

fun endpoint_string :: "wallet_endpoint \<Rightarrow> string" where
  "endpoint_string EBALANCE = ''BALANCE''"
| "endpoint_string EBET = ''BET''"
| "endpoint_string EWIN = ''WIN''"
| "endpoint_string EROLLBACK = ''ROLLBACK''"

section \<open>Tables\<close>

record db =
  db_sessions :: "session_row list"
  db_rounds :: "round_row list"
  db_bets :: "bet_row list"
  db_held :: "held_row list"
  db_jobs :: "job_row list"

definition find_session :: "db \<Rightarrow> uuid \<Rightarrow> session_row option" where
  "find_session d i = find (\<lambda>r. se_id r = i) (db_sessions d)"

definition find_round :: "db \<Rightarrow> uuid \<Rightarrow> round_row option" where
  "find_round d i = find (\<lambda>r. ro_id r = i) (db_rounds d)"

definition find_bet :: "db \<Rightarrow> uuid \<Rightarrow> bet_row option" where
  "find_bet d i = find (\<lambda>r. be_id r = i) (db_bets d)"

definition upd_session :: "uuid \<Rightarrow> (session_row \<Rightarrow> session_row) \<Rightarrow> db \<Rightarrow> db" where
  "upd_session i f d = d\<lparr>db_sessions := update_where (\<lambda>r. se_id r = i) f (db_sessions d)\<rparr>"

definition upd_round :: "uuid \<Rightarrow> (round_row \<Rightarrow> round_row) \<Rightarrow> db \<Rightarrow> db" where
  "upd_round i f d = d\<lparr>db_rounds := update_where (\<lambda>r. ro_id r = i) f (db_rounds d)\<rparr>"

definition upd_bet :: "uuid \<Rightarrow> (bet_row \<Rightarrow> bet_row) \<Rightarrow> db \<Rightarrow> db" where
  "upd_bet i f d = d\<lparr>db_bets := update_where (\<lambda>r. be_id r = i) f (db_bets d)\<rparr>"

definition add_bet :: "bet_row \<Rightarrow> db \<Rightarrow> db" where
  "add_bet b d = d\<lparr>db_bets := db_bets d @ [b]\<rparr>"

definition add_held :: "held_row \<Rightarrow> db \<Rightarrow> db" where
  "add_held h d = d\<lparr>db_held := db_held d @ [h]\<rparr>"

definition add_job :: "job_row \<Rightarrow> db \<Rightarrow> db" where
  "add_job j d = d\<lparr>db_jobs := db_jobs d @ [j]\<rparr>"

text \<open>The update of the pending register by bet, which only touches rows that are held.\<close>

definition resolve_held :: "uuid \<Rightarrow> msec \<Rightarrow> string \<Rightarrow> db \<Rightarrow> db" where
  "resolve_held i now reason d =
     d\<lparr>db_held := update_where (\<lambda>h. he_betId h = i \<and> he_state h = HHeld)
        (\<lambda>h. h\<lparr>he_state := HResolved, he_resolvedAt := Some now, he_resolutionReason := Some reason\<rparr>)
        (db_held d)\<rparr>"

definition refund_held :: "uuid \<Rightarrow> msec \<Rightarrow> string \<Rightarrow> db \<Rightarrow> db" where
  "refund_held i now reason d =
     d\<lparr>db_held := update_where (\<lambda>h. he_betId h = i \<and> he_state h = HHeld)
        (\<lambda>h. h\<lparr>he_state := HRefunded, he_refundedAt := Some now, he_resolutionReason := Some reason\<rparr>)
        (db_held d)\<rparr>"

text \<open>A new job: the column defaults are zero attempts and an immediate first attempt.\<close>

definition new_job ::
    "uuid \<Rightarrow> uuid \<Rightarrow> wallet_endpoint \<Rightarrow> uuid \<Rightarrow> uuid \<Rightarrow> job_payload \<Rightarrow> msec \<Rightarrow> string option \<Rightarrow> job_row" where
  "new_job jobId operatorId endpoint betId roundId payload now lastError =
     \<lparr>jo_id = jobId, jo_operatorId = operatorId, jo_endpoint = endpoint, jo_betId = Some betId,
      jo_roundId = Some roundId, jo_payload = payload, jo_attempts = 0, jo_nextAttemptAt = now,
      jo_lastError = lastError, jo_lockedUntil = None, jo_completedAt = None\<rparr>"

text \<open>The payload of a retry job for a win.\<close>

definition win_payload :: "win_request \<Rightarrow> job_payload" where
  "win_payload q = \<lparr>jp_requestUuid = wq_requestUuid q, jp_transactionUuid = ww_transactionUuid q,
     jp_referenceTransactionUuid = Some (ww_referenceTransactionUuid q), jp_playerRef = wq_playerRef q,
     jp_currency = wq_currency q, jp_gameCode = wq_gameCode q,
     jp_amountMicro = Some (show_int (ww_amountMicro q)), jp_roundId = Some (ww_roundId q)\<rparr>"

section \<open>Frames\<close>

lemma upd_bet_frame [simp, frame_simps]:
  "db_sessions (upd_bet i f d) = db_sessions d"
  "db_rounds (upd_bet i f d) = db_rounds d"
  "db_held (upd_bet i f d) = db_held d"
  "db_jobs (upd_bet i f d) = db_jobs d"
  "db_bets (upd_bet i f d) = update_where (\<lambda>r. be_id r = i) f (db_bets d)"
  by (simp_all add: upd_bet_def)

lemma upd_round_frame [simp, frame_simps]:
  "db_sessions (upd_round i g d) = db_sessions d"
  "db_bets (upd_round i g d) = db_bets d"
  "db_held (upd_round i g d) = db_held d"
  "db_jobs (upd_round i g d) = db_jobs d"
  "db_rounds (upd_round i g d) = update_where (\<lambda>r. ro_id r = i) g (db_rounds d)"
  by (simp_all add: upd_round_def)

lemma upd_session_frame [simp, frame_simps]:
  "db_rounds (upd_session i g d) = db_rounds d"
  "db_bets (upd_session i g d) = db_bets d"
  "db_held (upd_session i g d) = db_held d"
  "db_jobs (upd_session i g d) = db_jobs d"
  "db_sessions (upd_session i g d) = update_where (\<lambda>r. se_id r = i) g (db_sessions d)"
  by (simp_all add: upd_session_def)

lemma add_frame [simp, frame_simps]:
  "db_sessions (add_bet b d) = db_sessions d" "db_rounds (add_bet b d) = db_rounds d"
  "db_bets (add_bet b d) = db_bets d @ [b]" "db_held (add_bet b d) = db_held d"
  "db_jobs (add_bet b d) = db_jobs d"
  "db_sessions (add_held h d) = db_sessions d" "db_rounds (add_held h d) = db_rounds d"
  "db_bets (add_held h d) = db_bets d" "db_held (add_held h d) = db_held d @ [h]"
  "db_jobs (add_held h d) = db_jobs d"
  "db_sessions (add_job j d) = db_sessions d" "db_rounds (add_job j d) = db_rounds d"
  "db_bets (add_job j d) = db_bets d" "db_held (add_job j d) = db_held d"
  "db_jobs (add_job j d) = db_jobs d @ [j]"
  by (simp_all add: add_bet_def add_held_def add_job_def)

lemma held_frame [simp, frame_simps]:
  "db_sessions (resolve_held i now rs d) = db_sessions d" "db_rounds (resolve_held i now rs d) = db_rounds d"
  "db_bets (resolve_held i now rs d) = db_bets d" "db_jobs (resolve_held i now rs d) = db_jobs d"
  "db_sessions (refund_held i now rs d) = db_sessions d" "db_rounds (refund_held i now rs d) = db_rounds d"
  "db_bets (refund_held i now rs d) = db_bets d" "db_jobs (refund_held i now rs d) = db_jobs d"
  by (simp_all add: resolve_held_def refund_held_def)

lemma find_frame [simp, frame_simps]:
  "find_session (upd_bet i f d) = find_session d" "find_session (upd_round i g d) = find_session d"
  "find_session (add_bet b d) = find_session d" "find_session (add_held h d) = find_session d"
  "find_session (add_job j d) = find_session d" "find_session (resolve_held i now rs d) = find_session d"
  "find_session (refund_held i now rs d) = find_session d"
  by (simp_all add: find_session_def fun_eq_iff)

end
