(* ===== verification/AuditChain.thy ===== *)
theory AuditChain
  imports Db "HOL-Library.Product_Lexorder"
begin

text \<open>
  The tamper-evident chain of \<^verbatim>\<open>apps/rgs-server/src/services/AuditChain.ts\<close>: the row hash,
  the projections of the two streams, the tips, the backfill, the daily summary (which
  rewrites the stored hashes), the signed anchor and its verification. SHA-256, HMAC and the
  rendering of numbers are parameters.
\<close>

section \<open>Rows\<close>

record wallet_call_row =
  wc_id :: uuid
  wc_operatorId :: uuid
  wc_direction :: string
  wc_endpoint :: wallet_endpoint
  wc_requestUuid :: uuid
  wc_transactionUuid :: "uuid option"
  wc_referenceTransactionUuid :: "uuid option"
  wc_sessionId :: "uuid option"
  wc_roundId :: "uuid option"
  wc_playerRef :: "string option"
  wc_amountMicro :: "micro option"
  wc_currency :: "string option"
  wc_requestBody :: json
  wc_responseStatus :: "string option"
  wc_responseBody :: json
  wc_httpStatus :: "int option"
  wc_latencyMs :: "int option"
  wc_attempt :: int
  wc_succeeded :: bool
  wc_createdAt :: msec
  wc_prevRowHash :: "string option"
  wc_rowHash :: "string option"

definition walletCallHashInput :: "wallet_call_row \<Rightarrow> json" where
  "walletCallHashInput r = JObj
     [(''stream'', JStr ''wallet_call''),
      (''id'', JStr (wc_id r)),
      (''operatorId'', JStr (wc_operatorId r)),
      (''direction'', JStr (wc_direction r)),
      (''endpoint'', JStr (endpoint_string (wc_endpoint r))),
      (''requestUuid'', JStr (wc_requestUuid r)),
      (''transactionUuid'', jopt JStr (wc_transactionUuid r)),
      (''referenceTransactionUuid'', jopt JStr (wc_referenceTransactionUuid r)),
      (''sessionId'', jopt JStr (wc_sessionId r)),
      (''roundId'', jopt JStr (wc_roundId r)),
      (''playerRef'', jopt JStr (wc_playerRef r)),
      (''amountMicro'', jopt JBig (wc_amountMicro r)),
      (''currency'', jopt JStr (wc_currency r)),
      (''requestBody'', wc_requestBody r),
      (''responseStatus'', jopt JStr (wc_responseStatus r)),
      (''responseBody'', wc_responseBody r),
      (''httpStatus'', jopt jint (wc_httpStatus r)),
      (''latencyMs'', jopt jint (wc_latencyMs r)),
      (''attempt'', jint (wc_attempt r)),
      (''succeeded'', JBool (wc_succeeded r)),
      (''createdAt'', JDate (wc_createdAt r))]"

definition roundHashInput :: "round_row \<Rightarrow> json" where
  "roundHashInput r = JObj
     [(''stream'', JStr ''round''),
      (''id'', JStr (ro_id r)),
      (''operatorId'', JStr (ro_operatorId r)),
      (''sessionId'', JStr (ro_sessionId r)),
      (''gameCode'', JStr (ro_gameCode r)),
      (''currency'', JStr (ro_currency r)),
      (''nonce'', jint (ro_nonce r)),
      (''state'', JStr (state_string (ro_state r))),
      (''outcomeType'', jopt JStr (ro_outcomeType r)),
      (''outcomeData'', jopt outcome_json (ro_outcomeData r)),
      (''gameConfigVersion'', jopt JStr (ro_gameConfigVersion r)),
      (''serverSeedHash'', JStr (ro_serverSeedHash r)),
      (''clientSeed'', JStr (ro_clientSeed r)),
      (''rngVersion'', JStr (ro_rngVersion r)),
      (''buildHash'', jopt JStr (ro_buildHash r)),
      (''totalBetsMicro'', JBig (ro_totalBetsMicro r)),
      (''totalPayoutsMicro'', JBig (ro_totalPayoutsMicro r)),
      (''startedAt'', jopt JDate (ro_startedAt r)),
      (''rolledAt'', jopt JDate (ro_rolledAt r)),
      (''settledAt'', jopt JDate (ro_settledAt r)),
      (''voidedAt'', jopt JDate (ro_voidedAt r)),
      (''startedAtMonoNs'', jopt JBig (ro_startedAtMonoNs r))]"

section \<open>Hashing\<close>

text \<open>The bytes that are hashed for a row, and the digest of them.\<close>

definition chain_message :: "(jsnum \<Rightarrow> string) \<Rightarrow> string option \<Rightarrow> json \<Rightarrow> string" where
  "chain_message numstr prev row = nullish prev [] @ NL # canonicalJson numstr row"

definition hashRow :: "sha_fun \<Rightarrow> (jsnum \<Rightarrow> string) \<Rightarrow> string option \<Rightarrow> json \<Rightarrow> string" where
  "hashRow sha256 numstr prev row = digest_hex (sha256 (chain_message numstr prev row))"

text \<open>
  The walk over rows in canonical order that every operation on the chain does: each row
  with the hash before it and its own hash, and the tip after the last one.
\<close>

fun walk :: "(string option \<Rightarrow> 'r \<Rightarrow> string) \<Rightarrow> string option \<Rightarrow> 'r list \<Rightarrow> ('r \<times> string option \<times> string) list" where
  "walk h prev [] = []"
| "walk h prev (r # rs) = (r, prev, h prev r) # walk h (Some (h prev r)) rs"

fun walk_tip :: "(string option \<Rightarrow> 'r \<Rightarrow> string) \<Rightarrow> string option \<Rightarrow> 'r list \<Rightarrow> string option" where
  "walk_tip h prev [] = prev"
| "walk_tip h prev (r # rs) = walk_tip h (Some (h prev r)) rs"

definition call_hash :: "sha_fun \<Rightarrow> (jsnum \<Rightarrow> string) \<Rightarrow> string option \<Rightarrow> wallet_call_row \<Rightarrow> string" where
  "call_hash sha256 numstr prev r = hashRow sha256 numstr prev (walletCallHashInput r)"

definition round_hash :: "sha_fun \<Rightarrow> (jsnum \<Rightarrow> string) \<Rightarrow> string option \<Rightarrow> round_row \<Rightarrow> string" where
  "round_hash sha256 numstr prev r = hashRow sha256 numstr prev (roundHashInput r)"

section \<open>Orders and tips\<close>

text \<open>
  \<open>createdAt\<close>, then \<open>id\<close>; a round is ordered by \<open>startedAt\<close>, and the store sorts a missing
  one after every instant.
\<close>

definition call_order :: "wallet_call_row \<Rightarrow> int \<times> string" where
  "call_order r = (wc_createdAt r, wc_id r)"

definition round_order :: "round_row \<Rightarrow> int \<times> int \<times> string" where
  "round_order r = (case ro_startedAt r of Some t \<Rightarrow> (0, t, ro_id r) | None \<Rightarrow> (1, 0, ro_id r))"

definition latestWalletCallTip :: "wallet_call_row list \<Rightarrow> uuid \<Rightarrow> string option" where
  "latestWalletCallTip calls operatorId =
     Option.bind (last_opt (sort_key call_order
        (filter (\<lambda>r. wc_operatorId r = operatorId \<and> wc_rowHash r \<noteq> None) calls))) wc_rowHash"

definition latestRoundTip :: "round_row list \<Rightarrow> uuid \<Rightarrow> string option" where
  "latestRoundTip rounds operatorId =
     Option.bind (last_opt (sort_key round_order
        (filter (\<lambda>r. ro_operatorId r = operatorId \<and> ro_rowHash r \<noteq> None) rounds))) ro_rowHash"

section \<open>Writing hashes\<close>

definition set_call_hash :: "wallet_call_row \<times> string option \<times> string \<Rightarrow> wallet_call_row list \<Rightarrow> wallet_call_row list" where
  "set_call_hash x calls = update_where (\<lambda>r. wc_id r = wc_id (fst x))
     (\<lambda>r. r\<lparr>wc_prevRowHash := fst (snd x), wc_rowHash := Some (snd (snd x))\<rparr>) calls"

definition set_round_hash :: "round_row \<times> string option \<times> string \<Rightarrow> round_row list \<Rightarrow> round_row list" where
  "set_round_hash x rounds = update_where (\<lambda>r. ro_id r = ro_id (fst x))
     (\<lambda>r. r\<lparr>ro_prevRowHash := fst (snd x), ro_rowHash := Some (snd (snd x))\<rparr>) rounds"

text \<open>
  The backfills visit the rows without a hash in canonical order (in batches of 500, which
  the sequence of writes does not depend on) and chain them to the current tip.
\<close>

definition backfillWalletCallChain ::
    "sha_fun \<Rightarrow> (jsnum \<Rightarrow> string) \<Rightarrow> wallet_call_row list \<Rightarrow> uuid \<Rightarrow> nat \<times> wallet_call_row list" where
  "backfillWalletCallChain sha256 numstr calls operatorId =
     (let todo = sort_key call_order (filter (\<lambda>r. wc_operatorId r = operatorId \<and> wc_rowHash r = None) calls);
          steps = walk (call_hash sha256 numstr) (latestWalletCallTip calls operatorId) todo
      in (length todo, fold set_call_hash steps calls))"

definition backfillRoundChain ::
    "sha_fun \<Rightarrow> (jsnum \<Rightarrow> string) \<Rightarrow> round_row list \<Rightarrow> uuid \<Rightarrow> nat \<times> round_row list" where
  "backfillRoundChain sha256 numstr rounds operatorId =
     (let todo = sort_key round_order (filter (\<lambda>r. ro_operatorId r = operatorId \<and> ro_rowHash r = None) rounds);
          steps = walk (round_hash sha256 numstr) (latestRoundTip rounds operatorId) todo
      in (length todo, fold set_round_hash steps rounds))"

section \<open>The daily anchor\<close>

datatype audit_stream = SWalletCall | SRound

definition stream_string :: "audit_stream \<Rightarrow> string" where
  "stream_string s = (case s of SWalletCall \<Rightarrow> ''wallet_call'' | SRound \<Rightarrow> ''round'')"

record anchor_summary =
  as_stream :: audit_stream
  as_operatorId :: uuid
  as_periodDate :: string
  as_firstRowId :: "string option"
  as_lastRowId :: "string option"
  as_rowCount :: nat
  as_tipHash :: string

definition day_calls :: "wallet_call_row list \<Rightarrow> uuid \<Rightarrow> msec \<Rightarrow> msec \<Rightarrow> wallet_call_row list" where
  "day_calls calls operatorId dayStart dayEnd =
     sort_key call_order (filter (\<lambda>r. wc_operatorId r = operatorId \<and>
        dayStart \<le> wc_createdAt r \<and> wc_createdAt r < dayEnd) calls)"

definition day_rounds :: "round_row list \<Rightarrow> uuid \<Rightarrow> msec \<Rightarrow> msec \<Rightarrow> round_row list" where
  "day_rounds rounds operatorId dayStart dayEnd =
     sort_key round_order (filter (\<lambda>r. ro_operatorId r = operatorId \<and>
        (case ro_startedAt r of None \<Rightarrow> False | Some t \<Rightarrow> dayStart \<le> t \<and> t < dayEnd)) rounds)"

text \<open>The hash of the last row before the window, hashed or not.\<close>

definition calls_before_tip :: "wallet_call_row list \<Rightarrow> uuid \<Rightarrow> msec \<Rightarrow> string option" where
  "calls_before_tip calls operatorId dayStart =
     Option.bind (last_opt (sort_key call_order
        (filter (\<lambda>r. wc_operatorId r = operatorId \<and> wc_createdAt r < dayStart) calls))) wc_rowHash"

definition rounds_before_tip :: "round_row list \<Rightarrow> uuid \<Rightarrow> msec \<Rightarrow> string option" where
  "rounds_before_tip rounds operatorId dayStart =
     Option.bind (last_opt (sort_key round_order
        (filter (\<lambda>r. ro_operatorId r = operatorId \<and>
           (case ro_startedAt r of None \<Rightarrow> False | Some t \<Rightarrow> t < dayStart)) rounds))) ro_rowHash"

definition summariseWalletCallDay ::
    "sha_fun \<Rightarrow> (jsnum \<Rightarrow> string) \<Rightarrow> wallet_call_row list \<Rightarrow> uuid \<Rightarrow> msec \<Rightarrow> msec \<Rightarrow>
     anchor_summary option \<times> wallet_call_row list" where
  "summariseWalletCallDay sha256 numstr calls operatorId dayStart dayEnd =
     (let rows = day_calls calls operatorId dayStart dayEnd in
      if rows = [] then (None, calls)
      else
        (let prev = calls_before_tip calls operatorId dayStart;
             steps = walk (call_hash sha256 numstr) prev rows;
             repair = filter (\<lambda>(r, p, h). wc_rowHash r \<noteq> Some h \<or> wc_prevRowHash r \<noteq> p) steps
         in (Some \<lparr>as_stream = SWalletCall, as_operatorId = operatorId,
                   as_periodDate = iso_day dayStart,
                   as_firstRowId = Some (wc_id (hd rows)), as_lastRowId = Some (wc_id (last rows)),
                   as_rowCount = length rows,
                   as_tipHash = nullish (walk_tip (call_hash sha256 numstr) prev rows) []\<rparr>,
             fold set_call_hash repair calls)))"

definition summariseRoundDay ::
    "sha_fun \<Rightarrow> (jsnum \<Rightarrow> string) \<Rightarrow> round_row list \<Rightarrow> uuid \<Rightarrow> msec \<Rightarrow> msec \<Rightarrow>
     anchor_summary option \<times> round_row list" where
  "summariseRoundDay sha256 numstr rounds operatorId dayStart dayEnd =
     (let rows = day_rounds rounds operatorId dayStart dayEnd in
      if rows = [] then (None, rounds)
      else
        (let prev = rounds_before_tip rounds operatorId dayStart;
             steps = walk (round_hash sha256 numstr) prev rows;
             repair = filter (\<lambda>(r, p, h). ro_rowHash r \<noteq> Some h \<or> ro_prevRowHash r \<noteq> p) steps
         in (Some \<lparr>as_stream = SRound, as_operatorId = operatorId,
                   as_periodDate = iso_day dayStart,
                   as_firstRowId = Some (ro_id (hd rows)), as_lastRowId = Some (ro_id (last rows)),
                   as_rowCount = length rows,
                   as_tipHash = nullish (walk_tip (round_hash sha256 numstr) prev rows) []\<rparr>,
             fold set_round_hash repair rounds)))"

record anchor_row =
  an_id :: uuid
  an_periodDate :: msec
  an_streamName :: audit_stream
  an_operatorId :: "uuid option"
  an_firstRowId :: "string option"
  an_lastRowId :: "string option"
  an_rowCount :: nat
  an_tipHash :: string
  an_manifest :: json
  an_signature :: string

definition anchor_manifest :: "anchor_summary \<Rightarrow> json" where
  "anchor_manifest s = JObj
     [(''stream'', JStr (stream_string (as_stream s))), (''operatorId'', JStr (as_operatorId s)),
      (''periodDate'', JStr (as_periodDate s)), (''firstRowId'', jopt JStr (as_firstRowId s)),
      (''lastRowId'', jopt JStr (as_lastRowId s)), (''rowCount'', jint (int (as_rowCount s))),
      (''tipHash'', JStr (as_tipHash s))]"

definition signManifest :: "hmac_fun \<Rightarrow> string \<Rightarrow> string \<Rightarrow> string" where
  "signManifest hmac secret body = b64_encode (digest_bytes (hmac secret body))"

text \<open>\<open>ensureSecret\<close>: the dedicated secret, else the session secret, each at least 16 characters.\<close>

definition ensureSecret :: "string option \<Rightarrow> string option \<Rightarrow> string option" where
  "ensureSecret anchorSecret sessionSecret =
     (case anchorSecret of
        Some v \<Rightarrow> if 16 \<le> length v then Some v
                  else (case sessionSecret of Some w \<Rightarrow> if 16 \<le> length w then Some w else None | None \<Rightarrow> None)
      | None \<Rightarrow> (case sessionSecret of Some w \<Rightarrow> if 16 \<le> length w then Some w else None | None \<Rightarrow> None))"

record audit_store =
  au_calls :: "wallet_call_row list"
  au_rounds :: "round_row list"
  au_anchors :: "anchor_row list"
  au_operators :: "uuid list"

text \<open>The upsert by (date, stream, operator); \<open>newId\<close> is the id the store gives a new row.\<close>

definition upsert_anchor ::
    "hmac_fun \<Rightarrow> string \<Rightarrow> (jsnum \<Rightarrow> string) \<Rightarrow> uuid \<Rightarrow> msec \<Rightarrow> anchor_summary \<Rightarrow> anchor_row list \<Rightarrow> anchor_row list" where
  "upsert_anchor hmac secret numstr newId dayStart s anchors =
     (let manifest = anchor_manifest s;
          signature = signManifest hmac secret (canonicalJson numstr manifest);
          same = (\<lambda>a. an_periodDate a = dayStart \<and> an_streamName a = as_stream s \<and>
                      an_operatorId a = Some (as_operatorId s))
      in if list_ex same anchors
         then update_where same (\<lambda>a. a\<lparr>an_firstRowId := as_firstRowId s, an_lastRowId := as_lastRowId s,
                an_rowCount := as_rowCount s, an_tipHash := as_tipHash s, an_manifest := manifest,
                an_signature := signature\<rparr>) anchors
         else anchors @ [\<lparr>an_id = newId, an_periodDate = dayStart, an_streamName = as_stream s,
                an_operatorId = Some (as_operatorId s), an_firstRowId = as_firstRowId s,
                an_lastRowId = as_lastRowId s, an_rowCount = as_rowCount s, an_tipHash = as_tipHash s,
                an_manifest = manifest, an_signature = signature\<rparr>])"

text \<open>One operator of \<open>anchorDay\<close>: both streams, counting written and skipped.\<close>

definition anchor_operator ::
    "sha_fun \<Rightarrow> hmac_fun \<Rightarrow> string \<Rightarrow> (jsnum \<Rightarrow> string) \<Rightarrow> (audit_stream \<Rightarrow> uuid \<Rightarrow> uuid) \<Rightarrow> msec \<Rightarrow>
     uuid \<Rightarrow> (nat \<times> nat) \<times> audit_store \<Rightarrow> (nat \<times> nat) \<times> audit_store" where
  "anchor_operator sha256 hmac secret numstr newId dayStart operatorId x =
     (let ((written, skipped), st) = x;
          (s1, calls1) = summariseWalletCallDay sha256 numstr (au_calls st) operatorId dayStart (dayStart + 86400000);
          (w1, k1, anchors1) = (case s1 of None \<Rightarrow> (written, skipped + 1, au_anchors st)
             | Some s \<Rightarrow> (written + 1, skipped,
                 upsert_anchor hmac secret numstr (newId SWalletCall operatorId) dayStart s (au_anchors st)));
          (s2, rounds2) = summariseRoundDay sha256 numstr (au_rounds st) operatorId dayStart (dayStart + 86400000);
          (w2, k2, anchors2) = (case s2 of None \<Rightarrow> (w1, k1 + 1, anchors1)
             | Some s \<Rightarrow> (w1 + 1, k1,
                 upsert_anchor hmac secret numstr (newId SRound operatorId) dayStart s anchors1))
      in ((w2, k2), st\<lparr>au_calls := calls1, au_rounds := rounds2, au_anchors := anchors2\<rparr>))"

definition anchorDay ::
    "sha_fun \<Rightarrow> hmac_fun \<Rightarrow> string \<Rightarrow> (jsnum \<Rightarrow> string) \<Rightarrow> (audit_stream \<Rightarrow> uuid \<Rightarrow> uuid) \<Rightarrow> msec \<Rightarrow>
     audit_store \<Rightarrow> (nat \<times> nat) \<times> audit_store" where
  "anchorDay sha256 hmac secret numstr newId date st =
     fold (anchor_operator sha256 hmac secret numstr newId (utc_day_start date)) (au_operators st) ((0, 0), st)"

section \<open>Verification\<close>

record verify_result =
  vr_stream :: audit_stream
  vr_operatorId :: uuid
  vr_periodDate :: string
  vr_expectedTip :: string
  vr_computedTip :: string
  vr_rowCount :: nat
  vr_match :: bool
  vr_firstMismatchAtRowId :: "uuid option"

text \<open>The first row whose stored, non-empty hash is not the replayed one.\<close>

definition first_mismatch ::
    "('r \<Rightarrow> uuid) \<Rightarrow> ('r \<Rightarrow> string option) \<Rightarrow> ('r \<times> string option \<times> string) list \<Rightarrow> uuid option" where
  "first_mismatch rid stored steps =
     map_option (\<lambda>x. rid (fst x))
       (find (\<lambda>(r, p, h). stored r \<noteq> None \<and> stored r \<noteq> Some [] \<and> stored r \<noteq> Some h) steps)"

definition mk_verify_result ::
    "anchor_row \<Rightarrow> uuid \<Rightarrow> string option \<Rightarrow> nat \<Rightarrow> uuid option \<Rightarrow> verify_result" where
  "mk_verify_result a operatorId tip n mismatch =
     \<lparr>vr_stream = an_streamName a, vr_operatorId = operatorId, vr_periodDate = iso_day (an_periodDate a),
      vr_expectedTip = an_tipHash a, vr_computedTip = nullish tip [], vr_rowCount = n,
      vr_match = (nullish tip [] = an_tipHash a), vr_firstMismatchAtRowId = mismatch\<rparr>"

text \<open>The hash to start from: that of the last row before the day that has one.\<close>

definition calls_verify_tip :: "wallet_call_row list \<Rightarrow> uuid \<Rightarrow> msec \<Rightarrow> string option" where
  "calls_verify_tip calls operatorId dayStart =
     Option.bind (last_opt (sort_key call_order
        (filter (\<lambda>r. wc_operatorId r = operatorId \<and> wc_createdAt r < dayStart \<and> wc_rowHash r \<noteq> None) calls)))
       wc_rowHash"

definition rounds_verify_tip :: "round_row list \<Rightarrow> uuid \<Rightarrow> msec \<Rightarrow> string option" where
  "rounds_verify_tip rounds operatorId dayStart =
     Option.bind (last_opt (sort_key round_order
        (filter (\<lambda>r. ro_operatorId r = operatorId \<and>
           (case ro_startedAt r of None \<Rightarrow> False | Some t \<Rightarrow> t < dayStart) \<and> ro_rowHash r \<noteq> None) rounds)))
       ro_rowHash"

definition verifyAnchor ::
    "sha_fun \<Rightarrow> (jsnum \<Rightarrow> string) \<Rightarrow> audit_store \<Rightarrow> uuid \<Rightarrow> verify_result option" where
  "verifyAnchor sha256 numstr st anchorId =
     (case find (\<lambda>a. an_id a = anchorId) (au_anchors st) of
        None \<Rightarrow> None
      | Some a \<Rightarrow> (case an_operatorId a of
          None \<Rightarrow> None
        | Some operatorId \<Rightarrow>
            (let dayStart = an_periodDate a; dayEnd = dayStart + 86400000 in
             Some (case an_streamName a of
               SWalletCall \<Rightarrow>
                 (let prev = calls_verify_tip (au_calls st) operatorId dayStart;
                      rows = day_calls (au_calls st) operatorId dayStart dayEnd
                  in mk_verify_result a operatorId (walk_tip (call_hash sha256 numstr) prev rows) (length rows)
                       (first_mismatch wc_id wc_rowHash (walk (call_hash sha256 numstr) prev rows)))
             | SRound \<Rightarrow>
                 (let prev = rounds_verify_tip (au_rounds st) operatorId dayStart;
                      rows = day_rounds (au_rounds st) operatorId dayStart dayEnd
                  in mk_verify_result a operatorId (walk_tip (round_hash sha256 numstr) prev rows) (length rows)
                       (first_mismatch ro_id ro_rowHash (walk (round_hash sha256 numstr) prev rows)))))))"

section \<open>The laws of a chained stream\<close>

text \<open>
  \<open>msg\<close> is what is hashed for a row, \<open>canon\<close> its canonical text; the message determines
  both the previous hash and the canonical text, because a hash has no newline. \<open>put\<close>
  stores the two hashes in a row, which changes neither its identity nor what is hashed.
\<close>

definition hash_like :: "string option \<Rightarrow> bool" where
  "hash_like p \<longleftrightarrow> NL \<notin> set (nullish p [])"

locale chained_rows =
  fixes sha256 :: sha_fun
    and h :: "string option \<Rightarrow> 'r \<Rightarrow> string"
    and msg :: "string option \<Rightarrow> 'r \<Rightarrow> string"
    and canon :: "'r \<Rightarrow> string"
    and rid :: "'r \<Rightarrow> uuid"
    and stored :: "'r \<Rightarrow> string option"
    and put :: "'r \<Rightarrow> string option \<Rightarrow> string \<Rightarrow> 'r"
  assumes h_msg: "h p r = digest_hex (sha256 (msg p r))"
    and msg_inj: "hash_like p \<Longrightarrow> hash_like q \<Longrightarrow> msg p r = msg q s \<Longrightarrow>
          nullish p [] = nullish q [] \<and> canon r = canon s"
    and put_h: "h p (put r q x) = h p r"
    and put_id: "rid (put r q x) = rid r"
    and put_stored: "stored (put r q x) = Some x"
begin

definition messages :: "string option \<Rightarrow> 'r list \<Rightarrow> string list" where
  "messages p rs = map (\<lambda>(r, q, x). msg q r) (walk h p rs)"

lemma walk_append: "walk h p (rs @ ss) = walk h p rs @ walk h (walk_tip h p rs) ss"
  by (induction rs arbitrary: p) simp_all

lemma walk_tip_append: "walk_tip h p (rs @ ss) = walk_tip h (walk_tip h p rs) ss"
  by (induction rs arbitrary: p) simp_all

lemma length_walk [simp]: "length (walk h p rs) = length rs"
  by (induction rs arbitrary: p) simp_all

lemma length_messages [simp]: "length (messages p rs) = length rs"
  by (simp add: messages_def)

lemma hash_like_h: "hash_like (Some (h p r))"
proof -
  have "NL \<notin> set (digest_hex d)" for d
    using hex_digits_all [of 64 "uint d"]
    by (auto simp: digest_hex_def list_all_iff NL_def is_hex_def hex_val_def)
  then show ?thesis by (simp add: hash_like_def h_msg)
qed

lemma hash_like_tip: "hash_like p \<Longrightarrow> hash_like (walk_tip h p rs)"
  by (induction rs arbitrary: p) (simp_all add: hash_like_h)

text \<open>Two walks of the same length from the same start with the same tip went over rows
  with the same canonical texts, or hashed two different messages to the same digest.\<close>

lemma same_tip:
  assumes "hash_like p" "length rs = length ss" "walk_tip h p rs = walk_tip h p ss"
  shows "map canon rs = map canon ss \<or>
    (\<exists>i < length rs. messages p rs ! i \<noteq> messages p ss ! i \<and>
        sha256 (messages p rs ! i) = sha256 (messages p ss ! i))"
  using assms(2,3)
proof (induction rs arbitrary: ss rule: rev_induct)
  case Nil
  then show ?case by simp
next
  case (snoc r rs)
  then obtain ss' s where ss: "ss = ss' @ [s]" "length ss' = length rs"
    by (cases ss rule: rev_exhaust) auto
  let ?t = "walk_tip h p rs" and ?t' = "walk_tip h p ss'"
  have m: "messages p (rs @ [r]) = messages p rs @ [msg ?t r]"
    "messages p (ss' @ [s]) = messages p ss' @ [msg ?t' s]"
    by (simp_all add: messages_def walk_append)
  have sha: "sha256 (msg ?t r) = sha256 (msg ?t' s)"
  proof -
    have "h ?t r = h ?t' s" using snoc.prems ss by (simp add: walk_tip_append)
    then show ?thesis unfolding h_msg by (rule digest_hex_inj)
  qed
  show ?case
  proof (cases "msg ?t r = msg ?t' s")
    case False
    then have "messages p (rs @ [r]) ! length rs \<noteq> messages p ss ! length rs \<and>
        sha256 (messages p (rs @ [r]) ! length rs) = sha256 (messages p ss ! length rs)"
      using sha ss by (simp add: m nth_append)
    then show ?thesis by (intro disjI2 exI [of _ "length rs"]) simp
  next
    case True
    then have c: "nullish ?t [] = nullish ?t' []" "canon r = canon s"
      using msg_inj hash_like_tip [OF assms(1)] by blast+
    have "?t = ?t'"
    proof (cases "rs = []")
      case True
      then show ?thesis using ss(2) by simp
    next
      case False
      then have "ss' \<noteq> []" using ss(2) by auto
      with False have "?t \<noteq> None" "?t' \<noteq> None"
        by (cases rs rule: rev_exhaust; cases ss' rule: rev_exhaust; simp add: walk_tip_append)+
      then show ?thesis using c(1) by auto
    qed
    from snoc.IH [OF ss(2) [symmetric] this]
    show ?thesis
    proof
      assume "map canon rs = map canon ss'"
      then show ?thesis using c(2) ss by simp
    next
      assume "\<exists>i < length rs. messages p rs ! i \<noteq> messages p ss' ! i \<and>
        sha256 (messages p rs ! i) = sha256 (messages p ss' ! i)"
      then obtain i where i: "i < length rs" "messages p rs ! i \<noteq> messages p ss' ! i"
        "sha256 (messages p rs ! i) = sha256 (messages p ss' ! i)" by blast
      then have "messages p (rs @ [r]) ! i \<noteq> messages p ss ! i \<and>
        sha256 (messages p (rs @ [r]) ! i) = sha256 (messages p ss ! i)"
        using ss by (simp add: m nth_append)
      then show ?thesis using i(1) by (intro disjI2 exI [of _ i]) simp
    qed
  qed
qed

text \<open>Writing the hashes of a walk into a table with distinct ids.\<close>

definition put_all :: "('r \<times> string option \<times> string) list \<Rightarrow> 'r list \<Rightarrow> 'r list" where
  "put_all steps tab =
     fold (\<lambda>x. update_where (\<lambda>r. rid r = rid (fst x)) (\<lambda>r. put r (fst (snd x)) (snd (snd x)))) steps tab"

definition put_by_id :: "('r \<times> string option \<times> string) list \<Rightarrow> 'r \<Rightarrow> 'r" where
  "put_by_id steps r =
     (case map_of (map (\<lambda>x. (rid (fst x), snd x)) steps) (rid r) of
        None \<Rightarrow> r | Some (q, x) \<Rightarrow> put r q x)"

lemma put_by_id_keeps: "rid (put_by_id steps r) = rid r" "h p (put_by_id steps r) = h p r"
  by (auto simp: put_by_id_def put_id put_h split: option.splits)

lemma put_all_map:
  "distinct (map (\<lambda>x. rid (fst x)) steps) \<Longrightarrow> put_all steps tab = map (put_by_id steps) tab"
proof (induction steps arbitrary: tab)
  case Nil
  have "put_by_id [] = (\<lambda>r. r)" by (simp add: put_by_id_def fun_eq_iff)
  then show ?case by (simp add: put_all_def)
next
  case (Cons x steps)
  then have "rid (fst x) \<notin> dom (map_of (map (\<lambda>x. (rid (fst x), snd x)) steps))"
    by (auto simp: dom_map_of_conv_image_fst image_image)
  then have n: "map_of (map (\<lambda>x. (rid (fst x), snd x)) steps) (rid (fst x)) = None" by auto
  have e: "put_by_id steps (if rid r = rid (fst x) then put r (fst (snd x)) (snd (snd x)) else r)
     = put_by_id (x # steps) r" for r
    using n by (cases x) (simp add: put_by_id_def put_id)
  have "put_all (x # steps) tab =
      put_all steps (update_where (\<lambda>r. rid r = rid (fst x)) (\<lambda>r. put r (fst (snd x)) (snd (snd x))) tab)"
    by (simp add: put_all_def)
  also have "\<dots> = map (put_by_id (x # steps)) tab"
    using Cons by (simp add: update_where_def e)
  finally show ?case .
qed

lemma walk_map: "(\<And>p r. h p (g r) = h p r) \<Longrightarrow>
   walk h p (map g rs) = map (\<lambda>(r, q, x). (g r, q, x)) (walk h p rs) \<and> walk_tip h p (map g rs) = walk_tip h p rs"
  by (induction rs arbitrary: p) auto

lemma map_fst_walk: "map fst (walk h p rs) = rs"
  by (induction rs arbitrary: p) simp_all

text \<open>After the repair of a day every row carries the hash that a replay computes.\<close>

lemma repaired_rows:
  assumes "distinct (map rid rs)"
    and "steps = filter (\<lambda>(r, q, x). stored r \<noteq> Some x \<or> other r q) (walk h p rs)"
    and "(r, q, x) \<in> set (walk h p rs)"
  shows "stored (put_by_id steps r) = Some x"
proof -
  have d: "distinct (map (\<lambda>x. rid (fst x)) (walk h p rs))"
  proof -
    have "map (\<lambda>x. rid (fst x)) (walk h p rs) = map rid (map fst (walk h p rs))" by simp
    then show ?thesis using assms(1) by (simp add: map_fst_walk del: map_map)
  qed
  let ?m = "map_of (map (\<lambda>x. (rid (fst x), snd x)) steps)"
  show ?thesis
  proof (cases "stored r \<noteq> Some x \<or> other r q")
    case True
    then have "(rid r, q, x) \<in> set (map (\<lambda>x. (rid (fst x), snd x)) steps)"
      using assms(2,3) by force
    moreover have "distinct (map fst (map (\<lambda>x. (rid (fst x), snd x)) steps))"
      using d by (simp add: assms(2) o_def distinct_map_filter)
    ultimately have "?m (rid r) = Some (q, x)" by (simp add: map_of_is_SomeI)
    then show ?thesis by (simp add: put_by_id_def put_stored)
  next
    case False
    have "?m (rid r) = None"
    proof (rule ccontr)
      assume "?m (rid r) \<noteq> None"
      then obtain r' q' x' where y: "(r', q', x') \<in> set steps" "rid r' = rid r"
        by (auto simp: map_of_eq_None_iff)
      then have "(r', q', x') \<in> set (walk h p rs)" by (simp add: assms(2))
      then have "(r', q', x') = (r, q, x)"
        using d assms(3) y(2) inj_onD [of "\<lambda>x. rid (fst x)" "set (walk h p rs)" "(r', q', x')" "(r, q, x)"]
        by (simp add: distinct_map)
      then show False using y(1) False by (simp add: assms(2))
    qed
    then show ?thesis using False by (simp add: put_by_id_def)
  qed
qed

lemma no_mismatch:
  assumes "distinct (map rid rs)"
    and "steps = filter (\<lambda>(r, q, x). stored r \<noteq> Some x \<or> other r q) (walk h p rs)"
  shows "first_mismatch rid stored (walk h p (map (put_by_id steps) rs)) = None"
proof -
  have "walk h p (map (put_by_id steps) rs) = map (\<lambda>(r, q, x). (put_by_id steps r, q, x)) (walk h p rs)"
    using walk_map [of "put_by_id steps"] put_by_id_keeps(2) by blast
  then show ?thesis
    using repaired_rows [OF assms] by (auto simp: first_mismatch_def find_None_iff)
qed

end

section \<open>The two streams\<close>

definition put_call_hash :: "wallet_call_row \<Rightarrow> string option \<Rightarrow> string \<Rightarrow> wallet_call_row" where
  "put_call_hash r q x = r\<lparr>wc_prevRowHash := q, wc_rowHash := Some x\<rparr>"

definition put_round_hash :: "round_row \<Rightarrow> string option \<Rightarrow> string \<Rightarrow> round_row" where
  "put_round_hash r q x = r\<lparr>ro_prevRowHash := q, ro_rowHash := Some x\<rparr>"

lemma chain_message_inj:
  "hash_like p \<Longrightarrow> hash_like q \<Longrightarrow> chain_message numstr p r = chain_message numstr q s \<Longrightarrow>
   nullish p [] = nullish q [] \<and> canonicalJson numstr r = canonicalJson numstr s"
  by (simp add: hash_like_def chain_message_def split_at_sep)

interpretation call_chain: chained_rows sha256 "call_hash sha256 numstr"
    "\<lambda>p r. chain_message numstr p (walletCallHashInput r)"
    "\<lambda>r. canonicalJson numstr (walletCallHashInput r)" wc_id wc_rowHash put_call_hash
  for sha256 :: sha_fun and numstr :: "jsnum \<Rightarrow> string"
  by unfold_locales
    (auto simp: call_hash_def hashRow_def put_call_hash_def walletCallHashInput_def
      simp del: canonicalJson.simps dest: chain_message_inj)

interpretation round_chain: chained_rows sha256 "round_hash sha256 numstr"
    "\<lambda>p r. chain_message numstr p (roundHashInput r)"
    "\<lambda>r. canonicalJson numstr (roundHashInput r)" ro_id ro_rowHash put_round_hash
  for sha256 :: sha_fun and numstr :: "jsnum \<Rightarrow> string"
  by unfold_locales
    (auto simp: round_hash_def hashRow_def put_round_hash_def roundHashInput_def
      simp del: canonicalJson.simps dest: chain_message_inj)

definition call_messages ::
    "sha_fun \<Rightarrow> (jsnum \<Rightarrow> string) \<Rightarrow> string option \<Rightarrow> wallet_call_row list \<Rightarrow> string list" where
  "call_messages sha256 numstr p rs =
     map (\<lambda>(r, q, x). chain_message numstr q (walletCallHashInput r)) (walk (call_hash sha256 numstr) p rs)"

definition call_texts :: "(jsnum \<Rightarrow> string) \<Rightarrow> wallet_call_row list \<Rightarrow> string list" where
  "call_texts numstr rs = map (\<lambda>r. canonicalJson numstr (walletCallHashInput r)) rs"

lemma verifyAnchor_calls:
  assumes "find (\<lambda>a. an_id a = i) (au_anchors st) = Some a" "an_operatorId a = Some op"
    and "an_streamName a = SWalletCall"
  defines "d \<equiv> an_periodDate a"
  defines "rows \<equiv> day_calls (au_calls st) op d (d + 86400000)"
    and "p \<equiv> calls_verify_tip (au_calls st) op d"
  shows "verifyAnchor sha256 numstr st i = Some (mk_verify_result a op
      (walk_tip (call_hash sha256 numstr) p rows) (length rows)
      (first_mismatch wc_id wc_rowHash (walk (call_hash sha256 numstr) p rows)))"
  using assms by (simp add: verifyAnchor_def Let_def)

lemma walk_tip_some: "rs \<noteq> [] \<Longrightarrow> walk_tip h p rs \<noteq> None"
proof (induction rs arbitrary: p)
  case (Cons r rs)
  then show ?case by (cases "rs = []") simp_all
qed simp

lemma repair_verifies:
  assumes "distinct (map wc_id calls)"
    and "summariseWalletCallDay sha256 numstr calls op d (d + 86400000) = (Some s, calls')"
    and "calls_verify_tip calls op d = calls_before_tip calls op d"
    and "find (\<lambda>a. an_id a = i) (au_anchors st) = Some a" "an_operatorId a = Some op"
    and "an_streamName a = SWalletCall" "an_periodDate a = d" "an_tipHash a = as_tipHash s"
    and "au_calls st = calls'"
  shows "\<exists>v. verifyAnchor sha256 numstr st i = Some v \<and> vr_match v \<and>
     vr_firstMismatchAtRowId v = None \<and> vr_rowCount v = as_rowCount s"
proof -
  let ?h = "call_hash sha256 numstr"
  let ?rows = "day_calls calls op d (d + 86400000)"
  let ?p = "calls_before_tip calls op d"
  define steps where "steps = filter (\<lambda>(r, p, h). wc_rowHash r \<noteq> Some h \<or> wc_prevRowHash r \<noteq> p) (walk ?h ?p ?rows)"
  define g where "g = call_chain.put_by_id steps"
  have sm: "calls' = fold set_call_hash steps calls" "as_tipHash s = nullish (walk_tip ?h ?p ?rows) []"
    "as_rowCount s = length ?rows"
    using assms(2) by (auto simp: summariseWalletCallDay_def steps_def Let_def split: if_splits)
  have dr: "distinct (map wc_id ?rows)"
    using assms(1) by (simp add: day_calls_def distinct_map inj_on_def)
  have "map wc_id (map fst (walk ?h ?p ?rows)) = map wc_id ?rows" by (simp only: call_chain.map_fst_walk)
  then have dw: "distinct (map (\<lambda>x. wc_id (fst x)) (walk ?h ?p ?rows))" using dr by (simp only: map_map o_def)
  then have ds: "distinct (map (\<lambda>x. wc_id (fst x)) steps)"
    unfolding steps_def by (rule distinct_map_filter)
  have c': "calls' = map g calls"
    using call_chain.put_all_map [OF ds, of calls]
    by (simp add: sm(1) g_def call_chain.put_all_def set_call_hash_def [abs_def] put_call_hash_def)
  have keep: "call_order (g r) = call_order r" "wc_operatorId (g r) = wc_operatorId r"
    "wc_createdAt (g r) = wc_createdAt r" for r
    by (auto simp: g_def call_chain.put_by_id_def put_call_hash_def call_order_def split: option.splits)
  have rows': "day_calls calls' op d (d + 86400000) = map g ?rows"
    unfolding day_calls_def c' by (rule sorted_selection_map) (simp_all add: keep)
  have before: "g r = r" if "r \<in> set calls" "wc_createdAt r < d" for r
  proof -
    have "wc_id r \<notin> (\<lambda>x. wc_id (fst x)) ` set steps"
    proof
      assume "wc_id r \<in> (\<lambda>x. wc_id (fst x)) ` set steps"
      then obtain x where x: "x \<in> set (walk ?h ?p ?rows)" "wc_id (fst x) = wc_id r" by (auto simp: steps_def)
      then have "fst x \<in> set ?rows" by (metis call_chain.map_fst_walk imageI list.set_map)
      then have "fst x \<in> set calls" "d \<le> wc_createdAt (fst x)" by (auto simp: day_calls_def)
      moreover from this x(2) that(1) have "fst x = r" using assms(1)
        by (auto simp: distinct_map dest: inj_onD)
      ultimately show False using that(2) by simp
    qed
    then have "map_of (map (\<lambda>x. (wc_id (fst x), snd x)) steps) (wc_id r) = None"
      by (auto simp: map_of_eq_None_iff image_image)
    then show ?thesis by (simp add: g_def call_chain.put_by_id_def)
  qed
  have tip: "calls_verify_tip calls' op d = ?p"
  proof -
    have "filter q (map g calls) = filter q calls" if "\<And>r. q r \<Longrightarrow> wc_createdAt r < d" for q
    proof -
      have "\<forall>r \<in> set calls. wc_createdAt r < d \<longrightarrow> g r = r" using before by blast
      then show ?thesis using that keep(3)
        by (induction calls) (auto, (metis keep(3))+)
    qed
    from this [of "\<lambda>r. wc_operatorId r = op \<and> wc_createdAt r < d \<and> wc_rowHash r \<noteq> None"]
    have "calls_verify_tip (map g calls) op d = calls_verify_tip calls op d"
      unfolding calls_verify_tip_def by simp
    then show ?thesis using assms(3) c' by simp
  qed
  have w: "walk_tip ?h ?p (map g ?rows) = walk_tip ?h ?p ?rows"
    using call_chain.walk_map [of sha256 numstr g] call_chain.put_by_id_keeps(2) unfolding g_def by blast
  have "first_mismatch wc_id wc_rowHash (walk ?h ?p (map g ?rows)) = None"
    unfolding g_def steps_def by (rule call_chain.no_mismatch [OF dr refl])
  then show ?thesis
    using verifyAnchor_calls [OF assms(4-6), of sha256 numstr] assms(7-9)
    by (simp add: mk_verify_result_def rows' tip w sm(2,3))
qed

section \<open>Properties\<close>




text \<open>Anchoring repairs: after the daily summary of any call log with distinct ids, a
  verification of the resulting anchor replays the same rows to the same tip and finds no
  mismatching row, whatever hashes were stored before, provided the last row before the
  day has a hash.\<close>

theorem audit_repair_verifies:
  assumes "distinct (map wc_id calls)"
    and "summariseWalletCallDay sha256 numstr calls op d (d + 86400000) = (Some s, calls')"
    and "calls_verify_tip calls op d = calls_before_tip calls op d"
    and "find (\<lambda>a. an_id a = i) (au_anchors st) = Some a" "an_operatorId a = Some op"
    and "an_streamName a = SWalletCall" "an_periodDate a = d" "an_tipHash a = as_tipHash s"
    and "au_calls st = calls'"
  shows "\<exists>v. verifyAnchor sha256 numstr st i = Some v \<and> vr_match v \<and>
     vr_firstMismatchAtRowId v = None \<and> vr_rowCount v = as_rowCount s"
  using assms by (rule repair_verifies)

text \<open>A log of one call, its anchor and the state in which both are stored.\<close>

definition one_call :: wallet_call_row where
  "one_call = \<lparr>wc_id = ''c1'', wc_operatorId = ''op'', wc_direction = ''OUTBOUND'', wc_endpoint = EBET,
     wc_requestUuid = ''r'', wc_transactionUuid = Some ''t'', wc_referenceTransactionUuid = None,
     wc_sessionId = None, wc_roundId = None, wc_playerRef = Some ''p'', wc_amountMicro = Some 5,
     wc_currency = Some ''LKR'', wc_requestBody = JObj [], wc_responseStatus = Some ''RS_OK'',
     wc_responseBody = JObj [], wc_httpStatus = None, wc_latencyMs = Some 3, wc_attempt = 1,
     wc_succeeded = True, wc_createdAt = 10, wc_prevRowHash = None, wc_rowHash = None\<rparr>"

definition no_num :: "jsnum \<Rightarrow> string" where "no_num x = ''0''"

definition zero_sha :: sha_fun where "zero_sha s = 0"

definition one_summary :: anchor_summary where
  "one_summary = the (fst (summariseWalletCallDay zero_sha no_num [one_call] ''op'' 0 86400000))"

definition one_store :: audit_store where
  "one_store = \<lparr>au_calls = snd (summariseWalletCallDay zero_sha no_num [one_call] ''op'' 0 86400000),
     au_rounds = [],
     au_anchors = [\<lparr>an_id = ''a'', an_periodDate = 0, an_streamName = SWalletCall, an_operatorId = Some ''op'',
       an_firstRowId = None, an_lastRowId = None, an_rowCount = 1, an_tipHash = as_tipHash one_summary,
       an_manifest = JNull, an_signature = []\<rparr>],
     au_operators = [''op'']\<rparr>"

lemma one_summarise:
  "summariseWalletCallDay zero_sha no_num [one_call] ''op'' 0 (0 + 86400000) = (Some one_summary, au_calls one_store)"
  by (simp add: one_store_def one_summary_def summariseWalletCallDay_def day_calls_def one_call_def Let_def)

theorem audit_repair_verifies_witness:
  "\<exists>v. verifyAnchor zero_sha no_num one_store ''a'' = Some v \<and> vr_match v \<and>
     vr_firstMismatchAtRowId v = None \<and> vr_rowCount v = as_rowCount one_summary"
  by (rule audit_repair_verifies [OF _ one_summarise _ _ _ _ _ _ refl, where a = "hd (au_anchors one_store)"])
    (simp_all add: one_store_def one_call_def calls_verify_tip_def calls_before_tip_def)


end
