(* ===== verification/MockWallet.thy ===== *)
theory MockWallet
  imports WalletTypes
begin

text \<open>
  The mock operator's wallet: the store of \<^verbatim>\<open>apps/mock-operator/src/wallet/store.ts\<close>, the
  signature gate of \<^verbatim>\<open>apps/mock-operator/src/wallet/signing.ts\<close> and the handlers of
  \<^verbatim>\<open>apps/mock-operator/src/wallet/router.ts\<close>. The ledger is the list of its entries, newest
  first, with one entry per transaction.
\<close>

section \<open>The store\<close>

definition SEED_BALANCE_MICRO :: micro where
  "SEED_BALANCE_MICRO = 1000000000"

definition SEED_PLAYERS :: "string list" where
  "SEED_PLAYERS = [''p-alice'', ''p-bob'', ''p-charlie'']"

definition keyOf :: "string \<Rightarrow> string \<Rightarrow> string" where
  "keyOf operatorId playerRef = operatorId @ '':'' @ playerRef"

datatype tx_kind = TxBet | TxWin

record ledger_entry =
  le_kind :: tx_kind
  le_key :: string
  le_amountMicro :: micro
  le_rolledBack :: bool

record wallet_store =
  wt_wallets :: "string \<rightharpoonup> micro"
  wt_ledger :: "(uuid \<times> ledger_entry) list"
  wt_processed :: "uuid \<rightharpoonup> micro"
  wt_rollbackTxs :: "uuid set"

definition new_wallet_store :: "string \<Rightarrow> wallet_store" where
  "new_wallet_store operatorId =
     \<lparr>wt_wallets = map_of (map (\<lambda>p. (keyOf operatorId p, SEED_BALANCE_MICRO)) SEED_PLAYERS),
      wt_ledger = [], wt_processed = Map.empty, wt_rollbackTxs = {}\<rparr>"

definition getOrInit :: "wallet_store \<Rightarrow> string \<Rightarrow> micro \<times> wallet_store" where
  "getOrInit w key =
     (case wt_wallets w key of
        Some m \<Rightarrow> (m, w)
      | None \<Rightarrow> (SEED_BALANCE_MICRO, w\<lparr>wt_wallets := (wt_wallets w)(key \<mapsto> SEED_BALANCE_MICRO)\<rparr>))"

definition mw_set :: "wallet_store \<Rightarrow> string \<Rightarrow> micro \<Rightarrow> wallet_store" where
  "mw_set w key m = w\<lparr>wt_wallets := (wt_wallets w)(key \<mapsto> m)\<rparr>"

definition mw_record :: "wallet_store \<Rightarrow> uuid \<Rightarrow> tx_kind \<Rightarrow> string \<Rightarrow> micro \<Rightarrow> wallet_store" where
  "mw_record w t kind key a = w\<lparr>wt_ledger :=
     (t, \<lparr>le_kind = kind, le_key = key, le_amountMicro = a, le_rolledBack = False\<rparr>) # wt_ledger w\<rparr>"

definition mw_balance :: "wallet_store \<Rightarrow> string \<Rightarrow> string \<Rightarrow> micro \<times> wallet_store" where
  "mw_balance w operatorId playerRef = getOrInit w (keyOf operatorId playerRef)"

definition mw_bet :: "wallet_store \<Rightarrow> string \<Rightarrow> string \<Rightarrow> uuid \<Rightarrow> micro \<Rightarrow> (rs_status \<times> micro) \<times> wallet_store" where
  "mw_bet w operatorId playerRef t amount =
     (let key = keyOf operatorId playerRef; (bal, w1) = getOrInit w key in
      case map_of (wt_ledger w1) t of
        Some e \<Rightarrow>
          if le_kind e \<noteq> TxBet \<or> le_key e \<noteq> key \<or> le_amountMicro e \<noteq> amount
          then ((RsDUPLICATE_TRANSACTION, bal), w1)
          else ((RsOK, bal), w1)
      | None \<Rightarrow>
          if amount \<le> 0 then ((RsWRONG_SYNTAX, bal), w1)
          else if bal < amount then ((RsNOT_ENOUGH_MONEY, bal), w1)
          else ((RsOK, bal - amount), mw_record (mw_set w1 key (bal - amount)) t TxBet key amount))"

definition mw_win :: "wallet_store \<Rightarrow> string \<Rightarrow> string \<Rightarrow> uuid \<Rightarrow> micro \<Rightarrow> (rs_status \<times> micro) \<times> wallet_store" where
  "mw_win w operatorId playerRef t amount =
     (let key = keyOf operatorId playerRef; (bal, w1) = getOrInit w key in
      case map_of (wt_ledger w1) t of
        Some e \<Rightarrow>
          if le_kind e \<noteq> TxWin \<or> le_key e \<noteq> key \<or> le_amountMicro e \<noteq> amount
          then ((RsDUPLICATE_TRANSACTION, bal), w1)
          else ((RsOK, bal), w1)
      | None \<Rightarrow>
          if amount < 0 then ((RsWRONG_SYNTAX, bal), w1)
          else ((RsOK, bal + amount), mw_record (mw_set w1 key (bal + amount)) t TxWin key amount))"

text \<open>Marks the entry of a transaction as reversed.\<close>

definition mark_rolled_back :: "uuid \<Rightarrow> (uuid \<times> ledger_entry) list \<Rightarrow> (uuid \<times> ledger_entry) list" where
  "mark_rolled_back t = map (\<lambda>(u, e). if u = t then (u, e\<lparr>le_rolledBack := True\<rparr>) else (u, e))"

definition mw_rollback ::
    "wallet_store \<Rightarrow> string \<Rightarrow> string \<Rightarrow> uuid \<Rightarrow> uuid \<Rightarrow> (rs_status \<times> micro) \<times> wallet_store" where
  "mw_rollback w operatorId playerRef rollbackTx referenceTx =
     (let key = keyOf operatorId playerRef; (bal, w1) = getOrInit w key in
      if rollbackTx \<in> wt_rollbackTxs w1 then ((RsOK, bal), w1)
      else case map_of (wt_ledger w1) referenceTx of
        None \<Rightarrow> ((RsTRANSACTION_NOT_FOUND, bal), w1)
      | Some e \<Rightarrow>
          if le_key e \<noteq> key then ((RsTRANSACTION_NOT_FOUND, bal), w1)
          else if le_rolledBack e
          then ((RsOK, bal), w1\<lparr>wt_rollbackTxs := insert rollbackTx (wt_rollbackTxs w1)\<rparr>)
          else
            (let bal1 = (if le_kind e = TxBet then bal + le_amountMicro e
                         else if bal - le_amountMicro e < 0 then 0 else bal - le_amountMicro e)
             in ((RsOK, bal1),
                 (mw_set w1 key bal1)
                   \<lparr>wt_ledger := mark_rolled_back referenceTx (wt_ledger w1),
                    wt_rollbackTxs := insert rollbackTx (wt_rollbackTxs w1)\<rparr>)))"

definition rememberRequest :: "wallet_store \<Rightarrow> uuid \<Rightarrow> micro \<Rightarrow> wallet_store" where
  "rememberRequest w requestUuid m = w\<lparr>wt_processed := (wt_processed w)(requestUuid \<mapsto> m)\<rparr>"

definition recallRequest :: "wallet_store \<Rightarrow> uuid \<Rightarrow> micro option" where
  "recallRequest w requestUuid = wt_processed w requestUuid"

section \<open>The signature gate\<close>

datatype inbound_verdict =
    VOk | VMissingHeaders | VBadTimestamp | VStaleTimestamp | VBadSignature

definition verifyInboundSignature ::
    "sha_fun \<Rightarrow> hmac_fun \<Rightarrow> string \<Rightarrow> string \<Rightarrow> string \<Rightarrow> string option \<Rightarrow> string option \<Rightarrow> string \<Rightarrow>
     int \<Rightarrow> int \<Rightarrow> inbound_verdict" where
  "verifyInboundSignature sha256 hmac secret meth path timestamp signature body windowSeconds nowSec =
     (case (timestamp, signature) of
        (Some ts, Some sig) \<Rightarrow>
          if ts = [] \<or> sig = [] then VMissingHeaders
          else (case parseInt10 ts of
              None \<Rightarrow> VBadTimestamp
            | Some tsNum \<Rightarrow>
                if windowSeconds < \<bar>nowSec - tsNum\<bar> then VStaleTimestamp
                else let a = b64_decode (signPayload sha256 hmac secret meth path (TsString ts) body);
                         b = b64_decode sig
                     in if length a \<noteq> length b then VBadSignature
                        else if a = b then VOk else VBadSignature)
      | _ \<Rightarrow> VMissingHeaders)"

section \<open>The handlers\<close>

text \<open>A parsed request body: the string members the handlers read.\<close>

record wire_body =
  bd_requestUuid :: "string option"
  bd_transactionUuid :: "string option"
  bd_referenceTransactionUuid :: "string option"
  bd_playerRef :: "string option"
  bd_currency :: "string option"
  bd_amountMicro :: "string option"
  bd_operatorId :: "string option"

record wire_reply =
  wp_http :: int
  wp_status :: rs_status
  wp_requestUuid :: string
  wp_balanceMicro :: "string option"
  wp_currency :: "string option"
  wp_message :: "string option"

definition sendError :: "wire_body \<Rightarrow> rs_status \<Rightarrow> string \<Rightarrow> wire_reply" where
  "sendError body st msg =
     \<lparr>wp_http = (if st = RsINVALID_SIGNATURE then 401 else 200), wp_status = st,
      wp_requestUuid = nullish (bd_requestUuid body) [], wp_balanceMicro = None,
      wp_currency = None, wp_message = (if msg = [] then None else Some msg)\<rparr>"

definition sendOk :: "wire_body \<Rightarrow> rs_status \<Rightarrow> micro \<Rightarrow> wire_reply" where
  "sendOk body st m =
     \<lparr>wp_http = 200, wp_status = st, wp_requestUuid = the (bd_requestUuid body),
      wp_balanceMicro = Some (show_int m), wp_currency = bd_currency body, wp_message = None\<rparr>"

record mock_config =
  mc_operatorId :: string
  mc_walletSecret :: string
  mc_signatureWindowSeconds :: int

record signed_request =
  sq_kid :: "string option"
  sq_timestamp :: "string option"
  sq_signature :: "string option"
  sq_method :: string
  sq_originalUrl :: string
  sq_rawBody :: string

fun verdict_reason :: "inbound_verdict \<Rightarrow> string" where
  "verdict_reason VOk = []"
| "verdict_reason VMissingHeaders = ''missing_headers''"
| "verdict_reason VBadTimestamp = ''bad_timestamp''"
| "verdict_reason VStaleTimestamp = ''stale_timestamp''"
| "verdict_reason VBadSignature = ''bad_signature''"

text \<open>\<open>None\<close>: the request may proceed; otherwise the reply that has been sent.\<close>

definition requireValidSignature ::
    "sha_fun \<Rightarrow> hmac_fun \<Rightarrow> mock_config \<Rightarrow> int \<Rightarrow> signed_request \<Rightarrow> wire_body \<Rightarrow> wire_reply option" where
  "requireValidSignature sha256 hmac cfg nowSec req body =
     (if \<not> truthy (sq_kid req) then Some (sendError body RsINVALID_SIGNATURE ''missing key id'')
      else let v = verifyInboundSignature sha256 hmac (mc_walletSecret cfg) (sq_method req)
                 (takeWhile (\<lambda>c. c \<noteq> CHR ''?'') (sq_originalUrl req)) (sq_timestamp req)
                 (sq_signature req) (sq_rawBody req) (mc_signatureWindowSeconds cfg) nowSec
           in if v \<noteq> VOk then Some (sendError body RsINVALID_SIGNATURE (verdict_reason v)) else None)"

definition balance_handler :: "mock_config \<Rightarrow> wallet_store \<Rightarrow> wire_body \<Rightarrow> wire_reply \<times> wallet_store" where
  "balance_handler cfg w body =
     (if \<not> truthy (bd_requestUuid body) \<or> \<not> truthy (bd_playerRef body) \<or> \<not> truthy (bd_currency body)
      then (sendError body RsWRONG_SYNTAX ''missing required fields'', w)
      else let (m, w1) = mw_balance w (nullish (bd_operatorId body) (mc_operatorId cfg))
                 (the (bd_playerRef body))
           in (sendOk body RsOK m, w1))"

text \<open>What the three money handlers share: the request cache before, the memory after.\<close>

definition finish_handler ::
    "wire_body \<Rightarrow> (rs_status \<times> micro) \<times> wallet_store \<Rightarrow> wire_reply \<times> wallet_store" where
  "finish_handler body r =
     (let ((st, m), w1) = r in
      (sendOk body st m, if st = RsOK then rememberRequest w1 (the (bd_requestUuid body)) m else w1))"

definition bet_handler :: "mock_config \<Rightarrow> wallet_store \<Rightarrow> wire_body \<Rightarrow> wire_reply \<times> wallet_store" where
  "bet_handler cfg w body =
     (if \<not> truthy (bd_requestUuid body) \<or> \<not> truthy (bd_transactionUuid body) \<or>
         \<not> truthy (bd_playerRef body) \<or> \<not> truthy (bd_currency body) \<or> \<not> truthy (bd_amountMicro body)
      then (sendError body RsWRONG_SYNTAX ''missing required fields'', w)
      else case recallRequest w (the (bd_requestUuid body)) of
        Some prev \<Rightarrow> (sendOk body RsOK prev, w)
      | None \<Rightarrow>
          (case js_BigInt (the (bd_amountMicro body)) of
             None \<Rightarrow> (sendError body RsWRONG_TYPES ''amountMicro must be integer string'', w)
           | Some amount \<Rightarrow> finish_handler body
               (mw_bet w (nullish (bd_operatorId body) (mc_operatorId cfg)) (the (bd_playerRef body))
                  (the (bd_transactionUuid body)) amount)))"

definition win_handler :: "mock_config \<Rightarrow> wallet_store \<Rightarrow> wire_body \<Rightarrow> wire_reply \<times> wallet_store" where
  "win_handler cfg w body =
     (if \<not> truthy (bd_requestUuid body) \<or> \<not> truthy (bd_transactionUuid body) \<or>
         \<not> truthy (bd_referenceTransactionUuid body) \<or>
         \<not> truthy (bd_playerRef body) \<or> \<not> truthy (bd_currency body) \<or> \<not> truthy (bd_amountMicro body)
      then (sendError body RsWRONG_SYNTAX ''missing required fields'', w)
      else case recallRequest w (the (bd_requestUuid body)) of
        Some prev \<Rightarrow> (sendOk body RsOK prev, w)
      | None \<Rightarrow>
          (case js_BigInt (the (bd_amountMicro body)) of
             None \<Rightarrow> (sendError body RsWRONG_TYPES ''amountMicro must be integer string'', w)
           | Some amount \<Rightarrow> finish_handler body
               (mw_win w (nullish (bd_operatorId body) (mc_operatorId cfg)) (the (bd_playerRef body))
                  (the (bd_transactionUuid body)) amount)))"

definition rollback_handler :: "mock_config \<Rightarrow> wallet_store \<Rightarrow> wire_body \<Rightarrow> wire_reply \<times> wallet_store" where
  "rollback_handler cfg w body =
     (if \<not> truthy (bd_requestUuid body) \<or> \<not> truthy (bd_transactionUuid body) \<or>
         \<not> truthy (bd_referenceTransactionUuid body) \<or>
         \<not> truthy (bd_playerRef body) \<or> \<not> truthy (bd_currency body)
      then (sendError body RsWRONG_SYNTAX ''missing required fields'', w)
      else case recallRequest w (the (bd_requestUuid body)) of
        Some prev \<Rightarrow> (sendOk body RsOK prev, w)
      | None \<Rightarrow> finish_handler body
          (mw_rollback w (nullish (bd_operatorId body) (mc_operatorId cfg)) (the (bd_playerRef body))
             (the (bd_transactionUuid body)) (the (bd_referenceTransactionUuid body))))"

section \<open>The store as an adapter\<close>

definition mw_response :: "wallet_common \<Rightarrow> rs_status \<times> micro \<Rightarrow> wallet_response" where
  "mw_response q r = \<lparr>ws_status = fst r, ws_requestUuid = wq_requestUuid q,
     ws_balanceMicro = Some (snd r), ws_currency = Some (wq_currency q), ws_message = None\<rparr>"

fun mw_step :: "wallet_store \<Rightarrow> wallet_op \<Rightarrow> wallet_response \<times> wallet_store" where
  "mw_step w (WBalance q) =
     (let (m, w1) = mw_balance w (wq_operatorId q) (wq_playerRef q)
      in (mw_response q (RsOK, m), w1))"
| "mw_step w (WBet q) =
     apfst (mw_response (wallet_common.truncate q))
       (mw_bet w (wq_operatorId q) (wq_playerRef q) (wb_transactionUuid q) (wb_amountMicro q))"
| "mw_step w (WWin q) =
     apfst (mw_response (wallet_common.truncate q))
       (mw_win w (wq_operatorId q) (wq_playerRef q) (ww_transactionUuid q) (ww_amountMicro q))"
| "mw_step w (WRollback q) =
     apfst (mw_response (wallet_common.truncate q))
       (mw_rollback w (wq_operatorId q) (wq_playerRef q) (wr_transactionUuid q)
          (wr_referenceTransactionUuid q))"

fun mw_run :: "wallet_store \<Rightarrow> wallet_op list \<Rightarrow> wallet_store" where
  "mw_run w [] = w"
| "mw_run w (oper # ops) = mw_run (snd (mw_step w oper)) ops"

text \<open>What a player holds: a wallet that is not there yet starts with the seed balance.\<close>

definition mw_funds :: "wallet_store \<Rightarrow> string \<Rightarrow> micro" where
  "mw_funds w key = nullish (wt_wallets w key) SEED_BALANCE_MICRO"

definition mw_settled :: "wallet_store \<Rightarrow> uuid \<Rightarrow> bool" where
  "mw_settled w t \<longleftrightarrow> map_of (wt_ledger w) t \<noteq> None"

lemma getOrInit_props:
  assumes "getOrInit w key = (m, w1)"
  shows "m = mw_funds w key" "wt_ledger w1 = wt_ledger w" "wt_rollbackTxs w1 = wt_rollbackTxs w"
    "wt_processed w1 = wt_processed w" "mw_funds w1 k = mw_funds w k"
  using assms by (auto simp: getOrInit_def mw_funds_def split: option.splits)

lemma mw_frame [simp, frame_simps]:
  "mw_funds (mw_set w key m) k = (if k = key then m else mw_funds w k)"
  "mw_funds (mw_record w t kd key a) k = mw_funds w k"
  "mw_funds (w\<lparr>wt_ledger := l\<rparr>) k = mw_funds w k"
  "mw_funds (w\<lparr>wt_rollbackTxs := x\<rparr>) k = mw_funds w k"
  "mw_funds (w\<lparr>wt_processed := pr\<rparr>) k = mw_funds w k"
  "wt_ledger (mw_set w key m) = wt_ledger w"
  "wt_rollbackTxs (mw_set w key m) = wt_rollbackTxs w"
  "wt_ledger (mw_record w t kd key a) =
     (t, \<lparr>le_kind = kd, le_key = key, le_amountMicro = a, le_rolledBack = False\<rparr>) # wt_ledger w"
  by (simp_all add: mw_funds_def mw_set_def mw_record_def)

lemma map_of_mark:
  "map_of (mark_rolled_back t l) u =
     (if u = t then map_option (\<lambda>e. e\<lparr>le_rolledBack := True\<rparr>) (map_of l u) else map_of l u)"
  by (induction l) (auto simp: mark_rolled_back_def)

lemma fst_mark [simp]: "map fst (mark_rolled_back t l) = map fst l"
  by (auto simp: mark_rolled_back_def)

lemmas mw_ops = mw_balance_def mw_bet_def mw_win_def mw_rollback_def mw_settled_def mw_response_def

lemma mw_settled_step: "mw_settled s t \<Longrightarrow> mw_settled (snd (mw_step s oper)) t"
  by (cases oper) (auto simp: mw_ops Let_def getOrInit_props map_of_mark split: prod.splits option.splits)

interpretation mw: durable_wallet mw_step mw_funds mw_settled
proof
  fix s q p
  show "mw_funds (snd (mw_step s (WBalance q))) p = mw_funds s p"
    by (auto simp: mw_ops getOrInit_props split: prod.splits)
next
  fix oper t s
  assume "op_is_payment oper" "op_tx oper = Some t" "ws_status (fst (mw_step s oper)) = RsOK"
  then show "mw_settled (snd (mw_step s oper)) t"
    by (cases oper) (auto simp: mw_ops Let_def split: prod.splits option.splits if_splits)
next
  fix oper t s p
  assume "op_is_payment oper" "op_tx oper = Some t" "mw_settled s t"
  then show "mw_funds (snd (mw_step s oper)) p = mw_funds s p"
    by (cases oper) (auto simp: mw_ops Let_def getOrInit_props split: prod.splits)
qed (simp_all add: mw_settled_step)

lemma mw_run_eq: "mw.run w ops = mw_run w ops"
  by (induction ops arbitrary: w) simp_all

section \<open>Conservation\<close>

text \<open>What a ledger entry that has not been reversed moved in the wallet of a key.\<close>

definition live_amount :: "string \<Rightarrow> uuid \<times> ledger_entry \<Rightarrow> micro" where
  "live_amount key x =
     (if le_key (snd x) = key \<and> \<not> le_rolledBack (snd x)
      then (if le_kind (snd x) = TxBet then - le_amountMicro (snd x) else le_amountMicro (snd x))
      else 0)"

text \<open>
  Transactions are recorded once, bets with a positive and wins with a non-negative amount;
  no wallet is negative; a wallet holds at least the seed plus what the live entries of
  its key moved, and exactly that while no win has been reversed (reversing a win that
  has been spent clamps at zero).
\<close>

definition mw_inv :: "wallet_store \<Rightarrow> bool" where
  "mw_inv w \<longleftrightarrow> distinct (map fst (wt_ledger w)) \<and>
     (\<forall>x \<in> set (wt_ledger w). 0 \<le> le_amountMicro (snd x)) \<and>
     (\<forall>key. 0 \<le> mw_funds w key \<and>
        SEED_BALANCE_MICRO + sum_by (live_amount key) (wt_ledger w) \<le> mw_funds w key \<and>
        ((\<forall>x \<in> set (wt_ledger w). le_rolledBack (snd x) \<longrightarrow> le_kind (snd x) = TxBet) \<longrightarrow>
           mw_funds w key = SEED_BALANCE_MICRO + sum_by (live_amount key) (wt_ledger w)))"

lemma sum_by_mark:
  assumes "distinct (map fst l)" "map_of l t = Some e" "\<not> le_rolledBack e"
  shows "sum_by (live_amount key) (mark_rolled_back t l) =
    sum_by (live_amount key) l - live_amount key (t, e)"
  using assms
proof (induction l)
  case (Cons x l)
  have "t \<notin> set (map fst l) \<Longrightarrow> mark_rolled_back t l = l"
    by (force simp: mark_rolled_back_def intro!: map_idI)
  with Cons show ?case
    by (cases x) (auto simp: mark_rolled_back_def live_amount_def split: if_splits)
qed simp

lemma mw_inv_cong:
  "wt_ledger w' = wt_ledger w \<Longrightarrow> (\<And>k. mw_funds w' k = mw_funds w k) \<Longrightarrow> mw_inv w \<Longrightarrow> mw_inv w'"
  by (simp add: mw_inv_def)

lemma mw_inv_record:
  assumes "mw_inv w" "wt_ledger w' = (t, e) # wt_ledger w" "map_of (wt_ledger w) t = None"
    and "\<not> le_rolledBack e" "0 \<le> le_amountMicro e"
    and "\<And>k. mw_funds w' k = mw_funds w k + live_amount k (t, e)"
    and "0 \<le> mw_funds w' (le_key e)"
  shows "mw_inv w'"
proof -
  have "live_amount k (t, e) = 0" if "k \<noteq> le_key e" for k
    using that by (simp add: live_amount_def)
  then have "0 \<le> mw_funds w' k" for k
    using assms(1,6,7) by (cases "k = le_key e") (auto simp: mw_inv_def)
  moreover have "t \<notin> fst ` set (wt_ledger w)" using assms(3) by (simp add: map_of_eq_None_iff)
  ultimately show ?thesis
    using assms(1,2,4,5,6) unfolding mw_inv_def by simp
qed

lemma ball_mark:
  assumes "map_of l t = Some e" "distinct (map fst l)"
  shows "(\<forall>x \<in> set l. 0 \<le> le_amountMicro (snd x)) \<Longrightarrow>
         (\<forall>x \<in> set (mark_rolled_back t l). 0 \<le> le_amountMicro (snd x))"
    and "(\<forall>x \<in> set (mark_rolled_back t l). le_rolledBack (snd x) \<longrightarrow> le_kind (snd x) = TxBet) \<Longrightarrow>
         (\<forall>x \<in> set l. le_rolledBack (snd x) \<longrightarrow> le_kind (snd x) = TxBet) \<and> le_kind e = TxBet"
proof -
  assume h: "\<forall>x \<in> set (mark_rolled_back t l). le_rolledBack (snd x) \<longrightarrow> le_kind (snd x) = TxBet"
  have k: "le_kind d = TxBet" if "(u, d) \<in> set l" "le_rolledBack d \<or> u = t" for u d
  proof (cases "u = t")
    case True
    with that(1) have "(u, d\<lparr>le_rolledBack := True\<rparr>) \<in> set (mark_rolled_back t l)"
      by (force simp: mark_rolled_back_def)
    with h show ?thesis by fastforce
  next
    case False
    with that(1) have "(u, d) \<in> set (mark_rolled_back t l)" by (force simp: mark_rolled_back_def)
    with h that(2) False show ?thesis by fastforce
  qed
  have "le_kind (snd x) = TxBet" if "x \<in> set l" "le_rolledBack (snd x)" for x
    using k [of "fst x" "snd x"] that by simp
  moreover have "le_kind e = TxBet" using k [of t e] assms(1) by (simp add: map_of_SomeD)
  ultimately show "(\<forall>x \<in> set l. le_rolledBack (snd x) \<longrightarrow> le_kind (snd x) = TxBet) \<and> le_kind e = TxBet"
    by simp
next
  assume "\<forall>x \<in> set l. 0 \<le> le_amountMicro (snd x)"
  then show "\<forall>x \<in> set (mark_rolled_back t l). 0 \<le> le_amountMicro (snd x)"
    by (simp add: mark_rolled_back_def split: prod.splits) force
qed

lemma mw_inv_mark:
  assumes inv: "mw_inv w" and l: "wt_ledger w' = mark_rolled_back t (wt_ledger w)"
    and e: "map_of (wt_ledger w) t = Some e" "\<not> le_rolledBack e"
    and f: "\<And>k. mw_funds w' k = (if k \<noteq> le_key e then mw_funds w k
        else if le_kind e = TxBet then mw_funds w k + le_amountMicro e
        else if mw_funds w k - le_amountMicro e < 0 then 0 else mw_funds w k - le_amountMicro e)"
  shows "mw_inv w'"
proof -
  have d: "distinct (map fst (wt_ledger w))" using inv by (simp add: mw_inv_def)
  have a: "0 \<le> le_amountMicro e" using inv e by (force simp: mw_inv_def dest: map_of_SomeD)
  have live: "sum_by (live_amount k) (wt_ledger w') = sum_by (live_amount k) (wt_ledger w) -
      (if k = le_key e then (if le_kind e = TxBet then - le_amountMicro e else le_amountMicro e) else 0)" for k
    using sum_by_mark [OF d e, of k] e(2) by (simp add: l live_amount_def)
  have "0 \<le> mw_funds w' k \<and>
        SEED_BALANCE_MICRO + sum_by (live_amount k) (wt_ledger w') \<le> mw_funds w' k \<and>
        ((\<forall>x \<in> set (wt_ledger w'). le_rolledBack (snd x) \<longrightarrow> le_kind (snd x) = TxBet) \<longrightarrow>
           mw_funds w' k = SEED_BALANCE_MICRO + sum_by (live_amount k) (wt_ledger w'))" for k
  proof -
    have i: "0 \<le> mw_funds w k"
      "SEED_BALANCE_MICRO + sum_by (live_amount k) (wt_ledger w) \<le> mw_funds w k"
      "(\<forall>x \<in> set (wt_ledger w). le_rolledBack (snd x) \<longrightarrow> le_kind (snd x) = TxBet) \<Longrightarrow>
         mw_funds w k = SEED_BALANCE_MICRO + sum_by (live_amount k) (wt_ledger w)"
      using inv by (simp_all add: mw_inv_def)
    note b = ball_mark(2) [OF e(1) d, folded l]
    show ?thesis
      unfolding live f using i a b by (cases "k = le_key e"; cases "le_kind e = TxBet") auto
  qed
  moreover have "\<forall>x \<in> set (wt_ledger w'). 0 \<le> le_amountMicro (snd x)"
    unfolding l using inv by (intro ball_mark(1) [OF e(1) d]) (simp add: mw_inv_def)
  ultimately show ?thesis using d unfolding mw_inv_def by (simp add: l)
qed

lemma mw_bet_inv: "mw_inv w \<Longrightarrow> mw_inv (snd (mw_bet w opid p t amount))"
proof -
  assume inv: "mw_inv w"
  obtain bal w1 where g: "getOrInit w (keyOf opid p) = (bal, w1)" by fastforce
  note g' = getOrInit_props [OF g]
  have i1: "mw_inv w1" using mw_inv_cong [OF g'(2,5) inv] by simp
  show ?thesis
  proof (cases "map_of (wt_ledger w1) t = None \<and> 0 < amount \<and> amount \<le> bal")
    case True
    then show ?thesis using g'(1,5)
      by (intro mw_inv_record [OF i1]) (auto simp: mw_bet_def g Let_def live_amount_def)
  next
    case False
    then have "snd (mw_bet w opid p t amount) = w1"
      by (auto simp: mw_bet_def g Let_def split: option.splits)
    then show ?thesis using i1 by simp
  qed
qed

lemma mw_win_inv: "mw_inv w \<Longrightarrow> mw_inv (snd (mw_win w opid p t amount))"
proof -
  assume inv: "mw_inv w"
  obtain bal w1 where g: "getOrInit w (keyOf opid p) = (bal, w1)" by fastforce
  note g' = getOrInit_props [OF g]
  have i1: "mw_inv w1" using mw_inv_cong [OF g'(2,5) inv] by simp
  then have "0 \<le> bal" using g'(1,5) by (simp add: mw_inv_def)
  show ?thesis
  proof (cases "map_of (wt_ledger w1) t = None \<and> 0 \<le> amount")
    case True
    then show ?thesis using g'(1,5) \<open>0 \<le> bal\<close>
      by (intro mw_inv_record [OF i1]) (auto simp: mw_win_def g Let_def live_amount_def)
  next
    case False
    then have "snd (mw_win w opid p t amount) = w1"
      by (auto simp: mw_win_def g Let_def split: option.splits)
    then show ?thesis using i1 by simp
  qed
qed

lemma mw_rollback_inv: "mw_inv w \<Longrightarrow> mw_inv (snd (mw_rollback w opid p rt t))"
proof -
  assume inv: "mw_inv w"
  obtain bal w1 where g: "getOrInit w (keyOf opid p) = (bal, w1)" by fastforce
  note g' = getOrInit_props [OF g]
  have i1: "mw_inv w1" using mw_inv_cong [OF g'(2,5) inv] by simp
  consider e where "rt \<notin> wt_rollbackTxs w1" "map_of (wt_ledger w1) t = Some e" "le_key e = keyOf opid p"
      "\<not> le_rolledBack e"
    | "snd (mw_rollback w opid p rt t) = w1"
    | "snd (mw_rollback w opid p rt t) = w1\<lparr>wt_rollbackTxs := insert rt (wt_rollbackTxs w1)\<rparr>"
    by (cases "map_of (wt_ledger w1) t"; cases "rt \<in> wt_rollbackTxs w1";
        cases "le_key (the (map_of (wt_ledger w1) t)) = keyOf opid p";
        cases "le_rolledBack (the (map_of (wt_ledger w1) t))")
      (simp_all add: mw_rollback_def g)
  then show ?thesis
  proof cases
    case 1
    have k: "mw_funds w1 (keyOf opid p) = bal" using g'(1,5) by simp
    show ?thesis using 1 k
      by (intro mw_inv_mark [OF i1 _ 1(2,4)])
        (simp_all add: mw_rollback_def g Let_def)
  next
    case 2
    then show ?thesis using i1 by simp
  next
    case 3
    then show ?thesis using mw_inv_cong [OF _ _ i1] by simp
  qed
qed

lemma mw_step_inv: "mw_inv w \<Longrightarrow> mw_inv (snd (mw_step w oper))"
proof (cases oper)
  case (WBalance q)
  assume "mw_inv w"
  moreover obtain m w1 where g: "getOrInit w (keyOf (wq_operatorId q) (wq_playerRef q)) = (m, w1)" by fastforce
  ultimately show ?thesis using getOrInit_props [OF g] mw_inv_cong [of w1 w] WBalance
    by (simp add: mw_balance_def)
qed (simp_all add: mw_bet_inv mw_win_inv mw_rollback_inv)

lemma mw_run_inv: "mw_inv w \<Longrightarrow> mw_inv (mw_run w ops)"
  by (induction ops arbitrary: w) (simp_all add: mw_step_inv)

lemma new_store_inv: "mw_inv (new_wallet_store opid)"
proof -
  have "mw_funds (new_wallet_store opid) k = SEED_BALANCE_MICRO" for k
    by (auto simp: mw_funds_def new_wallet_store_def nullish_def SEED_PLAYERS_def split: option.splits if_splits)
  then show ?thesis by (simp add: mw_inv_def new_wallet_store_def SEED_BALANCE_MICRO_def)
qed

section \<open>Properties\<close>


text \<open>A payment that the store has accepted once never moves money again, whatever
  happened in between, a rollback of it included.\<close>

theorem mock_never_twice:
  assumes "op_is_payment oper" "op_tx oper = Some t" "ws_status (fst (mw_step w oper)) = RsOK"
    and "op_is_payment again" "op_tx again = Some t"
  shows "mw_funds (mw_run w (oper # ops @ [again])) k = mw_funds (mw_run w (oper # ops)) k"
  using mw.never_twice [OF assms] unfolding mw_run_eq .

definition mock_bet :: bet_request where
  "mock_bet = \<lparr>wq_requestUuid = ''r1'', wq_operatorId = ''op'', wq_playerRef = ''p'',
     wq_currency = ''HNL'', wq_gameCode = ''lempi-crash'', wb_transactionUuid = ''t1'',
     wb_amountMicro = 30, wb_roundId = ''rd'', wb_isFree = None, wb_meta = None\<rparr>"

definition mock_rollback :: rollback_request where
  "mock_rollback = \<lparr>wq_requestUuid = ''r2'', wq_operatorId = ''op'', wq_playerRef = ''p'',
     wq_currency = ''HNL'', wq_gameCode = ''lempi-crash'', wr_transactionUuid = ''t2'',
     wr_referenceTransactionUuid = ''t1'', wr_roundId = None, wr_meta = None\<rparr>"

lemmas mock_sample_defs = mock_bet_def mock_rollback_def new_wallet_store_def getOrInit_def keyOf_def
  SEED_BALANCE_MICRO_def SEED_PLAYERS_def mw_set_def mw_record_def mark_rolled_back_def

theorem mock_never_twice_witness:
  "mw_funds (mw_run (new_wallet_store ''op'') [WBet mock_bet, WRollback mock_rollback, WBet mock_bet]) ''op:p''
   = mw_funds (mw_run (new_wallet_store ''op'') [WBet mock_bet, WRollback mock_rollback]) ''op:p''"
proof -
  have "ws_status (fst (mw_step (new_wallet_store ''op'') (WBet mock_bet))) = RsOK"
    by (simp add: mock_sample_defs mw_bet_def mw_response_def Let_def)
  then show ?thesis
    using mock_never_twice [of "WBet mock_bet" "''t1''" "new_wallet_store ''op''" "WBet mock_bet" "[WRollback mock_rollback]"]
    by (simp add: mock_bet_def)
qed

text \<open>A rollback that reaches the store before the bet it refers to is answered with an
  unknown transaction and leaves no trace, so the bet is still debited when it arrives.\<close>

theorem mock_late_bet_debited:
  assumes "map_of (wt_ledger w) (wb_transactionUuid b) = None"
    and "wr_referenceTransactionUuid r = wb_transactionUuid b"
    and "wr_transactionUuid r \<notin> wt_rollbackTxs w"
    and "0 < wb_amountMicro b"
    and "wb_amountMicro b \<le> mw_funds w (keyOf (wq_operatorId b) (wq_playerRef b))"
  shows "ws_status (fst (mw_step w (WRollback r))) = RsTRANSACTION_NOT_FOUND \<and>
     mw_funds (mw_run w [WRollback r, WBet b]) (keyOf (wq_operatorId b) (wq_playerRef b))
       = mw_funds w (keyOf (wq_operatorId b) (wq_playerRef b)) - wb_amountMicro b"
proof -
  obtain m w1 where g: "getOrInit w (keyOf (wq_operatorId r) (wq_playerRef r)) = (m, w1)" by fastforce
  have rb: "mw_step w (WRollback r) = (mw_response (wallet_common.truncate r) (RsTRANSACTION_NOT_FOUND, m), w1)"
    using assms getOrInit_props [OF g] by (simp add: mw_rollback_def g Let_def)
  obtain m2 w2 where g2: "getOrInit w1 (keyOf (wq_operatorId b) (wq_playerRef b)) = (m2, w2)" by fastforce
  note p = getOrInit_props [OF g] getOrInit_props [OF g2]
  have "mw_funds (snd (mw_step w1 (WBet b))) (keyOf (wq_operatorId b) (wq_playerRef b))
      = mw_funds w (keyOf (wq_operatorId b) (wq_playerRef b)) - wb_amountMicro b"
    using assms p by (simp add: mw_bet_def g2 Let_def)
  then show ?thesis using rb by (simp add: mw_response_def)
qed

theorem mock_late_bet_debited_witness:
  "mw_funds (mw_run (new_wallet_store ''op'') [WRollback mock_rollback, WBet mock_bet]) ''op:p'' = 999999970"
  using mock_late_bet_debited [of "new_wallet_store ''op''" mock_bet mock_rollback]
  by (simp add: mock_bet_def mock_rollback_def new_wallet_store_def mw_funds_def keyOf_def
      SEED_PLAYERS_def SEED_BALANCE_MICRO_def)

end
