(* ===== verification/WalletHttp.thy ===== *)
theory WalletHttp
  imports MockWallet
begin

text \<open>
  The remote wallet: the request signing of \<^verbatim>\<open>apps/rgs-server/src/utils/signing.ts\<close>, the HTTP
  adapter of \<^verbatim>\<open>apps/rgs-server/src/wallet/HttpWalletAdapter.ts\<close> and the routing of the mock
  operator's server, \<^verbatim>\<open>apps/mock-operator/src/server.ts\<close>. The network, the URL parser and the
  two JSON routines of the runtime are parameters.
\<close>

section \<open>Signing utilities\<close>

definition rgs_signPayload ::
    "sha_fun \<Rightarrow> hmac_fun \<Rightarrow> string \<Rightarrow> string \<Rightarrow> string \<Rightarrow> timestamp \<Rightarrow> string \<Rightarrow> string" where
  "rgs_signPayload sha256 hmac secret meth path ts body =
     (let canonical = map to_upper meth @ NL # path @ NL # ts_text ts @ NL # digest_hex (sha256 body)
      in b64_encode (digest_bytes (hmac secret canonical)))"

text \<open>The comparison at the end is constant-time and of two buffers of one length.\<close>

definition rgs_verifySignature ::
    "sha_fun \<Rightarrow> hmac_fun \<Rightarrow> int \<Rightarrow> string \<Rightarrow> string \<Rightarrow> string \<Rightarrow> timestamp \<Rightarrow> string \<Rightarrow> string \<Rightarrow> int \<Rightarrow> bool" where
  "rgs_verifySignature sha256 hmac nowSec secret meth path ts body signature windowSeconds =
     (case ts_number ts of
        None \<Rightarrow> False
      | Some tsNum \<Rightarrow>
          if windowSeconds < \<bar>nowSec - tsNum\<bar> then False
          else let a = b64_decode (rgs_signPayload sha256 hmac secret meth path ts body);
                   b = b64_decode signature
               in if length a \<noteq> length b then False else a = b)"

lemma rgs_signPayload_eq: "rgs_signPayload = signPayload"
  by (intro ext) (simp add: rgs_signPayload_def signPayload_def canonicalString_def)

section \<open>The adapter\<close>

text \<open>\<open>s.replace(/\/$/, '')\<close>: one trailing slash is removed.\<close>

definition strip_slash :: "string \<Rightarrow> string" where
  "strip_slash s = (if s \<noteq> [] \<and> last s = CHR ''/'' then butlast s else s)"

text \<open>\<open>s.replace(/^https?:\/\/[^/]+/, '')\<close>.\<close>

definition strip_origin :: "string \<Rightarrow> string" where
  "strip_origin s =
     (let rest = (if take 7 s = ''http://'' then Some (drop 7 s)
                  else if take 8 s = ''https://'' then Some (drop 8 s) else None)
      in case rest of
           None \<Rightarrow> s
         | Some r \<Rightarrow> if r = [] \<or> hd r = CHR ''/'' then s else dropWhile (\<lambda>c. c \<noteq> CHR ''/'') r)"

record http_options =
  ho_operatorId :: string
  ho_kid :: string
  ho_secret :: string
  ho_walletCallbackUrl :: string
  ho_timeoutMs :: "int option"

record http_adapter =
  ha_kid :: string
  ha_secret :: string
  ha_base :: string
  ha_basePath :: string
  ha_timeoutMs :: int

text \<open>\<open>pathname\<close> is \<open>new URL(s).pathname\<close>; \<open>None\<close> when the constructor throws.\<close>

definition new_http_adapter :: "(string \<Rightarrow> string option) \<Rightarrow> http_options \<Rightarrow> http_adapter" where
  "new_http_adapter pathname opts =
     (let base = strip_slash (ho_walletCallbackUrl opts) in
      \<lparr>ha_kid = ho_kid opts, ha_secret = ho_secret opts, ha_base = base,
       ha_basePath = (case pathname base of
          Some p \<Rightarrow> strip_slash p
        | None \<Rightarrow> strip_slash (strip_origin base)),
       ha_timeoutMs = nullish (ho_timeoutMs opts) 5000\<rparr>)"

fun op_endpoint :: "wallet_op \<Rightarrow> string" where
  "op_endpoint (WBalance q) = ''balance''"
| "op_endpoint (WBet q) = ''bet''"
| "op_endpoint (WWin q) = ''win''"
| "op_endpoint (WRollback q) = ''rollback''"

fun op_common :: "wallet_op \<Rightarrow> wallet_common" where
  "op_common (WBalance q) = q"
| "op_common (WBet q) = wallet_common.truncate q"
| "op_common (WWin q) = wallet_common.truncate q"
| "op_common (WRollback q) = wallet_common.truncate q"

definition common_fields :: "'a wallet_common_scheme \<Rightarrow> (string \<times> json) list" where
  "common_fields q =
     [(''operatorId'', JStr (wq_operatorId q)), (''playerRef'', JStr (wq_playerRef q)),
      (''currency'', JStr (wq_currency q)), (''gameCode'', JStr (wq_gameCode q))]"

text \<open>The bodies of the four requests.\<close>

fun http_body :: "wallet_op \<Rightarrow> json" where
  "http_body (WBalance q) = JObj ((''requestUuid'', JStr (wq_requestUuid q)) # common_fields q)"
| "http_body (WBet q) = JObj
     ([(''requestUuid'', JStr (wq_requestUuid q)), (''transactionUuid'', JStr (wb_transactionUuid q))] @
      common_fields q @
      [(''amountMicro'', JStr (show_int (wb_amountMicro q))), (''roundId'', JStr (wb_roundId q)),
       (''isFree'', JBool (nullish (wb_isFree q) False)), (''meta'', nullish (wb_meta q) (JObj []))])"
| "http_body (WWin q) = JObj
     ([(''requestUuid'', JStr (wq_requestUuid q)), (''transactionUuid'', JStr (ww_transactionUuid q)),
       (''referenceTransactionUuid'', JStr (ww_referenceTransactionUuid q))] @
      common_fields q @
      [(''amountMicro'', JStr (show_int (ww_amountMicro q))), (''roundId'', JStr (ww_roundId q)),
       (''meta'', nullish (ww_meta q) (JObj []))])"
| "http_body (WRollback q) = JObj
     ([(''requestUuid'', JStr (wq_requestUuid q)), (''transactionUuid'', JStr (wr_transactionUuid q)),
       (''referenceTransactionUuid'', JStr (wr_referenceTransactionUuid q))] @
      common_fields q @
      [(''roundId'', case wr_roundId q of None \<Rightarrow> JUndefined | Some r \<Rightarrow> JStr r),
       (''meta'', nullish (wr_meta q) (JObj []))])"

record http_request =
  hr_url :: string
  hr_method :: string
  hr_kid :: string
  hr_timestamp :: string
  hr_signature :: string
  hr_body :: string
  hr_timeoutMs :: int

record http_env =
  he_sha256 :: sha_fun
  he_hmac :: hmac_fun
  he_stringify :: "json \<Rightarrow> string"

definition http_send :: "http_env \<Rightarrow> http_adapter \<Rightarrow> msec \<Rightarrow> wallet_op \<Rightarrow> http_request" where
  "http_send env a now oper =
     (let path = ha_basePath a @ ''/'' @ op_endpoint oper;
          bodyJson = he_stringify env (http_body oper);
          timestamp = show_int (now div 1000)
      in \<lparr>hr_url = ha_base a @ ''/'' @ op_endpoint oper, hr_method = ''POST'', hr_kid = ha_kid a,
          hr_timestamp = timestamp,
          hr_signature = rgs_signPayload (he_sha256 env) (he_hmac env) (ha_secret a) ''POST'' path
            (TsString timestamp) bodyJson,
          hr_body = bodyJson, hr_timeoutMs = ha_timeoutMs a\<rparr>)"

text \<open>
  What became of a request: aborted by the timer, failed on the network, or answered with a
  status code and a body (\<open>None\<close>: not JSON).
\<close>

datatype http_result = HttpAborted | HttpFailed | HttpReply int "json option"

text \<open>\<open>v ?? d\<close> where a string is expected; any other value is no string of the table below.\<close>

definition string_or :: "json \<Rightarrow> string \<Rightarrow> string" where
  "string_or v d = (case v of JStr s \<Rightarrow> s | JUndefined \<Rightarrow> d | JNull \<Rightarrow> d | _ \<Rightarrow> [])"

definition json_string :: "json \<Rightarrow> string option" where
  "json_string v = (case v of JStr s \<Rightarrow> Some s | _ \<Rightarrow> None)"

definition plain_response :: "rs_status \<Rightarrow> uuid \<Rightarrow> string \<Rightarrow> wallet_response" where
  "plain_response st requestUuid msg = \<lparr>ws_status = st, ws_requestUuid = requestUuid,
     ws_balanceMicro = None, ws_currency = None, ws_message = Some msg\<rparr>"

text \<open>Reading a property of \<open>null\<close> throws, and the outer handler takes it for a network error.\<close>

definition http_response :: "uuid \<Rightarrow> http_result \<Rightarrow> wallet_response" where
  "http_response requestUuid r =
     (case r of
        HttpAborted \<Rightarrow> plain_response RsTIMEOUT requestUuid ''timeout''
      | HttpFailed \<Rightarrow> plain_response RsUNKNOWN requestUuid ''network_error''
      | HttpReply code body \<Rightarrow>
          if 500 \<le> code then plain_response RsUNKNOWN requestUuid (''operator_5xx_'' @ show_int code)
          else (case body of
             None \<Rightarrow> plain_response RsUNKNOWN requestUuid ''invalid_json_response''
           | Some v \<Rightarrow>
               if v = JNull then plain_response RsUNKNOWN requestUuid ''network_error''
               else \<lparr>ws_status = rs_of_string (string_or (get_prop v ''status'') (rs_string RsUNKNOWN)),
                     ws_requestUuid = string_or (get_prop v ''requestUuid'') requestUuid,
                     ws_balanceMicro = Option.bind (json_string (get_prop v ''balanceMicro'')) js_BigInt,
                     ws_currency = json_string (get_prop v ''currency''),
                     ws_message = json_string (get_prop v ''message'')\<rparr>))"

definition http_step ::
    "http_env \<Rightarrow> http_adapter \<Rightarrow> (http_request \<Rightarrow> 'n \<Rightarrow> http_result \<times> 'n) \<Rightarrow> msec \<Rightarrow> 'n \<Rightarrow> wallet_op \<Rightarrow>
     wallet_response \<times> 'n" where
  "http_step env a network now n oper =
     (let (r, n1) = network (http_send env a now oper) n
      in (http_response (wq_requestUuid (op_common oper)) r, n1))"

section \<open>The operator's server\<close>

text \<open>The members of a parsed body that the handlers read.\<close>

definition wire_of :: "json \<Rightarrow> wire_body" where
  "wire_of v =
     \<lparr>bd_requestUuid = json_string (get_prop v ''requestUuid''),
      bd_transactionUuid = json_string (get_prop v ''transactionUuid''),
      bd_referenceTransactionUuid = json_string (get_prop v ''referenceTransactionUuid''),
      bd_playerRef = json_string (get_prop v ''playerRef''),
      bd_currency = json_string (get_prop v ''currency''),
      bd_amountMicro = json_string (get_prop v ''amountMicro''),
      bd_operatorId = json_string (get_prop v ''operatorId'')\<rparr>"

text \<open>The payload of a reply; members that are absent are left out.\<close>

definition opt_field :: "string \<Rightarrow> string option \<Rightarrow> (string \<times> json) list" where
  "opt_field k v = (case v of None \<Rightarrow> [] | Some s \<Rightarrow> [(k, JStr s)])"

definition reply_json :: "wire_reply \<Rightarrow> json" where
  "reply_json p = JObj
     ([(''status'', JStr (rs_string (wp_status p))), (''requestUuid'', JStr (wp_requestUuid p))] @
      opt_field ''balanceMicro'' (wp_balanceMicro p) @ opt_field ''currency'' (wp_currency p) @
      opt_field ''message'' (wp_message p))"

text \<open>
  The router under \<^verbatim>\<open>/wallet\<close>: the body is parsed (an empty one is an empty object), then the
  signature is checked, then the handler of the path runs. A body that does not parse is
  answered by the framework's error page, an unknown path by its 404.
\<close>

definition wallet_routes ::
    "(string \<times> (mock_config \<Rightarrow> wallet_store \<Rightarrow> wire_body \<Rightarrow> wire_reply \<times> wallet_store)) list" where
  "wallet_routes = [(''/wallet/balance'', balance_handler), (''/wallet/bet'', bet_handler),
     (''/wallet/win'', win_handler), (''/wallet/rollback'', rollback_handler)]"

record operator_env =
  oe_sha256 :: sha_fun
  oe_hmac :: hmac_fun
  oe_parse :: "string \<Rightarrow> json option"
  oe_pathname :: "string \<Rightarrow> string option"

definition operator_server ::
    "operator_env \<Rightarrow> mock_config \<Rightarrow> int \<Rightarrow> http_request \<Rightarrow> wallet_store \<Rightarrow> http_result \<times> wallet_store" where
  "operator_server env cfg nowSec rq w =
     (let url = nullish (oe_pathname env (hr_url rq)) [];
          body = (if hr_body rq = [] then Some (JObj []) else oe_parse env (hr_body rq))
      in case body of
           None \<Rightarrow> (HttpReply 500 None, w)
         | Some v \<Rightarrow>
             (case map_of wallet_routes url of
                None \<Rightarrow> (HttpReply 404 None, w)
              | Some handler \<Rightarrow>
                  (case requireValidSignature (oe_sha256 env) (oe_hmac env) cfg nowSec
                      \<lparr>sq_kid = Some (hr_kid rq), sq_timestamp = Some (hr_timestamp rq),
                       sq_signature = Some (hr_signature rq), sq_method = hr_method rq,
                       sq_originalUrl = url, sq_rawBody = hr_body rq\<rparr> (wire_of v) of
                     Some reply \<Rightarrow> (HttpReply (wp_http reply) (Some (reply_json reply)), w)
                   | None \<Rightarrow> (let (reply, w1) = handler cfg w (wire_of v)
                              in (HttpReply (wp_http reply) (Some (reply_json reply)), w1)))))"

section \<open>Facts\<close>

lemma takeWhile_dec_digits [simp]: "takeWhile is_dec (dec_digits n) = dec_digits n"
  using dec_digits_is_dec by (simp add: list_all_iff takeWhile_eq_all_conv)

lemma read_dec_digits [simp]: "read_base 10 (dec_digits n) = Some (int n)"
  by (simp add: read_base_def base_fold_dec_digits_0)

lemma dec_digits_head:
  "js_space (hd (dec_digits n)) = False" "hd (dec_digits n) \<noteq> CHR ''-''" "hd (dec_digits n) \<noteq> CHR ''+''"
proof -
  have "is_dec (hd (dec_digits n))"
    using dec_digits_is_dec [of n] by (cases "dec_digits n") auto
  then show "js_space (hd (dec_digits n)) = False" "hd (dec_digits n) \<noteq> CHR ''-''"
    "hd (dec_digits n) \<noteq> CHR ''+''"
    by (auto simp: is_dec_def js_space_def)
qed

lemma dropWhile_dec_digits: "dropWhile js_space (dec_digits n) = dec_digits n"
  using dec_digits_head(1) [of n] by (cases "dec_digits n") simp_all

text \<open>The timestamp that the signer prints is the one the verifier reads.\<close>

lemma parseInt10_show_int [simp]: "parseInt10 (show_int i) = Some i"
proof (cases "i < 0")
  case True
  then show ?thesis by (simp add: show_int_def parseInt10_def js_space_def)
next
  case False
  then show ?thesis
    using dec_digits_head [of "nat i"] by (simp add: show_int_def parseInt10_def dropWhile_dec_digits)
qed

lemma show_int_nonempty [simp]: "show_int i \<noteq> []"
  by (simp add: show_int_def)

lemma b64_encode_empty [simp]: "b64_encode bs = [] \<longleftrightarrow> bs = []"
  by (cases bs rule: b64_encode.cases) simp_all

lemma signPayload_nonempty [simp]: "signPayload sha256 hmac k m p ts b \<noteq> []"
  using length_digest_bytes [of "hmac k (canonicalString sha256 m p ts b)"]
  by (auto simp: signPayload_def simp del: length_digest_bytes)

text \<open>A request that was signed with the shared secret passes the gate of the operator.\<close>

lemma signed_request_passes:
  assumes "sq_kid rq = Some kid" "kid \<noteq> []" "sq_timestamp rq = Some (show_int t)"
    and "sq_signature rq = Some (signPayload sha256 hmac (mc_walletSecret cfg) (sq_method rq)
          (takeWhile (\<lambda>c. c \<noteq> CHR ''?'') (sq_originalUrl rq)) (TsString (show_int t)) (sq_rawBody rq))"
    and "\<bar>nowSec - t\<bar> \<le> mc_signatureWindowSeconds cfg"
  shows "requireValidSignature sha256 hmac cfg nowSec rq body = None"
  using assms by (simp add: requireValidSignature_def truthy_def verifyInboundSignature_def Let_def)

text \<open>What the adapter puts into a body is what the server reads out of it.\<close>

definition op_wire :: "wallet_op \<Rightarrow> wire_body" where
  "op_wire oper =
     \<lparr>bd_requestUuid = Some (wq_requestUuid (op_common oper)), bd_transactionUuid = op_tx oper,
      bd_referenceTransactionUuid = (case oper of WWin q \<Rightarrow> Some (ww_referenceTransactionUuid q)
         | WRollback q \<Rightarrow> Some (wr_referenceTransactionUuid q) | _ \<Rightarrow> None),
      bd_playerRef = Some (wq_playerRef (op_common oper)), bd_currency = Some (wq_currency (op_common oper)),
      bd_amountMicro = (case oper of WBet q \<Rightarrow> Some (show_int (wb_amountMicro q))
         | WWin q \<Rightarrow> Some (show_int (ww_amountMicro q)) | _ \<Rightarrow> None),
      bd_operatorId = Some (wq_operatorId (op_common oper))\<rparr>"

lemma truncate_sels [simp]:
  "wq_requestUuid (wallet_common.truncate q) = wq_requestUuid q"
  "wq_operatorId (wallet_common.truncate q) = wq_operatorId q"
  "wq_playerRef (wallet_common.truncate q) = wq_playerRef q"
  "wq_currency (wallet_common.truncate q) = wq_currency q"
  "wq_gameCode (wallet_common.truncate q) = wq_gameCode q"
  by (simp_all add: wallet_common.defs)

lemma wire_of_body: "wire_of (http_body oper) = op_wire oper"
  by (cases oper) (simp_all add: wire_of_def op_wire_def common_fields_def get_prop_def json_string_def)

lemma reply_props:
  "get_prop (reply_json p) ''status'' = JStr (rs_string (wp_status p))"
  "get_prop (reply_json p) ''requestUuid'' = JStr (wp_requestUuid p)"
  "json_string (get_prop (reply_json p) ''balanceMicro'') = wp_balanceMicro p"
  "json_string (get_prop (reply_json p) ''currency'') = wp_currency p"
  "json_string (get_prop (reply_json p) ''message'') = wp_message p"
  by (cases "wp_balanceMicro p"; cases "wp_currency p"; cases "wp_message p";
      simp add: reply_json_def opt_field_def get_prop_def json_string_def)+

lemma rs_of_string_string: "(\<forall>s. st \<noteq> RsOther s) \<Longrightarrow> rs_of_string (rs_string st) = st"
  by (cases st) (simp_all add: rs_of_string_def rs_string_def rs_table_def)

lemma http_response_reply:
  assumes "wp_http p < 500" "\<forall>s. wp_status p \<noteq> RsOther s"
  shows "http_response u (HttpReply (wp_http p) (Some (reply_json p))) =
     \<lparr>ws_status = wp_status p, ws_requestUuid = wp_requestUuid p,
      ws_balanceMicro = Option.bind (wp_balanceMicro p) js_BigInt, ws_currency = wp_currency p,
      ws_message = wp_message p\<rparr>"
proof -
  have "reply_json p \<noteq> JNull" by (simp add: reply_json_def)
  with assms show ?thesis
    by (simp add: http_response_def reply_props rs_of_string_string string_or_def)
qed

section \<open>The remote wallet is the store\<close>

text \<open>A request that the operator's handlers accept: none of the members they require is empty.\<close>

definition op_complete :: "wallet_op \<Rightarrow> bool" where
  "op_complete oper \<longleftrightarrow>
     wq_requestUuid (op_common oper) \<noteq> [] \<and> wq_playerRef (op_common oper) \<noteq> [] \<and>
     wq_currency (op_common oper) \<noteq> [] \<and> op_tx oper \<noteq> Some [] \<and>
     bd_referenceTransactionUuid (op_wire oper) \<noteq> Some []"

text \<open>What the handlers add to a step of the store: the memory of the request.\<close>

definition remembering :: "wallet_op \<Rightarrow> wallet_response \<times> wallet_store \<Rightarrow> wallet_response \<times> wallet_store" where
  "remembering oper r =
     (fst r, if op_tx oper \<noteq> None \<and> ws_status (fst r) = RsOK
             then rememberRequest (snd r) (wq_requestUuid (op_common oper)) (the (ws_balanceMicro (fst r)))
             else snd r)"

definition response_reply :: "wallet_response \<Rightarrow> wire_reply" where
  "response_reply r = \<lparr>wp_http = 200, wp_status = ws_status r, wp_requestUuid = ws_requestUuid r,
     wp_balanceMicro = map_option show_int (ws_balanceMicro r), wp_currency = ws_currency r, wp_message = None\<rparr>"

lemma route_of:
  "map_of wallet_routes (''/wallet/'' @ op_endpoint oper) = Some
     (case oper of WBalance q \<Rightarrow> balance_handler | WBet q \<Rightarrow> bet_handler | WWin q \<Rightarrow> win_handler
      | WRollback q \<Rightarrow> rollback_handler)"
  by (cases oper) (simp_all add: wallet_routes_def)

lemmas handler_simps = op_complete_def op_wire_def truthy_def finish_handler_def sendOk_def response_reply_def
  remembering_def recallRequest_def mw_response_def

lemma handler_serves:
  assumes "op_complete oper" "wt_processed w (wq_requestUuid (op_common oper)) = None"
  shows "\<exists>handler. map_of wallet_routes (''/wallet/'' @ op_endpoint oper) = Some handler \<and>
     handler cfg w (op_wire oper) = apfst response_reply (remembering oper (mw_step w oper))"
proof (cases oper)
  case (WBalance q)
  then show ?thesis unfolding route_of using assms
    by (simp add: handler_simps balance_handler_def split: prod.splits)
next
  case (WBet q)
  then show ?thesis unfolding route_of using assms
    by (simp add: handler_simps bet_handler_def apfst_def map_prod_def split: prod.splits)
next
  case (WWin q)
  then show ?thesis unfolding route_of using assms
    by (simp add: handler_simps win_handler_def apfst_def map_prod_def split: prod.splits)
next
  case (WRollback q)
  then show ?thesis unfolding route_of using assms
    by (simp add: handler_simps rollback_handler_def apfst_def map_prod_def split: prod.splits)
qed

lemma mw_step_status: "ws_status (fst (mw_step w oper)) \<noteq> RsOther s"
  by (cases oper) (auto simp: mw_ops Let_def split: prod.splits option.splits)

lemma mw_step_response:
  "ws_requestUuid (fst (mw_step w oper)) = wq_requestUuid (op_common oper)"
  "ws_message (fst (mw_step w oper)) = None"
  by (cases oper; simp add: mw_response_def split: prod.splits)+

lemma mw_step_inv_response:
  "http_response u (HttpReply 200 (Some (reply_json (response_reply (fst (mw_step w oper)))))) = fst (mw_step w oper)"
proof -
  let ?r = "fst (mw_step w oper)"
  have b: "Option.bind (map_option show_int x) js_BigInt = x" for x by (cases x) simp_all
  have "http_response u (HttpReply (wp_http (response_reply ?r)) (Some (reply_json (response_reply ?r)))) = ?r"
    by (subst http_response_reply)
      (simp_all add: response_reply_def mw_step_status b mw_step_response del: js_BigInt_show_int)
  then show ?thesis by (simp add: response_reply_def)
qed

text \<open>
  The server is reached: the path that it sees is the endpoint's, and it parses the body that
  the adapter prints. The two ends agree: beyond that, they have one secret, clocks within
  the window, and the path that is signed is the one the server sees.
\<close>

definition wired :: "http_env \<Rightarrow> http_adapter \<Rightarrow> operator_env \<Rightarrow> wallet_op \<Rightarrow> bool" where
  "wired env a op oper \<longleftrightarrow>
     oe_pathname op (ha_base a @ ''/'' @ op_endpoint oper) = Some (''/wallet/'' @ op_endpoint oper) \<and>
     he_stringify env (http_body oper) \<noteq> [] \<and>
     oe_parse op (he_stringify env (http_body oper)) = Some (http_body oper)"

definition connected ::
    "http_env \<Rightarrow> http_adapter \<Rightarrow> operator_env \<Rightarrow> mock_config \<Rightarrow> msec \<Rightarrow> int \<Rightarrow> wallet_op \<Rightarrow> bool" where
  "connected env a op cfg now nowSec oper \<longleftrightarrow> wired env a op oper \<and>
     oe_sha256 op = he_sha256 env \<and> oe_hmac op = he_hmac env \<and> ha_secret a = mc_walletSecret cfg \<and>
     ha_kid a \<noteq> [] \<and> ha_basePath a = ''/wallet'' \<and>
     \<bar>nowSec - now div 1000\<bar> \<le> mc_signatureWindowSeconds cfg"

lemma endpoint_no_query [simp]: "takeWhile (\<lambda>c. c \<noteq> CHR ''?'') (op_endpoint oper) = op_endpoint oper"
  by (cases oper) simp_all

text \<open>What a request that reaches the server does to it.\<close>

lemma server_run:
  assumes "wired env a op oper"
  obtains (refused) reply where "operator_server op cfg nowSec (http_send env a now oper) w = (HttpReply (wp_http reply) (Some (reply_json reply)), w)"
  | (served) handler where "map_of wallet_routes (''/wallet/'' @ op_endpoint oper) = Some handler"
    "operator_server op cfg nowSec (http_send env a now oper) w =
       (HttpReply (wp_http (fst (handler cfg w (op_wire oper)))) (Some (reply_json (fst (handler cfg w (op_wire oper))))),
        snd (handler cfg w (op_wire oper)))"
proof -
  let ?rq = "http_send env a now oper" and ?path = "''/wallet/'' @ op_endpoint oper"
  obtain handler where h: "map_of wallet_routes ?path = Some handler"
    using route_of [of oper] by blast
  have url: "oe_pathname op (hr_url ?rq) = Some ?path" "hr_body ?rq = he_stringify env (http_body oper)"
    using assms by (simp_all add: wired_def http_send_def Let_def)
  let ?g = "requireValidSignature (oe_sha256 op) (oe_hmac op) cfg nowSec
       \<lparr>sq_kid = Some (hr_kid ?rq), sq_timestamp = Some (hr_timestamp ?rq), sq_signature = Some (hr_signature ?rq),
        sq_method = hr_method ?rq, sq_originalUrl = ?path, sq_rawBody = hr_body ?rq\<rparr> (op_wire oper)"
  show thesis
  proof (cases ?g)
    case None
    show thesis by (rule served [OF h])
      (use assms None url h in \<open>simp add: operator_server_def wired_def wire_of_body Let_def split: prod.splits\<close>)
  next
    case (Some reply)
    show thesis by (rule refused [of reply])
      (use assms Some url h in \<open>simp add: operator_server_def wired_def wire_of_body Let_def\<close>)
  qed
qed

lemma server_accepts:
  assumes "connected env a op cfg now nowSec oper" "map_of wallet_routes (''/wallet/'' @ op_endpoint oper) = Some handler"
  shows "operator_server op cfg nowSec (http_send env a now oper) w =
       (HttpReply (wp_http (fst (handler cfg w (op_wire oper)))) (Some (reply_json (fst (handler cfg w (op_wire oper))))),
        snd (handler cfg w (op_wire oper)))"
proof -
  let ?rq = "http_send env a now oper" and ?path = "''/wallet/'' @ op_endpoint oper"
  note c = assms(1) [unfolded connected_def]
  have url: "oe_pathname op (hr_url ?rq) = Some ?path" "hr_body ?rq = he_stringify env (http_body oper)"
    using c by (simp_all add: wired_def http_send_def Let_def)
  have gate: "requireValidSignature (oe_sha256 op) (oe_hmac op) cfg nowSec
       \<lparr>sq_kid = Some (hr_kid ?rq), sq_timestamp = Some (hr_timestamp ?rq), sq_signature = Some (hr_signature ?rq),
        sq_method = hr_method ?rq, sq_originalUrl = ?path, sq_rawBody = hr_body ?rq\<rparr> body = None" for body
    using c
    by (intro signed_request_passes [where kid = "ha_kid a" and t = "now div 1000"])
      (simp_all add: http_send_def Let_def rgs_signPayload_eq)
  show ?thesis
    using c url gate assms(2) by (simp add: operator_server_def wired_def wire_of_body Let_def split: prod.splits)
qed

lemma remote_step:
  assumes "connected env a op cfg now nowSec oper" "op_complete oper"
    and "wt_processed w (wq_requestUuid (op_common oper)) = None"
  shows "http_step env a (operator_server op cfg nowSec) now w oper = remembering oper (mw_step w oper)"
proof -
  obtain handler where h: "map_of wallet_routes (''/wallet/'' @ op_endpoint oper) = Some handler"
    "handler cfg w (op_wire oper) = apfst response_reply (remembering oper (mw_step w oper))"
    using handler_serves [OF assms(2,3)] by blast
  show ?thesis
    using server_accepts [OF assms(1) h(1)]
    by (simp add: http_step_def h(2) mw_step_inv_response remembering_def)
       (simp add: response_reply_def mw_step_inv_response [unfolded response_reply_def])
qed

section \<open>A win at the server\<close>

text \<open>Compared with an earlier store, a win has been paid once or not at all.\<close>

definition win_key :: "win_request \<Rightarrow> string" where
  "win_key q = keyOf (wq_operatorId q) (wq_playerRef q)"

definition paid_at_most_once :: "wallet_store \<Rightarrow> win_request \<Rightarrow> wallet_store \<Rightarrow> bool" where
  "paid_at_most_once s0 q s \<longleftrightarrow>
     (mw_funds s = mw_funds s0 \<and> (mw_settled s (ww_transactionUuid q) \<longleftrightarrow> mw_settled s0 (ww_transactionUuid q))) \<or>
     (\<not> mw_settled s0 (ww_transactionUuid q) \<and> mw_settled s (ww_transactionUuid q) \<and>
      mw_funds s = (mw_funds s0)(win_key q := mw_funds s0 (win_key q) + ww_amountMicro q))"

lemma paid_refl: "paid_at_most_once s q s"
  by (simp add: paid_at_most_once_def)

lemma mw_win_paid:
  assumes "paid_at_most_once s0 q s"
  shows "paid_at_most_once s0 q (snd (mw_win s (wq_operatorId q) (wq_playerRef q) (ww_transactionUuid q) (ww_amountMicro q)))"
proof -
  let ?t = "ww_transactionUuid q" and ?m = "mw_win s (wq_operatorId q) (wq_playerRef q) (ww_transactionUuid q) (ww_amountMicro q)"
  obtain bal s1 where g: "getOrInit s (keyOf (wq_operatorId q) (wq_playerRef q)) = (bal, s1)" by fastforce
  note g' = getOrInit_props [OF g]
  have f: "mw_funds s1 = mw_funds s" "mw_settled s1 t \<longleftrightarrow> mw_settled s t" for t
    using g'(2,5) by (auto simp: mw_settled_def)
  consider "snd ?m = s1" | "map_of (wt_ledger s) ?t = None"
      "snd ?m = mw_record (mw_set s1 (win_key q) (bal + ww_amountMicro q)) ?t TxWin (win_key q) (ww_amountMicro q)"
    using g'(2) by (cases "map_of (wt_ledger s) ?t"; cases "ww_amountMicro q < 0") (auto simp: mw_win_def g win_key_def Let_def)
  then show ?thesis
  proof cases
    case 1
    then show ?thesis using assms f by (simp add: paid_at_most_once_def)
  next
    case 2
    have "mw_funds (snd ?m) = (mw_funds s)(win_key q := mw_funds s (win_key q) + ww_amountMicro q)"
      using 2(2) g'(1) f by (auto simp: fun_eq_iff win_key_def)
    moreover have "mw_settled (snd ?m) ?t" "\<not> mw_settled s ?t" using 2 by (simp_all add: mw_settled_def)
    ultimately show ?thesis using assms by (auto simp: paid_at_most_once_def)
  qed
qed

lemma remember_frame [simp]:
  "mw_funds (rememberRequest w u m) = mw_funds w" "mw_settled (rememberRequest w u m) t = mw_settled w t"
  by (simp_all add: rememberRequest_def mw_funds_def mw_settled_def fun_eq_iff)

lemma win_handler_paid:
  assumes "paid_at_most_once s0 q s"
  shows "paid_at_most_once s0 q (snd (win_handler cfg s (op_wire (WWin q))))"
proof -
  have r: "paid_at_most_once s0 q (rememberRequest w u m) = paid_at_most_once s0 q w" for w u m
    by (simp add: paid_at_most_once_def)
  show ?thesis
    using assms mw_win_paid [OF assms]
    by (auto simp: win_handler_def op_wire_def finish_handler_def r split: option.splits prod.splits)
qed

text \<open>However a win reaches the server, it is paid at most once.\<close>

lemma server_win_paid:
  assumes "wired env a op (WWin q)" "paid_at_most_once s0 q s"
  shows "paid_at_most_once s0 q (snd (http_step env a (operator_server op cfg nowSec) now s (WWin q)))"
  using assms(1)
proof (cases rule: server_run [where cfg = cfg and nowSec = nowSec and now = now and w = s])
  case (refused reply)
  then show ?thesis using assms(2) by (simp add: http_step_def)
next
  case (served handler)
  have "handler = win_handler" using served(1) by (simp add: wallet_routes_def)
  then show ?thesis using served(2) win_handler_paid [OF assms(2)] by (simp add: http_step_def)
qed

text \<open>A request that the server remembers is answered from memory.\<close>

lemma remembered_win:
  assumes "connected env a op cfg now nowSec (WWin q)" "op_complete (WWin q)" "wt_processed w (wq_requestUuid q) = Some m"
  shows "ws_status (fst (http_step env a (operator_server op cfg nowSec) now w (WWin q))) = RsOK \<and>
     snd (http_step env a (operator_server op cfg nowSec) now w (WWin q)) = w"
proof -
  have h: "win_handler cfg w (op_wire (WWin q)) = (sendOk (op_wire (WWin q)) RsOK m, w)"
    using assms(2,3) by (simp add: handler_simps win_handler_def)
  have r: "map_of wallet_routes (''/wallet/'' @ op_endpoint (WWin q)) = Some win_handler"
    using route_of [of "WWin q"] by simp
  have "operator_server op cfg nowSec (http_send env a now (WWin q)) w =
      (HttpReply 200 (Some (reply_json (sendOk (op_wire (WWin q)) RsOK m))), w)"
    using server_accepts [OF assms(1) r, of w] unfolding h by (simp add: sendOk_def)
  moreover have "ws_status (http_response u (HttpReply 200 (Some (reply_json (sendOk (op_wire (WWin q)) RsOK m))))) = RsOK" for u
    using http_response_reply [of "sendOk (op_wire (WWin q)) RsOK m" u] by (simp add: sendOk_def)
  ultimately show ?thesis by (simp add: http_step_def)
qed

section \<open>Properties\<close>

text \<open>C5. Behind the HTTP adapter the operator's wallet is the wallet: a complete request that the
  server has not seen before is signed, sent, verified, executed and answered so that the
  caller receives exactly the response, and the store makes exactly the step, of calling the
  store directly; only the memory of the request is added.\<close>

theorem remote_wallet_refines_store:
  assumes "connected env a op cfg now nowSec oper" "op_complete oper"
    and "wt_processed w (wq_requestUuid (op_common oper)) = None"
  shows "http_step env a (operator_server op cfg nowSec) now w oper = remembering oper (mw_step w oper)"
  using assms by (rule remote_step)

text \<open>A bet through the adapter at a sample operator.\<close>

definition sample_adapter :: http_adapter where
  "sample_adapter = new_http_adapter (\<lambda>s. Some ''/wallet/'')
     \<lparr>ho_operatorId = ''op'', ho_kid = ''k1'', ho_secret = ''s'', ho_walletCallbackUrl = ''http://op/wallet/'',
      ho_timeoutMs = None\<rparr>"

definition sample_http :: http_env where
  "sample_http = \<lparr>he_sha256 = \<lambda>_. 0, he_hmac = \<lambda>_ _. 0, he_stringify = \<lambda>_. ''body''\<rparr>"

definition sample_operator :: operator_env where
  "sample_operator = \<lparr>oe_sha256 = \<lambda>_. 0, oe_hmac = \<lambda>_ _. 0, oe_parse = \<lambda>_. Some (http_body (WBet mock_bet)),
     oe_pathname = \<lambda>_. Some ''/wallet/bet''\<rparr>"

definition sample_mock :: mock_config where
  "sample_mock = \<lparr>mc_operatorId = ''op'', mc_walletSecret = ''s'', mc_signatureWindowSeconds = 30\<rparr>"

lemmas http_sample = sample_adapter_def sample_http_def sample_operator_def sample_mock_def

theorem remote_wallet_refines_store_witness:
  "ws_status (fst (http_step sample_http sample_adapter (operator_server sample_operator sample_mock 20) 1000
     (new_wallet_store ''op'') (WBet mock_bet))) = RsOK"
proof -
  have "connected sample_http sample_adapter sample_operator sample_mock 1000 20 (WBet mock_bet)"
    by (simp add: connected_def wired_def http_sample new_http_adapter_def strip_slash_def)
  moreover have "op_complete (WBet mock_bet)" by (simp add: op_complete_def op_wire_def mock_bet_def)
  ultimately show ?thesis
    using remote_wallet_refines_store [of sample_http sample_adapter sample_operator sample_mock 1000 20 "WBet mock_bet"
        "new_wallet_store ''op''"]
    by (simp add: remembering_def new_wallet_store_def mw_bet_def mw_response_def mock_bet_def getOrInit_def keyOf_def
        SEED_PLAYERS_def SEED_BALANCE_MICRO_def Let_def)
qed

text \<open>The adapter never claims certainty that it does not have: whatever the network and the
  operator do, a response counts as executed or as cleanly refused only if a reply came back
  with a status below 500 whose JSON body is an object with one of those statuses; an
  abort, a network failure, a server error and an unreadable body are neither.\<close>

theorem http_no_false_certainty:
  assumes "isSuccessOrDuplicate (ws_status (http_response u r)) \<or> isRejectStatus (ws_status (http_response u r))"
  shows "\<exists>code kvs s. r = HttpReply code (Some (JObj kvs)) \<and> code < 500 \<and> map_of kvs ''status'' = Some (JStr s) \<and>
     s \<in> rs_string ` {RsOK, RsDUPLICATE_TRANSACTION, RsNOT_ENOUGH_MONEY, RsLIMIT_REACHED, RsUSER_DISABLED}"
proof -
  let ?c = "\<lambda>st. isSuccessOrDuplicate st \<or> isRejectStatus st"
  have plain: "\<not> ?c RsTIMEOUT" "\<not> ?c RsUNKNOWN" "\<not> ?c (RsOther s)" for s
    by (simp_all add: isSuccessOrDuplicate_def isRejectStatus_def)
  have str: "s \<in> rs_string ` {RsOK, RsDUPLICATE_TRANSACTION, RsNOT_ENOUGH_MONEY, RsLIMIT_REACHED, RsUSER_DISABLED}"
    if "?c (rs_of_string s)" for s
    using that by (intro rev_image_eqI [where x = "rs_of_string s"])
      (auto simp: isSuccessOrDuplicate_def isRejectStatus_def)
  from assms obtain code v where r: "r = HttpReply code (Some v)" "code < 500" "v \<noteq> JNull"
    using plain by (auto simp: http_response_def plain_response_def split: http_result.splits if_splits option.splits)
  with assms have st: "?c (rs_of_string (string_or (get_prop v ''status'') (rs_string RsUNKNOWN)))"
    by (simp add: http_response_def)
  have "rs_of_string (rs_string RsUNKNOWN) = RsUNKNOWN" "rs_of_string [] = RsOther []"
    by (simp_all add: rs_of_string_def rs_string_def rs_table_def)
  with st plain obtain s where s: "get_prop v ''status'' = JStr s" "?c (rs_of_string s)"
    by (cases "get_prop v ''status''") (auto simp: string_or_def)
  then obtain kvs where "v = JObj kvs" "map_of kvs ''status'' = Some (JStr s)"
    by (cases v) (auto simp: get_prop_def split: option.splits)
  with r str [OF s(2)] show ?thesis by blast
qed

theorem http_no_false_certainty_witness:
  "rs_string RsOK = ''RS_OK'' \<and>
   isSuccessOrDuplicate (ws_status (http_response [] (HttpReply 200 (Some (JObj [(''status'', JStr ''RS_OK'')])))))"
proof -
  have "ws_status (http_response [] (HttpReply 200 (Some (JObj [(''status'', JStr ''RS_OK'')])))) = RsOK"
    by (simp add: http_response_def get_prop_def string_or_def rs_of_string_def rs_table_def)
  then have s: "isSuccessOrDuplicate (ws_status (http_response [] (HttpReply 200 (Some (JObj [(''status'', JStr ''RS_OK'')])))))"
    by (simp add: isSuccessOrDuplicate_def)
  with http_no_false_certainty [of "[]" "HttpReply 200 (Some (JObj [(''status'', JStr ''RS_OK'')]))"]
  show ?thesis by (simp add: rs_string_def rs_table_def)
qed

end
