(* ===== verification/InternalWallet.thy ===== *)
theory InternalWallet
  imports WalletTypes
begin

text \<open>
  The in-process adapter of \<^verbatim>\<open>apps/rgs-server/src/wallet/InternalWalletAdapter.ts\<close>. The two
  mutable maps are the fields of \<open>internal_wallet\<close>; every operation returns the response
  and the new state.
\<close>

section \<open>State\<close>

record iw_row =
  ib_balance :: micro
  ib_currency :: string

datatype iw_kind = KBet | KWin | KRollback

record iw_tx =
  it_kind :: iw_kind
  it_delta :: micro

record internal_wallet =
  iw_balances :: "string \<rightharpoonup> iw_row"
  iw_committedTxs :: "uuid \<rightharpoonup> iw_tx"

record iw_seed =
  is_operatorId :: string
  is_playerRef :: string
  is_currency :: string
  is_balanceMicro :: micro

definition iw_key :: "string \<Rightarrow> string \<Rightarrow> string" where
  "iw_key operatorId playerRef = operatorId @ ''::'' @ playerRef"

definition iw_seed_row :: "internal_wallet \<Rightarrow> iw_seed \<Rightarrow> internal_wallet" where
  "iw_seed_row w s = w\<lparr>iw_balances := (iw_balances w)(iw_key (is_operatorId s) (is_playerRef s) \<mapsto>
      \<lparr>ib_balance = is_balanceMicro s, ib_currency = is_currency s\<rparr>)\<rparr>"

definition new_internal_wallet :: "iw_seed list \<Rightarrow> internal_wallet" where
  "new_internal_wallet seeds =
     foldl iw_seed_row \<lparr>iw_balances = Map.empty, iw_committedTxs = Map.empty\<rparr> seeds"

definition iw_getOrCreate ::
    "internal_wallet \<Rightarrow> string \<Rightarrow> string \<Rightarrow> string \<Rightarrow> iw_row \<times> internal_wallet" where
  "iw_getOrCreate w operatorId playerRef currency =
     (let k = iw_key operatorId playerRef in
      case iw_balances w k of
        Some row \<Rightarrow> (row, w)
      | None \<Rightarrow> (let row = \<lparr>ib_balance = 0, ib_currency = currency\<rparr>
                 in (row, w\<lparr>iw_balances := (iw_balances w)(k \<mapsto> row)\<rparr>)))"

section \<open>Operations\<close>

definition iw_reply :: "rs_status \<Rightarrow> uuid \<Rightarrow> iw_row \<Rightarrow> wallet_response" where
  "iw_reply st requestUuid row =
     \<lparr>ws_status = st, ws_requestUuid = requestUuid, ws_balanceMicro = Some (ib_balance row),
      ws_currency = Some (ib_currency row), ws_message = None\<rparr>"

text \<open>Adds to the balance of the row of a key, which \<open>getOrCreate\<close> has just returned.\<close>

definition iw_add :: "internal_wallet \<Rightarrow> string \<Rightarrow> iw_row \<Rightarrow> micro \<Rightarrow> internal_wallet" where
  "iw_add w k row d = w\<lparr>iw_balances := (iw_balances w)(k \<mapsto> row\<lparr>ib_balance := ib_balance row + d\<rparr>)\<rparr>"

definition iw_balance :: "internal_wallet \<Rightarrow> wallet_common \<Rightarrow> wallet_response \<times> internal_wallet" where
  "iw_balance w req =
     (let (row, w1) = iw_getOrCreate w (wq_operatorId req) (wq_playerRef req) (wq_currency req)
      in (iw_reply RsOK (wq_requestUuid req) row, w1))"

definition iw_bet :: "internal_wallet \<Rightarrow> bet_request \<Rightarrow> wallet_response \<times> internal_wallet" where
  "iw_bet w req =
     (let (row, w1) = iw_getOrCreate w (wq_operatorId req) (wq_playerRef req) (wq_currency req);
          k = iw_key (wq_operatorId req) (wq_playerRef req) in
      if iw_committedTxs w (wb_transactionUuid req) \<noteq> None
      then (iw_reply RsDUPLICATE_TRANSACTION (wq_requestUuid req) row, w1)
      else if ib_balance row < wb_amountMicro req
      then (iw_reply RsNOT_ENOUGH_MONEY (wq_requestUuid req) row, w1)
      else
        (iw_reply RsOK (wq_requestUuid req) (row\<lparr>ib_balance := ib_balance row - wb_amountMicro req\<rparr>),
         (iw_add w1 k row (- wb_amountMicro req))
           \<lparr>iw_committedTxs := (iw_committedTxs w1)(wb_transactionUuid req \<mapsto>
              \<lparr>it_kind = KBet, it_delta = - wb_amountMicro req\<rparr>)\<rparr>))"

definition iw_win :: "internal_wallet \<Rightarrow> win_request \<Rightarrow> wallet_response \<times> internal_wallet" where
  "iw_win w req =
     (let (row, w1) = iw_getOrCreate w (wq_operatorId req) (wq_playerRef req) (wq_currency req);
          k = iw_key (wq_operatorId req) (wq_playerRef req) in
      if iw_committedTxs w (ww_transactionUuid req) \<noteq> None
      then (iw_reply RsDUPLICATE_TRANSACTION (wq_requestUuid req) row, w1)
      else
        (iw_reply RsOK (wq_requestUuid req) (row\<lparr>ib_balance := ib_balance row + ww_amountMicro req\<rparr>),
         (iw_add w1 k row (ww_amountMicro req))
           \<lparr>iw_committedTxs := (iw_committedTxs w1)(ww_transactionUuid req \<mapsto>
              \<lparr>it_kind = KWin, it_delta = ww_amountMicro req\<rparr>)\<rparr>))"

definition iw_rollback :: "internal_wallet \<Rightarrow> rollback_request \<Rightarrow> wallet_response \<times> internal_wallet" where
  "iw_rollback w req =
     (case iw_committedTxs w (wr_referenceTransactionUuid req) of
        None \<Rightarrow> (\<lparr>ws_status = RsTRANSACTION_NOT_FOUND, ws_requestUuid = wq_requestUuid req,
                 ws_balanceMicro = None, ws_currency = None,
                 ws_message = Some ''unknown_reference_transaction''\<rparr>, w)
      | Some ref \<Rightarrow>
          (let (row, w1) = iw_getOrCreate w (wq_operatorId req) (wq_playerRef req) (wq_currency req);
               k = iw_key (wq_operatorId req) (wq_playerRef req) in
           if iw_committedTxs w (wr_transactionUuid req) \<noteq> None
           then (iw_reply RsDUPLICATE_TRANSACTION (wq_requestUuid req) row, w1)
           else
             (iw_reply RsOK (wq_requestUuid req) (row\<lparr>ib_balance := ib_balance row - it_delta ref\<rparr>),
              (iw_add w1 k row (- it_delta ref))
                \<lparr>iw_committedTxs := ((iw_committedTxs w1)(wr_transactionUuid req \<mapsto>
                     \<lparr>it_kind = KRollback, it_delta = - it_delta ref\<rparr>))
                   (wr_referenceTransactionUuid req := None)\<rparr>)))"

fun iw_step :: "internal_wallet \<Rightarrow> wallet_op \<Rightarrow> wallet_response \<times> internal_wallet" where
  "iw_step w (WBalance q) = iw_balance w q"
| "iw_step w (WBet q) = iw_bet w q"
| "iw_step w (WWin q) = iw_win w q"
| "iw_step w (WRollback q) = iw_rollback w q"

fun iw_run :: "internal_wallet \<Rightarrow> wallet_op list \<Rightarrow> internal_wallet" where
  "iw_run w [] = w"
| "iw_run w (oper # ops) = iw_run (snd (iw_step w oper)) ops"

section \<open>The interface\<close>

text \<open>What a player holds: a missing row is worth nothing.\<close>

definition iw_funds :: "internal_wallet \<Rightarrow> string \<Rightarrow> micro" where
  "iw_funds w k = (case iw_balances w k of None \<Rightarrow> 0 | Some row \<Rightarrow> ib_balance row)"

definition iw_settled :: "internal_wallet \<Rightarrow> uuid \<Rightarrow> bool" where
  "iw_settled w t \<longleftrightarrow> iw_committedTxs w t \<noteq> None"

lemma getOrCreate_props:
  assumes "iw_getOrCreate w opid p c = (row, w1)"
  shows "ib_balance row = iw_funds w (iw_key opid p)" "iw_committedTxs w1 = iw_committedTxs w"
    "iw_funds w1 k = iw_funds w k"
  using assms by (auto simp: iw_getOrCreate_def iw_funds_def Let_def split: option.splits if_splits)

lemma iw_add_funds [simp]:
  "iw_funds (iw_add w k row d) k' = (if k' = k then ib_balance row + d else iw_funds w k')"
  by (simp add: iw_add_def iw_funds_def)

lemma iw_funds_txs [simp]: "iw_funds (w\<lparr>iw_committedTxs := x\<rparr>) k = iw_funds w k"
  by (simp add: iw_funds_def)

lemma iw_add_txs [simp]: "iw_committedTxs (iw_add w k row d) = iw_committedTxs w"
  by (simp add: iw_add_def)

lemmas iw_ops = iw_balance_def iw_bet_def iw_win_def iw_rollback_def iw_settled_def iw_reply_def

interpretation iw: wallet_rules iw_step iw_funds iw_settled
proof
  fix s q p
  show "iw_funds (snd (iw_step s (WBalance q))) p = iw_funds s p"
    by (auto simp: iw_ops getOrCreate_props split: prod.splits)
next
  fix oper t s
  assume "op_is_payment oper" "op_tx oper = Some t" "ws_status (fst (iw_step s oper)) = RsOK"
  then show "iw_settled (snd (iw_step s oper)) t"
    by (cases oper) (auto simp: iw_ops Let_def split: prod.splits if_splits)
next
  fix oper t s
  assume "iw_settled s t" "op_reverses oper \<noteq> Some t"
  then show "iw_settled (snd (iw_step s oper)) t"
    by (cases oper) (auto simp: iw_ops Let_def getOrCreate_props split: prod.splits option.splits)
next
  fix oper t s p
  assume "op_is_payment oper" "op_tx oper = Some t" "iw_settled s t"
  then show "iw_funds (snd (iw_step s oper)) p = iw_funds s p"
    by (cases oper) (auto simp: iw_ops Let_def getOrCreate_props split: prod.splits)
qed

lemma iw_run_eq: "iw.run w ops = iw_run w ops"
  by (induction ops arbitrary: w) simp_all

lemma iw_run_append: "iw_run w (xs @ ys) = iw_run (iw_run w xs) ys"
  by (induction xs arbitrary: w) simp_all

text \<open>A win under a new transaction is credited and recorded.\<close>

lemma iw_win_new:
  assumes "iw_committedTxs w (ww_transactionUuid q) = None"
  shows "iw_funds (snd (iw_win w q)) (iw_key (wq_operatorId q) (wq_playerRef q)) =
      iw_funds w (iw_key (wq_operatorId q) (wq_playerRef q)) + ww_amountMicro q"
    "iw_committedTxs (snd (iw_win w q)) t =
      (if t = ww_transactionUuid q then Some \<lparr>it_kind = KWin, it_delta = ww_amountMicro q\<rparr> else iw_committedTxs w t)"
  using assms by (auto simp: iw_win_def Let_def getOrCreate_props split: prod.splits)

section \<open>Properties\<close>

text \<open>No double payment: after a bet or a win of the in-process wallet has succeeded, and
  whatever operations follow short of a rollback of that transaction, submitting the same
  transaction again changes no balance.\<close>

theorem internal_no_double_payment:
  assumes "op_is_payment oper" "op_tx oper = Some t" "ws_status (fst (iw_step w oper)) = RsOK"
    and "list_all (\<lambda>oper. op_reverses oper \<noteq> Some t) ops"
    and "op_is_payment again" "op_tx again = Some t"
  shows "iw_funds (iw_run w (oper # ops @ [again])) k = iw_funds (iw_run w (oper # ops)) k"
  using iw.no_double_payment [OF assms] unfolding iw_run_eq .

definition sample_bet :: bet_request where
  "sample_bet = \<lparr>wq_requestUuid = ''r1'', wq_operatorId = ''op'', wq_playerRef = ''p'',
     wq_currency = ''LKR'', wq_gameCode = ''dice'', wb_transactionUuid = ''t1'',
     wb_amountMicro = 30, wb_roundId = ''rd'', wb_isFree = None, wb_meta = None\<rparr>"

definition sample_rollback :: rollback_request where
  "sample_rollback = \<lparr>wq_requestUuid = ''r2'', wq_operatorId = ''op'', wq_playerRef = ''p'',
     wq_currency = ''LKR'', wq_gameCode = ''dice'', wr_transactionUuid = ''t2'',
     wr_referenceTransactionUuid = ''t1'', wr_roundId = None, wr_meta = None\<rparr>"

definition sample_wallet :: internal_wallet where
  "sample_wallet = new_internal_wallet
     [\<lparr>is_operatorId = ''op'', is_playerRef = ''p'', is_currency = ''LKR'', is_balanceMicro = 100\<rparr>]"

lemmas sample_defs = sample_bet_def sample_rollback_def sample_wallet_def new_internal_wallet_def
  iw_seed_row_def iw_key_def iw_getOrCreate_def

theorem internal_no_double_payment_witness:
  "iw_funds (iw_run sample_wallet [WBet sample_bet, WBet sample_bet]) ''op::p''
   = iw_funds (iw_run sample_wallet [WBet sample_bet]) ''op::p''"
  using internal_no_double_payment [of "WBet sample_bet" "''t1''" sample_wallet "[]" "WBet sample_bet"]
  by (simp add: sample_defs iw_bet_def iw_reply_def)

text \<open>A rollback gives the stake of an accepted bet back exactly, but it also forgets the
  transaction: a late retry of the bet is debited once more, and a retry of the rollback
  before that is answered with an unknown transaction instead of a duplicate.\<close>

theorem internal_rollback_forgets:
  assumes "ws_status (fst (iw_step w (WBet b))) = RsOK"
    and "wq_operatorId r = wq_operatorId b" "wq_playerRef r = wq_playerRef b"
    and "wr_referenceTransactionUuid r = wb_transactionUuid b"
    and "wr_transactionUuid r \<noteq> wb_transactionUuid b"
    and "iw_committedTxs w (wr_transactionUuid r) = None"
  defines "k \<equiv> iw_key (wq_operatorId b) (wq_playerRef b)"
  shows "iw_funds (iw_run w [WBet b, WRollback r]) k = iw_funds w k \<and>
     ws_status (fst (iw_step (iw_run w [WBet b, WRollback r]) (WRollback r))) = RsTRANSACTION_NOT_FOUND \<and>
     iw_funds (iw_run w [WBet b, WRollback r, WBet b]) k = iw_funds w k - wb_amountMicro b"
proof -
  obtain row w1 where g: "iw_getOrCreate w (wq_operatorId b) (wq_playerRef b) (wq_currency b) = (row, w1)"
    by fastforce
  note p = getOrCreate_props [OF g]
  have acc: "iw_committedTxs w (wb_transactionUuid b) = None" "wb_amountMicro b \<le> iw_funds w k"
    using assms(1) p by (auto simp: iw_bet_def g iw_reply_def Let_def k_def split: if_splits)
  define w2 where "w2 = snd (iw_bet w b)"
  have w2: "iw_funds w2 k = iw_funds w k - wb_amountMicro b"
    "iw_committedTxs w2 = (iw_committedTxs w)(wb_transactionUuid b \<mapsto> \<lparr>it_kind = KBet, it_delta = - wb_amountMicro b\<rparr>)"
    using acc p by (auto simp: w2_def iw_bet_def g Let_def k_def)
  obtain row2 w2' where g2: "iw_getOrCreate w2 (wq_operatorId b) (wq_playerRef b) (wq_currency r) = (row2, w2')"
    by fastforce
  note p2 = getOrCreate_props [OF g2]
  define w3 where "w3 = snd (iw_rollback w2 r)"
  have w3: "iw_funds w3 k = iw_funds w k" "iw_committedTxs w3 (wb_transactionUuid b) = None"
    using w2 p2 assms(2-6) by (auto simp: w3_def iw_rollback_def g2 Let_def k_def)
  obtain row3 w3' where g3: "iw_getOrCreate w3 (wq_operatorId b) (wq_playerRef b) (wq_currency b) = (row3, w3')"
    by fastforce
  note p3 = getOrCreate_props [OF g3]
  have "iw_funds (snd (iw_bet w3 b)) k = iw_funds w k - wb_amountMicro b"
    using w3 p3 acc by (auto simp: iw_bet_def g3 Let_def k_def)
  moreover have "ws_status (fst (iw_rollback w3 r)) = RsTRANSACTION_NOT_FOUND"
    using w3 assms(4) by (simp add: iw_rollback_def)
  ultimately show ?thesis using w3 by (simp add: w3_def w2_def)
qed

theorem internal_rollback_forgets_witness:
  "iw_funds (iw_run sample_wallet [WBet sample_bet, WRollback sample_rollback, WBet sample_bet]) ''op::p'' = 70"
  using internal_rollback_forgets [of sample_wallet sample_bet sample_rollback]
  by (simp add: sample_defs iw_bet_def iw_reply_def iw_funds_def)

end
