(* ===== verification/WalletClient.thy ===== *)
theory WalletClient
  imports CircuitBreaker AuditChain WalletHttp InternalWallet
begin

text \<open>
  The wallet client of \<^verbatim>\<open>apps/rgs-server/src/wallet/WalletClient.ts\<close>, which every wallet call
  of the server goes through: a circuit breaker per operator and endpoint before the
  adapter, and an audit row written before and completed (with its link of the hash chain)
  after the call. A call is split where it waits for the adapter, so that other calls can
  come in between; the metrics are left out.
\<close>

section \<open>State\<close>

record audit_context =
  ac_sessionId :: "uuid option"
  ac_roundId :: "uuid option"
  ac_attempt :: "int option"

definition no_audit :: audit_context where
  "no_audit = \<lparr>ac_sessionId = None, ac_roundId = None, ac_attempt = None\<rparr>"

record wallet_client =
  wl_operatorId :: uuid
  wl_breaker :: breaker
  wl_calls :: "wallet_call_row list"

definition new_wallet_client :: "uuid \<Rightarrow> int option \<Rightarrow> msec option \<Rightarrow> wallet_call_row list \<Rightarrow> wallet_client" where
  "new_wallet_client operatorId failureThreshold cooldownMs calls =
     \<lparr>wl_operatorId = operatorId,
      wl_breaker = new_breaker (Some (nullish failureThreshold 5)) (Some (nullish cooldownMs 30000)),
      wl_calls = calls\<rparr>"

text \<open>
  What one call reads from outside: the clock at the four points where the code reads it, the
  id of the audit row, and whether the store serves the insert, the query of the tip and the
  update.
\<close>

record call_io =
  io_acquiredAt :: msec
  io_startedAt :: msec
  io_answeredAt :: msec
  io_recordedAt :: msec
  io_rowId :: uuid
  io_insertOk :: bool
  io_tipOk :: bool
  io_updateOk :: bool

record hash_env =
  hv_sha256 :: sha_fun
  hv_numstr :: "jsnum \<Rightarrow> string"

section \<open>The audit row\<close>

text \<open>
  \<open>serialiseBody\<close>: a value after a round trip through JSON, with integers of any size as
  strings, undefined members left out and undefined elements as null.
\<close>

fun serialiseBody :: "json \<Rightarrow> json" where
  "serialiseBody (JBig i) = JStr (show_int i)"
| "serialiseBody (JDate t) = JStr (toISOString t)"
| "serialiseBody (JArr vs) = JArr (map (\<lambda>v. if v = JUndefined then JNull else serialiseBody v) vs)"
| "serialiseBody (JObj kvs) =
     JObj (map (\<lambda>(k, v). (k, serialiseBody v)) (filter (\<lambda>kv. snd kv \<noteq> JUndefined) kvs))"
| "serialiseBody v = v"

definition undef :: "('a \<Rightarrow> json) \<Rightarrow> 'a option \<Rightarrow> json" where
  "undef f v = (case v of None \<Rightarrow> JUndefined | Some x \<Rightarrow> f x)"

fun request_json :: "wallet_op \<Rightarrow> json" where
  "request_json (WBalance q) = JObj ((''requestUuid'', JStr (wq_requestUuid q)) # common_fields q)"
| "request_json (WBet q) = JObj ((''requestUuid'', JStr (wq_requestUuid q)) # common_fields q @
     [(''transactionUuid'', JStr (wb_transactionUuid q)), (''amountMicro'', JBig (wb_amountMicro q)),
      (''roundId'', JStr (wb_roundId q)), (''isFree'', undef JBool (wb_isFree q)), (''meta'', undef id (wb_meta q))])"
| "request_json (WWin q) = JObj ((''requestUuid'', JStr (wq_requestUuid q)) # common_fields q @
     [(''transactionUuid'', JStr (ww_transactionUuid q)),
      (''referenceTransactionUuid'', JStr (ww_referenceTransactionUuid q)),
      (''amountMicro'', JBig (ww_amountMicro q)), (''roundId'', JStr (ww_roundId q)), (''meta'', undef id (ww_meta q))])"
| "request_json (WRollback q) = JObj ((''requestUuid'', JStr (wq_requestUuid q)) # common_fields q @
     [(''transactionUuid'', JStr (wr_transactionUuid q)),
      (''referenceTransactionUuid'', JStr (wr_referenceTransactionUuid q)),
      (''roundId'', undef JStr (wr_roundId q)), (''meta'', undef id (wr_meta q))])"

definition response_json :: "wallet_response \<Rightarrow> json" where
  "response_json r = JObj
     [(''status'', JStr (rs_string (ws_status r))), (''requestUuid'', JStr (ws_requestUuid r)),
      (''message'', undef JStr (ws_message r)), (''balanceMicro'', undef JBig (ws_balanceMicro r)),
      (''currency'', undef JStr (ws_currency r))]"

text \<open>The extra arguments of the four public methods.\<close>

fun call_endpoint :: "wallet_op \<Rightarrow> wallet_endpoint" where
  "call_endpoint (WBalance q) = EBALANCE"
| "call_endpoint (WBet q) = EBET"
| "call_endpoint (WWin q) = EWIN"
| "call_endpoint (WRollback q) = EROLLBACK"

fun op_amount :: "wallet_op \<Rightarrow> micro option" where
  "op_amount (WBet q) = Some (wb_amountMicro q)"
| "op_amount (WWin q) = Some (ww_amountMicro q)"
| "op_amount _ = None"

fun op_round :: "wallet_op \<Rightarrow> uuid option" where
  "op_round (WBalance q) = None"
| "op_round (WBet q) = Some (wb_roundId q)"
| "op_round (WWin q) = Some (ww_roundId q)"
| "op_round (WRollback q) = wr_roundId q"

definition new_call_row :: "uuid \<Rightarrow> audit_context \<Rightarrow> call_io \<Rightarrow> wallet_op \<Rightarrow> wallet_call_row" where
  "new_call_row operatorId audit io oper =
     \<lparr>wc_id = io_rowId io, wc_operatorId = operatorId, wc_direction = ''OUTBOUND'',
      wc_endpoint = call_endpoint oper, wc_requestUuid = wq_requestUuid (op_common oper),
      wc_transactionUuid = op_tx oper,
      wc_referenceTransactionUuid = bd_referenceTransactionUuid (op_wire oper),
      wc_sessionId = ac_sessionId audit,
      wc_roundId = (case ac_roundId audit of Some r \<Rightarrow> Some r | None \<Rightarrow> op_round oper),
      wc_playerRef = Some (wq_playerRef (op_common oper)), wc_amountMicro = op_amount oper,
      wc_currency = Some (wq_currency (op_common oper)), wc_requestBody = serialiseBody (request_json oper),
      wc_responseStatus = None, wc_responseBody = JNull, wc_httpStatus = None, wc_latencyMs = None,
      wc_attempt = nullish (ac_attempt audit) 1, wc_succeeded = False, wc_createdAt = io_startedAt io,
      wc_prevRowHash = None, wc_rowHash = None\<rparr>"

text \<open>The unique key of the table; an insert that would repeat it is refused.\<close>

definition call_unique :: "wallet_call_row \<Rightarrow> uuid \<times> string \<times> wallet_endpoint \<times> uuid \<times> int" where
  "call_unique r = (wc_operatorId r, wc_direction r, wc_endpoint r, wc_requestUuid r, wc_attempt r)"

definition insert_call :: "bool \<Rightarrow> wallet_call_row \<Rightarrow> wallet_call_row list \<Rightarrow> (wallet_call_row list) option" where
  "insert_call ok r calls = (if ok \<and> call_unique r \<notin> call_unique ` set calls then Some (calls @ [r]) else None)"

section \<open>A call\<close>

definition call_key :: "uuid \<Rightarrow> wallet_op \<Rightarrow> string" where
  "call_key operatorId oper = operatorId @ '':'' @ endpoint_string (call_endpoint oper)"

definition uses_breaker :: "wallet_op \<Rightarrow> bool" where
  "uses_breaker oper \<longleftrightarrow> call_endpoint oper \<noteq> EBALANCE"

text \<open>
  Up to the call of the adapter: either the response of the open circuit, or the audit row
  that has been written (\<open>None\<close> when the insert failed).
\<close>

definition invoke_begin ::
    "audit_context \<Rightarrow> call_io \<Rightarrow> wallet_op \<Rightarrow> wallet_client \<Rightarrow>
     (wallet_response + wallet_call_row option) \<times> wallet_client" where
  "invoke_begin audit io oper c =
     (let (d, b) = (if uses_breaker oper
                    then tryAcquire (wl_breaker c) (io_acquiredAt io) (call_key (wl_operatorId c) oper)
                    else (\<lparr>bd_state = CLOSED, bd_allow = True\<rparr>, wl_breaker c));
          c1 = c\<lparr>wl_breaker := b\<rparr>
      in if \<not> bd_allow d
         then (Inl (plain_response RsTIMEOUT (wq_requestUuid (op_common oper))
                 (if bd_state d = OPEN then ''circuit_open'' else ''circuit_probing'')), c1)
         else (let row = new_call_row (wl_operatorId c) audit io oper in
               case insert_call (io_insertOk io) row (wl_calls c1) of
                 None \<Rightarrow> (Inr None, c1)
               | Some calls \<Rightarrow> (Inr (Some row), c1\<lparr>wl_calls := calls\<rparr>)))"

definition final_row :: "wallet_call_row \<Rightarrow> call_io \<Rightarrow> wallet_response \<Rightarrow> wallet_call_row" where
  "final_row row io res = row\<lparr>wc_responseStatus := Some (rs_string (ws_status res)),
     wc_responseBody := serialiseBody (response_json res), wc_httpStatus := None,
     wc_latencyMs := Some (io_answeredAt io - io_startedAt io), wc_succeeded := (ws_status res = RsOK)\<rparr>"

definition call_healthy :: "rs_status \<Rightarrow> bool" where
  "call_healthy st \<longleftrightarrow> st = RsOK \<or> isRejectStatus st \<or> st = RsDUPLICATE_TRANSACTION"

definition invoke_finish ::
    "hash_env \<Rightarrow> call_io \<Rightarrow> wallet_op \<Rightarrow> wallet_call_row option \<Rightarrow> wallet_response \<Rightarrow> wallet_client \<Rightarrow> wallet_client" where
  "invoke_finish env io oper call res c =
     (let key = call_key (wl_operatorId c) oper;
          c1 = (if \<not> uses_breaker oper then c
                else c\<lparr>wl_breaker := (if call_healthy (ws_status res) then recordSuccess (wl_breaker c) key
                                      else recordFailure (wl_breaker c) (io_recordedAt io) key)\<rparr>)
      in case call of
           None \<Rightarrow> c1
         | Some row \<Rightarrow>
             (let prev = (if io_tipOk io then latestWalletCallTip (wl_calls c1) (wl_operatorId c) else None);
                  final = final_row row io res;
                  h = call_hash (hv_sha256 env) (hv_numstr env) prev final
              in if io_updateOk io
                 then c1\<lparr>wl_calls := update_where (\<lambda>r. wc_id r = wc_id row)
                        (\<lambda>r. r\<lparr>wc_responseStatus := wc_responseStatus final, wc_responseBody := wc_responseBody final,
                               wc_latencyMs := wc_latencyMs final, wc_succeeded := wc_succeeded final,
                               wc_prevRowHash := prev, wc_rowHash := Some h\<rparr>) (wl_calls c1)\<rparr>
                 else c1))"

text \<open>The whole call, around an adapter with a state of its own.\<close>

definition invoke ::
    "hash_env \<Rightarrow> ('s \<Rightarrow> wallet_op \<Rightarrow> wallet_response \<times> 's) \<Rightarrow> audit_context \<Rightarrow> call_io \<Rightarrow> wallet_op \<Rightarrow>
     wallet_client \<times> 's \<Rightarrow> wallet_response \<times> wallet_client \<times> 's" where
  "invoke env adapter audit io oper x =
     (let (r, c) = invoke_begin audit io oper (fst x) in
      case r of
        Inl res \<Rightarrow> (res, c, snd x)
      | Inr call \<Rightarrow>
          (let (res, s) = adapter (snd x) oper in (res, invoke_finish env io oper call res c, s)))"

section \<open>The frame of a call\<close>

definition io_times :: "call_io \<Rightarrow> msec \<times> msec" where
  "io_times io = (io_acquiredAt io, io_recordedAt io)"

text \<open>Whether the breaker lets the call through, and what the breaker is afterwards.\<close>

definition call_gate :: "call_io \<Rightarrow> wallet_op \<Rightarrow> wallet_client \<Rightarrow> breaker_decision \<times> breaker" where
  "call_gate io oper c =
     (if uses_breaker oper then tryAcquire (wl_breaker c) (io_acquiredAt io) (call_key (wl_operatorId c) oper)
      else (\<lparr>bd_state = CLOSED, bd_allow = True\<rparr>, wl_breaker c))"

definition breaker_after :: "call_io \<Rightarrow> wallet_op \<Rightarrow> rs_status \<Rightarrow> uuid \<Rightarrow> breaker \<Rightarrow> breaker" where
  "breaker_after io oper st operatorId b =
     (if \<not> uses_breaker oper then b
      else if call_healthy st then recordSuccess b (call_key operatorId oper)
      else recordFailure b (io_recordedAt io) (call_key operatorId oper))"

lemma invoke_begin_gate:
  "invoke_begin audit io oper c =
     (let (d, b) = call_gate io oper c in
      if \<not> bd_allow d
      then (Inl (plain_response RsTIMEOUT (wq_requestUuid (op_common oper))
              (if bd_state d = OPEN then ''circuit_open'' else ''circuit_probing'')), c\<lparr>wl_breaker := b\<rparr>)
      else (let row = new_call_row (wl_operatorId c) audit io oper in
            case insert_call (io_insertOk io) row (wl_calls c) of
              None \<Rightarrow> (Inr None, c\<lparr>wl_breaker := b\<rparr>)
            | Some calls \<Rightarrow> (Inr (Some row), c\<lparr>wl_breaker := b, wl_calls := calls\<rparr>)))"
  by (simp add: invoke_begin_def call_gate_def Let_def split: prod.splits option.splits)

lemma invoke_finish_frame [simp]:
  "wl_operatorId (invoke_finish env io oper call res c) = wl_operatorId c"
  "wl_breaker (invoke_finish env io oper call res c) =
     breaker_after io oper (ws_status res) (wl_operatorId c) (wl_breaker c)"
  by (simp_all add: invoke_finish_def breaker_after_def Let_def split: option.splits)

lemma finish_unaudited [simp]: "wl_calls (invoke_finish env io oper None res c) = wl_calls c"
  by (simp add: invoke_finish_def Let_def)

text \<open>The two ways a call goes, as far as the response, the breaker and the adapter are concerned.\<close>

lemma invoke_blocked:
  assumes "call_gate io oper c = (d, b)" "\<not> bd_allow d"
  shows "invoke env adapter audit io oper (c, s) =
     (plain_response RsTIMEOUT (wq_requestUuid (op_common oper))
        (if bd_state d = OPEN then ''circuit_open'' else ''circuit_probing''), c\<lparr>wl_breaker := b\<rparr>, s)"
  using assms by (simp add: invoke_def invoke_begin_gate)

lemma invoke_passed:
  assumes "call_gate io oper c = (d, b)" "bd_allow d"
  shows "\<exists>c'. invoke env adapter audit io oper (c, s) = (fst (adapter s oper), c', snd (adapter s oper)) \<and>
     wl_operatorId c' = wl_operatorId c \<and>
     wl_breaker c' = breaker_after io oper (ws_status (fst (adapter s oper))) (wl_operatorId c) b"
  using assms by (simp add: invoke_def invoke_begin_gate Let_def split: prod.splits option.splits)

lemma invoke_cases:
  obtains (blocked) c' msg where "invoke env adapter audit io oper (c, s) =
       (plain_response RsTIMEOUT (wq_requestUuid (op_common oper)) msg, c', s)"
  | (passed) c' where "invoke env adapter audit io oper (c, s) = (fst (adapter s oper), c', snd (adapter s oper))"
proof -
  obtain d b where g: "call_gate io oper c = (d, b)" by fastforce
  show thesis
  proof (cases "bd_allow d")
    case True
    obtain c' where "invoke env adapter audit io oper (c, s) = (fst (adapter s oper), c', snd (adapter s oper))"
      using invoke_passed [OF g True, of env adapter audit s] by blast
    then show thesis by (rule passed)
  next
    case False
    show thesis by (rule blocked [OF invoke_blocked [OF g False]])
  qed
qed

section \<open>The rules of the interface survive the client\<close>

text \<open>Calls one after the other; the outside of the \<open>n\<close>-th call is \<open>ios n\<close>.\<close>

type_synonym 's client_state = "nat \<times> wallet_client \<times> 's"

definition client_step ::
    "hash_env \<Rightarrow> ('s \<Rightarrow> wallet_op \<Rightarrow> wallet_response \<times> 's) \<Rightarrow> (nat \<Rightarrow> audit_context \<times> call_io) \<Rightarrow>
     's client_state \<Rightarrow> wallet_op \<Rightarrow> wallet_response \<times> 's client_state" where
  "client_step env adapter ios x oper =
     apsnd (Pair (Suc (fst x))) (invoke env adapter (fst (ios (fst x))) (snd (ios (fst x))) oper (snd x))"

fun client_run ::
    "hash_env \<Rightarrow> ('s \<Rightarrow> wallet_op \<Rightarrow> wallet_response \<times> 's) \<Rightarrow> (nat \<Rightarrow> audit_context \<times> call_io) \<Rightarrow>
     's client_state \<Rightarrow> wallet_op list \<Rightarrow> 's client_state" where
  "client_run env adapter ios x [] = x"
| "client_run env adapter ios x (oper # ops) =
     client_run env adapter ios (snd (client_step env adapter ios x oper)) ops"

abbreviation under :: "('s \<Rightarrow> 'a) \<Rightarrow> 's client_state \<Rightarrow> 'a" where
  "under f x \<equiv> f (snd (snd x))"

lemma client_step_cases:
  obtains (blocked) x' msg where "client_step env adapter ios x oper =
       (plain_response RsTIMEOUT (wq_requestUuid (op_common oper)) msg, x')" "snd (snd x') = snd (snd x)"
  | (passed) x' where "client_step env adapter ios x oper = (fst (adapter (snd (snd x)) oper), x')"
      "snd (snd x') = snd (adapter (snd (snd x)) oper)"
proof -
  obtain n c s where x: "x = (n, c, s)" by (cases x)
  show thesis
    using blocked passed
    by (cases rule: invoke_cases [of env adapter "fst (ios n)" "snd (ios n)" oper c s])
      (auto simp: client_step_def x)
qed

lemma timeout_not_ok [simp]: "ws_status (plain_response RsTIMEOUT u msg) = RsTIMEOUT"
  by (simp add: plain_response_def)

context wallet_rules begin

lemma client_rules: "wallet_rules (client_step env step ios) (under funds) (under settled)"
proof
  fix x q p
  show "under funds (snd (client_step env step ios x (WBalance q))) p = under funds x p"
    by (cases rule: client_step_cases [of env step ios x "WBalance q"]) (simp_all add: balance_reads)
next
  fix oper t x
  assume "op_is_payment oper" "op_tx oper = Some t" "ws_status (fst (client_step env step ios x oper)) = RsOK"
  then show "under settled (snd (client_step env step ios x oper)) t"
    by (cases rule: client_step_cases [of env step ios x oper]) (simp_all add: success_settles)
next
  fix x t oper
  assume "under settled x t" "op_reverses oper \<noteq> Some t"
  then show "under settled (snd (client_step env step ios x oper)) t"
    by (cases rule: client_step_cases [of env step ios x oper]) (simp_all add: settled_stays)
next
  fix oper t x p
  assume "op_is_payment oper" "op_tx oper = Some t" "under settled x t"
  then show "under funds (snd (client_step env step ios x oper)) p = under funds x p"
    by (cases rule: client_step_cases [of env step ios x oper]) (simp_all add: settled_inert)
qed

end

context durable_wallet begin

lemma client_durable: "durable_wallet (client_step env step ios) (under funds) (under settled)"
proof (intro durable_wallet.intro durable_wallet_axioms.intro)
  show "wallet_rules (client_step env step ios) (under funds) (under settled)" by (rule client_rules)
next
  fix x t oper
  assume "under settled x t"
  then show "under settled (snd (client_step env step ios x oper)) t"
    by (cases rule: client_step_cases [of env step ios x oper]) (simp_all add: settled_forever)
qed

end

interpretation client_iw: wallet_rules "client_step env iw_step ios" "under iw_funds" "under iw_settled"
  by (rule iw.client_rules)

interpretation client_mw: durable_wallet "client_step env mw_step ios" "under mw_funds" "under mw_settled"
  by (rule mw.client_durable)

lemma client_mw_run_eq: "client_mw.run env ios x ops = client_run env mw_step ios x ops"
  by (induction ops arbitrary: x) simp_all

lemma client_iw_run_eq: "client_iw.run env ios x ops = client_run env iw_step ios x ops"
  by (induction ops arbitrary: x) simp_all

section \<open>A broken operator\<close>

text \<open>An adapter with a counter of the calls that reach it, and a run with given readings.\<close>

definition counting :: "('s \<Rightarrow> wallet_op \<Rightarrow> wallet_response \<times> 's) \<Rightarrow> nat \<times> 's \<Rightarrow> wallet_op \<Rightarrow> wallet_response \<times> nat \<times> 's" where
  "counting adapter x oper = (let (r, s) = adapter (snd x) oper in (r, Suc (fst x), s))"

fun invoke_all ::
    "hash_env \<Rightarrow> ('s \<Rightarrow> wallet_op \<Rightarrow> wallet_response \<times> 's) \<Rightarrow> (audit_context \<times> call_io \<times> wallet_op) list \<Rightarrow>
     wallet_client \<times> 's \<Rightarrow> wallet_client \<times> 's" where
  "invoke_all env adapter [] x = x"
| "invoke_all env adapter ((audit, io, oper) # calls) x =
     invoke_all env adapter calls (snd (invoke env adapter audit io oper x))"

text \<open>How many calls the entry of a key still lets through when every one of them fails.\<close>

definition budget :: "breaker \<Rightarrow> msec \<Rightarrow> string \<Rightarrow> nat \<Rightarrow> bool" where
  "budget b t key n \<longleftrightarrow> (let e = ensure_entry b key in
     (ce_state e = OPEN \<and> t \<le> ce_openedAt e) \<or>
     (ce_state e = CLOSED \<and> int (ce_failures e) < cb_threshold b \<and> nat (cb_threshold b) \<le> ce_failures e + n))"

lemma budget_step:
  assumes "budget b t key n" "now < t + cb_cooldownMs b" "t \<le> rt"
  shows "(\<not> bd_allow (fst (tryAcquire b now key)) \<and> budget (snd (tryAcquire b now key)) t key n) \<or>
     (\<exists>m. n = Suc m \<and> bd_allow (fst (tryAcquire b now key)) \<and> budget (recordFailure (snd (tryAcquire b now key)) rt key) t key m)"
proof (cases "ce_state (ensure_entry b key) = OPEN")
  case True
  then show ?thesis using assms by (auto simp: budget_def tryAcquire_def Let_def)
next
  case False
  with assms(1) have c: "ce_state (ensure_entry b key) = CLOSED" "int (ce_failures (ensure_entry b key)) < cb_threshold b"
    "nat (cb_threshold b) \<le> ce_failures (ensure_entry b key) + n"
    by (auto simp: budget_def Let_def)
  then have "0 < n" by linarith
  then obtain m where m: "n = Suc m" by (cases n) auto
  show ?thesis
    using c assms(3) m by (auto simp: budget_def tryAcquire_def recordFailure_def Let_def)
qed

lemma broken_operator_run:
  assumes broken: "\<And>s o1. \<not> call_healthy (ws_status (fst (adapter s o1)))"
  shows "\<forall>(audit, io, oper) \<in> set calls. call_endpoint oper = ep \<and> io_acquiredAt io < t + cd \<and> t \<le> io_recordedAt io \<Longrightarrow>
    ep \<noteq> EBALANCE \<Longrightarrow> cb_cooldownMs (wl_breaker c) = cd \<Longrightarrow>
    budget (wl_breaker c) t (wl_operatorId c @ '':'' @ endpoint_string ep) n \<Longrightarrow>
    fst (snd (invoke_all env (counting adapter) calls (c, k, s))) \<le> k + n"
proof (induction calls arbitrary: c k s n)
  case (Cons x calls)
  obtain audit io oper where x: "x = (audit, io, oper)" by (cases x)
  define key where "key = wl_operatorId c @ '':'' @ endpoint_string ep"
  have io: "uses_breaker oper" "call_key (wl_operatorId c) oper = key" "io_acquiredAt io < t + cd" "t \<le> io_recordedAt io"
    using Cons.prems(1,2) by (auto simp: x uses_breaker_def call_key_def key_def)
  obtain d b where ta: "tryAcquire (wl_breaker c) (io_acquiredAt io) key = (d, b)" by fastforce
  then have g: "call_gate io oper c = (d, b)" using io by (simp add: call_gate_def)
  have cd: "cb_cooldownMs b = cd"
    using cb_step_frame(2) [of "wl_breaker c" "Acquire (io_acquiredAt io) key"] ta Cons.prems(3) by simp
  have rest: "\<forall>(audit, io, oper) \<in> set calls. call_endpoint oper = ep \<and> io_acquiredAt io < t + cd \<and> t \<le> io_recordedAt io"
    using Cons.prems(1) by simp
  from budget_step [OF Cons.prems(4) [folded key_def], of "io_acquiredAt io" "io_recordedAt io"] io(3,4) Cons.prems(3) ta
  consider "\<not> bd_allow d" "budget b t key n"
    | m where "n = Suc m" "bd_allow d" "budget (recordFailure b (io_recordedAt io) key) t key m"
    by auto
  then show ?case
  proof cases
    case 1
    have "fst (snd (invoke_all env (counting adapter) calls (c\<lparr>wl_breaker := b\<rparr>, k, s))) \<le> k + n"
      using 1(2) cd by (intro Cons.IH rest Cons.prems(2)) (simp_all add: key_def)
    then show ?thesis by (simp add: x invoke_blocked [OF g 1(1)])
  next
    case 2
    obtain r s' where a: "adapter s oper = (r, s')" by fastforce
    then have ca: "counting adapter (k, s) oper = (r, Suc k, s')" by (simp add: counting_def)
    have "\<exists>c'. invoke env (counting adapter) audit io oper (c, k, s) = (r, c', Suc k, s') \<and>
        wl_operatorId c' = wl_operatorId c \<and> wl_breaker c' = breaker_after io oper (ws_status r) (wl_operatorId c) b"
      using invoke_passed [OF g 2(2), of env "counting adapter" audit "(k, s)"] by (simp add: ca)
    then obtain c' where
      c': "invoke env (counting adapter) audit io oper (c, k, s) = (r, c', Suc k, s')" "wl_operatorId c' = wl_operatorId c"
      "wl_breaker c' = breaker_after io oper (ws_status r) (wl_operatorId c) b" by blast
    have "\<not> call_healthy (ws_status r)" using broken [of s oper] a by simp
    then have b': "wl_breaker c' = recordFailure b (io_recordedAt io) key"
      using c'(3) io by (simp add: breaker_after_def)
    have "cb_cooldownMs (wl_breaker c') = cd"
      using cb_step_frame(2) [of b "Failure (io_recordedAt io) key"] b' cd by simp
    then have "fst (snd (invoke_all env (counting adapter) calls (c', Suc k, s'))) \<le> Suc k + m"
      using 2(3) b' c'(2) by (intro Cons.IH rest Cons.prems(2)) (simp_all add: key_def)
    then show ?thesis using 2(1) by (simp add: x c'(1))
  qed
qed simp

section \<open>Properties\<close>

text \<open>Samples.\<close>

definition sample_io :: "bool \<Rightarrow> call_io" where
  "sample_io ok = \<lparr>io_acquiredAt = 10, io_startedAt = 10, io_answeredAt = 20, io_recordedAt = 20, io_rowId = ''c1'',
     io_insertOk = ok, io_tipOk = ok, io_updateOk = ok\<rparr>"

definition sample_hash :: hash_env where
  "sample_hash = \<lparr>hv_sha256 = \<lambda>_. 0, hv_numstr = \<lambda>_. ''0''\<rparr>"

definition sample_client :: wallet_client where
  "sample_client = new_wallet_client ''op'' None None []"

definition open_client :: wallet_client where
  "open_client = sample_client\<lparr>wl_breaker := put_entry (wl_breaker sample_client) ''op:BET''
     \<lparr>ce_state = OPEN, ce_failures = 5, ce_openedAt = 0, ce_probeInflight = False\<rparr>\<rparr>"

lemmas client_sample = sample_io_def sample_hash_def sample_client_def open_client_def new_wallet_client_def
  new_breaker_def

text \<open>While the circuit of an endpoint is open and its cooldown has not passed, a bet, win or
  rollback is answered at once with a timeout, which is neither a success nor a clean
  refusal: the adapter is not called, no audit row is written and the entry stays as it is.\<close>

theorem circuit_open_sends_nothing:
  assumes "uses_breaker oper" "e = ensure_entry (wl_breaker c) (call_key (wl_operatorId c) oper)" "ce_state e = OPEN"
    and "io_acquiredAt io - ce_openedAt e < cb_cooldownMs (wl_breaker c)"
    and "invoke env adapter audit io oper (c, s) = (res, c', s')"
  shows "res = plain_response RsTIMEOUT (wq_requestUuid (op_common oper)) ''circuit_open'' \<and>
     \<not> isSuccessOrDuplicate (ws_status res) \<and> \<not> isRejectStatus (ws_status res) \<and>
     s' = s \<and> wl_calls c' = wl_calls c \<and>
     (\<forall>k. ensure_entry (wl_breaker c') k = ensure_entry (wl_breaker c) k)"
proof -
  let ?b = "put_entry (wl_breaker c) (call_key (wl_operatorId c) oper) e"
  have "call_gate io oper c = (\<lparr>bd_state = OPEN, bd_allow = False\<rparr>, ?b)"
    using assms(1,3,4) by (simp add: call_gate_def tryAcquire_def Let_def flip: assms(2))
  then have "invoke env adapter audit io oper (c, s) =
     (plain_response RsTIMEOUT (wq_requestUuid (op_common oper)) ''circuit_open'', c\<lparr>wl_breaker := ?b\<rparr>, s)"
    by (simp add: invoke_blocked)
  then show ?thesis
    using assms(2,5) by (auto simp: isSuccessOrDuplicate_def isRejectStatus_def)
qed

theorem circuit_open_sends_nothing_witness:
  "ws_message (fst (invoke sample_hash mw_step no_audit (sample_io True) (WBet mock_bet)
     (open_client, new_wallet_store ''op''))) = Some ''circuit_open''"
proof -
  obtain res c' s' where i: "invoke sample_hash mw_step no_audit (sample_io True) (WBet mock_bet)
     (open_client, new_wallet_store ''op'') = (res, c', s')" by (cases "invoke sample_hash mw_step no_audit (sample_io True) (WBet mock_bet)
     (open_client, new_wallet_store ''op'')")
  show ?thesis unfolding i
    using circuit_open_sends_nothing [OF _ refl _ _ i]
    by (simp add: client_sample uses_breaker_def call_key_def plain_response_def)
qed

text \<open>C27. The audit trail cannot disturb play: two calls that differ only in the audit table, the
  audit context and whether the store serves the insert, the tip and the update give the
  same response, the same adapter state and the same breaker.\<close>

theorem audit_failures_invisible:
  assumes "wl_operatorId c1 = wl_operatorId c2" "wl_breaker c1 = wl_breaker c2" "io_times io1 = io_times io2"
    and "invoke env1 adapter audit1 io1 oper (c1, s) = (res1, c1', s1)"
    and "invoke env2 adapter audit2 io2 oper (c2, s) = (res2, c2', s2)"
  shows "res1 = res2 \<and> s1 = s2 \<and> wl_breaker c1' = wl_breaker c2'"
proof -
  obtain d b where g: "call_gate io1 oper c1 = (d, b)" by fastforce
  have g2: "call_gate io2 oper c2 = (d, b)" using g assms(1-3) by (auto simp: call_gate_def io_times_def split: if_splits)
  have t: "breaker_after io1 oper st o1 b = breaker_after io2 oper st o1 b" for st o1
    using assms(3) by (simp add: breaker_after_def io_times_def)
  show ?thesis
  proof (cases "bd_allow d")
    case True
    show ?thesis
      using invoke_passed [OF g True, of env1 adapter audit1 s] invoke_passed [OF g2 True, of env2 adapter audit2 s] assms(1,4,5)
      by (auto simp: t)
  next
    case False
    show ?thesis
      using invoke_blocked [OF g False, of env1 adapter audit1 s] invoke_blocked [OF g2 False, of env2 adapter audit2 s] assms(4,5)
      by auto
  qed
qed

theorem audit_failures_invisible_witness:
  "fst (invoke sample_hash mw_step no_audit (sample_io True) (WBet mock_bet) (sample_client, new_wallet_store ''op'')) =
   fst (invoke sample_hash mw_step no_audit (sample_io False) (WBet mock_bet) (sample_client, new_wallet_store ''op''))"
proof -
  let ?x = "\<lambda>ok. invoke sample_hash mw_step no_audit (sample_io ok) (WBet mock_bet) (sample_client, new_wallet_store ''op'')"
  obtain r1 c1 s1 where i1: "?x True = (r1, c1, s1)" by (cases "?x True")
  obtain r2 c2 s2 where i2: "?x False = (r2, c2, s2)" by (cases "?x False")
  show ?thesis unfolding i1 i2
    using audit_failures_invisible [OF refl refl _ i1 i2] by (simp add: io_times_def sample_io_def)
qed



text \<open>An operator whose wallet fails is left alone: of all the bets (or wins, or rollbacks) that are
  tried within one cooldown, at most as many as the failure threshold reach its endpoint,
  however many there are.\<close>

theorem broken_operator_contacts_bounded:
  assumes "\<forall>s oper. \<not> call_healthy (ws_status (fst (adapter s oper)))" "ep \<noteq> EBALANCE" "0 < th"
    and "\<forall>(audit, io, oper) \<in> set calls. call_endpoint oper = ep \<and> io_acquiredAt io < t + cd \<and> t \<le> io_recordedAt io"
  shows "fst (snd (invoke_all env (counting adapter) calls
     (new_wallet_client opid (Some th) (Some cd) rows, 0, s))) \<le> nat th"
proof -
  have "budget (wl_breaker (new_wallet_client opid (Some th) (Some cd) rows)) t key (nat th)" for key
    using assms(3) by (simp add: budget_def new_wallet_client_def new_breaker_def ensure_entry_def fresh_entry_def Let_def)
  then have "fst (snd (invoke_all env (counting adapter) calls
     (new_wallet_client opid (Some th) (Some cd) rows, 0, s))) \<le> 0 + nat th"
    using assms(1) by (intro broken_operator_run [OF _ assms(4,2)]) (simp_all add: new_wallet_client_def new_breaker_def)
  then show ?thesis by simp
qed

theorem broken_operator_contacts_bounded_witness:
  "fst (snd (invoke_all sample_hash (counting (\<lambda>s oper. (plain_response RsUNKNOWN [] [], s)))
     (replicate 9 (no_audit, sample_io True, WBet mock_bet)) (new_wallet_client ''op'' (Some 2) (Some 30000) [], 0, ()))) \<le> 2"
proof -
  have "\<not> call_healthy RsUNKNOWN" by (simp add: call_healthy_def isRejectStatus_def)
  then show ?thesis
    using broken_operator_contacts_bounded [of "\<lambda>s oper. (plain_response RsUNKNOWN [] [], s)" EBET 2
        "replicate 9 (no_audit, sample_io True, WBet mock_bet)" 0 30000 sample_hash "''op''" "[]" "()"]
    by (simp add: plain_response_def sample_io_def)
qed

lemma digest_hex_nonempty [simp]: "digest_hex w \<noteq> []"
proof -
  have "length (digest_hex w) = 64" by (simp add: digest_hex_def hex_digits_all)
  then show ?thesis by auto
qed

lemma stored_final_row:
  "wc_httpStatus r = None \<Longrightarrow>
   r\<lparr>wc_responseStatus := wc_responseStatus (final_row r io res), wc_responseBody := wc_responseBody (final_row r io res),
     wc_latencyMs := wc_latencyMs (final_row r io res), wc_succeeded := wc_succeeded (final_row r io res),
     wc_prevRowHash := p, wc_rowHash := h\<rparr> = (final_row r io res)\<lparr>wc_prevRowHash := p, wc_rowHash := h\<rparr>"
  by (cases r) (simp add: final_row_def)

text \<open>What a finished call leaves in the audit table, when the store serves it.\<close>

definition linked_row :: "hash_env \<Rightarrow> string option \<Rightarrow> call_io \<Rightarrow> wallet_response \<Rightarrow> wallet_call_row \<Rightarrow> wallet_call_row" where
  "linked_row env prev io res row = (final_row row io res)\<lparr>wc_prevRowHash := prev,
     wc_rowHash := Some (call_hash (hv_sha256 env) (hv_numstr env) prev (final_row row io res))\<rparr>"

lemma linked_row_simps [simp]:
  "wc_id (linked_row env p io res row) = wc_id row"
  "wc_operatorId (linked_row env p io res row) = wc_operatorId row"
  "wc_createdAt (linked_row env p io res row) = wc_createdAt row"
  "wc_prevRowHash (linked_row env p io res row) = p"
  "wc_rowHash (linked_row env p io res row) =
     Some (call_hash (hv_sha256 env) (hv_numstr env) p (linked_row env p io res row))"
  by (simp_all add: linked_row_def final_row_def call_hash_def walletCallHashInput_def)

lemma finish_links:
  assumes "io_tipOk io" "io_updateOk io" "wc_httpStatus row = None"
    and "\<forall>r \<in> set (wl_calls c). wc_id r = wc_id row \<longrightarrow> r = row"
  shows "wl_calls (invoke_finish env io oper (Some row) res c) =
     update_where (\<lambda>r. wc_id r = wc_id row)
       (linked_row env (latestWalletCallTip (wl_calls c) (wl_operatorId c)) io res) (wl_calls c)"
proof -
  have "r\<lparr>wc_responseStatus := wc_responseStatus (final_row row io res), wc_responseBody := wc_responseBody (final_row row io res),
       wc_latencyMs := wc_latencyMs (final_row row io res), wc_succeeded := wc_succeeded (final_row row io res),
       wc_prevRowHash := p,
       wc_rowHash := Some (call_hash (hv_sha256 env) (hv_numstr env) p (final_row row io res))\<rparr> = linked_row env p io res r"
    if "wc_id r = wc_id row" "r \<in> set (wl_calls c)" for r p
  proof -
    have "r = row" using that assms(4) by blast
    then show ?thesis using stored_final_row [OF assms(3)] by (simp add: linked_row_def)
  qed
  then show ?thesis
    using assms(1,2) by (auto simp: invoke_finish_def Let_def update_where_def)
qed

lemma begin_row:
  assumes "invoke_begin audit io oper c = (Inr (Some row), c')"
  shows "row = new_call_row (wl_operatorId c) audit io oper" "wl_calls c' = wl_calls c @ [row]" "wl_operatorId c' = wl_operatorId c"
  using assms by (auto simp: invoke_begin_gate insert_call_def Let_def split: prod.splits if_splits option.splits)

lemma new_call_row_simps [simp]:
  "wc_id (new_call_row opid audit io oper) = io_rowId io"
  "wc_operatorId (new_call_row opid audit io oper) = opid"
  "wc_createdAt (new_call_row opid audit io oper) = io_startedAt io"
  "wc_rowHash (new_call_row opid audit io oper) = None"
  "wc_httpStatus (new_call_row opid audit io oper) = None"
  by (simp_all add: new_call_row_def)

text \<open>C37. The chain is written in the order in which calls are answered but verified in the order in
  which they were made: when the first of two calls is answered after the second, its row
  is linked to the hash of the later row, and a replay in canonical order reports it as
  altered (or two different messages with one digest are at hand).\<close>

theorem overlapping_calls_break_chain:
  assumes "wl_calls c = []" "invoke_begin auditA ioA opA c = (Inr (Some a), c1)"
    and "invoke_begin auditB ioB opB c1 = (Inr (Some b), c2)"
    and "io_startedAt ioA < io_startedAt ioB" "io_rowId ioA \<noteq> io_rowId ioB"
    and "io_tipOk ioA" "io_updateOk ioA" "io_tipOk ioB" "io_updateOk ioB"
    and "c4 = invoke_finish env ioA opA (Some a) ra (invoke_finish env ioB opB (Some b) rb c2)"
  shows "\<exists>a' b'. sort_key call_order (wl_calls c4) = [a', b'] \<and> wc_id a' = wc_id a \<and> wc_id b' = wc_id b \<and>
     wc_prevRowHash a' = wc_rowHash b' \<and> wc_prevRowHash b' = None \<and>
     (first_mismatch wc_id wc_rowHash
        (walk (call_hash (hv_sha256 env) (hv_numstr env)) None (sort_key call_order (wl_calls c4))) = Some (wc_id a) \<or>
      (\<exists>m m'. m \<noteq> m' \<and> hv_sha256 env m = hv_sha256 env m'))"
proof -
  let ?h = "call_hash (hv_sha256 env) (hv_numstr env)" and ?o = "wl_operatorId c"
  note a = begin_row [OF assms(2)] and b = begin_row [OF assms(3)]
  define b' where "b' = linked_row env None ioB rb b"
  define a' where "a' = linked_row env (wc_rowHash b') ioA ra a"
  define c3 where "c3 = invoke_finish env ioB opB (Some b) rb c2"
  have cB: "wl_calls c3 = [a, b']" "wl_operatorId c3 = ?o"
    using assms(1,5,8,9) a b by (simp_all add: c3_def finish_links b'_def latestWalletCallTip_def last_opt_def)
  have row: "wc_id a = io_rowId ioA" "wc_id b' = io_rowId ioB" "wc_operatorId b' = ?o" "wc_rowHash a = None"
    "wc_httpStatus a = None" "wc_rowHash b' \<noteq> None"
    using a(1) b(1) a(3) by (simp_all add: b'_def)
  have "wl_calls c4 = update_where (\<lambda>r. wc_id r = wc_id a)
      (linked_row env (latestWalletCallTip (wl_calls c3) (wl_operatorId c3)) ioA ra) (wl_calls c3)"
    unfolding assms(10) c3_def [symmetric] using assms(5-7) row by (intro finish_links) (auto simp: cB(1))
  then have cA: "wl_calls c4 = [a', b']"
    using assms(5) row by (simp add: cB a'_def latestWalletCallTip_def last_opt_def)
  have ord: "sort_key call_order (wl_calls c4) = [a', b']"
    using assms(4) a(1) b(1) by (simp add: cA call_order_def a'_def b'_def less_le)
  have "wc_rowHash a' = Some (?h (wc_rowHash b') a')" by (simp add: a'_def)
  then have "first_mismatch wc_id wc_rowHash (walk ?h None [a', b']) = Some (wc_id a') \<or>
      ?h None a' = ?h (wc_rowHash b') a'"
    by (auto simp: first_mismatch_def call_hash_def hashRow_def)
  moreover have "\<exists>m m'. m \<noteq> m' \<and> hv_sha256 env m = hv_sha256 env m'" if eq: "?h None a' = ?h (wc_rowHash b') a'"
  proof -
    let ?m = "\<lambda>p. chain_message (hv_numstr env) p (walletCallHashInput a')"
    have "hv_sha256 env (?m None) = hv_sha256 env (?m (wc_rowHash b'))"
      using eq by (auto simp: call_hash_def hashRow_def dest: digest_hex_inj)
    moreover have "?m None \<noteq> ?m (wc_rowHash b')"
      by (simp add: chain_message_def b'_def call_hash_def hashRow_def)
    ultimately show ?thesis by blast
  qed
  ultimately show ?thesis
    unfolding ord using a b by (auto simp: a'_def b'_def)
qed

theorem overlapping_calls_break_chain_witness:
  "\<exists>c a c1 b c2 x y. invoke_begin no_audit (sample_io True) (WBet mock_bet) c = (Inr (Some a), c1) \<and>
     invoke_begin no_audit ((sample_io True)\<lparr>io_rowId := ''c2'', io_startedAt := 15\<rparr>)
       (WBet (mock_bet\<lparr>wq_requestUuid := ''r9''\<rparr>)) c1 = (Inr (Some b), c2) \<and>
     sort_key call_order (wl_calls (invoke_finish sample_hash (sample_io True) (WBet mock_bet) (Some a)
       (plain_response RsOK [] []) (invoke_finish sample_hash ((sample_io True)\<lparr>io_rowId := ''c2'', io_startedAt := 15\<rparr>)
          (WBet (mock_bet\<lparr>wq_requestUuid := ''r9''\<rparr>)) (Some b) (plain_response RsOK [] []) c2))) = [x, y] \<and>
     wc_prevRowHash x = wc_rowHash y"
proof -
  let ?q = "WBet (mock_bet\<lparr>wq_requestUuid := ''r9''\<rparr>)" and ?i = "(sample_io True)\<lparr>io_rowId := ''c2'', io_startedAt := 15\<rparr>"
  define a where "a = new_call_row ''op'' no_audit (sample_io True) (WBet mock_bet)"
  define b where "b = new_call_row ''op'' no_audit ?i ?q"
  define b1 where "b1 = snd (tryAcquire (wl_breaker sample_client) 10 ''op:BET'')"
  define b2 where "b2 = snd (tryAcquire b1 10 ''op:BET'')"
  note ta = tryAcquire_def ensure_entry_def fresh_entry_def put_entry_def
  have i1: "invoke_begin no_audit (sample_io True) (WBet mock_bet) sample_client =
      (Inr (Some a), sample_client\<lparr>wl_breaker := b1, wl_calls := [a]\<rparr>)"
    by (simp add: invoke_begin_def client_sample uses_breaker_def call_key_def insert_call_def a_def b1_def ta Let_def)
  have i2: "invoke_begin no_audit ?i ?q (sample_client\<lparr>wl_breaker := b1, wl_calls := [a]\<rparr>) =
      (Inr (Some b), sample_client\<lparr>wl_breaker := b2, wl_calls := [a, b]\<rparr>)"
    by (simp add: invoke_begin_def client_sample uses_breaker_def call_key_def insert_call_def a_def b_def b1_def b2_def ta
        Let_def call_unique_def new_call_row_def mock_bet_def wallet_common.defs)
  have "wl_calls sample_client = []" "io_startedAt (sample_io True) < io_startedAt ?i" "io_rowId (sample_io True) \<noteq> io_rowId ?i"
    "io_tipOk (sample_io True)" "io_updateOk (sample_io True)" "io_tipOk ?i" "io_updateOk ?i"
    by (simp_all add: client_sample)
  from overlapping_calls_break_chain [OF this(1) i1 i2 this(2-7) refl, of sample_hash "plain_response RsOK [] []" "plain_response RsOK [] []"]
  show ?thesis using i1 i2 by blast
qed

end
