(* ===== verification/Operators.thy ===== *)
theory Operators
  imports Db WalletHttp
begin

text \<open>
  Operators and their credentials: the encryption of stored secrets
  (\<^verbatim>\<open>apps/rgs-server/src/utils/secrets.ts\<close>), the rotation and revocation of credentials
  (\<^verbatim>\<open>apps/rgs-server/src/services/CredentialRotation.ts\<close>) and the authentication of an
  operator's request (\<^verbatim>\<open>apps/rgs-server/src/middleware/operator-auth.ts\<close>). AES-GCM, SHA-256
  and HMAC are parameters.
\<close>

section \<open>Rows\<close>

datatype operator_status = OpActive | OpPaused | OpTerminated

record operator_row =
  op_id :: uuid
  op_slug :: string
  op_status :: operator_status
  op_testMode :: bool
  op_jurisdiction :: string
  op_defaultCurrency :: string
  op_allowedCurrencies :: "string list"
  op_walletCallbackUrl :: string
  op_ipAllowList :: "string list"
  op_allowedCountries :: "string list"
  op_suspendedReason :: "string option"

datatype credential_type = ApiKeyInbound | WalletHmacOutbound

fun credential_type_string :: "credential_type \<Rightarrow> string" where
  "credential_type_string ApiKeyInbound = ''API_KEY_INBOUND''"
| "credential_type_string WalletHmacOutbound = ''WALLET_HMAC_OUTBOUND''"

record credential_row =
  cr_id :: uuid
  cr_operatorId :: uuid
  cr_type :: credential_type
  cr_kid :: string
  cr_cipherBlob :: string
  cr_notAfter :: "msec option"
  cr_revokedAt :: "msec option"
  cr_label :: "string option"
  cr_createdAt :: msec

record config_audit_row =
  ca_operatorId :: uuid
  ca_gameCode :: string
  ca_field :: string
  ca_oldValue :: "string option"
  ca_newValue :: string
  ca_changedBy :: uuid

text \<open>The configuration of a game for an operator and a currency; the three form a key.\<close>

record game_config_row =
  og_id :: uuid
  og_operatorId :: uuid
  og_gameCode :: string
  og_currency :: string
  og_enabled :: bool
  og_configJson :: json
  og_configVersion :: string
  og_minBetMicro :: micro
  og_maxBetMicro :: micro
  og_commissionMicro :: micro
  og_bettingWindowMs :: int
  og_rollingWindowMs :: int
  og_cooldownMs :: int
  og_micaCompliant :: bool
  og_killSwitch :: bool
  og_killSwitchReason :: "string option"

definition find_config :: "game_config_row list \<Rightarrow> uuid \<Rightarrow> string \<Rightarrow> string \<Rightarrow> game_config_row option" where
  "find_config cs operatorId gameCode currency =
     find (\<lambda>c. og_operatorId c = operatorId \<and> og_gameCode c = gameCode \<and> og_currency c = currency) cs"

record operator_db =
  od_operators :: "operator_row list"
  od_credentials :: "credential_row list"
  od_configAudit :: "config_audit_row list"

definition find_operator :: "operator_db \<Rightarrow> uuid \<Rightarrow> operator_row option" where
  "find_operator d i = find (\<lambda>r. op_id r = i) (od_operators d)"

definition find_kid :: "operator_db \<Rightarrow> string \<Rightarrow> credential_row option" where
  "find_kid d k = find (\<lambda>r. cr_kid r = k) (od_credentials d)"

section \<open>Stored secrets\<close>

text \<open>
  A blob is the 12 bytes of the initialisation vector, the 16 bytes of the authentication tag
  and the ciphertext. \<open>gcm_open\<close> is \<open>None\<close> when the tag does not authenticate the rest.
\<close>

record secret_env =
  gcm_seal :: "string \<Rightarrow> string \<Rightarrow> string \<times> string"
  gcm_open :: "string \<Rightarrow> string \<Rightarrow> string \<Rightarrow> string option"

definition IV_LEN :: nat where "IV_LEN = 12"
definition TAG_LEN :: nat where "TAG_LEN = 16"

definition encryptSecret :: "secret_env \<Rightarrow> string \<Rightarrow> string \<Rightarrow> string" where
  "encryptSecret se iv plain = (let (tag, ct) = gcm_seal se iv plain in iv @ tag @ ct)"

text \<open>\<open>None\<close>: the code throws, on a blob that is too short or not authentic.\<close>

definition decryptSecret :: "secret_env \<Rightarrow> string \<Rightarrow> string option" where
  "decryptSecret se blob =
     (if length blob < IV_LEN + TAG_LEN then None
      else gcm_open se (take IV_LEN blob) (take TAG_LEN (drop IV_LEN blob)) (drop (IV_LEN + TAG_LEN) blob))"

text \<open>What is documented of the cipher: tags have 16 bytes, and what was sealed can be opened.\<close>

definition gcm_lawful :: "secret_env \<Rightarrow> bool" where
  "gcm_lawful se \<longleftrightarrow> (\<forall>iv plain. length (fst (gcm_seal se iv plain)) = TAG_LEN \<and>
     gcm_open se iv (fst (gcm_seal se iv plain)) (snd (gcm_seal se iv plain)) = Some plain)"

lemma secret_roundtrip:
  "gcm_lawful se \<Longrightarrow> length iv = IV_LEN \<Longrightarrow> decryptSecret se (encryptSecret se iv plain) = Some plain"
proof -
  assume l: "gcm_lawful se" "length iv = IV_LEN"
  obtain tag ct where g: "gcm_seal se iv plain = (tag, ct)" by fastforce
  have "length (fst (gcm_seal se iv plain)) = TAG_LEN"
    "gcm_open se iv (fst (gcm_seal se iv plain)) (snd (gcm_seal se iv plain)) = Some plain"
    using l(1) by (simp_all add: gcm_lawful_def)
  then show ?thesis using g l(2) by (simp add: decryptSecret_def encryptSecret_def)
qed

section \<open>Rotation\<close>

definition DEFAULT_GRACE_MS :: msec where "DEFAULT_GRACE_MS = 60 * 60000"

record rotate_input =
  ri_operatorId :: uuid
  ri_type :: credential_type
  ri_actorUserId :: uuid
  ri_actorEmail :: string
  ri_label :: "string option"
  ri_graceMs :: "msec option"
  ri_kidLabel :: "string option"

record rotate_result =
  rr_kid :: string
  rr_secret :: string
  rr_previousCredentialRetiresAt :: string
  rr_previousKid :: "string option"

text \<open>What the runtime draws for a rotation: an id, two random strings and an initialisation vector.\<close>

record rotate_draws =
  rd_id :: uuid
  rd_suffix :: string
  rd_secret :: string
  rd_iv :: string

definition active_credential :: "msec \<Rightarrow> uuid \<Rightarrow> credential_type \<Rightarrow> credential_row \<Rightarrow> bool" where
  "active_credential now operatorId ty r \<longleftrightarrow> cr_operatorId r = operatorId \<and> cr_type r = ty \<and>
     cr_revokedAt r = None \<and> (case cr_notAfter r of None \<Rightarrow> True | Some t \<Rightarrow> now < t)"

definition new_kid :: "operator_db \<Rightarrow> rotate_input \<Rightarrow> rotate_draws \<Rightarrow> string" where
  "new_kid d i r =
     (let slug = (case find_operator d (ri_operatorId i) of None \<Rightarrow> ''op'' | Some o1 \<Rightarrow> op_slug o1)
      in (case ri_type i of ApiKeyInbound \<Rightarrow> ''kid'' | WalletHmacOutbound \<Rightarrow> ''out'') @ ''_'' @ slug @ ''_'' @
         nullish (ri_kidLabel i) (rd_suffix r))"

text \<open>
  The whole rotation is one transaction: \<open>None\<close> when the insert repeats a key id (which is
  unique) and nothing is kept.
\<close>

definition rotateCredential ::
    "secret_env \<Rightarrow> msec \<Rightarrow> rotate_draws \<Rightarrow> rotate_input \<Rightarrow> operator_db \<Rightarrow> (rotate_result \<times> operator_db) option" where
  "rotateCredential se now r i d =
     (let retiresAt = now + nullish (ri_graceMs i) DEFAULT_GRACE_MS;
          previous = latest_by cr_createdAt (filter (active_credential now (ri_operatorId i) (ri_type i)) (od_credentials d));
          newKid = new_kid d i r;
          row = \<lparr>cr_id = rd_id r, cr_operatorId = ri_operatorId i, cr_type = ri_type i, cr_kid = newKid,
                 cr_cipherBlob = encryptSecret se (rd_iv r) (rd_secret r), cr_notAfter = None, cr_revokedAt = None,
                 cr_label = Some (nullish (ri_label i) (''rotated by '' @ ri_actorEmail i)), cr_createdAt = now\<rparr>;
          creds = od_credentials d @ [row];
          creds1 = (case previous of None \<Rightarrow> creds
                    | Some p \<Rightarrow> update_where (\<lambda>c. cr_id c = cr_id p) (\<lambda>c. c\<lparr>cr_notAfter := Some retiresAt\<rparr>) creds);
          audit = \<lparr>ca_operatorId = ri_operatorId i, ca_gameCode = ''-'',
                   ca_field = ''credential.'' @ credential_type_string (ri_type i),
                   ca_oldValue = map_option cr_kid previous, ca_newValue = newKid, ca_changedBy = ri_actorUserId i\<rparr>
      in if newKid \<in> cr_kid ` set (od_credentials d) then None
         else Some (\<lparr>rr_kid = newKid, rr_secret = rd_secret r,
                     rr_previousCredentialRetiresAt = toISOString retiresAt,
                     rr_previousKid = map_option cr_kid previous\<rparr>,
                    d\<lparr>od_credentials := creds1, od_configAudit := od_configAudit d @ [audit]\<rparr>))"

text \<open>\<open>None\<close>: the credential does not exist and the code throws.\<close>

definition revokeCredentialImmediately :: "msec \<Rightarrow> uuid \<Rightarrow> uuid \<Rightarrow> operator_db \<Rightarrow> operator_db option" where
  "revokeCredentialImmediately now credentialId actorUserId d =
     (case find (\<lambda>c. cr_id c = credentialId) (od_credentials d) of
        None \<Rightarrow> None
      | Some c \<Rightarrow>
          if cr_revokedAt c \<noteq> None then Some d
          else Some (d\<lparr>od_credentials := update_where (\<lambda>x. cr_id x = credentialId)
                         (\<lambda>x. x\<lparr>cr_revokedAt := Some now, cr_notAfter := Some now\<rparr>) (od_credentials d),
                       od_configAudit := od_configAudit d @
                         [\<lparr>ca_operatorId = cr_operatorId c, ca_gameCode = ''-'',
                           ca_field = ''credential.'' @ credential_type_string (cr_type c) @ ''.revoke'',
                           ca_oldValue = Some (cr_kid c), ca_newValue = ''REVOKED'', ca_changedBy = actorUserId\<rparr>]\<rparr>))"

section \<open>The outbound credential\<close>

text \<open>The credential that the server signs its wallet calls with: the newest that is not revoked.\<close>

definition outbound_credential :: "operator_db \<Rightarrow> uuid \<Rightarrow> credential_row option" where
  "outbound_credential d operatorId = latest_by cr_createdAt
     (filter (\<lambda>c. cr_operatorId c = operatorId \<and> cr_type c = WalletHmacOutbound \<and> cr_revokedAt c = None)
        (od_credentials d))"

datatype adapter_choice = NoCredential | BadCipher | UseHttp http_adapter

definition outbound_adapter ::
    "secret_env \<Rightarrow> (string \<Rightarrow> string option) \<Rightarrow> int option \<Rightarrow> operator_db \<Rightarrow> uuid \<Rightarrow> adapter_choice" where
  "outbound_adapter se pathname timeoutMs d operatorId =
     (case find_operator d operatorId of
        None \<Rightarrow> NoCredential
      | Some o1 \<Rightarrow>
          (case outbound_credential d operatorId of
             None \<Rightarrow> NoCredential
           | Some c \<Rightarrow>
               if op_walletCallbackUrl o1 = [] then NoCredential
               else (case decryptSecret se (cr_cipherBlob c) of
                       None \<Rightarrow> BadCipher
                     | Some secret \<Rightarrow> UseHttp (new_http_adapter pathname
                         \<lparr>ho_operatorId = operatorId, ho_kid = cr_kid c, ho_secret = secret,
                          ho_walletCallbackUrl = op_walletCallbackUrl o1, ho_timeoutMs = timeoutMs\<rparr>))))"

section \<open>Authentication of an operator's request\<close>

record inbound_request =
  ir_kid :: "string option"
  ir_timestamp :: "string option"
  ir_signature :: "string option"
  ir_method :: string
  ir_originalUrl :: string
  ir_rawBody :: "string option"

record auth_env =
  ae_sha256 :: sha_fun
  ae_hmac :: hmac_fun
  ae_secrets :: secret_env
  ae_signatureWindowSeconds :: int

datatype auth_verdict = AuthRefused int string | AuthOk operator_row credential_row

definition operatorAuth :: "auth_env \<Rightarrow> msec \<Rightarrow> operator_db \<Rightarrow> inbound_request \<Rightarrow> auth_verdict" where
  "operatorAuth env now d rq =
     (if \<not> truthy (ir_kid rq) \<or> \<not> truthy (ir_timestamp rq) \<or> \<not> truthy (ir_signature rq)
      then AuthRefused 401 ''missing_signature_headers''
      else case find_kid d (the (ir_kid rq)) of
        None \<Rightarrow> AuthRefused 401 ''unknown_or_revoked_kid''
      | Some cred \<Rightarrow>
          if cr_type cred \<noteq> ApiKeyInbound \<or> cr_revokedAt cred \<noteq> None
          then AuthRefused 401 ''unknown_or_revoked_kid''
          else if (case cr_notAfter cred of None \<Rightarrow> False | Some t \<Rightarrow> t < now)
          then AuthRefused 401 ''credential_expired''
          else (case find_operator d (cr_operatorId cred) of
                  None \<Rightarrow> AuthRefused 401 ''operator_terminated''
                | Some o1 \<Rightarrow>
                    if op_status o1 = OpTerminated then AuthRefused 401 ''operator_terminated''
                    else (case decryptSecret (ae_secrets env) (cr_cipherBlob cred) of
                            None \<Rightarrow> AuthRefused 500 ''auth_internal_error''
                          | Some secret \<Rightarrow>
                              if rgs_verifySignature (ae_sha256 env) (ae_hmac env) (now div 1000) secret (ir_method rq)
                                   (takeWhile (\<lambda>c. c \<noteq> CHR ''?'') (ir_originalUrl rq)) (TsString (the (ir_timestamp rq)))
                                   (nullish (ir_rawBody rq) []) (the (ir_signature rq)) (ae_signatureWindowSeconds env)
                              then AuthOk o1 cred
                              else AuthRefused 401 ''invalid_signature'')))"

section \<open>Facts\<close>

text \<open>A request whose headers are present and whose signature verifies under a secret.\<close>

definition signed_under :: "auth_env \<Rightarrow> string \<Rightarrow> msec \<Rightarrow> inbound_request \<Rightarrow> bool" where
  "signed_under env secret now rq \<longleftrightarrow>
     truthy (ir_kid rq) \<and> truthy (ir_timestamp rq) \<and> truthy (ir_signature rq) \<and>
     rgs_verifySignature (ae_sha256 env) (ae_hmac env) (now div 1000) secret (ir_method rq)
       (takeWhile (\<lambda>c. c \<noteq> CHR ''?'') (ir_originalUrl rq)) (TsString (the (ir_timestamp rq)))
       (nullish (ir_rawBody rq) []) (the (ir_signature rq)) (ae_signatureWindowSeconds env)"

lemma operatorAuth_known:
  assumes "ir_kid rq = Some k" "find_kid d k = Some cred" "cr_type cred = ApiKeyInbound" "cr_revokedAt cred = None"
    and "find_operator d (cr_operatorId cred) = Some o1" "op_status o1 \<noteq> OpTerminated"
    and "decryptSecret (ae_secrets env) (cr_cipherBlob cred) = Some secret"
  shows "(case cr_notAfter cred of None \<Rightarrow> True | Some t \<Rightarrow> now \<le> t) \<Longrightarrow> signed_under env secret now rq \<Longrightarrow>
       operatorAuth env now d rq = AuthOk o1 cred"
    and "cr_notAfter cred = Some t \<Longrightarrow> t < now \<Longrightarrow> truthy (ir_kid rq) \<Longrightarrow> truthy (ir_timestamp rq) \<Longrightarrow>
       truthy (ir_signature rq) \<Longrightarrow> operatorAuth env now d rq = AuthRefused 401 ''credential_expired''"
  using assms by (auto simp: operatorAuth_def signed_under_def split: option.splits)

text \<open>An accepted request carries a valid signature of a key of the operator that is in force.\<close>

lemma operatorAuth_ok:
  assumes "operatorAuth env now d rq = AuthOk o1 cred"
  shows "find_kid d (the (ir_kid rq)) = Some cred" "find_operator d (cr_operatorId cred) = Some o1"
    "op_status o1 \<noteq> OpTerminated" "cr_type cred = ApiKeyInbound" "cr_revokedAt cred = None"
    "\<exists>secret. decryptSecret (ae_secrets env) (cr_cipherBlob cred) = Some secret \<and> signed_under env secret now rq"
  using assms by (auto simp: operatorAuth_def signed_under_def split: option.splits if_splits)

text \<open>The parts of a rotation.\<close>

lemma find_update_other:
  "(\<And>x. k (f x) = k x) \<Longrightarrow> (\<And>x. x \<in> set rs \<Longrightarrow> k x = i \<Longrightarrow> \<not> p x) \<Longrightarrow>
   find (\<lambda>r. k r = i) (update_where p f rs) = find (\<lambda>r. k r = i) rs"
  by (induction rs) auto

lemma find_update_hit:
  "(\<And>x. k (f x) = k x) \<Longrightarrow> find (\<lambda>r. k r = i) rs = Some c \<Longrightarrow> p c \<Longrightarrow>
   find (\<lambda>r. k r = i) (update_where p f rs) = Some (f c)"
  by (induction rs) (auto split: if_splits)

lemma find_key_in:
  "distinct (map k rs) \<Longrightarrow> c \<in> set rs \<Longrightarrow> find (\<lambda>r. k r = k c) rs = Some c"
  by (induction rs) (auto simp: rev_image_eqI)

text \<open>What a rotation does to the credentials that a request can name.\<close>

lemma rotation_parts:
  assumes "rotateCredential se now r i d = Some (res, d')" "distinct (map cr_kid (od_credentials d))"
    and "distinct (map cr_id (od_credentials d))" "rd_id r \<notin> cr_id ` set (od_credentials d)"
    and "previous = latest_by cr_createdAt (filter (active_credential now (ri_operatorId i) (ri_type i)) (od_credentials d))"
  defines "fresh \<equiv> \<lparr>cr_id = rd_id r, cr_operatorId = ri_operatorId i, cr_type = ri_type i, cr_kid = rr_kid res,
                 cr_cipherBlob = encryptSecret se (rd_iv r) (rr_secret res), cr_notAfter = None, cr_revokedAt = None,
                 cr_label = Some (nullish (ri_label i) (''rotated by '' @ ri_actorEmail i)), cr_createdAt = now\<rparr>"
  shows "find_kid d' (rr_kid res) = Some fresh" "find_operator d' = find_operator d"
    and "previous = Some p \<Longrightarrow> find_kid d' (cr_kid p) =
      Some (p\<lparr>cr_notAfter := Some (now + nullish (ri_graceMs i) DEFAULT_GRACE_MS)\<rparr>)"
    and "k \<noteq> rr_kid res \<Longrightarrow> previous = None \<or> k \<noteq> cr_kid (the previous) \<Longrightarrow> find_kid d' k = find_kid d k"
proof -
  let ?row = "\<lparr>cr_id = rd_id r, cr_operatorId = ri_operatorId i, cr_type = ri_type i, cr_kid = new_kid d i r,
                 cr_cipherBlob = encryptSecret se (rd_iv r) (rd_secret r), cr_notAfter = None, cr_revokedAt = None,
                 cr_label = Some (nullish (ri_label i) (''rotated by '' @ ri_actorEmail i)), cr_createdAt = now\<rparr>"
  let ?t = "now + nullish (ri_graceMs i) DEFAULT_GRACE_MS"
  let ?c = "od_credentials d @ [?row]"
  let ?u = "case previous of None \<Rightarrow> ?c
      | Some p \<Rightarrow> update_where (\<lambda>c. cr_id c = cr_id p) (\<lambda>c. c\<lparr>cr_notAfter := Some ?t\<rparr>) ?c"
  have res: "rr_kid res = new_kid d i r" "rr_secret res = rd_secret r" "new_kid d i r \<notin> cr_kid ` set (od_credentials d)"
    "od_credentials d' = ?u" "od_operators d' = od_operators d"
    using assms(1) unfolding rotateCredential_def Let_def assms(5) [symmetric] by (auto split: if_splits)
  have row: "?row = fresh" using res by (simp add: fresh_def)
  show "find_operator d' = find_operator d" by (intro ext) (simp add: find_operator_def res)
  have prev: "p \<in> set (od_credentials d)" if "previous = Some p" for p
    using latest_by_in [of cr_createdAt "filter (active_credential now (ri_operatorId i) (ri_type i)) (od_credentials d)" p]
      that assms(5) by simp
  have same: "x = p" if "previous = Some p" "x \<in> set ?c" "cr_id x = cr_id p" for x p
  proof -
    have "x \<in> set (od_credentials d)" using that prev [OF that(1)] assms(4) by (auto simp: rev_image_eqI)
    then show ?thesis using that(3) prev [OF that(1)] assms(3) by (auto simp: distinct_map dest: inj_onD)
  qed
  have new: "find (\<lambda>x. cr_kid x = new_kid d i r) ?c = Some ?row"
  proof -
    have "find (\<lambda>x. cr_kid x = new_kid d i r) (od_credentials d) = None"
      using res(3) by (auto simp: find_None_iff image_iff)
    then show ?thesis by (simp add: find_append_row)
  qed
  have old: "find (\<lambda>x. cr_kid x = k) ?c = find_kid d k" if "k \<noteq> new_kid d i r" for k
    using that by (simp add: find_kid_def find_append_row split: option.splits)
  have other: "find (\<lambda>x. cr_kid x = k) ?u = find (\<lambda>x. cr_kid x = k) ?c" if "previous = None \<or> k \<noteq> cr_kid (the previous)" for k
  proof (cases previous)
    case (Some p)
    have "find (\<lambda>x. cr_kid x = k) (update_where (\<lambda>c. cr_id c = cr_id p) (\<lambda>c. c\<lparr>cr_notAfter := Some ?t\<rparr>) ?c) =
        find (\<lambda>x. cr_kid x = k) ?c"
      using same [OF Some] that Some by (intro find_update_other) auto
    then show ?thesis by (simp add: Some)
  qed simp
  have pkid: "cr_kid p \<noteq> new_kid d i r" if "previous = Some p" for p
    using prev [OF that] res(3) by force
  show "find_kid d' (rr_kid res) = Some fresh"
  proof -
    have "previous = None \<or> new_kid d i r \<noteq> cr_kid (the previous)" using pkid by (cases previous) auto
    then show ?thesis using other [of "new_kid d i r"] new unfolding find_kid_def res row by simp
  qed
  show "find_kid d' (cr_kid p) = Some (p\<lparr>cr_notAfter := Some ?t\<rparr>)" if p: "previous = Some p"
  proof -
    have "find (\<lambda>x. cr_kid x = cr_kid p) ?c = Some p"
      unfolding old [OF pkid [OF p]] find_kid_def by (rule find_key_in [OF assms(2) prev [OF p]])
    then have "find (\<lambda>x. cr_kid x = cr_kid p)
        (update_where (\<lambda>c. cr_id c = cr_id p) (\<lambda>c. c\<lparr>cr_notAfter := Some ?t\<rparr>) ?c) = Some (p\<lparr>cr_notAfter := Some ?t\<rparr>)"
      by (intro find_update_hit) simp_all
    then show ?thesis unfolding find_kid_def res by (simp add: p)
  qed
  show "find_kid d' k = find_kid d k" if "k \<noteq> rr_kid res" "previous = None \<or> k \<noteq> cr_kid (the previous)"
    using other [OF that(2)] old [of k] that(1) res by (simp add: find_kid_def)
qed

section \<open>Properties\<close>

text \<open>C26. Rotating an inbound key causes no downtime and reaches no other key: a request under the
  new key id that is signed with the secret that was handed out is accepted at once; the
  previous key is accepted until the announced instant and refused as expired after it; a
  request under any other key id is judged as before.\<close>

theorem rotation_zero_downtime:
  assumes "gcm_lawful (ae_secrets env)" "length (rd_iv r) = IV_LEN" "ri_type i = ApiKeyInbound"
    and "rotateCredential (ae_secrets env) now r i d = Some (res, d')" "distinct (map cr_kid (od_credentials d))"
    and "distinct (map cr_id (od_credentials d))" "rd_id r \<notin> cr_id ` set (od_credentials d)"
    and "find_operator d (ri_operatorId i) = Some o1" "op_status o1 \<noteq> OpTerminated"
    and "previous = latest_by cr_createdAt (filter (active_credential now (ri_operatorId i) ApiKeyInbound) (od_credentials d))"
    and "retires = now + nullish (ri_graceMs i) DEFAULT_GRACE_MS"
  shows "(ir_kid rq = Some (rr_kid res) \<and> signed_under env (rr_secret res) later rq \<longrightarrow>
       (\<exists>c. operatorAuth env later d' rq = AuthOk o1 c)) \<and>
     (\<forall>p secret. previous = Some p \<and> ir_kid rq = Some (cr_kid p) \<and> signed_under env secret later rq \<and>
        decryptSecret (ae_secrets env) (cr_cipherBlob p) = Some secret \<longrightarrow>
        (if later \<le> retires then \<exists>c. operatorAuth env later d' rq = AuthOk o1 c
         else operatorAuth env later d' rq = AuthRefused 401 ''credential_expired'')) \<and>
     (ir_kid rq \<noteq> Some (rr_kid res) \<and> (\<forall>p. previous = Some p \<longrightarrow> ir_kid rq \<noteq> Some (cr_kid p)) \<longrightarrow>
        operatorAuth env later d' rq = operatorAuth env later d rq)"
proof -
  note parts = rotation_parts [OF assms(4-7) refl, unfolded assms(3), folded assms(10)]
  have prev: "cr_operatorId p = ri_operatorId i \<and> cr_type p = ApiKeyInbound \<and> cr_revokedAt p = None"
    if "previous = Some p" for p
    using latest_by_in [of cr_createdAt _ p] that unfolding assms(10) by (fastforce simp: active_credential_def)
  have "\<exists>c. operatorAuth env later d' rq = AuthOk o1 c"
    if "ir_kid rq = Some (rr_kid res)" "signed_under env (rr_secret res) later rq"
    using operatorAuth_known(1) [OF that(1) parts(1), of o1 env "rr_secret res" later] that(2) assms(1,2,8,9)
    by (auto simp: parts(2) secret_roundtrip)
  moreover have "if later \<le> retires then \<exists>c. operatorAuth env later d' rq = AuthOk o1 c
      else operatorAuth env later d' rq = AuthRefused 401 ''credential_expired''"
    if p: "previous = Some p" "ir_kid rq = Some (cr_kid p)" "signed_under env secret later rq"
      "decryptSecret (ae_secrets env) (cr_cipherBlob p) = Some secret" for p secret
  proof -
    let ?p = "p\<lparr>cr_notAfter := Some (now + nullish (ri_graceMs i) DEFAULT_GRACE_MS)\<rparr>"
    have f: "find_kid d' (cr_kid p) = Some ?p" by (rule parts(3) [OF p(1)])
    have c: "cr_type ?p = ApiKeyInbound" "cr_revokedAt ?p = None" "find_operator d' (cr_operatorId ?p) = Some o1"
      "decryptSecret (ae_secrets env) (cr_cipherBlob ?p) = Some secret" "cr_notAfter ?p = Some retires"
      using prev [OF p(1)] p(4) assms(8,11) by (simp_all add: parts(2))
    have h: "truthy (ir_kid rq)" "truthy (ir_timestamp rq)" "truthy (ir_signature rq)"
      using p(3) by (simp_all add: signed_under_def)
    show ?thesis
    proof (cases "later \<le> retires")
      case True
      with operatorAuth_known(1) [OF p(2) f c(1-3) assms(9) c(4) _ p(3)] c(5) show ?thesis by simp
    next
      case False
      with operatorAuth_known(2) [OF p(2) f c(1-3) assms(9) c(4,5) _ h] show ?thesis by simp
    qed
  qed
  moreover have "operatorAuth env later d' rq = operatorAuth env later d rq"
    if "ir_kid rq \<noteq> Some (rr_kid res)" "\<forall>p. previous = Some p \<longrightarrow> ir_kid rq \<noteq> Some (cr_kid p)"
  proof (cases "ir_kid rq")
    case (Some k)
    have "find_kid d' k = find_kid d k" using that Some by (intro parts(4)) (cases previous, auto)
    then show ?thesis unfolding operatorAuth_def parts(2) using Some by simp
  qed (simp add: operatorAuth_def truthy_def)
  ultimately show ?thesis by blast
qed

definition sample_rotation :: rotate_input where
  "sample_rotation = \<lparr>ri_operatorId = ''op'', ri_type = ApiKeyInbound, ri_actorUserId = ''u'', ri_actorEmail = ''e'',
     ri_label = None, ri_graceMs = None, ri_kidLabel = None\<rparr>"

definition sample_draws :: rotate_draws where
  "sample_draws = \<lparr>rd_id = ''c2'', rd_suffix = ''ff'', rd_secret = ''new'', rd_iv = ''123456789012''\<rparr>"

definition sample_auth :: auth_env where
  "sample_auth = \<lparr>ae_sha256 = \<lambda>_. 0, ae_hmac = \<lambda>_ _. 0,
     ae_secrets = \<lparr>gcm_seal = \<lambda>iv p. (''0123456789abcdef'', p), gcm_open = \<lambda>iv t c. Some c\<rparr>,
     ae_signatureWindowSeconds = 30\<rparr>"

definition sample_operator_row :: operator_row where
  "sample_operator_row = \<lparr>op_id = ''op'', op_slug = ''demo'', op_status = OpActive, op_testMode = False,
     op_jurisdiction = ''MT'', op_defaultCurrency = ''EUR'', op_allowedCurrencies = [],
     op_walletCallbackUrl = ''http://op/wallet'', op_ipAllowList = [], op_allowedCountries = [],
     op_suspendedReason = None\<rparr>"

definition sample_credential :: credential_row where
  "sample_credential = \<lparr>cr_id = ''c1'', cr_operatorId = ''op'', cr_type = ApiKeyInbound, cr_kid = ''kid_demo_aa'',
     cr_cipherBlob = encryptSecret (ae_secrets sample_auth) ''123456789012'' ''old'', cr_notAfter = None,
     cr_revokedAt = None, cr_label = None, cr_createdAt = 0\<rparr>"

definition sample_operator_db :: operator_db where
  "sample_operator_db = \<lparr>od_operators = [sample_operator_row], od_credentials = [sample_credential], od_configAudit = []\<rparr>"

definition signed_sample :: "string \<Rightarrow> msec \<Rightarrow> inbound_request" where
  "signed_sample kid now = \<lparr>ir_kid = Some kid, ir_timestamp = Some (show_int (now div 1000)),
     ir_signature = Some (signPayload (\<lambda>_. 0) (\<lambda>_ _. 0) [] ''POST'' ''/v1/session'' (TsString (show_int (now div 1000))) []),
     ir_method = ''POST'', ir_originalUrl = ''/v1/session'', ir_rawBody = None\<rparr>"

lemmas operator_sample = sample_rotation_def sample_draws_def sample_auth_def sample_operator_row_def
  sample_credential_def sample_operator_db_def

lemma sample_signed: "signed_under sample_auth secret now (signed_sample kid now) \<longleftrightarrow> kid \<noteq> []"
  by (simp add: signed_under_def signed_sample_def sample_auth_def truthy_def rgs_verifySignature_def
      rgs_signPayload_eq Let_def)

theorem rotation_zero_downtime_witness:
  "\<exists>res d'. rotateCredential (ae_secrets sample_auth) 5 sample_draws sample_rotation sample_operator_db = Some (res, d') \<and>
     (\<exists>c. operatorAuth sample_auth 7 d' (signed_sample ''kid_demo_ff'' 7) = AuthOk sample_operator_row c) \<and>
     (\<exists>c. operatorAuth sample_auth 3600005 d' (signed_sample ''kid_demo_aa'' 3600005) = AuthOk sample_operator_row c) \<and>
     operatorAuth sample_auth 3600006 d' (signed_sample ''kid_demo_aa'' 3600006) = AuthRefused 401 ''credential_expired''"
proof -
  obtain res d' where rot: "rotateCredential (ae_secrets sample_auth) 5 sample_draws sample_rotation sample_operator_db = Some (res, d')"
    and res: "rr_kid res = ''kid_demo_ff''"
    by (auto simp: rotateCredential_def new_kid_def operator_sample find_operator_def Let_def)
  have prev: "Some sample_credential = latest_by cr_createdAt
      (filter (active_credential 5 (ri_operatorId sample_rotation) ApiKeyInbound) (od_credentials sample_operator_db))"
    by (simp add: active_credential_def operator_sample latest_by_def last_opt_def)
  have law: "gcm_lawful (ae_secrets sample_auth)" by (simp add: gcm_lawful_def sample_auth_def TAG_LEN_def)
  have dec: "decryptSecret (ae_secrets sample_auth) (cr_cipherBlob sample_credential) = Some ''old''"
    using secret_roundtrip [OF law] by (simp add: sample_credential_def IV_LEN_def)
  have side: "length (rd_iv sample_draws) = IV_LEN" "ri_type sample_rotation = ApiKeyInbound"
    "distinct (map cr_kid (od_credentials sample_operator_db))" "distinct (map cr_id (od_credentials sample_operator_db))"
    "rd_id sample_draws \<notin> cr_id ` set (od_credentials sample_operator_db)"
    "find_operator sample_operator_db (ri_operatorId sample_rotation) = Some sample_operator_row"
    "op_status sample_operator_row \<noteq> OpTerminated"
    by (simp_all add: operator_sample IV_LEN_def find_operator_def)
  note use = rotation_zero_downtime [OF law side(1,2) rot side(3-7) prev refl]
  have kid: "ir_kid (signed_sample k n) = Some k" for k n by (simp add: signed_sample_def)
  have old: "cr_kid sample_credential = ''kid_demo_aa''" "nullish (ri_graceMs sample_rotation) DEFAULT_GRACE_MS = 3600000"
    by (simp_all add: operator_sample DEFAULT_GRACE_MS_def)
  have "\<exists>c. operatorAuth sample_auth 7 d' (signed_sample ''kid_demo_ff'' 7) = AuthOk sample_operator_row c"
    by (rule use [of "signed_sample ''kid_demo_ff'' 7" 7, THEN conjunct1, THEN mp]) (simp add: sample_signed kid res)
  moreover have "if n \<le> 3600005 then \<exists>c. operatorAuth sample_auth n d' (signed_sample ''kid_demo_aa'' n) = AuthOk sample_operator_row c
      else operatorAuth sample_auth n d' (signed_sample ''kid_demo_aa'' n) = AuthRefused 401 ''credential_expired''" for n
    using use [of "signed_sample ''kid_demo_aa'' n" n, THEN conjunct2, THEN conjunct1, rule_format, of sample_credential "''old''"]
    unfolding old by (simp add: sample_signed kid old dec)
  from this [of 3600005] this [of 3600006] have
    "\<exists>c. operatorAuth sample_auth 3600005 d' (signed_sample ''kid_demo_aa'' 3600005) = AuthOk sample_operator_row c"
    "operatorAuth sample_auth 3600006 d' (signed_sample ''kid_demo_aa'' 3600006) = AuthRefused 401 ''credential_expired''"
    by simp_all
  ultimately show ?thesis using rot by blast
qed

end
