(* ===== verification/PendingJobs.thy ===== *)
theory PendingJobs
  imports WalletClient Operators
begin

text \<open>
  The durable retry queue of \<^verbatim>\<open>apps/rgs-server/src/services/PendingJobRunner.ts\<close>: wallet calls
  whose outcome was left open are repeated until the operator has answered them. Every
  attempt builds an adapter from the operator's current credential and a wallet client of
  its own.
\<close>

section \<open>State\<close>

definition LOCK_TTL_MS :: msec where "LOCK_TTL_MS = 60000"
definition MAX_ATTEMPTS :: nat where "MAX_ATTEMPTS = 12"

record 'n job_env =
  je_secrets :: secret_env
  je_pathname :: "string \<Rightarrow> string option"
  je_timeoutMs :: "int option"
  je_http :: http_env
  je_hash :: hash_env
  je_network :: "http_request \<Rightarrow> 'n \<Rightarrow> http_result \<times> 'n"

record 'n job_world =
  jw_jobs :: "job_row list"
  jw_operators :: operator_db
  jw_calls :: "wallet_call_row list"
  jw_net :: 'n

text \<open>The readings of one attempt: the clock at the lock, the outside of the call, the clock at the end.\<close>

record attempt_io =
  at_lockAt :: msec
  at_call :: call_io
  at_endAt :: msec

definition upd_job :: "uuid \<Rightarrow> (job_row \<Rightarrow> job_row) \<Rightarrow> 'n job_world \<Rightarrow> 'n job_world" where
  "upd_job i f w = w\<lparr>jw_jobs := update_where (\<lambda>j. jo_id j = i) f (jw_jobs w)\<rparr>"

definition find_job :: "'n job_world \<Rightarrow> uuid \<Rightarrow> job_row option" where
  "find_job w i = find (\<lambda>j. jo_id j = i) (jw_jobs w)"

section \<open>One attempt\<close>

definition lock_free :: "msec \<Rightarrow> job_row \<Rightarrow> bool" where
  "lock_free now j \<longleftrightarrow> (case jo_lockedUntil j of None \<Rightarrow> True | Some t \<Rightarrow> t < now)"

definition job_delay :: "nat \<Rightarrow> msec" where
  "job_delay attempts = min 300000 (1000 * 2 ^ min attempts 8)"

definition reschedule :: "uuid \<Rightarrow> nat \<Rightarrow> string \<Rightarrow> msec \<Rightarrow> 'n job_world \<Rightarrow> 'n job_world" where
  "reschedule jobId attempts lastError now w =
     (if MAX_ATTEMPTS \<le> attempts
      then upd_job jobId (\<lambda>j. j\<lparr>jo_attempts := attempts, jo_lastError := Some lastError, jo_lockedUntil := None,
             jo_nextAttemptAt := now + 3600000\<rparr>) w
      else upd_job jobId (\<lambda>j. j\<lparr>jo_attempts := attempts, jo_lastError := Some lastError,
             jo_nextAttemptAt := now + job_delay attempts, jo_lockedUntil := None\<rparr>) w)"

text \<open>The request that a job stands for: no request at all, an amount that is no integer, or a call.\<close>

datatype job_request = MalformedJob | BadAmount string | JobCall wallet_op

definition job_common :: "job_row \<Rightarrow> wallet_common" where
  "job_common j = (let p = jo_payload j in
     \<lparr>wq_requestUuid = jp_requestUuid p, wq_operatorId = jo_operatorId j, wq_playerRef = jp_playerRef p,
      wq_currency = jp_currency p, wq_gameCode = jp_gameCode p\<rparr>)"

definition with_amount :: "string option \<Rightarrow> (micro \<Rightarrow> wallet_op) \<Rightarrow> job_request" where
  "with_amount s f = (case js_BigInt (the s) of None \<Rightarrow> BadAmount (the s) | Some a \<Rightarrow> JobCall (f a))"

definition job_request_of :: "job_row \<Rightarrow> job_request" where
  "job_request_of j =
     (let p = jo_payload j; q = job_common j in
      if jo_endpoint j = EWIN \<and> truthy (jp_amountMicro p) \<and> truthy (jp_referenceTransactionUuid p) \<and> truthy (jp_roundId p)
      then with_amount (jp_amountMicro p) (\<lambda>a. WWin
        \<lparr>wq_requestUuid = wq_requestUuid q, wq_operatorId = wq_operatorId q, wq_playerRef = wq_playerRef q,
         wq_currency = wq_currency q, wq_gameCode = wq_gameCode q, ww_transactionUuid = jp_transactionUuid p,
         ww_referenceTransactionUuid = the (jp_referenceTransactionUuid p), ww_amountMicro = a,
         ww_roundId = the (jp_roundId p), ww_meta = None\<rparr>)
      else if jo_endpoint j = EROLLBACK \<and> truthy (jp_referenceTransactionUuid p)
      then JobCall (WRollback
        \<lparr>wq_requestUuid = wq_requestUuid q, wq_operatorId = wq_operatorId q, wq_playerRef = wq_playerRef q,
         wq_currency = wq_currency q, wq_gameCode = wq_gameCode q, wr_transactionUuid = jp_transactionUuid p,
         wr_referenceTransactionUuid = the (jp_referenceTransactionUuid p), wr_roundId = jp_roundId p, wr_meta = None\<rparr>)
      else if jo_endpoint j = EBET \<and> truthy (jp_amountMicro p) \<and> truthy (jp_roundId p)
      then with_amount (jp_amountMicro p) (\<lambda>a. WBet
        \<lparr>wq_requestUuid = wq_requestUuid q, wq_operatorId = wq_operatorId q, wq_playerRef = wq_playerRef q,
         wq_currency = wq_currency q, wq_gameCode = wq_gameCode q, wb_transactionUuid = jp_transactionUuid p,
         wb_amountMicro = a, wb_roundId = the (jp_roundId p), wb_isFree = None, wb_meta = None\<rparr>)
      else if jo_endpoint j = EBALANCE then JobCall (WBalance q)
      else MalformedJob)"

definition job_audit :: "job_row \<Rightarrow> audit_context" where
  "job_audit j = \<lparr>ac_sessionId = None, ac_roundId = (if jo_endpoint j = EBALANCE then None else jo_roundId j),
     ac_attempt = Some (int (jo_attempts j) + 1)\<rparr>"

definition job_done :: "rs_status \<Rightarrow> bool" where
  "job_done st \<longleftrightarrow> isSuccessOrDuplicate st \<or> st = RsTRANSACTION_NOT_FOUND"

text \<open>The call of an attempt, through a new client: the status, and the world after it.\<close>

definition job_call ::
    "'n job_env \<Rightarrow> attempt_io \<Rightarrow> job_row \<Rightarrow> http_adapter \<Rightarrow> wallet_op \<Rightarrow> 'n job_world \<Rightarrow> rs_status \<times> 'n job_world" where
  "job_call env io j a oper w =
     (let (res, c, n) = invoke (je_hash env) (http_step (je_http env) a (je_network env) (io_startedAt (at_call io)))
            (job_audit j) (at_call io) oper (new_wallet_client (jo_operatorId j) None None (jw_calls w), jw_net w)
      in (ws_status res, w\<lparr>jw_calls := wl_calls c, jw_net := n\<rparr>))"

text \<open>
  An attempt on a job. A lock that is held, or a job that is done, ends it; a secret that
  cannot be decrypted throws out of it, and the lock stays until it runs out.
\<close>

definition runJob :: "'n job_env \<Rightarrow> attempt_io \<Rightarrow> uuid \<Rightarrow> 'n job_world \<Rightarrow> 'n job_world" where
  "runJob env io jobId w =
     (case find_job w jobId of
        None \<Rightarrow> w
      | Some j \<Rightarrow>
          if \<not> lock_free (at_lockAt io) j then w
          else
            (let w1 = upd_job jobId (\<lambda>j. j\<lparr>jo_lockedUntil := Some (at_lockAt io + LOCK_TTL_MS)\<rparr>) w in
             if jo_completedAt j \<noteq> None then w1
             else (case outbound_adapter (je_secrets env) (je_pathname env) (je_timeoutMs env) (jw_operators w1) (jo_operatorId j) of
                     NoCredential \<Rightarrow> reschedule jobId (jo_attempts j + 1) ''no_outbound_credential'' (at_endAt io) w1
                   | BadCipher \<Rightarrow> w1
                   | UseHttp a \<Rightarrow>
                       (case job_request_of j of
                          MalformedJob \<Rightarrow> reschedule jobId (jo_attempts j + 1) ''MALFORMED_JOB'' (at_endAt io) w1
                        | BadAmount s \<Rightarrow> reschedule jobId (jo_attempts j + 1) (''Cannot convert '' @ s @ '' to a BigInt'') (at_endAt io) w1
                        | JobCall oper \<Rightarrow>
                            (let (st, w2) = job_call env io j a oper w1 in
                             if job_done st
                             then upd_job jobId (\<lambda>x. x\<lparr>jo_completedAt := Some (at_endAt io), jo_lockedUntil := None,
                                    jo_attempts := jo_attempts j + 1\<rparr>) w2
                             else reschedule jobId (jo_attempts j + 1) (rs_string st) (at_endAt io) w2)))))"

text \<open>A tick takes the first ten jobs that are due.\<close>

definition due_jobs :: "msec \<Rightarrow> 'n job_world \<Rightarrow> job_row list" where
  "due_jobs now w = take 10 (filter (\<lambda>j. jo_completedAt j = None \<and> jo_nextAttemptAt j \<le> now \<and> lock_free now j) (jw_jobs w))"

definition job_tick :: "'n job_env \<Rightarrow> msec \<Rightarrow> (uuid \<Rightarrow> attempt_io) \<Rightarrow> 'n job_world \<Rightarrow> 'n job_world" where
  "job_tick env now ios w = fold (\<lambda>j. runJob env (ios (jo_id j)) (jo_id j)) (due_jobs now w) w"

section \<open>Facts\<close>

lemma upd_job_simps [simp]:
  "jw_jobs (upd_job i f w) = update_where (\<lambda>j. jo_id j = i) f (jw_jobs w)"
  "jw_operators (upd_job i f w) = jw_operators w" "jw_calls (upd_job i f w) = jw_calls w" "jw_net (upd_job i f w) = jw_net w"
  by (simp_all add: upd_job_def)

lemma find_update_id:
  assumes "\<And>j. jo_id (f j) = jo_id j"
  shows "find (\<lambda>j. jo_id j = k) (update_where (\<lambda>j. jo_id j = i) f js) =
     (if k = i then map_option f (find (\<lambda>j. jo_id j = k) js) else find (\<lambda>j. jo_id j = k) js)"
  using assms by (induction js) auto

lemma find_job_upd [simp]:
  "(\<And>j. jo_id (f j) = jo_id j) \<Longrightarrow>
   find_job (upd_job i f w) k = (if k = i then map_option f (find_job w k) else find_job w k)"
  by (simp add: find_job_def find_update_id)

lemma find_job_cong: "jw_jobs w = jw_jobs w' \<Longrightarrow> find_job w = find_job w'"
  by (intro ext) (simp add: find_job_def)

lemma job_call_jobs: "job_call env io j a oper w = (st, w') \<Longrightarrow> find_job w' = find_job w"
  by (intro find_job_cong) (auto simp: job_call_def split: prod.splits)

definition retry_delay :: "nat \<Rightarrow> msec" where
  "retry_delay attempts = (if MAX_ATTEMPTS \<le> attempts then 3600000 else job_delay attempts)"

definition postponed :: "nat \<Rightarrow> string \<Rightarrow> msec \<Rightarrow> job_row \<Rightarrow> job_row" where
  "postponed attempts e now j = j\<lparr>jo_attempts := attempts, jo_lastError := Some e, jo_lockedUntil := None,
     jo_nextAttemptAt := now + retry_delay attempts\<rparr>"

lemma reschedule_eq: "reschedule i n e now w = upd_job i (postponed n e now) w"
  by (auto simp: reschedule_def postponed_def retry_delay_def fun_eq_iff intro!: arg_cong [of _ _ "\<lambda>f. upd_job i f w"])

text \<open>The cap of five minutes is never reached: the exponent stops at eight.\<close>

lemma job_delay_eq: "job_delay n = 1000 * 2 ^ min n 8"
proof -
  have "(2 :: int) ^ min n 8 \<le> 2 ^ 8" by (intro power_increasing) simp_all
  then show ?thesis by (simp add: job_delay_def)
qed

text \<open>An attempt that gets hold of the job, once the lock is taken.\<close>

definition job_attempt :: "'n job_env \<Rightarrow> attempt_io \<Rightarrow> job_row \<Rightarrow> 'n job_world \<Rightarrow> 'n job_world" where
  "job_attempt env io j w1 =
     (let put_off = (\<lambda>e. upd_job (jo_id j) (postponed (jo_attempts j + 1) e (at_endAt io)));
          finish = upd_job (jo_id j) (\<lambda>x. x\<lparr>jo_completedAt := Some (at_endAt io), jo_lockedUntil := None,
                     jo_attempts := jo_attempts j + 1\<rparr>)
      in case outbound_adapter (je_secrets env) (je_pathname env) (je_timeoutMs env) (jw_operators w1) (jo_operatorId j) of
           NoCredential \<Rightarrow> put_off ''no_outbound_credential'' w1
         | BadCipher \<Rightarrow> w1
         | UseHttp a \<Rightarrow>
             (case job_request_of j of
                MalformedJob \<Rightarrow> put_off ''MALFORMED_JOB'' w1
              | BadAmount s \<Rightarrow> put_off (''Cannot convert '' @ s @ '' to a BigInt'') w1
              | JobCall oper \<Rightarrow>
                  (let (st, w2) = job_call env io j a oper w1 in
                   if job_done st then finish w2 else put_off (rs_string st) w2)))"

definition locked :: "attempt_io \<Rightarrow> uuid \<Rightarrow> 'n job_world \<Rightarrow> 'n job_world" where
  "locked io i = upd_job i (\<lambda>j. j\<lparr>jo_lockedUntil := Some (at_lockAt io + LOCK_TTL_MS)\<rparr>)"

lemma find_job_id: "find_job w i = Some j \<Longrightarrow> jo_id j = i"
  by (auto simp: find_job_def dest: find_SomeD)

lemma runJob_eq:
  assumes "find_job w i = Some j"
  shows "runJob env io i w = (if \<not> lock_free (at_lockAt io) j then w
     else if jo_completedAt j \<noteq> None then locked io i w else job_attempt env io j (locked io i w))"
  using assms find_job_id [OF assms]
  by (auto simp: runJob_def job_attempt_def locked_def reschedule_eq Let_def split: adapter_choice.splits job_request.splits prod.splits)

lemma job_attempt_cases:
  assumes "outbound_adapter (je_secrets env) (je_pathname env) (je_timeoutMs env) (jw_operators w1) (jo_operatorId j) \<noteq> BadCipher"
  obtains (put_off) e where "job_attempt env io j w1 = upd_job (jo_id j) (postponed (jo_attempts j + 1) e (at_endAt io)) w1"
  | (called) a oper st w2 where "job_call env io j a oper w1 = (st, w2)"
      "job_attempt env io j w1 = upd_job (jo_id j) (if job_done st
           then (\<lambda>x. x\<lparr>jo_completedAt := Some (at_endAt io), jo_lockedUntil := None, jo_attempts := jo_attempts j + 1\<rparr>)
           else postponed (jo_attempts j + 1) (rs_string st) (at_endAt io)) w2"
proof (cases "outbound_adapter (je_secrets env) (je_pathname env) (je_timeoutMs env) (jw_operators w1) (jo_operatorId j)")
  case NoCredential
  then show thesis by (intro put_off) (simp add: job_attempt_def)
next
  case BadCipher
  then show thesis using assms by simp
next
  case (UseHttp a)
  show thesis
  proof (cases "job_request_of j")
    case MalformedJob
    then show thesis using UseHttp by (intro put_off) (simp add: job_attempt_def)
  next
    case (BadAmount s)
    then show thesis using UseHttp by (intro put_off) (simp add: job_attempt_def)
  next
    case (JobCall oper)
    obtain st w2 where c: "job_call env io j a oper w1 = (st, w2)" by fastforce
    show thesis using UseHttp JobCall c by (intro called [OF c]) (simp add: job_attempt_def)
  qed
qed

section \<open>A win job at the operator\<close>

text \<open>The adapter's part of an attempt: either nothing was sent, or the request of the job was.\<close>

lemma job_call_net:
  "jw_net (snd (job_call env io j a oper w)) = jw_net w \<or>
   jw_net (snd (job_call env io j a oper w)) =
     snd (http_step (je_http env) a (je_network env) (io_startedAt (at_call io)) (jw_net w) oper)"
  by (cases rule: invoke_cases [of "je_hash env" "http_step (je_http env) a (je_network env) (io_startedAt (at_call io))"
        "job_audit j" "at_call io" oper "new_wallet_client (jo_operatorId j) None None (jw_calls w)" "jw_net w"])
    (auto simp: job_call_def split: prod.splits)

text \<open>A new client has no open circuit, so the first call always gets through.\<close>

lemma new_client_gate: "bd_allow (fst (call_gate io oper (new_wallet_client opid None None rows)))"
  by (simp add: call_gate_def new_wallet_client_def new_breaker_def tryAcquire_def ensure_entry_def fresh_entry_def Let_def)

lemma job_call_sends:
  "fst (job_call env io j a oper w) =
     ws_status (fst (http_step (je_http env) a (je_network env) (io_startedAt (at_call io)) (jw_net w) oper)) \<and>
   jw_net (snd (job_call env io j a oper w)) =
     snd (http_step (je_http env) a (je_network env) (io_startedAt (at_call io)) (jw_net w) oper)"
proof -
  let ?c = "new_wallet_client (jo_operatorId j) None None (jw_calls w)"
  let ?ad = "http_step (je_http env) a (je_network env) (io_startedAt (at_call io))"
  obtain d b where g: "call_gate (at_call io) oper ?c = (d, b)" by fastforce
  then have "bd_allow d" using new_client_gate [of "at_call io" oper "jo_operatorId j" "jw_calls w"] by simp
  from invoke_passed [OF g this, of "je_hash env" ?ad "job_audit j" "jw_net w"]
  show ?thesis by (auto simp: job_call_def)
qed

text \<open>What stays of a job through its attempts.\<close>

definition job_same :: "job_row \<Rightarrow> job_row \<Rightarrow> bool" where
  "job_same j j' \<longleftrightarrow> jo_id j' = jo_id j \<and> jo_payload j' = jo_payload j \<and> jo_endpoint j' = jo_endpoint j \<and> jo_operatorId j' = jo_operatorId j"

lemma job_same_request: "job_same j j' \<Longrightarrow> job_request_of j' = job_request_of j"
  by (simp add: job_same_def job_request_of_def job_common_def Let_def)

lemma job_same_trans: "job_same i j \<Longrightarrow> job_same j k \<Longrightarrow> job_same i k"
  by (simp add: job_same_def)

lemma runJob_same:
  assumes "find_job w i = Some j"
  shows "\<exists>j'. find_job (runJob env io i w) i = Some j' \<and> job_same j j'"
proof -
  have l: "find_job (locked io i w) i = Some (j\<lparr>jo_lockedUntil := Some (at_lockAt io + LOCK_TTL_MS)\<rparr>)"
    using assms by (simp add: locked_def)
  have id: "jo_id j = i" using find_job_id [OF assms] .
  have "\<exists>j'. find_job (job_attempt env io j (locked io i w)) i = Some j' \<and> job_same j j'"
  proof (cases "outbound_adapter (je_secrets env) (je_pathname env) (je_timeoutMs env) (jw_operators (locked io i w)) (jo_operatorId j) = BadCipher")
    case True
    then show ?thesis using l by (simp add: job_attempt_def job_same_def)
  next
    case False
    then show ?thesis
    proof (cases rule: job_attempt_cases [where io = io])
      case (put_off e)
      then show ?thesis using l id by (simp add: postponed_def job_same_def)
    next
      case (called a oper st w2)
      then show ?thesis using l id job_call_jobs [OF called(1)] by (simp add: postponed_def job_same_def)
    qed
  qed
  then show ?thesis using l assms by (auto simp: runJob_eq job_same_def)
qed

definition job_adapter :: "'n job_env \<Rightarrow> 'n job_world \<Rightarrow> job_row \<Rightarrow> adapter_choice" where
  "job_adapter env w j = outbound_adapter (je_secrets env) (je_pathname env) (je_timeoutMs env) (jw_operators w) (jo_operatorId j)"

lemma job_call_operators: "job_call env io j a oper w = (st, w') \<Longrightarrow> jw_operators w' = jw_operators w"
  by (auto simp: job_call_def split: prod.splits)

lemma runJob_operators: "jw_operators (runJob env io i w) = jw_operators w"
proof (cases "find_job w i")
  case None
  then show ?thesis by (simp add: runJob_def)
next
  case (Some j)
  have l: "jw_operators (locked io i w) = jw_operators w" by (simp add: locked_def)
  show ?thesis
    unfolding runJob_eq [OF Some]
    by (auto simp: job_attempt_def l Let_def split: adapter_choice.splits job_request.splits prod.splits dest: job_call_operators)
qed

lemma runJob_net:
  assumes "find_job w i = Some j" "job_request_of j = JobCall oper"
  shows "jw_net (runJob env io i w) = jw_net w \<or>
     (\<exists>a. job_adapter env w j = UseHttp a \<and> jw_net (runJob env io i w) =
        snd (http_step (je_http env) a (je_network env) (io_startedAt (at_call io)) (jw_net w) oper))"
proof -
  have l: "jw_net (locked io i w) = jw_net w" "jw_operators (locked io i w) = jw_operators w" by (simp_all add: locked_def)
  show ?thesis
  proof (cases "job_adapter env w j")
    case (UseHttp a)
    then show ?thesis
      using job_call_net [of env io j a oper "locked io i w"] assms(2)
      by (auto simp: runJob_eq [OF assms(1)] job_attempt_def Let_def l job_adapter_def split: prod.splits)
  qed (simp_all add: runJob_eq [OF assms(1)] job_attempt_def Let_def l job_adapter_def)
qed

text \<open>Repeated attempts on one job, each with a server of its own moment.\<close>

definition job_attempts :: "('n job_env \<times> attempt_io) list \<Rightarrow> uuid \<Rightarrow> 'n job_world \<Rightarrow> 'n job_world" where
  "job_attempts attempts i w = fold (\<lambda>(env, io). runJob env io i) attempts w"

definition at_operator :: "wallet_store job_env \<Rightarrow> wallet_store job_world \<Rightarrow> job_row \<Rightarrow> wallet_op \<Rightarrow> bool" where
  "at_operator env w j oper \<longleftrightarrow> (\<exists>op cfg nowSec. je_network env = operator_server op cfg nowSec \<and>
     (\<forall>a. job_adapter env w j = UseHttp a \<longrightarrow> wired (je_http env) a op oper))"

lemma win_attempts_paid:
  "find_job w i = Some j \<Longrightarrow> job_request_of j = JobCall (WWin q) \<Longrightarrow>
   \<forall>(env, io) \<in> set attempts. at_operator env w j (WWin q) \<Longrightarrow> paid_at_most_once s0 q (jw_net w) \<Longrightarrow>
   paid_at_most_once s0 q (jw_net (job_attempts attempts i w))"
proof (induction attempts arbitrary: w j)
  case (Cons x attempts)
  obtain env io where x: "x = (env, io)" by (cases x)
  define w1 where "w1 = runJob env io i w"
  obtain j' where j': "find_job w1 i = Some j'" "job_same j j'"
    using runJob_same [OF Cons.prems(1)] unfolding w1_def by blast
  have o1: "jw_operators w1 = jw_operators w" unfolding w1_def by (rule runJob_operators)
  have ad: "job_adapter e w1 j' = job_adapter e w j" for e
    using j'(2) o1 by (simp add: job_adapter_def job_same_def)
  have "at_operator env w j (WWin q)" using Cons.prems(3) by (simp add: x)
  then obtain op cfg nowSec where n: "je_network env = operator_server op cfg nowSec"
    "\<And>a. job_adapter env w j = UseHttp a \<Longrightarrow> wired (je_http env) a op (WWin q)" by (auto simp: at_operator_def)
  have "paid_at_most_once s0 q (jw_net w1)"
    using runJob_net [OF Cons.prems(1,2), of env io] Cons.prems(4) server_win_paid [OF n(2) Cons.prems(4)]
    unfolding w1_def n(1) by auto
  moreover have "\<forall>(e, io) \<in> set attempts. at_operator e w1 j' (WWin q)"
    using Cons.prems(3) by (auto simp: at_operator_def ad)
  ultimately have "paid_at_most_once s0 q (jw_net (job_attempts attempts i w1))"
    using j' job_same_request [OF j'(2)] Cons.prems(2) by (intro Cons.IH) simp_all
  then show ?case by (simp add: job_attempts_def x w1_def)
qed (simp add: job_attempts_def)

text \<open>A healthy operator: the credential is there and the two ends agree about the request.\<close>

definition healthy_operator ::
    "wallet_store job_env \<Rightarrow> attempt_io \<Rightarrow> wallet_store job_world \<Rightarrow> job_row \<Rightarrow> wallet_op \<Rightarrow> bool" where
  "healthy_operator env io w j oper \<longleftrightarrow> (\<exists>a op cfg nowSec. job_adapter env w j = UseHttp a \<and>
     je_network env = operator_server op cfg nowSec \<and>
     connected (je_http env) a op cfg (io_startedAt (at_call io)) nowSec oper)"

lemma mw_win_settles:
  assumes "0 \<le> ww_amountMicro q"
  shows "job_done (fst (fst (mw_win s (wq_operatorId q) (wq_playerRef q) (ww_transactionUuid q) (ww_amountMicro q))))"
    and "mw_settled (snd (mw_win s (wq_operatorId q) (wq_playerRef q) (ww_transactionUuid q) (ww_amountMicro q))) (ww_transactionUuid q)"
  using assms by (auto simp: mw_win_def Let_def job_done_def isSuccessOrDuplicate_def mw_settled_def mw_set_def mw_record_def
      getOrInit_props split: prod.splits option.splits)

lemma healthy_win:
  assumes "connected he a op cfg now nowSec (WWin q)" "op_complete (WWin q)" "0 \<le> ww_amountMicro q"
    and "wt_processed s (wq_requestUuid q) \<noteq> None \<longrightarrow> mw_settled s (ww_transactionUuid q)"
  shows "job_done (ws_status (fst (http_step he a (operator_server op cfg nowSec) now s (WWin q)))) \<and>
     mw_settled (snd (http_step he a (operator_server op cfg nowSec) now s (WWin q))) (ww_transactionUuid q)"
proof (cases "wt_processed s (wq_requestUuid q)")
  case None
  have h: "http_step he a (operator_server op cfg nowSec) now s (WWin q) = remembering (WWin q) (mw_step s (WWin q))"
    using None by (intro remote_step [OF assms(1,2)]) simp
  show ?thesis unfolding h using mw_win_settles [OF assms(3), of s]
    by (auto simp: remembering_def mw_response_def)
next
  case (Some m)
  then show ?thesis using remembered_win [OF assms(1,2) Some] assms(4) by (simp add: job_done_def isSuccessOrDuplicate_def)
qed

section \<open>A sample\<close>

definition sample_win :: win_request where
  "sample_win = \<lparr>wq_requestUuid = ''r5'', wq_operatorId = ''op'', wq_playerRef = ''p'', wq_currency = ''HNL'',
     wq_gameCode = ''lempi-crash'', ww_transactionUuid = ''t5'', ww_referenceTransactionUuid = ''t1'',
     ww_amountMicro = 40, ww_roundId = ''rd'', ww_meta = None\<rparr>"

definition sample_job :: job_row where
  "sample_job = new_job ''j'' ''op'' EWIN ''b'' ''rd'' (win_payload sample_win) 0 None"

definition sample_outbound :: credential_row where
  "sample_outbound = sample_credential\<lparr>cr_id := ''c9'', cr_type := WalletHmacOutbound, cr_kid := ''out_demo_aa'',
     cr_cipherBlob := encryptSecret (ae_secrets sample_auth) ''123456789012'' ''s''\<rparr>"

definition sample_job_world :: "wallet_call_row list \<Rightarrow> wallet_store job_world" where
  "sample_job_world calls = \<lparr>jw_jobs = [sample_job],
     jw_operators = sample_operator_db\<lparr>od_credentials := [sample_outbound]\<rparr>, jw_calls = calls,
     jw_net = new_wallet_store ''op''\<rparr>"

definition win_operator :: operator_env where
  "win_operator = sample_operator\<lparr>oe_parse := \<lambda>_. Some (http_body (WWin sample_win)), oe_pathname := \<lambda>_. Some ''/wallet/win''\<rparr>"

definition sample_job_env :: "wallet_store job_env" where
  "sample_job_env = \<lparr>je_secrets = ae_secrets sample_auth, je_pathname = \<lambda>_. Some ''/wallet/'', je_timeoutMs = None,
     je_http = sample_http, je_hash = sample_hash, je_network = operator_server win_operator sample_mock 20\<rparr>"

definition sample_attempt :: attempt_io where
  "sample_attempt = \<lparr>at_lockAt = 1000, at_call = sample_io True, at_endAt = 1500\<rparr>"

lemma sample_job_request: "job_request_of sample_job = JobCall (WWin sample_win)"
  by (simp add: job_request_of_def sample_job_def new_job_def win_payload_def sample_win_def job_common_def truthy_def
      with_amount_def Let_def)

lemma sample_find_job: "find_job (sample_job_world calls) ''j'' = Some sample_job"
  by (simp add: find_job_def sample_job_world_def sample_job_def new_job_def)

lemma sample_free: "lock_free t sample_job" "jo_completedAt sample_job = None"
  by (simp_all add: lock_free_def sample_job_def new_job_def)

lemma sample_job_adapter:
  "job_adapter sample_job_env (sample_job_world calls) sample_job = UseHttp
     \<lparr>ha_kid = ''out_demo_aa'', ha_secret = ''s'', ha_base = ''http://op/wallet'', ha_basePath = ''/wallet'', ha_timeoutMs = 5000\<rparr>"
proof -
  have "gcm_lawful (ae_secrets sample_auth)" by (simp add: gcm_lawful_def sample_auth_def TAG_LEN_def)
  from secret_roundtrip [OF this, of "''123456789012''" "''s''"] show ?thesis
    by (simp add: job_adapter_def outbound_adapter_def sample_job_env_def sample_job_world_def find_operator_def
        sample_operator_db_def sample_operator_row_def sample_job_def new_job_def outbound_credential_def sample_outbound_def
        sample_credential_def latest_by_def last_opt_def new_http_adapter_def strip_slash_def IV_LEN_def)
qed

lemma sample_healthy: "healthy_operator sample_job_env sample_attempt (sample_job_world calls) sample_job (WWin sample_win)"
  unfolding healthy_operator_def sample_job_adapter
  by (rule exI [of _ "\<lparr>ha_kid = ''out_demo_aa'', ha_secret = ''s'', ha_base = ''http://op/wallet'', ha_basePath = ''/wallet'', ha_timeoutMs = 5000\<rparr>"],
      rule exI [of _ win_operator], rule exI [of _ sample_mock], rule exI [of _ 20])
    (simp add: sample_job_env_def connected_def wired_def win_operator_def sample_operator_def sample_http_def sample_mock_def
      sample_attempt_def sample_io_def)

lemma sample_complete: "op_complete (WWin sample_win)"
  by (simp add: op_complete_def op_wire_def sample_win_def)

section \<open>Properties\<close>

text \<open>C25. No job is lost: an attempt on an open job that is not locked either completes it or leaves it
  open, unlocked and due again after a delay that doubles with every attempt up to 256
  seconds and is an hour from the twelfth on; it counts the attempt, keeps the request, and
  touches no other job. (An undecryptable credential is the one case that throws out of the
  attempt.)\<close>

theorem job_never_lost:
  assumes "find_job w i = Some j" "jo_completedAt j = None" "lock_free (at_lockAt io) j"
    and "outbound_adapter (je_secrets env) (je_pathname env) (je_timeoutMs env) (jw_operators w) (jo_operatorId j) \<noteq> BadCipher"
  shows "\<exists>j'. find_job (runJob env io i w) i = Some j' \<and> jo_attempts j' = jo_attempts j + 1 \<and> jo_lockedUntil j' = None \<and>
     jo_payload j' = jo_payload j \<and> jo_endpoint j' = jo_endpoint j \<and> jo_operatorId j' = jo_operatorId j \<and>
     (jo_completedAt j' = Some (at_endAt io) \<or>
      jo_completedAt j' = None \<and> jo_nextAttemptAt j' = at_endAt io +
        (if 12 \<le> jo_attempts j + 1 then 3600000 else 1000 * 2 ^ min (jo_attempts j + 1) 8)) \<and>
     (\<forall>k. k \<noteq> i \<longrightarrow> find_job (runJob env io i w) k = find_job w k)"
proof -
  define w1 where "w1 = upd_job i (\<lambda>j. j\<lparr>jo_lockedUntil := Some (at_lockAt io + LOCK_TTL_MS)\<rparr>) w"
  define j1 where "j1 = j\<lparr>jo_lockedUntil := Some (at_lockAt io + LOCK_TTL_MS)\<rparr>"
  have w1: "find_job w1 i = Some j1" "jw_operators w1 = jw_operators w" "k \<noteq> i \<Longrightarrow> find_job w1 k = find_job w k" for k
    using assms(1) by (simp_all add: w1_def j1_def)
  have run: "runJob env io i w = job_attempt env io j w1"
    using assms(2,3) by (simp add: runJob_eq [OF assms(1)] w1_def locked_def)
  note id = find_job_id [OF assms(1)]
  from assms(4) have "outbound_adapter (je_secrets env) (je_pathname env) (je_timeoutMs env) (jw_operators w1) (jo_operatorId j) \<noteq> BadCipher"
    by (simp add: w1(2))
  then show ?thesis
  proof (cases rule: job_attempt_cases [where io = io])
    case (put_off e)
    then show ?thesis unfolding run using w1 assms(2) id
      by (simp add: postponed_def j1_def retry_delay_def MAX_ATTEMPTS_def job_delay_eq)
  next
    case (called a oper st w2)
    then show ?thesis unfolding run using w1 assms(2) id job_call_jobs [OF called(1)]
      by (simp add: postponed_def j1_def retry_delay_def MAX_ATTEMPTS_def job_delay_eq)
  qed
qed

theorem job_never_lost_witness:
  "\<exists>j'. find_job (runJob sample_job_env sample_attempt ''j'' (sample_job_world [])) ''j'' = Some j' \<and> jo_attempts j' = 1"
  using job_never_lost [OF sample_find_job sample_free(2,1), of sample_job_env "[]" sample_attempt]
    sample_job_adapter [of "[]"]
  by (auto simp: job_adapter_def) (auto simp: sample_job_def new_job_def)

text \<open>C23. A win that the engine could not confirm is paid at most once, however often its job is
  retried and whatever happens to the attempts (refused signatures, an expired window, a
  locked job, a changed operator clock): the player's balance at the operator has grown by
  the amount once or not at all, and no other balance has changed.\<close>

theorem win_job_paid_at_most_once:
  assumes "find_job w i = Some j" "job_request_of j = JobCall (WWin q)"
    and "\<forall>(env, io) \<in> set attempts. at_operator env w j (WWin q)"
  shows "paid_at_most_once (jw_net w) q (jw_net (job_attempts attempts i w))"
  using assms paid_refl by (rule win_attempts_paid)

theorem win_job_paid_at_most_once_witness:
  "paid_at_most_once (new_wallet_store ''op'') sample_win
     (jw_net (job_attempts [(sample_job_env, sample_attempt), (sample_job_env, sample_attempt)] ''j'' (sample_job_world [])))"
proof -
  have "at_operator sample_job_env (sample_job_world []) sample_job (WWin sample_win)"
    unfolding at_operator_def sample_job_adapter
    by (rule exI [of _ win_operator], rule exI [of _ sample_mock], rule exI [of _ 20])
      (simp add: sample_job_env_def wired_def win_operator_def sample_operator_def sample_http_def)
  then show ?thesis
    using win_job_paid_at_most_once [OF sample_find_job sample_job_request,
        of "[(sample_job_env, sample_attempt), (sample_job_env, sample_attempt)]" "[]"]
    by (simp add: sample_job_world_def)
qed

text \<open>C24. The retry queue makes progress: one attempt on an open, unlocked win job at an operator
  that is up and agrees with us about secret, clock and path completes the job, and the
  operator has then paid the transaction: the balance grows by the amount now, unless it was
  paid before.\<close>

theorem win_job_paid_by_healthy_operator:
  assumes "find_job w i = Some j" "jo_completedAt j = None" "lock_free (at_lockAt io) j"
    and "job_request_of j = JobCall (WWin q)" "op_complete (WWin q)" "0 \<le> ww_amountMicro q"
    and "healthy_operator env io w j (WWin q)"
    and "wt_processed (jw_net w) (wq_requestUuid q) \<noteq> None \<longrightarrow> mw_settled (jw_net w) (ww_transactionUuid q)"
    and "w' = runJob env io i w"
  shows "(\<exists>j'. find_job w' i = Some j' \<and> jo_completedAt j' = Some (at_endAt io)) \<and>
     mw_settled (jw_net w') (ww_transactionUuid q) \<and>
     mw_funds (jw_net w') (win_key q) = mw_funds (jw_net w) (win_key q) +
       (if mw_settled (jw_net w) (ww_transactionUuid q) then 0 else ww_amountMicro q)"
proof -
  obtain a op cfg nowSec where a: "job_adapter env w j = UseHttp a" "je_network env = operator_server op cfg nowSec"
    "connected (je_http env) a op cfg (io_startedAt (at_call io)) nowSec (WWin q)"
    using assms(7) by (auto simp: healthy_operator_def)
  let ?h = "http_step (je_http env) a (operator_server op cfg nowSec) (io_startedAt (at_call io)) (jw_net w) (WWin q)"
  obtain st w2 where c: "job_call env io j a (WWin q) (locked io i w) = (st, w2)" by fastforce
  have l: "jw_net (locked io i w) = jw_net w" "jw_operators (locked io i w) = jw_operators w" by (simp_all add: locked_def)
  have s: "st = ws_status (fst ?h)" "jw_net w2 = snd ?h"
    using job_call_sends [of env io j a "WWin q" "locked io i w"] by (simp_all add: c a(2) l)
  note hw = healthy_win [OF a(3) assms(5,6,8)]
  have w': "w' = upd_job i (\<lambda>x. x\<lparr>jo_completedAt := Some (at_endAt io), jo_lockedUntil := None,
                     jo_attempts := jo_attempts j + 1\<rparr>) w2"
    using a(1) c hw s assms(2,3,4,9) find_job_id [OF assms(1)]
    by (simp add: runJob_eq [OF assms(1)] job_attempt_def l job_adapter_def)
  have "wired (je_http env) a op (WWin q)" using a(3) by (simp add: connected_def)
  then have "paid_at_most_once (jw_net w) q (snd ?h)" using paid_refl by (rule server_win_paid)
  then have "mw_funds (snd ?h) (win_key q) = mw_funds (jw_net w) (win_key q) +
       (if mw_settled (jw_net w) (ww_transactionUuid q) then 0 else ww_amountMicro q)"
    using hw by (auto simp: paid_at_most_once_def)
  moreover have "find_job w2 i = Some (j\<lparr>jo_lockedUntil := Some (at_lockAt io + LOCK_TTL_MS)\<rparr>)"
    using assms(1) by (simp add: job_call_jobs [OF c] locked_def)
  ultimately show ?thesis using w' hw s by simp
qed

theorem win_job_paid_by_healthy_operator_witness:
  "mw_funds (jw_net (runJob sample_job_env sample_attempt ''j'' (sample_job_world []))) ''op:p'' = 1000000040"
proof -
  have "jw_net (sample_job_world []) = new_wallet_store ''op''" by (simp add: sample_job_world_def)
  moreover have "wt_processed (new_wallet_store ''op'') u = None" "\<not> mw_settled (new_wallet_store ''op'') t" for u t
    by (simp_all add: new_wallet_store_def mw_settled_def)
  moreover have "mw_funds (new_wallet_store ''op'') ''op:p'' = 1000000000" "win_key sample_win = ''op:p''" "ww_amountMicro sample_win = 40"
    by (simp_all add: new_wallet_store_def mw_funds_def keyOf_def SEED_PLAYERS_def SEED_BALANCE_MICRO_def win_key_def sample_win_def)
  ultimately show ?thesis
    using win_job_paid_by_healthy_operator [of "sample_job_world []" "''j''" sample_job sample_attempt sample_win sample_job_env,
        OF sample_find_job sample_free(2,1) sample_job_request sample_complete _ sample_healthy _ refl]
    by simp
qed

lemma repeated_call_unaudited:
  assumes "find_job w i = Some j" "job_request_of j = JobCall oper" "r \<in> set (jw_calls w)"
    and "call_unique r = call_unique (new_call_row (jo_operatorId j) (job_audit j) (at_call io) oper)"
  shows "jw_calls (runJob env io i w) = jw_calls w"
proof -
  have l: "jw_calls (locked io i w) = jw_calls w" by (simp add: locked_def)
  have "jw_calls (snd (job_call env io j a oper v)) = jw_calls v" if "jw_calls v = jw_calls w" for a v
  proof -
    have "insert_call ok (new_call_row (jo_operatorId j) (job_audit j) (at_call io) oper) (jw_calls v) = None" for ok
      using imageI [OF assms(3), of call_unique] unfolding assms(4) that [symmetric] by (simp add: insert_call_def)
    then show ?thesis
      by (auto simp: job_call_def invoke_def invoke_begin_gate new_wallet_client_def split: prod.splits)
  qed
  from this [OF l] show ?thesis using l
    by (auto simp: runJob_eq [OF assms(1)] job_attempt_def assms(2) Let_def split: adapter_choice.splits prod.splits)
      (metis snd_conv)+
qed

text \<open>The first retry of a win is not audited: the job that the engine queues repeats the request
  id of the call that failed and its first attempt has number one, as that call had, so the
  insert of the audit row violates the unique key and the attempt, which may well pay the
  player, leaves no trace in the audit table.\<close>

theorem first_retry_unaudited:
  assumes "find_job w i = Some (new_job i (wq_operatorId q) EWIN betId roundId (win_payload q) t err)"
    and "op_complete (WWin q)" "ww_roundId q \<noteq> []" "ac_attempt audit = None"
    and "r \<in> set (jw_calls w)" "call_unique r = call_unique (new_call_row (wq_operatorId q) audit io0 (WWin q))"
  shows "jw_calls (runJob env io i w) = jw_calls w"
proof -
  let ?j = "new_job i (wq_operatorId q) EWIN betId roundId (win_payload q) t err"
  have f: "ww_referenceTransactionUuid q \<noteq> []" using assms(2) by (simp add: op_complete_def op_wire_def)
  obtain q' where q': "job_request_of ?j = JobCall (WWin q')" "wq_requestUuid q' = wq_requestUuid q"
    using f assms(3) by (simp add: job_request_of_def job_common_def new_job_def win_payload_def truthy_def with_amount_def Let_def)
  have "call_unique r = call_unique (new_call_row (jo_operatorId ?j) (job_audit ?j) (at_call io) (WWin q'))"
    unfolding assms(6) using q'(2) assms(4) by (simp add: call_unique_def new_call_row_def job_audit_def new_job_def)
  then show ?thesis by (rule repeated_call_unaudited [OF assms(1) q'(1) assms(5)])
qed

theorem first_retry_unaudited_witness:
  "jw_calls (runJob sample_job_env sample_attempt ''j''
     (sample_job_world [new_call_row ''op'' no_audit (sample_io True) (WWin sample_win)])) =
   [new_call_row ''op'' no_audit (sample_io True) (WWin sample_win)]"
proof -
  let ?r = "new_call_row ''op'' no_audit (sample_io True) (WWin sample_win)"
  have "wq_operatorId sample_win = ''op''" "ww_roundId sample_win \<noteq> []" by (simp_all add: sample_win_def)
  then show ?thesis
    using first_retry_unaudited [of "sample_job_world [?r]" "''j''" sample_win "''b''" "''rd''" 0 None no_audit ?r "sample_io True"]
      sample_find_job [of "[?r]"] sample_complete
    by (simp add: sample_job_def no_audit_def sample_job_world_def)
qed

end
