(* ===== verification/RGLimits.thy ===== *)
theory RGLimits
  imports Db
begin

text \<open>
  The responsible-gambling limits of \<^verbatim>\<open>apps/rgs-server/src/services/RGLimitsEnforcer.ts\<close>:
  parsing of the limits stored with a session, and the check of a stake against the
  jurisdiction, the session time, and the wager and loss totals of the session and the day.
\<close>

section \<open>Parsing\<close>

record rg_limits =
  rl_dailyLossMicro :: "micro option"
  rl_dailyWagerMicro :: "micro option"
  rl_sessionLossMicro :: "micro option"
  rl_sessionWagerMicro :: "micro option"
  rl_sessionTimeSeconds :: "jsnum option"

definition no_limits :: rg_limits where
  "no_limits = \<lparr>rl_dailyLossMicro = None, rl_dailyWagerMicro = None, rl_sessionLossMicro = None,
     rl_sessionWagerMicro = None, rl_sessionTimeSeconds = None\<rparr>"

definition safeBigInt :: "string \<Rightarrow> micro option" where
  "safeBigInt s = js_BigInt s"

definition limit_amount :: "json \<Rightarrow> micro option" where
  "limit_amount v = (case v of JStr s \<Rightarrow> safeBigInt s | _ \<Rightarrow> None)"

definition parseRGLimits :: "json \<Rightarrow> rg_limits" where
  "parseRGLimits raw =
     \<lparr>rl_dailyLossMicro = limit_amount (get_prop raw ''dailyLossMicro''),
      rl_dailyWagerMicro = limit_amount (get_prop raw ''dailyWagerMicro''),
      rl_sessionLossMicro = limit_amount (get_prop raw ''sessionLossMicro''),
      rl_sessionWagerMicro = limit_amount (get_prop raw ''sessionWagerMicro''),
      rl_sessionTimeSeconds =
        (case get_prop raw ''sessionTimeSeconds'' of
           JNum n \<Rightarrow> if 0 < n then Some (js_floor n) else None
         | _ \<Rightarrow> None)\<rparr>"

section \<open>The check\<close>

datatype rg_breach =
    DailyLossExceeded
  | DailyWagerExceeded
  | SessionLossExceeded
  | SessionWagerExceeded
  | SessionTimeExceeded
  | JurisdictionBreach jurisdiction_breach

datatype limit_check = LimitOk | LimitBreach rg_breach "micro option"

record bet_context =
  bc_autoplay :: "bool option"
  bc_turbo :: "bool option"
  bc_timeSincePreviousBetMs :: "msec option"
  bc_playerKycVerified :: "bool option"

definition hasAnyLimit :: "rg_limits \<Rightarrow> bool" where
  "hasAnyLimit l \<longleftrightarrow>
     rl_dailyLossMicro l \<noteq> None \<or> rl_dailyWagerMicro l \<noteq> None \<or> rl_sessionLossMicro l \<noteq> None \<or>
     rl_sessionWagerMicro l \<noteq> None \<or> rl_sessionTimeSeconds l \<noteq> None"

definition aggregateLoss :: "bet_row list \<Rightarrow> micro \<times> micro" where
  "aggregateLoss bets =
     foldl (\<lambda>(wagered, netLoss) b.
        (wagered + be_amountMicro b,
         netLoss + (be_amountMicro b - nullish (be_wonAmountMicro b) 0))) (0, 0) bets"

definition counted_bet :: "bet_row \<Rightarrow> bool" where
  "counted_bet b \<longleftrightarrow> be_status b \<in> {BAccepted, BSettled}"

definition session_bets :: "db \<Rightarrow> session_row \<Rightarrow> bet_row list" where
  "session_bets d s = filter (\<lambda>b. be_sessionId b = se_id s \<and> counted_bet b) (db_bets d)"

definition day_bets :: "db \<Rightarrow> session_row \<Rightarrow> msec \<Rightarrow> bet_row list" where
  "day_bets d s nowMs =
     filter (\<lambda>b. be_operatorId b = se_operatorId s \<and> be_playerRef b = se_playerRef s \<and>
                 counted_bet b \<and> utc_day_start nowMs \<le> be_placedAt b) (db_bets d)"

definition jurisdiction_input :: "session_row \<Rightarrow> micro \<Rightarrow> bet_context \<Rightarrow> jurisdiction_check_input" where
  "jurisdiction_input s stakeMicro ctx =
     \<lparr>ji_jurisdiction = se_jurisdiction s, ji_stakeMicro = stakeMicro, ji_currency = se_currency s,
      ji_timeSincePreviousBetMs = bc_timeSincePreviousBetMs ctx, ji_autoplay = bc_autoplay ctx,
      ji_turbo = bc_turbo ctx, ji_mode = Some (if se_mode s = DEMO then Demo else Real),
      ji_playerKycVerified = bc_playerKycVerified ctx\<rparr>"

definition effective_limits :: "session_row \<Rightarrow> rg_limits" where
  "effective_limits s =
     (let op = parseRGLimits (se_rgLimits s);
          fl = effectiveRGFloor (se_jurisdiction s)
                 (Some \<lparr>ol_sessionTimeSeconds = rl_sessionTimeSeconds op,
                        ol_sessionLossMicro = rl_sessionLossMicro op,
                        ol_dailyLossMicro = rl_dailyLossMicro op\<rparr>)
      in \<lparr>rl_dailyLossMicro = nullish_opt (rf_dailyLossMicro fl) (rl_dailyLossMicro op),
          rl_dailyWagerMicro = rl_dailyWagerMicro op,
          rl_sessionLossMicro = nullish_opt (rf_sessionLossMicro fl) (rl_sessionLossMicro op),
          rl_sessionWagerMicro = rl_sessionWagerMicro op,
          rl_sessionTimeSeconds = nullish_opt (rf_sessionTimeSeconds fl) (rl_sessionTimeSeconds op)\<rparr>)"

text \<open>One pair of totals (wagered, net loss) against one pair of limits.\<close>

definition check_totals ::
    "micro option \<Rightarrow> micro option \<Rightarrow> micro \<times> micro \<Rightarrow> micro \<Rightarrow> rg_breach \<Rightarrow> rg_breach \<Rightarrow> limit_check" where
  "check_totals wagerLimit lossLimit totals stakeMicro wagerBreach lossBreach =
     (let (wagered, netLoss) = totals in
      if wagerLimit \<noteq> None \<and> the wagerLimit < wagered + stakeMicro
      then LimitBreach wagerBreach (Some (the wagerLimit - wagered))
      else if lossLimit \<noteq> None \<and> the lossLimit < netLoss + stakeMicro
      then LimitBreach lossBreach (Some (the lossLimit - netLoss))
      else LimitOk)"

definition check_operator_limits :: "db \<Rightarrow> session_row \<Rightarrow> micro \<Rightarrow> msec \<Rightarrow> rg_limits \<Rightarrow> limit_check" where
  "check_operator_limits d s stakeMicro nowMs l =
     (if \<not> hasAnyLimit l then LimitOk
      else if rl_sessionTimeSeconds l \<noteq> None \<and>
              the (rl_sessionTimeSeconds l) \<le> jdiv (of_int (nowMs - se_createdAt s)) 1000
      then LimitBreach SessionTimeExceeded (Some 0)
      else case check_totals (rl_sessionWagerMicro l) (rl_sessionLossMicro l)
                  (aggregateLoss (session_bets d s)) stakeMicro SessionWagerExceeded SessionLossExceeded of
             LimitBreach b r \<Rightarrow> LimitBreach b r
           | LimitOk \<Rightarrow> check_totals (rl_dailyWagerMicro l) (rl_dailyLossMicro l)
                  (aggregateLoss (day_bets d s nowMs)) stakeMicro DailyWagerExceeded DailyLossExceeded)"

text \<open>\<open>Inl ()\<close>: the jurisdiction lookup threw.\<close>

definition checkRGLimits ::
    "db \<Rightarrow> session_row \<Rightarrow> micro \<Rightarrow> msec \<Rightarrow> bet_context \<Rightarrow> unit + limit_check" where
  "checkRGLimits d s stakeMicro nowMs ctx =
     (case checkJurisdictionRules (jurisdiction_input s stakeMicro ctx) of
        Inl e \<Rightarrow> Inl e
      | Inr (JRefused b rem) \<Rightarrow> Inr (LimitBreach (JurisdictionBreach b) rem)
      | Inr JAllowed \<Rightarrow> Inr (check_operator_limits d s stakeMicro nowMs (effective_limits s)))"

section \<open>Totals\<close>

definition net_loss :: "bet_row \<Rightarrow> micro" where
  "net_loss b = be_amountMicro b - nullish (be_wonAmountMicro b) 0"

lemma aggregateLoss_eq: "aggregateLoss bets = (sum_by be_amountMicro bets, sum_by net_loss bets)"
proof -
  have "foldl (\<lambda>(wagered, netLoss) b. (wagered + be_amountMicro b,
         netLoss + (be_amountMicro b - nullish (be_wonAmountMicro b) 0))) (x, y) bets
      = (x + sum_by be_amountMicro bets, y + sum_by net_loss bets)" for x y
    by (induction bets arbitrary: x y) (simp_all add: net_loss_def)
  then show ?thesis by (simp add: aggregateLoss_def)
qed

text \<open>A total stays within a limit that is set.\<close>

definition under_cap :: "micro option \<Rightarrow> micro \<Rightarrow> bool" where
  "under_cap limit x = (case limit of None \<Rightarrow> True | Some l \<Rightarrow> x \<le> l)"

lemma check_totals_ok:
  "check_totals wl ll (w, n) stake wb lb = LimitOk \<longleftrightarrow> under_cap wl (w + stake) \<and> under_cap ll (n + stake)"
  by (cases wl; cases ll) (auto simp: check_totals_def under_cap_def)

lemma check_operator_limits_ok:
  "check_operator_limits d s stake nowMs l = LimitOk \<longleftrightarrow>
     (case rl_sessionTimeSeconds l of None \<Rightarrow> True
      | Some t \<Rightarrow> jdiv (of_int (nowMs - se_createdAt s)) 1000 < t) \<and>
     under_cap (rl_sessionWagerMicro l) (sum_by be_amountMicro (session_bets d s) + stake) \<and>
     under_cap (rl_sessionLossMicro l) (sum_by net_loss (session_bets d s) + stake) \<and>
     under_cap (rl_dailyWagerMicro l) (sum_by be_amountMicro (day_bets d s nowMs) + stake) \<and>
     under_cap (rl_dailyLossMicro l) (sum_by net_loss (day_bets d s nowMs) + stake)"
proof (cases "hasAnyLimit l")
  case False
  then show ?thesis by (simp add: hasAnyLimit_def check_operator_limits_def under_cap_def)
next
  case True
  have "(case c of LimitBreach b r \<Rightarrow> LimitBreach b r | LimitOk \<Rightarrow> c') = LimitOk \<longleftrightarrow> c = LimitOk \<and> c' = LimitOk"
    for c c' by (cases c) auto
  then show ?thesis using True
    by (cases "rl_sessionTimeSeconds l")
      (auto simp: check_operator_limits_def aggregateLoss_eq check_totals_ok)
qed

lemma rg_allowed:
  assumes "getJurisdiction (se_jurisdiction s) = Profile r"
  defines "l \<equiv> effective_limits s"
  shows "checkRGLimits d s stake nowMs ctx = Inr LimitOk \<longleftrightarrow>
     (\<forall>b. \<not> breaks_rule r (jurisdiction_input s stake ctx) b) \<and>
     (case rl_sessionTimeSeconds l of None \<Rightarrow> True
      | Some t \<Rightarrow> jdiv (of_int (nowMs - se_createdAt s)) 1000 < t) \<and>
     under_cap (rl_sessionWagerMicro l) (sum_by be_amountMicro (session_bets d s) + stake) \<and>
     under_cap (rl_sessionLossMicro l) (sum_by net_loss (session_bets d s) + stake) \<and>
     under_cap (rl_dailyWagerMicro l) (sum_by be_amountMicro (day_bets d s nowMs) + stake) \<and>
     under_cap (rl_dailyLossMicro l) (sum_by net_loss (day_bets d s nowMs) + stake)"
proof -
  let ?i = "jurisdiction_input s stake ctx"
  have g: "getJurisdiction (ji_jurisdiction ?i) = Profile r"
    using assms(1) by (simp add: jurisdiction_input_def)
  obtain res where res: "checkJurisdictionRules ?i = Inr res"
    using check_first_broken [OF g] by blast
  have ok: "res = JAllowed \<longleftrightarrow> (\<forall>b. \<not> breaks_rule r ?i b)"
    using res check_allowed [OF g] check_refused [OF g] by (cases res) blast+
  show ?thesis
  proof (cases res)
    case JAllowed
    then show ?thesis using res ok
      by (simp add: checkRGLimits_def check_operator_limits_ok l_def)
  next
    case (JRefused b rem)
    then have "checkRGLimits d s stake nowMs ctx \<noteq> Inr LimitOk"
      using res by (simp add: checkRGLimits_def)
    then show ?thesis using JRefused ok by blast
  qed
qed

section \<open>A sample session\<close>

definition sample_session :: session_row where
  "sample_session = \<lparr>se_id = ''s'', se_operatorId = ''op'', se_playerRef = ''p'', se_gameCode = ''dice'',
     se_currency = ''LKR'', se_lang = ''en'', se_jurisdiction = ''INTL'', se_mode = REAL,
     se_rgLimits = JObj [(''sessionWagerMicro'', JStr ''100'')], se_returnUrl = None,
     se_serverSeed = ''aa'', se_serverSeedHash = ''bb'', se_clientSeed = ''cc'', se_nonce = 0,
     se_createdAt = 0, se_expiresAt = 1000000, se_terminatedAt = None, se_terminationReason = None\<rparr>"

definition empty_db :: db where
  "empty_db = \<lparr>db_sessions = [], db_rounds = [], db_bets = [], db_held = [], db_jobs = []\<rparr>"

definition no_context :: bet_context where
  "no_context = \<lparr>bc_autoplay = None, bc_turbo = None, bc_timeSincePreviousBetMs = None,
     bc_playerKycVerified = None\<rparr>"

lemma sample_limits:
  "getJurisdiction (se_jurisdiction sample_session) = Profile INTL"
  "effective_limits sample_session = no_limits\<lparr>rl_sessionWagerMicro := Some 100\<rparr>"
proof -
  show j: "getJurisdiction (se_jurisdiction sample_session) = Profile INTL"
    by (simp add: sample_session_def getJurisdiction_def JURISDICTIONS_def)
  have p: "parseRGLimits (se_rgLimits sample_session) = no_limits\<lparr>rl_sessionWagerMicro := Some 100\<rparr>"
    by (simp add: sample_session_def parseRGLimits_def no_limits_def get_prop_def limit_amount_def safeBigInt_def
        js_BigInt_def js_trim_def js_space_def read_base_def hex_val_def)
  show "effective_limits sample_session = no_limits\<lparr>rl_sessionWagerMicro := Some 100\<rparr>"
    using j unfolding effective_limits_def p
    by (simp add: no_limits_def effectiveRGFloor_def profile_limit_def INTL_def tightest_def Let_def)
qed

lemma sample_no_breach:
  "bc_timeSincePreviousBetMs ctx = None \<Longrightarrow> \<not> breaks_rule INTL (jurisdiction_input sample_session k ctx) x"
  by (cases x) (simp_all add: INTL_def jurisdiction_input_def sample_session_def)

lemma sample_allowed:
  assumes "bc_timeSincePreviousBetMs ctx = None"
  shows "checkRGLimits d sample_session stake now ctx = Inr LimitOk \<longleftrightarrow>
    sum_by be_amountMicro (session_bets d sample_session) + stake \<le> 100"
  by (simp add: rg_allowed [OF sample_limits(1)] sample_limits(2) sample_no_breach [OF assms] no_limits_def under_cap_def
      del: breaks_rule.simps)

section \<open>Properties\<close>

text \<open>C32. A stake is allowed exactly when the bet breaks no rule of the jurisdiction, the
  session is younger than its time limit, and adding the stake to the wagered total and
  to the net loss of the session and of the UTC day stays within every limit in force,
  where a bet that has not settled counts as lost in full.\<close>

theorem rg_check_allows_iff:
  assumes "getJurisdiction (se_jurisdiction s) = Profile r"
  defines "l \<equiv> effective_limits s"
  shows "checkRGLimits d s stake nowMs ctx = Inr LimitOk \<longleftrightarrow>
     (\<forall>b. \<not> breaks_rule r (jurisdiction_input s stake ctx) b) \<and>
     (case rl_sessionTimeSeconds l of None \<Rightarrow> True
      | Some t \<Rightarrow> jdiv (of_int (nowMs - se_createdAt s)) 1000 < t) \<and>
     under_cap (rl_sessionWagerMicro l) (sum_by be_amountMicro (session_bets d s) + stake) \<and>
     under_cap (rl_sessionLossMicro l) (sum_by net_loss (session_bets d s) + stake) \<and>
     under_cap (rl_dailyWagerMicro l) (sum_by be_amountMicro (day_bets d s nowMs) + stake) \<and>
     under_cap (rl_dailyLossMicro l) (sum_by net_loss (day_bets d s nowMs) + stake)"
  unfolding l_def using assms(1) by (rule rg_allowed)

theorem rg_check_allows_iff_witness:
  "checkRGLimits empty_db sample_session 100 5 no_context = Inr LimitOk \<and>
   checkRGLimits empty_db sample_session 101 5 no_context \<noteq> Inr LimitOk"
  using rg_check_allows_iff [OF sample_limits(1), of empty_db 100 5 no_context]
    rg_check_allows_iff [OF sample_limits(1), of empty_db 101 5 no_context]
  by (simp add: sample_no_breach sample_limits(2) no_limits_def no_context_def under_cap_def session_bets_def
      day_bets_def empty_db_def del: breaks_rule.simps)

end
