(* ===== verification/CrashGames.thy ===== *)
theory CrashGames
  imports GameContract
begin

text \<open>
  The two crash games, \<^verbatim>\<open>games/crash-minimal/src\<close> and \<^verbatim>\<open>games/lempi-crash/src\<close>: schemas,
  the crash point read from the round's digest, verification, settlement, and, for the
  second, the live flight curve and the live cash-out. \<open>Math.exp\<close> and \<open>Math.log\<close> are
  implementation-approximated in the language, so they are the parameters \<open>expf\<close> and
  \<open>logf\<close>.
\<close>

section \<open>Schemas\<close>

definition parse_number :: "json \<Rightarrow> jsnum option" where
  "parse_number v = (case v of JNum x \<Rightarrow> Some x | _ \<Rightarrow> None)"

text \<open>The literal \<open>1.01\<close>.\<close>

definition LIT_1_01 :: jsnum where "LIT_1_01 = fl (101 / 100)"

definition crashMinimalConfigSchema :: "json \<Rightarrow> game_config option" where
  "crashMinimalConfigSchema v =
     (if \<not> only_keys [''houseEdge'', ''maxMultiplier''] v then None
      else case (parse_number (get_prop v ''houseEdge''), parse_number (get_prop v ''maxMultiplier'')) of
        (Some h, Some m) \<Rightarrow> if 0 \<le> h \<and> h < 1 \<and> LIT_1_01 \<le> m then Some (CrashConfig h m) else None
      | _ \<Rightarrow> None)"

definition crashMinimalSelectionSchema :: "json \<Rightarrow> bet_selection option" where
  "crashMinimalSelectionSchema v =
     (if \<not> only_keys [''cashoutMultiplier''] v then None
      else case parse_number (get_prop v ''cashoutMultiplier'') of
        Some x \<Rightarrow> if LIT_1_01 \<le> x \<and> x \<le> 10000 then Some (CrashSelection x) else None
      | None \<Rightarrow> None)"

definition lempiCrashConfigSchema :: "json \<Rightarrow> game_config option" where
  "lempiCrashConfigSchema v =
     (if \<not> only_keys [''houseEdge'', ''maxMultiplier'', ''multiplierGrowthRate'', ''minFlightMs'',
                       ''maxFlightMs'', ''botCashoutsEnabled''] v then None
      else case (parse_number (get_prop v ''houseEdge''), parse_number (get_prop v ''maxMultiplier''),
                 parse_number (get_prop v ''multiplierGrowthRate''),
                 parse_number (get_prop v ''minFlightMs''), parse_number (get_prop v ''maxFlightMs''),
                 (case get_prop v ''botCashoutsEnabled'' of
                    JUndefined \<Rightarrow> Some True | JBool b \<Rightarrow> Some b | _ \<Rightarrow> None)) of
        (Some h, Some m, Some g, Some lo, Some hi, Some b) \<Rightarrow>
          if 0 \<le> h \<and> h < 1 \<and> LIT_1_01 \<le> m \<and> 0 < g \<and> is_integer lo \<and> 0 \<le> lo \<and> is_integer hi \<and> 1000 \<le> hi
          then Some (LempiConfig \<lparr>lc_houseEdge = h, lc_maxMultiplier = m, lc_growthRate = g,
                                  lc_minFlightMs = lo, lc_maxFlightMs = hi, lc_botCashouts = b\<rparr>)
          else None
      | _ \<Rightarrow> None)"

definition lempiCrashSelectionSchema :: "json \<Rightarrow> bet_selection option" where
  "lempiCrashSelectionSchema v =
     (if \<not> only_keys [''slotId'', ''autoCashoutMultiplier''] v then None
      else case (if get_prop v ''slotId'' = JStr ''A'' then Some SlotA
                 else if get_prop v ''slotId'' = JStr ''B'' then Some SlotB else None) of
        None \<Rightarrow> None
      | Some s \<Rightarrow>
          (case get_prop v ''autoCashoutMultiplier'' of
             JUndefined \<Rightarrow> Some (LempiSelection s None)
           | JNum x \<Rightarrow> if LIT_1_01 \<le> x \<and> x \<le> 10000 then Some (LempiSelection s (Some x)) else None
           | _ \<Rightarrow> None))"

definition defaultCrashMinimalConfig :: game_config where
  "defaultCrashMinimalConfig = CrashConfig (fl (1 / 100)) 1000"

definition default_lempi :: lempi_config where
  "default_lempi =
     \<lparr>lc_houseEdge = fl (1 / 100), lc_maxMultiplier = 1000, lc_growthRate = fl (11 / 100000),
      lc_minFlightMs = 700, lc_maxFlightMs = 120000, lc_botCashouts = True\<rparr>"

section \<open>The crash point\<close>

text \<open>
  \<open>100 / (1 - u)\<close> would be infinite at \<open>u = 1\<close>; \<open>Math.floor\<close>, \<open>Math.max\<close> and
  \<open>Math.min\<close> carry an infinity to the cap. The lemma \<open>crash_u_lt_1\<close> shows that the
  branch is never taken.
\<close>

definition crash_multiplier :: "jsnum \<Rightarrow> jsnum \<Rightarrow> jsnum" where
  "crash_multiplier u maxMultiplier =
     (if jsub 1 u = 0 then maxMultiplier
      else (let rawMultiplier = jdiv (js_floor (jdiv 100 (jsub 1 u))) 100
            in min (max 1 rawMultiplier) maxMultiplier))"

definition determineCrashOutcome ::
  "hmac_fun \<Rightarrow> rng_context \<Rightarrow> jsnum \<Rightarrow> jsnum \<Rightarrow> game_error + game_outcome" where
  "determineCrashOutcome hmac ctx houseEdge maxMultiplier =
     (if houseEdge < 0 \<or> 1 \<le> houseEdge then Inl (HouseEdgeOutOfRange houseEdge)
      else if maxMultiplier < LIT_1_01 then Inl (MaxMultiplierTooSmall maxMultiplier)
      else case roundHmac hmac ctx of
        Inl e \<Rightarrow> Inl e
      | Inr h \<Rightarrow>
          (case bigInt16 (str_slice 0 13 h) of
             None \<Rightarrow> Inl DigestNotHex
           | Some bits52 \<Rightarrow>
               (let uRaw = jdiv (fl (of_int bits52)) (fl (2 ^ 52)) in
                if uRaw < houseEdge then Inr (CrashOutcome 1 uRaw)
                else (let u = jdiv (jsub uRaw houseEdge) (jsub 1 houseEdge)
                      in Inr (CrashOutcome (crash_multiplier u maxMultiplier) uRaw)))))"

text \<open>The same derivation as the second game writes it.\<close>

definition determineLempiCrashOutcome ::
  "hmac_fun \<Rightarrow> rng_context \<Rightarrow> lempi_config \<Rightarrow> game_error + game_outcome" where
  "determineLempiCrashOutcome hmac ctx config =
     (if lc_houseEdge config < 0 \<or> 1 \<le> lc_houseEdge config
      then Inl (HouseEdgeOutOfRange (lc_houseEdge config))
      else if lc_maxMultiplier config < LIT_1_01
      then Inl (MaxMultiplierTooSmall (lc_maxMultiplier config))
      else case roundHmac hmac ctx of
        Inl e \<Rightarrow> Inl e
      | Inr h \<Rightarrow>
          (case bigInt16 (str_slice 0 13 h) of
             None \<Rightarrow> Inl DigestNotHex
           | Some bits52 \<Rightarrow>
               (let uRaw = jdiv (fl (of_int bits52)) (fl (2 ^ 52)) in
                if uRaw < lc_houseEdge config then Inr (CrashOutcome 1 uRaw)
                else (let u = jdiv (jsub uRaw (lc_houseEdge config)) (jsub 1 (lc_houseEdge config))
                      in Inr (CrashOutcome (crash_multiplier u (lc_maxMultiplier config)) uRaw)))))"

text \<open>Verification tolerates differences below the literals \<open>1e-9\<close> and \<open>1e-12\<close>.\<close>

definition crash_agrees :: "game_outcome \<Rightarrow> game_outcome \<Rightarrow> bool" where
  "crash_agrees recomputed claimed =
     (case (recomputed, claimed) of
        (CrashOutcome m1 u1, CrashOutcome m2 u2) \<Rightarrow>
          \<bar>jsub m1 m2\<bar> < fl (1 / 10 ^ 9) \<and> \<bar>jsub u1 u2\<bar> < fl (1 / 10 ^ 12)
      | _ \<Rightarrow> recomputed = claimed)"

definition verifyCrashOutcome ::
  "hmac_fun \<Rightarrow> rng_context \<Rightarrow> jsnum \<Rightarrow> jsnum \<Rightarrow> game_outcome \<Rightarrow> game_error + bool" where
  "verifyCrashOutcome hmac ctx houseEdge maxMultiplier claimed =
     (case determineCrashOutcome hmac ctx houseEdge maxMultiplier of
        Inl e \<Rightarrow> Inl e
      | Inr recomputed \<Rightarrow> Inr (crash_agrees recomputed claimed))"

definition verifyLempiCrashOutcome ::
  "hmac_fun \<Rightarrow> rng_context \<Rightarrow> lempi_config \<Rightarrow> game_outcome \<Rightarrow> game_error + bool" where
  "verifyLempiCrashOutcome hmac ctx config claimed =
     (case determineLempiCrashOutcome hmac ctx config of
        Inl e \<Rightarrow> Inl e
      | Inr recomputed \<Rightarrow> Inr (crash_agrees recomputed claimed))"

section \<open>The flight curve\<close>

definition multiplierAtElapsedMs :: "(jsnum \<Rightarrow> jsnum) \<Rightarrow> jsnum \<Rightarrow> lempi_config \<Rightarrow> jsnum" where
  "multiplierAtElapsedMs expf elapsedMs config =
     (let raw = expf (jmul (max 0 elapsedMs) (lc_growthRate config))
      in min (lc_maxMultiplier config) (max 1 (jdiv (js_floor (jmul raw 100)) 100)))"

definition elapsedMsForMultiplier :: "(jsnum \<Rightarrow> jsnum) \<Rightarrow> jsnum \<Rightarrow> lempi_config \<Rightarrow> jsnum" where
  "elapsedMsForMultiplier logf multiplier config =
     (if multiplier \<le> 1 then lc_minFlightMs config
      else (let elapsed = js_ceil (jdiv (logf multiplier) (lc_growthRate config))
            in max (lc_minFlightMs config) (min (lc_maxFlightMs config) elapsed)))"

section \<open>Settlement\<close>

definition payoutAtMultiplier :: "micro \<Rightarrow> jsnum \<Rightarrow> micro \<Rightarrow> micro" where
  "payoutAtMultiplier amountMicro multiplier commissionMicro =
     (let hundredths = js_round (jmul multiplier 100);
          gross = bigint_div (amountMicro * hundredths) 100
      in if commissionMicro < gross then gross - commissionMicro else 0)"

definition settleCrashMinimalBet :: "jsnum \<Rightarrow> micro \<Rightarrow> jsnum \<Rightarrow> micro \<Rightarrow> settlement_result" where
  "settleCrashMinimalBet cashoutMultiplier amountMicro crashMult commissionMicro =
     (let won = cashoutMultiplier \<le> crashMult in
      if \<not> won then lost
      else (let cashoutHundredths = js_round (jmul cashoutMultiplier 100);
                gross = bigint_div (amountMicro * cashoutHundredths) 100;
                payoutMicro = (if commissionMicro < gross then gross - commissionMicro else 0)
            in \<lparr>sr_won = True, sr_payoutMicro = payoutMicro,
                sr_winMeta = Some (CrashMeta cashoutMultiplier crashMult)\<rparr>))"

definition settleLempiCrashBet ::
  "slot \<times> jsnum option \<Rightarrow> micro \<Rightarrow> jsnum \<Rightarrow> micro \<Rightarrow> settlement_result" where
  "settleLempiCrashBet sel amountMicro crashMult commissionMicro =
     (case snd sel of
        None \<Rightarrow> lost
      | Some target \<Rightarrow>
          if crashMult < target then lost
          else \<lparr>sr_won = True, sr_payoutMicro = payoutAtMultiplier amountMicro target commissionMicro,
                sr_winMeta = Some (LempiAutoMeta (fst sel) target crashMult)\<rparr>)"

definition settleLempiCrashCashout ::
  "slot \<Rightarrow> micro \<Rightarrow> jsnum \<Rightarrow> micro \<Rightarrow> settlement_result" where
  "settleLempiCrashCashout slotId amountMicro cashoutMultiplier commissionMicro =
     \<lparr>sr_won = True, sr_payoutMicro = payoutAtMultiplier amountMicro cashoutMultiplier commissionMicro,
      sr_winMeta = Some (LempiManualMeta slotId cashoutMultiplier)\<rparr>"

section \<open>The plugins\<close>

text \<open>
  The plugin types tie each operation to its own game's selections, outcomes and
  configuration; a mismatch, which the types of the source exclude, is a lost bet or an
  error here.
\<close>

definition crash_computeOutcome ::
  "hmac_fun \<Rightarrow> rng_context \<Rightarrow> game_config \<Rightarrow> game_error + game_outcome" where
  "crash_computeOutcome hmac ctx config =
     (case config of CrashConfig h m \<Rightarrow> determineCrashOutcome hmac ctx h m
      | _ \<Rightarrow> Inl (HouseEdgeOutOfRange 0))"

definition crash_verifyOutcome ::
  "hmac_fun \<Rightarrow> rng_context \<Rightarrow> game_config \<Rightarrow> game_outcome \<Rightarrow> game_error + bool" where
  "crash_verifyOutcome hmac ctx config claimed =
     (case config of CrashConfig h m \<Rightarrow> verifyCrashOutcome hmac ctx h m claimed
      | _ \<Rightarrow> Inl (HouseEdgeOutOfRange 0))"

definition crash_settleBet ::
  "bet_selection \<Rightarrow> micro \<Rightarrow> game_outcome \<Rightarrow> game_config \<Rightarrow> micro \<Rightarrow> settlement_result" where
  "crash_settleBet selection amountMicro outcome config commissionMicro =
     (case (selection, outcome) of
        (CrashSelection x, CrashOutcome m _) \<Rightarrow> settleCrashMinimalBet x amountMicro m commissionMicro
      | _ \<Rightarrow> lost)"

definition crashMinimal :: "hmac_fun \<Rightarrow> game_plugin" where
  "crashMinimal hmac =
     \<lparr>gp_gameCode = ''crash-minimal'',
      gp_rngVersion = ''crash-minimal-rng-v1'',
      gp_selectionSchema = crashMinimalSelectionSchema,
      gp_configSchema = crashMinimalConfigSchema,
      gp_defaultConfig = defaultCrashMinimalConfig,
      gp_sampleSelection = CrashSelection 2,
      gp_computeOutcome = crash_computeOutcome hmac,
      gp_verifyOutcome = crash_verifyOutcome hmac,
      gp_settleBet = crash_settleBet,
      gp_outcomeForWire = (\<lambda>out. \<lparr>wo_outcomeType = ''CRASH'', wo_outcome = out\<rparr>),
      gp_liveCrash = None\<rparr>"

definition lempi_computeOutcome ::
  "hmac_fun \<Rightarrow> rng_context \<Rightarrow> game_config \<Rightarrow> game_error + game_outcome" where
  "lempi_computeOutcome hmac ctx config =
     (case config of LempiConfig c \<Rightarrow> determineLempiCrashOutcome hmac ctx c
      | _ \<Rightarrow> Inl (HouseEdgeOutOfRange 0))"

definition lempi_verifyOutcome ::
  "hmac_fun \<Rightarrow> rng_context \<Rightarrow> game_config \<Rightarrow> game_outcome \<Rightarrow> game_error + bool" where
  "lempi_verifyOutcome hmac ctx config claimed =
     (case config of LempiConfig c \<Rightarrow> verifyLempiCrashOutcome hmac ctx c claimed
      | _ \<Rightarrow> Inl (HouseEdgeOutOfRange 0))"

definition lempi_settleBet ::
  "bet_selection \<Rightarrow> micro \<Rightarrow> game_outcome \<Rightarrow> game_config \<Rightarrow> micro \<Rightarrow> settlement_result" where
  "lempi_settleBet selection amountMicro outcome config commissionMicro =
     (case (selection, outcome) of
        (LempiSelection s t, CrashOutcome m _) \<Rightarrow> settleLempiCrashBet (s, t) amountMicro m commissionMicro
      | _ \<Rightarrow> lost)"

definition lempi_live :: "(jsnum \<Rightarrow> jsnum) \<Rightarrow> (jsnum \<Rightarrow> jsnum) \<Rightarrow> live_crash" where
  "lempi_live expf logf =
     \<lparr>lv_multiplierAtElapsedMs =
        (\<lambda>t config. case config of LempiConfig c \<Rightarrow> multiplierAtElapsedMs expf t c | _ \<Rightarrow> 1),
      lv_elapsedMsForMultiplier =
        (\<lambda>m config. case config of LempiConfig c \<Rightarrow> elapsedMsForMultiplier logf m c | _ \<Rightarrow> 0),
      lv_slotId = (\<lambda>sel. case sel of LempiSelection s t \<Rightarrow> Some s | _ \<Rightarrow> None),
      lv_autoCashoutMultiplier = (\<lambda>sel. case sel of LempiSelection s t \<Rightarrow> t | _ \<Rightarrow> None),
      lv_settleCashout = (\<lambda>sel amountMicro mult commissionMicro.
         case sel of LempiSelection s t \<Rightarrow> settleLempiCrashCashout s amountMicro mult commissionMicro
         | _ \<Rightarrow> lost)\<rparr>"

definition lempiCrash :: "hmac_fun \<Rightarrow> (jsnum \<Rightarrow> jsnum) \<Rightarrow> (jsnum \<Rightarrow> jsnum) \<Rightarrow> game_plugin" where
  "lempiCrash hmac expf logf =
     \<lparr>gp_gameCode = ''lempi-crash'',
      gp_rngVersion = ''lempi-crash-rng-v1'',
      gp_selectionSchema = lempiCrashSelectionSchema,
      gp_configSchema = lempiCrashConfigSchema,
      gp_defaultConfig = LempiConfig default_lempi,
      gp_sampleSelection = LempiSelection SlotA (Some 2),
      gp_computeOutcome = lempi_computeOutcome hmac,
      gp_verifyOutcome = lempi_verifyOutcome hmac,
      gp_settleBet = lempi_settleBet,
      gp_outcomeForWire = (\<lambda>out. \<lparr>wo_outcomeType = ''CRASH'', wo_outcome = out\<rparr>),
      gp_liveCrash = Some (lempi_live expf logf)\<rparr>"

section \<open>Lemmas\<close>

lemma LIT_1_01_bounds: "1 < LIT_1_01" "LIT_1_01 < 2"
  by code_simp+

lemma representable_1: "representable 1"
  using representable_of_int [of 1] by simp

text \<open>The uniform sample is an exact multiple of \<open>2 ^ (-52)\<close> below 1.\<close>

lemma uRaw_exact:
  assumes "0 \<le> n" and "n < 2 ^ 52"
  shows "jdiv (fl (of_int n)) (fl (2 ^ 52)) = of_int n / 2 ^ 52"
proof -
  have a: "fl (of_int n) = of_int n" using assms by (intro fl_of_int) auto
  have "fl (of_int (2 ^ 52)) = of_int (2 ^ 52)" by (rule fl_of_int) simp
  then have b: "fl (2 ^ 52) = 2 ^ 52" by simp
  have "fl (of_int n * 2 powi (- 52)) = of_int n * 2 powi (- 52)"
    using assms by (intro fl_exact) auto
  moreover have "(2::rat) powi (- 52) = inverse (2 ^ 52)"
    by (simp only: power_int_minus power_int_numeral)
  ultimately show ?thesis unfolding jdiv_def a b by (simp only: divide_inverse)
qed

text \<open>The rescaled sample stays strictly below 1 in floating point, for every house edge.\<close>

lemma crash_u_lt_1:
  assumes "0 \<le> h" "h < 1" and "h \<le> x" "x \<le> 1 - 1 / 2 ^ 52"
  shows "jdiv (jsub x h) (jsub 1 h) \<le> 1 - 1 / 2 ^ 53"
proof -
  define a b where "a = jsub x h" and "b = jsub 1 h"
  have b: "0 < b" using fl_pos [of "1 - h"] assms(2) by (simp add: b_def jsub_def)
  have b1: "b \<le> 1"
    using fl_mono [of "1 - h" 1] assms(1) representable_1 by (simp add: b_def jsub_def representable_def)
  have a: "a \<le> x - h + 1 / 2 ^ 54"
  proof -
    have "0 \<le> x - h" "x - h < 1" using assms by auto
    from abs_le_D1 [OF fl_error_lt_1 [OF this]] show ?thesis unfolding a_def jsub_def by linarith
  qed
  have bl: "1 - h - 1 / 2 ^ 54 \<le> b"
  proof (cases "h = 0")
    case True
    then show ?thesis using representable_1 by (simp add: b_def jsub_def representable_def)
  next
    case False
    then have "0 \<le> 1 - h" "1 - h < 1" using assms by auto
    from abs_le_D2 [OF fl_error_lt_1 [OF this]] show ?thesis unfolding b_def jsub_def by linarith
  qed
  have "a \<le> b - 1 / 2 ^ 53" using a bl assms(4) by simp
  also have "\<dots> \<le> (1 - 1 / 2 ^ 53) * b" using b1 by (simp add: algebra_simps)
  finally have q: "a / b \<le> 1 - 1 / 2 ^ 53" using b by (simp add: divide_le_eq)
  have "fl (of_int (2 ^ 53 - 1) * 2 powi (- 53)) = of_int (2 ^ 53 - 1) * 2 powi (- 53)"
    by (rule fl_exact) simp
  then have e: "fl (1 - 1 / 2 ^ 53) = 1 - 1 / 2 ^ 53"
    by (simp add: power_int_minus)
  show ?thesis using fl_mono [OF q] unfolding e jdiv_def a_def [symmetric] b_def [symmetric] .
qed

lemma jsub_1_pos: "representable u \<Longrightarrow> u < 1 \<Longrightarrow> 0 < jsub 1 u"
  using fl_pos [of "1 - u"] by (simp add: jsub_def)

lemma crash_multiplier_bounds:
  "1 \<le> m \<Longrightarrow> 1 \<le> crash_multiplier u m \<and> crash_multiplier u m \<le> m"
  by (simp add: crash_multiplier_def Let_def)

text \<open>The derivation as a function of the digest word.\<close>

definition digest_bits52 :: "digest \<Rightarrow> int" where
  "digest_bits52 w = uint w div 16 ^ 51 mod 2 ^ 52"

lemma digest_bits52_bounds: "0 \<le> digest_bits52 w" "digest_bits52 w < 2 ^ 52"
  by (simp_all add: digest_bits52_def)

lemma determineCrashOutcome_digest:
  assumes "0 \<le> h" "h < 1" "LIT_1_01 \<le> m" "is_integer (rc_nonce ctx)" "0 \<le> rc_nonce ctx"
  shows "determineCrashOutcome hmac ctx h m =
    (let x = of_int (digest_bits52 (hmac (rc_serverSeed ctx) (round_message ctx))) / 2 ^ 52 in
     if x < h then Inr (CrashOutcome 1 x)
     else Inr (CrashOutcome (crash_multiplier (jdiv (jsub x h) (jsub 1 h)) m) x))"
proof -
  define w where "w = hmac (rc_serverSeed ctx) (round_message ctx)"
  have "bigInt16 (str_slice 0 13 (digest_hex w)) = Some (digest_bits52 w)"
    by (simp add: bits52_digest digest_bits52_def)
  then have "determineCrashOutcome hmac ctx h m =
    (let x = jdiv (fl (of_int (digest_bits52 w))) (fl (2 ^ 52)) in
     if x < h then Inr (CrashOutcome 1 x)
     else Inr (CrashOutcome (crash_multiplier (jdiv (jsub x h) (jsub 1 h)) m) x))"
    using assms unfolding determineCrashOutcome_def roundHmac_def w_def [symmetric] Let_def
    by (simp only: not_less [symmetric] if_False sum.case option.case not_True_eq_False not_False_eq_True
        disj_not1 simp_thms)
  then show ?thesis unfolding uRaw_exact [OF digest_bits52_bounds] w_def .
qed

lemma determineCrashOutcome_cases:
  assumes "determineCrashOutcome hmac ctx h m = Inr out"
  shows "0 \<le> h" "h < 1" "LIT_1_01 \<le> m" "is_integer (rc_nonce ctx)" "0 \<le> rc_nonce ctx"
  using assms by (auto simp: determineCrashOutcome_def roundHmac_def split: if_splits sum.splits option.splits)

lemma crash_sample_bounds:
  "0 \<le> (of_int (digest_bits52 w) / 2 ^ 52 :: rat)" "(of_int (digest_bits52 w) / 2 ^ 52 :: rat) \<le> 1 - 1 / 2 ^ 52"
proof -
  note b = digest_bits52_bounds [of w]
  show "0 \<le> (of_int (digest_bits52 w) / 2 ^ 52 :: rat)" using b by simp
  have "(of_int (digest_bits52 w) :: rat) \<le> of_int (2 ^ 52 - 1)"
    using b by (simp only: of_int_le_iff)
  then show "(of_int (digest_bits52 w) / 2 ^ 52 :: rat) \<le> 1 - 1 / 2 ^ 52"
    by (simp add: field_simps)
qed

lemma lempi_outcome_eq:
  "determineLempiCrashOutcome hmac ctx c = determineCrashOutcome hmac ctx (lc_houseEdge c) (lc_maxMultiplier c)"
  by (simp add: determineLempiCrashOutcome_def determineCrashOutcome_def)

text \<open>Payouts.\<close>

lemma payoutAtMultiplier_nonneg: "0 \<le> payoutAtMultiplier a m c"
  by (simp add: payoutAtMultiplier_def Let_def)

lemma payoutAtMultiplier_capped:
  assumes "0 \<le> a" "0 \<le> c" "0 \<le> x" "x \<le> m"
  shows "payoutAtMultiplier a x c \<le> a * js_round (jmul m 100) div 100"
proof -
  have x0: "0 \<le> js_round (jmul x 100)"
    using assms fl_nonneg [of "x * 100"] by (simp add: jmul_def js_round_nonneg)
  have le: "js_round (jmul x 100) \<le> js_round (jmul m 100)"
    using assms by (intro js_round_mono) (simp add: jmul_def fl_mono)
  have "0 \<le> a * js_round (jmul x 100) div 100"
    using assms(1) x0 by (simp add: pos_imp_zdiv_nonneg_iff)
  then have "payoutAtMultiplier a x c \<le> a * js_round (jmul x 100) div 100"
    using assms x0 by (simp add: payoutAtMultiplier_def Let_def bigint_div_nonneg)
  also have "\<dots> \<le> a * js_round (jmul m 100) div 100"
    using assms le by (intro zdiv_mono1 mult_left_mono) auto
  finally show ?thesis .
qed

lemma settleCrashMinimalBet_payout:
  "settleCrashMinimalBet x a m c =
     (if x \<le> m then \<lparr>sr_won = True, sr_payoutMicro = payoutAtMultiplier a x c,
                    sr_winMeta = Some (CrashMeta x m)\<rparr> else lost)"
  by (simp add: settleCrashMinimalBet_def payoutAtMultiplier_def Let_def)

lemma settleLempi_eq_minimal:
  "sr_won (settleLempiCrashBet (s, Some x) a m c) = sr_won (settleCrashMinimalBet x a m c)"
  "sr_payoutMicro (settleLempiCrashBet (s, Some x) a m c) = sr_payoutMicro (settleCrashMinimalBet x a m c)"
  by (auto simp: settleLempiCrashBet_def settleCrashMinimalBet_payout lost_def)

section \<open>The contracts\<close>

text \<open>A payout never exceeds the stake times the crash point that was reached.\<close>

interpretation crash_rules: settlement_rules settleCrashMinimalBet
  "\<lambda>s a m. a * js_round (jmul m 100) div 100" "\<lambda>s m. 0 \<le> s \<and> 0 \<le> m"
proof
  fix s out a c
  show "\<not> sr_won (settleCrashMinimalBet s a out c) \<Longrightarrow> sr_payoutMicro (settleCrashMinimalBet s a out c) = 0"
    by (auto simp: settleCrashMinimalBet_payout lost_def split: if_splits)
  show "0 \<le> sr_payoutMicro (settleCrashMinimalBet s a out c)"
    by (simp add: settleCrashMinimalBet_payout lost_def payoutAtMultiplier_nonneg)
  assume h: "0 \<le> s \<and> 0 \<le> out" "0 \<le> a" "0 \<le> c"
  then have "0 \<le> a * js_round (jmul out 100) div 100"
    using fl_nonneg [of "out * 100"]
    by (simp add: jmul_def js_round_nonneg pos_imp_zdiv_nonneg_iff)
  then show "sr_payoutMicro (settleCrashMinimalBet s a out c) \<le> a * js_round (jmul out 100) div 100"
    using h payoutAtMultiplier_capped [of a c s out]
    by (simp add: settleCrashMinimalBet_payout lost_def)
qed

interpretation lempi_rules: settlement_rules settleLempiCrashBet
  "\<lambda>s a m. a * js_round (jmul m 100) div 100"
  "\<lambda>s m. (case snd s of None \<Rightarrow> True | Some x \<Rightarrow> 0 \<le> x) \<and> 0 \<le> m"
proof
  fix s :: "slot \<times> jsnum option" and out a c
  obtain k t where s: "s = (k, t)" by fastforce
  show "\<not> sr_won (settleLempiCrashBet s a out c) \<Longrightarrow> sr_payoutMicro (settleLempiCrashBet s a out c) = 0"
    by (auto simp: settleLempiCrashBet_def lost_def split: option.splits if_splits)
  show "0 \<le> sr_payoutMicro (settleLempiCrashBet s a out c)"
    by (auto simp: settleLempiCrashBet_def lost_def payoutAtMultiplier_nonneg split: option.splits)
  assume h: "(case snd s of None \<Rightarrow> True | Some x \<Rightarrow> 0 \<le> x) \<and> 0 \<le> out" "0 \<le> a" "0 \<le> c"
  show "sr_payoutMicro (settleLempiCrashBet s a out c) \<le> a * js_round (jmul out 100) div 100"
  proof (cases t)
    case None
    then show ?thesis using h s fl_nonneg [of "out * 100"]
      by (simp add: settleLempiCrashBet_def lost_def jmul_def js_round_nonneg pos_imp_zdiv_nonneg_iff)
  next
    case (Some x)
    then show ?thesis using h s crash_rules.payout_capped [of x out a c]
      by (simp add: settleLempi_eq_minimal)
  qed
qed

lemma crash_agrees_refl: "crash_agrees out out"
proof -
  have "0 < fl (1 / 10 ^ 9)" "0 < fl (1 / 10 ^ 12)" by (rule fl_pos, simp)+
  then show ?thesis by (auto simp: crash_agrees_def jsub_def split: game_outcome.splits)
qed

interpretation crash_fair: provably_fair "crash_computeOutcome hmac" "crash_verifyOutcome hmac" crash_agrees
  for hmac
  by unfold_locales
    (auto simp: crash_verifyOutcome_def crash_computeOutcome_def verifyCrashOutcome_def crash_agrees_refl
      split: game_config.splits)

interpretation lempi_fair: provably_fair "lempi_computeOutcome hmac" "lempi_verifyOutcome hmac" crash_agrees
  for hmac
  by unfold_locales
    (auto simp: lempi_verifyOutcome_def lempi_computeOutcome_def verifyLempiCrashOutcome_def crash_agrees_refl
      split: game_config.splits)

section \<open>More lemmas\<close>

lemma js_floor_ge_1: "1 \<le> x \<Longrightarrow> 1 \<le> js_floor x"
  by (simp add: js_floor_def)

lemma js_floor_mono: "x \<le> y \<Longrightarrow> js_floor x \<le> js_floor y"
  by (simp add: js_floor_def floor_mono)

lemma crash_multiplier_form:
  assumes "0 < jsub 1 u" and "1 \<le> m"
  shows "crash_multiplier u m = m \<or>
    (\<exists>k. 100 \<le> k \<and> crash_multiplier u m = jdiv (of_int k) 100)"
proof -
  define k where "k = \<lfloor>jdiv 100 (jsub 1 u)\<rfloor>"
  have j: "jdiv (of_int 100) 100 = 1" by code_simp
  have "crash_multiplier u m = min (max 1 (jdiv (of_int k) 100)) m"
    using assms by (simp add: crash_multiplier_def Let_def js_floor_def k_def)
  moreover have "max 1 (jdiv (of_int k) 100) = jdiv (of_int (max k 100)) 100"
  proof (cases "100 \<le> k")
    case True
    then have "fl (of_int 100 / 100) \<le> fl (of_int k / 100)" by (intro fl_mono) simp
    then have "1 \<le> jdiv (of_int k) 100" using j by (simp add: jdiv_def)
    then show ?thesis using True by (simp add: max_def)
  next
    case False
    then have "fl (of_int k / 100) \<le> fl (of_int 100 / 100)" by (intro fl_mono) simp
    then have "jdiv (of_int k) 100 \<le> 1" using j by (simp add: jdiv_def)
    then show ?thesis using False j by (simp add: max_def)
  qed
  ultimately show ?thesis
    by (metis max.cobounded2 min_def)
qed

lemma crash_multiplier_mono:
  assumes "u \<le> v" and "0 < jsub 1 v"
  shows "crash_multiplier u m \<le> crash_multiplier v m"
proof -
  have le: "jsub 1 v \<le> jsub 1 u" using assms(1) by (simp add: jsub_def fl_mono)
  then have "0 < jsub 1 u" using assms(2) by simp
  have "100 / jsub 1 u \<le> 100 / jsub 1 v"
    using le assms(2) by (intro divide_left_mono) (auto simp: zero_less_mult_iff)
  then have "jdiv 100 (jsub 1 u) \<le> jdiv 100 (jsub 1 v)" by (simp add: jdiv_def fl_mono)
  then have "js_floor (jdiv 100 (jsub 1 u)) / 100 \<le> js_floor (jdiv 100 (jsub 1 v)) / 100"
    by (simp add: js_floor_mono divide_right_mono)
  then have "jdiv (js_floor (jdiv 100 (jsub 1 u))) 100 \<le> jdiv (js_floor (jdiv 100 (jsub 1 v))) 100"
    unfolding jdiv_def [of _ "100"] by (rule fl_mono)
  then show ?thesis using \<open>0 < jsub 1 u\<close> assms(2)
    by (auto simp: crash_multiplier_def Let_def intro: min.mono max.mono)
qed

lemma crash_scaled_pos:
  assumes "0 \<le> h" "h < 1" "h \<le> x" "x \<le> 1 - 1 / 2 ^ 52"
  shows "0 < jsub 1 (jdiv (jsub x h) (jsub 1 h))"
proof (rule jsub_1_pos)
  show "representable (jdiv (jsub x h) (jsub 1 h))" by (simp add: representable_def)
  have "(1 :: rat) - 1 / 2 ^ 53 < 1" by simp
  with crash_u_lt_1 [OF assms] show "jdiv (jsub x h) (jsub 1 h) < 1" by linarith
qed

lemma LIT_ge_1: "LIT_1_01 \<le> m \<Longrightarrow> 1 \<le> m"
  using LIT_1_01_bounds by linarith

section \<open>Properties\<close>

text \<open>For every legal configuration and natural nonce the crash point is computed, lies
  between 1 and the configured maximum, is 1 on a house bust, and is otherwise either the
  maximum or a whole number of hundredths; the sample published with it lies in [0, 1).\<close>

theorem crash_outcome_range:
  assumes "0 \<le> h" "h < 1" "LIT_1_01 \<le> m" "is_integer (rc_nonce ctx)" "0 \<le> rc_nonce ctx"
  shows "\<exists>x u. determineCrashOutcome hmac ctx h m = Inr (CrashOutcome x u) \<and>
    1 \<le> x \<and> x \<le> m \<and> 0 \<le> u \<and> u < 1 \<and> (u < h \<longrightarrow> x = 1) \<and>
    (x = m \<or> (\<exists>k. 100 \<le> k \<and> x = jdiv (of_int k) 100))"
proof -
  define u where "u = (of_int (digest_bits52 (hmac (rc_serverSeed ctx) (round_message ctx))) / 2 ^ 52 :: rat)"
  have u: "0 \<le> u" "u \<le> 1 - 1 / 2 ^ 52" unfolding u_def by (rule crash_sample_bounds)+
  have u1: "u < 1" using u(2) by (rule le_less_trans) simp
  have m: "1 \<le> m" using assms(3) by (rule LIT_ge_1)
  note d = determineCrashOutcome_digest [OF assms, of hmac, folded u_def, unfolded Let_def]
  show ?thesis
  proof (cases "u < h")
    case True
    have "jdiv (of_int 100) 100 = 1" by code_simp
    then have "\<exists>k. 100 \<le> k \<and> 1 = jdiv (of_int k) 100" by (intro exI [of _ 100]) simp
    then show ?thesis using True d u u1 m by auto
  next
    case False
    then have "0 < jsub 1 (jdiv (jsub u h) (jsub 1 h))"
      using assms u by (intro crash_scaled_pos) auto
    from crash_multiplier_form [OF this m] show ?thesis
      using False d u u1 m crash_multiplier_bounds [OF m] by auto
  qed
qed

theorem crash_outcome_range_witness:
  "\<exists>x u. determineCrashOutcome (\<lambda>k s. 2 ^ 255)
      \<lparr>rc_serverSeed = ''s'', rc_clientSeed = ''c'', rc_nonce = 0\<rparr> 0 1000 = Inr (CrashOutcome x u) \<and>
    1 \<le> x \<and> x \<le> 1000 \<and> 0 \<le> u \<and> u < 1"
proof -
  have "LIT_1_01 \<le> 1000" using LIT_1_01_bounds by simp
  then show ?thesis
    using crash_outcome_range [of 0 1000 "\<lparr>rc_serverSeed = ''s'', rc_clientSeed = ''c'', rc_nonce = 0\<rparr>"
        "\<lambda>k s. 2 ^ 255"]
    by (force simp: is_integer_def)
qed

text \<open>The crash point is monotone in the uniform sample: of two rounds under one
  configuration, the one with the larger sample never crashes earlier.\<close>

theorem crash_point_monotone:
  assumes "determineCrashOutcome hmac ctx h m = Inr (CrashOutcome x u)"
    and "determineCrashOutcome hmac ctx' h m = Inr (CrashOutcome y v)"
    and "u \<le> v"
  shows "x \<le> y"
proof -
  note c = determineCrashOutcome_cases [OF assms(1)]
  note c' = determineCrashOutcome_cases [OF assms(2)]
  define p where "p = (of_int (digest_bits52 (hmac (rc_serverSeed ctx) (round_message ctx))) / 2 ^ 52 :: rat)"
  define q where "q = (of_int (digest_bits52 (hmac (rc_serverSeed ctx') (round_message ctx'))) / 2 ^ 52 :: rat)"
  have q: "0 \<le> q" "q \<le> 1 - 1 / 2 ^ 52" unfolding q_def by (rule crash_sample_bounds)+
  note d = determineCrashOutcome_digest [OF c, of hmac, folded p_def, unfolded Let_def]
  note d' = determineCrashOutcome_digest [OF c', of hmac, folded q_def, unfolded Let_def]
  have up: "u = p" "x = (if p < h then 1 else crash_multiplier (jdiv (jsub p h) (jsub 1 h)) m)"
    using assms(1) d by (auto split: if_splits)
  have vq: "v = q" "y = (if q < h then 1 else crash_multiplier (jdiv (jsub q h) (jsub 1 h)) m)"
    using assms(2) d' by (auto split: if_splits)
  have m: "1 \<le> m" using c(3) by (rule LIT_ge_1)
  show ?thesis
  proof (cases "p < h")
    case True
    then show ?thesis using up vq crash_multiplier_bounds [OF m] by auto
  next
    case False
    then have hq: "h \<le> q" using assms(3) up vq by simp
    have b: "0 < jsub 1 h" using fl_pos [of "1 - h"] c(2) by (simp add: jsub_def)
    have "jsub p h \<le> jsub q h" using assms(3) up vq by (simp add: jsub_def fl_mono)
    then have "jdiv (jsub p h) (jsub 1 h) \<le> jdiv (jsub q h) (jsub 1 h)"
      using b by (simp add: jdiv_def fl_mono divide_right_mono)
    from crash_multiplier_mono [OF this] show ?thesis
      using False hq up vq crash_scaled_pos [OF c(1,2) hq q(2)] by simp
  qed
qed

theorem crash_point_monotone_witness: "(1 :: jsnum) \<le> 2"
proof -
  define w :: digest where "w = 2 ^ 255"
  define H :: hmac_fun where "H = (\<lambda>k s. if k = ''b'' then w else 0)"
  let ?c = "\<lambda>k. \<lparr>rc_serverSeed = k, rc_clientSeed = ''c'', rc_nonce = 0\<rparr>"
  have d: "digest_bits52 w = 2 ^ 51" "digest_bits52 0 = 0" by (simp_all add: w_def digest_bits52_def)
  have c: "crash_multiplier (jdiv (jsub (1/2) 0) (jsub 1 0)) 1000 = 2"
    "crash_multiplier (jdiv (jsub 0 0) (jsub 1 0)) 1000 = 1" by code_simp+
  have "determineCrashOutcome H (?c ''a'') 0 1000 = Inr (CrashOutcome 1 0)"
    using LIT_1_01_bounds c
    by (subst determineCrashOutcome_digest) (auto simp: H_def d is_integer_def Let_def)
  moreover have "determineCrashOutcome H (?c ''b'') 0 1000 = Inr (CrashOutcome 2 (1/2))"
    using LIT_1_01_bounds c
    by (subst determineCrashOutcome_digest) (auto simp: H_def d is_integer_def Let_def)
  ultimately show ?thesis by (rule crash_point_monotone) simp
qed

text \<open>A crash bet is paid exactly when the crash point reaches the player's target, and
  then at most the stake times the crash point reached; a lost bet pays nothing.\<close>

theorem crash_payout_bound:
  assumes "0 \<le> target" "1 \<le> x" "0 \<le> a" "0 \<le> c"
  shows "(sr_won (settleCrashMinimalBet target a x c) \<longleftrightarrow> target \<le> x) \<and>
    0 \<le> sr_payoutMicro (settleCrashMinimalBet target a x c) \<and>
    sr_payoutMicro (settleCrashMinimalBet target a x c)
      = (if target \<le> x then payoutAtMultiplier a target c else 0) \<and>
    sr_payoutMicro (settleCrashMinimalBet target a x c) \<le> a * js_round (jmul x 100) div 100"
  using assms crash_rules.payout_nonneg crash_rules.payout_capped [of target x a c]
    crash_rules.lost_pays_nothing [of target a x c]
  by (auto simp: settleCrashMinimalBet_payout lost_def)

theorem crash_payout_bound_witness:
  "(sr_won (settleCrashMinimalBet 2 500000 3 1000) \<longleftrightarrow> (2 :: jsnum) \<le> 3) \<and>
    0 \<le> sr_payoutMicro (settleCrashMinimalBet 2 500000 3 1000) \<and>
    sr_payoutMicro (settleCrashMinimalBet 2 500000 3 1000)
      = (if (2 :: jsnum) \<le> 3 then payoutAtMultiplier 500000 2 1000 else 0) \<and>
    sr_payoutMicro (settleCrashMinimalBet 2 500000 3 1000) \<le> 500000 * js_round (jmul 3 100) div 100"
  by (rule crash_payout_bound) simp_all

text \<open>The displayed flight multiplier stays between 1 and the configured maximum whatever
  the runtime's exponential returns, never falls while the flight goes on when the
  exponential is monotone, and the scheduled crash time lies between the configured
  minimum and maximum flight times.\<close>

theorem flight_curve_bounds:
  assumes "1 \<le> lc_maxMultiplier c" and "lc_minFlightMs c \<le> lc_maxFlightMs c"
    and "0 \<le> lc_growthRate c" and "mono expf" and "s \<le> t"
  shows "1 \<le> multiplierAtElapsedMs expf t c \<and>
    multiplierAtElapsedMs expf t c \<le> lc_maxMultiplier c \<and>
    multiplierAtElapsedMs expf s c \<le> multiplierAtElapsedMs expf t c \<and>
    lc_minFlightMs c \<le> elapsedMsForMultiplier logf m c \<and>
    elapsedMsForMultiplier logf m c \<le> lc_maxFlightMs c"
proof -
  have "max 0 s * lc_growthRate c \<le> max 0 t * lc_growthRate c"
    using assms by (intro mult_right_mono max.mono) auto
  then have "expf (jmul (max 0 s) (lc_growthRate c)) \<le> expf (jmul (max 0 t) (lc_growthRate c))"
    using assms(4) by (auto simp: jmul_def dest: monoD intro: fl_mono)
  then have "jmul (expf (jmul (max 0 s) (lc_growthRate c))) 100 \<le> jmul (expf (jmul (max 0 t) (lc_growthRate c))) 100"
    unfolding jmul_def [of _ "100"] by (intro fl_mono mult_right_mono) auto
  then have "jdiv (js_floor (jmul (expf (jmul (max 0 s) (lc_growthRate c))) 100)) 100
      \<le> jdiv (js_floor (jmul (expf (jmul (max 0 t) (lc_growthRate c))) 100)) 100"
    unfolding jdiv_def by (intro fl_mono divide_right_mono js_floor_mono) auto
  then have "multiplierAtElapsedMs expf s c \<le> multiplierAtElapsedMs expf t c"
    by (auto simp: multiplierAtElapsedMs_def Let_def intro: min.mono max.mono)
  then show ?thesis using assms(1,2)
    by (auto simp: multiplierAtElapsedMs_def elapsedMsForMultiplier_def Let_def)
qed

theorem flight_curve_bounds_witness:
  "1 \<le> multiplierAtElapsedMs (\<lambda>x. x + 1) 500 default_lempi \<and>
    multiplierAtElapsedMs (\<lambda>x. x + 1) 500 default_lempi \<le> lc_maxMultiplier default_lempi \<and>
    multiplierAtElapsedMs (\<lambda>x. x + 1) 100 default_lempi \<le> multiplierAtElapsedMs (\<lambda>x. x + 1) 500 default_lempi \<and>
    lc_minFlightMs default_lempi \<le> elapsedMsForMultiplier (\<lambda>x. x - 1) 2 default_lempi \<and>
    elapsedMsForMultiplier (\<lambda>x. x - 1) 2 default_lempi \<le> lc_maxFlightMs default_lempi"
  by (rule flight_curve_bounds) (auto simp: default_lempi_def intro!: monoI fl_nonneg)

end
