(* ===== verification/KetapolaDice.thy ===== *)
theory KetapolaDice
  imports GameContract
begin

text \<open>
  The dice game of \<^verbatim>\<open>games/ketapola-dice/src\<close>: configuration and selection schemas, the
  outcome read from the round's digest, verification and settlement.
\<close>

section \<open>Configuration and selection\<close>

definition parse_positive_int :: "json \<Rightarrow> jsnum option" where
  "parse_positive_int v =
     (case v of JNum x \<Rightarrow> if is_integer x \<and> 0 < x then Some x else None | _ \<Rightarrow> None)"

definition ketapolaDiceConfigSchema :: "json \<Rightarrow> game_config option" where
  "ketapolaDiceConfigSchema v =
     (if \<not> only_keys [''lowWeight'', ''highWeight''] v then None
      else case (parse_positive_int (get_prop v ''lowWeight''),
                 parse_positive_int (get_prop v ''highWeight'')) of
        (Some lo, Some hi) \<Rightarrow> Some (DiceConfig lo hi)
      | _ \<Rightarrow> None)"

definition defaultKetapolaDiceConfig :: game_config where
  "defaultKetapolaDiceConfig = DiceConfig 50 50"

definition ketapolaDiceSelectionSchema :: "json \<Rightarrow> bet_selection option" where
  "ketapolaDiceSelectionSchema v =
     (if \<not> only_keys [''side''] v then None
      else if get_prop v ''side'' = JStr ''LOW'' then Some (DiceSelection LOW)
      else if get_prop v ''side'' = JStr ''HIGH'' then Some (DiceSelection HIGH)
      else None)"

section \<open>Outcome\<close>

definition LOW_FACES :: "int list" where "LOW_FACES = [3, 6, 9]"
definition HIGH_FACES :: "int list" where "HIGH_FACES = [12, 15, 18]"

definition faces_of :: "side \<Rightarrow> int list" where
  "faces_of s = (if s = LOW then LOW_FACES else HIGH_FACES)"

text \<open>The share of the 32-bit range that selects \<open>LOW\<close>, computed in floating point.\<close>

definition side_threshold :: "jsnum \<Rightarrow> jsnum \<Rightarrow> jsnum" where
  "side_threshold lowWeight highWeight =
     (let totalWeight = jadd lowWeight highWeight
      in jmul (jdiv lowWeight totalWeight) 4294967295)"

text \<open>
  A digest is always 64 hexadecimal digits, so neither read can be \<open>NaN\<close>
  (\<open>determineOutcome_digest\<close> below); the branch is kept as an error.
\<close>

definition determineOutcome ::
  "hmac_fun \<Rightarrow> string \<Rightarrow> string \<Rightarrow> jsnum \<Rightarrow> jsnum \<Rightarrow> jsnum \<Rightarrow> game_error + game_outcome" where
  "determineOutcome hmac serverSeed clientSeed nonce lowWeight highWeight =
     (if lowWeight \<le> 0 \<or> highWeight \<le> 0 then Inl (WeightsNotPositive lowWeight highWeight)
      else case roundHmac hmac \<lparr>rc_serverSeed = serverSeed, rc_clientSeed = clientSeed, rc_nonce = nonce\<rparr> of
        Inl e \<Rightarrow> Inl e
      | Inr hmacHex \<Rightarrow>
          (case (uint32At hmacHex 0, uint32At hmacHex 8) of
             (Some sideValue, Some faceValue) \<Rightarrow>
               (let side = (if of_int sideValue < side_threshold lowWeight highWeight then LOW else HIGH);
                    faces = faces_of side;
                    outcomeSum = faces ! nat (faceValue mod int (length faces))
                in Inr (DiceOutcome [outcomeSum] outcomeSum side))
           | _ \<Rightarrow> Inl DigestNotHex))"

definition dice_agrees :: "game_outcome \<Rightarrow> game_outcome \<Rightarrow> bool" where
  "dice_agrees recomputed claimed =
     (case (recomputed, claimed) of
        (DiceOutcome _ s1 d1, DiceOutcome _ s2 d2) \<Rightarrow> s1 = s2 \<and> d1 = d2
      | _ \<Rightarrow> recomputed = claimed)"

definition verifyDiceOutcome ::
  "hmac_fun \<Rightarrow> string \<Rightarrow> string \<Rightarrow> jsnum \<Rightarrow> jsnum \<Rightarrow> jsnum \<Rightarrow> game_outcome \<Rightarrow> game_error + bool" where
  "verifyDiceOutcome hmac serverSeed clientSeed nonce lowWeight highWeight claimed =
     (case determineOutcome hmac serverSeed clientSeed nonce lowWeight highWeight of
        Inl e \<Rightarrow> Inl e
      | Inr recomputed \<Rightarrow> Inr (dice_agrees recomputed claimed))"

section \<open>Settlement\<close>

definition settleKetapolaDiceBet :: "side \<Rightarrow> micro \<Rightarrow> side \<Rightarrow> micro \<Rightarrow> settlement_result" where
  "settleKetapolaDiceBet selected amountMicro outcome commissionMicro =
     (let won = (selected = outcome) in
      if \<not> won then lost
      else (let gross = amountMicro * 2;
                payoutMicro = net_payout gross commissionMicro
            in \<lparr>sr_won = True, sr_payoutMicro = payoutMicro, sr_winMeta = Some (DiceMeta selected)\<rparr>))"

section \<open>The plugin\<close>

definition dice_settleBet ::
  "bet_selection \<Rightarrow> micro \<Rightarrow> game_outcome \<Rightarrow> game_config \<Rightarrow> micro \<Rightarrow> settlement_result" where
  "dice_settleBet selection amountMicro outcome config commissionMicro =
     (case (selection, outcome) of
        (DiceSelection s, DiceOutcome _ _ d) \<Rightarrow> settleKetapolaDiceBet s amountMicro d commissionMicro
      | _ \<Rightarrow> lost)"

definition dice_computeOutcome ::
  "hmac_fun \<Rightarrow> rng_context \<Rightarrow> game_config \<Rightarrow> game_error + game_outcome" where
  "dice_computeOutcome hmac ctx config =
     (case config of
        DiceConfig lo hi \<Rightarrow>
          determineOutcome hmac (rc_serverSeed ctx) (rc_clientSeed ctx) (rc_nonce ctx) lo hi
      | _ \<Rightarrow> Inl (WeightsNotPositive 0 0))"

definition dice_verifyOutcome ::
  "hmac_fun \<Rightarrow> rng_context \<Rightarrow> game_config \<Rightarrow> game_outcome \<Rightarrow> game_error + bool" where
  "dice_verifyOutcome hmac ctx config claimed =
     (case config of
        DiceConfig lo hi \<Rightarrow>
          verifyDiceOutcome hmac (rc_serverSeed ctx) (rc_clientSeed ctx) (rc_nonce ctx) lo hi claimed
      | _ \<Rightarrow> Inl (WeightsNotPositive 0 0))"

definition ketapolaDice :: "hmac_fun \<Rightarrow> game_plugin" where
  "ketapolaDice hmac =
     \<lparr>gp_gameCode = ''ketapola-dice'',
      gp_rngVersion = ''ketapola-rng-v1'',
      gp_selectionSchema = ketapolaDiceSelectionSchema,
      gp_configSchema = ketapolaDiceConfigSchema,
      gp_defaultConfig = defaultKetapolaDiceConfig,
      gp_sampleSelection = DiceSelection LOW,
      gp_computeOutcome = dice_computeOutcome hmac,
      gp_verifyOutcome = dice_verifyOutcome hmac,
      gp_settleBet = dice_settleBet,
      gp_outcomeForWire = (\<lambda>out. \<lparr>wo_outcomeType = ''DICE'', wo_outcome = out\<rparr>),
      gp_liveCrash = None\<rparr>"

section \<open>Lemmas\<close>

text \<open>The outcome as a function of the digest word.\<close>

definition digest_side_value :: "digest \<Rightarrow> int" where
  "digest_side_value w = uint w div 16 ^ 56 mod 2 ^ 32"

definition digest_face_value :: "digest \<Rightarrow> int" where
  "digest_face_value w = uint w div 16 ^ 48 mod 2 ^ 32"

lemma uint32At_side: "uint32At (digest_hex w) 0 = Some (digest_side_value w)"
  unfolding digest_side_value_def by (subst uint32At_digest) simp_all

lemma uint32At_face: "uint32At (digest_hex w) 8 = Some (digest_face_value w)"
  unfolding digest_face_value_def by (subst uint32At_digest) simp_all

lemma determineOutcome_digest:
  assumes "0 < lo" "0 < hi" and "is_integer n" "0 \<le> n"
  shows "determineOutcome hmac ss cs n lo hi =
    (let w = hmac ss (cs @ '':'' @ show_int \<lfloor>n\<rfloor>);
         side = (if of_int (digest_side_value w) < side_threshold lo hi then LOW else HIGH);
         s = faces_of side ! nat (digest_face_value w mod int (length (faces_of side)))
     in Inr (DiceOutcome [s] s side))"
  using assms
  by (simp add: determineOutcome_def roundHmac_def round_message_def uint32At_side uint32At_face Let_def)

lemma determineOutcome_cases:
  assumes "determineOutcome hmac ss cs n lo hi = Inr out"
  shows "0 < lo" "0 < hi" "is_integer n" "0 \<le> n"
  using assms by (auto simp: determineOutcome_def roundHmac_def split: if_splits sum.splits option.splits)

lemma faces_of_simps [simp]: "length (faces_of s) = 3" "set (faces_of LOW) = {3, 6, 9}"
  "set (faces_of HIGH) = {12, 15, 18}"
  by (auto simp: faces_of_def LOW_FACES_def HIGH_FACES_def)

lemma face_in_side: "faces_of s ! nat (v mod int (length (faces_of s))) \<in> set (faces_of s)"
  by (rule nth_mem) simp

text \<open>The threshold lies in the open range for positive weights, so neither side is impossible.\<close>

lemma side_threshold_bounds:
  assumes "0 < lo" "0 < hi" and "representable lo"
  shows "0 < side_threshold lo hi" and "side_threshold lo hi \<le> 4294967295"
proof -
  have t: "0 < jadd lo hi" using assms fl_pos [of "lo + hi"] by (simp add: jadd_def)
  have q: "0 < jdiv lo (jadd lo hi)" using assms t fl_pos [of "lo / jadd lo hi"] by (simp add: jdiv_def)
  then show "0 < side_threshold lo hi"
    using fl_pos [of "jdiv lo (jadd lo hi) * 4294967295"]
    by (simp add: side_threshold_def jmul_def Let_def)
  have "jdiv lo (jadd lo hi) \<le> 1"
    using assms t by (intro jdiv_le_1 jadd_ge) auto
  then have "fl (jdiv lo (jadd lo hi) * 4294967295) \<le> fl (of_int 4294967295)"
    by (intro fl_mono) simp
  also have "\<dots> = of_int 4294967295" by (rule fl_of_int) simp
  finally show "side_threshold lo hi \<le> 4294967295" by (simp add: side_threshold_def jmul_def Let_def)
qed

lemma default_threshold: "side_threshold 50 50 = 4294967295 / 2"
  by code_simp

section \<open>The contracts\<close>

interpretation dice_rules: settlement_rules settleKetapolaDiceBet "\<lambda>s a out. 2 * a" "\<lambda>s out. True"
proof
  fix s out a c
  show "\<not> sr_won (settleKetapolaDiceBet s a out c) \<Longrightarrow> sr_payoutMicro (settleKetapolaDiceBet s a out c) = 0"
    by (auto simp: settleKetapolaDiceBet_def lost_def Let_def split: if_splits)
  show "0 \<le> sr_payoutMicro (settleKetapolaDiceBet s a out c)"
    by (simp add: settleKetapolaDiceBet_def lost_def Let_def)
  show "0 \<le> a \<Longrightarrow> 0 \<le> c \<Longrightarrow> sr_payoutMicro (settleKetapolaDiceBet s a out c) \<le> 2 * a"
    using net_payout_le [of "a * 2" c] by (simp add: settleKetapolaDiceBet_def lost_def Let_def)
qed

interpretation dice_fair: provably_fair "dice_computeOutcome hmac" "dice_verifyOutcome hmac" dice_agrees
  for hmac
  by unfold_locales
    (auto simp: dice_verifyOutcome_def dice_computeOutcome_def verifyDiceOutcome_def dice_agrees_def
      split: game_config.splits game_outcome.splits)

section \<open>Properties\<close>

text \<open>For positive weights and a natural nonce the dice outcome is total: it is always
  computed, shows exactly one die, the die's value is the sum, and the value is one of
  the three faces of the side that was drawn.\<close>

theorem dice_outcome_wellformed:
  assumes "0 < lo" "0 < hi" "is_integer n" "0 \<le> n"
  shows "\<exists>f d. determineOutcome hmac ss cs n lo hi = Inr (DiceOutcome [f] f d) \<and> f \<in> set (faces_of d)"
  using assms face_in_side by (simp add: determineOutcome_digest Let_def)

theorem dice_outcome_wellformed_witness:
  "\<exists>f d. determineOutcome (\<lambda>k m. 7) ''seed'' ''client'' 3 50 50 = Inr (DiceOutcome [f] f d) \<and>
     f \<in> set (faces_of d)"
  by (rule dice_outcome_wellformed) (simp_all add: is_integer_def)

text \<open>Whatever the (positive) weights, neither side is impossible: the lowest 32-bit draw
  selects LOW and the highest selects HIGH.\<close>

theorem dice_both_sides_possible:
  assumes "0 < lo" "0 < hi" "representable lo" "is_integer n" "0 \<le> n"
    and "determineOutcome hmac ss cs n lo hi = Inr out"
  shows "(digest_side_value (hmac ss (cs @ '':'' @ show_int \<lfloor>n\<rfloor>)) = 0 \<longrightarrow> outcomeSide out = LOW) \<and>
    (digest_side_value (hmac ss (cs @ '':'' @ show_int \<lfloor>n\<rfloor>)) = 4294967295 \<longrightarrow> outcomeSide out = HIGH)"
  using assms side_threshold_bounds [OF assms(1-3)]
  by (auto simp: determineOutcome_digest Let_def)

theorem dice_both_sides_possible_witness: "outcomeSide (DiceOutcome [3] 3 LOW) = LOW"
proof -
  have r: "representable 1" using representable_of_int [of 1] by simp
  have "determineOutcome (\<lambda>k m. 7) ''s'' ''c'' 0 1 1 = Inr (DiceOutcome [3] 3 LOW)"
    by code_simp
  from dice_both_sides_possible [OF _ _ r _ _ this] show ?thesis
    by (simp add: is_integer_def digest_side_value_def)
qed

text \<open>With the default weights the game is exactly fair: the outcome is LOW iff the top
  bit of the round's digest is 0, that is for exactly half of all digests.\<close>

theorem dice_default_fair:
  assumes "determineOutcome hmac ss cs n 50 50 = Inr out"
  shows "outcomeSide out = LOW \<longleftrightarrow> uint (hmac ss (cs @ '':'' @ show_int \<lfloor>n\<rfloor>)) < 2 ^ 255"
proof -
  define v where "v = uint (hmac ss (cs @ '':'' @ show_int \<lfloor>n\<rfloor>))"
  note c = determineOutcome_cases [OF assms]
  have v0: "0 \<le> v" unfolding v_def by (rule uint_ge_0)
  have "v < 2 ^ 256" unfolding v_def using uint_lt2p [of "hmac ss (cs @ '':'' @ show_int \<lfloor>n\<rfloor>)"] by simp
  then have m: "v div 16 ^ 56 mod 2 ^ 32 = v div 16 ^ 56"
    using v0 by (intro mod_pos_pos_trivial) (auto simp: pos_imp_zdiv_nonneg_iff zdiv_less)
  have half: "2 * q < 4294967295 \<longleftrightarrow> q < 2147483648" for q :: int
    by (rule iffI) linarith+
  have "outcomeSide out = LOW \<longleftrightarrow> (of_int (v div 16 ^ 56) :: rat) < 4294967295 / 2"
    using assms c m
    by (auto simp: determineOutcome_digest Let_def default_threshold digest_side_value_def v_def
        split: if_splits)
  also have "\<dots> \<longleftrightarrow> (of_int (2 * (v div 16 ^ 56)) :: rat) < of_int 4294967295" by auto
  also have "\<dots> \<longleftrightarrow> v div 16 ^ 56 < 2 ^ 31" 
    unfolding of_int_less_iff using half [of "v div 16 ^ 56"] by simp
  also have "\<dots> \<longleftrightarrow> v < 2 ^ 255" by (auto simp: zdiv_less)
  finally show ?thesis by (simp add: v_def)
qed

theorem dice_default_fair_witness:
  "outcomeSide (DiceOutcome [3] 3 LOW) = LOW \<longleftrightarrow>
     uint ((\<lambda>k m. 7 :: digest) ''s'' (''c'' @ '':'' @ show_int \<lfloor>0::rat\<rfloor>)) < 2 ^ 255"
proof -
  have "determineOutcome (\<lambda>k m. 7) ''s'' ''c'' 0 50 50 = Inr (DiceOutcome [3] 3 LOW)"
    by code_simp
  then show ?thesis by (rule dice_default_fair)
qed

end
