(* ===== verification/Engine.thy ===== *)
theory Engine
  imports AuditChain RGLimits CrashGames KetapolaDice
begin

text \<open>
  The round engine of \<^verbatim>\<open>apps/rgs-server/src/services/GameEngine.ts\<close>: one engine per operator,
  game and currency. Its private state is the record \<open>engine\<close>; a handler takes and returns
  the \<open>world\<close>: the engine, the tables, the operator's wallet as a state of its own, the
  messages sent and the webhook events queued. A handler that awaits the wallet in the
  middle is modelled as the part before the call, the call, and the part after it, so that
  \<open>BetFlow\<close> can interleave the parts. Every handler reads the clock once (\<open>now\<close>).
\<close>

section \<open>State\<close>

datatype engine_phase = PhPending | PhBettingOpen | PhRolling | PhResult | PhSettled

record engine_config =
  ec_operatorId :: uuid
  ec_gameCode :: string
  ec_currency :: string
  ec_minBetMicro :: micro
  ec_maxBetMicro :: micro
  ec_commissionMicro :: micro
  ec_bettingWindowMs :: msec
  ec_rollingWindowMs :: msec
  ec_cooldownMs :: msec
  ec_configVersion :: string

record active_round =
  ar_id :: uuid
  ar_nonce :: int
  ar_serverSeed :: string
  ar_serverSeedHash :: string
  ar_clientSeed :: string
  ar_phase :: engine_phase
  ar_phaseStartedAt :: msec
  ar_phaseDurationMs :: jsnum
  ar_outcome :: "game_outcome option"
  ar_crashAtMs :: "jsnum option"

record engine =
  en_active :: "active_round option"
  en_running :: bool
  en_plugin :: game_plugin
  en_cfg :: engine_config
  en_gameConfig :: game_config

text \<open>A message to a room, and an event for the webhook dispatcher.\<close>

record emission =
  em_room :: string
  em_event :: string
  em_payload :: json

record 's world =
  wd_engine :: engine
  wd_db :: db
  wd_wallet :: 's
  wd_fresh :: nat
  wd_out :: "emission list"
  wd_events :: "(string \<times> json) list"

text \<open>
  What the engine gets from outside: identifiers (\<open>newUuid\<close> and the ids the store gives),
  random hexadecimal strings, the wallet client's two money operations, the digest and the
  rendering of numbers for the chain hash, and the build hash.
\<close>

record 's env =
  ev_uuid :: "nat \<Rightarrow> uuid"
  ev_random :: "nat \<Rightarrow> string"
  ev_bet :: "bet_request \<Rightarrow> 's \<Rightarrow> wallet_response \<times> 's"
  ev_win :: "win_request \<Rightarrow> 's \<Rightarrow> wallet_response \<times> 's"
  ev_sha256 :: sha_fun
  ev_numstr :: "jsnum \<Rightarrow> string"
  ev_buildHash :: "string option"

definition engine_key :: "engine \<Rightarrow> string" where
  "engine_key e = ec_operatorId (en_cfg e) @ '':'' @ gp_gameCode (en_plugin e) @ '':'' @ ec_currency (en_cfg e)"

definition new_engine :: "game_plugin \<Rightarrow> engine_config \<Rightarrow> game_config \<Rightarrow> engine" where
  "new_engine plugin cfg gameConfig =
     \<lparr>en_active = None, en_running = False, en_plugin = plugin, en_cfg = cfg, en_gameConfig = gameConfig\<rparr>"

definition currentRoundId :: "engine \<Rightarrow> uuid option" where
  "currentRoundId e = map_option ar_id (en_active e)"

definition engine_phase_of :: "engine \<Rightarrow> engine_phase" where
  "engine_phase_of e = (case en_active e of None \<Rightarrow> PhPending | Some a \<Rightarrow> ar_phase a)"

fun phase_string :: "engine_phase \<Rightarrow> string" where
  "phase_string PhPending = ''PENDING''"
| "phase_string PhBettingOpen = ''BETTING_OPEN''"
| "phase_string PhRolling = ''ROLLING''"
| "phase_string PhResult = ''RESULT''"
| "phase_string PhSettled = ''SETTLED''"

record round_snapshot =
  rs_roundId :: uuid
  rs_nonce :: int
  rs_roundNumber :: int
  rs_phase :: engine_phase
  rs_phaseDurationMs :: jsnum
  rs_phaseRemainingMs :: jsnum
  rs_serverSeedHash :: string
  rs_clientSeed :: string

definition currentRoundSnapshot :: "engine \<Rightarrow> msec \<Rightarrow> round_snapshot option" where
  "currentRoundSnapshot e now =
     (case en_active e of
        None \<Rightarrow> None
      | Some a \<Rightarrow>
          (let elapsed = now - ar_phaseStartedAt a;
               remaining = max 0 (jsub (ar_phaseDurationMs a) (of_int elapsed))
           in Some \<lparr>rs_roundId = ar_id a, rs_nonce = ar_nonce a, rs_roundNumber = ar_nonce a + 1,
                    rs_phase = ar_phase a, rs_phaseDurationMs = ar_phaseDurationMs a,
                    rs_phaseRemainingMs = remaining, rs_serverSeedHash = ar_serverSeedHash a,
                    rs_clientSeed = ar_clientSeed a\<rparr>))"

section \<open>Helpers\<close>

definition room :: "engine \<Rightarrow> string" where
  "room e = ''operator:'' @ ec_operatorId (en_cfg e) @ '':'' @ gp_gameCode (en_plugin e) @ '':'' @ ec_currency (en_cfg e)"

definition emit_to :: "string \<Rightarrow> string \<Rightarrow> (string \<times> json) list \<Rightarrow> 's world \<Rightarrow> 's world" where
  "emit_to rm ev payload w =
     w\<lparr>wd_out := wd_out w @ [\<lparr>em_room = rm, em_event = ev, em_payload = JObj payload\<rparr>]\<rparr>"

definition emit :: "string \<Rightarrow> (string \<times> json) list \<Rightarrow> 's world \<Rightarrow> 's world" where
  "emit ev payload w = emit_to (room (wd_engine w)) ev payload w"

definition emit_session :: "uuid \<Rightarrow> string \<Rightarrow> (string \<times> json) list \<Rightarrow> 's world \<Rightarrow> 's world" where
  "emit_session sid ev payload w = emit_to (''session:'' @ sid) ev payload w"

definition dispatch :: "string \<Rightarrow> (string \<times> json) list \<Rightarrow> 's world \<Rightarrow> 's world" where
  "dispatch ev payload w = w\<lparr>wd_events := wd_events w @ [(ev, JObj payload)]\<rparr>"

definition on_db :: "(db \<Rightarrow> db) \<Rightarrow> 's world \<Rightarrow> 's world" where
  "on_db f w = w\<lparr>wd_db := f (wd_db w)\<rparr>"

text \<open>The \<open>k\<close>th identifier drawn by the current handler, and drawing \<open>n\<close> of them.\<close>

definition uuid_at :: "'s env \<Rightarrow> 's world \<Rightarrow> nat \<Rightarrow> uuid" where
  "uuid_at env w k = ev_uuid env (wd_fresh w + k)"

definition draw :: "nat \<Rightarrow> 's world \<Rightarrow> 's world" where
  "draw n w = w\<lparr>wd_fresh := wd_fresh w + n\<rparr>"

definition maskPlayerRef :: "string \<Rightarrow> string" where
  "maskPlayerRef playerRef =
     (if length playerRef \<le> 4 then str_slice 0 1 playerRef @ ''***''
      else str_slice 0 3 playerRef @ ''***'' @ [last playerRef])"

definition pool_bets :: "db \<Rightarrow> uuid \<Rightarrow> bet_row list" where
  "pool_bets d roundId =
     take 50 (sort_key be_placedAt
       (filter (\<lambda>b. be_roundId b = roundId \<and> be_status b \<in> {BAccepted, BSettled, BFailed}) (db_bets d)))"

definition pool_player :: "bet_row \<Rightarrow> json" where
  "pool_player b = JObj
     [(''betId'', JStr (be_id b)), (''playerRef'', JStr (maskPlayerRef (be_playerRef b))),
      (''amountMicro'', JStr (show_int (be_amountMicro b))),
      (''cashoutMultiplier'', jopt JNum (be_cashoutMultiplier b)),
      (''winMicro'', jopt (\<lambda>m. JStr (show_int m)) (be_cashoutPayoutMicro b))]"

definition emitPoolUpdate :: "uuid \<Rightarrow> 's world \<Rightarrow> 's world" where
  "emitPoolUpdate roundId w =
     (let bets = pool_bets (wd_db w) roundId in
      emit ''pool_update''
        [(''roundId'', JStr roundId),
         (''acceptedCount'', jint (int (length bets))),
         (''cashedOutCount'', jint (int (length (filter (\<lambda>b. be_cashoutMultiplier b \<noteq> None) bets)))),
         (''totalStakeMicro'', JStr (show_int (sum_by be_amountMicro bets))),
         (''totalWinMicro'', JStr (show_int (sum_by (\<lambda>b. nullish (be_cashoutPayoutMicro b) 0) bets))),
         (''players'', JArr (map pool_player (drop (length bets - 12) bets)))] w)"

definition error_text :: "wallet_response \<Rightarrow> string" where
  "error_text res = nullish (ws_message res) (rs_string (ws_status res))"

definition balance_update :: "string \<Rightarrow> string \<Rightarrow> wallet_response \<Rightarrow> (string \<times> json) list" where
  "balance_update playerRef currency res =
     [(''playerRef'', JStr playerRef),
      (''balanceMicro'', jopt (\<lambda>m. JStr (show_int m)) (ws_balanceMicro res)),
      (''currency'', JStr currency)]"

section \<open>Placing a bet\<close>

record place_params =
  pp_sessionId :: uuid
  pp_playerRef :: string
  pp_operatorId :: uuid
  pp_currency :: string
  pp_amountMicro :: micro
  pp_selection :: bet_selection
  pp_autoplay :: "bool option"
  pp_turbo :: "bool option"

text \<open>A refusal carries the reason; \<open>PlaceThrew\<close> is an exception out of the handler.\<close>

datatype place_result = PlaceOk uuid | PlaceRefused string | PlaceThrew

fun breach_string :: "rg_breach \<Rightarrow> string" where
  "breach_string DailyLossExceeded = ''daily_loss_exceeded''"
| "breach_string DailyWagerExceeded = ''daily_wager_exceeded''"
| "breach_string SessionLossExceeded = ''session_loss_exceeded''"
| "breach_string SessionWagerExceeded = ''session_wager_exceeded''"
| "breach_string SessionTimeExceeded = ''session_time_exceeded''"
| "breach_string (JurisdictionBreach StakeAboveJurisdictionMax) = ''stake_above_jurisdiction_max''"
| "breach_string (JurisdictionBreach AutoplayNotPermitted) = ''autoplay_not_permitted''"
| "breach_string (JurisdictionBreach TurboNotPermitted) = ''turbo_not_permitted''"
| "breach_string (JurisdictionBreach CurrencyNotPermitted) = ''currency_not_permitted''"
| "breach_string (JurisdictionBreach SpinTooFast) = ''spin_too_fast''"
| "breach_string (JurisdictionBreach DemoNotAllowedWithoutKyc) = ''demo_not_allowed_without_kyc''"

text \<open>When the session last bet in another round; a live game does not look.\<close>

definition previous_bet_at :: "engine \<Rightarrow> db \<Rightarrow> uuid \<Rightarrow> uuid \<Rightarrow> msec option" where
  "previous_bet_at e d sessionId roundId =
     (if gp_liveCrash (en_plugin e) \<noteq> None then None
      else map_option be_placedAt (last_opt (sort_key be_placedAt
        (filter (\<lambda>b. be_sessionId b = sessionId \<and> be_roundId b \<noteq> roundId \<and>
                     be_status b \<in> {BAccepted, BSettled}) (db_bets d)))))"

text \<open>The guards, in order: \<open>Inl\<close> is the result of a refusal with what was emitted.\<close>

definition place_gate :: "msec \<Rightarrow> place_params \<Rightarrow> 's world \<Rightarrow> (place_result \<times> 's world) + active_round" where
  "place_gate now p w =
     (let e = wd_engine w; d = wd_db w;
          refuse = (\<lambda>payload reason. Inl (PlaceRefused reason,
             emit_session (pp_sessionId p) ''bet_rejected'' ((''reason'', JStr reason) # payload) w)) in
      case en_active e of
        None \<Rightarrow> Inl (PlaceRefused ''betting_closed'', w)
      | Some rnd \<Rightarrow>
          if ar_phase rnd \<noteq> PhBettingOpen then Inl (PlaceRefused ''betting_closed'', w)
          else if pp_operatorId p \<noteq> ec_operatorId (en_cfg e) \<or> pp_currency p \<noteq> ec_currency (en_cfg e)
          then Inl (PlaceRefused ''engine_mismatch'', w)
          else if pp_amountMicro p < ec_minBetMicro (en_cfg e) \<or> ec_maxBetMicro (en_cfg e) < pp_amountMicro p
          then refuse [] ''bet_out_of_range''
          else case find_session d (pp_sessionId p) of
            None \<Rightarrow> refuse [] ''session_not_found''
          | Some session \<Rightarrow>
              if se_terminatedAt session \<noteq> None
              then refuse [(''detail'', jopt JStr (se_terminationReason session))] ''session_terminated''
              else if se_expiresAt session \<le> now then refuse [] ''session_expired''
              else Inr rnd)"

definition place_context :: "msec \<Rightarrow> place_params \<Rightarrow> 's world \<Rightarrow> uuid \<Rightarrow> bet_context" where
  "place_context now p w roundId =
     \<lparr>bc_autoplay = pp_autoplay p, bc_turbo = pp_turbo p,
      bc_timeSincePreviousBetMs =
        map_option (\<lambda>t. now - t) (previous_bet_at (wd_engine w) (wd_db w) (pp_sessionId p) roundId),
      bc_playerKycVerified = None\<rparr>"

text \<open>What happens on a breached limit.\<close>

definition place_limited :: "msec \<Rightarrow> place_params \<Rightarrow> rg_breach \<Rightarrow> micro option \<Rightarrow> 's world \<Rightarrow> 's world" where
  "place_limited now p breach remaining w =
     (let reason = breach_string breach;
          rem = jopt (\<lambda>m. JStr (show_int m)) remaining;
          w1 = emit_session (pp_sessionId p) ''bet_rejected''
                 [(''reason'', JStr reason), (''remainingMicro'', rem)] w;
          w2 = dispatch ''session.rg_limit_tripped''
                 [(''sessionId'', JStr (pp_sessionId p)), (''playerRef'', JStr (pp_playerRef p)),
                  (''limitType'', JStr reason), (''remainingMicro'', rem),
                  (''stakeMicro'', JStr (show_int (pp_amountMicro p))),
                  (''attemptedAt'', JStr (toISOString now))] w1
      in if breach = SessionTimeExceeded
         then on_db (upd_session (pp_sessionId p)
                (\<lambda>s. s\<lparr>se_terminatedAt := Some now, se_terminationReason := Some ''rg_session_time_exceeded''\<rparr>)) w2
         else w2)"

definition new_bet :: "place_params \<Rightarrow> engine \<Rightarrow> uuid \<Rightarrow> uuid \<Rightarrow> uuid \<Rightarrow> msec \<Rightarrow> bet_row" where
  "new_bet p e betId roundId txUuid now =
     \<lparr>be_id = betId, be_operatorId = pp_operatorId p, be_sessionId = pp_sessionId p, be_roundId = roundId,
      be_playerRef = pp_playerRef p, be_selection = pp_selection p,
      be_selectionType = gp_gameCode (en_plugin e), be_amountMicro = pp_amountMicro p,
      be_commissionMicro = ec_commissionMicro (en_cfg e), be_currency = pp_currency p,
      be_status = BPending, be_wonAmountMicro = None, be_won = None, be_cashoutMultiplier = None,
      be_cashoutElapsedMs = None, be_cashoutMode = None, be_cashoutAt = None,
      be_cashoutPayoutMicro = None, be_betTransactionUuid = txUuid, be_winTransactionUuid = None,
      be_placedAt = now, be_settledAt = None\<rparr>"

text \<open>A bet whose debit is in flight: what the rest of the handler needs.\<close>

record pending_bet =
  pb_params :: place_params
  pb_bet :: bet_row
  pb_request :: bet_request

text \<open>Up to the wallet call.\<close>

definition placeBet_begin ::
    "'s env \<Rightarrow> msec \<Rightarrow> place_params \<Rightarrow> 's world \<Rightarrow> (place_result + pending_bet) \<times> 's world" where
  "placeBet_begin env now p w =
     (case place_gate now p w of
        Inl (r, w1) \<Rightarrow> (Inl r, w1)
      | Inr rnd \<Rightarrow>
          (case checkRGLimits (wd_db w) (the (find_session (wd_db w) (pp_sessionId p))) (pp_amountMicro p) now
                  (place_context now p w (ar_id rnd)) of
             Inl _ \<Rightarrow> (Inl PlaceThrew, w)
           | Inr (LimitBreach breach remaining) \<Rightarrow>
               (Inl (PlaceRefused (breach_string breach)), place_limited now p breach remaining w)
           | Inr LimitOk \<Rightarrow>
               (let txUuid = uuid_at env w 0; requestUuid = uuid_at env w 1; betId = uuid_at env w 2;
                    bet = new_bet p (wd_engine w) betId (ar_id rnd) txUuid now
                in (Inr \<lparr>pb_params = p, pb_bet = bet,
                        pb_request =
                          \<lparr>wq_requestUuid = requestUuid, wq_operatorId = pp_operatorId p,
                           wq_playerRef = pp_playerRef p, wq_currency = pp_currency p,
                           wq_gameCode = gp_gameCode (en_plugin (wd_engine w)),
                           wb_transactionUuid = txUuid, wb_amountMicro = pp_amountMicro p,
                           wb_roundId = ar_id rnd, wb_isFree = None,
                           wb_meta = Some (JObj [(''selection'', selection_json (pp_selection p)),
                             (''clientSeed'', JStr (ar_clientSeed rnd)), (''nonce'', jint (ar_nonce rnd))])\<rparr>\<rparr>,
                    on_db (add_bet bet) (draw 3 w)))))"

text \<open>After the wallet has answered.\<close>

definition placeBet_accept :: "msec \<Rightarrow> pending_bet \<Rightarrow> wallet_response \<Rightarrow> 's world \<Rightarrow> 's world" where
  "placeBet_accept now pb res w =
     (let p = pb_params pb; bet = pb_bet pb; roundId = be_roundId bet;
          w1 = on_db (upd_bet (be_id bet) (\<lambda>b. b\<lparr>be_status := BAccepted\<rparr>)) w;
          w2 = on_db (add_held \<lparr>he_operatorId = pp_operatorId p, he_betId = be_id bet, he_roundId = roundId,
                 he_state = HHeld, he_heldAt = now, he_resolvedAt = None, he_refundedAt = None,
                 he_resolutionReason = None\<rparr>) w1;
          w3 = on_db (upd_round roundId (\<lambda>r. r\<lparr>ro_totalBetsMicro := ro_totalBetsMicro r + pp_amountMicro p\<rparr>)) w2;
          w4 = emit_session (pp_sessionId p) ''balance_update'' (balance_update (pp_playerRef p) (pp_currency p) res) w3;
          w5 = emit ''bet_placed''
                 [(''roundId'', JStr roundId), (''betId'', JStr (be_id bet)),
                  (''playerRef'', JStr (maskPlayerRef (pp_playerRef p))),
                  (''selection'', selection_json (pp_selection p)),
                  (''amountMicro'', JStr (show_int (pp_amountMicro p)))] w4
      in emitPoolUpdate roundId w5)"

definition rollback_payload :: "'s env \<Rightarrow> 's world \<Rightarrow> bet_row \<Rightarrow> string \<Rightarrow> job_payload" where
  "rollback_payload env w b gameCode =
     \<lparr>jp_requestUuid = uuid_at env w 0, jp_transactionUuid = uuid_at env w 1,
      jp_referenceTransactionUuid = Some (be_betTransactionUuid b), jp_playerRef = be_playerRef b,
      jp_currency = be_currency b, jp_gameCode = gameCode, jp_amountMicro = None,
      jp_roundId = Some (be_roundId b)\<rparr>"

definition placeBet_uncertain :: "'s env \<Rightarrow> msec \<Rightarrow> pending_bet \<Rightarrow> wallet_response \<Rightarrow> 's world \<Rightarrow> 's world" where
  "placeBet_uncertain env now pb res w =
     (let p = pb_params pb; bet = pb_bet pb;
          w1 = on_db (upd_bet (be_id bet) (\<lambda>b. b\<lparr>be_status := BRejected\<rparr>)) w;
          w2 = draw 3 (on_db (add_job (new_job (uuid_at env w 2) (pp_operatorId p) EROLLBACK (be_id bet) (be_roundId bet)
                 (rollback_payload env w bet (gp_gameCode (en_plugin (wd_engine w)))) now
                 (Some (error_text res)))) w1)
      in emit_session (pp_sessionId p) ''bet_rejected''
           [(''reason'', JStr (if ws_status res = RsTIMEOUT then ''wallet_timeout'' else ''wallet_error''))] w2)"

definition placeBet_finish ::
    "'s env \<Rightarrow> msec \<Rightarrow> pending_bet \<Rightarrow> wallet_response \<Rightarrow> 's world \<Rightarrow> place_result \<times> 's world" where
  "placeBet_finish env now pb res w =
     (if isSuccessOrDuplicate (ws_status res)
      then (PlaceOk (be_id (pb_bet pb)), placeBet_accept now pb res w)
      else if isRejectStatus (ws_status res)
      then (PlaceRefused (rs_string (ws_status res)),
            emit_session (pp_sessionId (pb_params pb)) ''bet_rejected''
              [(''reason'', JStr (rs_string (ws_status res)))]
              (on_db (upd_bet (be_id (pb_bet pb)) (\<lambda>b. b\<lparr>be_status := BRejected\<rparr>)) w))
      else (PlaceRefused (rs_string (ws_status res)), placeBet_uncertain env now pb res w))"

definition placeBet :: "'s env \<Rightarrow> msec \<Rightarrow> place_params \<Rightarrow> 's world \<Rightarrow> place_result \<times> 's world" where
  "placeBet env now p w =
     (case placeBet_begin env now p w of
        (Inl r, w1) \<Rightarrow> (r, w1)
      | (Inr pb, w1) \<Rightarrow>
          (let (res, s) = ev_bet env (pb_request pb) (wd_wallet w1)
           in placeBet_finish env now pb res (w1\<lparr>wd_wallet := s\<rparr>)))"

section \<open>Live cash-outs\<close>

datatype cashout_mode = MANUAL | AUTO

definition mode_string :: "cashout_mode \<Rightarrow> string" where
  "mode_string m = (case m of MANUAL \<Rightarrow> ''MANUAL'' | AUTO \<Rightarrow> ''AUTO'')"

record cashout_params =
  cp_sessionId :: uuid
  cp_playerRef :: string
  cp_operatorId :: uuid
  cp_currency :: string
  cp_betId :: uuid
  cp_slotId :: "string option"
  cp_mode :: cashout_mode
  cp_forcedMultiplier :: "jsnum option"

datatype cashout_result =
    CashoutOk uuid jsnum micro bool
  | CashoutRefused string

text \<open>A cash-out whose credit is in flight.\<close>

record pending_cashout =
  pc_bet :: bet_row
  pc_mode :: cashout_mode
  pc_multiplier :: jsnum
  pc_elapsedMs :: msec
  pc_payoutMicro :: micro
  pc_slot :: "slot option"
  pc_request :: win_request

text \<open>The multiplier that is paid: the requested one, never above the flight's or the crash point's.\<close>

definition cashout_multiplier :: "jsnum option \<Rightarrow> jsnum \<Rightarrow> jsnum \<Rightarrow> jsnum" where
  "cashout_multiplier forced current crash = min (min (nullish forced current) current) crash"

text \<open>
  Everything up to the wallet call. \<open>Inl\<close> is a result without a call; a bet that has been
  cashed out before returns what it was paid.
\<close>

definition cashOutBet_begin ::
    "'s env \<Rightarrow> msec \<Rightarrow> cashout_params \<Rightarrow> 's world \<Rightarrow> (cashout_result + pending_cashout) \<times> 's world" where
  "cashOutBet_begin env now p w =
     (let e = wd_engine w; stop = (\<lambda>reason. (Inl (CashoutRefused reason), w)) in
      case (gp_liveCrash (en_plugin e), en_active e) of
        (Some live, Some active) \<Rightarrow>
          (case ar_outcome active of
             Some (CrashOutcome crash u) \<Rightarrow>
               if ar_phase active \<noteq> PhRolling then stop ''cashout_unavailable''
               else if cp_operatorId p \<noteq> ec_operatorId (en_cfg e) \<or> cp_currency p \<noteq> ec_currency (en_cfg e)
               then stop ''engine_mismatch''
               else (case find_bet (wd_db w) (cp_betId p) of
                 None \<Rightarrow> stop ''bet_not_found''
               | Some bet \<Rightarrow>
                   if be_sessionId bet \<noteq> cp_sessionId p \<or> be_roundId bet \<noteq> ar_id active
                   then stop ''bet_not_found''
                   else (case (be_cashoutMultiplier bet, be_cashoutPayoutMicro bet) of
                     (Some m, Some pay) \<Rightarrow> (Inl (CashoutOk (be_id bet) m pay (be_status bet = BFailed)), w)
                   | _ \<Rightarrow>
                     if be_status bet \<noteq> BAccepted then stop ''bet_not_cashoutable''
                     else
                       (let slot = lv_slotId live (be_selection bet);
                            elapsed = now - ar_phaseStartedAt active;
                            crashAt = nullish (ar_crashAtMs active) (lv_elapsedMsForMultiplier live crash (en_gameConfig e))
                        in if truthy (cp_slotId p) \<and> slot \<noteq> None \<and> cp_slotId p \<noteq> map_option slot_string slot
                           then stop ''slot_mismatch''
                           else if crashAt \<le> of_int elapsed \<or> crash \<le> 1
                           then (Inl (CashoutRefused ''too_late''),
                                 emit_session (cp_sessionId p) ''cashout_rejected''
                                   [(''betId'', JStr (be_id bet)),
                                    (''slotId'', jopt (\<lambda>s. JStr (slot_string s)) slot),
                                    (''reason'', JStr ''too_late'')] w)
                           else
                             (let mult = cashout_multiplier (cp_forcedMultiplier p)
                                     (lv_multiplierAtElapsedMs live (of_int elapsed) (en_gameConfig e)) crash;
                                  res = lv_settleCashout live (be_selection bet) (be_amountMicro bet) mult
                                          (be_commissionMicro bet)
                              in if \<not> sr_won res then stop ''cashout_rejected''
                                 else
                                   (Inr \<lparr>pc_bet = bet, pc_mode = cp_mode p, pc_multiplier = mult,
                                          pc_elapsedMs = elapsed, pc_payoutMicro = sr_payoutMicro res,
                                          pc_slot = slot,
                                          pc_request =
                                            \<lparr>wq_requestUuid = uuid_at env w 1, wq_operatorId = be_operatorId bet,
                                             wq_playerRef = be_playerRef bet, wq_currency = be_currency bet,
                                             wq_gameCode = gp_gameCode (en_plugin e),
                                             ww_transactionUuid = uuid_at env w 0,
                                             ww_referenceTransactionUuid = be_betTransactionUuid bet,
                                             ww_amountMicro = sr_payoutMicro res, ww_roundId = be_roundId bet,
                                             ww_meta = Some (JObj (obj_spread
                                               [(''selection'', selection_json (be_selection bet)),
                                                (''cashoutMode'', JStr (mode_string (cp_mode p))),
                                                (''cashoutMultiplier'', JNum mult), (''elapsedMs'', jint elapsed),
                                                (''crashMultiplier'', JNum crash)]
                                               (case sr_winMeta res of None \<Rightarrow> [] | Some m \<Rightarrow> win_meta_fields m)))\<rparr>\<rparr>,
                                    draw 2 w)))))
           | _ \<Rightarrow> stop ''cashout_unavailable'')
      | _ \<Rightarrow> stop ''cashout_unavailable'')"

definition cashout_patch :: "pending_cashout \<Rightarrow> msec \<Rightarrow> bet_row \<Rightarrow> bet_row" where
  "cashout_patch pc now b =
     b\<lparr>be_won := Some True, be_wonAmountMicro := Some (pc_payoutMicro pc),
       be_winTransactionUuid := Some (ww_transactionUuid (pc_request pc)),
       be_cashoutMultiplier := Some (pc_multiplier pc), be_cashoutElapsedMs := Some (pc_elapsedMs pc),
       be_cashoutMode := Some (mode_string (pc_mode pc)), be_cashoutAt := Some now,
       be_cashoutPayoutMicro := Some (pc_payoutMicro pc)\<rparr>"

definition cashOutBet_finish ::
    "'s env \<Rightarrow> msec \<Rightarrow> pending_cashout \<Rightarrow> wallet_response \<Rightarrow> 's world \<Rightarrow> cashout_result \<times> 's world" where
  "cashOutBet_finish env now pc res w =
     (let bet = pc_bet pc; paid = isSuccessOrDuplicate (ws_status res);
          w1 = (if paid
                then emit_session (be_sessionId bet) ''balance_update''
                       (balance_update (be_playerRef bet) (be_currency bet) res)
                       (on_db (\<lambda>d. resolve_held (be_id bet) now (mode_string (pc_mode pc) @ ''_CASHOUT'')
                          (upd_bet (be_id bet) (\<lambda>b. (cashout_patch pc now b)\<lparr>be_status := BSettled, be_settledAt := Some now\<rparr>) d)) w)
                else draw 1 (on_db (\<lambda>d. add_job (new_job (uuid_at env w 0) (be_operatorId bet) EWIN (be_id bet)
                          (be_roundId bet) (win_payload (pc_request pc)) now (Some (error_text res)))
                        (upd_bet (be_id bet) (\<lambda>b. (cashout_patch pc now b)\<lparr>be_status := BFailed\<rparr>) d)) w));
          payload = [(''roundId'', JStr (be_roundId bet)), (''betId'', JStr (be_id bet)),
                     (''slotId'', jopt (\<lambda>s. JStr (slot_string s)) (pc_slot pc)),
                     (''playerRef'', JStr (maskPlayerRef (be_playerRef bet))),
                     (''cashoutMode'', JStr (mode_string (pc_mode pc))),
                     (''cashoutMultiplier'', JNum (pc_multiplier pc)),
                     (''payoutMicro'', JStr (show_int (pc_payoutMicro pc))),
                     (''elapsedMs'', jint (pc_elapsedMs pc))];
          w2 = emit ''player_cashout'' payload (emit_session (be_sessionId bet) ''cashout_accepted'' payload w1)
      in (CashoutOk (be_id bet) (pc_multiplier pc) (pc_payoutMicro pc) (\<not> paid),
          emitPoolUpdate (be_roundId bet) w2))"

definition cashOutBet :: "'s env \<Rightarrow> msec \<Rightarrow> cashout_params \<Rightarrow> 's world \<Rightarrow> cashout_result \<times> 's world" where
  "cashOutBet env now p w =
     (case cashOutBet_begin env now p w of
        (Inl r, w1) \<Rightarrow> (r, w1)
      | (Inr pc, w1) \<Rightarrow>
          (let (res, s) = ev_win env (pc_request pc) (wd_wallet w1)
           in cashOutBet_finish env now pc res (w1\<lparr>wd_wallet := s\<rparr>)))"

text \<open>The socket operation: the mode is manual and no multiplier is forced.\<close>

definition cashOut :: "'s env \<Rightarrow> msec \<Rightarrow> cashout_params \<Rightarrow> 's world \<Rightarrow> cashout_result \<times> 's world" where
  "cashOut env now p w =
     (if gp_liveCrash (en_plugin (wd_engine w)) = None \<or> engine_phase_of (wd_engine w) \<noteq> PhRolling
      then (CashoutRefused ''cashout_unavailable'', w)
      else cashOutBet env now (p\<lparr>cp_mode := MANUAL, cp_forcedMultiplier := None\<rparr>) w)"

definition auto_params :: "live_crash \<Rightarrow> bet_row \<Rightarrow> jsnum \<Rightarrow> cashout_params" where
  "auto_params live b target =
     \<lparr>cp_sessionId = be_sessionId b, cp_playerRef = be_playerRef b, cp_operatorId = be_operatorId b,
      cp_currency = be_currency b, cp_betId = be_id b, cp_slotId = map_option slot_string (lv_slotId live (be_selection b)),
      cp_mode = AUTO, cp_forcedMultiplier = Some target\<rparr>"

definition auto_cashout_step :: "'s env \<Rightarrow> msec \<Rightarrow> live_crash \<Rightarrow> jsnum \<Rightarrow> bet_row \<Rightarrow> 's world \<Rightarrow> 's world" where
  "auto_cashout_step env now live currentMultiplier b w =
     (case lv_autoCashoutMultiplier live (be_selection b) of
        None \<Rightarrow> w
      | Some target \<Rightarrow>
          if currentMultiplier < target then w
          else snd (cashOutBet env now (auto_params live b target) w))"

definition processAutoCashouts :: "'s env \<Rightarrow> msec \<Rightarrow> jsnum \<Rightarrow> 's world \<Rightarrow> 's world" where
  "processAutoCashouts env now currentMultiplier w =
     (case (gp_liveCrash (en_plugin (wd_engine w)), en_active (wd_engine w)) of
        (Some live, Some active) \<Rightarrow>
          if ar_phase active \<noteq> PhRolling then w
          else fold (auto_cashout_step env now live currentMultiplier)
                 (sort_key be_placedAt (filter (\<lambda>b. be_roundId b = ar_id active \<and> be_status b = BAccepted \<and>
                     be_cashoutAt b = None) (db_bets (wd_db w)))) w
      | _ \<Rightarrow> w)"

section \<open>Settlement\<close>

definition mark_lost :: "msec \<Rightarrow> bet_row \<Rightarrow> bet_row" where
  "mark_lost now b = b\<lparr>be_status := BSettled, be_won := Some False, be_wonAmountMicro := Some 0,
     be_settledAt := Some now\<rparr>"

definition mark_paid :: "msec \<Rightarrow> micro \<Rightarrow> uuid \<Rightarrow> bet_row \<Rightarrow> bet_row" where
  "mark_paid now payout winTx b = b\<lparr>be_status := BSettled, be_won := Some True,
     be_wonAmountMicro := Some payout, be_winTransactionUuid := Some winTx, be_settledAt := Some now\<rparr>"

definition mark_failed :: "uuid \<Rightarrow> bet_row \<Rightarrow> bet_row" where
  "mark_failed winTx b = b\<lparr>be_status := BFailed, be_winTransactionUuid := Some winTx\<rparr>"

definition settlement_of :: "engine \<Rightarrow> game_outcome \<Rightarrow> bet_row \<Rightarrow> settlement_result" where
  "settlement_of e out b = gp_settleBet (en_plugin e) (be_selection b) (be_amountMicro b) out
     (en_gameConfig e) (ec_commissionMicro (en_cfg e))"

definition win_request_of ::
    "'s env \<Rightarrow> 's world \<Rightarrow> round_row \<Rightarrow> bet_row \<Rightarrow> settlement_result \<Rightarrow> win_request" where
  "win_request_of env w r b res =
     \<lparr>wq_requestUuid = uuid_at env w 1, wq_operatorId = be_operatorId b, wq_playerRef = be_playerRef b,
      wq_currency = be_currency b, wq_gameCode = ro_gameCode r, ww_transactionUuid = uuid_at env w 0,
      ww_referenceTransactionUuid = be_betTransactionUuid b, ww_amountMicro = sr_payoutMicro res,
      ww_roundId = ro_id r,
      ww_meta = Some (JObj (obj_spread [(''selection'', selection_json (be_selection b)),
          (''outcomeType'', jopt JStr (ro_outcomeType r))]
        (case sr_winMeta res of None \<Rightarrow> [] | Some m \<Rightarrow> win_meta_fields m)))\<rparr>"

text \<open>One bet of the loop; the accumulator is the total paid out.\<close>

definition settle_one ::
    "'s env \<Rightarrow> msec \<Rightarrow> round_row \<Rightarrow> game_outcome \<Rightarrow> bet_row \<Rightarrow> micro \<times> 's world \<Rightarrow> micro \<times> 's world" where
  "settle_one env now r out b x =
     (let (totalPayout, w) = x; res = settlement_of (wd_engine w) out b in
      if \<not> sr_won res
      then (totalPayout, on_db (\<lambda>d. resolve_held (be_id b) now ''LOSS'' (upd_bet (be_id b) (mark_lost now) d)) w)
      else
        (let payout = sr_payoutMicro res; total1 = totalPayout + payout in
         case find_session (wd_db w) (be_sessionId b) of
           None \<Rightarrow> (total1, w)
         | Some session \<Rightarrow>
             (let q = win_request_of env w r b res;
                  (resp, s) = ev_win env q (wd_wallet w);
                  w1 = (draw 2 w)\<lparr>wd_wallet := s\<rparr>
              in if isSuccessOrDuplicate (ws_status resp)
                 then (total1,
                       emit ''balance_update'' (balance_update (be_playerRef b) (be_currency b) resp)
                         (on_db (\<lambda>d. resolve_held (be_id b) now ''WIN''
                            (upd_bet (be_id b) (mark_paid now payout (ww_transactionUuid q)) d)) w1))
                 else (total1,
                       draw 1 (on_db (\<lambda>d. add_job (new_job (uuid_at env w 2) (be_operatorId b) EWIN (be_id b) (ro_id r)
                            (win_payload q) now (Some (error_text resp)))
                          (upd_bet (be_id b) (mark_failed (ww_transactionUuid q)) d)) w1)))))"

definition accepted_bets :: "db \<Rightarrow> uuid \<Rightarrow> bet_row list" where
  "accepted_bets d roundId =
     sort_key be_placedAt (filter (\<lambda>b. be_roundId b = roundId \<and> be_status b = BAccepted) (db_bets d))"

definition precashed_total :: "db \<Rightarrow> uuid \<Rightarrow> micro" where
  "precashed_total d roundId =
     sum_by (\<lambda>b. nullish (be_cashoutPayoutMicro b) 0)
       (filter (\<lambda>b. be_roundId b = roundId \<and> be_cashoutPayoutMicro b \<noteq> None) (db_bets d))"

definition set_phase :: "engine_phase \<Rightarrow> 's world \<Rightarrow> 's world" where
  "set_phase ph w = w\<lparr>wd_engine := (wd_engine w)
     \<lparr>en_active := map_option (\<lambda>a. a\<lparr>ar_phase := ph\<rparr>) (en_active (wd_engine w))\<rparr>\<rparr>"

definition close_round :: "msec \<Rightarrow> micro \<Rightarrow> round_row \<Rightarrow> round_row" where
  "close_round now totalPayout r = r\<lparr>ro_state := RSettled, ro_settled := True, ro_settledAt := Some now,
     ro_totalPayoutsMicro := totalPayout\<rparr>"

definition settle :: "'s env \<Rightarrow> msec \<Rightarrow> 's world \<Rightarrow> 's world" where
  "settle env now w =
     (case en_active (wd_engine w) of
        None \<Rightarrow> w
      | Some active \<Rightarrow>
          (case find_round (wd_db w) (ar_id active) of
             None \<Rightarrow> w
           | Some r \<Rightarrow>
               (case (ro_outcomeData r, ro_outcomeType r) of
                  (Some out, Some ty) \<Rightarrow>
                    if ty = [] then w
                    else
                      (let (totalPayout, w1) = fold (settle_one env now r out) (accepted_bets (wd_db w) (ro_id r))
                              (precashed_total (wd_db w) (ro_id r), w);
                           w2 = on_db (upd_round (ro_id r) (close_round now totalPayout)) w1;
                           w3 = emitPoolUpdate (ro_id r) (set_phase PhSettled w2)
                       in dispatch ''round.settled''
                            [(''roundId'', JStr (ro_id r)), (''sessionId'', JStr (ro_sessionId r)),
                             (''gameCode'', JStr (ro_gameCode r)), (''currency'', JStr (ro_currency r)),
                             (''outcomeType'', JStr ty), (''outcome'', outcome_json out),
                             (''totalBetsMicro'', JStr (show_int (ro_totalBetsMicro r))),
                             (''totalPayoutsMicro'', JStr (show_int totalPayout)),
                             (''settledAt'', JStr (toISOString now)),
                             (''rngVersion'', JStr (ro_rngVersion r))] w3)
                | _ \<Rightarrow> w)))"

section \<open>Opening a round\<close>

definition engine_player :: "engine \<Rightarrow> string" where
  "engine_player e = ''__engine__:'' @ gp_gameCode (en_plugin e) @ '':'' @ ec_currency (en_cfg e)"

text \<open>
  The engine's own session: the first live row of its player, if it has not expired, else
  a new one with fresh seeds, valid for a year.
\<close>

definition getOrCreateEngineSession :: "'s env \<Rightarrow> msec \<Rightarrow> 's world \<Rightarrow> session_row \<times> 's world" where
  "getOrCreateEngineSession env now w =
     (let e = wd_engine w;
          existing = find (\<lambda>s. se_operatorId s = ec_operatorId (en_cfg e) \<and> se_playerRef s = engine_player e \<and>
                               se_terminatedAt s = None) (db_sessions (wd_db w));
          seeds = generateSeedPair (ev_sha256 env) (ev_random env (wd_fresh w));
          fresh = \<lparr>se_id = uuid_at env w 2, se_operatorId = ec_operatorId (en_cfg e),
                   se_playerRef = engine_player e, se_gameCode = gp_gameCode (en_plugin e),
                   se_currency = ec_currency (en_cfg e), se_lang = ''en'', se_jurisdiction = ''INTL'',
                   se_mode = REAL, se_rgLimits = JNull, se_returnUrl = None,
                   se_serverSeed = sp_serverSeed seeds, se_serverSeedHash = sp_serverSeedHash seeds,
                   se_clientSeed = generateClientSeed (ev_random env (wd_fresh w + 1)), se_nonce = 0,
                   se_createdAt = now, se_expiresAt = now + 365 * 24 * 3600 * 1000,
                   se_terminatedAt = None, se_terminationReason = None\<rparr>;
          create = (fresh, draw 3 (on_db (\<lambda>d. d\<lparr>db_sessions := db_sessions d @ [fresh]\<rparr>) w))
      in case existing of
           Some s \<Rightarrow> if now < se_expiresAt s then (s, w) else create
         | None \<Rightarrow> create)"

text \<open>
  A new round takes seeds and nonce from the session, is chained to the last hashed round
  of the operator, and the session's nonce moves on.
\<close>

definition new_round :: "'s env \<Rightarrow> msec \<Rightarrow> int \<Rightarrow> engine \<Rightarrow> session_row \<Rightarrow> uuid \<Rightarrow> round_row" where
  "new_round env now monoNs e s roundId =
     \<lparr>ro_id = roundId, ro_operatorId = ec_operatorId (en_cfg e), ro_sessionId = se_id s,
      ro_gameCode = gp_gameCode (en_plugin e), ro_currency = ec_currency (en_cfg e), ro_nonce = se_nonce s,
      ro_state = RBettingOpen, ro_outcomeType = None, ro_outcomeData = None,
      ro_gameConfigVersion = Some (ec_configVersion (en_cfg e)),
      ro_serverSeed = se_serverSeed s, ro_serverSeedHash = se_serverSeedHash s, ro_clientSeed = se_clientSeed s,
      ro_totalBetsMicro = 0, ro_totalPayoutsMicro = 0,
      ro_startedAt = Some now, ro_rolledAt = None, ro_settledAt = None, ro_voidedAt = None, ro_settled = False,
      ro_rngVersion = gp_rngVersion (en_plugin e), ro_buildHash = ev_buildHash env,
      ro_startedAtMonoNs = Some monoNs, ro_prevRowHash = None, ro_rowHash = None\<rparr>"

definition createRound :: "'s env \<Rightarrow> msec \<Rightarrow> int \<Rightarrow> 's world \<Rightarrow> round_row \<times> 's world" where
  "createRound env now monoNs w =
     (let (s, w1) = getOrCreateEngineSession env now w;
          r = new_round env now monoNs (wd_engine w1) s (uuid_at env w1 0);
          w2 = draw 1 (on_db (\<lambda>d. d\<lparr>db_rounds := db_rounds d @ [r]\<rparr>) w1);
          prev = latestRoundTip (db_rounds (wd_db w2)) (ec_operatorId (en_cfg (wd_engine w2)));
          hash = round_hash (ev_sha256 env) (ev_numstr env) prev r;
          w3 = on_db (upd_round (ro_id r) (\<lambda>x. x\<lparr>ro_prevRowHash := prev, ro_rowHash := Some hash\<rparr>)) w2;
          w4 = on_db (upd_session (se_id s) (\<lambda>x. x\<lparr>se_nonce := se_nonce x + 1\<rparr>)) w3
      in (r, w4))"

definition set_active :: "active_round option \<Rightarrow> 's world \<Rightarrow> 's world" where
  "set_active a w = w\<lparr>wd_engine := (wd_engine w)\<lparr>en_active := a\<rparr>\<rparr>"

definition openBetting :: "'s env \<Rightarrow> msec \<Rightarrow> int \<Rightarrow> 's world \<Rightarrow> 's world" where
  "openBetting env now monoNs w =
     (let (r, w1) = createRound env now monoNs w;
          window = ec_bettingWindowMs (en_cfg (wd_engine w1));
          w2 = set_active (Some \<lparr>ar_id = ro_id r, ar_nonce = ro_nonce r, ar_serverSeed = ro_serverSeed r,
                 ar_serverSeedHash = ro_serverSeedHash r, ar_clientSeed = ro_clientSeed r,
                 ar_phase = PhBettingOpen, ar_phaseStartedAt = now, ar_phaseDurationMs = of_int window,
                 ar_outcome = None, ar_crashAtMs = None\<rparr>) w1
      in emit ''round_state''
           [(''roundId'', JStr (ro_id r)), (''nonce'', jint (ro_nonce r)), (''roundNumber'', jint (ro_nonce r + 1)),
            (''phase'', JStr ''BETTING_OPEN''), (''phaseDurationMs'', jint window),
            (''serverSeedHash'', JStr (ro_serverSeedHash r)), (''clientSeed'', JStr (ro_clientSeed r))] w2)"

section \<open>Rolling\<close>

definition round_context :: "active_round \<Rightarrow> rng_context" where
  "round_context a = \<lparr>rc_serverSeed = ar_serverSeed a, rc_clientSeed = ar_clientSeed a,
     rc_nonce = of_int (ar_nonce a)\<rparr>"

definition round_header :: "active_round \<Rightarrow> (string \<times> json) list" where
  "round_header a = [(''roundId'', JStr (ar_id a)), (''nonce'', jint (ar_nonce a)),
     (''roundNumber'', jint (ar_nonce a + 1))]"

definition result_payload :: "engine \<Rightarrow> active_round \<Rightarrow> game_outcome \<Rightarrow> (string \<times> json) list" where
  "result_payload e a out =
     (let wire = gp_outcomeForWire (en_plugin e) out
      in round_header a @ [(''outcomeType'', JStr (wo_outcomeType wire)), (''outcome'', outcome_json (wo_outcome wire))])"

text \<open>Betting closes; the outcome is computed after the rolling window (\<open>roll_reveal\<close>).\<close>

definition roll_close :: "msec \<Rightarrow> 's world \<Rightarrow> 's world" where
  "roll_close now w =
     (case en_active (wd_engine w) of
        None \<Rightarrow> w
      | Some a \<Rightarrow>
          (let window = ec_rollingWindowMs (en_cfg (wd_engine w));
               w1 = set_active (Some (a\<lparr>ar_phase := PhRolling, ar_phaseStartedAt := now,
                      ar_phaseDurationMs := of_int window\<rparr>)) w;
               w2 = on_db (upd_round (ar_id a) (\<lambda>r. r\<lparr>ro_state := RRolling\<rparr>)) w1
           in emit ''round_state'' (round_header a @ [(''phase'', JStr ''ROLLING''), (''phaseDurationMs'', jint window)]) w2))"

text \<open>\<open>Inl\<close> is the exception of the plugin, which the main loop logs.\<close>

definition roll_reveal :: "msec \<Rightarrow> 's world \<Rightarrow> game_error + 's world" where
  "roll_reveal now w =
     (case en_active (wd_engine w) of
        None \<Rightarrow> Inr w
      | Some a \<Rightarrow>
          (case gp_computeOutcome (en_plugin (wd_engine w)) (round_context a) (en_gameConfig (wd_engine w)) of
             Inl err \<Rightarrow> Inl err
           | Inr out \<Rightarrow>
               (let w1 = on_db (upd_round (ar_id a) (\<lambda>r. r\<lparr>ro_state := RResult, ro_outcomeType := Some (outcome_type out),
                      ro_outcomeData := Some out, ro_rolledAt := Some now\<rparr>)) w;
                    w2 = set_active (Some (a\<lparr>ar_phase := PhResult, ar_phaseStartedAt := now\<rparr>)) w1
                in Inr (emit ''round_result'' (result_payload (wd_engine w2) a out) w2))))"

datatype live_error = PluginError game_error | NotACrash string

text \<open>A live round: the outcome is fixed and stored when the flight starts.\<close>

definition live_start :: "msec \<Rightarrow> 's world \<Rightarrow> live_error + 's world" where
  "live_start now w =
     (case (gp_liveCrash (en_plugin (wd_engine w)), en_active (wd_engine w)) of
        (Some live, Some a) \<Rightarrow>
          (case gp_computeOutcome (en_plugin (wd_engine w)) (round_context a) (en_gameConfig (wd_engine w)) of
             Inl err \<Rightarrow> Inl (PluginError err)
           | Inr (CrashOutcome crash u) \<Rightarrow>
               (let crashAtMs = lv_elapsedMsForMultiplier live crash (en_gameConfig (wd_engine w));
                    w1 = set_active (Some (a\<lparr>ar_phase := PhRolling, ar_phaseStartedAt := now,
                           ar_phaseDurationMs := crashAtMs, ar_outcome := Some (CrashOutcome crash u),
                           ar_crashAtMs := Some crashAtMs\<rparr>)) w;
                    w2 = on_db (upd_round (ar_id a) (\<lambda>r. r\<lparr>ro_state := RRolling, ro_outcomeType := Some ''CRASH'',
                           ro_outcomeData := Some (CrashOutcome crash u)\<rparr>)) w1
                in Inr (emit ''round_state'' (round_header a @ [(''phase'', JStr ''ROLLING''),
                     (''phaseDurationMs'', JNum crashAtMs), (''crashAtMs'', JNum crashAtMs)]) w2))
           | Inr out \<Rightarrow> Inl (NotACrash (outcome_type out)))
      | _ \<Rightarrow> Inr w)"

text \<open>
  One turn of the flight loop at a reading of the clock: \<open>None\<close> when the loop ends, else the
  time of the last tick and the world after the tick and the automatic cash-outs.
\<close>

definition live_tick :: "'s env \<Rightarrow> msec \<Rightarrow> msec \<Rightarrow> 's world \<Rightarrow> (msec \<times> 's world) option" where
  "live_tick env now lastTickAt w =
     (case (gp_liveCrash (en_plugin (wd_engine w)), en_active (wd_engine w)) of
        (Some live, Some a) \<Rightarrow>
          if \<not> en_running (wd_engine w) \<or> ar_phase a \<noteq> PhRolling then None
          else
            (let elapsed = now - ar_phaseStartedAt a in
             if nullish (ar_crashAtMs a) 0 \<le> of_int elapsed then None
             else
               (let multiplier = lv_multiplierAtElapsedMs live (of_int elapsed) (en_gameConfig (wd_engine w));
                    tick = 100 \<le> elapsed - lastTickAt;
                    w1 = (if tick then emit ''multiplier_tick''
                            [(''roundId'', JStr (ar_id a)), (''multiplier'', JNum multiplier),
                             (''elapsedMs'', jint elapsed)] w else w)
                in Some (if tick then elapsed else lastTickAt, processAutoCashouts env now multiplier w1)))
      | _ \<Rightarrow> None)"

text \<open>The loop, driven by a list of clock readings (one per turn).\<close>

fun live_flight :: "'s env \<Rightarrow> msec list \<Rightarrow> msec \<Rightarrow> 's world \<Rightarrow> 's world" where
  "live_flight env [] lastTickAt w = w"
| "live_flight env (t # ts) lastTickAt w =
     (case live_tick env t lastTickAt w of None \<Rightarrow> w | Some (l, w1) \<Rightarrow> live_flight env ts l w1)"

definition live_reveal :: "msec \<Rightarrow> 's world \<Rightarrow> 's world" where
  "live_reveal now w =
     (case en_active (wd_engine w) of
        None \<Rightarrow> w
      | Some a \<Rightarrow>
          (let w1 = set_active (Some (a\<lparr>ar_phase := PhResult, ar_phaseStartedAt := now\<rparr>)) w;
               w2 = on_db (upd_round (ar_id a) (\<lambda>r. r\<lparr>ro_state := RResult, ro_rolledAt := Some now\<rparr>)) w1
           in case ar_outcome a of
                None \<Rightarrow> w2
              | Some out \<Rightarrow> emit ''round_result''
                  (result_payload (wd_engine w2) a out @ [(''crashAtMs'', jopt JNum (ar_crashAtMs a))]) w2))"

section \<open>The main loop\<close>

text \<open>
  The clock readings of one turn of the loop. The flag of \<open>rollAndReveal\<close> is false when the
  plugin threw; the world is then what had been done up to the exception, which the loop
  catches and logs, and settlement is skipped.
\<close>

record turn_clock =
  tc_open :: msec
  tc_openMono :: int
  tc_roll :: msec
  tc_flight :: "msec list"
  tc_reveal :: msec
  tc_settle :: msec

definition rollAndReveal :: "'s env \<Rightarrow> turn_clock \<Rightarrow> 's world \<Rightarrow> bool \<times> 's world" where
  "rollAndReveal env c w =
     (if gp_liveCrash (en_plugin (wd_engine w)) \<noteq> None
      then (case live_start (tc_roll c) w of
              Inl e \<Rightarrow> (False, w)
            | Inr w1 \<Rightarrow> (True, live_reveal (tc_reveal c) (live_flight env (tc_flight c) 0 w1)))
      else (let w1 = roll_close (tc_roll c) w in
            case roll_reveal (tc_reveal c) w1 of
              Inl e \<Rightarrow> (False, w1)
            | Inr w2 \<Rightarrow> (True, w2)))"

definition loop_turn :: "'s env \<Rightarrow> turn_clock \<Rightarrow> 's world \<Rightarrow> 's world" where
  "loop_turn env c w =
     (let (ok, w1) = rollAndReveal env c (openBetting env (tc_open c) (tc_openMono c) w)
      in if ok then settle env (tc_settle c) w1 else w1)"

text \<open>The loop runs while the engine is running; here, for the turns of a list.\<close>

fun runLoop :: "'s env \<Rightarrow> turn_clock list \<Rightarrow> 's world \<Rightarrow> 's world" where
  "runLoop env [] w = w"
| "runLoop env (c # cs) w = (if en_running (wd_engine w) then runLoop env cs (loop_turn env c w) else w)"

section \<open>Resuming after a restart\<close>

definition resume_win ::
    "'s env \<Rightarrow> msec \<Rightarrow> round_row \<Rightarrow> bet_row \<Rightarrow> micro \<Rightarrow> 's world \<Rightarrow> 's world" where
  "resume_win env now r b payout w =
     (let fresh = be_winTransactionUuid b = None;
          winTx = nullish (be_winTransactionUuid b) (uuid_at env w 0);
          k = (if fresh then 1 else 0);
          payload = \<lparr>jp_requestUuid = uuid_at env w k, jp_transactionUuid = winTx,
             jp_referenceTransactionUuid = Some (be_betTransactionUuid b), jp_playerRef = be_playerRef b,
             jp_currency = be_currency b, jp_gameCode = ro_gameCode r,
             jp_amountMicro = Some (show_int payout), jp_roundId = Some (ro_id r)\<rparr>
      in draw (k + 2) (on_db (\<lambda>d. upd_bet (be_id b) (mark_failed winTx)
           (add_job (new_job (uuid_at env w (k + 1)) (be_operatorId b) EWIN (be_id b) (ro_id r) payload now
              (Some ''resumed_from_unsettled_round'')) d)) w))"

definition resume_one ::
    "'s env \<Rightarrow> msec \<Rightarrow> round_row \<Rightarrow> game_outcome \<Rightarrow> bet_row \<Rightarrow> micro \<times> 's world \<Rightarrow> micro \<times> 's world" where
  "resume_one env now r out b x =
     (let (totalPayout, w) = x in
      case be_cashoutPayoutMicro b of
        Some pay \<Rightarrow> (totalPayout + pay, w)
      | None \<Rightarrow>
          (let res = settlement_of (wd_engine w) out b in
           if \<not> sr_won res
           then (totalPayout, on_db (\<lambda>d. resolve_held (be_id b) now ''LOSS_ON_RESUME'' (upd_bet (be_id b) (mark_lost now) d)) w)
           else (totalPayout + sr_payoutMicro res, resume_win env now r b (sr_payoutMicro res) w)))"

definition unresolved_bets :: "db \<Rightarrow> uuid \<Rightarrow> bet_row list" where
  "unresolved_bets d roundId =
     filter (\<lambda>b. be_roundId b = roundId \<and> be_status b \<in> {BAccepted, BFailed}) (db_bets d)"

definition resume_known :: "'s env \<Rightarrow> msec \<Rightarrow> round_row \<Rightarrow> game_outcome \<Rightarrow> 's world \<Rightarrow> 's world" where
  "resume_known env now r out w =
     (let (totalPayout, w1) = fold (resume_one env now r out) (unresolved_bets (wd_db w) (ro_id r)) (0, w)
      in on_db (upd_round (ro_id r) (close_round now totalPayout)) w1)"

definition void_one :: "'s env \<Rightarrow> msec \<Rightarrow> round_row \<Rightarrow> bet_row \<Rightarrow> 's world \<Rightarrow> 's world" where
  "void_one env now r b w =
     draw 3 (on_db (\<lambda>d. add_job (new_job (uuid_at env w 2) (be_operatorId b) EROLLBACK (be_id b) (ro_id r)
         (rollback_payload env w b (ro_gameCode r)) now None)
       (refund_held (be_id b) now ''ROUND_VOIDED'' (upd_bet (be_id b) (\<lambda>b. b\<lparr>be_status := BVoided\<rparr>) d))) w)"

definition resume_void :: "'s env \<Rightarrow> msec \<Rightarrow> round_row \<Rightarrow> 's world \<Rightarrow> 's world" where
  "resume_void env now r w =
     (let w1 = on_db (upd_round (ro_id r) (\<lambda>x. x\<lparr>ro_state := RVoided, ro_voidedAt := Some now, ro_settled := True\<rparr>)) w
      in fold (void_one env now r)
           (filter (\<lambda>b. be_roundId b = ro_id r \<and> be_status b = BAccepted) (db_bets (wd_db w1))) w1)"

definition resume_round :: "'s env \<Rightarrow> msec \<Rightarrow> round_row \<Rightarrow> 's world \<Rightarrow> 's world" where
  "resume_round env now r w =
     (case (ro_outcomeData r, ro_outcomeType r) of
        (Some out, Some ty) \<Rightarrow> if ty = [] then resume_void env now r w else resume_known env now r out w
      | _ \<Rightarrow> resume_void env now r w)"

definition resumeUnsettledRounds :: "'s env \<Rightarrow> msec \<Rightarrow> 's world \<Rightarrow> 's world" where
  "resumeUnsettledRounds env now w =
     (let e = wd_engine w in
      fold (resume_round env now)
        (filter (\<lambda>r. ro_operatorId r = ec_operatorId (en_cfg e) \<and> ro_gameCode r = gp_gameCode (en_plugin e) \<and>
                     ro_currency r = ec_currency (en_cfg e) \<and> \<not> ro_settled r) (db_rounds (wd_db w))) w)"

section \<open>Starting, stopping, configuring\<close>

definition engine_start :: "'s env \<Rightarrow> msec \<Rightarrow> 's world \<Rightarrow> 's world" where
  "engine_start env now w =
     (if en_running (wd_engine w) then w
      else let w1 = resumeUnsettledRounds env now w
           in w1\<lparr>wd_engine := (wd_engine w1)\<lparr>en_running := True\<rparr>\<rparr>)"

definition engine_stop :: "'s world \<Rightarrow> 's world" where
  "engine_stop w = w\<lparr>wd_engine := (wd_engine w)\<lparr>en_running := False\<rparr>\<rparr>"

definition updateConfig :: "(engine_config \<Rightarrow> engine_config) \<Rightarrow> engine \<Rightarrow> engine" where
  "updateConfig patch e = e\<lparr>en_cfg := patch (en_cfg e)\<rparr>"

definition updateGameConfig :: "game_config \<Rightarrow> engine \<Rightarrow> engine" where
  "updateGameConfig next e = e\<lparr>en_gameConfig := next\<rparr>"

end
