(* ===== verification/Settlement.thy ===== *)
theory Settlement
  imports Engine
begin

text \<open>
  What settling a round guarantees: every accepted bet is resolved, no winner is dropped, the
  total of the round is the sum of what its bets were owed, and nothing else changes. The
  same for the rounds that are resumed or voided after a restart.
\<close>

section \<open>Frames of the message operations\<close>

lemma emit_frame [simp, frame_simps]:
  "wd_engine (emit_to rm ev pl w) = wd_engine w" "wd_db (emit_to rm ev pl w) = wd_db w"
  "wd_wallet (emit_to rm ev pl w) = wd_wallet w" "wd_fresh (emit_to rm ev pl w) = wd_fresh w"
  "wd_engine (emit ev pl w) = wd_engine w" "wd_db (emit ev pl w) = wd_db w"
  "wd_wallet (emit ev pl w) = wd_wallet w" "wd_fresh (emit ev pl w) = wd_fresh w"
  "wd_engine (emit_session sid ev pl w) = wd_engine w" "wd_db (emit_session sid ev pl w) = wd_db w"
  "wd_wallet (emit_session sid ev pl w) = wd_wallet w" "wd_fresh (emit_session sid ev pl w) = wd_fresh w"
  "wd_engine (dispatch ev pl w) = wd_engine w" "wd_db (dispatch ev pl w) = wd_db w"
  "wd_wallet (dispatch ev pl w) = wd_wallet w" "wd_fresh (dispatch ev pl w) = wd_fresh w"
  "wd_engine (emitPoolUpdate rid w) = wd_engine w" "wd_db (emitPoolUpdate rid w) = wd_db w"
  "wd_wallet (emitPoolUpdate rid w) = wd_wallet w" "wd_fresh (emitPoolUpdate rid w) = wd_fresh w"
  by (simp_all add: emit_to_def emit_def emit_session_def dispatch_def emitPoolUpdate_def Let_def)

lemma world_frame [simp, frame_simps]:
  "wd_engine (on_db f w) = wd_engine w" "wd_db (on_db f w) = f (wd_db w)"
  "wd_wallet (on_db f w) = wd_wallet w" "wd_fresh (on_db f w) = wd_fresh w"
  "wd_engine (draw n w) = wd_engine w" "wd_db (draw n w) = wd_db w"
  "wd_wallet (draw n w) = wd_wallet w" "wd_fresh (draw n w) = wd_fresh w + n"
  "wd_db (set_phase ph w) = wd_db w" "wd_wallet (set_phase ph w) = wd_wallet w"
  "wd_db (set_active a w) = wd_db w" "wd_wallet (set_active a w) = wd_wallet w"
  "wd_fresh (set_active a w) = wd_fresh w"
  by (simp_all add: on_db_def draw_def set_phase_def set_active_def)

lemma find_bet_upd [simp, frame_simps]:
  "(\<And>b. be_id (f b) = be_id b) \<Longrightarrow>
   find_bet (upd_bet i f d) j = (if j = i then map_option f (find_bet d j) else find_bet d j)"
  by (simp add: find_bet_def find_update_where_key)

lemma find_bet_frame [simp, frame_simps]:
  "find_bet (upd_round i g d) j = find_bet d j" "find_bet (add_held h d) j = find_bet d j"
  "find_bet (add_job jb d) j = find_bet d j" "find_bet (resolve_held i now rs d) j = find_bet d j"
  "find_bet (refund_held i now rs d) j = find_bet d j" "find_bet (upd_session i k d) j = find_bet d j"
  by (simp_all add: find_bet_def)

lemma find_bet_id: "find_bet d i = Some b \<Longrightarrow> be_id b = i"
  by (auto simp: find_bet_def dest: find_SomeD)

lemma mark_id [simp]:
  "be_id (mark_lost now b) = be_id b" "be_id (mark_paid now m t b) = be_id b" "be_id (mark_failed t b) = be_id b"
  by (simp_all add: mark_lost_def mark_paid_def mark_failed_def)

text \<open>No row of the register holds a bet any more.\<close>

definition released :: "db \<Rightarrow> uuid \<Rightarrow> bool" where
  "released d i \<longleftrightarrow> (\<forall>h \<in> set (db_held d). he_betId h = i \<longrightarrow> he_state h \<noteq> HHeld)"

lemma released_resolve: "released (resolve_held i now rs d) j \<longleftrightarrow> j = i \<or> released d j"
  by (auto simp: released_def resolve_held_def set_update_where)

lemma released_refund: "released (refund_held i now rs d) j \<longleftrightarrow> j = i \<or> released d j"
  by (auto simp: released_def refund_held_def set_update_where)

lemma released_frame [simp, frame_simps]:
  "released (upd_bet i f d) j = released d j" "released (upd_round i g d) j = released d j"
  "released (add_job jb d) j = released d j"
  by (simp_all add: released_def)

section \<open>Resolved bets\<close>

text \<open>A durable job that owes a bet its win.\<close>

definition owes_win :: "job_row \<Rightarrow> bet_row \<Rightarrow> uuid option \<Rightarrow> micro \<Rightarrow> bool" where
  "owes_win j b winTx payout \<longleftrightarrow>
     jo_endpoint j = EWIN \<and> jo_betId j = Some (be_id b) \<and> jo_completedAt j = None \<and>
     Some (jp_transactionUuid (jo_payload j)) = winTx \<and>
     jp_referenceTransactionUuid (jo_payload j) = Some (be_betTransactionUuid b) \<and>
     jp_amountMicro (jo_payload j) = Some (show_int payout)"

text \<open>
  The bet as it was accepted and its row after settlement: a loser is settled with
  nothing, a winner is either settled with its payout or failed with a job that owes it.
\<close>

definition resolved :: "engine \<Rightarrow> game_outcome \<Rightarrow> db \<Rightarrow> bet_row \<Rightarrow> bool" where
  "resolved e out d b =
     (case find_bet d (be_id b) of
        None \<Rightarrow> False
      | Some b' \<Rightarrow>
          (let res = settlement_of e out b in
           if \<not> sr_won res
           then be_status b' = BSettled \<and> be_won b' = Some False \<and> be_wonAmountMicro b' = Some 0 \<and> released d (be_id b)
           else (be_status b' = BSettled \<and> be_won b' = Some True \<and>
                   be_wonAmountMicro b' = Some (sr_payoutMicro res) \<and> released d (be_id b)) \<or>
                (be_status b' = BFailed \<and>
                   list_ex (\<lambda>j. owes_win j b (be_winTransactionUuid b') (sr_payoutMicro res)) (db_jobs d))))"

definition owed :: "engine \<Rightarrow> game_outcome \<Rightarrow> bet_row \<Rightarrow> micro" where
  "owed e out b = (if sr_won (settlement_of e out b) then sr_payoutMicro (settlement_of e out b) else 0)"

text \<open>What one bet of the loop leaves alone.\<close>

definition settles_only :: "uuid \<Rightarrow> 's world \<Rightarrow> 's world \<Rightarrow> bool" where
  "settles_only i w w' \<longleftrightarrow>
     wd_engine w' = wd_engine w \<and> db_sessions (wd_db w') = db_sessions (wd_db w) \<and>
     db_rounds (wd_db w') = db_rounds (wd_db w) \<and>
     (\<exists>js. db_jobs (wd_db w') = db_jobs (wd_db w) @ js) \<and>
     (\<forall>j. j \<noteq> i \<longrightarrow> find_bet (wd_db w') j = find_bet (wd_db w) j) \<and>
     (\<forall>j. released (wd_db w) j \<longrightarrow> released (wd_db w') j)"

lemma settle_one_frame: "settles_only (be_id b) w (snd (settle_one env now r out b (t, w)))"
  by (auto simp: settles_only_def settle_one_def Let_def released_resolve split: option.splits prod.splits)

lemma settle_one_total: "fst (settle_one env now r out b (t, w)) = t + owed (wd_engine w) out b"
  by (auto simp: settle_one_def owed_def Let_def split: option.splits prod.splits)

lemma settle_one_resolves:
  assumes "find_session (wd_db w) (be_sessionId b) \<noteq> None" "find_bet (wd_db w) (be_id b) = Some b0"
  shows "resolved (wd_engine w) out (wd_db (snd (settle_one env now r out b (t, w)))) b"
proof -
  obtain s where s: "find_session (wd_db w) (be_sessionId b) = Some s" using assms(1) by auto
  show ?thesis
  proof (cases "sr_won (settlement_of (wd_engine w) out b)")
    case False
    then show ?thesis using assms(2)
      by (simp add: resolved_def settle_one_def released_resolve mark_lost_def Let_def)
  next
    case True
    let ?q = "win_request_of env w r b (settlement_of (wd_engine w) out b)"
    obtain resp s' where e: "ev_win env ?q (wd_wallet w) = (resp, s')" by fastforce
    show ?thesis
    proof (cases "isSuccessOrDuplicate (ws_status resp)")
      case ok: True
      then show ?thesis using True s e assms(2)
        by (simp add: resolved_def settle_one_def released_resolve mark_paid_def Let_def)
    next
      case False
      then show ?thesis using True s e assms(2)
        by (simp add: resolved_def settle_one_def mark_failed_def owes_win_def new_job_def win_payload_def
            win_request_of_def Let_def)
    qed
  qed
qed

lemma resolved_preserved:
  assumes "settles_only i w w'" "be_id b \<noteq> i" "resolved e out (wd_db w) b"
  shows "resolved e out (wd_db w') b"
proof -
  have "find_bet (wd_db w') (be_id b) = find_bet (wd_db w) (be_id b)"
    using assms(1,2) by (simp add: settles_only_def)
  moreover obtain js where "db_jobs (wd_db w') = db_jobs (wd_db w) @ js"
    using assms(1) by (auto simp: settles_only_def)
  moreover have "released (wd_db w) (be_id b) \<Longrightarrow> released (wd_db w') (be_id b)"
    using assms(1) by (simp add: settles_only_def)
  ultimately show ?thesis
    using assms(3) by (auto simp: resolved_def Let_def split: option.splits)
qed

text \<open>The loop over bets with different ids.\<close>

lemma fold_settle:
  assumes "distinct (map be_id bets)"
    and "\<And>b. b \<in> set bets \<Longrightarrow> find_session (wd_db w) (be_sessionId b) \<noteq> None \<and> find_bet (wd_db w) (be_id b) \<noteq> None"
    and "fold (settle_one env now r out) bets (t, w) = (t', w')"
  shows "t' = t + sum_by (owed (wd_engine w) out) bets \<and> wd_engine w' = wd_engine w \<and>
     db_rounds (wd_db w') = db_rounds (wd_db w) \<and>
     (\<forall>b \<in> set bets. resolved (wd_engine w) out (wd_db w') b) \<and>
     (\<forall>i. i \<notin> be_id ` set bets \<longrightarrow> find_bet (wd_db w') i = find_bet (wd_db w) i)"
  using assms
proof (induction bets arbitrary: t w)
  case Nil
  then show ?case by simp
next
  case (Cons b bets)
  obtain t1 w1 where s1: "settle_one env now r out b (t, w) = (t1, w1)" by fastforce
  have f: "settles_only (be_id b) w w1" using settle_one_frame [of b w env now r out t] s1 by simp
  have t1: "t1 = t + owed (wd_engine w) out b" using settle_one_total [of env now r out b t w] s1 by simp
  have fs: "find_session (wd_db w1) = find_session (wd_db w)"
    using f by (simp add: settles_only_def find_session_def fun_eq_iff)
  have fb: "find_bet (wd_db w1) i = find_bet (wd_db w) i" if "i \<noteq> be_id b" for i
    using f that by (simp add: settles_only_def)
  have d: "be_id b \<notin> be_id ` set bets" "distinct (map be_id bets)" using Cons.prems(1) by auto
  have IH: "t' = t1 + sum_by (owed (wd_engine w1) out) bets \<and> wd_engine w' = wd_engine w1 \<and>
     db_rounds (wd_db w') = db_rounds (wd_db w1) \<and>
     (\<forall>b \<in> set bets. resolved (wd_engine w1) out (wd_db w') b) \<and>
     (\<forall>i. i \<notin> be_id ` set bets \<longrightarrow> find_bet (wd_db w') i = find_bet (wd_db w1) i)"
  proof (rule Cons.IH)
    show "distinct (map be_id bets)" by (rule d)
    show "fold (settle_one env now r out) bets (t1, w1) = (t', w')" using Cons.prems(3) s1 by simp
    fix c assume "c \<in> set bets"
    then show "find_session (wd_db w1) (be_sessionId c) \<noteq> None \<and> find_bet (wd_db w1) (be_id c) \<noteq> None"
      using Cons.prems(2) d fs fb [of "be_id c"] by (metis image_eqI list.set_intros(2))
  qed
  have eng: "wd_engine w1 = wd_engine w" "db_rounds (wd_db w1) = db_rounds (wd_db w)"
    using f by (simp_all add: settles_only_def)
  have "resolved (wd_engine w) out (wd_db w1) b"
  proof -
    obtain b0 where "find_bet (wd_db w) (be_id b) = Some b0"
      using Cons.prems(2) [of b] by auto
    then show ?thesis
      using settle_one_resolves [of w b b0 out env now r t] Cons.prems(2) [of b] s1 by simp
  qed
  moreover have "resolved (wd_engine w) out (wd_db w1) b \<Longrightarrow> resolved (wd_engine w) out (wd_db w') b"
  proof -
    have rel: "\<forall>j. released (wd_db w1) j \<longrightarrow> released (wd_db w') j" and
      jobs: "\<exists>js. db_jobs (wd_db w') = db_jobs (wd_db w1) @ js"
    proof -
      have "(\<forall>j. released (wd_db u) j \<longrightarrow> released (wd_db (snd (fold (settle_one env now r out) bs (x, u)))) j) \<and>
        (\<exists>js. db_jobs (wd_db (snd (fold (settle_one env now r out) bs (x, u)))) = db_jobs (wd_db u) @ js)" for bs x u
      proof (induction bs arbitrary: x u)
        case (Cons c bs)
        obtain x1 u1 where u1: "settle_one env now r out c (x, u) = (x1, u1)" by fastforce
        then have "settles_only (be_id c) u u1" using settle_one_frame [of c u env now r out x] by simp
        then show ?case using Cons.IH [of u1 x1] u1 by (auto simp: settles_only_def)
      qed simp
      from this [of w1 bets t1] show "\<forall>j. released (wd_db w1) j \<longrightarrow> released (wd_db w') j"
        "\<exists>js. db_jobs (wd_db w') = db_jobs (wd_db w1) @ js"
        using Cons.prems(3) s1 by simp_all
    qed
    assume "resolved (wd_engine w) out (wd_db w1) b"
    moreover have "find_bet (wd_db w') (be_id b) = find_bet (wd_db w1) (be_id b)" using IH d(1) by blast
    ultimately show ?thesis using rel jobs by (auto simp: resolved_def Let_def split: option.splits)
  qed
  ultimately show ?case using IH eng t1 fb by auto
qed

section \<open>Settling a round\<close>

lemma find_round_upd:
  "(\<And>r. ro_id (g r) = ro_id r) \<Longrightarrow>
   find_round (upd_round i g d) j = (if j = i then map_option g (find_round d j) else find_round d j)"
  by (simp add: find_round_def find_update_where_key)

lemma find_round_id: "find_round d i = Some r \<Longrightarrow> ro_id r = i"
  by (auto simp: find_round_def dest: find_SomeD)

lemma close_round_id [simp]: "ro_id (close_round now t r) = ro_id r"
  by (simp add: close_round_def)

lemma accepted_in_db: "b \<in> set (accepted_bets d i) \<Longrightarrow> b \<in> set (db_bets d) \<and> be_status b = BAccepted \<and> be_roundId b = i"
  by (simp add: accepted_bets_def)

lemma accepted_distinct: "distinct (map be_id (db_bets d)) \<Longrightarrow> distinct (map be_id (accepted_bets d i))"
  by (simp add: accepted_bets_def distinct_map inj_on_def)

lemma in_db_found: "b \<in> set (db_bets d) \<Longrightarrow> find_bet d (be_id b) \<noteq> None"
  by (auto simp: find_bet_def find_None_iff)

text \<open>A round ready to be settled: it is the active one and its outcome is stored.\<close>

definition settleable :: "'s world \<Rightarrow> round_row \<Rightarrow> game_outcome \<Rightarrow> bool" where
  "settleable w r out \<longleftrightarrow>
     map_option ar_id (en_active (wd_engine w)) = Some (ro_id r) \<and>
     find_round (wd_db w) (ro_id r) = Some r \<and> ro_outcomeData r = Some out \<and>
     ro_outcomeType r \<noteq> None \<and> ro_outcomeType r \<noteq> Some []"

lemma settle_unfold:
  assumes "settleable w r out"
    and "fold (settle_one env now r out) (accepted_bets (wd_db w) (ro_id r))
           (precashed_total (wd_db w) (ro_id r), w) = (t, w1)"
  shows "wd_db (settle env now w) = upd_round (ro_id r) (close_round now t) (wd_db w1)"
  using assms by (auto simp: settle_def settleable_def Let_def)

lemma settle_result:
  assumes "settleable w r out" "distinct (map be_id (db_bets (wd_db w)))"
    and "\<forall>b \<in> set (accepted_bets (wd_db w) (ro_id r)). find_session (wd_db w) (be_sessionId b) \<noteq> None"
  shows "(\<forall>b \<in> set (accepted_bets (wd_db w) (ro_id r)). resolved (wd_engine w) out (wd_db (settle env now w)) b) \<and>
     (\<forall>i. i \<notin> be_id ` set (accepted_bets (wd_db w) (ro_id r)) \<longrightarrow>
        find_bet (wd_db (settle env now w)) i = find_bet (wd_db w) i) \<and>
     find_round (wd_db (settle env now w)) (ro_id r) = Some (close_round now
        (precashed_total (wd_db w) (ro_id r) +
         sum_by (owed (wd_engine w) out) (accepted_bets (wd_db w) (ro_id r))) r)"
proof -
  let ?bets = "accepted_bets (wd_db w) (ro_id r)"
  obtain t w1 where f: "fold (settle_one env now r out) ?bets (precashed_total (wd_db w) (ro_id r), w) = (t, w1)"
    by fastforce
  have ok: "find_session (wd_db w) (be_sessionId b) \<noteq> None \<and> find_bet (wd_db w) (be_id b) \<noteq> None"
    if "b \<in> set ?bets" for b
    using assms(3) in_db_found accepted_in_db [OF that] that by blast
  note F = fold_settle [OF accepted_distinct [OF assms(2)] ok f]
  note db = settle_unfold [OF assms(1) f]
  have rr: "resolved e out (upd_round i g d) b = resolved e out d b" for e i g d b
    by (cases "find_bet d (be_id b)") (simp_all add: resolved_def Let_def)
  have "find_round (wd_db w1) (ro_id r) = Some r"
    using F assms(1) by (simp add: find_round_def settleable_def)
  then show ?thesis using F by (simp add: db rr find_round_upd)
qed

section \<open>Restart\<close>

text \<open>What resuming adds for a bet: the recorded cash-out, or what the outcome owes.\<close>

definition resume_owed :: "engine \<Rightarrow> game_outcome \<Rightarrow> bet_row \<Rightarrow> micro" where
  "resume_owed e out b = (case be_cashoutPayoutMicro b of Some pay \<Rightarrow> pay | None \<Rightarrow> owed e out b)"

lemma fold_resume_total:
  assumes "fold (resume_one env now r out) bets (t, w) = (t', w')"
  shows "t' = t + sum_by (resume_owed (wd_engine w) out) bets
     \<and> wd_engine w' = wd_engine w \<and> db_rounds (wd_db w') = db_rounds (wd_db w)"
  using assms
proof (induction bets arbitrary: t w)
  case (Cons b bets)
  obtain t1 w1 where s1: "resume_one env now r out b (t, w) = (t1, w1)" by fastforce
  have "t1 = t + resume_owed (wd_engine w) out b \<and>
     wd_engine w1 = wd_engine w \<and> db_rounds (wd_db w1) = db_rounds (wd_db w)"
    using s1 by (auto simp: resume_one_def resume_win_def resume_owed_def owed_def Let_def split: option.splits if_splits)
  then show ?case using Cons.IH [of t1 w1] Cons.prems s1 by simp
qed simp

lemma resume_known_round:
  assumes "find_round (wd_db w) (ro_id r) = Some r"
  shows "find_round (wd_db (resume_known env now r out w)) (ro_id r) = Some (close_round now
     (sum_by (resume_owed (wd_engine w) out) (unresolved_bets (wd_db w) (ro_id r))) r)"
proof -
  obtain t w1 where f: "fold (resume_one env now r out) (unresolved_bets (wd_db w) (ro_id r)) (0, w) = (t, w1)"
    by fastforce
  from fold_resume_total [OF f] have "find_round (wd_db w1) (ro_id r) = Some r"
    using assms by (simp add: find_round_def)
  with fold_resume_total [OF f] show ?thesis
    by (simp add: resume_known_def f find_round_upd)
qed

text \<open>Voiding: what happens to one accepted bet, and to the others.\<close>

definition refunded :: "db \<Rightarrow> bet_row \<Rightarrow> bool" where
  "refunded d b \<longleftrightarrow>
     map_option be_status (find_bet d (be_id b)) = Some BVoided \<and> released d (be_id b) \<and>
     list_ex (\<lambda>j. jo_endpoint j = EROLLBACK \<and> jo_betId j = Some (be_id b) \<and> jo_completedAt j = None \<and>
        jp_referenceTransactionUuid (jo_payload j) = Some (be_betTransactionUuid b)) (db_jobs d)"

lemma void_one_frame:
  "(\<forall>j. j \<noteq> be_id b \<longrightarrow> find_bet (wd_db (void_one env now r b w)) j = find_bet (wd_db w) j) \<and>
   (\<forall>j. released (wd_db w) j \<longrightarrow> released (wd_db (void_one env now r b w)) j) \<and>
   (\<exists>js. db_jobs (wd_db (void_one env now r b w)) = db_jobs (wd_db w) @ js)"
  by (simp add: void_one_def released_refund)

lemma void_one_refunds:
  "find_bet (wd_db w) (be_id b) \<noteq> None \<Longrightarrow> refunded (wd_db (void_one env now r b w)) b"
  by (auto simp: refunded_def void_one_def released_refund new_job_def rollback_payload_def)

lemma fold_void:
  assumes "distinct (map be_id bets)" "\<And>b. b \<in> set bets \<Longrightarrow> find_bet (wd_db w) (be_id b) \<noteq> None"
  shows "(\<forall>b \<in> set bets. refunded (wd_db (fold (void_one env now r) bets w)) b) \<and>
     (\<forall>i. i \<notin> be_id ` set bets \<longrightarrow> find_bet (wd_db (fold (void_one env now r) bets w)) i = find_bet (wd_db w) i) \<and>
     (\<forall>j. released (wd_db w) j \<longrightarrow> released (wd_db (fold (void_one env now r) bets w)) j) \<and>
     (\<exists>js. db_jobs (wd_db (fold (void_one env now r) bets w)) = db_jobs (wd_db w) @ js)"
  using assms
proof (induction bets arbitrary: w)
  case (Cons b bets)
  let ?w1 = "void_one env now r b w"
  note fr = void_one_frame [of b env now r w]
  have IH: "(\<forall>b \<in> set bets. refunded (wd_db (fold (void_one env now r) bets ?w1)) b) \<and>
     (\<forall>i. i \<notin> be_id ` set bets \<longrightarrow> find_bet (wd_db (fold (void_one env now r) bets ?w1)) i = find_bet (wd_db ?w1) i) \<and>
     (\<forall>j. released (wd_db ?w1) j \<longrightarrow> released (wd_db (fold (void_one env now r) bets ?w1)) j) \<and>
     (\<exists>js. db_jobs (wd_db (fold (void_one env now r) bets ?w1)) = db_jobs (wd_db ?w1) @ js)"
  proof (rule Cons.IH)
    fix c assume "c \<in> set bets"
    then show "find_bet (wd_db ?w1) (be_id c) \<noteq> None"
      using Cons.prems fr by (metis distinct.simps(2) image_eqI list.set_intros(2) list.set_map list.simps(9))
  qed (use Cons.prems in simp)
  have "refunded (wd_db ?w1) b" using void_one_refunds Cons.prems(2) [of b] by simp
  moreover have "be_id b \<notin> be_id ` set bets" using Cons.prems(1) by simp
  ultimately have "refunded (wd_db (fold (void_one env now r) bets ?w1)) b"
    using IH by (auto simp: refunded_def)
  then show ?case using IH fr by auto
qed simp

section \<open>Liability\<close>

lemma owed_dice:
  assumes "gp_settleBet (en_plugin e) = dice_settleBet" "0 \<le> be_amountMicro b" "0 \<le> ec_commissionMicro (en_cfg e)"
  shows "owed e out b \<le> 2 * be_amountMicro b"
  using assms dice_rules.payout_capped
  by (auto simp: owed_def settlement_of_def dice_settleBet_def lost_def
      split: bet_selection.splits game_outcome.splits)

lemma owed_crash:
  assumes "gp_settleBet (en_plugin e) = crash_settleBet" "0 \<le> be_amountMicro b" "0 \<le> ec_commissionMicro (en_cfg e)"
    and "be_selection b = CrashSelection x" "0 \<le> x" "0 \<le> m"
  shows "owed e (CrashOutcome m u) b \<le> be_amountMicro b * js_round (jmul m 100) div 100"
proof (cases "sr_won (settleCrashMinimalBet x (be_amountMicro b) m (ec_commissionMicro (en_cfg e)))")
  case True
  then show ?thesis using assms crash_rules.payout_capped [of x m "be_amountMicro b" "ec_commissionMicro (en_cfg e)"]
    by (simp add: owed_def settlement_of_def crash_settleBet_def)
next
  case False
  have "0 \<le> js_round (jmul m 100)" using assms by (intro js_round_nonneg) (simp add: jmul_def fl_nonneg)
  then show ?thesis using False assms
    by (simp add: owed_def settlement_of_def crash_settleBet_def pos_imp_zdiv_nonneg_iff)
qed

section \<open>A sample world\<close>

definition ok_response :: wallet_response where
  "ok_response = \<lparr>ws_status = RsOK, ws_requestUuid = [], ws_balanceMicro = None, ws_currency = None, ws_message = None\<rparr>"

definition env_with :: "wallet_response \<Rightarrow> unit env" where
  "env_with res = \<lparr>ev_uuid = (\<lambda>n. replicate n CHR ''x''), ev_random = (\<lambda>n. ''ab''), ev_bet = (\<lambda>q s. (res, s)),
     ev_win = (\<lambda>q s. (res, s)), ev_sha256 = (\<lambda>s. 0), ev_numstr = (\<lambda>x. ''0''), ev_buildHash = None\<rparr>"

definition dice_cfg :: engine_config where
  "dice_cfg = \<lparr>ec_operatorId = ''op'', ec_gameCode = ''ketapola-dice'', ec_currency = ''LKR'',
     ec_minBetMicro = 10, ec_maxBetMicro = 1000, ec_commissionMicro = 0, ec_bettingWindowMs = 100,
     ec_rollingWindowMs = 100, ec_cooldownMs = 100, ec_configVersion = ''v1''\<rparr>"

definition dice_active :: "engine_phase \<Rightarrow> active_round" where
  "dice_active ph = \<lparr>ar_id = ''r'', ar_nonce = 0, ar_serverSeed = ''aa'', ar_serverSeedHash = ''bb'',
     ar_clientSeed = ''cc'', ar_phase = ph, ar_phaseStartedAt = 0, ar_phaseDurationMs = 100,
     ar_outcome = None, ar_crashAtMs = None\<rparr>"

definition dice_engine :: "engine_phase \<Rightarrow> engine" where
  "dice_engine ph = \<lparr>en_active = Some (dice_active ph), en_running = True, en_plugin = ketapolaDice (\<lambda>_ _. 0),
     en_cfg = dice_cfg, en_gameConfig = defaultKetapolaDiceConfig\<rparr>"

definition low_outcome :: game_outcome where "low_outcome = DiceOutcome [3] 3 LOW"

definition dice_round :: "game_outcome option \<Rightarrow> round_row" where
  "dice_round out = \<lparr>ro_id = ''r'', ro_operatorId = ''op'', ro_sessionId = ''s'', ro_gameCode = ''ketapola-dice'',
     ro_currency = ''LKR'', ro_nonce = 0, ro_state = RResult, ro_outcomeType = map_option outcome_type out,
     ro_outcomeData = out, ro_gameConfigVersion = None, ro_serverSeed = ''aa'', ro_serverSeedHash = ''bb'',
     ro_clientSeed = ''cc'', ro_totalBetsMicro = 100, ro_totalPayoutsMicro = 0, ro_startedAt = Some 0,
     ro_rolledAt = Some 5, ro_settledAt = None, ro_voidedAt = None, ro_settled = False,
     ro_rngVersion = ''v'', ro_buildHash = None, ro_startedAtMonoNs = None, ro_prevRowHash = None, ro_rowHash = None\<rparr>"

definition dice_bet :: bet_row where
  "dice_bet = \<lparr>be_id = ''b'', be_operatorId = ''op'', be_sessionId = ''s'', be_roundId = ''r'', be_playerRef = ''p'',
     be_selection = DiceSelection LOW, be_selectionType = ''ketapola-dice'', be_amountMicro = 100,
     be_commissionMicro = 0, be_currency = ''LKR'', be_status = BAccepted, be_wonAmountMicro = None,
     be_won = None, be_cashoutMultiplier = None, be_cashoutElapsedMs = None, be_cashoutMode = None,
     be_cashoutAt = None, be_cashoutPayoutMicro = None, be_betTransactionUuid = ''t'',
     be_winTransactionUuid = None, be_placedAt = 1, be_settledAt = None\<rparr>"

definition dice_world :: "engine_phase \<Rightarrow> game_outcome option \<Rightarrow> bet_row list \<Rightarrow> unit world" where
  "dice_world ph out bets = \<lparr>wd_engine = dice_engine ph,
     wd_db = \<lparr>db_sessions = [sample_session], db_rounds = [dice_round out], db_bets = bets, db_held = [], db_jobs = []\<rparr>,
     wd_wallet = (), wd_fresh = 0, wd_out = [], wd_events = []\<rparr>"

lemmas dice_sample = dice_world_def dice_engine_def dice_active_def dice_cfg_def dice_round_def dice_bet_def
  sample_session_def low_outcome_def

lemma dice_world_settleable: "settleable (dice_world PhResult (Some low_outcome) bets) (dice_round (Some low_outcome)) low_outcome"
  by (simp add: settleable_def dice_sample find_round_def)

lemma dice_world_accepted: "accepted_bets (wd_db (dice_world ph out [dice_bet])) ''r'' = [dice_bet]"
  by (simp add: accepted_bets_def dice_sample)

section \<open>Properties\<close>



text \<open>The liability of a dice round: when it is closed, its recorded total is at most the
  cash-outs recorded before plus twice the stakes of its accepted bets.\<close>

theorem dice_round_liability:
  assumes "settleable w r out" "distinct (map be_id (db_bets (wd_db w)))"
    and "\<forall>b \<in> set (accepted_bets (wd_db w) (ro_id r)). find_session (wd_db w) (be_sessionId b) \<noteq> None"
    and "gp_settleBet (en_plugin (wd_engine w)) = dice_settleBet"
    and "\<forall>b \<in> set (accepted_bets (wd_db w) (ro_id r)). 0 \<le> be_amountMicro b"
    and "0 \<le> ec_commissionMicro (en_cfg (wd_engine w))"
  shows "\<exists>r'. find_round (wd_db (settle env now w)) (ro_id r) = Some r' \<and> ro_settled r' \<and>
     ro_totalPayoutsMicro r' \<le> precashed_total (wd_db w) (ro_id r) +
        2 * sum_by be_amountMicro (accepted_bets (wd_db w) (ro_id r))"
proof -
  have "sum_by (owed (wd_engine w) out) (accepted_bets (wd_db w) (ro_id r))
      \<le> sum_by (\<lambda>b. 2 * be_amountMicro b) (accepted_bets (wd_db w) (ro_id r))"
    using assms(4-6) by (intro sum_by_mono owed_dice) auto
  moreover have "sum_by (\<lambda>b. 2 * be_amountMicro b) bs = 2 * sum_by be_amountMicro bs" for bs :: "bet_row list"
    by (induction bs) simp_all
  ultimately show ?thesis using settle_result [OF assms(1-3), of env now] by (simp add: close_round_def)
qed

theorem dice_round_liability_witness:
  "\<exists>r'. find_round (wd_db (settle (env_with ok_response) 9 (dice_world PhResult (Some low_outcome) [dice_bet]))) ''r'' = Some r' \<and>
     ro_settled r' \<and> ro_totalPayoutsMicro r' \<le> 200"
  using dice_round_liability [OF dice_world_settleable, of "[dice_bet]" "env_with ok_response" 9]
    dice_world_accepted [of PhResult "Some low_outcome"]
  by (simp add: dice_sample find_session_def ketapolaDice_def precashed_total_def)

text \<open>Resuming a round whose outcome is stored closes it with a total that counts the
  bets still accepted or failed only: a cash-out that was confirmed before the restart is
  left out, although settling the same round would have counted it.\<close>

theorem resume_total_counts_unresolved_only:
  assumes "find_round (wd_db w) (ro_id r) = Some r" "ro_outcomeData r = Some out"
    and "ro_outcomeType r = Some ty" "ty \<noteq> []"
  shows "find_round (wd_db (resume_round env now r w)) (ro_id r) = Some (close_round now
      (sum_by (resume_owed (wd_engine w) out) (unresolved_bets (wd_db w) (ro_id r))) r)"
  using assms by (simp add: resume_round_def resume_known_round)

definition cashed_bet :: bet_row where
  "cashed_bet = dice_bet\<lparr>be_status := BSettled, be_cashoutPayoutMicro := Some 150\<rparr>"

theorem resume_total_counts_unresolved_only_witness:
  "map_option ro_totalPayoutsMicro (find_round (wd_db (resume_round (env_with ok_response) 9 (dice_round (Some low_outcome))
      (dice_world PhResult (Some low_outcome) [cashed_bet]))) ''r'') = Some 0 \<and>
   precashed_total (wd_db (dice_world PhResult (Some low_outcome) [cashed_bet])) ''r'' = 150"
  using resume_total_counts_unresolved_only [of "dice_world PhResult (Some low_outcome) [cashed_bet]"
      "dice_round (Some low_outcome)" low_outcome "''DICE''" "env_with ok_response" 9]
  by (simp add: dice_sample cashed_bet_def find_round_def precashed_total_def close_round_def
      unresolved_bets_def)

text \<open>Voiding a round without an outcome refunds every accepted bet: it ends voided, is no
  longer held, and a durable rollback job refers to its debit. A bet that is still pending,
  whose debit may have reached the wallet, is left as it is.\<close>

theorem void_refunds_accepted_only:
  assumes "distinct (map be_id (db_bets (wd_db w)))" "ro_outcomeData r = None"
  shows "(\<forall>b \<in> set (db_bets (wd_db w)). be_roundId b = ro_id r \<and> be_status b = BAccepted \<longrightarrow>
        refunded (wd_db (resume_round env now r w)) b) \<and>
     (\<forall>b \<in> set (db_bets (wd_db w)). be_roundId b \<noteq> ro_id r \<or> be_status b \<noteq> BAccepted \<longrightarrow>
        find_bet (wd_db (resume_round env now r w)) (be_id b) = find_bet (wd_db w) (be_id b))"
proof -
  let ?g = "\<lambda>x. x\<lparr>ro_state := RVoided, ro_voidedAt := Some now, ro_settled := True\<rparr>"
  let ?w1 = "on_db (upd_round (ro_id r) ?g) w"
  let ?bs = "filter (\<lambda>b. be_roundId b = ro_id r \<and> be_status b = BAccepted) (db_bets (wd_db w))"
  have d: "distinct (map be_id ?bs)" using assms(1) by (simp add: distinct_map inj_on_def)
  have f: "find_bet (wd_db ?w1) (be_id b) \<noteq> None" if "b \<in> set ?bs" for b
    using that in_db_found [of b "wd_db w"] by simp
  have rr: "resume_round env now r w = fold (void_one env now r) ?bs ?w1"
    using assms(2) by (simp add: resume_round_def resume_void_def)
  have "be_id b \<notin> be_id ` set ?bs" if "b \<in> set (db_bets (wd_db w))" "be_roundId b \<noteq> ro_id r \<or> be_status b \<noteq> BAccepted" for b
    using that assms(1) by (auto simp: distinct_map dest: inj_onD)
  then show ?thesis using fold_void [OF d f] unfolding rr by auto
qed

definition pending_bet_row :: bet_row where
  "pending_bet_row = dice_bet\<lparr>be_id := ''c'', be_status := BPending\<rparr>"

theorem void_refunds_accepted_only_witness:
  "refunded (wd_db (resume_round (env_with ok_response) 9 (dice_round None) (dice_world PhPending None [dice_bet, pending_bet_row]))) dice_bet"
  using void_refunds_accepted_only [of "dice_world PhPending None [dice_bet, pending_bet_row]" "dice_round None" "env_with ok_response" 9]
  by (simp add: dice_sample pending_bet_row_def)

end
