(* ===== verification/BetFlow.thy ===== *)
theory BetFlow
  imports Settlement InternalWallet
begin

text \<open>
  The money path of a bet: what placing a bet can lead to, the guards in front of the wallet
  call, live cash-outs, and the interleavings of the two halves of these handlers with the
  rest of the round.
\<close>

section \<open>Placing a bet\<close>

text \<open>A durable job that takes the debit of a bet back.\<close>

definition owes_rollback :: "job_row \<Rightarrow> bet_row \<Rightarrow> bool" where
  "owes_rollback j b \<longleftrightarrow>
     jo_endpoint j = EROLLBACK \<and> jo_betId j = Some (be_id b) \<and> jo_completedAt j = None \<and>
     jp_referenceTransactionUuid (jo_payload j) = Some (be_betTransactionUuid b)"

lemma place_gate_frame:
  "place_gate now p w = Inl (r, w1) \<Longrightarrow> wd_db w1 = wd_db w \<and> wd_wallet w1 = wd_wallet w \<and>
     wd_engine w1 = wd_engine w \<and> (\<exists>s. r = PlaceRefused s)"
  by (auto simp: place_gate_def Let_def split: option.splits if_splits)

lemma place_gate_open:
  assumes "place_gate now p w = Inr a"
  shows "en_active (wd_engine w) = Some a \<and> ar_phase a = PhBettingOpen \<and>
     pp_operatorId p = ec_operatorId (en_cfg (wd_engine w)) \<and> pp_currency p = ec_currency (en_cfg (wd_engine w)) \<and>
     ec_minBetMicro (en_cfg (wd_engine w)) \<le> pp_amountMicro p \<and>
     pp_amountMicro p \<le> ec_maxBetMicro (en_cfg (wd_engine w)) \<and>
     (\<exists>s. find_session (wd_db w) (pp_sessionId p) = Some s \<and> se_terminatedAt s = None \<and> now < se_expiresAt s)"
  using assms by (auto simp: place_gate_def Let_def split: option.splits if_splits)

lemma place_limited_frame:
  "db_bets (wd_db (place_limited now p br rem w)) = db_bets (wd_db w)"
  "db_jobs (wd_db (place_limited now p br rem w)) = db_jobs (wd_db w)"
  "db_rounds (wd_db (place_limited now p br rem w)) = db_rounds (wd_db w)"
  "db_held (wd_db (place_limited now p br rem w)) = db_held (wd_db w)"
  "wd_wallet (place_limited now p br rem w) = wd_wallet w"
  "wd_engine (place_limited now p br rem w) = wd_engine w"
  by (simp_all add: place_limited_def Let_def)

lemma begin_refused:
  assumes "placeBet_begin env now p w = (Inl r, w1)"
  shows "db_bets (wd_db w1) = db_bets (wd_db w) \<and> db_jobs (wd_db w1) = db_jobs (wd_db w) \<and>
     db_rounds (wd_db w1) = db_rounds (wd_db w) \<and> db_held (wd_db w1) = db_held (wd_db w) \<and>
     wd_wallet w1 = wd_wallet w \<and> wd_engine w1 = wd_engine w \<and> (\<forall>i. r \<noteq> PlaceOk i)"
  using assms place_gate_frame [of now p w]
  by (auto simp: placeBet_begin_def place_limited_frame Let_def split: sum.splits limit_check.splits)

lemma begin_called:
  assumes "placeBet_begin env now p w = (Inr pb, w1)"
  obtains a where "place_gate now p w = Inr a"
    "checkRGLimits (wd_db w) (the (find_session (wd_db w) (pp_sessionId p))) (pp_amountMicro p) now
        (place_context now p w (ar_id a)) = Inr LimitOk"
    "pb_params pb = p"
    "pb_bet pb = new_bet p (wd_engine w) (uuid_at env w 2) (ar_id a) (uuid_at env w 0) now"
    "wb_transactionUuid (pb_request pb) = uuid_at env w 0" "wb_amountMicro (pb_request pb) = pp_amountMicro p"
    "wq_playerRef (pb_request pb) = pp_playerRef p" "wb_roundId (pb_request pb) = ar_id a"
    "w1 = on_db (add_bet (pb_bet pb)) (draw 3 w)"
  using assms by (auto simp: placeBet_begin_def Let_def split: sum.splits limit_check.splits)

lemma update_last:
  "\<forall>r \<in> set t. k r \<noteq> i \<Longrightarrow> k b = i \<Longrightarrow> update_where (\<lambda>r. k r = i) f (t @ [b]) = t @ [f b]"
  by (simp add: update_where_append update_where_none)

lemma find_bet_none: "find_bet d i = None \<longleftrightarrow> (\<forall>b \<in> set (db_bets d). be_id b \<noteq> i)"
  by (auto simp: find_bet_def find_None_iff)

text \<open>The three ways a debit can end, for a bet row \<open>b\<close> that was appended.\<close>

definition debit_outcome :: "db \<Rightarrow> db \<Rightarrow> bet_row \<Rightarrow> rs_status \<Rightarrow> place_result \<Rightarrow> bool" where
  "debit_outcome d d' b st r \<longleftrightarrow>
     (isSuccessOrDuplicate st \<and> r = PlaceOk (be_id b) \<and> be_status b = BAccepted \<and> db_jobs d' = db_jobs d \<and>
        (\<exists>h. db_held d' = db_held d @ [h] \<and> he_betId h = be_id b \<and> he_state h = HHeld)) \<or>
     (isRejectStatus st \<and> r = PlaceRefused (rs_string st) \<and> be_status b = BRejected \<and>
        db_jobs d' = db_jobs d \<and> db_held d' = db_held d) \<or>
     (\<not> isSuccessOrDuplicate st \<and> \<not> isRejectStatus st \<and> r = PlaceRefused (rs_string st) \<and>
        be_status b = BRejected \<and> db_held d' = db_held d \<and>
        (\<exists>j. db_jobs d' = db_jobs d @ [j] \<and> owes_rollback j b))"

lemma finish_outcome:
  assumes "\<forall>b \<in> set bets. be_id b \<noteq> be_id (pb_bet pb)" "db_bets (wd_db w) = bets @ [pb_bet pb]"
    and "placeBet_finish env now pb res w = (r, w')"
  shows "\<exists>b. db_bets (wd_db w') = bets @ [b] \<and> be_id b = be_id (pb_bet pb) \<and>
     be_betTransactionUuid b = be_betTransactionUuid (pb_bet pb) \<and> be_amountMicro b = be_amountMicro (pb_bet pb) \<and>
     be_roundId b = be_roundId (pb_bet pb) \<and> be_playerRef b = be_playerRef (pb_bet pb) \<and>
     debit_outcome (wd_db w) (wd_db w') b (ws_status res) r \<and> wd_wallet w' = wd_wallet w"
proof -
  consider "isSuccessOrDuplicate (ws_status res)" | "\<not> isSuccessOrDuplicate (ws_status res)" "isRejectStatus (ws_status res)"
    | "\<not> isSuccessOrDuplicate (ws_status res)" "\<not> isRejectStatus (ws_status res)" by blast
  then show ?thesis
  proof cases
    case 1
    then show ?thesis using assms
      by (auto simp: placeBet_finish_def placeBet_accept_def Let_def update_last debit_outcome_def)
  next
    case 2
    then show ?thesis using assms
      by (auto simp: placeBet_finish_def update_last debit_outcome_def)
  next
    case 3
    then show ?thesis using assms
      by (auto simp: placeBet_finish_def placeBet_uncertain_def Let_def update_last debit_outcome_def
          owes_rollback_def new_job_def rollback_payload_def)
  qed
qed

lemma placeBet_cases:
  assumes "find_bet (wd_db w) (uuid_at env w 2) = None" "placeBet env now p w = (r, w')"
  shows "(db_bets (wd_db w') = db_bets (wd_db w) \<and> db_jobs (wd_db w') = db_jobs (wd_db w) \<and>
      wd_wallet w' = wd_wallet w \<and> (\<forall>i. r \<noteq> PlaceOk i)) \<or>
    (\<exists>b q res. ev_bet env q (wd_wallet w) = (res, wd_wallet w') \<and>
      db_bets (wd_db w') = db_bets (wd_db w) @ [b] \<and>
      wb_transactionUuid q = be_betTransactionUuid b \<and> wb_amountMicro q = be_amountMicro b \<and>
      be_amountMicro b = pp_amountMicro p \<and> be_playerRef b = pp_playerRef p \<and> wq_playerRef q = pp_playerRef p \<and>
      debit_outcome (wd_db w) (wd_db w') b (ws_status res) r)"
proof -
  obtain x w1 where bg: "placeBet_begin env now p w = (x, w1)" by fastforce
  show ?thesis
  proof (cases x)
    case (Inl r0)
    then show ?thesis using bg begin_refused [of env now p w r0 w1] assms(2) by (simp add: placeBet_def)
  next
    case (Inr pb)
    from bg [unfolded Inr] obtain a where a: "place_gate now p w = Inr a" "pb_params pb = p"
      "pb_bet pb = new_bet p (wd_engine w) (uuid_at env w 2) (ar_id a) (uuid_at env w 0) now"
      "wb_transactionUuid (pb_request pb) = uuid_at env w 0" "wb_amountMicro (pb_request pb) = pp_amountMicro p"
      "wq_playerRef (pb_request pb) = pp_playerRef p"
      "w1 = on_db (add_bet (pb_bet pb)) (draw 3 w)"
      by (rule begin_called)
    obtain res s where e: "ev_bet env (pb_request pb) (wd_wallet w1) = (res, s)" by fastforce
    let ?w2 = "w1\<lparr>wd_wallet := s\<rparr>"
    have fin: "placeBet_finish env now pb res ?w2 = (r, w')"
      using assms(2) bg Inr e by (simp add: placeBet_def)
    have "\<forall>b \<in> set (db_bets (wd_db w)). be_id b \<noteq> be_id (pb_bet pb)"
      using assms(1) a(3) by (simp add: find_bet_none new_bet_def)
    from finish_outcome [OF this _ fin] a(7) obtain b where
      b: "db_bets (wd_db w') = db_bets (wd_db w) @ [b]" "be_betTransactionUuid b = be_betTransactionUuid (pb_bet pb)"
        "be_amountMicro b = be_amountMicro (pb_bet pb)" "be_playerRef b = be_playerRef (pb_bet pb)"
        "debit_outcome (wd_db ?w2) (wd_db w') b (ws_status res) r" "wd_wallet w' = s" by auto
    have "debit_outcome (wd_db w) (wd_db w') b (ws_status res) r"
      using b(5) a(7) by (simp add: debit_outcome_def)
    then show ?thesis using a b e by (auto simp: new_bet_def intro!: exI [of _ b] exI [of _ "pb_request pb"] exI [of _ res])
  qed
qed

section \<open>Bets of other rounds\<close>

text \<open>A row that no step so far has touched, in a table with one row per id.\<close>

definition untouched :: "bet_row \<Rightarrow> db \<Rightarrow> bool" where
  "untouched b d \<longleftrightarrow> find_bet d (be_id b) = Some b \<and> distinct (map be_id (db_bets d))"

lemma upd_bet_ids [simp]: "(\<And>b. be_id (f b) = be_id b) \<Longrightarrow> map be_id (db_bets (upd_bet i f d)) = map be_id (db_bets d)"
  by (simp add: map_key_update_where)

lemma untouched_upd: "untouched b d \<Longrightarrow> (\<And>b. be_id (f b) = be_id b) \<Longrightarrow> i \<noteq> be_id b \<Longrightarrow> untouched b (upd_bet i f d)"
  unfolding untouched_def by (simp add: map_key_update_where)

lemma untouched_frame [simp]:
  "untouched b (upd_round i g d) = untouched b d" "untouched b (add_job j d) = untouched b d"
  "untouched b (add_held h d) = untouched b d" "untouched b (upd_session i k d) = untouched b d"
  "untouched b (resolve_held i now rs d) = untouched b d" "untouched b (refund_held i now rs d) = untouched b d"
  by (simp_all add: untouched_def)

lemma find_bet_distinct:
  assumes "distinct (map be_id (db_bets d))" "c \<in> set (db_bets d)"
  shows "find_bet d (be_id c) = Some c"
proof -
  obtain c' where c': "find_bet d (be_id c) = Some c'"
    using assms(2) by (cases "find_bet d (be_id c)") (auto simp: find_bet_none)
  then have "c' \<in> set (db_bets d)" "be_id c' = be_id c" by (auto simp: find_bet_def dest: find_SomeD)
  then have "c' = c" using assms by (metis distinct_map inj_onD)
  then show ?thesis using c' by simp
qed

lemma untouched_other:
  "untouched b d \<Longrightarrow> c \<in> set (db_bets d) \<Longrightarrow> be_roundId c \<noteq> be_roundId b \<Longrightarrow> be_id c \<noteq> be_id b"
  unfolding untouched_def using find_bet_distinct [of d c] by (metis option.inject)

text \<open>A property of the accumulator that every step of a fold keeps.\<close>

lemma fold_keeps:
  assumes "P x" "\<And>c x. c \<in> set cs \<Longrightarrow> P x \<Longrightarrow> P (f c x)"
  shows "P (fold f cs x)"
  using assms
proof (induction cs arbitrary: x)
  case (Cons c cs)
  show ?case unfolding fold_Cons o_def
    by (rule Cons.IH) (use Cons.prems in \<open>simp_all\<close>)
qed simp

lemma resume_one_untouched:
  "untouched b (wd_db (snd x)) \<Longrightarrow> be_id c \<noteq> be_id b \<Longrightarrow> untouched b (wd_db (snd (resume_one env now r out c x)))"
  by (auto simp: resume_one_def resume_win_def Let_def intro!: untouched_upd split: prod.splits option.splits)

lemma void_one_untouched:
  "untouched b (wd_db w) \<Longrightarrow> be_id c \<noteq> be_id b \<Longrightarrow> untouched b (wd_db (void_one env now r c w))"
  by (auto simp: void_one_def intro!: untouched_upd)

lemma resume_round_untouched:
  assumes "untouched b (wd_db w)" "ro_id r \<noteq> be_roundId b"
  shows "untouched b (wd_db (resume_round env now r w))"
proof -
  have k: "untouched b (wd_db (resume_known env now r out w))" for out
  proof -
    have "untouched b (wd_db (snd (fold (resume_one env now r out) (unresolved_bets (wd_db w) (ro_id r)) (0, w))))"
    proof (rule fold_keeps [where P = "\<lambda>x. untouched b (wd_db (snd x))"])
      fix c and x :: "micro \<times> 'a world" assume "c \<in> set (unresolved_bets (wd_db w) (ro_id r))" "untouched b (wd_db (snd x))"
      then show "untouched b (wd_db (snd (resume_one env now r out c x)))"
        using assms untouched_other [OF assms(1), of c] by (intro resume_one_untouched) (auto simp: unresolved_bets_def)
    qed (use assms in simp)
    then show ?thesis by (cases "fold (resume_one env now r out) (unresolved_bets (wd_db w) (ro_id r)) (0, w)")
      (simp add: resume_known_def)
  qed
  have "untouched b (wd_db (resume_void env now r w))"
    unfolding resume_void_def Let_def
  proof (rule fold_keeps [where P = "\<lambda>w. untouched b (wd_db w)"])
    fix c and x :: "'a world"
    assume "c \<in> set (filter (\<lambda>b. be_roundId b = ro_id r \<and> be_status b = BAccepted)
        (db_bets (wd_db (on_db (upd_round (ro_id r) (\<lambda>x. x\<lparr>ro_state := RVoided, ro_voidedAt := Some now, ro_settled := True\<rparr>)) w))))"
      "untouched b (wd_db x)"
    then show "untouched b (wd_db (void_one env now r c x))"
      using assms untouched_other [OF assms(1), of c] by (intro void_one_untouched) auto
  qed (use assms in simp)
  then show ?thesis using k by (auto simp: resume_round_def split: option.splits)
qed

lemma resume_untouched:
  assumes "untouched b (wd_db w)" "\<forall>r \<in> set (db_rounds (wd_db w)). ro_id r = be_roundId b \<longrightarrow> ro_settled r"
  shows "untouched b (wd_db (resumeUnsettledRounds env now w))"
  unfolding resumeUnsettledRounds_def Let_def using assms
  by (intro fold_keeps [where P = "\<lambda>w. untouched b (wd_db w)"] resume_round_untouched) auto

section \<open>Cash-outs\<close>

text \<open>What holds when a cash-out reaches the wallet.\<close>

lemma cashout_called:
  assumes "cashOutBet_begin env now p w = (Inr pc, w1)"
  obtains live a crash u b where
    "gp_liveCrash (en_plugin (wd_engine w)) = Some live" "en_active (wd_engine w) = Some a"
    "ar_phase a = PhRolling" "ar_outcome a = Some (CrashOutcome crash u)" "1 < crash"
    "find_bet (wd_db w) (cp_betId p) = Some b" "be_status b = BAccepted" "be_sessionId b = cp_sessionId p"
    "be_roundId b = ar_id a" "pc_bet pc = b" "pc_mode pc = cp_mode p" "pc_elapsedMs pc = now - ar_phaseStartedAt a"
    "of_int (pc_elapsedMs pc) < nullish (ar_crashAtMs a) (lv_elapsedMsForMultiplier live crash (en_gameConfig (wd_engine w)))"
    "pc_multiplier pc = cashout_multiplier (cp_forcedMultiplier p)
        (lv_multiplierAtElapsedMs live (of_int (pc_elapsedMs pc)) (en_gameConfig (wd_engine w))) crash"
    "sr_won (lv_settleCashout live (be_selection b) (be_amountMicro b) (pc_multiplier pc) (be_commissionMicro b))"
    "pc_payoutMicro pc =
        sr_payoutMicro (lv_settleCashout live (be_selection b) (be_amountMicro b) (pc_multiplier pc) (be_commissionMicro b))"
    "ww_amountMicro (pc_request pc) = pc_payoutMicro pc"
    "ww_referenceTransactionUuid (pc_request pc) = be_betTransactionUuid b"
    "wq_operatorId (pc_request pc) = be_operatorId b" "wq_playerRef (pc_request pc) = be_playerRef b"
    "ww_transactionUuid (pc_request pc) = uuid_at env w 0" "w1 = draw 2 w"
    "ww_meta (pc_request pc) = Some (JObj (obj_spread
        [(''selection'', selection_json (be_selection b)), (''cashoutMode'', JStr (mode_string (cp_mode p))),
         (''cashoutMultiplier'', JNum (pc_multiplier pc)), (''elapsedMs'', jint (pc_elapsedMs pc)),
         (''crashMultiplier'', JNum crash)]
        (case sr_winMeta (lv_settleCashout live (be_selection b) (be_amountMicro b) (pc_multiplier pc) (be_commissionMicro b)) of
           None \<Rightarrow> [] | Some m \<Rightarrow> win_meta_fields m)))"
    "be_cashoutMultiplier b = None \<or> be_cashoutPayoutMicro b = None"
    "cp_operatorId p = ec_operatorId (en_cfg (wd_engine w))" "cp_currency p = ec_currency (en_cfg (wd_engine w))"
    "\<not> truthy (cp_slotId p) \<or> lv_slotId live (be_selection b) = None \<or> cp_slotId p = map_option slot_string (lv_slotId live (be_selection b))"
  using assms
  by (auto simp: cashOutBet_begin_def Let_def not_le split: option.splits game_outcome.splits if_splits)

text \<open>The calls are decided by the state and the clock, not by the identifiers that are drawn.\<close>

lemma cashout_again:
  assumes "cashOutBet_begin env now p w = (Inr pc, w1)"
  shows "\<exists>pc' w2. cashOutBet_begin env now p w1 = (Inr pc', w2) \<and> pc_bet pc' = pc_bet pc \<and>
    wq_operatorId (pc_request pc') = wq_operatorId (pc_request pc) \<and> wq_playerRef (pc_request pc') = wq_playerRef (pc_request pc) \<and>
    pc_payoutMicro pc' = pc_payoutMicro pc \<and> ww_transactionUuid (pc_request pc') = uuid_at env w1 0 \<and>
    ww_amountMicro (pc_request pc') = ww_amountMicro (pc_request pc) \<and>
    ww_referenceTransactionUuid (pc_request pc') = ww_referenceTransactionUuid (pc_request pc)"
  using assms
proof (rule cashout_called)
  fix live a crash u b
  assume c: "gp_liveCrash (en_plugin (wd_engine w)) = Some live" "en_active (wd_engine w) = Some a"
    "ar_phase a = PhRolling" "ar_outcome a = Some (CrashOutcome crash u)" "1 < crash"
    "find_bet (wd_db w) (cp_betId p) = Some b" "be_status b = BAccepted" "be_sessionId b = cp_sessionId p"
    "be_roundId b = ar_id a" "pc_bet pc = b" "pc_elapsedMs pc = now - ar_phaseStartedAt a"
    "of_int (pc_elapsedMs pc) < nullish (ar_crashAtMs a) (lv_elapsedMsForMultiplier live crash (en_gameConfig (wd_engine w)))"
    "pc_multiplier pc = cashout_multiplier (cp_forcedMultiplier p)
        (lv_multiplierAtElapsedMs live (of_int (pc_elapsedMs pc)) (en_gameConfig (wd_engine w))) crash"
    "sr_won (lv_settleCashout live (be_selection b) (be_amountMicro b) (pc_multiplier pc) (be_commissionMicro b))"
    "pc_payoutMicro pc =
        sr_payoutMicro (lv_settleCashout live (be_selection b) (be_amountMicro b) (pc_multiplier pc) (be_commissionMicro b))"
    "ww_amountMicro (pc_request pc) = pc_payoutMicro pc"
    "ww_referenceTransactionUuid (pc_request pc) = be_betTransactionUuid b"
    "wq_operatorId (pc_request pc) = be_operatorId b" "wq_playerRef (pc_request pc) = be_playerRef b"
    "w1 = draw 2 w" "be_cashoutMultiplier b = None \<or> be_cashoutPayoutMicro b = None"
    "cp_operatorId p = ec_operatorId (en_cfg (wd_engine w))" "cp_currency p = ec_currency (en_cfg (wd_engine w))"
    "\<not> truthy (cp_slotId p) \<or> lv_slotId live (be_selection b) = None \<or> cp_slotId p = map_option slot_string (lv_slotId live (be_selection b))"
  from c(21) show ?thesis
  proof (cases "be_cashoutMultiplier b")
    case None
    then show ?thesis using c by (auto simp: cashOutBet_begin_def not_le Let_def)
  next
    case (Some m)
    then have "be_cashoutPayoutMicro b = None" using c(21) by simp
    then show ?thesis using c Some by (auto simp: cashOutBet_begin_def not_le Let_def)
  qed
qed

lemma cashout_finish_bet:
  assumes "find_bet (wd_db w) (be_id (pc_bet pc)) = Some b" "cashOutBet_finish env now pc res w = (r, w')"
  shows "r = CashoutOk (be_id (pc_bet pc)) (pc_multiplier pc) (pc_payoutMicro pc) (\<not> isSuccessOrDuplicate (ws_status res)) \<and>
     (\<exists>b'. find_bet (wd_db w') (be_id (pc_bet pc)) = Some b' \<and> be_id b' = be_id b \<and>
        be_sessionId b' = be_sessionId b \<and> be_roundId b' = be_roundId b \<and>
        be_cashoutMultiplier b' = Some (pc_multiplier pc) \<and> be_cashoutPayoutMicro b' = Some (pc_payoutMicro pc) \<and>
        be_status b' = (if isSuccessOrDuplicate (ws_status res) then BSettled else BFailed)) \<and>
     wd_engine w' = wd_engine w \<and> wd_wallet w' = wd_wallet w"
  using assms by (auto simp: cashOutBet_finish_def Let_def cashout_patch_def)

lemma cashout_multiplier_le:
  "cashout_multiplier f c m \<le> c" "cashout_multiplier f c m \<le> m" "cashout_multiplier (Some t) c m \<le> t"
  by (auto simp: cashout_multiplier_def)

section \<open>Samples\<close>

definition sample_place :: place_params where
  "sample_place = \<lparr>pp_sessionId = ''s'', pp_playerRef = ''p'', pp_operatorId = ''op'', pp_currency = ''LKR'',
     pp_amountMicro = 100, pp_selection = DiceSelection LOW, pp_autoplay = None, pp_turbo = None\<rparr>"

definition open_world :: "unit world" where
  "open_world = dice_world PhBettingOpen None []"

definition timeout_response :: wallet_response where
  "timeout_response = ok_response\<lparr>ws_status := RsTIMEOUT\<rparr>"

definition sample_pending :: "wallet_response \<Rightarrow> pending_bet" where
  "sample_pending res = projr (fst (placeBet_begin (env_with res) 5 sample_place open_world))"

lemma sample_begin:
  "placeBet_begin (env_with res) 5 sample_place open_world =
     (Inr (sample_pending res), on_db (add_bet (pb_bet (sample_pending res))) (draw 3 open_world))"
proof -
  have g: "place_gate 5 sample_place open_world = Inr (dice_active PhBettingOpen)"
    by (simp add: place_gate_def sample_place_def open_world_def dice_sample find_session_def)
  have s: "find_session (wd_db open_world) (pp_sessionId sample_place) = Some sample_session"
    by (simp add: open_world_def sample_place_def dice_sample find_session_def)
  have "checkRGLimits (wd_db open_world) sample_session (pp_amountMicro sample_place) 5
      (place_context 5 sample_place open_world i) = Inr LimitOk" for i
    by (subst sample_allowed)
      (simp_all add: place_context_def previous_bet_at_def open_world_def dice_world_def session_bets_def
        sample_place_def last_opt_def)
  then show ?thesis by (simp add: sample_pending_def placeBet_begin_def g s Let_def)
qed

definition live_config :: lempi_config where
  "live_config = \<lparr>lc_houseEdge = 0, lc_maxMultiplier = 100, lc_growthRate = 1, lc_minFlightMs = 700,
     lc_maxFlightMs = 30000, lc_botCashouts = False\<rparr>"

definition live_engine :: engine where
  "live_engine = \<lparr>en_active = Some \<lparr>ar_id = ''r'', ar_nonce = 0, ar_serverSeed = ''aa'', ar_serverSeedHash = ''bb'',
       ar_clientSeed = ''cc'', ar_phase = PhRolling, ar_phaseStartedAt = 0, ar_phaseDurationMs = 1000,
       ar_outcome = Some (CrashOutcome 5 0), ar_crashAtMs = Some 1000\<rparr>,
     en_running = True, en_plugin = lempiCrash (\<lambda>_ _. 0) (\<lambda>x. x + 1) (\<lambda>x. x - 1),
     en_cfg = dice_cfg, en_gameConfig = LempiConfig live_config\<rparr>"

definition live_bet :: bet_row where
  "live_bet = dice_bet\<lparr>be_selection := LempiSelection SlotA (Some 2)\<rparr>"

definition live_world :: "unit world" where
  "live_world = (dice_world PhRolling (Some (CrashOutcome 5 0)) [live_bet])\<lparr>wd_engine := live_engine\<rparr>"

definition live_cashout :: "cashout_mode \<Rightarrow> cashout_params" where
  "live_cashout m = \<lparr>cp_sessionId = ''s'', cp_playerRef = ''p'', cp_operatorId = ''op'', cp_currency = ''LKR'',
     cp_betId = ''b'', cp_slotId = None, cp_mode = m, cp_forcedMultiplier = None\<rparr>"

lemmas live_sample = live_world_def live_engine_def live_bet_def live_config_def live_cashout_def dice_sample

lemma live_multiplier: "multiplierAtElapsedMs (\<lambda>x. x + 1) 0 live_config = 1"
proof -
  have "jmul 1 100 = 100" "jdiv 100 100 = 1" using fl_of_int [of 100] fl_of_int [of 1] by (simp_all add: jmul_def jdiv_def)
  then show ?thesis by (simp add: multiplierAtElapsedMs_def live_config_def jmul_def [of 0] js_floor_def)
qed

text \<open>The sample bet, cashed out at take-off.\<close>

definition live_pending :: "cashout_mode \<Rightarrow> pending_cashout" where
  "live_pending m = projr (fst (cashOutBet_begin (env_with ok_response) 0 (live_cashout m) live_world))"

lemma live_called:
  "cashOutBet_begin (env_with ok_response) 0 (live_cashout m) live_world = (Inr (live_pending m), draw 2 live_world)"
  by (simp add: live_pending_def cashOutBet_begin_def live_sample find_bet_def lempiCrash_def lempi_live_def
      settleLempiCrashCashout_def truthy_def Let_def)

section \<open>Properties\<close>

text \<open>C28. Placing a bet sends a debit to the operator in exactly one situation: a round is open
  for bets, the request is for this engine's operator and currency, the stake is within the
  configured range, the session exists, is live and unexpired, and the limit enforcer
  allows the stake.\<close>

theorem placeBet_calls_wallet_iff:
  "(\<exists>pb w1. placeBet_begin env now p w = (Inr pb, w1)) \<longleftrightarrow>
   (\<exists>a s. en_active (wd_engine w) = Some a \<and> ar_phase a = PhBettingOpen \<and>
      pp_operatorId p = ec_operatorId (en_cfg (wd_engine w)) \<and> pp_currency p = ec_currency (en_cfg (wd_engine w)) \<and>
      ec_minBetMicro (en_cfg (wd_engine w)) \<le> pp_amountMicro p \<and>
      pp_amountMicro p \<le> ec_maxBetMicro (en_cfg (wd_engine w)) \<and>
      find_session (wd_db w) (pp_sessionId p) = Some s \<and> se_terminatedAt s = None \<and> now < se_expiresAt s \<and>
      checkRGLimits (wd_db w) s (pp_amountMicro p) now (place_context now p w (ar_id a)) = Inr LimitOk)"
    (is "?calls \<longleftrightarrow> ?open")
proof
  assume ?calls
  then obtain pb w1 where "placeBet_begin env now p w = (Inr pb, w1)" by blast
  then obtain a where "place_gate now p w = Inr a"
    "checkRGLimits (wd_db w) (the (find_session (wd_db w) (pp_sessionId p))) (pp_amountMicro p) now
        (place_context now p w (ar_id a)) = Inr LimitOk" by (rule begin_called)
  then show ?open using place_gate_open by fastforce
next
  assume ?open
  then obtain a s where o: "en_active (wd_engine w) = Some a" "ar_phase a = PhBettingOpen"
      "find_session (wd_db w) (pp_sessionId p) = Some s"
      "checkRGLimits (wd_db w) s (pp_amountMicro p) now (place_context now p w (ar_id a)) = Inr LimitOk"
      "place_gate now p w = Inr a"
    by (auto simp: place_gate_def Let_def)
  then show ?calls by (simp add: placeBet_begin_def Let_def)
qed

text \<open>C4. Placing a bet accounts for every debit. Either the wallet was not called and no bet, job
  or balance changed, or exactly one bet row was added for the debit that was sent, with its
  transaction and amount: accepted and held if the operator confirmed it, rejected if the
  operator cleanly refused it, and rejected with a durable rollback of that very transaction
  if the answer leaves it open whether the money moved.\<close>

theorem placeBet_accounts_for_debit:
  assumes "find_bet (wd_db w) (uuid_at env w 2) = None" "placeBet env now p w = (r, w')"
  shows "(db_bets (wd_db w') = db_bets (wd_db w) \<and> db_jobs (wd_db w') = db_jobs (wd_db w) \<and>
      wd_wallet w' = wd_wallet w \<and> (\<forall>i. r \<noteq> PlaceOk i)) \<or>
    (\<exists>b q res. ev_bet env q (wd_wallet w) = (res, wd_wallet w') \<and>
      db_bets (wd_db w') = db_bets (wd_db w) @ [b] \<and>
      wb_transactionUuid q = be_betTransactionUuid b \<and> wb_amountMicro q = be_amountMicro b \<and>
      be_amountMicro b = pp_amountMicro p \<and> be_playerRef b = pp_playerRef p \<and> wq_playerRef q = pp_playerRef p \<and>
      debit_outcome (wd_db w) (wd_db w') b (ws_status res) r)"
  using assms by (rule placeBet_cases)

theorem placeBet_accounts_for_debit_witness:
  "\<exists>b j. db_bets (wd_db (snd (placeBet (env_with timeout_response) 5 sample_place open_world))) = [b] \<and>
     be_amountMicro b = 100 \<and> be_status b = BRejected \<and>
     db_jobs (wd_db (snd (placeBet (env_with timeout_response) 5 sample_place open_world))) = [j] \<and> owes_rollback j b"
proof -
  let ?e = "env_with timeout_response"
  obtain r w' where pl: "placeBet ?e 5 sample_place open_world = (r, w')" by fastforce
  have n: "find_bet (wd_db open_world) (uuid_at ?e open_world 2) = None"
    by (simp add: open_world_def dice_world_def find_bet_def)
  have st: "ev_bet ?e q s = (timeout_response, s)" "ws_status timeout_response = RsTIMEOUT" for q s
    by (simp_all add: env_with_def timeout_response_def)
  have one: "length (db_bets (wd_db w')) = 1"
    using pl sample_begin [of timeout_response]
    by (auto simp: placeBet_def env_with_def placeBet_finish_def timeout_response_def ok_response_def
        isSuccessOrDuplicate_def isRejectStatus_def placeBet_uncertain_def Let_def open_world_def dice_world_def)
  have e: "db_bets (wd_db open_world) = []" "db_jobs (wd_db open_world) = []" by (simp_all add: open_world_def dice_world_def)
  show ?thesis
    using placeBet_accounts_for_debit [OF n pl] pl one
    by (auto simp: st e debit_outcome_def sample_place_def isSuccessOrDuplicate_def isRejectStatus_def)
qed


text \<open>A debit that is answered after its round was settled.\<close>

definition stranded_world :: "unit world" where
  "stranded_world = (let w = on_db (add_bet (pb_bet (sample_pending ok_response))) (draw 3 open_world)
     in on_db (upd_round ''r'' (close_round 8 0)) w)"


text \<open>C30. A cash-out that is paid is for an accepted bet of the session and the running round,
  happens strictly before the crash, and its multiplier exceeds neither the crash point nor
  the flight curve at that moment; the credit that is sent refers to the bet's debit and is
  at most the stake times the crash point, rounded to hundredths.\<close>

theorem cashout_bounds:
  assumes "cashOutBet_begin env now p w = (Inr pc, w1)"
    and "en_plugin (wd_engine w) = lempiCrash hmac expf logf" "en_gameConfig (wd_engine w) = LempiConfig c"
    and "1 \<le> lc_maxMultiplier c" "nullish (cp_forcedMultiplier p) 1 \<ge> 1"
    and "0 \<le> be_amountMicro (pc_bet pc)" "0 \<le> be_commissionMicro (pc_bet pc)"
  shows "\<exists>a crash u. en_active (wd_engine w) = Some a \<and> ar_phase a = PhRolling \<and>
     ar_outcome a = Some (CrashOutcome crash u) \<and>
     find_bet (wd_db w) (cp_betId p) = Some (pc_bet pc) \<and> be_status (pc_bet pc) = BAccepted \<and>
     be_sessionId (pc_bet pc) = cp_sessionId p \<and> be_roundId (pc_bet pc) = ar_id a \<and>
     of_int (now - ar_phaseStartedAt a) < nullish (ar_crashAtMs a) (elapsedMsForMultiplier logf crash c) \<and>
     pc_multiplier pc \<le> crash \<and> pc_multiplier pc \<le> multiplierAtElapsedMs expf (of_int (now - ar_phaseStartedAt a)) c \<and>
     ww_referenceTransactionUuid (pc_request pc) = be_betTransactionUuid (pc_bet pc) \<and>
     0 \<le> ww_amountMicro (pc_request pc) \<and>
     ww_amountMicro (pc_request pc) \<le> be_amountMicro (pc_bet pc) * js_round (jmul crash 100) div 100"
  using assms(1)
proof (rule cashout_called)
  fix live a crash u b
  assume c: "gp_liveCrash (en_plugin (wd_engine w)) = Some live" "en_active (wd_engine w) = Some a"
    "ar_phase a = PhRolling" "ar_outcome a = Some (CrashOutcome crash u)" "1 < crash"
    "find_bet (wd_db w) (cp_betId p) = Some b" "be_status b = BAccepted" "be_sessionId b = cp_sessionId p"
    "be_roundId b = ar_id a" "pc_bet pc = b" "pc_elapsedMs pc = now - ar_phaseStartedAt a"
    "of_int (pc_elapsedMs pc) < nullish (ar_crashAtMs a) (lv_elapsedMsForMultiplier live crash (en_gameConfig (wd_engine w)))"
    "pc_multiplier pc = cashout_multiplier (cp_forcedMultiplier p)
        (lv_multiplierAtElapsedMs live (of_int (pc_elapsedMs pc)) (en_gameConfig (wd_engine w))) crash"
    "sr_won (lv_settleCashout live (be_selection b) (be_amountMicro b) (pc_multiplier pc) (be_commissionMicro b))"
    "pc_payoutMicro pc =
        sr_payoutMicro (lv_settleCashout live (be_selection b) (be_amountMicro b) (pc_multiplier pc) (be_commissionMicro b))"
    "ww_amountMicro (pc_request pc) = pc_payoutMicro pc"
    "ww_referenceTransactionUuid (pc_request pc) = be_betTransactionUuid b"
  have live: "live = lempi_live expf logf" using c(1) assms(2) by (simp add: lempiCrash_def)
  let ?cur = "multiplierAtElapsedMs expf (of_int (now - ar_phaseStartedAt a)) c"
  have mult: "pc_multiplier pc = cashout_multiplier (cp_forcedMultiplier p) ?cur crash"
    using c(13) assms(3) by (simp add: c(11) live lempi_live_def)
  have "1 \<le> ?cur" using assms(4) by (simp add: multiplierAtElapsedMs_def Let_def)
  then have "0 \<le> pc_multiplier pc"
    using assms(5) c(5) by (cases "cp_forcedMultiplier p") (auto simp: mult cashout_multiplier_def)
  moreover have le: "pc_multiplier pc \<le> crash" "pc_multiplier pc \<le> ?cur"
    by (simp_all add: mult cashout_multiplier_le)
  moreover have pay: "pc_payoutMicro pc = payoutAtMultiplier (be_amountMicro b) (pc_multiplier pc) (be_commissionMicro b)"
    using c(14,15) by (auto simp: live lempi_live_def settleLempiCrashCashout_def lost_def split: bet_selection.splits)
  ultimately have "pc_payoutMicro pc \<le> be_amountMicro b * js_round (jmul crash 100) div 100"
    using payoutAtMultiplier_capped assms(6,7) c(10) by simp
  moreover have "0 \<le> pc_payoutMicro pc" by (simp add: pay payoutAtMultiplier_nonneg)
  moreover have "of_int (now - ar_phaseStartedAt a) < nullish (ar_crashAtMs a) (elapsedMsForMultiplier logf crash c)"
    using c(11,12) assms(3) by (simp add: live lempi_live_def)
  ultimately show ?thesis using c(2-4,6-10,16,17) le by simp
qed

lemmas live_defs = live_sample find_bet_def lempiCrash_def lempi_live_def settleLempiCrashCashout_def
  cashOutBet_begin_def live_pending_def

lemma live_pending_bet: "pc_bet (live_pending m) = live_bet"
  using live_called [of m] by (rule cashout_called) (auto simp: live_sample find_bet_def)

theorem cashout_bounds_witness:
  "ww_amountMicro (pc_request (live_pending MANUAL)) \<le> 100 * js_round (jmul 5 100) div 100"
  using cashout_bounds [OF live_called [of MANUAL], of "\<lambda>_ _. 0" "\<lambda>x. x + 1" "\<lambda>x. x - 1" live_config]
  by (simp add: live_pending_bet live_sample)

text \<open>A cash-out is answered once: after it has been recorded, asking again (the retry of a
  client that lost the answer, or the automatic cash-out of the same bet) returns the
  recorded multiplier and payout, calls no wallet and changes nothing.\<close>

theorem cashout_retry_idempotent:
  assumes "cashOutBet_begin env now p w = (Inr pc, w1)" "wd_engine w2 = wd_engine w"
    and "find_bet (wd_db w2) (cp_betId p) = Some (pc_bet pc)"
    and "cashOutBet_finish env now2 pc res w2 = (r, w3)"
  shows "cashOutBet env' now3 p w3 =
     (CashoutOk (cp_betId p) (pc_multiplier pc) (pc_payoutMicro pc) (\<not> isSuccessOrDuplicate (ws_status res)), w3)"
  using assms(1)
proof (rule cashout_called)
  fix live a crash u b
  assume c: "gp_liveCrash (en_plugin (wd_engine w)) = Some live" "en_active (wd_engine w) = Some a"
    "ar_phase a = PhRolling" "ar_outcome a = Some (CrashOutcome crash u)"
    "be_sessionId b = cp_sessionId p" "be_roundId b = ar_id a" "pc_bet pc = b"
    "cp_operatorId p = ec_operatorId (en_cfg (wd_engine w))" "cp_currency p = ec_currency (en_cfg (wd_engine w))"
  have i: "be_id b = cp_betId p" using assms(3) c(7) find_bet_id by simp
  obtain b' where b': "find_bet (wd_db w3) (cp_betId p) = Some b'" "be_id b' = cp_betId p"
    "be_sessionId b' = cp_sessionId p" "be_roundId b' = ar_id a" "be_cashoutMultiplier b' = Some (pc_multiplier pc)"
    "be_cashoutPayoutMicro b' = Some (pc_payoutMicro pc)"
    "be_status b' = (if isSuccessOrDuplicate (ws_status res) then BSettled else BFailed)" "wd_engine w3 = wd_engine w"
    using cashout_finish_bet [of w2 pc b env now2 res r w3] assms(2-4) c i by auto
  then show ?thesis using c by (simp add: cashOutBet_def cashOutBet_begin_def Let_def)
qed

theorem cashout_retry_idempotent_witness:
  "fst (cashOutBet (env_with timeout_response) 400 (live_cashout MANUAL)
     (snd (cashOutBet_finish (env_with ok_response) 1 (live_pending MANUAL) ok_response (draw 2 live_world)))) =
   CashoutOk ''b'' (pc_multiplier (live_pending MANUAL)) (pc_payoutMicro (live_pending MANUAL)) False"
proof -
  obtain r w3 where f: "cashOutBet_finish (env_with ok_response) 1 (live_pending MANUAL) ok_response (draw 2 live_world) = (r, w3)"
    by fastforce
  have "find_bet (wd_db (draw 2 live_world)) (cp_betId (live_cashout MANUAL)) = Some (pc_bet (live_pending MANUAL))"
    by (simp add: live_pending_bet live_sample find_bet_def)
  from cashout_retry_idempotent [OF live_called _ this f, of "env_with timeout_response" 400]
  show ?thesis using f by (simp add: live_cashout_def isSuccessOrDuplicate_def ok_response_def)
qed

text \<open>C36. Nothing reserves a bet while its cash-out is at the wallet: a second request for the same
  bet that arrives before the first is recorded sends a second credit, for the same debit and
  amount but under another transaction, and the in-process wallet pays both.\<close>

theorem double_cashout_paid_twice:
  assumes "cashOutBet_begin env now p w = (Inr pc, w1)" "inj (ev_uuid env)"
    and "iw_committedTxs v (uuid_at env w 0) = None" "iw_committedTxs v (uuid_at env w 2) = None"
  shows "\<exists>pc' w2. cashOutBet_begin env now p w1 = (Inr pc', w2) \<and>
     ww_referenceTransactionUuid (pc_request pc') = ww_referenceTransactionUuid (pc_request pc) \<and>
     ww_transactionUuid (pc_request pc') \<noteq> ww_transactionUuid (pc_request pc) \<and>
     (let k = iw_key (wq_operatorId (pc_request pc)) (wq_playerRef (pc_request pc)) in
      iw_funds (iw_run v [WWin (pc_request pc), WWin (pc_request pc')]) k =
        iw_funds v k + 2 * ww_amountMicro (pc_request pc))"
proof -
  have w1: "w1 = draw 2 w" "ww_transactionUuid (pc_request pc) = uuid_at env w 0"
    using assms(1) by (auto elim: cashout_called)
  obtain pc' w2 where c: "cashOutBet_begin env now p w1 = (Inr pc', w2)" "pc_bet pc' = pc_bet pc"
    "ww_transactionUuid (pc_request pc') = uuid_at env w 2"
    "ww_amountMicro (pc_request pc') = ww_amountMicro (pc_request pc)"
    "ww_referenceTransactionUuid (pc_request pc') = ww_referenceTransactionUuid (pc_request pc)"
    "wq_operatorId (pc_request pc') = wq_operatorId (pc_request pc)" "wq_playerRef (pc_request pc') = wq_playerRef (pc_request pc)"
    using cashout_again [OF assms(1)] w1(1) by (auto simp: uuid_at_def)
  have ne: "uuid_at env w 2 \<noteq> uuid_at env w 0" using assms(2) by (simp add: uuid_at_def inj_eq)
  let ?v = "snd (iw_win v (pc_request pc))"
  have "iw_committedTxs ?v (ww_transactionUuid (pc_request pc')) = None"
    using assms(3,4) ne c(3) w1(2) by (simp add: iw_win_new)
  then show ?thesis
    using c ne w1(2) assms(3) iw_win_new(1) [of v "pc_request pc"] iw_win_new(1) [of ?v "pc_request pc'"]
    by (auto simp: Let_def)
qed

theorem double_cashout_paid_twice_witness:
  "\<exists>pc' w2. cashOutBet_begin (env_with ok_response) 0 (live_cashout MANUAL) (draw 2 live_world) = (Inr pc', w2) \<and>
     iw_funds (iw_run sample_wallet [WWin (pc_request (live_pending MANUAL)), WWin (pc_request pc')]) ''op::p''
       = 100 + 2 * ww_amountMicro (pc_request (live_pending MANUAL))"
proof -
  have i: "inj (ev_uuid (env_with ok_response))"
    by (auto simp: inj_def env_with_def)
  have k: "iw_key (wq_operatorId (pc_request (live_pending m))) (wq_playerRef (pc_request (live_pending m))) = ''op::p''" for m
    using live_called [of m] by (rule cashout_called) (auto simp: live_sample find_bet_def iw_key_def)
  have f: "iw_funds sample_wallet ''op::p'' = 100" "iw_committedTxs sample_wallet t = None" for t
    by (simp_all add: sample_defs iw_funds_def)
  show ?thesis
    using double_cashout_paid_twice [OF live_called [of MANUAL] i, of sample_wallet] by (auto simp: f k Let_def)
qed

text \<open>An automatic cash-out is reported to the operator as a manual one: the mode that the
  plugin's settlement writes into the metadata of the credit replaces the mode of the
  request, and the plugin always writes manual.\<close>

theorem auto_cashout_reported_manual:
  assumes "cashOutBet_begin env now p w = (Inr pc, w1)"
    and "en_plugin (wd_engine w) = lempiCrash hmac expf logf" "cp_mode p = AUTO"
  shows "pc_mode pc = AUTO \<and>
     (\<exists>fields. ww_meta (pc_request pc) = Some (JObj fields) \<and> map_of fields ''cashoutMode'' = Some (JStr ''MANUAL''))"
  using assms(1)
proof (rule cashout_called)
  fix live a crash u b
  assume c: "gp_liveCrash (en_plugin (wd_engine w)) = Some live" "pc_mode pc = cp_mode p" "pc_bet pc = b"
    "sr_won (lv_settleCashout live (be_selection b) (be_amountMicro b) (pc_multiplier pc) (be_commissionMicro b))"
    "ww_meta (pc_request pc) = Some (JObj (obj_spread
        [(''selection'', selection_json (be_selection b)), (''cashoutMode'', JStr (mode_string (cp_mode p))),
         (''cashoutMultiplier'', JNum (pc_multiplier pc)), (''elapsedMs'', jint (pc_elapsedMs pc)),
         (''crashMultiplier'', JNum crash)]
        (case sr_winMeta (lv_settleCashout live (be_selection b) (be_amountMicro b) (pc_multiplier pc) (be_commissionMicro b)) of
           None \<Rightarrow> [] | Some m \<Rightarrow> win_meta_fields m)))"
  have live: "live = lempi_live expf logf" using c(1) assms(2) by (simp add: lempiCrash_def)
  obtain s t where sel: "be_selection b = LempiSelection s t"
    using c(4) by (cases "be_selection b") (simp_all add: live lempi_live_def lost_def)
  show ?thesis
    using c(2,5) assms(3) by (simp add: live lempi_live_def sel settleLempiCrashCashout_def obj_spread_def)
qed

theorem auto_cashout_reported_manual_witness:
  "\<exists>fields. ww_meta (pc_request (live_pending AUTO)) = Some (JObj fields) \<and>
     map_of fields ''cashoutMode'' = Some (JStr ''MANUAL'')"
  using auto_cashout_reported_manual [OF live_called [of AUTO], of "\<lambda>_ _. 0" "\<lambda>x. x + 1" "\<lambda>x. x - 1"]
  by (simp add: live_sample)

end
