(* ===== verification/Sessions.thy ===== *)
theory Sessions
  imports Db RngCore
begin

text \<open>
  Player sessions (\<^verbatim>\<open>apps/rgs-server/src/services/SessionService.ts\<close>) and the disclosure of
  a round's seed (\<^verbatim>\<open>apps/rgs-server/src/services/ProofService.ts\<close>). The two token signers are
  third-party code and parameters; so is the serialiser of the launch URL's query.
\<close>

section \<open>Creating a session\<close>

text \<open>A number that may be infinite or not a number.\<close>

datatype js_number = Finite jsnum | NotFinite

record create_session_input =
  ci_operatorId :: uuid
  ci_playerRef :: string
  ci_gameCode :: string
  ci_currency :: string
  ci_lang :: string
  ci_jurisdiction :: string
  ci_mode :: "session_mode option"
  ci_returnUrl :: "string option"
  ci_clientSeed :: "string option"
  ci_rgLimits :: "json option"
  ci_ttlSeconds :: "js_number option"

definition DEFAULT_SESSION_TTL_SECONDS :: int where "DEFAULT_SESSION_TTL_SECONDS = 4 * 60 * 60"
definition MIN_SESSION_TTL_SECONDS :: int where "MIN_SESSION_TTL_SECONDS = 5 * 60"
definition MAX_SESSION_TTL_SECONDS :: int where "MAX_SESSION_TTL_SECONDS = 8 * 60 * 60"

definition normaliseSessionTtlSeconds :: "js_number option \<Rightarrow> int" where
  "normaliseSessionTtlSeconds ttlSeconds =
     (case ttlSeconds of
        None \<Rightarrow> DEFAULT_SESSION_TTL_SECONDS
      | Some NotFinite \<Rightarrow> DEFAULT_SESSION_TTL_SECONDS
      | Some (Finite x) \<Rightarrow> min MAX_SESSION_TTL_SECONDS (max MIN_SESSION_TTL_SECONDS \<lfloor>x\<rfloor>))"

record session_claims =
  sc_sub :: string
  sc_sessionId :: uuid
  sc_operatorId :: uuid
  sc_playerRef :: string
  sc_gameCode :: string
  sc_currency :: string
  sc_jurisdiction :: string
  sc_lang :: string
  sc_mode :: session_mode
  sc_rgLimits :: "json option"

record created_session =
  cs_sessionId :: uuid
  cs_sessionToken :: string
  cs_launchJwt :: string
  cs_launchUrl :: string
  cs_expiresAt :: string
  cs_serverSeedHash :: string

definition session_claims_of :: "session_row \<Rightarrow> json option \<Rightarrow> session_claims" where
  "session_claims_of s limits =
     \<lparr>sc_sub = se_id s, sc_sessionId = se_id s, sc_operatorId = se_operatorId s, sc_playerRef = se_playerRef s,
      sc_gameCode = se_gameCode s, sc_currency = se_currency s, sc_jurisdiction = se_jurisdiction s,
      sc_lang = se_lang s, sc_mode = (if se_mode s = DEMO then Demo else Real), sc_rgLimits = limits\<rparr>"

text \<open>The row: \<open>sessionId\<close> is what the store gives, the two random strings are the runtime's.\<close>

definition new_session ::
    "sha_fun \<Rightarrow> uuid \<Rightarrow> string \<Rightarrow> string \<Rightarrow> msec \<Rightarrow> create_session_input \<Rightarrow> session_row" where
  "new_session sha256 sessionId random1 random2 now i =
     (let seeds = generateSeedPair sha256 random1 in
      \<lparr>se_id = sessionId, se_operatorId = ci_operatorId i, se_playerRef = ci_playerRef i,
       se_gameCode = ci_gameCode i, se_currency = ci_currency i, se_lang = ci_lang i,
       se_jurisdiction = ci_jurisdiction i, se_mode = (if ci_mode i = Some Demo then DEMO else REAL),
       se_rgLimits = nullish (ci_rgLimits i) JNull, se_returnUrl = ci_returnUrl i,
       se_serverSeed = sp_serverSeed seeds, se_serverSeedHash = sp_serverSeedHash seeds,
       se_clientSeed = nullish (ci_clientSeed i) (generateClientSeed random2), se_nonce = 0,
       se_createdAt = now, se_expiresAt = now + normaliseSessionTtlSeconds (ci_ttlSeconds i) * 1000,
       se_terminatedAt = None, se_terminationReason = None\<rparr>)"

record session_env =
  sv_sha256 :: sha_fun
  sv_signSessionToken :: "session_claims \<Rightarrow> int \<Rightarrow> string"
  sv_signLaunchJwt :: "uuid \<Rightarrow> session_claims \<Rightarrow> int \<Rightarrow> string"
  sv_urlParams :: "(string \<times> string) list \<Rightarrow> string"
  sv_gameClientBaseUrl :: string

definition create_session ::
    "session_env \<Rightarrow> uuid \<Rightarrow> string \<Rightarrow> string \<Rightarrow> msec \<Rightarrow> create_session_input \<Rightarrow> db \<Rightarrow> created_session \<times> db" where
  "create_session env sessionId random1 random2 now i d =
     (let ttl = normaliseSessionTtlSeconds (ci_ttlSeconds i);
          s = new_session (sv_sha256 env) sessionId random1 random2 now i;
          claims = session_claims_of s (ci_rgLimits i);
          token = sv_signSessionToken env claims ttl
      in (\<lparr>cs_sessionId = se_id s, cs_sessionToken = token,
           cs_launchJwt = sv_signLaunchJwt env (se_operatorId s) claims ttl,
           cs_launchUrl = sv_gameClientBaseUrl env @ ''/?'' @ sv_urlParams env
             [(''sessionToken'', token), (''sessionId'', se_id s), (''lang'', se_lang s),
              (''operatorId'', se_operatorId s), (''currency'', se_currency s),
              (''gameCode'', se_gameCode s), (''jurisdiction'', se_jurisdiction s)],
           cs_expiresAt = toISOString (se_expiresAt s), cs_serverSeedHash = se_serverSeedHash s\<rparr>,
          d\<lparr>db_sessions := db_sessions d @ [s]\<rparr>))"

section \<open>Reading, ending, rotating\<close>

text \<open>An absent or empty operator id does not restrict the lookup; the three branches return the row alike.\<close>

definition scoped :: "uuid option \<Rightarrow> uuid \<Rightarrow> bool" where
  "scoped operatorId owner = (case operatorId of None \<Rightarrow> True | Some opid \<Rightarrow> opid = [] \<or> owner = opid)"

definition getActive :: "db \<Rightarrow> uuid \<Rightarrow> uuid option \<Rightarrow> msec \<Rightarrow> session_row option" where
  "getActive d sessionId operatorId now =
     (case find_session d sessionId of
        None \<Rightarrow> None
      | Some s \<Rightarrow>
          if \<not> scoped operatorId (se_operatorId s) then None
          else if se_terminatedAt s \<noteq> None then Some s
          else if se_expiresAt s < now then Some s
          else Some s)"

text \<open>The third component is the event for the webhook dispatcher.\<close>

definition terminate ::
    "db \<Rightarrow> uuid \<Rightarrow> string \<Rightarrow> uuid option \<Rightarrow> msec \<Rightarrow> bool \<times> db \<times> (string \<times> json) list" where
  "terminate d sessionId reason operatorId now =
     (case find_session d sessionId of
        None \<Rightarrow> (False, d, [])
      | Some s \<Rightarrow>
          if \<not> scoped operatorId (se_operatorId s) then (False, d, [])
          else if se_terminatedAt s \<noteq> None then (True, d, [])
          else (True,
                upd_session sessionId (\<lambda>x. x\<lparr>se_terminatedAt := Some now,
                  se_terminationReason := Some (str_slice 0 64 reason)\<rparr>) d,
                [(''session.terminated'', JObj [(''sessionId'', JStr sessionId),
                   (''playerRef'', JStr (se_playerRef s)), (''terminatedAt'', JStr (toISOString now)),
                   (''reason'', JStr (str_slice 0 64 reason))])]))"

definition rotateSeed ::
    "sha_fun \<Rightarrow> db \<Rightarrow> uuid \<Rightarrow> string option \<Rightarrow> string \<Rightarrow> (string \<times> string) option \<times> db" where
  "rotateSeed sha256 d sessionId newClientSeed random =
     (case find_session d sessionId of
        None \<Rightarrow> (None, d)
      | Some s \<Rightarrow>
          (let seeds = generateSeedPair sha256 random
           in (Some (se_serverSeed s, sp_serverSeedHash seeds),
               upd_session sessionId (\<lambda>x. x\<lparr>se_serverSeed := sp_serverSeed seeds,
                 se_serverSeedHash := sp_serverSeedHash seeds,
                 se_clientSeed := nullish newClientSeed (se_clientSeed s), se_nonce := 0\<rparr>) d)))"

section \<open>Proofs of rounds\<close>

record round_proof =
  rp_roundId :: uuid
  rp_state :: round_state
  rp_nonce :: int
  rp_rngVersion :: string
  rp_buildHash :: "string option"
  rp_clientSeed :: string
  rp_serverSeedHash :: string
  rp_serverSeed :: "string option"
  rp_outcomeType :: "string option"
  rp_outcome :: "game_outcome option"

definition round_terminal :: "round_row \<Rightarrow> bool" where
  "round_terminal r \<longleftrightarrow> ro_state r = RSettled \<or> ro_state r = RVoided"

definition forRound :: "db \<Rightarrow> uuid \<Rightarrow> uuid option \<Rightarrow> round_proof option" where
  "forRound d roundId operatorId =
     (case find_round d roundId of
        None \<Rightarrow> None
      | Some r \<Rightarrow>
          if \<not> scoped operatorId (ro_operatorId r) then None
          else Some \<lparr>rp_roundId = ro_id r, rp_state = ro_state r, rp_nonce = ro_nonce r,
                     rp_rngVersion = ro_rngVersion r, rp_buildHash = ro_buildHash r,
                     rp_clientSeed = ro_clientSeed r, rp_serverSeedHash = ro_serverSeedHash r,
                     rp_serverSeed = (if round_terminal r then Some (ro_serverSeed r) else None),
                     rp_outcomeType = ro_outcomeType r, rp_outcome = ro_outcomeData r\<rparr>)"

section \<open>Lemmas\<close>

lemma scoped_None [simp]: "scoped None owner"
  by (simp add: scoped_def)

lemma ttl_bounds: "300 \<le> normaliseSessionTtlSeconds t \<and> normaliseSessionTtlSeconds t \<le> 28800"
  by (auto simp: normaliseSessionTtlSeconds_def DEFAULT_SESSION_TTL_SECONDS_def MIN_SESSION_TTL_SECONDS_def
      MAX_SESSION_TTL_SECONDS_def split: option.splits js_number.splits)

lemma find_session_upd [simp]:
  "(\<And>s. se_id (f s) = se_id s) \<Longrightarrow>
   find_session (upd_session i f d) j = (if j = i then map_option f (find_session d j) else find_session d j)"
  by (simp add: find_session_def find_update_where_key)

text \<open>The published hash commits to the stored seed, for sessions and for rounds.\<close>

definition session_committed :: "sha_fun \<Rightarrow> session_row \<Rightarrow> bool" where
  "session_committed sha256 s \<longleftrightarrow> se_serverSeedHash s = digest_hex (sha256 (se_serverSeed s))"

definition round_committed :: "sha_fun \<Rightarrow> round_row \<Rightarrow> bool" where
  "round_committed sha256 r \<longleftrightarrow> ro_serverSeedHash r = digest_hex (sha256 (ro_serverSeed r))"

definition committed :: "sha_fun \<Rightarrow> db \<Rightarrow> bool" where
  "committed sha256 d \<longleftrightarrow>
     list_all (session_committed sha256) (db_sessions d) \<and> list_all (round_committed sha256) (db_rounds d)"

lemma list_all_update_where:
  "list_all P t \<Longrightarrow> (\<And>r. P r \<Longrightarrow> P (f r)) \<Longrightarrow> list_all P (update_where p f t)"
  by (induction t) auto

lemma new_session_committed: "session_committed sha256 (new_session sha256 i r1 r2 now inp)"
  by (simp add: session_committed_def new_session_def generateSeedPair_def Let_def)

lemma create_session_committed:
  "committed (sv_sha256 env) d \<Longrightarrow> committed (sv_sha256 env) (snd (create_session env i r1 r2 now inp d))"
  by (simp add: committed_def create_session_def Let_def new_session_committed)

lemma terminate_committed: "committed sha256 d \<Longrightarrow> committed sha256 (fst (snd (terminate d i reason opid now)))"
  by (auto simp: committed_def terminate_def session_committed_def intro!: list_all_update_where split: option.splits)

lemma rotate_committed: "committed sha256 d \<Longrightarrow> committed sha256 (snd (rotateSeed sha256 d i c random))"
  by (auto simp: committed_def rotateSeed_def session_committed_def generateSeedPair_def Let_def
      intro!: list_all_update_where split: option.splits)

lemma find_round_committed: "committed sha256 d \<Longrightarrow> find_round d i = Some r \<Longrightarrow> round_committed sha256 r"
  by (auto simp: committed_def list_all_iff find_round_def dest: find_SomeD)

section \<open>A property\<close>

text \<open>Every session the service creates lives between five minutes and eight hours, starts
  with a seed whose hash was handed out, and ending it is final: once terminated its
  end and reason never change, whatever is asked of the service afterwards.\<close>

theorem session_lifetime:
  assumes "find_session d i = None" "create_session env i r1 r2 now inp d = (c, d')"
  shows "(\<exists>s. find_session d' i = Some s \<and> now + 300000 \<le> se_expiresAt s \<and> se_expiresAt s \<le> now + 28800000 \<and>
      verifyServerSeed (sv_sha256 env) (se_serverSeed s) (cs_serverSeedHash c)) \<and>
    (let d1 = fst (snd (terminate d' i reason None t1)) in
      \<exists>s. find_session d1 i = Some s \<and> se_terminatedAt s = Some t1 \<and>
        se_terminationReason s = Some (take 64 reason) \<and>
        terminate d1 i reason2 opid2 t2 = (scoped opid2 (se_operatorId s), d1, []))"
proof -
  have id: "se_id (new_session (sv_sha256 env) i r1 r2 now inp) = i"
    by (simp add: new_session_def Let_def)
  have f: "find_session d' i = Some (new_session (sv_sha256 env) i r1 r2 now inp)"
    using assms id by (auto simp: create_session_def Let_def find_session_def find_append_row split: option.splits)
  have "verifyServerSeed sha256 seed (digest_hex (sha256 seed))" for sha256 seed
    by (simp add: verifyServerSeed_def Let_def)
  then have a: "now + 300000 \<le> se_expiresAt (new_session (sv_sha256 env) i r1 r2 now inp) \<and>
      se_expiresAt (new_session (sv_sha256 env) i r1 r2 now inp) \<le> now + 28800000 \<and>
      verifyServerSeed (sv_sha256 env) (se_serverSeed (new_session (sv_sha256 env) i r1 r2 now inp)) (cs_serverSeedHash c)"
    using assms(2) ttl_bounds [of "ci_ttlSeconds inp"]
    by (auto simp: create_session_def new_session_def generateSeedPair_def Let_def)
  have n: "se_terminatedAt (new_session (sv_sha256 env) i r1 r2 now inp) = None"
    by (simp add: new_session_def Let_def)
  show ?thesis using f a n by (auto simp: terminate_def str_slice_def Let_def)
qed

definition sample_input :: create_session_input where
  "sample_input = \<lparr>ci_operatorId = ''op'', ci_playerRef = ''p'', ci_gameCode = ''dice'', ci_currency = ''LKR'',
     ci_lang = ''en'', ci_jurisdiction = ''INTL'', ci_mode = None, ci_returnUrl = None, ci_clientSeed = None,
     ci_rgLimits = None, ci_ttlSeconds = Some (Finite (1 / 2))\<rparr>"

definition sample_session_env :: session_env where
  "sample_session_env = \<lparr>sv_sha256 = (\<lambda>_. 0), sv_signSessionToken = (\<lambda>_ _. ''t''),
     sv_signLaunchJwt = (\<lambda>_ _ _. ''j''), sv_urlParams = (\<lambda>_. []), sv_gameClientBaseUrl = ''http''\<rparr>"

theorem session_lifetime_witness:
  "\<exists>s. find_session (snd (create_session sample_session_env ''s'' ''aa'' ''bb'' 7 sample_input
      \<lparr>db_sessions = [], db_rounds = [], db_bets = [], db_held = [], db_jobs = []\<rparr>)) ''s'' = Some s \<and>
     300007 \<le> se_expiresAt s \<and> se_expiresAt s \<le> 28800007"
proof -
  let ?d = "\<lparr>db_sessions = [], db_rounds = [], db_bets = [], db_held = [], db_jobs = []\<rparr>"
  obtain c d' where c: "create_session sample_session_env ''s'' ''aa'' ''bb'' 7 sample_input ?d = (c, d')" by fastforce
  have "find_session ?d ''s'' = None" by (simp add: find_session_def)
  from session_lifetime [OF this c, THEN conjunct1] show ?thesis by (auto simp: c)
qed

end
