(* ===== verification/Fairness.thy ===== *)
theory Fairness
  imports Settlement Sessions
begin

text \<open>
  Commit and reveal across rounds: the seeds that the engine's rounds take from its session,
  the proof that is published for a round, the replay that
  \<^verbatim>\<open>apps/rgs-server/src/routes/rounds.ts\<close> computes for it, and what the proof of one round says
  about the next.
\<close>

section \<open>The replay of a round\<close>

text \<open>
  The independent recomputation in the replay bundle: with the seed, once it is revealed, and
  with the game's configuration as it is stored now (\<open>None\<close> when there is none, or when it
  no longer parses). \<open>Inl\<close> is an exception of the plugin.
\<close>

definition replay_seed :: "round_row \<Rightarrow> string option" where
  "replay_seed r = (if round_terminal r then Some (ro_serverSeed r) else None)"

definition recomputedOutcome ::
    "game_plugin option \<Rightarrow> json option \<Rightarrow> round_row \<Rightarrow> game_error + (string \<times> game_outcome \<times> bool) option" where
  "recomputedOutcome plugin configJson r =
     (case (replay_seed r, configJson, ro_outcomeData r, ro_outcomeType r, plugin) of
        (Some seed, Some cj, Some out, Some ty, Some pl) \<Rightarrow>
          if seed = [] \<or> ty = [] then Inr None
          else (case gp_configSchema pl cj of
                  None \<Rightarrow> Inr None
                | Some cfg \<Rightarrow>
                    (case gp_verifyOutcome pl \<lparr>rc_serverSeed = seed, rc_clientSeed = ro_clientSeed r,
                          rc_nonce = of_int (ro_nonce r)\<rparr> cfg out of
                       Inl e \<Rightarrow> Inl e
                     | Inr b \<Rightarrow> Inr (Some (ty, out, b))))
      | _ \<Rightarrow> Inr None)"

section \<open>One round, from opening to settlement\<close>

lemma settle_one_rows:
  "wd_engine (snd (settle_one env now r out b x)) = wd_engine (snd x) \<and>
   db_sessions (wd_db (snd (settle_one env now r out b x))) = db_sessions (wd_db (snd x)) \<and>
   db_rounds (wd_db (snd (settle_one env now r out b x))) = db_rounds (wd_db (snd x))"
  using settle_one_frame [of b "snd x" env now r out "fst x"] by (simp add: settles_only_def)

lemma fold_settle_rows:
  "wd_engine (snd (fold (settle_one env now r out) bets x)) = wd_engine (snd x) \<and>
   db_sessions (wd_db (snd (fold (settle_one env now r out) bets x))) = db_sessions (wd_db (snd x)) \<and>
   db_rounds (wd_db (snd (fold (settle_one env now r out) bets x))) = db_rounds (wd_db (snd x))"
  by (induction bets arbitrary: x) (simp_all add: settle_one_rows)

lemma engine_set_phase [simp]:
  "en_cfg (wd_engine (set_phase ph w)) = en_cfg (wd_engine w)"
  "en_plugin (wd_engine (set_phase ph w)) = en_plugin (wd_engine w)"
  "en_gameConfig (wd_engine (set_phase ph w)) = en_gameConfig (wd_engine w)"
  by (simp_all add: set_phase_def)

lemma engine_set_active [simp]:
  "en_cfg (wd_engine (set_active a w)) = en_cfg (wd_engine w)"
  "en_plugin (wd_engine (set_active a w)) = en_plugin (wd_engine w)"
  "en_gameConfig (wd_engine (set_active a w)) = en_gameConfig (wd_engine w)"
  "en_active (wd_engine (set_active a w)) = a"
  by (simp_all add: set_active_def)

definition round_ids :: "'s world \<Rightarrow> uuid list" where
  "round_ids w = map ro_id (db_rounds (wd_db w))"

lemma round_ids_upd [simp]:
  "(\<And>r. ro_id (g r) = ro_id r) \<Longrightarrow> map ro_id (update_where p g t) = map ro_id t"
  by (rule map_key_update_where)

lemma find_round_none: "find_round (wd_db w) i = None \<longleftrightarrow> i \<notin> set (round_ids w)"
  by (auto simp: find_round_def find_None_iff round_ids_def)

lemma settle_rows:
  assumes "en_active (wd_engine w) = Some a" "find_round (wd_db w) (ar_id a) = Some r"
    and "ro_outcomeData r = Some out" "ro_outcomeType r = Some ty" "ty \<noteq> []"
  shows "\<exists>t. find_round (wd_db (settle env now w)) (ar_id a) = Some (close_round now t r) \<and>
     db_sessions (wd_db (settle env now w)) = db_sessions (wd_db w) \<and> round_ids (settle env now w) = round_ids w \<and>
     en_cfg (wd_engine (settle env now w)) = en_cfg (wd_engine w) \<and>
     en_plugin (wd_engine (settle env now w)) = en_plugin (wd_engine w) \<and>
     en_gameConfig (wd_engine (settle env now w)) = en_gameConfig (wd_engine w)"
proof -
  have id: "ro_id r = ar_id a" using assms(2) by (auto simp: find_round_def dest: find_SomeD)
  obtain t w1 where f: "fold (settle_one env now r out) (accepted_bets (wd_db w) (ro_id r))
      (precashed_total (wd_db w) (ro_id r), w) = (t, w1)" by fastforce
  note rows = fold_settle_rows [of env now r out "accepted_bets (wd_db w) (ro_id r)"
      "(precashed_total (wd_db w) (ro_id r), w)", unfolded f]
  have "find_round (wd_db w1) (ar_id a) = Some r" using rows assms(2) by (simp add: find_round_def)
  then show ?thesis
    using assms rows f id by (intro exI [of _ t]) (simp add: settle_def find_round_upd round_ids_def)
qed

text \<open>The engine's session, as the next round will find it.\<close>

definition engine_session :: "'s world \<Rightarrow> session_row option" where
  "engine_session w = find (\<lambda>s. se_operatorId s = ec_operatorId (en_cfg (wd_engine w)) \<and>
     se_playerRef s = engine_player (wd_engine w) \<and> se_terminatedAt s = None) (db_sessions (wd_db w))"

text \<open>Creating a round while the session is alive: the row, and the session's next nonce.\<close>

definition created :: "'s env \<Rightarrow> msec \<Rightarrow> int \<Rightarrow> 's world \<Rightarrow> session_row \<Rightarrow> round_row" where
  "created env now m w s = new_round env now m (wd_engine w) s (uuid_at env w 0)"

lemma created_fields [simp]:
  "ro_id (created env now m w s) = uuid_at env w 0" "ro_serverSeed (created env now m w s) = se_serverSeed s"
  "ro_clientSeed (created env now m w s) = se_clientSeed s" "ro_nonce (created env now m w s) = se_nonce s"
  "ro_serverSeedHash (created env now m w s) = se_serverSeedHash s"
  "ro_operatorId (created env now m w s) = ec_operatorId (en_cfg (wd_engine w))"
  "ro_state (created env now m w s) = RBettingOpen" "ro_sessionId (created env now m w s) = se_id s"
  by (simp_all add: created_def new_round_def)

definition next_nonce :: "session_row \<Rightarrow> session_row list \<Rightarrow> session_row list" where
  "next_nonce s t = update_where (\<lambda>x. se_id x = se_id s) (\<lambda>x. x\<lparr>se_nonce := se_nonce x + 1\<rparr>) t"

lemma createRound_live:
  assumes "engine_session w = Some s" "now < se_expiresAt s" "find_round (wd_db w) (uuid_at env w 0) = None"
    and "createRound env now m w = (r, w')"
  shows "r = created env now m w s \<and> wd_engine w' = wd_engine w \<and> round_ids w' = round_ids w @ [uuid_at env w 0] \<and>
     (\<exists>p h. find_round (wd_db w') (uuid_at env w 0) = Some (r\<lparr>ro_prevRowHash := p, ro_rowHash := Some h\<rparr>)) \<and>
     db_sessions (wd_db w') = next_nonce s (db_sessions (wd_db w))"
proof -
  have g: "getOrCreateEngineSession env now w = (s, w)"
    using assms(1,2) by (simp add: getOrCreateEngineSession_def engine_session_def Let_def)
  have r: "r = created env now m w s"
    using assms(4) by (simp add: createRound_def g created_def Let_def)
  define p where "p = latestRoundTip (db_rounds (wd_db w) @ [r]) (ec_operatorId (en_cfg (wd_engine w)))"
  define h where "h = round_hash (ev_sha256 env) (ev_numstr env) p r"
  have w': "w' = on_db (upd_session (se_id s) (\<lambda>x. x\<lparr>se_nonce := se_nonce x + 1\<rparr>))
      (on_db (upd_round (ro_id r) (\<lambda>x. x\<lparr>ro_prevRowHash := p, ro_rowHash := Some h\<rparr>))
        (draw 1 (on_db (\<lambda>d. d\<lparr>db_rounds := db_rounds d @ [r]\<rparr>) w)))"
    using assms(4) unfolding p_def h_def r created_def by (auto simp: createRound_def g Let_def)
  have "find_round (wd_db w\<lparr>db_rounds := db_rounds (wd_db w) @ [r]\<rparr>) (uuid_at env w 0) = Some r"
    using assms(3) r by (simp add: find_round_def find_append_row)
  then have "find_round (wd_db w') (uuid_at env w 0) = Some (r\<lparr>ro_prevRowHash := p, ro_rowHash := Some h\<rparr>)"
    using r by (simp add: w' find_round_upd upd_session_def find_round_def find_update_where_key)
  then show ?thesis using r by (auto simp: w' next_nonce_def round_ids_def)
qed

text \<open>Opening a round, closing betting and computing the outcome.\<close>

definition open_round :: "active_round \<Rightarrow> session_row \<Rightarrow> bool" where
  "open_round a s \<longleftrightarrow> ar_phase a = PhBettingOpen \<and> ar_serverSeed a = se_serverSeed s \<and>
     ar_clientSeed a = se_clientSeed s \<and> ar_nonce a = se_nonce s"

definition same_setup :: "'s world \<Rightarrow> 's world \<Rightarrow> bool" where
  "same_setup w w' \<longleftrightarrow> en_cfg (wd_engine w') = en_cfg (wd_engine w) \<and>
     en_plugin (wd_engine w') = en_plugin (wd_engine w) \<and> en_gameConfig (wd_engine w') = en_gameConfig (wd_engine w)"

lemma openBetting_live:
  assumes "engine_session w = Some s" "now < se_expiresAt s" "find_round (wd_db w) (uuid_at env w 0) = None"
  shows "\<exists>a r. en_active (wd_engine (openBetting env now m w)) = Some a \<and> open_round a s \<and>
     ar_id a = uuid_at env w 0 \<and> find_round (wd_db (openBetting env now m w)) (ar_id a) = Some r \<and>
     ro_serverSeed r = se_serverSeed s \<and> ro_clientSeed r = se_clientSeed s \<and> ro_nonce r = se_nonce s \<and>
     ro_operatorId r = ec_operatorId (en_cfg (wd_engine w)) \<and> ro_serverSeedHash r = se_serverSeedHash s \<and>
     db_sessions (wd_db (openBetting env now m w)) = next_nonce s (db_sessions (wd_db w)) \<and>
     round_ids (openBetting env now m w) = round_ids w @ [uuid_at env w 0] \<and> same_setup w (openBetting env now m w)"
proof -
  obtain r w' where c: "createRound env now m w = (r, w')" by fastforce
  show ?thesis using createRound_live [OF assms c]
    by (auto simp: openBetting_def c Let_def open_round_def same_setup_def find_round_def round_ids_def)
qed

lemma roll_reveal_rows:
  assumes "en_active (wd_engine w) = Some a" "find_round (wd_db w) (ar_id a) = Some r"
    and "roll_reveal t2 (roll_close t1 w) = Inr w'"
  shows "\<exists>out. gp_computeOutcome (en_plugin (wd_engine w)) (round_context a) (en_gameConfig (wd_engine w)) = Inr out \<and>
     map_option ar_id (en_active (wd_engine w')) = Some (ar_id a) \<and>
     find_round (wd_db w') (ar_id a) = Some (r\<lparr>ro_state := RResult, ro_outcomeType := Some (outcome_type out),
        ro_outcomeData := Some out, ro_rolledAt := Some t2\<rparr>) \<and>
     db_sessions (wd_db w') = db_sessions (wd_db w) \<and> round_ids w' = round_ids w \<and> same_setup w w'"
proof -
  let ?a = "a\<lparr>ar_phase := PhRolling, ar_phaseStartedAt := t1,
      ar_phaseDurationMs := of_int (ec_rollingWindowMs (en_cfg (wd_engine w)))\<rparr>"
  have c: "en_active (wd_engine (roll_close t1 w)) = Some ?a" "same_setup w (roll_close t1 w)"
    "find_round (wd_db (roll_close t1 w)) (ar_id a) = Some (r\<lparr>ro_state := RRolling\<rparr>)"
    "db_sessions (wd_db (roll_close t1 w)) = db_sessions (wd_db w)" "round_ids (roll_close t1 w) = round_ids w"
    using assms(1,2) by (simp_all add: roll_close_def Let_def same_setup_def find_round_upd round_ids_def)
  have ctx: "round_context ?a = round_context a" by (simp add: round_context_def)
  obtain out where out: "gp_computeOutcome (en_plugin (wd_engine w)) (round_context a) (en_gameConfig (wd_engine w)) = Inr out"
    using assms(3) c by (auto simp: roll_reveal_def same_setup_def ctx split: sum.splits)
  then have "w' = emit ''round_result'' (result_payload (wd_engine (roll_close t1 w)) ?a out)
      (set_active (Some (?a\<lparr>ar_phase := PhResult, ar_phaseStartedAt := t2\<rparr>))
        (on_db (upd_round (ar_id a) (\<lambda>r. r\<lparr>ro_state := RResult, ro_outcomeType := Some (outcome_type out),
                      ro_outcomeData := Some out, ro_rolledAt := Some t2\<rparr>)) (roll_close t1 w)))"
    using assms(3) c(1,2)
    by (simp add: roll_reveal_def same_setup_def ctx Let_def set_active_def result_payload_def round_header_def)
  then show ?thesis using c out by (simp add: same_setup_def find_round_upd round_ids_def)
qed

text \<open>One turn of the loop for a game without live cash-outs.\<close>

lemma loop_turn_round:
  assumes "engine_session w = Some s" "tc_open c < se_expiresAt s" "find_round (wd_db w) (uuid_at env w 0) = None"
    and "gp_liveCrash (en_plugin (wd_engine w)) = None"
    and "gp_computeOutcome (en_plugin (wd_engine w)) \<lparr>rc_serverSeed = se_serverSeed s, rc_clientSeed = se_clientSeed s,
           rc_nonce = of_int (se_nonce s)\<rparr> (en_gameConfig (wd_engine w)) = Inr out"
  shows "\<exists>r. find_round (wd_db (loop_turn env c w)) (uuid_at env w 0) = Some r \<and> ro_state r = RSettled \<and>
     ro_serverSeed r = se_serverSeed s \<and> ro_clientSeed r = se_clientSeed s \<and> ro_nonce r = se_nonce s \<and>
     ro_serverSeedHash r = se_serverSeedHash s \<and> ro_operatorId r = ec_operatorId (en_cfg (wd_engine w)) \<and>
     ro_outcomeData r = Some out \<and> ro_outcomeType r = Some (outcome_type out) \<and>
     db_sessions (wd_db (loop_turn env c w)) = next_nonce s (db_sessions (wd_db w)) \<and>
     round_ids (loop_turn env c w) = round_ids w @ [uuid_at env w 0] \<and> same_setup w (loop_turn env c w)"
proof -
  let ?w1 = "openBetting env (tc_open c) (tc_openMono c) w"
  obtain a r where o: "en_active (wd_engine ?w1) = Some a" "open_round a s" "ar_id a = uuid_at env w 0"
    "find_round (wd_db ?w1) (ar_id a) = Some r" "ro_serverSeed r = se_serverSeed s" "ro_clientSeed r = se_clientSeed s"
    "ro_nonce r = se_nonce s" "ro_operatorId r = ec_operatorId (en_cfg (wd_engine w))"
    "ro_serverSeedHash r = se_serverSeedHash s"
    "db_sessions (wd_db ?w1) = next_nonce s (db_sessions (wd_db w))" "same_setup w ?w1"
    "round_ids ?w1 = round_ids w @ [uuid_at env w 0]"
    using openBetting_live [OF assms(1-3)] by blast
  have ctx: "round_context a = \<lparr>rc_serverSeed = se_serverSeed s, rc_clientSeed = se_clientSeed s, rc_nonce = of_int (se_nonce s)\<rparr>"
    using o(2) by (simp add: open_round_def round_context_def)
  have "\<exists>w2. roll_reveal (tc_reveal c) (roll_close (tc_roll c) ?w1) = Inr w2"
    using o(1,11) assms(5) by (auto simp: roll_reveal_def roll_close_def Let_def same_setup_def round_context_def
      open_round_def ctx [unfolded round_context_def] split: sum.splits)
  then obtain w2 where w2: "roll_reveal (tc_reveal c) (roll_close (tc_roll c) ?w1) = Inr w2" by blast
  from roll_reveal_rows [OF o(1,4) w2] obtain a2 where r2: "en_active (wd_engine w2) = Some a2" "ar_id a2 = ar_id a"
    "find_round (wd_db w2) (ar_id a) = Some (r\<lparr>ro_state := RResult, ro_outcomeType := Some (outcome_type out),
        ro_outcomeData := Some out, ro_rolledAt := Some (tc_reveal c)\<rparr>)"
    "db_sessions (wd_db w2) = db_sessions (wd_db ?w1)" "same_setup ?w1 w2" "round_ids w2 = round_ids ?w1"
    using assms(5) o(11) ctx by (auto simp: same_setup_def)
  have ty: "outcome_type out \<noteq> []" by (cases out) simp_all
  have lt: "loop_turn env c w = settle env (tc_settle c) w2"
    using o(11) assms(4) w2 by (simp add: loop_turn_def rollAndReveal_def same_setup_def)
  from settle_rows [OF r2(1), of _ out "outcome_type out" env "tc_settle c"] r2 ty obtain t where
    "find_round (wd_db (settle env (tc_settle c) w2)) (ar_id a2) = Some (close_round (tc_settle c) t
       (r\<lparr>ro_state := RResult, ro_outcomeType := Some (outcome_type out), ro_outcomeData := Some out,
          ro_rolledAt := Some (tc_reveal c)\<rparr>))"
    "db_sessions (wd_db (settle env (tc_settle c) w2)) = db_sessions (wd_db w2)"
    "same_setup w2 (settle env (tc_settle c) w2)" "round_ids (settle env (tc_settle c) w2) = round_ids w2"
    by (auto simp: same_setup_def)
  then show ?thesis using o r2 by (auto simp: lt close_round_def same_setup_def)
qed

section \<open>What a settled round discloses\<close>

lemma find_kept:
  assumes "find p t = Some r" "\<And>x. p (f x) = p x"
  shows "find p (update_where q f t) = Some (if q r then f r else r)"
  using assms by (induction t) (auto split: if_splits)

lemma engine_session_next:
  assumes "engine_session w = Some s" "same_setup w w'" "db_sessions (wd_db w') = next_nonce s (db_sessions (wd_db w))"
  shows "engine_session w' = Some (s\<lparr>se_nonce := se_nonce s + 1\<rparr>)"
proof -
  let ?p = "\<lambda>s. se_operatorId s = ec_operatorId (en_cfg (wd_engine w)) \<and> se_playerRef s = engine_player (wd_engine w) \<and>
     se_terminatedAt s = None"
  have "find ?p (next_nonce s (db_sessions (wd_db w))) = Some (s\<lparr>se_nonce := se_nonce s + 1\<rparr>)"
    using find_kept [of ?p "db_sessions (wd_db w)" s "\<lambda>x. x\<lparr>se_nonce := se_nonce x + 1\<rparr>" "\<lambda>x. se_id x = se_id s"] assms(1)
    by (simp add: engine_session_def next_nonce_def)
  then show ?thesis using assms(2,3) by (simp add: engine_session_def same_setup_def engine_player_def)
qed

lemma dice_outcome_exists:
  assumes "0 < lo" "0 < hi" "0 \<le> n"
  shows "\<exists>out. dice_computeOutcome hmac \<lparr>rc_serverSeed = ss, rc_clientSeed = cs, rc_nonce = of_int n\<rparr> (DiceConfig lo hi) = Inr out"
proof -
  have "is_integer (of_int n)" by (simp add: is_integer_def)
  then show ?thesis using assms by (simp add: dice_computeOutcome_def determineOutcome_digest Let_def)
qed

text \<open>A dice engine whose session is alive and whose next round id is unused.\<close>

definition ready :: "'s env \<Rightarrow> msec \<Rightarrow> hmac_fun \<Rightarrow> session_row \<Rightarrow> 's world \<Rightarrow> bool" where
  "ready env now hmac s w \<longleftrightarrow>
     en_plugin (wd_engine w) = ketapolaDice hmac \<and>
     (case en_gameConfig (wd_engine w) of DiceConfig lo hi \<Rightarrow> 0 < lo \<and> 0 < hi | _ \<Rightarrow> False) \<and>
     engine_session w = Some s \<and> now < se_expiresAt s \<and> 0 \<le> se_nonce s \<and>
     find_round (wd_db w) (uuid_at env w 0) = None"

lemma ready_turn:
  assumes "ready env (tc_open c) hmac s w"
  shows "\<exists>r out. dice_computeOutcome hmac \<lparr>rc_serverSeed = se_serverSeed s, rc_clientSeed = se_clientSeed s,
           rc_nonce = of_int (se_nonce s)\<rparr> (en_gameConfig (wd_engine w)) = Inr out \<and>
     find_round (wd_db (loop_turn env c w)) (uuid_at env w 0) = Some r \<and> ro_state r = RSettled \<and>
     ro_serverSeed r = se_serverSeed s \<and> ro_clientSeed r = se_clientSeed s \<and> ro_nonce r = se_nonce s \<and>
     ro_serverSeedHash r = se_serverSeedHash s \<and> ro_outcomeData r = Some out \<and> ro_outcomeType r = Some (outcome_type out) \<and>
     engine_session (loop_turn env c w) = Some (s\<lparr>se_nonce := se_nonce s + 1\<rparr>) \<and>
     round_ids (loop_turn env c w) = round_ids w @ [uuid_at env w 0] \<and> same_setup w (loop_turn env c w)"
proof -
  have p: "en_plugin (wd_engine w) = ketapolaDice hmac" and e: "engine_session w = Some s"
    using assms by (simp_all add: ready_def)
  obtain lo hi where cfg: "en_gameConfig (wd_engine w) = DiceConfig lo hi" "0 < lo" "0 < hi"
    using assms by (auto simp: ready_def split: game_config.splits)
  obtain out where out: "dice_computeOutcome hmac \<lparr>rc_serverSeed = se_serverSeed s, rc_clientSeed = se_clientSeed s,
           rc_nonce = of_int (se_nonce s)\<rparr> (en_gameConfig (wd_engine w)) = Inr out"
    using dice_outcome_exists [OF cfg(2,3), of "se_nonce s" hmac "se_serverSeed s" "se_clientSeed s"] assms cfg(1)
    by (auto simp: ready_def)
  have "\<exists>r. find_round (wd_db (loop_turn env c w)) (uuid_at env w 0) = Some r \<and> ro_state r = RSettled \<and>
     ro_serverSeed r = se_serverSeed s \<and> ro_clientSeed r = se_clientSeed s \<and> ro_nonce r = se_nonce s \<and>
     ro_serverSeedHash r = se_serverSeedHash s \<and> ro_operatorId r = ec_operatorId (en_cfg (wd_engine w)) \<and>
     ro_outcomeData r = Some out \<and> ro_outcomeType r = Some (outcome_type out) \<and>
     db_sessions (wd_db (loop_turn env c w)) = next_nonce s (db_sessions (wd_db w)) \<and>
     round_ids (loop_turn env c w) = round_ids w @ [uuid_at env w 0] \<and> same_setup w (loop_turn env c w)"
    using assms out p by (intro loop_turn_round) (simp_all add: ready_def ketapolaDice_def)
  then show ?thesis using out engine_session_next [OF e] by blast
qed

section \<open>Properties\<close>


text \<open>C29. The seed of a round is also the seed of the rounds after it. The engine keeps one
  session, and so one pair of seeds, for up to a year and only counts the nonce up, while
  the proof of a round reveals the server seed as soon as the round is settled: when
  betting on the next round is open, its outcome is already determined by the published
  proof of the last one.\<close>

theorem published_proof_predicts_next_round:
  assumes "ready env (tc_open c) hmac s w" "w1 = loop_turn env c w" "w2 = openBetting env' now m w1"
    and "now < se_expiresAt s" "uuid_at env' w1 0 \<notin> set (round_ids w)" "uuid_at env' w1 0 \<noteq> uuid_at env w 0"
  shows "\<exists>P a seed. forRound (wd_db w1) (uuid_at env w 0) None = Some P \<and> rp_serverSeed P = Some seed \<and>
     en_active (wd_engine w2) = Some a \<and> ar_phase a = PhBettingOpen \<and> ar_id a \<noteq> rp_roundId P \<and>
     gp_computeOutcome (en_plugin (wd_engine w2)) (round_context a) (en_gameConfig (wd_engine w2)) =
       dice_computeOutcome hmac \<lparr>rc_serverSeed = seed, rc_clientSeed = rp_clientSeed P, rc_nonce = of_int (rp_nonce P + 1)\<rparr>
         (en_gameConfig (wd_engine w))"
proof -
  obtain r where t: "find_round (wd_db w1) (uuid_at env w 0) = Some r" "ro_state r = RSettled"
     "ro_serverSeed r = se_serverSeed s" "ro_clientSeed r = se_clientSeed s" "ro_nonce r = se_nonce s"
     "engine_session w1 = Some (s\<lparr>se_nonce := se_nonce s + 1\<rparr>)" "same_setup w w1"
     "round_ids w1 = round_ids w @ [uuid_at env w 0]"
    using ready_turn [OF assms(1)] unfolding assms(2) by blast
  have n: "find_round (wd_db w1) (uuid_at env' w1 0) = None" using assms(5,6) t(8) by (simp add: find_round_none)
  obtain a where a: "en_active (wd_engine w2) = Some a" "open_round a (s\<lparr>se_nonce := se_nonce s + 1\<rparr>)"
    "ar_id a = uuid_at env' w1 0" "same_setup w1 w2"
    using openBetting_live [OF t(6) _ n, of now m] assms(3,4) by auto
  have id: "ro_id r = uuid_at env w 0" using t(1) by (rule find_round_id)
  have "en_plugin (wd_engine w) = ketapolaDice hmac" using assms(1) by (simp add: ready_def)
  then show ?thesis
    using t a id assms(6) by (simp add: forRound_def round_terminal_def open_round_def round_context_def same_setup_def ketapolaDice_def)
qed

text \<open>The sample engine with a session of its own.\<close>

definition engine_row :: session_row where
  "engine_row = sample_session\<lparr>se_id := ''e'', se_playerRef := engine_player (dice_engine PhSettled),
     se_serverSeedHash := digest_hex 0\<rparr>"

definition fair_world :: "unit world" where
  "fair_world = on_db (\<lambda>d. d\<lparr>db_sessions := [engine_row]\<rparr>) (dice_world PhSettled None [])"

definition fair_clock :: turn_clock where
  "fair_clock = \<lparr>tc_open = 1, tc_openMono = 1, tc_roll = 2, tc_flight = [], tc_reveal = 3, tc_settle = 4\<rparr>"

lemma fair_ready: "ready (env_with ok_response) (tc_open fair_clock) (\<lambda>_ _. 0) engine_row fair_world"
  by (simp add: ready_def fair_world_def fair_clock_def engine_row_def engine_session_def dice_sample env_with_def
      uuid_at_def find_round_def defaultKetapolaDiceConfig_def engine_player_def)

definition default_weights :: json where
  "default_weights = JObj [(''lowWeight'', JNum 50), (''highWeight'', JNum 50)]"

lemma default_weights_parse: "ketapolaDiceConfigSchema default_weights = Some (DiceConfig 50 50)"
  by code_simp


theorem published_proof_predicts_next_round_witness:
  "\<exists>a. en_active (wd_engine (openBetting ((env_with ok_response)\<lparr>ev_uuid := \<lambda>_. ''second''\<rparr>) 5 5
      (loop_turn (env_with ok_response) fair_clock fair_world))) = Some a \<and> ar_phase a = PhBettingOpen \<and>
     gp_computeOutcome (ketapolaDice (\<lambda>_ _. 0)) (round_context a) defaultKetapolaDiceConfig =
       dice_computeOutcome (\<lambda>_ _. 0) \<lparr>rc_serverSeed = ''aa'', rc_clientSeed = ''cc'', rc_nonce = 1\<rparr> defaultKetapolaDiceConfig"
proof -
  let ?e = "env_with ok_response" and ?e2 = "(env_with ok_response)\<lparr>ev_uuid := \<lambda>_. ''second''\<rparr>"
  let ?w1 = "loop_turn ?e fair_clock fair_world"
  have u: "uuid_at ?e2 ?w1 0 = ''second''" "uuid_at ?e fair_world 0 = []"
    by (simp_all add: uuid_at_def env_with_def fair_world_def dice_world_def)
  have x: "(5::int) < se_expiresAt engine_row" by (simp add: engine_row_def sample_session_def)
  have i: "uuid_at ?e2 ?w1 0 \<notin> set (round_ids fair_world)" "uuid_at ?e2 ?w1 0 \<noteq> uuid_at ?e fair_world 0"
    unfolding u by (simp_all add: round_ids_def fair_world_def dice_sample)
  have s: "same_setup fair_world ?w1" using ready_turn [OF fair_ready] by blast
  obtain r where r: "find_round (wd_db ?w1) [] = Some r" "ro_state r = RSettled" "ro_serverSeed r = ''aa''"
    "ro_clientSeed r = ''cc''" "ro_nonce r = 0"
    using ready_turn [OF fair_ready] by (auto simp: u engine_row_def sample_session_def)
  have "same_setup ?w1 (openBetting ?e2 5 5 ?w1)"
    by (simp add: openBetting_def createRound_def getOrCreateEngineSession_def Let_def same_setup_def split: option.splits)
  moreover have g: "en_gameConfig (wd_engine fair_world) = defaultKetapolaDiceConfig" "en_plugin (wd_engine fair_world) = ketapolaDice (\<lambda>_ _. 0)"
    by (simp_all add: fair_world_def dice_sample)
  ultimately have "en_plugin (wd_engine (openBetting ?e2 5 5 ?w1)) = ketapolaDice (\<lambda>_ _. 0)"
    "en_gameConfig (wd_engine (openBetting ?e2 5 5 ?w1)) = defaultKetapolaDiceConfig"
    using s by (simp_all add: same_setup_def)
  with published_proof_predicts_next_round [OF fair_ready refl refl x i, of 5] r
  show ?thesis by (auto simp: u g forRound_def round_terminal_def)
qed

end
