(* ===== verification/Evidence.thy ===== *)
theory Evidence
  imports Fairness Operators "HOL-Library.Product_Lexorder"
begin

text \<open>
  What the server tells about past play: the pages of the round list and of a player's bets
  (\<^verbatim>\<open>apps/rgs-server/src/routes/rounds.ts\<close>, \<^verbatim>\<open>routes/session.ts\<close>), the details and the signed
  replay of a round (\<^verbatim>\<open>routes/rounds.ts\<close>), and the signed dispute pack
  (\<^verbatim>\<open>services/DisputePack.ts\<close>). The signing secret is an argument. Both files carry a copy of
  the canonical encoder of the audit chain. Two columns that no code writes,
  \<open>houseRevenueMicro\<close> (default 0) and \<open>rollbackTransactionUuid\<close> (null), appear as constants.
\<close>

section \<open>Columns as JSON\<close>

definition micro_json :: "micro \<Rightarrow> json" where "micro_json m = JStr (show_int m)"

definition iso_json :: "msec \<Rightarrow> json" where "iso_json t = JStr (toISOString t)"

fun bet_status_string :: "bet_status \<Rightarrow> string" where
  "bet_status_string BPending = ''PENDING''"
| "bet_status_string BAccepted = ''ACCEPTED''"
| "bet_status_string BRejected = ''REJECTED''"
| "bet_status_string BSettled = ''SETTLED''"
| "bet_status_string BVoided = ''VOIDED''"
| "bet_status_string BFailed = ''FAILED''"

fun held_state_string :: "held_state \<Rightarrow> string" where
  "held_state_string HHeld = ''HELD''"
| "held_state_string HResolved = ''RESOLVED''"
| "held_state_string HRefunded = ''REFUNDED''"

definition db_mode_string :: "db_mode \<Rightarrow> string" where
  "db_mode_string m = (case m of REAL \<Rightarrow> ''REAL'' | DEMO \<Rightarrow> ''DEMO'')"

definition bet_transactions :: "bet_row \<Rightarrow> json" where
  "bet_transactions b = JObj [(''bet'', JStr (be_betTransactionUuid b)),
     (''win'', jopt JStr (be_winTransactionUuid b)), (''rollback'', JNull)]"

definition pending_state_json :: "db \<Rightarrow> bet_row \<Rightarrow> json" where
  "pending_state_json d b =
     (case find (\<lambda>h. he_betId h = be_id b) (db_held d) of
        None \<Rightarrow> JNull
      | Some h \<Rightarrow> JObj
          [(''state'', JStr (held_state_string (he_state h))), (''heldAt'', iso_json (he_heldAt h)),
           (''resolvedAt'', jopt iso_json (he_resolvedAt h)), (''refundedAt'', jopt iso_json (he_refundedAt h)),
           (''resolutionReason'', jopt JStr (he_resolutionReason h))])"

section \<open>Pages\<close>

text \<open>
  A filter with an absent value does not restrict; the rows come newest first. One row more
  than the page holds is read; it is taken off the page and its id is the next cursor. With a
  cursor the query starts at the row of the cursor and skips it.
\<close>

definition where_eq :: "'a option \<Rightarrow> 'a \<Rightarrow> bool" where
  "where_eq v x = (case v of None \<Rightarrow> True | Some y \<Rightarrow> x = y)"

definition newest_first :: "('r \<Rightarrow> 'k::linorder) \<Rightarrow> 'r list \<Rightarrow> 'r list" where
  "newest_first k rows = rev (sort_key k rows)"

definition page_query :: "('r \<Rightarrow> uuid) \<Rightarrow> uuid option \<Rightarrow> nat \<Rightarrow> 'r list \<Rightarrow> 'r list" where
  "page_query key cursor n rows =
     take n (if truthy cursor then drop 1 (dropWhile (\<lambda>r. key r \<noteq> the cursor) rows) else rows)"

definition list_page :: "('r \<Rightarrow> uuid) \<Rightarrow> uuid option \<Rightarrow> nat \<Rightarrow> 'r list \<Rightarrow> 'r list \<times> uuid option" where
  "list_page key cursor limit rows =
     (let got = page_query key cursor (limit + 1) rows
      in if limit < length got then (butlast got, Some (key (last got))) else (got, None))"

definition round_order :: "round_row \<Rightarrow> int \<times> int" where
  "round_order r = (case ro_startedAt r of None \<Rightarrow> (1, 0) | Some t \<Rightarrow> (0, t))"

definition bet_order :: "bet_row \<Rightarrow> int \<times> string" where
  "bet_order b = (be_placedAt b, be_id b)"

definition round_item :: "round_row \<Rightarrow> json" where
  "round_item r = JObj
     [(''roundId'', JStr (ro_id r)), (''nonce'', jint (ro_nonce r)), (''state'', JStr (state_string (ro_state r))),
      (''outcomeType'', jopt JStr (ro_outcomeType r)), (''outcome'', jopt outcome_json (ro_outcomeData r)),
      (''totalBetsMicro'', micro_json (ro_totalBetsMicro r)), (''totalPayoutsMicro'', micro_json (ro_totalPayoutsMicro r)),
      (''startedAt'', jopt iso_json (ro_startedAt r)), (''settledAt'', jopt iso_json (ro_settledAt r))]"

definition list_rounds ::
    "db \<Rightarrow> uuid option \<Rightarrow> string option \<Rightarrow> string option \<Rightarrow> uuid option \<Rightarrow> nat \<Rightarrow> json list \<times> uuid option" where
  "list_rounds d operatorId gameCode currency cursor limit =
     (let (rows, next) = list_page ro_id cursor limit (newest_first round_order
            (filter (\<lambda>r. where_eq operatorId (ro_operatorId r) \<and> where_eq gameCode (ro_gameCode r) \<and>
               where_eq currency (ro_currency r)) (db_rounds d)))
      in (map round_item rows, next))"

section \<open>A player's statement\<close>

definition net_micro :: "bet_row \<Rightarrow> micro" where
  "net_micro b =
     (if be_won b = Some True then nullish (be_wonAmountMicro b) 0 - be_amountMicro b else - be_amountMicro b)"

definition statement_item :: "db \<Rightarrow> bet_row \<Rightarrow> json" where
  "statement_item d b =
     (let r = the (find_round d (be_roundId b)) in JObj
     [(''betId'', JStr (be_id b)), (''roundId'', JStr (be_roundId b)), (''placedAt'', iso_json (be_placedAt b)),
      (''settledAt'', jopt iso_json (be_settledAt b)), (''selection'', selection_json (be_selection b)),
      (''selectionType'', JStr (be_selectionType b)), (''amountMicro'', micro_json (be_amountMicro b)),
      (''currency'', JStr (be_currency b)), (''status'', JStr (bet_status_string (be_status b))),
      (''won'', jopt JBool (be_won b)), (''wonAmountMicro'', jopt micro_json (be_wonAmountMicro b)),
      (''netMicro'', micro_json (net_micro b)),
      (''round'', JObj
        [(''state'', JStr (state_string (ro_state r))), (''outcomeType'', jopt JStr (ro_outcomeType r)),
         (''outcome'', jopt outcome_json (ro_outcomeData r)), (''serverSeedHash'', JStr (ro_serverSeedHash r)),
         (''rngVersion'', JStr (ro_rngVersion r))]),
      (''transactions'', bet_transactions b)])"

record statement_query =
  sq_playerRef :: string
  sq_from :: "msec option"
  sq_to :: "msec option"
  sq_cursor :: "uuid option"
  sq_limit :: nat

definition sign_hex :: "hmac_fun \<Rightarrow> string \<Rightarrow> string \<Rightarrow> string" where
  "sign_hex hmac secret body = digest_hex (hmac secret body)"

text \<open>The rows of a statement, and the signed page; \<open>None\<close> is the refusal of a window of more than 400 days.\<close>

definition statement_rows :: "db \<Rightarrow> uuid option \<Rightarrow> string \<Rightarrow> msec \<Rightarrow> msec \<Rightarrow> bet_row list" where
  "statement_rows d operatorId playerRef t0 t1 = newest_first bet_order
     (filter (\<lambda>b. where_eq operatorId (be_operatorId b) \<and> be_playerRef b = playerRef \<and>
        t0 \<le> be_placedAt b \<and> be_placedAt b \<le> t1) (db_bets d))"

definition player_statement ::
    "hmac_fun \<Rightarrow> (jsnum \<Rightarrow> string) \<Rightarrow> string \<Rightarrow> msec \<Rightarrow> db \<Rightarrow> uuid option \<Rightarrow> statement_query \<Rightarrow> (json \<times> string) option" where
  "player_statement hmac numstr secret now d operatorId q =
     (let t0 = nullish (sq_from q) (now - 90 * 86400000); t1 = nullish (sq_to q) now in
      if 400 * 86400000 < t1 - t0 then None
      else (let (bets, next) = list_page be_id (sq_cursor q) (sq_limit q)
                  (statement_rows d operatorId (sq_playerRef q) t0 t1);
                page = JObj
                  [(''playerRef'', JStr (sq_playerRef q)),
                   (''operatorId'', case operatorId of None \<Rightarrow> JUndefined | Some i \<Rightarrow> JStr i),
                   (''from'', iso_json t0), (''to'', iso_json t1), (''nextCursor'', jopt JStr next),
                   (''count'', jint (int (length bets))), (''items'', JArr (map (statement_item d) bets))]
            in Some (page, sign_hex hmac secret (canonicalJson numstr page))))"

section \<open>A player's own history\<close>

definition session_history_rows :: "db \<Rightarrow> session_row \<Rightarrow> bet_row list" where
  "session_history_rows d s = newest_first bet_order
     (filter (\<lambda>b. be_operatorId b = se_operatorId s \<and> be_playerRef b = se_playerRef s \<and>
        be_selectionType b = se_gameCode s \<and> be_currency b = se_currency s \<and>
        (be_status b = BSettled \<or> be_status b = BFailed)) (db_bets d))"

definition asString :: "json \<Rightarrow> json" where
  "asString v = (case v of JStr s \<Rightarrow> JStr s | _ \<Rightarrow> JNull)"

definition asNumber :: "json \<Rightarrow> json" where
  "asNumber v = (case v of JNum x \<Rightarrow> JNum x | _ \<Rightarrow> JNull)"

definition history_item :: "db \<Rightarrow> bet_row \<Rightarrow> json" where
  "history_item d b =
     (let r = the (find_round d (be_roundId b));
          payoutMicro = nullish_opt (be_cashoutPayoutMicro b) (be_wonAmountMicro b);
          won = (be_won b = Some True \<or> be_cashoutPayoutMicro b \<noteq> None \<or> (payoutMicro \<noteq> None \<and> 0 < the payoutMicro))
      in JObj
     [(''betId'', JStr (be_id b)), (''roundId'', JStr (be_roundId b)), (''roundNumber'', jint (ro_nonce r + 1)),
      (''placedAt'', iso_json (be_placedAt b)), (''amountMicro'', micro_json (be_amountMicro b)),
      (''currency'', JStr (be_currency b)),
      (''slotId'', asString (get_prop (selection_json (be_selection b)) ''slotId'')),
      (''crashMultiplier'', asNumber (case ro_outcomeData r of None \<Rightarrow> JUndefined
          | Some out \<Rightarrow> get_prop (outcome_json out) ''crashMultiplier'')),
      (''cashoutMultiplier'', jopt JNum (be_cashoutMultiplier b)),
      (''payoutMicro'', if won \<and> payoutMicro \<noteq> None then micro_json (the payoutMicro) else JNull),
      (''result'', JStr (if won then ''WIN'' else ''LOSS''))])"

definition session_history :: "db \<Rightarrow> session_row \<Rightarrow> uuid option \<Rightarrow> nat \<Rightarrow> json" where
  "session_history d s cursor limit =
     (let (bets, next) = list_page be_id cursor limit (session_history_rows d s)
      in JObj [(''sessionId'', JStr (se_id s)), (''playerRef'', JStr (se_playerRef s)),
           (''nextCursor'', jopt JStr next), (''count'', jint (int (length bets))),
           (''items'', JArr (map (history_item d) bets))])"

text \<open>The bets of a session with their state in the pending register, for a player who reconnects.\<close>

definition pending_item :: "db \<Rightarrow> bet_row \<Rightarrow> json" where
  "pending_item d b =
     (let r = the (find_round d (be_roundId b)) in JObj
     [(''betId'', JStr (be_id b)), (''roundId'', JStr (be_roundId b)), (''selection'', selection_json (be_selection b)),
      (''selectionType'', JStr (be_selectionType b)), (''amountMicro'', micro_json (be_amountMicro b)),
      (''currency'', JStr (be_currency b)), (''status'', JStr (bet_status_string (be_status b))),
      (''placedAt'', iso_json (be_placedAt b)), (''settledAt'', jopt iso_json (be_settledAt b)),
      (''won'', jopt JBool (be_won b)), (''wonAmountMicro'', jopt micro_json (be_wonAmountMicro b)),
      (''transactions'', bet_transactions b),
      (''round'', JObj
        [(''roundId'', JStr (ro_id r)), (''state'', JStr (state_string (ro_state r))),
         (''outcomeType'', jopt JStr (ro_outcomeType r)), (''outcome'', jopt outcome_json (ro_outcomeData r)),
         (''settled'', JBool (ro_settled r)), (''settledAt'', jopt iso_json (ro_settledAt r)),
         (''voidedAt'', jopt iso_json (ro_voidedAt r))]),
      (''pendingState'', pending_state_json d b)])"

definition session_pending :: "db \<Rightarrow> uuid \<Rightarrow> uuid option \<Rightarrow> json option" where
  "session_pending d sessionId operatorId =
     (case find_session d sessionId of
        None \<Rightarrow> None
      | Some s \<Rightarrow>
          if Some (se_operatorId s) \<noteq> operatorId then None
          else (let bets = sort_key be_placedAt (filter (\<lambda>b. be_sessionId b = sessionId) (db_bets d));
                    pending = map (pending_item d) bets;
                    heldCount = length (filter (\<lambda>p. get_prop (get_prop p ''pendingState'') ''state'' = JStr ''HELD'') pending)
                in Some (JObj
                  [(''sessionId'', JStr sessionId), (''operatorId'', JStr (se_operatorId s)),
                   (''playerRef'', JStr (se_playerRef s)), (''terminatedAt'', jopt iso_json (se_terminatedAt s)),
                   (''heldCount'', jint (int heldCount)), (''bets'', JArr pending)])))"

section \<open>One round\<close>

definition round_bet_item :: "bet_row \<Rightarrow> json" where
  "round_bet_item b = JObj
     [(''betId'', JStr (be_id b)), (''playerRef'', JStr (be_playerRef b)), (''selection'', selection_json (be_selection b)),
      (''selectionType'', JStr (be_selectionType b)), (''amountMicro'', micro_json (be_amountMicro b)),
      (''status'', JStr (bet_status_string (be_status b))), (''won'', jopt JBool (be_won b)),
      (''wonAmountMicro'', jopt micro_json (be_wonAmountMicro b)), (''betTransactionUuid'', JStr (be_betTransactionUuid b)),
      (''winTransactionUuid'', jopt JStr (be_winTransactionUuid b)), (''rollbackTransactionUuid'', JNull),
      (''placedAt'', iso_json (be_placedAt b)), (''settledAt'', jopt iso_json (be_settledAt b))]"

definition owned_round :: "db \<Rightarrow> uuid \<Rightarrow> uuid option \<Rightarrow> round_row option" where
  "owned_round d roundId operatorId =
     (case find_round d roundId of
        None \<Rightarrow> None
      | Some r \<Rightarrow> if Some (ro_operatorId r) \<noteq> operatorId then None else Some r)"

definition round_bets :: "db \<Rightarrow> round_row \<Rightarrow> bet_row list" where
  "round_bets d r = filter (\<lambda>b. be_roundId b = ro_id r) (db_bets d)"

definition round_details :: "db \<Rightarrow> uuid \<Rightarrow> uuid option \<Rightarrow> json option" where
  "round_details d roundId operatorId = map_option (\<lambda>r. JObj
     [(''roundId'', JStr (ro_id r)), (''operatorId'', JStr (ro_operatorId r)), (''sessionId'', JStr (ro_sessionId r)),
      (''gameCode'', JStr (ro_gameCode r)), (''currency'', JStr (ro_currency r)), (''nonce'', jint (ro_nonce r)),
      (''state'', JStr (state_string (ro_state r))), (''outcomeType'', jopt JStr (ro_outcomeType r)),
      (''outcome'', jopt outcome_json (ro_outcomeData r)), (''totalBetsMicro'', micro_json (ro_totalBetsMicro r)),
      (''totalPayoutsMicro'', micro_json (ro_totalPayoutsMicro r)), (''houseRevenueMicro'', JStr ''0''),
      (''startedAt'', jopt iso_json (ro_startedAt r)), (''rolledAt'', jopt iso_json (ro_rolledAt r)),
      (''settledAt'', jopt iso_json (ro_settledAt r)), (''voidedAt'', jopt iso_json (ro_voidedAt r)),
      (''bets'', JArr (map round_bet_item (round_bets d r)))]) (owned_round d roundId operatorId)"

text \<open>The parts that the two signed bundles share.\<close>

definition timestamps_json :: "round_row \<Rightarrow> (string \<times> json) list" where
  "timestamps_json r =
     [(''startedAt'', jopt iso_json (ro_startedAt r)), (''rolledAt'', jopt iso_json (ro_rolledAt r)),
      (''settledAt'', jopt iso_json (ro_settledAt r)), (''voidedAt'', jopt iso_json (ro_voidedAt r))]"

definition totals_json :: "round_row \<Rightarrow> json" where
  "totals_json r = JObj [(''totalBetsMicro'', micro_json (ro_totalBetsMicro r)),
     (''totalPayoutsMicro'', micro_json (ro_totalPayoutsMicro r)), (''houseRevenueMicro'', JStr ''0'')]"

definition chain_json :: "round_row \<Rightarrow> json" where
  "chain_json r = JObj [(''prevRowHash'', jopt JStr (ro_prevRowHash r)), (''rowHash'', jopt JStr (ro_rowHash r))]"

definition config_fields :: "game_config_row \<Rightarrow> (string \<times> json) list" where
  "config_fields c = [(''configJson'', og_configJson c), (''configVersion'', JStr (og_configVersion c)),
     (''commissionMicro'', micro_json (og_commissionMicro c)), (''minBetMicro'', micro_json (og_minBetMicro c)),
     (''maxBetMicro'', micro_json (og_maxBetMicro c))]"

definition replay_bet :: "bet_row \<Rightarrow> json" where
  "replay_bet b = JObj
     [(''betId'', JStr (be_id b)), (''playerRef'', JStr (be_playerRef b)), (''selection'', selection_json (be_selection b)),
      (''selectionType'', JStr (be_selectionType b)), (''amountMicro'', micro_json (be_amountMicro b)),
      (''commissionMicro'', micro_json (be_commissionMicro b)), (''status'', JStr (bet_status_string (be_status b))),
      (''won'', jopt JBool (be_won b)), (''wonAmountMicro'', jopt micro_json (be_wonAmountMicro b)),
      (''transactions'', bet_transactions b), (''placedAt'', iso_json (be_placedAt b)),
      (''settledAt'', jopt iso_json (be_settledAt b))]"

definition call_head :: "wallet_call_row \<Rightarrow> (string \<times> json) list" where
  "call_head c =
     [(''id'', JStr (wc_id c)), (''direction'', JStr (wc_direction c)), (''endpoint'', JStr (endpoint_string (wc_endpoint c))),
      (''requestUuid'', JStr (wc_requestUuid c)), (''transactionUuid'', jopt JStr (wc_transactionUuid c)),
      (''referenceTransactionUuid'', jopt JStr (wc_referenceTransactionUuid c)),
      (''amountMicro'', jopt micro_json (wc_amountMicro c)), (''responseStatus'', jopt JStr (wc_responseStatus c))]"

definition call_tail :: "wallet_call_row \<Rightarrow> (string \<times> json) list" where
  "call_tail c =
     [(''latencyMs'', jopt jint (wc_latencyMs c)), (''attempt'', jint (wc_attempt c)),
      (''succeeded'', JBool (wc_succeeded c)), (''prevRowHash'', jopt JStr (wc_prevRowHash c)),
      (''rowHash'', jopt JStr (wc_rowHash c)), (''createdAt'', iso_json (wc_createdAt c))]"

text \<open>
  The replay of a round. \<open>plugin_of\<close> is the registry of games; a plugin that throws ends the
  request (\<open>Inl\<close>); \<open>None\<close> is the 404 of a round that is not the operator's.
\<close>

record evidence_env =
  ev_hmac :: hmac_fun
  ev_numstr :: "jsnum \<Rightarrow> string"
  ev_secret :: string
  ev_plugin_of :: "string \<Rightarrow> game_plugin option"

definition replay_json ::
    "db \<Rightarrow> wallet_call_row list \<Rightarrow> round_row \<Rightarrow> game_config_row option \<Rightarrow> (string \<times> game_outcome \<times> bool) option \<Rightarrow> json" where
  "replay_json d calls r gameConfig recomputed = JObj
     [(''replayVersion'', jint 1), (''roundId'', JStr (ro_id r)), (''operatorId'', JStr (ro_operatorId r)),
      (''sessionId'', JStr (ro_sessionId r)), (''gameCode'', JStr (ro_gameCode r)), (''currency'', JStr (ro_currency r)),
      (''rngVersion'', JStr (ro_rngVersion r)), (''buildHash'', jopt JStr (ro_buildHash r)), (''nonce'', jint (ro_nonce r)),
      (''state'', JStr (state_string (ro_state r))),
      (''config'', jopt (\<lambda>c. JObj (config_fields c @ [(''bettingWindowMs'', jint (og_bettingWindowMs c)),
         (''rollingWindowMs'', jint (og_rollingWindowMs c))])) gameConfig),
      (''provablyFair'', JObj
        [(''serverSeed'', jopt JStr (replay_seed r)), (''serverSeedHash'', JStr (ro_serverSeedHash r)),
         (''clientSeed'', JStr (ro_clientSeed r)), (''revealAllowed'', JBool (round_terminal r))]),
      (''outcome'', JObj [(''outcomeType'', jopt JStr (ro_outcomeType r)),
         (''outcomeData'', jopt outcome_json (ro_outcomeData r))]),
      (''recomputedOutcome'', jopt (\<lambda>(ty, out, ok). JObj [(''outcomeType'', JStr ty), (''outcome'', outcome_json out),
         (''matches'', JBool ok)]) recomputed),
      (''timestamps'', JObj (timestamps_json r @
         [(''startedAtMonoNs'', jopt (\<lambda>i. JStr (show_int i)) (ro_startedAtMonoNs r))])),
      (''totals'', totals_json r), (''bets'', JArr (map replay_bet (sort_key be_placedAt (round_bets d r)))),
      (''walletCallChain'', JArr (map (\<lambda>c. JObj (call_head c @ call_tail c))
         (sort_key wc_createdAt (filter (\<lambda>c. wc_roundId c = Some (ro_id r)) calls)))),
      (''chain'', chain_json r)]"

definition round_replay ::
    "evidence_env \<Rightarrow> game_config_row list \<Rightarrow> wallet_call_row list \<Rightarrow> db \<Rightarrow> uuid \<Rightarrow> uuid option \<Rightarrow>
     game_error + (json \<times> string) option" where
  "round_replay env configs calls d roundId operatorId =
     (case owned_round d roundId operatorId of
        None \<Rightarrow> Inr None
      | Some r \<Rightarrow>
          (let gameConfig = find_config configs (ro_operatorId r) (ro_gameCode r) (ro_currency r)
           in case recomputedOutcome (ev_plugin_of env (ro_gameCode r)) (map_option og_configJson gameConfig) r of
                Inl e \<Rightarrow> Inl e
              | Inr rec \<Rightarrow>
                  (let replay = replay_json d calls r gameConfig rec
                   in Inr (Some (replay, sign_hex (ev_hmac env) (ev_secret env) (canonicalJson (ev_numstr env) replay))))))"

section \<open>The dispute pack\<close>

definition pack_bet :: "db \<Rightarrow> uuid \<Rightarrow> uuid \<Rightarrow> bet_row option" where
  "pack_bet d operatorId transactionUuid = find (\<lambda>b. be_operatorId b = operatorId \<and>
     (be_betTransactionUuid b = transactionUuid \<or> be_winTransactionUuid b = Some transactionUuid)) (db_bets d)"

definition pack_calls :: "wallet_call_row list \<Rightarrow> uuid \<Rightarrow> bet_row \<Rightarrow> wallet_call_row list" where
  "pack_calls calls operatorId b = sort_key wc_createdAt (filter (\<lambda>c. wc_operatorId c = operatorId \<and>
     (wc_roundId c = Some (be_roundId b) \<or> wc_transactionUuid c = Some (be_betTransactionUuid b) \<or>
      (truthy (be_winTransactionUuid b) \<and> wc_transactionUuid c = be_winTransactionUuid b))) calls)"

definition pack_session :: "session_row \<Rightarrow> json" where
  "pack_session s = JObj
     [(''id'', JStr (se_id s)), (''playerRef'', JStr (se_playerRef s)), (''currency'', JStr (se_currency s)),
      (''lang'', JStr (se_lang s)), (''jurisdiction'', JStr (se_jurisdiction s)), (''mode'', JStr (db_mode_string (se_mode s))),
      (''rgLimits'', se_rgLimits s), (''serverSeedHash'', JStr (se_serverSeedHash s)), (''createdAt'', JDate (se_createdAt s)),
      (''expiresAt'', JDate (se_expiresAt s)), (''terminatedAt'', jopt JDate (se_terminatedAt s)),
      (''terminationReason'', jopt JStr (se_terminationReason s))]"

text \<open>The recomputation is the one of the replay, without the seed's test for emptiness.\<close>

definition provablyFairCheck :: "game_plugin option \<Rightarrow> json option \<Rightarrow> round_row \<Rightarrow> game_error + (bool \<times> string) option" where
  "provablyFairCheck plugin configJson r =
     (case (configJson, ro_outcomeData r, ro_outcomeType r, plugin) of
        (Some cj, Some out, Some ty, Some pl) \<Rightarrow>
          if \<not> round_terminal r \<or> ty = [] then Inr None
          else (case gp_configSchema pl cj of
                  None \<Rightarrow> Inr None
                | Some cfg \<Rightarrow>
                    (case gp_verifyOutcome pl \<lparr>rc_serverSeed = ro_serverSeed r, rc_clientSeed = ro_clientSeed r,
                          rc_nonce = of_int (ro_nonce r)\<rparr> cfg out of
                       Inl e \<Rightarrow> Inl e
                     | Inr b \<Rightarrow> Inr (Some (b, ty))))
      | _ \<Rightarrow> Inr None)"

definition pack_json ::
    "msec \<Rightarrow> db \<Rightarrow> wallet_call_row list \<Rightarrow> uuid \<Rightarrow> bet_row \<Rightarrow> round_row \<Rightarrow> game_config_row option \<Rightarrow> (bool \<times> string) option \<Rightarrow> json" where
  "pack_json now d calls transactionUuid b r gameConfig fair = JObj
     [(''disputePackVersion'', jint 1), (''generatedAt'', iso_json now),
      (''lookup'', JObj [(''transactionUuid'', JStr transactionUuid),
         (''resolvedRole'', JStr (if be_betTransactionUuid b = transactionUuid then ''bet''
            else if be_winTransactionUuid b = Some transactionUuid then ''win'' else ''rollback''))]),
      (''operator'', JObj [(''id'', JStr (be_operatorId b))]),
      (''player'', JObj [(''playerRef'', JStr (be_playerRef b)), (''currency'', JStr (be_currency b))]),
      (''bet'', JObj
        [(''id'', JStr (be_id b)), (''selection'', selection_json (be_selection b)), (''selectionType'', JStr (be_selectionType b)),
         (''amountMicro'', micro_json (be_amountMicro b)), (''commissionMicro'', micro_json (be_commissionMicro b)),
         (''status'', JStr (bet_status_string (be_status b))), (''won'', jopt JBool (be_won b)),
         (''wonAmountMicro'', jopt micro_json (be_wonAmountMicro b)), (''placedAt'', iso_json (be_placedAt b)),
         (''settledAt'', jopt iso_json (be_settledAt b)), (''transactions'', bet_transactions b),
         (''pendingState'', pending_state_json d b)]),
      (''round'', JObj
        [(''id'', JStr (ro_id r)), (''state'', JStr (state_string (ro_state r))), (''rngVersion'', JStr (ro_rngVersion r)),
         (''buildHash'', jopt JStr (ro_buildHash r)), (''nonce'', jint (ro_nonce r)),
         (''serverSeed'', if round_terminal r then JStr (ro_serverSeed r) else JNull),
         (''serverSeedHash'', JStr (ro_serverSeedHash r)), (''clientSeed'', JStr (ro_clientSeed r)),
         (''outcome'', JObj [(''outcomeType'', jopt JStr (ro_outcomeType r)),
            (''outcomeData'', jopt outcome_json (ro_outcomeData r))]),
         (''totals'', totals_json r), (''timestamps'', JObj (timestamps_json r)), (''chain'', chain_json r)]),
      (''session'', jopt pack_session (find_session d (be_sessionId b))),
      (''gameConfig'', jopt (\<lambda>c. JObj (config_fields c)) gameConfig),
      (''provablyFairCheck'', jopt (\<lambda>(ok, ty). JObj [(''match'', JBool ok), (''outcomeType'', JStr ty)]) fair),
      (''walletCallChain'', JArr (map (\<lambda>c. JObj (call_head c @ [(''httpStatus'', jopt jint (wc_httpStatus c))] @ call_tail c))
         (pack_calls calls (be_operatorId b) b)))]"

definition buildDisputePack ::
    "evidence_env \<Rightarrow> game_config_row list \<Rightarrow> wallet_call_row list \<Rightarrow> msec \<Rightarrow> db \<Rightarrow> uuid \<Rightarrow> uuid \<Rightarrow>
     game_error + (json \<times> string) option" where
  "buildDisputePack env configs calls now d operatorId transactionUuid =
     (case pack_bet d operatorId transactionUuid of
        None \<Rightarrow> Inr None
      | Some b \<Rightarrow>
          (case find_round d (be_roundId b) of
             None \<Rightarrow> Inr None
           | Some r \<Rightarrow>
               (let gameConfig = find_config configs operatorId (ro_gameCode r) (be_currency b)
                in case provablyFairCheck (ev_plugin_of env (ro_gameCode r)) (map_option og_configJson gameConfig) r of
                     Inl e \<Rightarrow> Inl e
                   | Inr fair \<Rightarrow>
                       (let pack = pack_json now d calls transactionUuid b r gameConfig fair
                        in Inr (Some (pack, sign_hex (ev_hmac env) (ev_secret env) (canonicalJson (ev_numstr env) pack)))))))"

section \<open>Walking the pages\<close>

text \<open>All pages in turn, each from the cursor that the one before it gave.\<close>

fun walk :: "('r \<Rightarrow> uuid) \<Rightarrow> nat \<Rightarrow> 'r list \<Rightarrow> nat \<Rightarrow> uuid option \<Rightarrow> 'r list" where
  "walk key limit rows 0 cursor = []"
| "walk key limit rows (Suc n) cursor =
     (let (page, next) = list_page key cursor limit rows
      in case next of None \<Rightarrow> page | Some c \<Rightarrow> page @ walk key limit rows n (Some c))"

text \<open>Pages of \<open>limit\<close> rows with one row missing between them.\<close>

fun gapped :: "nat \<Rightarrow> 'r list \<Rightarrow> 'r list" where
  "gapped limit rows =
     (if length rows \<le> limit then rows else take limit rows @ gapped limit (drop (limit + 1) rows))"

declare gapped.simps [simp del]

lemma gapped_subset: "set (gapped limit rows) \<subseteq> set rows"
proof (induction limit rows rule: gapped.induct)
  case (1 limit rows)
  show ?case using 1 set_take_subset [of limit rows] set_drop_subset [of "limit + 1" rows]
    by (subst gapped.simps) auto
qed

lemma from_cursor:
  assumes "distinct (map key rows)" "i < length rows"
  shows "drop 1 (dropWhile (\<lambda>r. key r \<noteq> key (rows ! i)) rows) = drop (i + 1) rows"
proof -
  let ?x = "rows ! i" and ?P = "\<lambda>r. key r \<noteq> key (rows ! i)"
  have rows: "rows = take i rows @ ?x # drop (Suc i) rows" using id_take_nth_drop [OF assms(2)] .
  have "distinct (map key (take i rows @ ?x # drop (Suc i) rows))" using assms(1) rows by simp
  then have "key ?x \<notin> key ` set (take i rows)" by simp
  then have "\<forall>r \<in> set (take i rows). ?P r" by (metis imageI)
  then have "dropWhile ?P (take i rows @ ?x # drop (Suc i) rows) = ?x # drop (Suc i) rows"
    by (simp add: dropWhile_append2)
  then show ?thesis by (simp flip: rows)
qed

lemma list_page_rest:
  "list_page key cursor limit rows =
     (let rest = (if truthy cursor then drop 1 (dropWhile (\<lambda>r. key r \<noteq> the cursor) rows) else rows)
      in if limit < length rest then (take limit rest, Some (key (rest ! limit))) else (rest, None))"
proof -
  have "butlast (take (Suc limit) xs) = take limit xs \<and> last (take (Suc limit) xs) = xs ! limit"
    if "limit < length xs" for xs :: "'a list"
    using that by (simp add: take_Suc_conv_app_nth)
  then show ?thesis by (auto simp: list_page_def page_query_def Let_def)
qed

lemma walk_gapped:
  assumes "distinct (map key rows)" "\<forall>r \<in> set rows. key r \<noteq> []"
  shows "(if truthy cursor then drop 1 (dropWhile (\<lambda>r. key r \<noteq> the cursor) rows) else rows) = drop p rows \<Longrightarrow>
    length (drop p rows) \<le> n \<Longrightarrow> walk key limit rows n cursor = gapped limit (drop p rows)"
proof (induction n arbitrary: cursor p)
  case 0
  then show ?case by (subst gapped.simps) simp
next
  case (Suc n)
  show ?case
  proof (cases "limit < length (drop p rows)")
    case False
    then show ?thesis
      using Suc.prems by (subst gapped.simps) (simp add: list_page_rest)
  next
    case True
    let ?q = "p + limit"
    have q: "?q < length rows" "drop p rows ! limit = rows ! ?q" using True by simp_all
    have "truthy (Some (key (rows ! ?q)))" using assms(2) q(1) by (simp add: truthy_def)
    then have "walk key limit rows n (Some (key (rows ! ?q))) = gapped limit (drop (?q + 1) rows)"
      using Suc.IH [of "Some (key (rows ! ?q))" "?q + 1"] from_cursor [OF assms(1) q(1)] Suc.prems(2) by simp
    moreover have "list_page key cursor limit rows = (take limit (drop p rows), Some (key (rows ! ?q)))"
      using Suc.prems(1) True by (simp only: list_page_rest Let_def q(2) if_True)
    ultimately show ?thesis
      using True by (subst gapped.simps) (simp add: ac_simps)
  qed
qed

lemma gapped_misses:
  assumes "distinct rows" "limit < length rows"
  shows "rows ! limit \<notin> set (gapped limit rows)"
proof -
  have "distinct (take limit rows @ rows ! limit # drop (limit + 1) rows)"
    using assms id_take_nth_drop [OF assms(2)] by simp
  then show ?thesis using assms(2) gapped_subset [of limit "drop (limit + 1) rows"]
    by (subst gapped.simps) auto
qed

lemma newest_first_keys: "distinct (map key rows) \<Longrightarrow> distinct (map key (newest_first k rows))"
proof -
  assume "distinct (map key rows)"
  then have "distinct (map key (sort_key k rows))"
    by (metis mset_eq_imp_distinct_iff mset_map mset_sort)
  then show ?thesis by (simp add: newest_first_def rev_map [symmetric])
qed

section \<open>Properties\<close>

text \<open>A statement that is read page by page is incomplete: following the cursors from the
  first page to the last gives pages of the requested size with one bet missing after each
  of them, because the cursor is the first bet of the next page and the next query skips it.
  A player with more than one page of bets never sees the bet after the first page.\<close>

theorem statement_pages_lose_bets:
  assumes "distinct (map be_id (db_bets d))" "\<forall>b \<in> set (db_bets d). be_id b \<noteq> []"
    and "rows = statement_rows d operatorId playerRef t0 t1" "length rows \<le> n"
  shows "walk be_id limit rows n None = gapped limit rows \<and>
    (limit < length rows \<longrightarrow> rows ! limit \<in> set rows \<and> rows ! limit \<notin> set (walk be_id limit rows n None))"
proof -
  have d: "distinct (map be_id rows)" unfolding assms(3) statement_rows_def
    by (intro newest_first_keys distinct_map_filter assms(1))
  have "\<forall>b \<in> set rows. be_id b \<noteq> []" using assms(2,3) by (auto simp: statement_rows_def newest_first_def)
  then have w: "walk be_id limit rows n None = gapped limit rows"
    using walk_gapped [OF d, of None 0 n] assms(4) by (simp add: truthy_def)
  then show ?thesis using gapped_misses [of rows limit] d by (auto simp: distinct_map)
qed

definition three_bets :: db where
  "three_bets = wd_db (dice_world PhSettled None
     [dice_bet, dice_bet\<lparr>be_id := ''c'', be_placedAt := 2\<rparr>, dice_bet\<lparr>be_id := ''d'', be_placedAt := 3\<rparr>])"

theorem statement_pages_lose_bets_witness:
  "map be_id (statement_rows three_bets (Some ''op'') ''p'' 0 9) = [''d'', ''c'', ''b''] \<and>
   map be_id (walk be_id 1 (statement_rows three_bets (Some ''op'') ''p'' 0 9) 3 None) = [''d'', ''b'']"
proof -
  have rows: "statement_rows three_bets (Some ''op'') ''p'' 0 9 =
      [dice_bet\<lparr>be_id := ''d'', be_placedAt := 3\<rparr>, dice_bet\<lparr>be_id := ''c'', be_placedAt := 2\<rparr>, dice_bet]"
    by (simp add: statement_rows_def newest_first_def three_bets_def dice_world_def where_eq_def bet_order_def dice_bet_def)
  have "walk be_id 1 (statement_rows three_bets (Some ''op'') ''p'' 0 9) 3 None =
      gapped 1 (statement_rows three_bets (Some ''op'') ''p'' 0 9)"
  proof (rule statement_pages_lose_bets [THEN conjunct1, OF _ _ refl])
    show "distinct (map be_id (db_bets three_bets))" "\<forall>b \<in> set (db_bets three_bets). be_id b \<noteq> []"
      by (simp_all add: three_bets_def dice_world_def dice_bet_def)
    show "length (statement_rows three_bets (Some ''op'') ''p'' 0 9) \<le> 3" by (simp add: rows)
  qed
  then show ?thesis unfolding rows by (simp add: gapped.simps) (simp add: dice_bet_def)
qed

section \<open>What a verifier receives\<close>

text \<open>
  A value after \<open>JSON.stringify\<close> and \<open>JSON.parse\<close>: dates have become strings, members that
  are undefined are gone, undefined elements of arrays are null. (Big integers would not
  survive; no bundle contains one.)
\<close>

fun json_wire :: "json \<Rightarrow> json" where
  "json_wire (JDate t) = JStr (toISOString t)"
| "json_wire (JArr vs) = JArr (map (\<lambda>v. if v = JUndefined then JNull else json_wire v) vs)"
| "json_wire (JObj kvs) = JObj (map (\<lambda>(k, v). (k, json_wire v)) (filter (\<lambda>kv. snd kv \<noteq> JUndefined) kvs))"
| "json_wire v = v"

fun no_big :: "json \<Rightarrow> bool" where
  "no_big (JBig i) = False"
| "no_big (JArr vs) = list_all (\<lambda>v. no_big v) vs"
| "no_big (JObj kvs) = list_all (\<lambda>(k, v). no_big v) kvs"
| "no_big v = True"

lemma json_wire_undefined [simp]: "json_wire v = JUndefined \<longleftrightarrow> v = JUndefined"
  by (cases v) simp_all

definition plain_char :: "char \<Rightarrow> bool" where
  "plain_char c \<longleftrightarrow> (of_char c :: nat) \<noteq> 34 \<and> (of_char c :: nat) \<noteq> 92 \<and> \<not> (of_char c :: nat) < 32"

lemma quote_plain: "list_all plain_char s \<Longrightarrow> quote_string s = DQ # s @ [DQ]"
proof -
  assume "list_all plain_char s"
  then have "concat (map quote_char s) = s"
    by (induction s) (auto simp: quote_char_def plain_char_def Let_def)
  then show ?thesis by (simp add: quote_string_def)
qed

lemma show_int_plain: "list_all plain_char (show_int i)"
proof -
  have "list_all plain_char (dec_digits n)" for n
    using dec_digits_is_dec [of n] by (auto simp: list_all_iff is_dec_def plain_char_def)
  then show ?thesis by (simp add: show_int_def) (simp add: plain_char_def)
qed

lemma iso_plain: "list_all plain_char (toISOString t)"
proof -
  have "list_all plain_char (pad_int n i)" for n i
    using show_int_plain [of i] by (auto simp: pad_int_def list_all_iff plain_char_def Let_def)
  then show ?thesis
    by (auto simp: toISOString_def iso_day_def Let_def split: prod.splits) (simp_all add: plain_char_def)
qed

lemma map_pair_filter:
  assumes "\<And>k v. (k, v) \<in> set kvs \<Longrightarrow> f (g v) = f v" "\<And>v. P (g v) = P v"
  shows "map (\<lambda>(k, v). (k, f v)) (filter (\<lambda>kv. P (snd kv)) (map (\<lambda>(k, v). (k, g v)) kvs)) =
    map (\<lambda>(k, v). (k, f v)) (filter (\<lambda>kv. P (snd kv)) kvs)"
  using assms(1) by (induction kvs) (auto simp: assms(2))

text \<open>The canonical text of what was received is the canonical text of what was sent.\<close>

lemma obj_text:
  "canonicalJson numstr (JObj kvs) =
     ''{'' @ join_comma (map (\<lambda>(k, t). quote_string k @ '':'' @ t)
       (sort_key fst (map (\<lambda>(k, v). (k, canonicalJson numstr v)) (filter (\<lambda>kv. snd kv \<noteq> JUndefined) kvs)))) @ ''}''"
proof -
  have "map (\<lambda>(k, t). quote_string k @ '':'' @ t) (sort_key fst (map (\<lambda>(k, v). (k, canonicalJson numstr v)) zs)) =
      map (\<lambda>(k, v). quote_string k @ '':'' @ canonicalJson numstr v) (sort_key fst zs)" for zs :: "(string \<times> json) list"
    by (subst sort_key_map) (simp add: case_prod_beta o_def)
  then show ?thesis by simp
qed

lemma canonical_wire: "no_big v \<Longrightarrow> canonicalJson numstr (json_wire v) = canonicalJson numstr v"
proof (induction v rule: json_wire.induct)
  case (1 t)
  then show ?case by (simp add: quote_plain iso_plain)
next
  case (2 vs)
  have "map (\<lambda>v. canonicalJson numstr (if v = JUndefined then JNull else json_wire v)) vs = map (canonicalJson numstr) vs"
    using 2 by (auto simp: list_all_iff)
  then show ?case by (auto simp: o_def intro!: arg_cong [of _ _ join_comma])
next
  case (3 kvs)
  let ?live = "filter (\<lambda>kv. snd kv \<noteq> JUndefined) kvs"
  have "canonicalJson numstr (json_wire v) = canonicalJson numstr v" if "(k, v) \<in> set ?live" for k v
    using 3 that by (fastforce simp: list_all_iff)
  then have "map (\<lambda>(k, v). (k, canonicalJson numstr v)) (filter (\<lambda>kv. snd kv \<noteq> JUndefined) (map (\<lambda>(k, v). (k, json_wire v)) ?live)) =
      map (\<lambda>(k, v). (k, canonicalJson numstr v)) (filter (\<lambda>kv. snd kv \<noteq> JUndefined) ?live)"
    by (intro map_pair_filter) simp_all
  then show ?case by (simp only: json_wire.simps obj_text filter_filter) simp
qed simp_all

lemma no_big_jopt [simp]: "no_big (jopt f x) \<longleftrightarrow> (\<forall>v. x = Some v \<longrightarrow> no_big (f v))"
  by (simp add: jopt_def split: option.splits)

lemma no_big_parts [simp]:
  "no_big (micro_json m)" "no_big (iso_json t)" "no_big (jint i)" "no_big (outcome_json out)"
  "no_big (selection_json sel)" "no_big (bet_transactions b)" "no_big (totals_json r)" "no_big (chain_json r)"
  "list_all (\<lambda>(k, v). no_big v) (timestamps_json r)" "list_all (\<lambda>(k, v). no_big v) (call_head c)"
  "list_all (\<lambda>(k, v). no_big v) (call_tail c)" "no_big (replay_bet b)" "no_big (pending_state_json d b)"
proof -
  show [simp]: "no_big (micro_json m)" "no_big (iso_json t)" "no_big (jint i)" for m t i
    by (simp_all add: micro_json_def iso_json_def jint_def)
  show "no_big (outcome_json out)" by (cases out) (simp_all add: list_all_iff)
  show [simp]: "no_big (selection_json sel)" by (cases sel) (simp_all split: option.splits)
  show [simp]: "no_big (bet_transactions b)" "no_big (totals_json r)" "no_big (chain_json r)"
    by (simp_all add: bet_transactions_def totals_json_def chain_json_def)
  show "list_all (\<lambda>(k, v). no_big v) (timestamps_json r)" "list_all (\<lambda>(k, v). no_big v) (call_head c)"
    "list_all (\<lambda>(k, v). no_big v) (call_tail c)"
    by (simp_all add: timestamps_json_def call_head_def call_tail_def)
  show "no_big (replay_bet b)"
    by (cases "be_selection b") (simp_all add: replay_bet_def bet_transactions_def split: option.splits)
  show "no_big (pending_state_json d b)"
    by (simp add: pending_state_json_def split: option.splits)
qed

lemmas plain_fields [simp] = no_big_parts(9-11) [unfolded list_all_iff]

text \<open>The JSON columns hold what \<open>JSON.parse\<close> gave.\<close>

definition columns_plain :: "game_config_row list \<Rightarrow> db \<Rightarrow> bool" where
  "columns_plain configs d \<longleftrightarrow> (\<forall>c \<in> set configs. no_big (og_configJson c)) \<and>
     (\<forall>s \<in> set (db_sessions d). no_big (se_rgLimits s))"

lemma columns_plainD:
  "columns_plain configs d \<Longrightarrow> find_config configs i g y = Some c \<Longrightarrow> no_big (og_configJson c)"
  "columns_plain configs d \<Longrightarrow> find_session d j = Some s \<Longrightarrow> no_big (se_rgLimits s)"
  by (auto simp: columns_plain_def find_config_def find_session_def dest: find_SomeD)

lemma no_big_replay:
  "(\<forall>c. gameConfig = Some c \<longrightarrow> no_big (og_configJson c)) \<Longrightarrow> no_big (replay_json d calls r gameConfig rec)"
  by (simp add: replay_json_def config_fields_def list_all_iff ball_Un split: prod.splits)

lemma no_big_pack:
  "(\<forall>c. gameConfig = Some c \<longrightarrow> no_big (og_configJson c)) \<Longrightarrow>
   (\<forall>s. find_session d (be_sessionId b) = Some s \<longrightarrow> no_big (se_rgLimits s)) \<Longrightarrow>
   no_big (pack_json now d calls tx b r gameConfig fair)"
  by (simp add: pack_json_def config_fields_def pack_session_def list_all_iff ball_Un split: prod.splits)

text \<open>Cases of the two bundles.\<close>

lemma round_replay_Some:
  "round_replay env configs calls d i opid = Inr (Some (v, sig)) \<Longrightarrow>
   \<exists>r gameConfig rec. owned_round d i opid = Some r \<and> gameConfig = find_config configs (ro_operatorId r) (ro_gameCode r) (ro_currency r) \<and>
     v = replay_json d calls r gameConfig rec \<and> sig = sign_hex (ev_hmac env) (ev_secret env) (canonicalJson (ev_numstr env) v)"
  by (auto simp: round_replay_def Let_def split: option.splits sum.splits)

lemma dispute_pack_Some:
  "buildDisputePack env configs calls now d opid tx = Inr (Some (v, sig)) \<Longrightarrow>
   \<exists>b r gameConfig fair. gameConfig = find_config configs opid (ro_gameCode r) (be_currency b) \<and>
     v = pack_json now d calls tx b r gameConfig fair \<and> sig = sign_hex (ev_hmac env) (ev_secret env) (canonicalJson (ev_numstr env) v)"
  by (auto simp: buildDisputePack_def Let_def split: option.splits sum.splits)

text \<open>C21. The signature of a replay or of a dispute pack can be checked by whoever received the JSON
  and has the secret: the canonical text of the parsed answer, in which dates have become
  strings and undefined members have gone, is the text that was signed.\<close>

theorem bundle_signatures_verify:
  assumes "columns_plain configs d"
    and "round_replay env configs calls d i opid = Inr (Some (v, sig)) \<or>
      buildDisputePack env configs calls now d owner tx = Inr (Some (v, sig))"
  shows "sign_hex (ev_hmac env) (ev_secret env) (canonicalJson (ev_numstr env) (json_wire v)) = sig"
proof -
  have "no_big v \<and> sig = sign_hex (ev_hmac env) (ev_secret env) (canonicalJson (ev_numstr env) v)"
    using assms(2)
  proof
    assume "round_replay env configs calls d i opid = Inr (Some (v, sig))"
    then show ?thesis using columns_plainD(1) [OF assms(1)] by (blast dest: round_replay_Some intro: no_big_replay)
  next
    assume "buildDisputePack env configs calls now d owner tx = Inr (Some (v, sig))"
    then show ?thesis using columns_plainD [OF assms(1)] by (blast dest: dispute_pack_Some intro: no_big_pack)
  qed
  then show ?thesis by (simp add: canonical_wire)
qed


definition sample_evidence :: evidence_env where
  "sample_evidence = \<lparr>ev_hmac = (\<lambda>k m. of_nat (length k + length m)), ev_numstr = (\<lambda>x. show_int \<lfloor>x\<rfloor>), ev_secret = ''k'',
     ev_plugin_of = (\<lambda>g. None)\<rparr>"

definition sample_round_db :: db where
  "sample_round_db = wd_db (dice_world PhResult (Some low_outcome) [dice_bet])"

lemma sample_round: "find_round sample_round_db ''r'' = Some (dice_round (Some low_outcome))"
  by (simp add: sample_round_db_def dice_sample find_round_def)

theorem bundle_signatures_verify_witness:
  "\<exists>v sig. buildDisputePack sample_evidence [] [] 7 sample_round_db ''op'' ''t'' = Inr (Some (v, sig)) \<and>
     sign_hex (ev_hmac sample_evidence) (ev_secret sample_evidence)
       (canonicalJson (ev_numstr sample_evidence) (json_wire v)) = sig"
proof -
  have b: "pack_bet sample_round_db ''op'' ''t'' = Some dice_bet" "be_roundId dice_bet = ''r''"
    by (simp_all add: pack_bet_def sample_round_db_def dice_sample)
  have "columns_plain [] sample_round_db" by (simp add: columns_plain_def sample_round_db_def dice_sample)
  moreover obtain v sig where "buildDisputePack sample_evidence [] [] 7 sample_round_db ''op'' ''t'' = Inr (Some (v, sig))"
    by (simp add: buildDisputePack_def b sample_round provablyFairCheck_def find_config_def Let_def)
  ultimately show ?thesis
    using bundle_signatures_verify [of "[]" sample_round_db sample_evidence "[]" "''x''" None _ _ 7 "''op''" "''t''"] by blast
qed


end
