(* ===== verification/KillSwitch.thy ===== *)
theory KillSwitch
  imports Json
begin

text \<open>
  The global kill switch (\<^verbatim>\<open>apps/rgs-server/src/services/GlobalKillSwitch.ts\<close>): one row of
  the database, and in every process a copy of it that is trusted for five seconds.
\<close>

section \<open>State and operations\<close>

definition CACHE_TTL_MS :: msec where "CACHE_TTL_MS = 5000"

record kill_row =
  kr_engaged :: bool
  kr_reason :: "string option"
  kr_engagedAt :: "msec option"
  kr_engagedBy :: "string option"
  kr_disengagedAt :: "msec option"
  kr_disengagedBy :: "string option"

record kill_snapshot =
  kp_engaged :: bool
  kp_reason :: "string option"
  kp_engagedAt :: "string option"
  kp_engagedBy :: "string option"
  kp_disengagedAt :: "string option"
  kp_disengagedBy :: "string option"

text \<open>The cache of a process: the value and the instant until which it is used.\<close>

type_synonym kill_cache = "(kill_snapshot \<times> msec) option"

definition kill_value :: "kill_row option \<Rightarrow> kill_snapshot" where
  "kill_value row =
     (case row of
        Some r \<Rightarrow> \<lparr>kp_engaged = kr_engaged r, kp_reason = kr_reason r,
                   kp_engagedAt = map_option toISOString (kr_engagedAt r), kp_engagedBy = kr_engagedBy r,
                   kp_disengagedAt = map_option toISOString (kr_disengagedAt r), kp_disengagedBy = kr_disengagedBy r\<rparr>
      | None \<Rightarrow> \<lparr>kp_engaged = False, kp_reason = None, kp_engagedAt = None, kp_engagedBy = None,
                 kp_disengagedAt = None, kp_disengagedBy = None\<rparr>)"

definition snapshot :: "msec \<Rightarrow> kill_row option \<Rightarrow> kill_cache \<Rightarrow> kill_snapshot \<times> kill_cache" where
  "snapshot now row cached =
     (case cached of
        Some (v, expiresAt) \<Rightarrow>
          if now < expiresAt then (v, cached)
          else (let v1 = kill_value row in (v1, Some (v1, now + CACHE_TTL_MS)))
      | None \<Rightarrow> (let v1 = kill_value row in (v1, Some (v1, now + CACHE_TTL_MS))))"

definition isEngaged :: "msec \<Rightarrow> kill_row option \<Rightarrow> kill_cache \<Rightarrow> bool \<times> kill_cache" where
  "isEngaged now row cached = (let (v, c) = snapshot now row cached in (kp_engaged v, c))"

definition engage ::
    "msec \<Rightarrow> string \<Rightarrow> string \<Rightarrow> kill_row option \<Rightarrow> kill_snapshot \<times> kill_row option \<times> kill_cache" where
  "engage now reason actorEmail row =
     (let row1 = (case row of
            Some r \<Rightarrow> r\<lparr>kr_engaged := True, kr_reason := Some (str_slice 0 256 reason),
                        kr_engagedAt := Some now, kr_engagedBy := Some (str_slice 0 254 actorEmail)\<rparr>
          | None \<Rightarrow> \<lparr>kr_engaged = True, kr_reason = Some (str_slice 0 256 reason), kr_engagedAt = Some now,
                     kr_engagedBy = Some (str_slice 0 254 actorEmail), kr_disengagedAt = None, kr_disengagedBy = None\<rparr>);
          (v, c) = snapshot now (Some row1) None
      in (v, Some row1, c))"

definition disengage ::
    "msec \<Rightarrow> string \<Rightarrow> kill_row option \<Rightarrow> kill_snapshot \<times> kill_row option \<times> kill_cache" where
  "disengage now actorEmail row =
     (let row1 = (case row of
            Some r \<Rightarrow> r\<lparr>kr_engaged := False, kr_disengagedAt := Some now,
                        kr_disengagedBy := Some (str_slice 0 254 actorEmail)\<rparr>
          | None \<Rightarrow> \<lparr>kr_engaged = False, kr_reason = None, kr_engagedAt = None, kr_engagedBy = None,
                     kr_disengagedAt = None, kr_disengagedBy = None\<rparr>);
          (v, c) = snapshot now (Some row1) None
      in (v, Some row1, c))"

section \<open>Several processes\<close>

text \<open>
  The processes share the row and have a cache each. Every step has an instant; an engagement
  or a disengagement runs in one of the processes.
\<close>

datatype kill_event =
    KSnapshot nat msec
  | KEngage nat msec string string
  | KDisengage nat msec string

record kill_state =
  kl_row :: "kill_row option"
  kl_caches :: "nat \<Rightarrow> kill_cache"

fun kill_time :: "kill_event \<Rightarrow> msec" where
  "kill_time (KSnapshot p t) = t"
| "kill_time (KEngage p t reason who) = t"
| "kill_time (KDisengage p t who) = t"

inductive kill_step :: "kill_state \<Rightarrow> kill_event \<Rightarrow> kill_state \<Rightarrow> bool" where
  kill_read: "snapshot t (kl_row k) (kl_caches k p) = (v, c) \<Longrightarrow>
    kill_step k (KSnapshot p t) (k\<lparr>kl_caches := (kl_caches k)(p := c)\<rparr>)"
| kill_engage: "engage t reason who (kl_row k) = (v, row, c) \<Longrightarrow>
    kill_step k (KEngage p t reason who) (k\<lparr>kl_row := row, kl_caches := (kl_caches k)(p := c)\<rparr>)"
| kill_disengage: "disengage t who (kl_row k) = (v, row, c) \<Longrightarrow>
    kill_step k (KDisengage p t who) (k\<lparr>kl_row := row, kl_caches := (kl_caches k)(p := c)\<rparr>)"

inductive_cases kill_readE: "kill_step k (KSnapshot p t) k'"
inductive_cases kill_engageE: "kill_step k (KEngage p t reason who) k'"
inductive_cases kill_disengageE: "kill_step k (KDisengage p t who) k'"

text \<open>Runs whose instants do not go backwards.\<close>

inductive kill_run :: "msec \<Rightarrow> kill_state \<Rightarrow> kill_event list \<Rightarrow> msec \<Rightarrow> kill_state \<Rightarrow> bool" where
  kill_nil: "kill_run t k [] t k"
| kill_cons: "t \<le> kill_time e \<Longrightarrow> kill_step k e k1 \<Longrightarrow> kill_run (kill_time e) k1 es t' k' \<Longrightarrow> kill_run t k (e # es) t' k'"

inductive_simps kill_run_Nil: "kill_run t k [] t' k'"
inductive_simps kill_run_Cons: "kill_run t k (e # es) t' k'"

section \<open>Facts\<close>

lemma snapshot_cases:
  "snapshot now row cached = (v, c) \<Longrightarrow>
     (c = cached \<and> (\<exists>e. cached = Some (v, e) \<and> now < e)) \<or> (v = kill_value row \<and> c = Some (v, now + CACHE_TTL_MS))"
  by (auto simp: snapshot_def Let_def split: option.splits if_splits)

lemma kill_value_engaged [simp]: "kp_engaged (kill_value (Some r)) = kr_engaged r"
  by (simp add: kill_value_def)

text \<open>
  While nobody disengages, the row stays engaged, and a cache that does not know it yet
  expires five seconds after the engagement at the latest.
\<close>

definition aware_by :: "msec \<Rightarrow> kill_cache \<Rightarrow> bool" where
  "aware_by limit c = (case c of None \<Rightarrow> True | Some (v, e) \<Rightarrow> kp_engaged v \<or> e \<le> limit)"

definition filled_by :: "msec \<Rightarrow> kill_cache \<Rightarrow> bool" where
  "filled_by now c = (case c of None \<Rightarrow> True | Some (v, e) \<Rightarrow> e \<le> now + CACHE_TTL_MS)"

lemma cache_simps [simp]:
  "aware_by limit None" "aware_by limit (Some (v, e)) = (kp_engaged v \<or> e \<le> limit)"
  "filled_by now None" "filled_by now (Some (v, e)) = (e \<le> now + CACHE_TTL_MS)"
  by (simp_all add: aware_by_def filled_by_def)

lemma filled_aware: "filled_by now c \<Longrightarrow> aware_by (now + CACHE_TTL_MS) c"
  by (cases c) auto

definition engaged_since :: "msec \<Rightarrow> msec \<Rightarrow> kill_state \<Rightarrow> bool" where
  "engaged_since t0 now k \<longleftrightarrow> t0 \<le> now \<and> (\<exists>r. kl_row k = Some r \<and> kr_engaged r) \<and>
     (\<forall>p. aware_by (t0 + CACHE_TTL_MS) (kl_caches k p))"

text \<open>Caches were filled in the past.\<close>

definition caches_bounded :: "msec \<Rightarrow> kill_state \<Rightarrow> bool" where
  "caches_bounded now k \<longleftrightarrow> (\<forall>p. filled_by now (kl_caches k p))"

lemma engage_row:
  "engage t reason who row = (v, row1, c) \<Longrightarrow>
     (\<exists>r. row1 = Some r \<and> kr_engaged r) \<and> kp_engaged v \<and> c = Some (v, t + CACHE_TTL_MS)"
  by (auto simp: engage_def snapshot_def Let_def split: option.splits)

lemma disengage_cache: "disengage t who row = (v, row1, c) \<Longrightarrow> c = Some (v, t + CACHE_TTL_MS)"
  by (auto simp: disengage_def snapshot_def Let_def split: option.splits)

lemma engage_establishes:
  assumes "caches_bounded t k" "kill_step k (KEngage p t reason who) k'"
  shows "engaged_since t t k'"
  using assms by (auto elim!: kill_engageE dest!: engage_row intro: filled_aware simp: engaged_since_def caches_bounded_def)

lemma engaged_step:
  assumes "engaged_since t0 now k" "kill_step k e k'" "now \<le> kill_time e" "\<forall>p t who. e \<noteq> KDisengage p t who"
  shows "engaged_since t0 (kill_time e) k'"
  using assms(2)
proof cases
  case (kill_read t p v c)
  then show ?thesis using assms(1,3) snapshot_cases [OF kill_read(3)] spec [of _ p]
    by (auto simp: engaged_since_def aware_by_def)
next
  case (kill_engage t reason who v row c p)
  then show ?thesis using assms(1,3) engage_row [OF kill_engage(3)]
    by (auto simp: engaged_since_def)
next
  case (kill_disengage t who v row c p)
  then show ?thesis using assms(4) by auto
qed

lemma engaged_run:
  "kill_run now k es t' k' \<Longrightarrow> engaged_since t0 now k \<Longrightarrow> \<forall>e \<in> set es. \<forall>p t who. e \<noteq> KDisengage p t who \<Longrightarrow>
   engaged_since t0 t' k'"
proof (induction rule: kill_run.induct)
  case (kill_cons t e k k1 es t' k')
  have "engaged_since t0 (kill_time e) k1"
    using kill_cons.prems kill_cons.hyps by (intro engaged_step [of t0 t k]) simp_all
  then show ?case using kill_cons by simp
qed

section \<open>Properties\<close>


text \<open>Two processes: the second has just read the row when the first engages the switch.\<close>

definition sample_kill :: kill_state where
  "sample_kill = \<lparr>kl_row = None, kl_caches = (\<lambda>p. if p = 1 then Some (kill_value None, 5000) else None)\<rparr>"


end
