(* ===== verification/Registry.thy ===== *)
theory Registry
  imports Evidence WalletClient KillSwitch "HOL-Library.AList"
begin

text \<open>
  Which engines run: the registry of games (\<^verbatim>\<open>apps/rgs-server/src/games/registry.ts\<close>), the
  certificates of the running build (\<^verbatim>\<open>services/BuildAttestation.ts\<close>,
  \<^verbatim>\<open>services/CertRegistry.ts\<close>) and the registry of engines (\<^verbatim>\<open>services/EngineRegistry.ts\<close>).
  Creating an engine awaits the database several times between the test for an existing
  engine and the entry of the new one, so it is modelled as two steps that calls can
  interleave.
\<close>

section \<open>Games\<close>

record plugin_env =
  pe_hmac :: hmac_fun
  pe_exp :: "jsnum \<Rightarrow> jsnum"
  pe_log :: "jsnum \<Rightarrow> jsnum"

definition plugins :: "plugin_env \<Rightarrow> (string \<times> game_plugin) list" where
  "plugins env = map (\<lambda>p. (gp_gameCode p, p))
     [ketapolaDice (pe_hmac env), crashMinimal (pe_hmac env), lempiCrash (pe_hmac env) (pe_exp env) (pe_log env)]"

text \<open>A code that names a member of every object is found, but is no plugin.\<close>

datatype plugin_lookup = GamePlugin game_plugin | InheritedPlugin | NoPlugin

definition getPlugin :: "plugin_env \<Rightarrow> string \<Rightarrow> plugin_lookup" where
  "getPlugin env gameCode =
     (case map_of (plugins env) gameCode of
        Some p \<Rightarrow> GamePlugin p
      | None \<Rightarrow> if gameCode \<in> set object_prototype_names then InheritedPlugin else NoPlugin)"

definition listPlugins :: "plugin_env \<Rightarrow> game_plugin list" where "listPlugins env = map snd (plugins env)"

definition listGameCodes :: "plugin_env \<Rightarrow> string list" where "listGameCodes env = map fst (plugins env)"

section \<open>Certificates\<close>

record certificate_row =
  ct_id :: uuid
  ct_gameCode :: string
  ct_jurisdiction :: string
  ct_buildHash :: string
  ct_issuedAt :: msec
  ct_validFrom :: msec
  ct_expiresAt :: msec
  ct_rngVersion :: "string option"
  ct_revokedAt :: "msec option"

datatype attestation_reason =
    MissingBuildHash | NoMatchingCertificate | BuildHashDrift | CertificateExpired | CertificateRevoked | RngVersionMismatch

record attestation =
  at_allowed :: bool
  at_buildHash :: "string option"
  at_reason :: "attestation_reason option"
  at_certificateId :: "uuid option"
  at_certifiedBuildHash :: "string option"
  at_expiresAt :: "string option"

text \<open>What the process was started with: \<open>RGS_CERT_STRICT\<close> and \<open>BUILD_HASH\<close>.\<close>

record attest_env =
  ae_strict :: bool
  ae_buildHash :: "string option"

definition currentBuildHash :: "attest_env \<Rightarrow> string option" where
  "currentBuildHash env = (case ae_buildHash env of None \<Rightarrow> None | Some h \<Rightarrow> if 7 \<le> length h then Some h else None)"

definition refusal :: "attest_env \<Rightarrow> attestation_reason \<Rightarrow> attestation" where
  "refusal env reason = \<lparr>at_allowed = \<not> ae_strict env, at_buildHash = currentBuildHash env, at_reason = Some reason,
     at_certificateId = None, at_certifiedBuildHash = None, at_expiresAt = None\<rparr>"

definition check_build ::
    "attest_env \<Rightarrow> plugin_env \<Rightarrow> certificate_row list \<Rightarrow> msec \<Rightarrow> string \<Rightarrow> string \<Rightarrow> attestation option" where
  "check_build env penv certs now gameCode jurisdiction =
     (case currentBuildHash env of
        None \<Rightarrow> Some (refusal env MissingBuildHash)
      | Some hash \<Rightarrow>
          (let candidates = newest_first ct_issuedAt (filter (\<lambda>c. ct_gameCode c = gameCode \<and>
                 (ct_jurisdiction c = jurisdiction \<or> ct_jurisdiction c = ''MULTI'')) certs);
               matchesBuild = filter (\<lambda>c. ct_buildHash c = hash) candidates
           in if candidates = [] then Some (refusal env NoMatchingCertificate)
              else if matchesBuild = []
              then Some ((refusal env BuildHashDrift)\<lparr>at_certifiedBuildHash := Some (ct_buildHash (hd candidates))\<rparr>)
              else (case getPlugin penv gameCode of
                NoPlugin \<Rightarrow> Some (refusal env NoMatchingCertificate)
              | InheritedPlugin \<Rightarrow> None
              | GamePlugin plugin \<Rightarrow>
                  (case find (\<lambda>c. ct_rngVersion c \<noteq> None \<and> ct_rngVersion c \<noteq> Some (gp_rngVersion plugin)) matchesBuild of
                     Some c \<Rightarrow> Some ((refusal env RngVersionMismatch)\<lparr>at_certificateId := Some (ct_id c)\<rparr>)
                   | None \<Rightarrow>
                       (case find (\<lambda>c. ct_revokedAt c = None \<and> now < ct_expiresAt c) matchesBuild of
                          Some live \<Rightarrow> Some \<lparr>at_allowed = True, at_buildHash = Some hash, at_reason = None,
                            at_certificateId = Some (ct_id live), at_certifiedBuildHash = Some (ct_buildHash live),
                            at_expiresAt = Some (toISOString (ct_expiresAt live))\<rparr>
                        | None \<Rightarrow>
                            (case (find (\<lambda>c. ct_revokedAt c \<noteq> None) matchesBuild, find (\<lambda>c. ct_expiresAt c \<le> now) matchesBuild) of
                               (Some c, _) \<Rightarrow> Some ((refusal env CertificateRevoked)\<lparr>at_certificateId := Some (ct_id c)\<rparr>)
                             | (None, Some c) \<Rightarrow> Some ((refusal env CertificateExpired)\<lparr>at_certificateId := Some (ct_id c),
                                  at_expiresAt := Some (toISOString (ct_expiresAt c))\<rparr>)
                             | (None, None) \<Rightarrow> Some (refusal env NoMatchingCertificate)))))))"

text \<open>The sweep at start: how many enabled configurations are certified, and how many are not.\<close>

definition checkBoot ::
    "attest_env \<Rightarrow> plugin_env \<Rightarrow> certificate_row list \<Rightarrow> msec \<Rightarrow> operator_row list \<Rightarrow> game_config_row list \<Rightarrow> (nat \<times> nat) option" where
  "checkBoot env penv certs now operators configs =
     (let checks = concat (map (\<lambda>o1. map (\<lambda>c. check_build env penv certs now (og_gameCode c) (op_jurisdiction o1))
            (filter (\<lambda>c. og_operatorId c = op_id o1 \<and> og_enabled c) configs))
            (filter (\<lambda>o1. op_status o1 = OpActive \<and> \<not> op_testMode o1) operators))
      in if None \<in> set checks then None
         else (let good = filter (\<lambda>a. at_allowed (the a) \<and> at_reason (the a) = None) checks
               in Some (length good, length checks - length good)))"

text \<open>The coverage check at start, which knows one game code: missing, expiring and drifting certificates.\<close>

definition checkCertificateCoverage ::
    "string option \<Rightarrow> certificate_row list \<Rightarrow> msec \<Rightarrow> operator_row list \<Rightarrow> nat \<times> nat \<times> nat" where
  "checkCertificateCoverage liveBuildHash allCerts now operators =
     (let ops = filter (\<lambda>o1. op_status o1 \<noteq> OpTerminated \<and> \<not> op_testMode o1) operators;
          certs = filter (\<lambda>c. ct_revokedAt c = None \<and> now < ct_expiresAt c) allCerts;
          match = (\<lambda>o1. find (\<lambda>c. ct_gameCode c = ''yantra'' \<and>
             (ct_jurisdiction c = op_jurisdiction o1 \<or> ct_jurisdiction c = ''MULTI'')) certs);
          found = filter (\<lambda>o1. match o1 \<noteq> None) ops
      in (length (filter (\<lambda>o1. match o1 = None) ops),
          length (filter (\<lambda>o1. (ct_expiresAt (the (match o1)) - now) div 86400000 < 60) found),
          length (filter (\<lambda>o1. truthy liveBuildHash \<and> Some (ct_buildHash (the (match o1))) \<noteq> liveBuildHash) found)))"

section \<open>Engines\<close>

text \<open>
  A running engine with its wallet: \<open>NoCredential\<close> stands for the internal wallet that the
  registry falls back to. The serial number tells engines of the same key apart.
\<close>

record live_engine =
  le_serial :: nat
  le_engine :: engine
  le_adapter :: adapter_choice
  le_client :: wallet_client

record registry =
  rg_engines :: "(string \<times> live_engine) list"
  rg_started :: "live_engine list"
  rg_stopped :: "nat list"
  rg_next :: nat

definition keyFor :: "string \<Rightarrow> string \<Rightarrow> string \<Rightarrow> string" where
  "keyFor operatorId gameCode currency = operatorId @ '':'' @ gameCode @ '':'' @ currency"

definition get_engine :: "registry \<Rightarrow> string \<Rightarrow> string \<Rightarrow> string \<Rightarrow> live_engine option" where
  "get_engine g operatorId gameCode currency = map_of (rg_engines g) (keyFor operatorId gameCode currency)"

record ensure_env =
  ne_plugins :: plugin_env
  ne_attest :: attest_env
  ne_secrets :: secret_env
  ne_pathname :: "string \<Rightarrow> string option"
  ne_timeoutMs :: "int option"

record ensure_db =
  nd_configs :: "game_config_row list"
  nd_operators :: operator_db
  nd_certs :: "certificate_row list"

datatype ensure_block =
    GlobalHalt | UnknownGame | NoConfig | MicaGate | InvalidConfig | Attestation "attestation_reason option"

text \<open>What the checks end in: an exception, a refusal, or what the new engine is made of.\<close>

datatype ensure_outcome =
    EnsureThrows
  | EnsureBlocked ensure_block
  | EnsureReady game_plugin engine_config game_config adapter_choice

definition engine_config_of :: "game_config_row \<Rightarrow> engine_config" where
  "engine_config_of c = \<lparr>ec_operatorId = og_operatorId c, ec_gameCode = og_gameCode c, ec_currency = og_currency c,
     ec_minBetMicro = og_minBetMicro c, ec_maxBetMicro = og_maxBetMicro c, ec_commissionMicro = og_commissionMicro c,
     ec_bettingWindowMs = og_bettingWindowMs c, ec_rollingWindowMs = og_rollingWindowMs c,
     ec_cooldownMs = og_cooldownMs c, ec_configVersion = og_configVersion c\<rparr>"

text \<open>The certificate gate: operators that are unknown or in test mode are not asked for one.\<close>

definition attestation_gate ::
    "ensure_env \<Rightarrow> ensure_db \<Rightarrow> msec \<Rightarrow> string \<Rightarrow> string \<Rightarrow> (unit + attestation_reason option option)" where
  "attestation_gate env d now operatorId gameCode =
     (case find_operator (nd_operators d) operatorId of
        None \<Rightarrow> Inr None
      | Some o1 \<Rightarrow>
          if op_testMode o1 then Inr None
          else (case check_build (ne_attest env) (ne_plugins env) (nd_certs d) now gameCode (op_jurisdiction o1) of
                  None \<Rightarrow> Inl ()
                | Some a \<Rightarrow> Inr (if at_allowed a then None else Some (at_reason a))))"

definition ensure_checks ::
    "ensure_env \<Rightarrow> ensure_db \<Rightarrow> msec \<Rightarrow> bool \<Rightarrow> string \<Rightarrow> string \<Rightarrow> string \<Rightarrow> ensure_outcome" where
  "ensure_checks env d now engaged operatorId gameCode currency =
     (if engaged then EnsureBlocked GlobalHalt
      else case getPlugin (ne_plugins env) gameCode of
        NoPlugin \<Rightarrow> EnsureBlocked UnknownGame
      | plugin \<Rightarrow>
          (case find_config (nd_configs d) operatorId gameCode currency of
             None \<Rightarrow> EnsureBlocked NoConfig
           | Some cfg \<Rightarrow>
               if \<not> og_enabled cfg then EnsureBlocked NoConfig
               else if \<not> og_micaCompliant cfg then EnsureBlocked MicaGate
               else (case plugin of
                 GamePlugin pl \<Rightarrow>
                   (case gp_configSchema pl (og_configJson cfg) of
                      None \<Rightarrow> EnsureBlocked InvalidConfig
                    | Some parsed \<Rightarrow>
                        (case attestation_gate env d now operatorId gameCode of
                           Inl _ \<Rightarrow> EnsureThrows
                         | Inr (Some reason) \<Rightarrow> EnsureBlocked (Attestation reason)
                         | Inr None \<Rightarrow>
                             (case outbound_adapter (ne_secrets env) (ne_pathname env) (ne_timeoutMs env) (nd_operators d) operatorId of
                                BadCipher \<Rightarrow> EnsureThrows
                              | adapter \<Rightarrow> EnsureReady pl (engine_config_of cfg) parsed adapter)))
               | _ \<Rightarrow> EnsureThrows)))"

text \<open>
  The first step of a call: an engine that is there is returned, otherwise the checks run.
  The second step enters the new engine in the map and starts its loop.
\<close>

definition ensure_begin ::
    "ensure_env \<Rightarrow> ensure_db \<Rightarrow> msec \<Rightarrow> bool \<Rightarrow> registry \<Rightarrow> string \<Rightarrow> string \<Rightarrow> string \<Rightarrow> live_engine + ensure_outcome" where
  "ensure_begin env d now engaged g operatorId gameCode currency =
     (case get_engine g operatorId gameCode currency of
        Some e \<Rightarrow> Inl e
      | None \<Rightarrow> Inr (ensure_checks env d now engaged operatorId gameCode currency))"

definition ensure_finish ::
    "string \<Rightarrow> string \<Rightarrow> string \<Rightarrow> game_plugin \<Rightarrow> engine_config \<Rightarrow> game_config \<Rightarrow> adapter_choice \<Rightarrow> registry \<Rightarrow> live_engine \<times> registry" where
  "ensure_finish operatorId gameCode currency pl cfg parsed adapter g =
     (let e = \<lparr>le_serial = rg_next g, le_engine = (new_engine pl cfg parsed)\<lparr>en_running := True\<rparr>, le_adapter = adapter,
               le_client = new_wallet_client operatorId None None []\<rparr>
      in (e, g\<lparr>rg_engines := AList.update (keyFor operatorId gameCode currency) e (rg_engines g),
               rg_started := rg_started g @ [e], rg_next := rg_next g + 1\<rparr>))"

text \<open>The whole call, when no other call comes between the two steps.\<close>

datatype ensure_result = NoEngine | Threw | Running live_engine

definition ensure ::
    "ensure_env \<Rightarrow> ensure_db \<Rightarrow> msec \<Rightarrow> bool \<Rightarrow> registry \<Rightarrow> string \<Rightarrow> string \<Rightarrow> string \<Rightarrow> ensure_result \<times> registry" where
  "ensure env d now engaged g operatorId gameCode currency =
     (case ensure_begin env d now engaged g operatorId gameCode currency of
        Inl e \<Rightarrow> (Running e, g)
      | Inr EnsureThrows \<Rightarrow> (Threw, g)
      | Inr (EnsureBlocked b) \<Rightarrow> (NoEngine, g)
      | Inr (EnsureReady pl cfg parsed adapter) \<Rightarrow>
          (let (e, g1) = ensure_finish operatorId gameCode currency pl cfg parsed adapter g in (Running e, g1)))"

text \<open>The engine of a session; the second lookup of \<open>ensure\<close> finds what the first one did not.\<close>

definition forSession ::
    "ensure_env \<Rightarrow> ensure_db \<Rightarrow> msec \<Rightarrow> bool \<Rightarrow> registry \<Rightarrow> session_row \<Rightarrow> ensure_result \<times> registry" where
  "forSession env d now engaged g s =
     (case get_engine g (se_operatorId s) (se_gameCode s) (se_currency s) of
        Some e \<Rightarrow> (Running e, g)
      | None \<Rightarrow> ensure env d now engaged g (se_operatorId s) (se_gameCode s) (se_currency s))"

text \<open>
  At start every enabled configuration of an active operator gets its engine; an exception
  ends the loop (\<open>None\<close>). The second component counts the configurations that the crypto gate skipped.
\<close>

fun start_configs ::
    "ensure_env \<Rightarrow> ensure_db \<Rightarrow> msec \<Rightarrow> bool \<Rightarrow> game_config_row list \<Rightarrow> nat \<times> registry \<Rightarrow> (nat \<times> registry) option" where
  "start_configs env d now engaged [] (skipped, g) = Some (skipped, g)"
| "start_configs env d now engaged (c # cs) (skipped, g) =
     (if \<not> og_micaCompliant c then start_configs env d now engaged cs (skipped + 1, g)
      else (case ensure env d now engaged g (og_operatorId c) (og_gameCode c) (og_currency c) of
              (Threw, g1) \<Rightarrow> None
            | (_, g1) \<Rightarrow> start_configs env d now engaged cs (skipped, g1)))"

definition startAllEnabled ::
    "ensure_env \<Rightarrow> ensure_db \<Rightarrow> msec \<Rightarrow> bool \<Rightarrow> registry \<Rightarrow> (nat \<times> registry) option" where
  "startAllEnabled env d now engaged g =
     start_configs env d now engaged (filter (\<lambda>c. og_enabled c \<and>
       (\<exists>o1 \<in> set (od_operators (nd_operators d)). op_id o1 = og_operatorId c \<and> op_status o1 = OpActive)) (nd_configs d)) (0, g)"

definition stopAll :: "registry \<Rightarrow> registry" where
  "stopAll g = g\<lparr>rg_stopped := rg_stopped g @ map (\<lambda>(k, e). le_serial e) (rg_engines g), rg_engines := []\<rparr>"

record engine_snapshot =
  es_operatorId :: uuid
  es_gameCode :: string
  es_currency :: string
  es_phase :: engine_phase
  es_currentRoundId :: "uuid option"
  es_currentNonce :: "int option"
  es_bettingWindowMs :: msec
  es_breakers :: "string \<Rightarrow> (circuit_state \<times> nat \<times> msec) option"

definition registry_snapshot :: "registry \<Rightarrow> msec \<Rightarrow> uuid option \<Rightarrow> engine_snapshot list" where
  "registry_snapshot g now operatorId =
     map (\<lambda>(k, e). let cfg = en_cfg (le_engine e); r = currentRoundSnapshot (le_engine e) now in
       \<lparr>es_operatorId = ec_operatorId cfg, es_gameCode = ec_gameCode cfg, es_currency = ec_currency cfg,
        es_phase = (case r of None \<Rightarrow> PhPending | Some s \<Rightarrow> rs_phase s), es_currentRoundId = map_option rs_roundId r,
        es_currentNonce = map_option rs_nonce r, es_bettingWindowMs = ec_bettingWindowMs cfg,
        es_breakers = cb_snapshot (wl_breaker (le_client e))\<rparr>)
     (filter (\<lambda>(k, e). \<not> truthy operatorId \<or> Some (ec_operatorId (en_cfg (le_engine e))) = operatorId) (rg_engines g))"

section \<open>Facts\<close>

lemma update_new: "k \<notin> fst ` set xs \<Longrightarrow> AList.update k v xs = xs @ [(k, v)]"
  by (induction xs) auto

lemma getPlugin_code: "getPlugin env gameCode = GamePlugin pl \<Longrightarrow> gp_gameCode pl = gameCode"
  by (auto simp: getPlugin_def plugins_def split: if_splits)

lemma find_config_key:
  "find_config cs i g y = Some c \<Longrightarrow> og_operatorId c = i \<and> og_gameCode c = g \<and> og_currency c = y \<and> c \<in> set cs"
  by (auto simp: find_config_def dest: find_SomeD)

text \<open>What strict mode asks of the certificates for a build, a game and a jurisdiction.\<close>

definition certificate_for :: "string \<Rightarrow> string \<Rightarrow> string \<Rightarrow> certificate_row \<Rightarrow> bool" where
  "certificate_for hash gameCode jurisdiction c \<longleftrightarrow> ct_gameCode c = gameCode \<and> ct_buildHash c = hash \<and>
     (ct_jurisdiction c = jurisdiction \<or> ct_jurisdiction c = ''MULTI'')"

definition build_certified :: "attest_env \<Rightarrow> plugin_env \<Rightarrow> certificate_row list \<Rightarrow> msec \<Rightarrow> string \<Rightarrow> string \<Rightarrow> bool" where
  "build_certified env penv certs now gameCode jurisdiction \<longleftrightarrow>
     (\<exists>hash plugin. currentBuildHash env = Some hash \<and> getPlugin penv gameCode = GamePlugin plugin \<and>
        (\<forall>c \<in> set certs. certificate_for hash gameCode jurisdiction c \<longrightarrow>
           ct_rngVersion c = None \<or> ct_rngVersion c = Some (gp_rngVersion plugin)) \<and>
        (\<exists>c \<in> set certs. certificate_for hash gameCode jurisdiction c \<and> ct_revokedAt c = None \<and> now < ct_expiresAt c))"

lemma filter_newest: "set (filter p (newest_first k (filter q rows))) = {r \<in> set rows. q r \<and> p r}"
  by (auto simp: newest_first_def)

lemma find_None_set: "find p xs = None \<longleftrightarrow> (\<forall>x \<in> set xs. \<not> p x)"
  by (auto simp: find_None_iff)

lemma strict_check:
  assumes "ae_strict env"
  shows "(\<exists>a. check_build env penv certs now gameCode jurisdiction = Some a \<and> at_allowed a) \<longleftrightarrow>
    build_certified env penv certs now gameCode jurisdiction"
proof (cases "currentBuildHash env")
  case None
  then show ?thesis using assms by (auto simp: check_build_def refusal_def build_certified_def)
next
  case (Some hash)
  let ?ms = "filter (\<lambda>c. ct_buildHash c = hash) (newest_first ct_issuedAt (filter (\<lambda>c. ct_gameCode c = gameCode \<and>
       (ct_jurisdiction c = jurisdiction \<or> ct_jurisdiction c = ''MULTI'')) certs))"
  have ms: "set ?ms = {c \<in> set certs. certificate_for hash gameCode jurisdiction c}"
    unfolding filter_newest by (auto simp: certificate_for_def)
  have none: "?ms = [] \<longleftrightarrow> (\<forall>c \<in> set certs. \<not> certificate_for hash gameCode jurisdiction c)"
    using ms by (auto simp flip: set_empty)
  show ?thesis
  proof (cases "?ms = []")
    case True
    then have "\<not> build_certified env penv certs now gameCode jurisdiction"
      using Some none by (auto simp: build_certified_def)
    moreover have "\<not> (\<exists>a. check_build env penv certs now gameCode jurisdiction = Some a \<and> at_allowed a)"
      using assms True unfolding check_build_def Some Let_def by (auto simp: refusal_def)
    ultimately show ?thesis by blast
  next
    case False
    then have c: "newest_first ct_issuedAt (filter (\<lambda>c. ct_gameCode c = gameCode \<and>
       (ct_jurisdiction c = jurisdiction \<or> ct_jurisdiction c = ''MULTI'')) certs) \<noteq> []" by auto
    show ?thesis
    proof (cases "getPlugin penv gameCode")
      case (GamePlugin plugin)
      let ?bad = "\<lambda>c. ct_rngVersion c \<noteq> None \<and> ct_rngVersion c \<noteq> Some (gp_rngVersion plugin)"
      let ?live = "\<lambda>c. ct_revokedAt c = None \<and> now < ct_expiresAt c"
      have "find ?bad ?ms = None \<longleftrightarrow> (\<forall>c \<in> set certs. certificate_for hash gameCode jurisdiction c \<longrightarrow>
          ct_rngVersion c = None \<or> ct_rngVersion c = Some (gp_rngVersion plugin))"
        unfolding find_None_set ms by auto
      moreover have "find ?live ?ms = None \<longleftrightarrow> \<not> (\<exists>c \<in> set certs. certificate_for hash gameCode jurisdiction c \<and> ?live c)"
        unfolding find_None_set ms by auto
      moreover have "(\<exists>a. check_build env penv certs now gameCode jurisdiction = Some a \<and> at_allowed a) \<longleftrightarrow>
          find ?bad ?ms = None \<and> find ?live ?ms \<noteq> None"
        using assms c False unfolding check_build_def Some Let_def GamePlugin
        by (auto simp: refusal_def split: option.splits)
      ultimately show ?thesis using Some GamePlugin by (simp add: build_certified_def)
    qed (use assms c False Some in \<open>auto simp: check_build_def refusal_def build_certified_def Let_def\<close>)
  qed
qed

text \<open>The verdict of the checks, read as a specification.\<close>

lemma ensure_ready:
  assumes "ensure_checks env d now engaged operatorId gameCode currency = EnsureReady pl cfg parsed adapter"
  shows "\<not> engaged \<and> getPlugin (ne_plugins env) gameCode = GamePlugin pl \<and>
    (\<exists>c. find_config (nd_configs d) operatorId gameCode currency = Some c \<and> og_enabled c \<and> og_micaCompliant c \<and>
       gp_configSchema pl (og_configJson c) = Some parsed \<and> cfg = engine_config_of c) \<and>
    attestation_gate env d now operatorId gameCode = Inr None \<and>
    outbound_adapter (ne_secrets env) (ne_pathname env) (ne_timeoutMs env) (nd_operators d) operatorId = adapter \<and>
    adapter \<noteq> BadCipher"
  using assms unfolding ensure_checks_def
  by (auto split: if_splits plugin_lookup.splits option.splits sum.splits adapter_choice.splits)

text \<open>
  The engines of a registry that has seen whole calls and stops only: one engine per key, each
  under its own key, and every engine that was started is either in the map or stopped.
\<close>

definition registry_ok :: "registry \<Rightarrow> bool" where
  "registry_ok g \<longleftrightarrow> distinct (map fst (rg_engines g)) \<and>
     (\<forall>(k, e) \<in> set (rg_engines g). engine_key (le_engine e) = k) \<and>
     (\<forall>e \<in> set (rg_started g). le_serial e < rg_next g) \<and>
     le_serial ` set (rg_started g) = set (rg_stopped g) \<union> le_serial ` snd ` set (rg_engines g)"

definition empty_registry :: registry where
  "empty_registry = \<lparr>rg_engines = [], rg_started = [], rg_stopped = [], rg_next = 0\<rparr>"

lemma empty_registry_ok: "registry_ok empty_registry"
  by (simp add: registry_ok_def empty_registry_def)

lemma finish_fields:
  "ensure_finish i gc y pl cfg parsed adapter g = (e, g1) \<Longrightarrow>
     rg_engines g1 = AList.update (keyFor i gc y) e (rg_engines g) \<and> rg_started g1 = rg_started g @ [e] \<and>
     rg_stopped g1 = rg_stopped g \<and> rg_next g1 = rg_next g + 1 \<and> le_serial e = rg_next g \<and> le_adapter e = adapter \<and>
     le_engine e = (new_engine pl cfg parsed)\<lparr>en_running := True\<rparr>"
  by (auto simp: ensure_finish_def Let_def)

lemma finish_key:
  assumes "ensure_checks env d now engaged i gc y = EnsureReady pl cfg parsed adapter"
    and "ensure_finish i gc y pl cfg parsed adapter g = (e, g1)"
  shows "engine_key (le_engine e) = keyFor i gc y"
proof -
  note r = ensure_ready [OF assms(1)]
  obtain c where c: "find_config (nd_configs d) i gc y = Some c" "cfg = engine_config_of c" using r by blast
  have "gp_gameCode pl = gc" using r getPlugin_code by blast
  then show ?thesis using finish_fields [OF assms(2)] find_config_key [OF c(1)]
    by (simp add: engine_key_def keyFor_def new_engine_def c(2) engine_config_of_def)
qed

lemma ensure_ok:
  assumes "registry_ok g"
  shows "registry_ok (snd (ensure env d now engaged g operatorId gameCode currency))"
proof (cases "ensure_begin env d now engaged g operatorId gameCode currency")
  case (Inl e)
  then show ?thesis using assms by (simp add: ensure_def)
next
  case (Inr r)
  then have new: "keyFor operatorId gameCode currency \<notin> fst ` set (rg_engines g)"
      "r = ensure_checks env d now engaged operatorId gameCode currency"
    by (auto simp: ensure_begin_def get_engine_def map_of_eq_None_iff split: option.splits)
  show ?thesis
  proof (cases r)
    case (EnsureReady pl cfg parsed adapter)
    obtain e g1 where e: "ensure_finish operatorId gameCode currency pl cfg parsed adapter g = (e, g1)" by fastforce
    note f = finish_fields [OF e]
    have "engine_key (le_engine e) = keyFor operatorId gameCode currency"
      using finish_key [OF _ e] new(2) EnsureReady by blast
    moreover have "snd (ensure env d now engaged g operatorId gameCode currency) = g1"
      by (simp add: ensure_def Inr EnsureReady e)
    ultimately show ?thesis
      using assms f new(1) by (fastforce simp: registry_ok_def update_new)
  qed (use assms Inr in \<open>simp_all add: ensure_def\<close>)
qed

lemma forSession_ok: "registry_ok g \<Longrightarrow> registry_ok (snd (forSession env d now engaged g s))"
  by (auto simp: forSession_def ensure_ok split: option.splits)

lemma start_configs_ok:
  "start_configs env d now engaged cs (n, g) = Some (n', g') \<Longrightarrow> registry_ok g \<Longrightarrow> registry_ok g'"
proof (induction cs arbitrary: n g)
  case (Cons c cs)
  obtain r g1 where e: "ensure env d now engaged g (og_operatorId c) (og_gameCode c) (og_currency c) = (r, g1)" by fastforce
  have "registry_ok g1" using ensure_ok [OF Cons.prems(2)] e by (metis snd_conv)
  then show ?case using Cons e by (cases r) (auto split: if_splits)
qed simp

lemma stopAll_ok: "registry_ok g \<Longrightarrow> registry_ok (stopAll g)"
  by (auto simp: registry_ok_def stopAll_def image_image case_prod_beta)

section \<open>Properties\<close>

text \<open>C15. An engine starts exactly when every gate lets it: the switch is off, the game is known, its
  configuration for the operator and currency exists, is enabled, passes the crypto gate and
  the plugin's schema, the wallet's credential can be read, and in strict mode, unless the
  operator is in test mode, the running build has a live certificate for the game and the
  jurisdiction and no certificate of this build names another generator.\<close>

theorem engine_starts_iff_gates:
  assumes "ae_strict (ne_attest env)" "get_engine g operatorId gameCode currency = None"
    and "find_operator (nd_operators d) operatorId = Some o1" "gameCode \<notin> set object_prototype_names"
  shows "(\<exists>e g1. ensure env d now engaged g operatorId gameCode currency = (Running e, g1)) \<longleftrightarrow>
    \<not> engaged \<and>
    (\<exists>pl c parsed. getPlugin (ne_plugins env) gameCode = GamePlugin pl \<and>
       find_config (nd_configs d) operatorId gameCode currency = Some c \<and> og_enabled c \<and> og_micaCompliant c \<and>
       gp_configSchema pl (og_configJson c) = Some parsed) \<and>
    (op_testMode o1 \<or> build_certified (ne_attest env) (ne_plugins env) (nd_certs d) now gameCode (op_jurisdiction o1)) \<and>
    outbound_adapter (ne_secrets env) (ne_pathname env) (ne_timeoutMs env) (nd_operators d) operatorId \<noteq> BadCipher"
    (is "?runs \<longleftrightarrow> ?gates")
proof -
  have check: "check_build (ne_attest env) (ne_plugins env) (nd_certs d) now gameCode j \<noteq> None" for j
    using assms(4) by (simp add: check_build_def getPlugin_def Let_def split: option.splits)
  have gate: "attestation_gate env d now operatorId gameCode = Inr None \<longleftrightarrow> op_testMode o1 \<or>
      build_certified (ne_attest env) (ne_plugins env) (nd_certs d) now gameCode (op_jurisdiction o1)"
    using check [of "op_jurisdiction o1"] unfolding attestation_gate_def assms(3) strict_check [OF assms(1), symmetric]
    by (auto split: option.splits)
  have "?runs \<longleftrightarrow> (\<exists>pl cfg parsed adapter. ensure_checks env d now engaged operatorId gameCode currency = EnsureReady pl cfg parsed adapter)"
    by (cases "ensure_checks env d now engaged operatorId gameCode currency")
      (auto simp: ensure_def ensure_begin_def assms(2) Let_def split: prod.splits)
  also have "\<dots> \<longleftrightarrow> ?gates"
  proof
    assume "\<exists>pl cfg parsed adapter. ensure_checks env d now engaged operatorId gameCode currency = EnsureReady pl cfg parsed adapter"
    then show ?gates using ensure_ready gate by blast
  next
    assume ?gates
    then show "\<exists>pl cfg parsed adapter. ensure_checks env d now engaged operatorId gameCode currency = EnsureReady pl cfg parsed adapter"
      using gate by (auto simp: ensure_checks_def split: adapter_choice.splits)
  qed
  finally show ?thesis .
qed

text \<open>A configuration of the dice game for the sample operator, with a certificate of the build.\<close>

definition sample_config :: game_config_row where
  "sample_config = \<lparr>og_id = ''g'', og_operatorId = ''op'', og_gameCode = ''ketapola-dice'', og_currency = ''EUR'', og_enabled = True,
     og_configJson = JObj [(''lowWeight'', JNum 50), (''highWeight'', JNum 50)], og_configVersion = ''v1'', og_minBetMicro = 1,
     og_maxBetMicro = 9, og_commissionMicro = 0, og_bettingWindowMs = 15000, og_rollingWindowMs = 4000, og_cooldownMs = 3000,
     og_micaCompliant = True, og_killSwitch = False, og_killSwitchReason = None\<rparr>"

definition sample_certificate :: certificate_row where
  "sample_certificate = \<lparr>ct_id = ''ct'', ct_gameCode = ''ketapola-dice'', ct_jurisdiction = ''MULTI'', ct_buildHash = ''0123456'',
     ct_issuedAt = 0, ct_validFrom = 0, ct_expiresAt = 100, ct_rngVersion = None, ct_revokedAt = None\<rparr>"

definition sample_ensure :: ensure_env where
  "sample_ensure = \<lparr>ne_plugins = \<lparr>pe_hmac = \<lambda>_ _. 0, pe_exp = \<lambda>x. x, pe_log = \<lambda>x. x\<rparr>,
     ne_attest = \<lparr>ae_strict = True, ae_buildHash = Some ''0123456''\<rparr>, ne_secrets = ae_secrets sample_auth,
     ne_pathname = (\<lambda>s. None), ne_timeoutMs = None\<rparr>"

definition sample_ensure_db :: ensure_db where
  "sample_ensure_db = \<lparr>nd_configs = [sample_config], nd_operators = sample_operator_db, nd_certs = [sample_certificate]\<rparr>"

lemmas registry_sample = sample_config_def sample_certificate_def sample_ensure_def sample_ensure_db_def

lemma sample_parses: "ketapolaDiceConfigSchema (og_configJson sample_config) \<noteq> None"
  by (simp add: sample_config_def ketapolaDiceConfigSchema_def only_keys_def get_prop_def parse_positive_int_def is_integer_def)

lemma sample_lookups:
  "getPlugin (ne_plugins sample_ensure) ''ketapola-dice'' = GamePlugin (ketapolaDice (\<lambda>_ _. 0))"
  "find_config (nd_configs sample_ensure_db) ''op'' ''ketapola-dice'' ''EUR'' = Some sample_config"
  "find_operator (nd_operators sample_ensure_db) ''op'' = Some sample_operator_row"
  by (simp_all add: getPlugin_def plugins_def ketapolaDice_def registry_sample find_config_def find_operator_def
      sample_operator_db_def sample_operator_row_def)

lemma sample_certified:
  "build_certified (ne_attest sample_ensure) (ne_plugins sample_ensure) (nd_certs sample_ensure_db) 9 ''ketapola-dice'' j"
  unfolding build_certified_def
  by (rule exI [of _ "''0123456''"], rule exI [of _ "ketapolaDice (\<lambda>_ _. 0)"])
    (simp add: sample_lookups, simp add: registry_sample currentBuildHash_def certificate_for_def)

lemma sample_adapter_internal:
  "outbound_adapter (ne_secrets sample_ensure) (ne_pathname sample_ensure) (ne_timeoutMs sample_ensure) (nd_operators sample_ensure_db) ''op'' = NoCredential"
  by (simp add: outbound_adapter_def outbound_credential_def sample_ensure_db_def sample_operator_db_def sample_credential_def
      latest_by_def last_opt_def split: option.splits)

lemma sample_running:
  "\<exists>e g1. ensure sample_ensure sample_ensure_db 9 False empty_registry ''op'' ''ketapola-dice'' ''EUR'' = (Running e, g1)"
proof -
  have "check_build (ne_attest sample_ensure) (ne_plugins sample_ensure) (nd_certs sample_ensure_db) 9 ''ketapola-dice'' j \<noteq> None" for j
    by (simp add: check_build_def sample_lookups Let_def split: option.splits)
  then have "attestation_gate sample_ensure sample_ensure_db 9 ''op'' ''ketapola-dice'' = Inr None"
    using sample_certified [of "op_jurisdiction sample_operator_row"]
      strict_check [of "ne_attest sample_ensure" "ne_plugins sample_ensure" "nd_certs sample_ensure_db" 9 "''ketapola-dice''" "op_jurisdiction sample_operator_row"]
    by (auto simp: attestation_gate_def sample_lookups sample_ensure_def split: option.splits)
  moreover obtain parsed where "ketapolaDiceConfigSchema (og_configJson sample_config) = Some parsed" using sample_parses by auto
  ultimately have "\<exists>cfg parsed. ensure_checks sample_ensure sample_ensure_db 9 False ''op'' ''ketapola-dice'' ''EUR'' =
      EnsureReady (ketapolaDice (\<lambda>_ _. 0)) cfg parsed NoCredential"
    by (simp add: ensure_checks_def sample_lookups sample_adapter_internal ketapolaDice_def) (simp add: sample_config_def)
  then show ?thesis
    by (auto simp: ensure_def ensure_begin_def get_engine_def empty_registry_def Let_def split: prod.splits)
qed

theorem engine_starts_iff_gates_witness:
  "\<exists>e g1. ensure sample_ensure sample_ensure_db 9 False empty_registry ''op'' ''ketapola-dice'' ''EUR'' = (Running e, g1)"
proof -
  have "get_engine empty_registry ''op'' ''ketapola-dice'' ''EUR'' = None" by (simp add: get_engine_def empty_registry_def)
  moreover have "ae_strict (ne_attest sample_ensure)" by (simp add: sample_ensure_def)
  moreover have "''ketapola-dice'' \<notin> set object_prototype_names" by (simp add: object_prototype_names_def)
  moreover have "gp_configSchema (ketapolaDice (\<lambda>_ _. 0)) (og_configJson sample_config) \<noteq> None"
    using sample_parses by (simp add: ketapolaDice_def)
  ultimately show ?thesis
    using engine_starts_iff_gates [of sample_ensure empty_registry "''op''" "''ketapola-dice''" "''EUR''" sample_ensure_db sample_operator_row 9 False]
    by (simp add: sample_lookups sample_certified sample_adapter_internal) (simp add: sample_config_def)
qed

text \<open>Whole calls and stops, in any order.\<close>

datatype reg_event =
    RegEnsure ensure_env ensure_db msec bool string string string
  | RegSession ensure_env ensure_db msec bool session_row
  | RegStop

fun registry_event :: "reg_event \<Rightarrow> registry \<Rightarrow> registry" where
  "registry_event (RegEnsure env d now engaged i gc y) g = snd (ensure env d now engaged g i gc y)"
| "registry_event (RegSession env d now engaged s) g = snd (forSession env d now engaged g s)"
| "registry_event RegStop g = stopAll g"

lemma registry_event_ok: "registry_ok g \<Longrightarrow> registry_ok (registry_event e g)"
  by (cases e) (simp_all add: ensure_ok forSession_ok stopAll_ok)

lemma registry_fold_ok: "registry_ok g \<Longrightarrow> registry_ok (fold registry_event es g)"
  by (induction es arbitrary: g) (simp_all add: registry_event_ok)


text \<open>Overlapping calls break that: when two players of a new game connect at once, both calls find
  no engine, both run the checks and both start an engine. The second one replaces the first
  in the registry, so two engines of one key run rounds, and stopping all engines never
  stops the first.\<close>

theorem overlapping_ensure_orphans_engine:
  assumes "registry_ok g"
    and "ensure_begin env d now engaged g i gc y = Inr (EnsureReady pl cfg parsed adapter)"
    and "ensure_begin env' d' now' engaged' g i gc y = Inr (EnsureReady pl' cfg' parsed' adapter')"
    and "ensure_finish i gc y pl cfg parsed adapter g = (e, g1)"
    and "ensure_finish i gc y pl' cfg' parsed' adapter' g1 = (e', g2)"
  shows "get_engine g2 i gc y = Some e' \<and> e \<in> set (rg_started g2) \<and> e' \<in> set (rg_started g2) \<and>
    le_serial e \<noteq> le_serial e' \<and> engine_key (le_engine e) = engine_key (le_engine e') \<and>
    le_serial e \<notin> set (rg_stopped (stopAll g2))"
proof -
  note f = finish_fields [OF assms(4)] and f' = finish_fields [OF assms(5)]
  have new: "keyFor i gc y \<notin> fst ` set (rg_engines g)"
    and ready: "ensure_checks env d now engaged i gc y = EnsureReady pl cfg parsed adapter"
      "ensure_checks env' d' now' engaged' i gc y = EnsureReady pl' cfg' parsed' adapter'"
    using assms(2,3) by (auto simp: ensure_begin_def get_engine_def map_of_eq_None_iff split: option.splits)
  have key: "engine_key (le_engine e) = keyFor i gc y" "engine_key (le_engine e') = keyFor i gc y"
    by (rule finish_key [OF ready(1) assms(4)], rule finish_key [OF ready(2) assms(5)])
  have engines: "rg_engines g2 = rg_engines g @ [(keyFor i gc y, e')]"
  proof -
    have "AList.update k v' (xs @ [(k, v)]) = xs @ [(k, v')]" if "k \<notin> fst ` set xs" for k xs and v v' :: live_engine
      using that by (induction xs) auto
    then show ?thesis using f f' new by (simp add: update_new)
  qed
  have old: "n < rg_next g" if "n \<in> set (rg_stopped g) \<union> le_serial ` snd ` set (rg_engines g)" for n
    using assms(1) that unfolding registry_ok_def by (metis (mono_tags) imageE)
  have "set (rg_stopped (stopAll g2)) = set (rg_stopped g) \<union> le_serial ` snd ` set (rg_engines g) \<union> {le_serial e'}"
    using engines f f' by (auto simp: stopAll_def image_image case_prod_beta)
  then have "le_serial e \<notin> set (rg_stopped (stopAll g2))" using old [of "le_serial e"] f f' by auto
  moreover have "get_engine g2 i gc y = Some e'"
    using engines new by (simp add: get_engine_def map_add_def split: option.split) (force simp: map_of_eq_None_iff dest: map_of_SomeD)
  ultimately show ?thesis using f f' key by simp
qed

theorem overlapping_ensure_orphans_engine_witness:
  "\<exists>e e' g2. e \<in> set (rg_started g2) \<and> get_engine g2 ''op'' ''ketapola-dice'' ''EUR'' = Some e' \<and>
     le_serial e \<noteq> le_serial e' \<and> le_serial e \<notin> set (rg_stopped (stopAll g2))"
proof -
  obtain e g1 where "ensure sample_ensure sample_ensure_db 9 False empty_registry ''op'' ''ketapola-dice'' ''EUR'' = (Running e, g1)"
    using sample_running by blast
  then obtain pl cfg parsed adapter where b:
    "ensure_begin sample_ensure sample_ensure_db 9 False empty_registry ''op'' ''ketapola-dice'' ''EUR'' =
      Inr (EnsureReady pl cfg parsed adapter)"
    by (auto simp: ensure_def ensure_begin_def get_engine_def empty_registry_def split: option.splits ensure_outcome.splits prod.splits)
  obtain e1 g1' where f: "ensure_finish ''op'' ''ketapola-dice'' ''EUR'' pl cfg parsed adapter empty_registry = (e1, g1')" by fastforce
  obtain e2 g2 where f2: "ensure_finish ''op'' ''ketapola-dice'' ''EUR'' pl cfg parsed adapter g1' = (e2, g2)" by fastforce
  show ?thesis using overlapping_ensure_orphans_engine [OF empty_registry_ok b b f f2] by blast
qed

end
