(* ===== verification/NetAccess.thy ===== *)
theory NetAccess
  imports Operators "HOL-Library.Word"
begin

text \<open>
  Where a request may come from: the operator's IP allow-list
  (\<^verbatim>\<open>apps/rgs-server/src/middleware/ip-allow-list.ts\<close>) and its list of countries
  (\<^verbatim>\<open>middleware/geo-allowlist.ts\<close>). Addresses are read the way the code reads them, with
  \<open>parseInt\<close> on every group; the 32-bit arithmetic of an IPv4 mask is that of a \<open>32 word\<close>
  (the code ends each chain of shifts with \<open>>>> 0\<close>), an IPv6 address is a list of 16 bytes.
\<close>

unbundle bit_operations_syntax

section \<open>Strings\<close>

text \<open>\<open>s.split(c)\<close> for a single character, and \<open>s.split(c + c)\<close>.\<close>

fun split_char :: "char \<Rightarrow> string \<Rightarrow> string list" where
  "split_char c [] = [[]]"
| "split_char c (x # xs) =
     (if x = c then [] # split_char c xs
      else (case split_char c xs of [] \<Rightarrow> [[x]] | p # ps \<Rightarrow> (x # p) # ps))"

fun split_double :: "char \<Rightarrow> string \<Rightarrow> string list" where
  "split_double c (x # y # xs) =
     (if x = c \<and> y = c then [] # split_double c xs
      else (case split_double c (y # xs) of [] \<Rightarrow> [[x]] | p # ps \<Rightarrow> (x # p) # ps))"
| "split_double c s = [s]"

definition to_lower :: "char \<Rightarrow> char" where
  "to_lower c = (let n = (of_char c :: nat) in if 65 \<le> n \<and> n \<le> 90 then char_of (n + 32) else c)"

text \<open>\<open>Number.parseInt(s, 16)\<close>: white space, a sign, an optional \<open>0x\<close>, the longest run of digits.\<close>

definition parse_hex :: "string \<Rightarrow> int option" where
  "parse_hex s =
     (let t = dropWhile js_space s;
          neg = (t \<noteq> [] \<and> hd t = CHR ''-'');
          u = (if t \<noteq> [] \<and> hd t \<in> {CHR ''-'', CHR ''+''} then tl t else t);
          v = (if take 2 u \<in> {''0x'', ''0X''} then drop 2 u else u)
      in map_option (\<lambda>i. if neg then - i else i) (parseInt16 v))"

section \<open>Addresses\<close>

text \<open>The regular expression of an IPv4-mapped address: four groups of one to three digits.\<close>

definition v4_shaped :: "string \<Rightarrow> bool" where
  "v4_shaped s \<longleftrightarrow> length (split_char CHR ''.'' s) = 4 \<and>
     list_all (\<lambda>p. p \<noteq> [] \<and> length p \<le> 3 \<and> list_all is_dec p) (split_char CHR ''.'' s)"

definition normalise_ip :: "string \<Rightarrow> string" where
  "normalise_ip ip =
     (if take 7 ip = ''::ffff:'' \<and> v4_shaped (drop 7 ip) then drop 7 ip else map to_lower ip)"

text \<open>One turn of the loop over the groups of an IPv4 address: \<open>n = (n << 8) | v\<close>.\<close>

definition ipv4_step :: "string \<Rightarrow> (32 word) option \<Rightarrow> (32 word) option" where
  "ipv4_step p acc =
     (case acc of None \<Rightarrow> None
      | Some n \<Rightarrow> (case parseInt10 p of
          None \<Rightarrow> None
        | Some v \<Rightarrow> if v < 0 \<or> 255 < v then None else Some (push_bit 8 n OR word_of_int v)))"

definition ipv4ToInt :: "string \<Rightarrow> (32 word) option" where
  "ipv4ToInt ip =
     (let parts = split_char CHR ''.'' ip in
      if length parts \<noteq> 4 then None else fold ipv4_step parts (Some 0))"

definition matchCidrIPv4 :: "string \<Rightarrow> string \<Rightarrow> int \<Rightarrow> bool" where
  "matchCidrIPv4 ip net bits =
     (if 32 < bits then False
      else case (ipv4ToInt ip, ipv4ToInt net) of
        (Some a, Some b) \<Rightarrow>
          if bits = 0 then True
          else (let mask = push_bit (nat (32 - bits)) (NOT 0) in a AND mask = b AND mask)
      | _ \<Rightarrow> False)"

text \<open>\<open>s ? s.split(':') : []\<close>, and the groups of an address.\<close>

definition ipv6_side :: "string \<Rightarrow> string list" where
  "ipv6_side s = (if s = [] then [] else split_char CHR '':'' s)"

definition ipv6_groups :: "string \<Rightarrow> string list option" where
  "ipv6_groups ip =
     (let parts = split_double CHR '':'' ip;
          hasDoubleColon = (1 < length parts);
          left = ipv6_side (parts ! 0);
          right = (if hasDoubleColon then ipv6_side (parts ! 1) else []);
          groupCount = (if hasDoubleColon then length left + length right else length left)
      in if 2 < length parts then None
         else if \<not> hasDoubleColon \<and> groupCount \<noteq> 8 then None
         else if hasDoubleColon \<and> 7 < groupCount then None
         else (let groups = (if hasDoubleColon then left @ replicate (8 - groupCount) ''0'' @ right else left)
               in if length groups \<noteq> 8 then None else Some groups))"

definition group_bytes :: "string \<Rightarrow> (8 word list) option" where
  "group_bytes g =
     (case parse_hex (if g = [] then ''0'' else g) of
        None \<Rightarrow> None
      | Some v \<Rightarrow> if v < 0 \<or> 65535 < v then None
                  else Some [word_of_int (v div 256), word_of_int v])"

fun bytes_of_groups :: "string list \<Rightarrow> (8 word list) option" where
  "bytes_of_groups [] = Some []"
| "bytes_of_groups (g # gs) =
     (case group_bytes g of
        None \<Rightarrow> None
      | Some bs \<Rightarrow> map_option ((@) bs) (bytes_of_groups gs))"

definition ipv6ToBytes :: "string \<Rightarrow> (8 word list) option" where
  "ipv6ToBytes ip = Option.bind (ipv6_groups ip) bytes_of_groups"

text \<open>The loop over the bytes, with the number of bits that remain to be compared.\<close>

fun same_bits :: "8 word list \<Rightarrow> 8 word list \<Rightarrow> nat \<Rightarrow> bool" where
  "same_bits (a # as) (b # bs) remaining =
     (if remaining = 0 then True
      else if 8 \<le> remaining then (if a \<noteq> b then False else same_bits as bs (remaining - 8))
      else (let mask = push_bit (8 - remaining) 255 in
            if a AND mask \<noteq> b AND mask then False else True))"
| "same_bits _ _ remaining = True"

definition matchCidrIPv6 :: "string \<Rightarrow> string \<Rightarrow> int \<Rightarrow> bool" where
  "matchCidrIPv6 ip net bits =
     (if 128 < bits then False
      else case (ipv6ToBytes ip, ipv6ToBytes net) of
        (Some a, Some b) \<Rightarrow> same_bits a b (nat bits)
      | _ \<Rightarrow> False)"

definition matchCidr :: "string \<Rightarrow> string \<Rightarrow> bool" where
  "matchCidr clientIp cidr =
     (let parts = split_char CHR ''/'' cidr; net = parts ! 0;
          bitsStr = (if 1 < length parts then parts ! 1 else [])
      in if net = [] \<or> bitsStr = [] then False
         else case parseInt10 bitsStr of
           None \<Rightarrow> False
         | Some bits \<Rightarrow>
             if bits < 0 then False
             else if CHR '':'' \<in> set net then matchCidrIPv6 clientIp net bits
             else matchCidrIPv4 clientIp net bits)"

definition matchIp :: "string \<Rightarrow> string \<Rightarrow> bool" where
  "matchIp clientIp pattern =
     (if CHR ''/'' \<notin> set pattern then normalise_ip clientIp = normalise_ip pattern
      else matchCidr (normalise_ip clientIp) pattern)"

section \<open>The two gates\<close>

text \<open>\<open>None\<close> is \<open>next()\<close>; otherwise the status and the error of the answer.\<close>

type_synonym gate_verdict = "(int \<times> string) option"

definition ipAllowList :: "operator_row option \<Rightarrow> string option \<Rightarrow> gate_verdict" where
  "ipAllowList operator ip =
     (case operator of
        None \<Rightarrow> Some (401, ''no_operator'')
      | Some o1 \<Rightarrow>
          if op_ipAllowList o1 = [] then None
          else if \<not> truthy ip then Some (403, ''client_ip_missing'')
          else if list_ex (matchIp (the ip)) (op_ipAllowList o1) then None
          else Some (403, ''ip_not_allowed''))"

definition is_upper :: "char \<Rightarrow> bool" where
  "is_upper c \<longleftrightarrow> (of_char c :: nat) \<in> {65..90}"

definition normalise_country :: "string \<Rightarrow> string option" where
  "normalise_country v =
     (let s = map to_upper (js_trim v) in if length s = 2 \<and> list_all is_upper s then Some s else None)"

record geo_request =
  gq_body :: json
  gq_cf_ipcountry :: "string option"
  gq_x_vercel_ip_country :: "string option"
  gq_x_forwarded_country :: "string option"

definition resolveCountry :: "geo_request \<Rightarrow> string option" where
  "resolveCountry rq =
     (let bodyCountry = Option.bind (json_string (get_prop (gq_body rq) ''country'')) normalise_country in
      case bodyCountry of
        Some c \<Rightarrow> Some c
      | None \<Rightarrow> normalise_country (nullish (nullish_opt (gq_cf_ipcountry rq)
                  (nullish_opt (gq_x_vercel_ip_country rq) (gq_x_forwarded_country rq))) []))"

definition geoAllowlist :: "operator_row option \<Rightarrow> geo_request \<Rightarrow> gate_verdict" where
  "geoAllowlist operator rq =
     (case operator of
        None \<Rightarrow> Some (401, ''no_operator'')
      | Some o1 \<Rightarrow>
          if op_allowedCountries o1 = [] then None
          else (case resolveCountry rq of
                  None \<Rightarrow> Some (403, ''country_unknown'')
                | Some c \<Rightarrow> if c \<in> set (op_allowedCountries o1) then None
                            else Some (403, ''country_not_allowed'')))"

section \<open>Facts\<close>

text \<open>Splitting what was joined.\<close>

lemma split_char_no [simp]: "c \<notin> set p \<Longrightarrow> split_char c p = [p]"
  by (induction p) auto

lemma split_char_join [simp]: "c \<notin> set p \<Longrightarrow> split_char c (p @ c # s) = p # split_char c s"
  by (induction p) auto

text \<open>Two words agree under a mask of their high bits exactly when their quotients agree.\<close>

lemma high_mask_eq:
  "a AND push_bit k (NOT 0) = b AND push_bit k (NOT 0) \<longleftrightarrow> drop_bit k a = drop_bit k b"
  for a b :: "'a::len word"
proof
  assume l: "a AND push_bit k (NOT 0) = b AND push_bit k (NOT 0)"
  show "drop_bit k a = drop_bit k b"
  proof (rule bit_eqI)
    fix n
    show "bit (drop_bit k a) n = bit (drop_bit k b) n"
      using arg_cong [OF l, of "\<lambda>w. bit w (k + n)"] bit_imp_le_length [of a "k + n"] bit_imp_le_length [of b "k + n"]
      by (auto simp: bit_simps)
  qed
next
  assume r: "drop_bit k a = drop_bit k b"
  show "a AND push_bit k (NOT 0) = b AND push_bit k (NOT 0)"
  proof (rule bit_eqI)
    fix n
    show "bit (a AND push_bit k (NOT 0)) n = bit (b AND push_bit k (NOT 0)) n"
      using arg_cong [OF r, of "\<lambda>w. bit w (n - k)"] by (cases "k \<le> n") (auto simp: bit_simps)
  qed
qed

lemma high_mask_eq': "a AND NOT (mask k) = b AND NOT (mask k) \<longleftrightarrow> drop_bit k a = drop_bit k b"
  for a b :: "'a::len word"
  using high_mask_eq [of a k b] by simp

lemma drop_bit_uint: "drop_bit k a = drop_bit k b \<longleftrightarrow> uint a div 2 ^ k = uint b div 2 ^ k"
  for a b :: "'a::len word"
proof -
  have "uint (drop_bit k x) = drop_bit k (uint x)" for x :: "'a word"
    by (simp add: unsigned_drop_bit_eq take_bit_int_eq_self uint_lt2p)
  then have "uint (drop_bit k x) = uint x div 2 ^ k" for x :: "'a word"
    by (simp only: drop_bit_eq_div [of k "uint x"])
  then show ?thesis by (metis word_uint_eqI)
qed

text \<open>Appending a byte.\<close>

lemma push_byte: "0 \<le> v \<Longrightarrow> v < 256 \<Longrightarrow> push_bit 8 n OR word_of_int v = n * 256 + word_of_int v"
  for n :: "32 word"
proof -
  assume v: "0 \<le> v" "v < 256"
  have "\<not> bit v m" if "8 \<le> m" for m
  proof -
    have "v div 2 ^ m = 0" using v power_increasing [OF that, of "2 :: int"] by (intro div_pos_pos_trivial) auto
    then show ?thesis by (simp add: bit_iff_odd)
  qed
  then have "\<And>m. \<not> bit (push_bit 8 n) m \<or> \<not> bit (word_of_int v :: 32 word) m"
    by (auto simp: bit_simps)
  then have "push_bit 8 n OR word_of_int v = push_bit 8 n + word_of_int v"
    by (intro disjunctive_add [symmetric])
  then show ?thesis by (simp add: push_bit_eq_mult)
qed

text \<open>The dotted form of an address.\<close>

definition octet :: "32 word \<Rightarrow> nat \<Rightarrow> string" where
  "octet x k = show_int (uint x div 2 ^ k mod 256)"

definition dotted :: "32 word \<Rightarrow> string" where
  "dotted x = octet x 24 @ CHR ''.'' # octet x 16 @ CHR ''.'' # octet x 8 @ CHR ''.'' # octet x 0"

lemma octet_nonneg [simp]: "(uint (x :: 32 word) div 2 ^ k mod 256 < 0) = False"
  by (simp add: not_less)

lemma octet_parses [simp]: "parseInt10 (octet x k) = Some (uint x div 2 ^ k mod 256)"
  by (simp add: octet_def)

lemma octet_digits: "list_all is_dec (octet x k)"
  using dec_digits_is_dec by (simp add: octet_def show_int_def)

lemma octet_no [simp]: "CHR ''.'' \<notin> set (octet x k)" "CHR ''/'' \<notin> set (octet x k)" "CHR '':'' \<notin> set (octet x k)"
  using octet_digits [of x k] by (auto simp: list_all_iff is_dec_def)

lemma octet_short: "octet x k \<noteq> []" "length (octet x k) \<le> 3"
proof -
  have "length (dec_digits n) \<le> 3" if "n < 256" for n
    using that by (simp add: dec_digits.simps [of n] dec_digits.simps [of "n div 10"] dec_digits.simps [of "n div 10 div 10"])
  then show "octet x k \<noteq> []" "length (octet x k) \<le> 3"
    by (simp_all add: octet_def show_int_def nat_less_iff)
qed

lemma split_dotted [simp]: "split_char CHR ''.'' (dotted x) = [octet x 24, octet x 16, octet x 8, octet x 0]"
  by (simp add: dotted_def)

lemma dotted_reads [simp]: "ipv4ToInt (dotted x) = Some x"
proof -
  have step: "ipv4_step (octet x k) (Some n) = Some (n * 256 + word_of_int (uint x div 2 ^ k mod 256))" for n k
    by (simp add: ipv4_step_def push_byte not_less)
  define u where "u = uint x"
  have lt: "0 \<le> u" "u < 2 ^ 32" using uint_lt2p [of x] by (simp_all add: u_def)
  have "u div 2 ^ 16 = u div 256 div 256" "u div 2 ^ 24 = u div 256 div 256 div 256" "u div 2 ^ 8 = u div 256" "u div 2 ^ 0 = u"
    by (simp_all flip: zdiv_zmult2_eq)
  moreover have "u div 256 div 256 div 256 mod 256 = u div 256 div 256 div 256" using lt by (simp flip: zdiv_zmult2_eq)
  ultimately have "((u div 2 ^ 24 mod 256 * 256 + u div 2 ^ 16 mod 256) * 256 + u div 2 ^ 8 mod 256) * 256 + u div 2 ^ 0 mod 256 = u"
    by (simp only: div_mult_mod_eq)
  moreover have "ipv4ToInt (dotted x) = Some (word_of_int
      (((u div 2 ^ 24 mod 256 * 256 + u div 2 ^ 16 mod 256) * 256 + u div 2 ^ 8 mod 256) * 256 + u div 2 ^ 0 mod 256))"
    by (simp add: ipv4ToInt_def step u_def)
  ultimately show ?thesis by (simp only: u_def word_of_int_uint)
qed

lemma dotted_lower [simp]: "map to_lower (dotted x) = dotted x"
proof -
  have "map to_lower (octet x k) = octet x k" for k
    using octet_digits [of x k] by (induction "octet x k") (auto simp: list_all_iff to_lower_def is_dec_def Let_def intro!: map_idI)
  then show ?thesis by (simp add: dotted_def to_lower_def)
qed

lemma dotted_head: "dotted x \<noteq> []" "hd (dotted x) \<noteq> CHR '':''" "CHR ''/'' \<notin> set (dotted x)" "CHR '':'' \<notin> set (dotted x)"
proof -
  have "hd (octet x 24) \<in> set (octet x 24)" using octet_short(1) [of x 24] by (rule hd_in_set)
  then have "hd (octet x 24) \<noteq> CHR '':''" using octet_no(3) [of x 24] by metis
  then show "dotted x \<noteq> []" "hd (dotted x) \<noteq> CHR '':''" "CHR ''/'' \<notin> set (dotted x)" "CHR '':'' \<notin> set (dotted x)"
    using octet_short(1) [of x 24] by (auto simp: dotted_def hd_append)
qed

lemma dotted_shaped: "v4_shaped (dotted x)"
  by (simp add: v4_shaped_def octet_short octet_digits)

text \<open>The three forms a request may have its IPv4 address in: plain, and mapped into IPv6.\<close>

lemma normalise_dotted [simp]: "normalise_ip (dotted x) = dotted x" "normalise_ip (''::ffff:'' @ dotted x) = dotted x"
proof -
  have "take 7 (dotted x) \<noteq> ''::ffff:''"
    using dotted_head(2) [of x] by (cases "dotted x") auto
  then show "normalise_ip (dotted x) = dotted x" by (simp add: normalise_ip_def)
  show "normalise_ip (''::ffff:'' @ dotted x) = dotted x" by (simp add: normalise_ip_def dotted_shaped)
qed

text \<open>The network of an address and a prefix length.\<close>

definition in_net :: "32 word \<Rightarrow> 32 word \<Rightarrow> int \<Rightarrow> bool" where
  "in_net x y bits \<longleftrightarrow> 0 \<le> bits \<and> bits \<le> 32 \<and> uint x div 2 ^ nat (32 - bits) = uint y div 2 ^ nat (32 - bits)"

definition net_pattern :: "32 word \<Rightarrow> int \<Rightarrow> string" where
  "net_pattern y bits = dotted y @ CHR ''/'' # show_int bits"

lemma matchCidrIPv4_dotted: "0 \<le> bits \<Longrightarrow> matchCidrIPv4 (dotted x) (dotted y) bits \<longleftrightarrow> in_net x y bits"
proof -
  assume "0 \<le> bits"
  moreover have "uint x div 2 ^ 32 = 0" for x :: "32 word"
    using uint_lt2p [of x] by (intro div_pos_pos_trivial) auto
  ultimately show ?thesis
    by (auto simp: matchCidrIPv4_def in_net_def Let_def high_mask_eq' drop_bit_uint)
qed

lemma show_int_no: "CHR ''/'' \<notin> set (show_int i)" "CHR '':'' \<notin> set (show_int i)"
  using dec_digits_is_dec [of "nat i"] dec_digits_is_dec [of "nat (- i)"]
  by (auto simp: show_int_def list_all_iff is_dec_def)

lemma matchCidr_dotted: "matchCidr (dotted x) (net_pattern y bits) \<longleftrightarrow> in_net x y bits"
proof -
  have "split_char CHR ''/'' (net_pattern y bits) = [dotted y, show_int bits]"
    by (simp add: net_pattern_def dotted_head show_int_no)
  then show ?thesis
    by (simp add: matchCidr_def Let_def dotted_head matchCidrIPv4_dotted) (simp add: in_net_def)
qed

text \<open>The value of a list of bytes, most significant first.\<close>

fun bytes_value :: "8 word list \<Rightarrow> int" where
  "bytes_value [] = 0"
| "bytes_value (b # bs) = uint b * 256 ^ length bs + bytes_value bs"

lemma bytes_value_bounds: "0 \<le> bytes_value bs \<and> bytes_value bs < 256 ^ length bs"
proof (induction bs)
  case (Cons b bs)
  have "uint b < 256" using uint_lt2p [of b] by simp
  then have "uint b * 256 ^ length bs \<le> 255 * 256 ^ length bs" by (intro mult_right_mono) auto
  moreover have "(256 :: int) ^ length (b # bs) = 255 * 256 ^ length bs + 256 ^ length bs" by simp
  ultimately have "bytes_value (b # bs) < 256 ^ length (b # bs)" using Cons unfolding bytes_value.simps by linarith
  moreover have "0 \<le> bytes_value (b # bs)" using Cons by simp
  ultimately show ?case by (rule conjI [rotated])
qed simp

lemma byte_mask: "push_bit k 255 = NOT (mask k :: 8 word)"
proof -
  have "(255 :: 8 word) = - 1" by (rule word_uint_eqI) (simp add: unsigned_minus_1_eq_mask mask_eq_exp_minus_1)
  then show ?thesis by (simp only: push_bit_minus_one_eq_not_mask)
qed

text \<open>The loop compares the values without their low bits.\<close>

lemma pow_split: "m \<le> n \<Longrightarrow> (a * 2 ^ n + v) div 2 ^ m = a * 2 ^ (n - m) + v div 2 ^ m" for a v :: int
proof -
  assume "m \<le> n"
  then have "(2 :: int) ^ n = 2 ^ (n - m) * 2 ^ m" by (simp flip: power_add)
  then have "a * 2 ^ n + v = v + (a * 2 ^ (n - m)) * 2 ^ m" by (simp only: mult.assoc add.commute)
  then show ?thesis by (simp only: div_mult_self1 power_not_zero zero_neq_numeral not_False_eq_True add.commute)
qed

lemma digit_eq: "0 \<le> v \<Longrightarrow> v < p \<Longrightarrow> 0 \<le> w \<Longrightarrow> w < p \<Longrightarrow> a * p + v = b * p + w \<longleftrightarrow> a = b \<and> v = w"
  for a b v w p :: int
  by (metis div_mult_self3 div_pos_pos_trivial add.commute add_cancel_left_right add_left_imp_eq less_irrefl order_le_less_trans)

lemma same_bits_value:
  "length as = length bs \<Longrightarrow> r \<le> 8 * length as \<Longrightarrow>
   same_bits as bs r \<longleftrightarrow> bytes_value as div 2 ^ (8 * length as - r) = bytes_value bs div 2 ^ (8 * length as - r)"
proof (induction as bs r rule: same_bits.induct)
  case (1 a as b bs r)
  let ?n = "8 * length as"
  have len: "length bs = length as" using "1.prems" by simp
  have pow: "(256 :: int) ^ length as = 2 ^ ?n" by (simp add: power_mult)
  note va = bytes_value_bounds [of as, unfolded pow] and vb = bytes_value_bounds [of bs, unfolded len pow]
  consider "r = 0" | "8 \<le> r" | "0 < r" "r < 8" by linarith
  then show ?case
  proof cases
    case 1
    have "bytes_value cs div 2 ^ (8 * length cs) = 0" for cs
      using bytes_value_bounds [of cs] by (intro div_pos_pos_trivial) (simp_all add: power_mult)
    from this [of "a # as"] this [of "b # bs"] show ?thesis using 1 by (simp only: length_Cons len) simp
  next
    case 2
    let ?m = "?n - (r - 8)"
    have m: "8 * length (a # as) - r = ?m" "?m \<le> ?n" using 2 "1.prems"(2) by simp_all
    have quot: "0 \<le> v div 2 ^ ?m \<and> v div 2 ^ ?m < 2 ^ (?n - ?m)" if "0 \<le> v" "v < 2 ^ ?n" for v :: int
    proof -
      have "(2 :: int) ^ ?n = 2 ^ (?n - ?m) * 2 ^ ?m" using m(2) by (simp flip: power_add)
      then have "v div 2 ^ ?m < 2 ^ (?n - ?m)" using that(2) by (subst zdiv_less) simp_all
      then show ?thesis using that(1) by (simp add: pos_imp_zdiv_nonneg_iff)
    qed
    have "bytes_value (a # as) div 2 ^ ?m = bytes_value (b # bs) div 2 ^ ?m \<longleftrightarrow>
      a = b \<and> bytes_value as div 2 ^ ?m = bytes_value bs div 2 ^ ?m"
      using quot [of "bytes_value as"] quot [of "bytes_value bs"] va vb
      by (simp add: pow len pow_split [OF m(2)] digit_eq word_uint_eq_iff)
    moreover have "same_bits as bs (r - 8) \<longleftrightarrow> bytes_value as div 2 ^ ?m = bytes_value bs div 2 ^ ?m" if "a = b"
      using "1.IH" 2 that "1.prems" by simp
    ultimately show ?thesis using 2 unfolding m(1) by auto
  next
    case 3
    have m: "8 * length (a # as) - r = ?n + (8 - r)" using 3 by simp
    have "bytes_value (c # cs) div 2 ^ (?n + (8 - r)) = uint c div 2 ^ (8 - r)"
      if "length cs = length as" "0 \<le> bytes_value cs" "bytes_value cs < 2 ^ ?n" for c cs
      using that by (simp only: bytes_value.simps power_add pow) (simp add: zdiv_zmult2_eq)
    from this [of as a] this [of bs b] show ?thesis
      using 3 va vb len unfolding m by (simp only: same_bits.simps) (auto simp: byte_mask high_mask_eq' drop_bit_uint Let_def)
  qed
qed simp_all

lemma bytes_of_groups_length: "bytes_of_groups gs = Some bs \<Longrightarrow> length bs = 2 * length gs"
  by (induction gs arbitrary: bs) (auto simp: group_bytes_def split: option.splits if_splits)

lemma ipv6ToBytes_length: "ipv6ToBytes ip = Some bs \<Longrightarrow> length bs = 16"
  by (auto simp: ipv6ToBytes_def ipv6_groups_def Let_def bind_eq_Some_conv split: if_splits dest: bytes_of_groups_length)

section \<open>Properties\<close>

text \<open>The IP allow-list, on IPv4 networks: a request passes exactly when the list is empty or
  its address, plain or in the form that is mapped into IPv6, lies in one of the listed
  networks, that is, agrees with the network in as many leading bits as the prefix says; a
  prefix length outside 0 to 32 lists nothing.\<close>

theorem ip_gate_ipv4_networks:
  "ip \<in> {dotted x, ''::ffff:'' @ dotted x} \<Longrightarrow>
   ipAllowList (Some (o1\<lparr>op_ipAllowList := map (\<lambda>(y, bits). net_pattern y bits) nets\<rparr>)) (Some ip) =
     (if nets = [] \<or> (\<exists>(y, bits) \<in> set nets. in_net x y bits) then None else Some (403, ''ip_not_allowed''))"
proof -
  assume ip: "ip \<in> {dotted x, ''::ffff:'' @ dotted x}"
  from ip have "ip = dotted x \<or> ip = ''::ffff:'' @ dotted x" by (simp only: insert_iff empty_iff simp_thms)
  then have "normalise_ip ip = dotted x" by (metis normalise_dotted)
  moreover have "ip \<noteq> []" using ip dotted_head(1) [of x] by auto
  moreover have "CHR ''/'' \<in> set (net_pattern y bits)" for y bits by (simp add: net_pattern_def)
  ultimately have "matchIp ip (net_pattern y bits) = in_net x y bits" "truthy (Some ip)" for y bits
    by (simp_all add: matchIp_def matchCidr_dotted truthy_def)
  then show ?thesis by (auto simp: ipAllowList_def list_ex_iff)
qed

theorem ip_gate_ipv4_networks_witness:
  "ipAllowList (Some (sample_operator_row\<lparr>op_ipAllowList := [''10.1.0.0/16'']\<rparr>)) (Some ''::ffff:10.1.2.3'') = None \<and>
   ipAllowList (Some (sample_operator_row\<lparr>op_ipAllowList := [''10.1.0.0/16'']\<rparr>)) (Some ''10.2.2.3'') =
     Some (403, ''ip_not_allowed'')"
proof -
  have d: "dotted 0x0A010203 = ''10.1.2.3''" "dotted 0x0A020203 = ''10.2.2.3''"
      "net_pattern 0x0A010000 16 = ''10.1.0.0/16''"
    by (simp_all add: dotted_def octet_def net_pattern_def show_int_def dec_digits.simps char_of_def bit_0)
  have "in_net 0x0A010203 0x0A010000 16" "\<not> in_net 0x0A020203 0x0A010000 16" by (simp_all add: in_net_def)
  then show ?thesis
    using ip_gate_ipv4_networks [of "''::ffff:'' @ dotted 0x0A010203" "0x0A010203" "[(0x0A010000, 16)]" sample_operator_row]
      ip_gate_ipv4_networks [of "dotted 0x0A020203" "0x0A020203" "[(0x0A010000, 16)]" sample_operator_row]
    by (simp add: d)
qed

text \<open>The comparison of IPv6 networks, byte by byte with a mask for the last one, is the
  comparison of the 128-bit values without their low bits.\<close>

theorem ipv6_cidr_is_prefix_test:
  "matchCidrIPv6 ip net bits \<longleftrightarrow> bits \<le> 128 \<and>
     (\<exists>a b. ipv6ToBytes ip = Some a \<and> ipv6ToBytes net = Some b \<and>
        bytes_value a div 2 ^ (128 - nat bits) = bytes_value b div 2 ^ (128 - nat bits))"
proof (cases "bits \<le> 128 \<and> ipv6ToBytes ip \<noteq> None \<and> ipv6ToBytes net \<noteq> None")
  case True
  then obtain a b where ab: "ipv6ToBytes ip = Some a" "ipv6ToBytes net = Some b" by auto
  then show ?thesis
    using True same_bits_value [of a b "nat bits"] ipv6ToBytes_length [OF ab(1)] ipv6ToBytes_length [OF ab(2)]
    by (simp add: matchCidrIPv6_def)
qed (auto simp: matchCidrIPv6_def split: option.splits)

text \<open>Geo-gating fails closed: with a list of countries a launch passes only when a two-letter
  country was determined, from the body before any header, and it is in the list.\<close>

theorem geo_gate_fails_closed:
  "geoAllowlist op1 rq = None \<longleftrightarrow>
     (\<exists>o1. op1 = Some o1 \<and> (op_allowedCountries o1 = [] \<or>
        (\<exists>c. resolveCountry rq = Some c \<and> length c = 2 \<and> list_all is_upper c \<and> c \<in> set (op_allowedCountries o1))))"
proof -
  have "length c = 2 \<and> list_all is_upper c" if "resolveCountry rq = Some c" for c
    using that by (auto simp: resolveCountry_def normalise_country_def Let_def bind_eq_Some_conv split: option.splits if_splits)
  then show ?thesis by (auto simp: geoAllowlist_def split: option.splits if_splits)
qed

end
