(* ===== verification/Access.thy ===== *)
theory Access
  imports NetAccess Sessions
begin

text \<open>
  Who may call what (\<^verbatim>\<open>apps/rgs-server/src/middleware/\<close>): the role gates (\<^verbatim>\<open>role-gate.ts\<close>,
  \<^verbatim>\<open>platform-auth.ts\<close>), the bearer tokens of portal users (\<^verbatim>\<open>portal-auth.ts\<close>) and of
  players (\<^verbatim>\<open>session-auth.ts\<close>), the bot challenge (\<^verbatim>\<open>turnstile.ts\<close>), the keys of the rate
  limiters (\<^verbatim>\<open>operator-rate-limit.ts\<close>) and the store of answered requests
  (\<^verbatim>\<open>idempotency.ts\<close>). The verification of a JSON web token, the challenge's web service and
  the rate limiter itself are third-party code and parameters.
\<close>

section \<open>Roles\<close>

definition STAFF_ROLE :: string where "STAFF_ROLE = ''KETAPOLA_STAFF''"

definition STAFF_ROLES :: "string list" where
  "STAFF_ROLES = [''KETAPOLA_STAFF'', ''KETAPOLA_COMPLIANCE'', ''KETAPOLA_AUDITOR'', ''KETAPOLA_SUPPORT'']"

definition isStaffRole :: "string \<Rightarrow> bool" where
  "isStaffRole r \<longleftrightarrow> r \<in> set STAFF_ROLES"

text \<open>The role of the claims is \<open>None\<close> when there are no claims.\<close>

definition requireRole :: "string list \<Rightarrow> string option \<Rightarrow> gate_verdict" where
  "requireRole allowed role =
     (if \<not> truthy role \<or> the role \<notin> set (allowed @ [STAFF_ROLE]) then Some (403, ''insufficient_role'') else None)"

definition requireOperatorAdmin :: "string option \<Rightarrow> gate_verdict" where
  "requireOperatorAdmin = requireRole [''OPERATOR_ADMIN'']"

definition requireOperatorFinance :: "string option \<Rightarrow> gate_verdict" where
  "requireOperatorFinance = requireRole [''OPERATOR_ADMIN'', ''OPERATOR_FINANCE'']"

definition requireOperatorSupport :: "string option \<Rightarrow> gate_verdict" where
  "requireOperatorSupport = requireRole [''OPERATOR_ADMIN'', ''OPERATOR_SUPPORT'']"

definition requireOperatorAny :: "string option \<Rightarrow> gate_verdict" where
  "requireOperatorAny = requireRole [''OPERATOR_ADMIN'', ''OPERATOR_FINANCE'', ''OPERATOR_SUPPORT'', ''OPERATOR_VIEWER'']"

definition requireYantraAdmin :: "string option \<Rightarrow> gate_verdict" where
  "requireYantraAdmin = requireRole [''KETAPOLA_STAFF'']"

definition requireYantraCompliance :: "string option \<Rightarrow> gate_verdict" where
  "requireYantraCompliance = requireRole [''KETAPOLA_STAFF'', ''KETAPOLA_COMPLIANCE'']"

definition requireYantraSupport :: "string option \<Rightarrow> gate_verdict" where
  "requireYantraSupport = requireRole [''KETAPOLA_STAFF'', ''KETAPOLA_COMPLIANCE'', ''KETAPOLA_SUPPORT'']"

definition requireStaffRole :: "string option \<Rightarrow> gate_verdict" where
  "requireStaffRole role =
     (if \<not> truthy role \<or> \<not> isStaffRole (the role) then Some (403, ''insufficient_role'') else None)"

section \<open>Bearer tokens\<close>

text \<open>\<open>Authorization: Bearer t\<close>, else the fallback (a cookie, a query parameter) unless empty.\<close>

definition bearer :: "string option \<Rightarrow> string option" where
  "bearer h =
     (case h of None \<Rightarrow> None
      | Some s \<Rightarrow> if take 7 (map to_lower s) = ''bearer '' then Some (js_trim (drop 7 s)) else None)"

definition extractToken :: "string option \<Rightarrow> string option \<Rightarrow> string option" where
  "extractToken header fallback =
     (case bearer header of Some t \<Rightarrow> Some t | None \<Rightarrow> if truthy fallback then fallback else None)"

record portal_claims =
  pc_sub :: uuid
  pc_operatorId :: uuid
  pc_role :: string
  pc_email :: string

record portal_user_row =
  pu_id :: uuid
  pu_operatorId :: uuid
  pu_email :: string
  pu_role :: string
  pu_disabledAt :: "msec option"

record portal_env =
  po_verify :: "string \<Rightarrow> portal_claims option"
  po_users :: "portal_user_row list"
  po_operators :: "operator_row list"

definition portalAuth ::
    "portal_env \<Rightarrow> string option \<Rightarrow> string option \<Rightarrow> (int \<times> string) + (portal_user_row \<times> portal_claims \<times> operator_row)" where
  "portalAuth env header cookie =
     (let token = extractToken header cookie in
      if \<not> truthy token then Inl (401, ''missing_portal_token'')
      else case po_verify env (the token) of
        None \<Rightarrow> Inl (401, ''invalid_portal_token'')
      | Some claims \<Rightarrow>
          (case find (\<lambda>u. pu_id u = pc_sub claims) (po_users env) of
             None \<Rightarrow> Inl (401, ''portal_user_not_found'')
           | Some user \<Rightarrow>
               if pu_operatorId user \<noteq> pc_operatorId claims then Inl (401, ''portal_user_not_found'')
               else (case find (\<lambda>r. op_id r = pu_operatorId user) (po_operators env) of
                       None \<Rightarrow> Inl (401, ''operator_inactive'')
                     | Some o1 \<Rightarrow>
                         if op_status o1 = OpTerminated then Inl (401, ''operator_inactive'')
                         else Inr (user, claims, o1))))"

definition platformAuth ::
    "portal_env \<Rightarrow> string option \<Rightarrow> string option \<Rightarrow> (int \<times> string) + (portal_user_row \<times> portal_claims \<times> operator_row)" where
  "platformAuth env header cookie =
     (case portalAuth env header cookie of
        Inl e \<Rightarrow> Inl e
      | Inr (user, claims, o1) \<Rightarrow>
          (case requireStaffRole (Some (pc_role claims)) of
             Some e \<Rightarrow> Inl e
           | None \<Rightarrow> Inr (user, claims, o1)))"

text \<open>The token of a player: the session must exist, be open and not have expired.\<close>

definition sessionAuth ::
    "(string \<Rightarrow> session_claims option) \<Rightarrow> msec \<Rightarrow> db \<Rightarrow> string option \<Rightarrow> string option \<Rightarrow>
     (int \<times> string) + (session_row \<times> session_claims)" where
  "sessionAuth verify now d header query =
     (let token = extractToken header query in
      if \<not> truthy token then Inl (401, ''missing_session_token'')
      else case verify (the token) of
        None \<Rightarrow> Inl (401, ''invalid_session_token'')
      | Some claims \<Rightarrow>
          (case find_session d (sc_sessionId claims) of
             None \<Rightarrow> Inl (401, ''session_not_found'')
           | Some s \<Rightarrow>
               if se_terminatedAt s \<noteq> None then Inl (401, ''session_terminated'')
               else if se_expiresAt s < now then Inl (401, ''session_expired'')
               else Inr (s, claims)))"

section \<open>The bot challenge\<close>

text \<open>
  The answer of the service is \<open>None\<close> when the call fails or the body is not JSON; the service
  documents an object (reading a member of the body \<open>null\<close> would throw).
\<close>

record turnstile_request =
  tq_header :: "string option"
  tq_body :: json
  tq_ip :: "string option"

definition turnstile_token :: "turnstile_request \<Rightarrow> string option" where
  "turnstile_token rq =
     (if truthy (tq_header rq) then tq_header rq
      else (case json_string (get_prop (tq_body rq) ''cfTurnstileToken'') of
              Some t \<Rightarrow> if t \<noteq> [] then Some t else None
            | None \<Rightarrow> None))"

definition json_truthy :: "json \<Rightarrow> bool" where
  "json_truthy v = (case v of JUndefined \<Rightarrow> False | JNull \<Rightarrow> False | JBool b \<Rightarrow> b | JNum x \<Rightarrow> x \<noteq> 0
     | JBig i \<Rightarrow> i \<noteq> 0 | JStr s \<Rightarrow> s \<noteq> [] | JDate t \<Rightarrow> True | JArr vs \<Rightarrow> True | JObj kvs \<Rightarrow> True)"

definition turnstile_form :: "string \<Rightarrow> string \<Rightarrow> string option \<Rightarrow> (string \<times> string) list" where
  "turnstile_form secret token ip =
     [(''secret'', secret), (''response'', token)] @ (if truthy ip then [(''remoteip'', the ip)] else [])"

definition turnstileVerify ::
    "bool \<Rightarrow> string \<Rightarrow> ((string \<times> string) list \<Rightarrow> json option) \<Rightarrow> turnstile_request \<Rightarrow> gate_verdict" where
  "turnstileVerify failClosed secret siteverify rq =
     (if secret = [] then None
      else case turnstile_token rq of
        None \<Rightarrow> Some (401, ''turnstile_token_missing'')
      | Some token \<Rightarrow>
          (case siteverify (turnstile_form secret token (tq_ip rq)) of
             None \<Rightarrow> if failClosed then Some (503, ''turnstile_unreachable'') else None
           | Some body \<Rightarrow>
               if json_truthy (get_prop body ''success'') then None
               else Some (401, ''turnstile_verification_failed'')))"

section \<open>Keys of the rate limiters\<close>

definition operator_rate_key :: "operator_row option \<Rightarrow> string option \<Rightarrow> string" where
  "operator_rate_key op1 ip =
     (if truthy (map_option op_id op1) then ''op:'' @ op_id (the op1) else ''ip:'' @ nullish ip ''unknown'')"

definition session_rate_key :: "operator_row option \<Rightarrow> string option \<Rightarrow> string" where
  "session_rate_key op1 ip =
     (if truthy (map_option op_id op1) then ''op-session:'' @ op_id (the op1)
      else ''ip-session:'' @ nullish ip ''unknown'')"

section \<open>Answered requests\<close>

definition IDEMPOTENCY_TTL_HOURS :: int where "IDEMPOTENCY_TTL_HOURS = 24"

record idempotency_row =
  iy_operatorId :: uuid
  iy_requestUuid :: uuid
  iy_endpoint :: string
  iy_httpStatus :: int
  iy_responseBody :: json
  iy_expiresAt :: msec

type_synonym http_answer = "int \<times> json"
text \<open>An error answer, and a handler behind the role of an administrator.\<close>

definition error_answer :: "int \<Rightarrow> string \<Rightarrow> http_answer" where
  "error_answer status e = (status, JObj [(''error'', JStr e)])"

definition admin_only :: "string option \<Rightarrow> 'a \<Rightarrow> (http_answer \<times> 'a) \<Rightarrow> http_answer \<times> 'a" where
  "admin_only role d handler =
     (case requireOperatorAdmin role of Some (status, e) \<Rightarrow> (error_answer status e, d) | None \<Rightarrow> handler)"

type_synonym idem_key = "uuid \<times> uuid \<times> string"

definition iy_key :: "idempotency_row \<Rightarrow> idem_key" where
  "iy_key r = (iy_operatorId r, iy_requestUuid r, iy_endpoint r)"

text \<open>
  Before the handler: the stored answer, if it has not expired (\<open>readOk\<close> is false when the
  lookup throws, which is ignored).
\<close>

definition idem_lookup :: "bool \<Rightarrow> msec \<Rightarrow> idem_key \<Rightarrow> idempotency_row list \<Rightarrow> http_answer option" where
  "idem_lookup readOk now key rows =
     (if \<not> readOk then None
      else case find (\<lambda>r. iy_key r = key) rows of
        None \<Rightarrow> None
      | Some r \<Rightarrow> if now < iy_expiresAt r then Some (iy_httpStatus r, iy_responseBody r) else None)"

text \<open>After the handler: the answer is stored unless it is a server error (or has no body).\<close>

definition idem_store :: "bool \<Rightarrow> msec \<Rightarrow> idem_key \<Rightarrow> http_answer \<Rightarrow> idempotency_row list \<Rightarrow> idempotency_row list" where
  "idem_store writeOk now key ans rows =
     (let (status, body) = ans; expiresAt = now + IDEMPOTENCY_TTL_HOURS * 3600 * 1000;
          row = \<lparr>iy_operatorId = fst key, iy_requestUuid = fst (snd key), iy_endpoint = snd (snd key),
                 iy_httpStatus = status, iy_responseBody = body, iy_expiresAt = expiresAt\<rparr>
      in if 500 \<le> status \<or> body = JNull \<or> \<not> writeOk then rows
         else if find (\<lambda>r. iy_key r = key) rows = None then rows @ [row]
         else update_where (\<lambda>r. iy_key r = key)
                (\<lambda>r. r\<lparr>iy_httpStatus := status, iy_responseBody := body, iy_expiresAt := expiresAt\<rparr>) rows)"

text \<open>What happens around one request: its two instants and the fate of the two queries.\<close>

record idem_io =
  ii_readOk :: bool
  ii_writeOk :: bool
  ii_lookupAt :: msec
  ii_finishAt :: msec

text \<open>The middleware around a handler with a state of its own; a handler that throws sends no answer
  and none is stored. Without both ids the middleware is not involved.\<close>

definition idempotency ::
    "string \<Rightarrow> idem_io \<Rightarrow> string option \<Rightarrow> string option \<Rightarrow> ('s \<Rightarrow> http_answer option \<times> 's) \<Rightarrow>
     idempotency_row list \<times> 's \<Rightarrow> http_answer option \<times> idempotency_row list \<times> 's" where
  "idempotency endpointTag io operatorId requestUuid handler st =
     (let (rows, s) = st in
      if \<not> truthy operatorId \<or> \<not> truthy requestUuid
      then (let (ans, s1) = handler s in (ans, rows, s1))
      else (let key = (the operatorId, the requestUuid, endpointTag) in
            case idem_lookup (ii_readOk io) (ii_lookupAt io) key rows of
              Some ans \<Rightarrow> (Some ans, rows, s)
            | None \<Rightarrow>
                (let (ans, s1) = handler s
                 in (ans, (case ans of None \<Rightarrow> rows
                           | Some a \<Rightarrow> idem_store (ii_writeOk io) (ii_finishAt io) key a rows), s1))))"

section \<open>Facts\<close>

text \<open>Requests that repeat one another, in order.\<close>

fun idem_all ::
    "string \<Rightarrow> idem_io list \<Rightarrow> string option \<Rightarrow> string option \<Rightarrow> ('s \<Rightarrow> http_answer option \<times> 's) \<Rightarrow>
     idempotency_row list \<times> 's \<Rightarrow> http_answer option list \<times> idempotency_row list \<times> 's" where
  "idem_all tag [] operatorId requestUuid handler st = ([], st)"
| "idem_all tag (io # ios) operatorId requestUuid handler st =
     (let (ans, st1) = idempotency tag io operatorId requestUuid handler st;
          (anss, st2) = idem_all tag ios operatorId requestUuid handler st1
      in (ans # anss, st2))"

text \<open>What was stored is found until it expires.\<close>

lemma idem_store_lookup:
  assumes "fst ans < 500" "snd ans \<noteq> JNull" "later < now + IDEMPOTENCY_TTL_HOURS * 3600 * 1000"
  shows "idem_lookup True later key (idem_store True now key ans rows) = Some ans"
proof -
  obtain a b c where k: "key = (a, b, c)" by (metis prod_cases3)
  obtain st body where ans: "ans = (st, body)" by fastforce
  define expiry where "expiry = now + IDEMPOTENCY_TTL_HOURS * 3600 * 1000"
  note E = expiry_def [symmetric]
  let ?f = "\<lambda>r. r\<lparr>iy_httpStatus := st, iy_responseBody := body, iy_expiresAt := expiry\<rparr>"
  have keep: "iy_key (?f r) = iy_key r" for r by (simp add: iy_key_def)
  show ?thesis
  proof (cases "find (\<lambda>r. iy_key r = key) rows")
    case None
    then show ?thesis using assms unfolding E idem_lookup_def idem_store_def Let_def ans k
      by (simp add: find_append_row) (simp add: iy_key_def)
  next
    case (Some r)
    then show ?thesis using assms unfolding E idem_lookup_def idem_store_def Let_def ans
      by (simp add: find_update_where_key [of iy_key ?f, OF keep])
  qed
qed

lemma idempotency_hit:
  assumes "truthy operatorId" "truthy requestUuid"
    and "idem_lookup (ii_readOk io) (ii_lookupAt io) (the operatorId, the requestUuid, tag) rows = Some ans"
  shows "idempotency tag io operatorId requestUuid handler (rows, s) = (Some ans, rows, s)"
  using assms by (simp add: idempotency_def)

lemma idem_all_hits:
  assumes "truthy operatorId" "truthy requestUuid"
    and "\<forall>io \<in> set ios. idem_lookup (ii_readOk io) (ii_lookupAt io) (the operatorId, the requestUuid, tag) rows = Some ans"
  shows "idem_all tag ios operatorId requestUuid handler (rows, s) = (replicate (length ios) (Some ans), rows, s)"
  using assms(3) by (induction ios) (simp_all add: idempotency_hit [OF assms(1,2)])

lemma idempotency_first:
  assumes "truthy operatorId" "truthy requestUuid"
    and "idem_lookup (ii_readOk io) (ii_lookupAt io) (the operatorId, the requestUuid, tag) rows = None"
    and "handler s = (Some ans, s1)"
  shows "idempotency tag io operatorId requestUuid handler (rows, s) =
    (Some ans, idem_store (ii_writeOk io) (ii_finishAt io) (the operatorId, the requestUuid, tag) ans rows, s1)"
  using assms by (simp add: idempotency_def Let_def)

text \<open>The user row that a lookup by id finds after a change that keeps ids.\<close>

lemma find_map_key: "(\<And>u. k (f u) = k u) \<Longrightarrow> find (\<lambda>u. k u = x) (map f us) = map_option f (find (\<lambda>u. k u = x) us)"
  by (induction us) auto

section \<open>Properties\<close>

text \<open>Idempotent requests: once a request has been answered without a server error and its answer
  was stored, every repetition within 24 hours gets the stored answer and the handler does
  not run again, however many repetitions there are.\<close>

theorem idempotent_replay:
  assumes "truthy operatorId" "truthy requestUuid"
    and "idem_lookup (ii_readOk io) (ii_lookupAt io) (the operatorId, the requestUuid, tag) rows = None"
    and "handler s = (Some ans, s1)" "fst ans < 500" "snd ans \<noteq> JNull" "ii_writeOk io"
    and "\<forall>r \<in> set ios. ii_readOk r \<and> ii_lookupAt r < ii_finishAt io + IDEMPOTENCY_TTL_HOURS * 3600 * 1000"
  shows "\<exists>rows1. idem_all tag (io # ios) operatorId requestUuid handler (rows, s) =
    (replicate (Suc (length ios)) (Some ans), rows1, s1)"
proof -
  let ?key = "(the operatorId, the requestUuid, tag)"
  let ?rows = "idem_store (ii_writeOk io) (ii_finishAt io) ?key ans rows"
  have "\<forall>r \<in> set ios. idem_lookup (ii_readOk r) (ii_lookupAt r) ?key ?rows = Some ans"
    using assms(5-8) by (simp add: idem_store_lookup)
  then have "idem_all tag ios operatorId requestUuid handler (?rows, s1) = (replicate (length ios) (Some ans), ?rows, s1)"
    by (rule idem_all_hits [OF assms(1,2)])
  then show ?thesis
    by (simp add: idempotency_first [OF assms(1-3), where handler = handler and s = s, OF assms(4)])
qed

text \<open>A handler that counts its runs.\<close>

definition counting_handler :: "nat \<Rightarrow> http_answer option \<times> nat" where
  "counting_handler n = (Some (201, JNum (of_nat n)), Suc n)"

definition idem_at :: "msec \<Rightarrow> idem_io" where
  "idem_at t = \<lparr>ii_readOk = True, ii_writeOk = True, ii_lookupAt = t, ii_finishAt = t\<rparr>"

theorem idempotent_replay_witness:
  "\<exists>rows1. idem_all ''session.create'' [idem_at 0, idem_at 5, idem_at 70000] (Some ''op'') (Some ''rq'') counting_handler ([], 7) =
     (replicate 3 (Some (201, JNum 7)), rows1, 8)"
  using idempotent_replay [of "Some ''op''" "Some ''rq''" "idem_at 0" "''session.create''" "[]" counting_handler 7 "(201, JNum 7)" 8
      "[idem_at 5, idem_at 70000]"]
  by (simp add: truthy_def idem_lookup_def counting_handler_def idem_at_def IDEMPOTENCY_TTL_HOURS_def numeral_3_eq_3)

text \<open>A portal token outlives its user's rights: the check of a token reads neither the disabled
  flag nor the role of the user's row, so disabling or demoting a user changes no verdict
  and no claim until the token expires.\<close>

theorem disabled_user_keeps_access:
  assumes "\<And>u. pu_id (change u) = pu_id u" "\<And>u. pu_operatorId (change u) = pu_operatorId u"
  shows "map_sum id (\<lambda>(u, claims, o1). (claims, o1))
      (platformAuth (env\<lparr>po_users := map change (po_users env)\<rparr>) header cookie) =
    map_sum id (\<lambda>(u, claims, o1). (claims, o1)) (platformAuth env header cookie)"
  using assms
  by (auto simp: platformAuth_def portalAuth_def Let_def find_map_key split: option.splits)

text \<open>A member of the compliance staff who is disabled.\<close>

definition sample_portal :: portal_env where
  "sample_portal =
     \<lparr>po_verify = (\<lambda>t. if t = ''tok'' then Some \<lparr>pc_sub = ''u'', pc_operatorId = ''op'', pc_role = ''KETAPOLA_COMPLIANCE'',
        pc_email = ''c@yantra''\<rparr> else None),
      po_users = [\<lparr>pu_id = ''u'', pu_operatorId = ''op'', pu_email = ''c@yantra'', pu_role = ''KETAPOLA_COMPLIANCE'', pu_disabledAt = None\<rparr>],
      po_operators = [sample_operator_row]\<rparr>"

theorem disabled_user_keeps_access_witness:
  "\<exists>u claims o1. platformAuth (sample_portal\<lparr>po_users := map (\<lambda>u. u\<lparr>pu_disabledAt := Some 5\<rparr>) (po_users sample_portal)\<rparr>)
      (Some ''Bearer tok'') None = Inr (u, claims, o1)"
proof -
  have "\<exists>u claims o1. platformAuth sample_portal (Some ''Bearer tok'') None = Inr (u, claims, o1)"
    by (simp add: platformAuth_def portalAuth_def sample_portal_def extractToken_def bearer_def to_lower_def js_trim_def
        js_space_def truthy_def requireStaffRole_def isStaffRole_def STAFF_ROLES_def sample_operator_row_def Let_def char_of_def bit_0)
  then show ?thesis
    using disabled_user_keeps_access [of "\<lambda>u. u\<lparr>pu_disabledAt := Some 5\<rparr>" sample_portal "Some ''Bearer tok''" None]
    by (cases "platformAuth (sample_portal\<lparr>po_users := map (\<lambda>u. u\<lparr>pu_disabledAt := Some 5\<rparr>) (po_users sample_portal)\<rparr>)
      (Some ''Bearer tok'') None") auto
qed

end
