(* ===== verification/Schemas.thy ===== *)
theory Schemas
  imports Json WalletHttp "HOL-Library.Monad_Syntax"
begin

text \<open>
  The schema combinators the routes use, as parsers of JSON values: \<^verbatim>\<open>z.string()\<close> with a
  test, \<^verbatim>\<open>.default(..)\<close>, \<^verbatim>\<open>.optional()\<close>, \<^verbatim>\<open>z.record(..)\<close> and \<^verbatim>\<open>z.array(z.enum(..))\<close>. Whether a string
  is a UUID or a URL is decided by the schema package and is a parameter.
\<close>

record zod_env =
  zd_uuid :: "string \<Rightarrow> bool"
  zd_url :: "string \<Rightarrow> bool"

definition req_str :: "(string \<Rightarrow> bool) \<Rightarrow> json \<Rightarrow> string option" where
  "req_str p v = (case v of JStr s \<Rightarrow> if p s then Some s else None | _ \<Rightarrow> None)"

definition def_str :: "(string \<Rightarrow> bool) \<Rightarrow> string \<Rightarrow> json \<Rightarrow> string option" where
  "def_str p d v = (if v = JUndefined then Some d else req_str p v)"

definition opt_str :: "(string \<Rightarrow> bool) \<Rightarrow> json \<Rightarrow> string option option" where
  "opt_str p v = (if v = JUndefined then Some None else map_option Some (req_str p v))"

definition sized :: "nat \<Rightarrow> string \<Rightarrow> bool" where "sized n s \<longleftrightarrow> 1 \<le> length s \<and> length s \<le> n"

definition opt_obj :: "json \<Rightarrow> json option option" where
  "opt_obj v = (case v of JUndefined \<Rightarrow> Some None | JObj kvs \<Rightarrow> Some (Some v) | _ \<Rightarrow> None)"

definition opt_bool :: "json \<Rightarrow> bool option option" where
  "opt_bool v = (case v of JUndefined \<Rightarrow> Some None | JBool b \<Rightarrow> Some (Some b) | _ \<Rightarrow> None)"

definition enum_list :: "string list \<Rightarrow> json \<Rightarrow> string list option" where
  "enum_list ok v =
     (case v of JArr vs \<Rightarrow>
        (if list_all (\<lambda>x. case json_string x of Some s \<Rightarrow> s \<in> set ok | None \<Rightarrow> False) vs
         then Some (map (\<lambda>x. the (json_string x)) vs) else None)
      | _ \<Rightarrow> None)"

text \<open>A missing body is an empty object.\<close>

definition body_or_empty :: "json \<Rightarrow> json" where
  "body_or_empty body = (if body = JUndefined \<or> body = JNull then JObj [] else body)"

end
