(* ===== verification/SessionRoutes.thy ===== *)
theory SessionRoutes
  imports Access Evidence KillSwitch Schemas
begin

text \<open>
  The endpoints of a player's session (\<^verbatim>\<open>apps/rgs-server/src/routes/session.ts\<close>): creation with
  its chain of middleware, lookup, termination and seed rotation (the history and the view of
  pending bets are in \<open>Evidence\<close>). The bodies' schemas are parsers of JSON values
  (\<open>Schemas\<close>). Refusals of the
  middleware carry their error only, not the hints beside it.
\<close>

section \<open>The body of a creation\<close>

definition country_shaped :: "string \<Rightarrow> bool" where
  "country_shaped s \<longleftrightarrow> length s = 2 \<and> list_all (\<lambda>c. is_upper (to_upper c)) s"

definition opt_ttl :: "json \<Rightarrow> js_number option option" where
  "opt_ttl v = (case v of
       JUndefined \<Rightarrow> Some None
     | JNum x \<Rightarrow> if is_integer x \<and> 0 < x \<and> x \<le> 86400 then Some (Some (Finite x)) else None
     | _ \<Rightarrow> None)"

record create_body =
  cb_requestUuid :: uuid
  cb_operatorId :: uuid
  cb_playerRef :: string
  cb_gameCode :: string
  cb_currency :: string
  cb_lang :: string
  cb_jurisdiction :: string
  cb_country :: "string option"
  cb_mode :: "string option"
  cb_returnUrl :: "string option"
  cb_clientSeed :: "string option"
  cb_sessionTtlSeconds :: "js_number option"
  cb_rgLimits :: "json option"
  cb_cfTurnstileToken :: "string option"

definition CreateSessionBody :: "zod_env \<Rightarrow> json \<Rightarrow> create_body option" where
  "CreateSessionBody z body =
     (case body of JObj kvs \<Rightarrow> do {
        requestUuid \<leftarrow> req_str (zd_uuid z) (get_prop body ''requestUuid'');
        operatorId \<leftarrow> req_str (zd_uuid z) (get_prop body ''operatorId'');
        playerRef \<leftarrow> req_str (sized 128) (get_prop body ''playerRef'');
        gameCode \<leftarrow> def_str (\<lambda>_. True) ''yantra'' (get_prop body ''gameCode'');
        currency \<leftarrow> req_str (sized 8) (get_prop body ''currency'');
        lang \<leftarrow> def_str (sized 8) ''en'' (get_prop body ''lang'');
        jurisdiction \<leftarrow> def_str (sized 8) ''INTL'' (get_prop body ''jurisdiction'');
        country \<leftarrow> opt_str country_shaped (get_prop body ''country'');
        mode \<leftarrow> opt_str (\<lambda>s. s = ''real'' \<or> s = ''demo'') (get_prop body ''mode'');
        returnUrl \<leftarrow> opt_str (zd_url z) (get_prop body ''returnUrl'');
        clientSeed \<leftarrow> opt_str (sized 128) (get_prop body ''clientSeed'');
        ttl \<leftarrow> opt_ttl (get_prop body ''sessionTtlSeconds'');
        rgLimits \<leftarrow> opt_obj (get_prop body ''rgLimits'');
        token \<leftarrow> opt_str (\<lambda>_. True) (get_prop body ''cfTurnstileToken'');
        Some \<lparr>cb_requestUuid = requestUuid, cb_operatorId = operatorId, cb_playerRef = playerRef, cb_gameCode = gameCode,
          cb_currency = currency, cb_lang = lang, cb_jurisdiction = jurisdiction, cb_country = country, cb_mode = mode,
          cb_returnUrl = returnUrl, cb_clientSeed = clientSeed, cb_sessionTtlSeconds = ttl, cb_rgLimits = rgLimits,
          cb_cfTurnstileToken = token\<rparr> }
      | _ \<Rightarrow> None)"

section \<open>Creation\<close>

text \<open>The server's state as far as the routes see it.\<close>

record rgs_world =
  sw_db :: db
  sw_operators :: operator_db
  sw_configs :: "game_config_row list"
  sw_killRow :: "kill_row option"
  sw_killCache :: kill_cache
  sw_answered :: "idempotency_row list"
  sw_events :: "(string \<times> json) list"

record route_env =
  rv_auth :: auth_env
  rv_zod :: zod_env
  rv_session :: session_env
  rv_rateOk :: "string \<Rightarrow> bool"
  rv_turnstileSecret :: string
  rv_siteverify :: "(string \<times> string) list \<Rightarrow> json option"

record launch_request =
  lr_inbound :: inbound_request
  lr_ip :: "string option"
  lr_body :: json
  lr_cf_ipcountry :: "string option"
  lr_x_vercel_ip_country :: "string option"
  lr_x_forwarded_country :: "string option"
  lr_turnstileHeader :: "string option"

text \<open>What the runtime supplies while a request is handled.\<close>

record route_io =
  rx_now :: msec
  rx_idem :: idem_io
  rx_sessionId :: uuid
  rx_random1 :: string
  rx_random2 :: string

definition answer :: "int \<Rightarrow> string \<Rightarrow> (string \<times> json) list \<Rightarrow> http_answer" where
  "answer status e rest = (status, JObj ((''error'', JStr e) # rest))"

definition geo_of :: "launch_request \<Rightarrow> geo_request" where
  "geo_of rq = \<lparr>gq_body = lr_body rq, gq_cf_ipcountry = lr_cf_ipcountry rq,
     gq_x_vercel_ip_country = lr_x_vercel_ip_country rq, gq_x_forwarded_country = lr_x_forwarded_country rq\<rparr>"

definition operator_status_string :: "operator_status \<Rightarrow> string" where
  "operator_status_string st = (case st of OpActive \<Rightarrow> ''ACTIVE'' | OpPaused \<Rightarrow> ''PAUSED'' | OpTerminated \<Rightarrow> ''TERMINATED'')"

definition operator_currencies :: "operator_row \<Rightarrow> string list" where
  "operator_currencies o1 = (if op_allowedCurrencies o1 \<noteq> [] then op_allowedCurrencies o1 else [op_defaultCurrency o1])"

definition create_input :: "operator_row \<Rightarrow> create_body \<Rightarrow> create_session_input" where
  "create_input o1 b = \<lparr>ci_operatorId = op_id o1, ci_playerRef = cb_playerRef b, ci_gameCode = cb_gameCode b,
     ci_currency = cb_currency b, ci_lang = cb_lang b, ci_jurisdiction = cb_jurisdiction b,
     ci_mode = map_option (\<lambda>m. if m = ''demo'' then Demo else Real) (cb_mode b), ci_returnUrl = cb_returnUrl b,
     ci_clientSeed = cb_clientSeed b, ci_rgLimits = cb_rgLimits b, ci_ttlSeconds = cb_sessionTtlSeconds b\<rparr>"

definition created_json :: "created_session \<Rightarrow> json" where
  "created_json c = JObj [(''sessionId'', JStr (cs_sessionId c)), (''sessionToken'', JStr (cs_sessionToken c)),
     (''launchJwt'', JStr (cs_launchJwt c)), (''launchJwtAlgorithm'', JStr ''ES256''), (''launchUrl'', JStr (cs_launchUrl c)),
     (''expiresAt'', JStr (cs_expiresAt c)), (''serverSeedHash'', JStr (cs_serverSeedHash c))]"

text \<open>
  The tests of the handler in their order, with the kill switch as it was read: the answer of
  the first that fails. A jurisdiction that names an inherited member has no currency list, and
  reading it throws; the promise of the handler is then rejected and no answer is sent.
\<close>

datatype create_verdict = Refused http_answer | Throws | Admitted

definition create_refusal ::
    "kill_snapshot \<Rightarrow> game_config_row list \<Rightarrow> operator_row \<Rightarrow> create_body \<Rightarrow> create_verdict" where
  "create_refusal gk configs o1 b =
     (let gc = find_config configs (op_id o1) (cb_gameCode b) (cb_currency b) in
      if kp_engaged gk
      then Refused (answer 503 ''global_halt'' [(''reason'', JStr (nullish (kp_reason gk) ''operational_halt''))])
      else if op_status o1 \<noteq> OpActive
      then Refused (answer 403 ''operator_not_active'' [(''status'', JStr (operator_status_string (op_status o1))), (''reason'', jopt JStr (op_suspendedReason o1))])
      else if gc \<noteq> None \<and> og_killSwitch (the gc)
      then Refused (answer 503 ''game_disabled'' [(''reason'', JStr (nullish (og_killSwitchReason (the gc)) ''operational_hold''))])
      else if cb_currency b \<notin> set (operator_currencies o1)
      then Refused (answer 400 ''currency_not_permitted_for_operator''
                  [(''allowedCurrencies'', JArr (map JStr (operator_currencies o1)))])
      else (case getJurisdiction (cb_jurisdiction b) of
              InheritedMember \<Rightarrow> Throws
            | Profile rules \<Rightarrow>
                if jr_allowedCurrencies rules \<noteq> [] \<and> cb_currency b \<notin> set (jr_allowedCurrencies rules)
                then Refused (answer 400 ''currency_not_permitted_in_jurisdiction''
                            [(''jurisdiction'', JStr (cb_jurisdiction b)),
                             (''allowedCurrencies'', JArr (map JStr (jr_allowedCurrencies rules)))])
                else Admitted))"

definition create_handler ::
    "route_env \<Rightarrow> route_io \<Rightarrow> launch_request \<Rightarrow> operator_row \<Rightarrow> rgs_world \<Rightarrow> http_answer option \<times> rgs_world" where
  "create_handler env io rq o1 w =
     (case CreateSessionBody (rv_zod env) (lr_body rq) of
        None \<Rightarrow> (Some (answer 400 ''invalid_body'' []), w)
      | Some b \<Rightarrow>
          if cb_operatorId b \<noteq> op_id o1 then (Some (answer 403 ''operator_mismatch'' []), w)
          else (let (gk, cache) = snapshot (rx_now io) (sw_killRow w) (sw_killCache w);
                    w1 = w\<lparr>sw_killCache := cache\<rparr>
                in case create_refusal gk (sw_configs w1) o1 b of
                     Refused ans \<Rightarrow> (Some ans, w1)
                   | Throws \<Rightarrow> (None, w1)
                   | Admitted \<Rightarrow>
                       (let (created, d) = create_session (rv_session env) (rx_sessionId io) (rx_random1 io) (rx_random2 io)
                              (rx_now io) (create_input o1 b) (sw_db w1)
                        in (Some (201, created_json created), w1\<lparr>sw_db := d\<rparr>))))"

text \<open>The gates in front of the handler: the operator, or the answer of the first that refuses.\<close>

definition create_gates :: "route_env \<Rightarrow> msec \<Rightarrow> launch_request \<Rightarrow> rgs_world \<Rightarrow> http_answer + operator_row" where
  "create_gates env now rq w =
     (case operatorAuth (rv_auth env) now (sw_operators w) (lr_inbound rq) of
        AuthRefused status e \<Rightarrow> Inl (answer status e [])
      | AuthOk o1 cred \<Rightarrow>
          (case ipAllowList (Some o1) (lr_ip rq) of
             Some (status, e) \<Rightarrow> Inl (answer status e [])
           | None \<Rightarrow>
               (case geoAllowlist (Some o1) (geo_of rq) of
                  Some (status, e) \<Rightarrow> Inl (answer status e [])
                | None \<Rightarrow>
                    if \<not> rv_rateOk env (session_rate_key (Some o1) (lr_ip rq))
                    then Inl (429, JObj [(''status'', JStr ''RS_ERROR_RATE_LIMIT''),
                                 (''message'', JStr ''too many session creations for this operator'')])
                    else (case turnstileVerify False (rv_turnstileSecret env) (rv_siteverify env)
                                 \<lparr>tq_header = lr_turnstileHeader rq, tq_body = lr_body rq, tq_ip = lr_ip rq\<rparr> of
                            Some (status, e) \<Rightarrow> Inl (answer status e [])
                          | None \<Rightarrow> Inr o1))))"

definition create_route :: "route_env \<Rightarrow> route_io \<Rightarrow> launch_request \<Rightarrow> rgs_world \<Rightarrow> http_answer option \<times> rgs_world" where
  "create_route env io rq w =
     (case create_gates env (rx_now io) rq w of
        Inl ans \<Rightarrow> (Some ans, w)
      | Inr o1 \<Rightarrow>
          (let (ans, rows, w1) = idempotency ''session.create'' (rx_idem io) (Some (op_id o1))
                 (json_string (get_prop (lr_body rq) ''requestUuid''))
                 (create_handler env io rq o1) (sw_answered w, w)
           in (ans, w1\<lparr>sw_answered := rows\<rparr>)))"

section \<open>Lookup, termination, rotation\<close>

text \<open>The gates of the other endpoints: the operator's signature and the IP allow-list.\<close>

definition operator_gates :: "route_env \<Rightarrow> msec \<Rightarrow> inbound_request \<Rightarrow> string option \<Rightarrow> rgs_world \<Rightarrow> http_answer + operator_row" where
  "operator_gates env now inb ip w =
     (case operatorAuth (rv_auth env) now (sw_operators w) inb of
        AuthRefused status e \<Rightarrow> Inl (answer status e [])
      | AuthOk o1 cred \<Rightarrow>
          (case ipAllowList (Some o1) ip of
             Some (status, e) \<Rightarrow> Inl (answer status e [])
           | None \<Rightarrow> Inr o1))"

definition session_view :: "session_row \<Rightarrow> json" where
  "session_view s = JObj
     [(''sessionId'', JStr (se_id s)), (''operatorId'', JStr (se_operatorId s)), (''playerRef'', JStr (se_playerRef s)),
      (''gameCode'', JStr (se_gameCode s)), (''currency'', JStr (se_currency s)), (''lang'', JStr (se_lang s)),
      (''jurisdiction'', JStr (se_jurisdiction s)), (''mode'', JStr (db_mode_string (se_mode s))),
      (''createdAt'', iso_json (se_createdAt s)), (''expiresAt'', iso_json (se_expiresAt s)),
      (''terminatedAt'', jopt iso_json (se_terminatedAt s)), (''serverSeedHash'', JStr (se_serverSeedHash s))]"

definition get_route :: "route_env \<Rightarrow> msec \<Rightarrow> inbound_request \<Rightarrow> string option \<Rightarrow> uuid \<Rightarrow> rgs_world \<Rightarrow> http_answer" where
  "get_route env now inb ip sessionId w =
     (case operator_gates env now inb ip w of
        Inl ans \<Rightarrow> ans
      | Inr o1 \<Rightarrow>
          (case getActive (sw_db w) sessionId (Some (op_id o1)) now of
             None \<Rightarrow> answer 404 ''session_not_found'' []
           | Some s \<Rightarrow> (200, session_view s)))"

definition TerminateBody :: "zod_env \<Rightarrow> json \<Rightarrow> string option" where
  "TerminateBody z body0 =
     (let body = body_or_empty body0 in
      case body of JObj kvs \<Rightarrow> do {
        requestUuid \<leftarrow> opt_str (zd_uuid z) (get_prop body ''requestUuid'');
        def_str (\<lambda>s. length s \<le> 64) ''operator_request'' (get_prop body ''reason'') }
      | _ \<Rightarrow> None)"

definition terminate_route ::
    "route_env \<Rightarrow> msec \<Rightarrow> inbound_request \<Rightarrow> string option \<Rightarrow> uuid \<Rightarrow> json \<Rightarrow> rgs_world \<Rightarrow> http_answer \<times> rgs_world" where
  "terminate_route env now inb ip sessionId body w =
     (case operator_gates env now inb ip w of
        Inl ans \<Rightarrow> (ans, w)
      | Inr o1 \<Rightarrow>
          (case TerminateBody (rv_zod env) body of
             None \<Rightarrow> (answer 400 ''invalid_body'' [], w)
           | Some reason \<Rightarrow>
               (let (ok, d, events) = terminate (sw_db w) sessionId reason (Some (op_id o1)) now;
                    w1 = w\<lparr>sw_db := d, sw_events := sw_events w @ events\<rparr>
                in if \<not> ok then (answer 404 ''session_not_found'' [], w1)
                   else ((200, JObj [(''ok'', JBool True)]), w1))))"

definition RotateSeedBody :: "zod_env \<Rightarrow> json \<Rightarrow> string option option" where
  "RotateSeedBody z body0 =
     (let body = body_or_empty body0 in
      case body of JObj kvs \<Rightarrow> do {
        requestUuid \<leftarrow> opt_str (zd_uuid z) (get_prop body ''requestUuid'');
        opt_str (sized 128) (get_prop body ''clientSeed'') }
      | _ \<Rightarrow> None)"

definition rotate_route ::
    "route_env \<Rightarrow> msec \<Rightarrow> string \<Rightarrow> inbound_request \<Rightarrow> string option \<Rightarrow> uuid \<Rightarrow> json \<Rightarrow> rgs_world \<Rightarrow> http_answer \<times> rgs_world" where
  "rotate_route env now random inb ip sessionId body w =
     (case operator_gates env now inb ip w of
        Inl ans \<Rightarrow> (ans, w)
      | Inr o1 \<Rightarrow>
          (case RotateSeedBody (rv_zod env) body of
             None \<Rightarrow> (answer 400 ''invalid_body'' [], w)
           | Some clientSeed \<Rightarrow>
               (case getActive (sw_db w) sessionId (Some (op_id o1)) now of
                  None \<Rightarrow> (answer 404 ''session_not_found'' [], w)
                | Some s \<Rightarrow>
                    if se_terminatedAt s \<noteq> None then (answer 409 ''session_terminated'' [], w)
                    else (case rotateSeed (sv_sha256 (rv_session env)) (sw_db w) sessionId clientSeed random of
                            (None, d) \<Rightarrow> (answer 404 ''session_not_found'' [], w)
                          | (Some (revealed, newHash), d) \<Rightarrow>
                              ((200, JObj [(''sessionId'', JStr sessionId), (''revealedServerSeed'', JStr revealed),
                                 (''newServerSeedHash'', JStr newHash)]), w\<lparr>sw_db := d\<rparr>)))))"


section \<open>Facts\<close>

text \<open>What the handler asks of a request, apart from the shape of its body.\<close>

definition admits :: "kill_snapshot \<Rightarrow> game_config_row list \<Rightarrow> operator_row \<Rightarrow> create_body \<Rightarrow> bool" where
  "admits gk configs o1 b \<longleftrightarrow>
     \<not> kp_engaged gk \<and> op_status o1 = OpActive \<and>
     (\<forall>gc. find_config configs (op_id o1) (cb_gameCode b) (cb_currency b) = Some gc \<longrightarrow> \<not> og_killSwitch gc) \<and>
     cb_currency b \<in> set (operator_currencies o1) \<and>
     (\<exists>rules. getJurisdiction (cb_jurisdiction b) = Profile rules \<and>
        (jr_allowedCurrencies rules = [] \<or> cb_currency b \<in> set (jr_allowedCurrencies rules)))"

lemma create_refusal_Admitted: "create_refusal gk configs o1 b = Admitted \<longleftrightarrow> admits gk configs o1 b"
  by (auto simp: create_refusal_def admits_def Let_def split: jurisdiction_lookup.splits if_splits)

text \<open>The handler adds one row when it admits, and otherwise touches only the cache of the kill switch.\<close>

definition new_row :: "route_env \<Rightarrow> route_io \<Rightarrow> operator_row \<Rightarrow> create_body \<Rightarrow> session_row" where
  "new_row env io o1 b = new_session (sv_sha256 (rv_session env)) (rx_sessionId io) (rx_random1 io) (rx_random2 io)
     (rx_now io) (create_input o1 b)"

definition handler_admits :: "route_env \<Rightarrow> route_io \<Rightarrow> launch_request \<Rightarrow> operator_row \<Rightarrow> rgs_world \<Rightarrow> create_body \<Rightarrow> bool" where
  "handler_admits env io rq o1 w b \<longleftrightarrow>
     CreateSessionBody (rv_zod env) (lr_body rq) = Some b \<and> cb_operatorId b = op_id o1 \<and>
     admits (fst (snapshot (rx_now io) (sw_killRow w) (sw_killCache w))) (sw_configs w) o1 b"

lemma create_handler_admits:
  assumes "handler_admits env io rq o1 w b"
  shows "\<exists>ans w'. create_handler env io rq o1 w = (Some (201, ans), w') \<and> ans \<noteq> JNull \<and>
    db_sessions (sw_db w') = db_sessions (sw_db w) @ [new_row env io o1 b]"
proof -
  obtain gk cache where g: "snapshot (rx_now io) (sw_killRow w) (sw_killCache w) = (gk, cache)" by fastforce
  have v: "create_refusal gk (sw_configs w) o1 b = Admitted"
    using assms by (simp add: handler_admits_def create_refusal_Admitted g)
  show ?thesis using assms
    by (simp add: handler_admits_def create_handler_def create_session_def new_row_def created_json_def Let_def g v)
qed

lemma create_handler_refuses:
  assumes "\<And>b. \<not> handler_admits env io rq o1 w b"
  shows "sw_db (snd (create_handler env io rq o1 w)) = sw_db w \<and>
    (\<forall>ans. fst (create_handler env io rq o1 w) = Some ans \<longrightarrow> fst ans \<noteq> 201)"
proof (cases "CreateSessionBody (rv_zod env) (lr_body rq)")
  case None
  then show ?thesis by (simp add: create_handler_def answer_def)
next
  case (Some b)
  let ?v = "create_refusal (fst (snapshot (rx_now io) (sw_killRow w) (sw_killCache w))) (sw_configs w) o1 b"
  show ?thesis
  proof (cases "cb_operatorId b = op_id o1")
    case True
    with Some assms [of b] have "?v \<noteq> Admitted" by (simp add: handler_admits_def create_refusal_Admitted)
    moreover have "fst ans \<noteq> 201" if "?v = Refused ans" for ans
      using that by (auto simp: create_refusal_def answer_def Let_def split: jurisdiction_lookup.splits if_splits)
    ultimately show ?thesis using Some True
      by (cases ?v) (auto simp: create_handler_def Let_def split: prod.splits)
  qed (simp add: Some create_handler_def answer_def)
qed

text \<open>The answer stored for a request, if it repeats one.\<close>

definition stored_answer :: "route_io \<Rightarrow> launch_request \<Rightarrow> operator_row \<Rightarrow> rgs_world \<Rightarrow> http_answer option" where
  "stored_answer io rq o1 w =
     (let rid = json_string (get_prop (lr_body rq) ''requestUuid'') in
      if truthy (Some (op_id o1)) \<and> truthy rid
      then idem_lookup (ii_readOk (rx_idem io)) (ii_lookupAt (rx_idem io)) (op_id o1, the rid, ''session.create'') (sw_answered w)
      else None)"

lemma create_route_stored:
  assumes "create_gates env (rx_now io) rq w = Inr o1" "stored_answer io rq o1 w = Some ans"
  shows "create_route env io rq w = (Some ans, w)"
  using assms by (simp add: create_route_def stored_answer_def idempotency_hit Let_def split: if_splits)

lemma create_route_fresh:
  assumes "create_gates env (rx_now io) rq w = Inr o1" "stored_answer io rq o1 w = None"
  shows "fst (create_route env io rq w) = fst (create_handler env io rq o1 w) \<and>
    sw_db (snd (create_route env io rq w)) = sw_db (snd (create_handler env io rq o1 w))"
  using assms
  by (cases "create_handler env io rq o1 w")
    (auto simp: create_route_def stored_answer_def idempotency_def Let_def split: if_splits option.splits)

lemma refusal_status:
  "operatorAuth e now d q = AuthRefused st m \<Longrightarrow> st \<noteq> 200 \<and> st \<noteq> 201"
  "ipAllowList op1 ip = Some (st, m) \<Longrightarrow> st \<noteq> 200 \<and> st \<noteq> 201"
  "geoAllowlist op1 gq = Some (st, m) \<Longrightarrow> st \<noteq> 200 \<and> st \<noteq> 201"
  "turnstileVerify fc sec sv tq = Some (st, m) \<Longrightarrow> st \<noteq> 200 \<and> st \<noteq> 201"
  by (auto simp: operatorAuth_def split: option.splits if_splits)
    (auto simp: ipAllowList_def split: option.splits if_splits,
     auto simp: geoAllowlist_def split: option.splits if_splits,
     auto simp: turnstileVerify_def split: option.splits if_splits)

lemma create_gates_shut: "create_gates env now rq w = Inl ans \<Longrightarrow> fst ans \<noteq> 201"
  by (auto simp: create_gates_def answer_def split: auth_verdict.splits option.splits if_splits dest: refusal_status)

lemma create_gates_open:
  "create_gates env now rq w = Inr o1 \<longleftrightarrow>
     (\<exists>cred. operatorAuth (rv_auth env) now (sw_operators w) (lr_inbound rq) = AuthOk o1 cred) \<and>
     ipAllowList (Some o1) (lr_ip rq) = None \<and> geoAllowlist (Some o1) (geo_of rq) = None \<and>
     rv_rateOk env (session_rate_key (Some o1) (lr_ip rq)) \<and>
     turnstileVerify False (rv_turnstileSecret env) (rv_siteverify env)
       \<lparr>tq_header = lr_turnstileHeader rq, tq_body = lr_body rq, tq_ip = lr_ip rq\<rparr> = None"
  by (auto simp: create_gates_def split: auth_verdict.splits option.splits)

text \<open>Creation, with the gates as one.\<close>

lemma create_route_creates:
  "(let before = db_sessions (sw_db w); after = db_sessions (sw_db (snd (create_route env io rq w))) in
    if \<exists>o1 b. create_gates env (rx_now io) rq w = Inr o1 \<and> stored_answer io rq o1 w = None \<and> handler_admits env io rq o1 w b
    then \<exists>o1 b. handler_admits env io rq o1 w b \<and> cb_operatorId b = op_id o1 \<and>
           op_status o1 = OpActive \<and> after = before @ [new_row env io o1 b] \<and>
           (\<exists>body. fst (create_route env io rq w) = Some (201, body))
    else after = before)"
proof (cases "create_gates env (rx_now io) rq w")
  case (Inl ans)
  then show ?thesis by (simp add: create_route_def)
next
  case (Inr o1)
  show ?thesis
  proof (cases "stored_answer io rq o1 w")
    case None
    note fresh = create_route_fresh [OF Inr None]
    show ?thesis
    proof (cases "\<exists>b. handler_admits env io rq o1 w b")
      case True
      then obtain b where b: "handler_admits env io rq o1 w b" by blast
      then have "cb_operatorId b = op_id o1" "op_status o1 = OpActive"
        by (simp_all add: handler_admits_def admits_def)
      moreover obtain ans w' where "create_handler env io rq o1 w = (Some (201, ans), w')"
        "db_sessions (sw_db w') = db_sessions (sw_db w) @ [new_row env io o1 b]"
        using create_handler_admits [OF b] by blast
      ultimately show ?thesis using fresh True b by (simp add: Let_def Inr None) blast
    next
      case False
      then show ?thesis using create_handler_refuses [of env io rq o1 w] fresh by (simp add: Let_def Inr)
    qed
  qed (simp add: create_route_stored [OF Inr] Inr)
qed

section \<open>Sequences of calls\<close>

text \<open>The calls that change sessions, in any order and with any content.\<close>

datatype session_call =
    CallCreate route_io launch_request
  | CallTerminate msec inbound_request "string option" uuid json
  | CallRotate msec string inbound_request "string option" uuid json

definition session_call_step :: "route_env \<Rightarrow> session_call \<Rightarrow> rgs_world \<Rightarrow> rgs_world" where
  "session_call_step env c w =
     (case c of
        CallCreate io rq \<Rightarrow> snd (create_route env io rq w)
      | CallTerminate now inb ip i body \<Rightarrow> snd (terminate_route env now inb ip i body w)
      | CallRotate now random inb ip i body \<Rightarrow> snd (rotate_route env now random inb ip i body w))"

definition session_calls :: "route_env \<Rightarrow> session_call list \<Rightarrow> rgs_world \<Rightarrow> rgs_world" where
  "session_calls env cs w = fold (session_call_step env) cs w"

text \<open>Each call leaves the sessions alone, adds one, ends one or rotates the seed of one.\<close>

lemma terminate_route_db:
  "sw_db (snd (terminate_route env now inb ip i body w)) = sw_db w \<or>
   (\<exists>reason opid. sw_db (snd (terminate_route env now inb ip i body w)) = fst (snd (terminate (sw_db w) i reason opid now)))"
proof (cases "operator_gates env now inb ip w")
  case (Inr o1)
  show ?thesis
  proof (cases "TerminateBody (rv_zod env) body")
    case (Some reason)
    obtain ok d ev where t: "terminate (sw_db w) i reason (Some (op_id o1)) now = (ok, d, ev)" by (metis prod_cases3)
    then have "sw_db (snd (terminate_route env now inb ip i body w)) = fst (snd (terminate (sw_db w) i reason (Some (op_id o1)) now))"
      by (simp add: terminate_route_def Inr Some Let_def)
    then show ?thesis by blast
  qed (simp add: terminate_route_def Inr)
qed (simp add: terminate_route_def)

lemma rotate_route_db:
  "sw_db (snd (rotate_route env now random inb ip i body w)) = sw_db w \<or>
   (\<exists>clientSeed. RotateSeedBody (rv_zod env) body = Some clientSeed \<and>
     sw_db (snd (rotate_route env now random inb ip i body w)) = snd (rotateSeed (sv_sha256 (rv_session env)) (sw_db w) i clientSeed random))"
  by (auto simp: rotate_route_def split: sum.splits option.splits prod.splits)

lemma session_call_cases:
  assumes "P (db_sessions (sw_db w))"
    and create: "\<And>(io :: route_io) (rq :: launch_request) o1 b. handler_admits env io rq o1 w b \<Longrightarrow>
      P (db_sessions (sw_db w) @ [new_row env io o1 b])"
    and terminate: "\<And>i reason opid now. P (db_sessions (fst (snd (terminate (sw_db w) i reason opid now))))"
    and rotate: "\<And>i body c random. RotateSeedBody (rv_zod env) body = Some c \<Longrightarrow>
      P (db_sessions (snd (rotateSeed (sv_sha256 (rv_session env)) (sw_db w) i c random)))"
  shows "P (db_sessions (sw_db (session_call_step env c w)))"
proof (cases c)
  case (CallCreate io rq)
  from create_route_creates [of w env io rq]
  have "db_sessions (sw_db (snd (create_route env io rq w))) = db_sessions (sw_db w) \<or>
    (\<exists>o1 b. handler_admits env io rq o1 w b \<and>
      db_sessions (sw_db (snd (create_route env io rq w))) = db_sessions (sw_db w) @ [new_row env io o1 b])"
    by (auto simp: Let_def split: if_splits)
  then show ?thesis
  proof
    assume "\<exists>o1 b. handler_admits env io rq o1 w b \<and>
      db_sessions (sw_db (snd (create_route env io rq w))) = db_sessions (sw_db w) @ [new_row env io o1 b]"
    then obtain o1 b where b: "handler_admits env io rq o1 w b"
      and rows: "db_sessions (sw_db (snd (create_route env io rq w))) = db_sessions (sw_db w) @ [new_row env io o1 b]" by blast
    show ?thesis using create [OF b] by (simp add: CallCreate session_call_step_def rows)
  qed (simp add: CallCreate session_call_step_def assms(1))
next
  case (CallTerminate now inb ip i body)
  from terminate_route_db [of env now inb ip i body w] show ?thesis
    using assms(1) terminate by (auto simp: CallTerminate session_call_step_def)
next
  case (CallRotate now random inb ip i body)
  from rotate_route_db [of env now random inb ip i body w] show ?thesis
    using assms(1) rotate by (auto simp: CallRotate session_call_step_def)
qed

text \<open>An ended session stays ended as it was.\<close>

definition ended :: "uuid \<Rightarrow> msec \<Rightarrow> string option \<Rightarrow> session_row list \<Rightarrow> bool" where
  "ended i t reason rows \<longleftrightarrow>
     (\<exists>s. find (\<lambda>s. se_id s = i) rows = Some s \<and> se_terminatedAt s = Some t \<and> se_terminationReason s = reason)"

lemma find_append_hit: "find p xs = Some x \<Longrightarrow> find p (xs @ ys) = Some x"
  by (induction xs) auto

lemma ended_append: "ended i t r rows \<Longrightarrow> ended i t r (rows @ rows2)"
  by (auto simp: ended_def find_append_hit)

lemma ended_terminate: "ended i t r (db_sessions d) \<Longrightarrow> ended i t r (db_sessions (fst (snd (terminate d j reason opid now))))"
  by (auto simp: ended_def terminate_def find_session_def find_update_where_key split: option.splits)

lemma ended_rotate: "ended i t r (db_sessions d) \<Longrightarrow> ended i t r (db_sessions (snd (rotateSeed sha d j c random)))"
  by (auto simp: ended_def rotateSeed_def find_session_def Let_def find_update_where_key split: option.splits)

interpretation ended: event_machine "session_call_step env" "\<lambda>c. True" "\<lambda>w. ended i t r (db_sessions (sw_db w))"
  by unfold_locales
    (rule session_call_cases [where P = "ended i t r"];
     ((assumption | rule ended_append | rule ended_terminate | rule ended_rotate); assumption?))

lemma ended_calls: "ended i t r (db_sessions (sw_db w)) \<Longrightarrow> ended i t r (db_sessions (sw_db (session_calls env cs w)))"
  unfolding session_calls_def by (rule ended.run_inv) (simp_all add: list_all_iff)

lemma terminate_route_ends:
  assumes "fst (fst (terminate_route env now inb ip i body w)) = 200"
  shows "\<exists>t reason. ended i t reason (db_sessions (sw_db (snd (terminate_route env now inb ip i body w))))"
proof -
  have no: "operator_gates env now inb ip w = Inl ans \<Longrightarrow> fst ans \<noteq> 200" for ans
    by (auto simp: operator_gates_def answer_def split: auth_verdict.splits option.splits
        dest: refusal_status)
  with assms obtain o1 reason where o1: "operator_gates env now inb ip w = Inr o1"
    and reason: "TerminateBody (rv_zod env) body = Some reason"
    by (auto simp: terminate_route_def answer_def split: sum.splits option.splits)
  obtain ok d ev where t: "terminate (sw_db w) i reason (Some (op_id o1)) now = (ok, d, ev)" by (metis prod_cases3)
  with assms have ok and d: "sw_db (snd (terminate_route env now inb ip i body w)) = d"
    by (auto simp: terminate_route_def o1 reason answer_def Let_def split: if_splits)
  from t [symmetric] \<open>ok\<close> show ?thesis unfolding d
    by (auto simp: ended_def terminate_def find_session_def find_update_where_key split: option.splits if_splits)
qed

text \<open>What the schema of a creation promises of a row, and what the service adds.\<close>

definition session_typed :: "sha_fun \<Rightarrow> session_row \<Rightarrow> bool" where
  "session_typed sha256 s \<longleftrightarrow>
     sized 128 (se_playerRef s) \<and> sized 8 (se_currency s) \<and> sized 8 (se_lang s) \<and> sized 8 (se_jurisdiction s) \<and>
     (\<exists>rules. getJurisdiction (se_jurisdiction s) = Profile rules) \<and>
     se_createdAt s + 300000 \<le> se_expiresAt s \<and> se_expiresAt s \<le> se_createdAt s + 28800000 \<and>
     se_nonce s = 0 \<and> session_committed sha256 s \<and>
     (case se_terminationReason s of None \<Rightarrow> se_terminatedAt s = None
        | Some r \<Rightarrow> se_terminatedAt s \<noteq> None \<and> length r \<le> 64)"

lemma CreateSessionBody_typed:
  "CreateSessionBody z body = Some b \<Longrightarrow>
   sized 128 (cb_playerRef b) \<and> sized 8 (cb_currency b) \<and> sized 8 (cb_lang b) \<and> sized 8 (cb_jurisdiction b)"
  by (auto simp: CreateSessionBody_def def_str_def req_str_def sized_def bind_eq_Some_conv
      split: json.splits if_splits)

lemma new_row_typed:
  assumes "handler_admits env io rq o1 w b"
  shows "session_typed (sv_sha256 (rv_session env)) (new_row env io o1 b)"
proof -
  have "CreateSessionBody (rv_zod env) (lr_body rq) = Some b" using assms by (simp add: handler_admits_def)
  note t = CreateSessionBody_typed [OF this]
  have "\<exists>rules. getJurisdiction (cb_jurisdiction b) = Profile rules"
    using assms by (auto simp: handler_admits_def admits_def)
  moreover note ttl_bounds [of "cb_sessionTtlSeconds b"]
  moreover have "session_committed (sv_sha256 (rv_session env)) (new_row env io o1 b)"
    by (simp add: new_row_def new_session_committed)
  ultimately show ?thesis using t
    by (auto simp: session_typed_def new_row_def new_session_def create_input_def Let_def)
qed

lemma terminate_typed:
  "list_all (session_typed sha) (db_sessions d) \<Longrightarrow>
   list_all (session_typed sha) (db_sessions (fst (snd (terminate d i reason opid now))))"
  by (auto simp: terminate_def session_typed_def session_committed_def str_slice_def intro!: list_all_update_where
      split: option.splits)

lemma rotate_typed:
  "list_all (session_typed sha) (db_sessions d) \<Longrightarrow>
   list_all (session_typed sha) (db_sessions (snd (rotateSeed sha d i c random)))"
  by (auto simp: rotateSeed_def session_typed_def session_committed_def generateSeedPair_def Let_def
      intro!: list_all_update_where split: option.splits)

abbreviation typed_rows :: "route_env \<Rightarrow> session_row list \<Rightarrow> bool" where
  "typed_rows env \<equiv> list_all (session_typed (sv_sha256 (rv_session env)))"

interpretation typed: event_machine "session_call_step env" "\<lambda>c. True" "\<lambda>w. typed_rows env (db_sessions (sw_db w))"
  by unfold_locales
    (rule session_call_cases [where P = "typed_rows env" for env]; simp add: new_row_typed terminate_typed rotate_typed)

lemma session_calls_typed:
  "typed_rows env (db_sessions (sw_db w)) \<Longrightarrow> typed_rows env (db_sessions (sw_db (session_calls env cs w)))"
  unfolding session_calls_def by (rule typed.run_inv) (simp_all add: list_all_iff)

text \<open>Calls that ask for another request leave its stored answer alone.\<close>

definition asks :: "string \<Rightarrow> session_call \<Rightarrow> bool" where
  "asks rid c \<longleftrightarrow> (case c of CallCreate io rq \<Rightarrow> json_string (get_prop (lr_body rq) ''requestUuid'') = Some rid | _ \<Rightarrow> False)"

lemma idem_store_other: "key \<noteq> key2 \<Longrightarrow> idem_lookup ok t key (idem_store ok2 t2 key2 ans rows) = idem_lookup ok t key rows"
proof -
  assume ne: "key \<noteq> key2"
  obtain st body where ans: "ans = (st, body)" by fastforce
  define e where "e = t2 + IDEMPOTENCY_TTL_HOURS * 3600 * 1000"
  let ?f = "\<lambda>r. r\<lparr>iy_httpStatus := st, iy_responseBody := body, iy_expiresAt := e\<rparr>"
  have "iy_key (?f r) = iy_key r" for r by (simp add: iy_key_def)
  from find_update_where_key [of iy_key ?f, OF this] have "find (\<lambda>r. iy_key r = key) (update_where (\<lambda>r. iy_key r = key2) ?f rows)
    = find (\<lambda>r. iy_key r = key) rows" using ne by simp
  moreover have "find (\<lambda>r. iy_key r = key) (rows @ [x]) = find (\<lambda>r. iy_key r = key) rows" if "iy_key x \<noteq> key" for x
    using that by (simp add: find_append_row split: option.splits)
  moreover have "iy_key \<lparr>iy_operatorId = fst key2, iy_requestUuid = fst (snd key2), iy_endpoint = snd (snd key2),
      iy_httpStatus = st, iy_responseBody = body, iy_expiresAt = e\<rparr> \<noteq> key" using ne by (simp add: iy_key_def)
  ultimately show ?thesis unfolding idem_lookup_def idem_store_def ans Let_def prod.case e_def [symmetric] by simp
qed

text \<open>The answers stored after a call.\<close>

lemma create_route_answered:
  "sw_answered (snd (create_route env io rq w)) = sw_answered w \<or>
   (\<exists>opid rid a. json_string (get_prop (lr_body rq) ''requestUuid'') = Some rid \<and>
     sw_answered (snd (create_route env io rq w)) =
       idem_store (ii_writeOk (rx_idem io)) (ii_finishAt (rx_idem io)) (opid, rid, ''session.create'') a (sw_answered w))"
proof (cases "create_gates env (rx_now io) rq w")
  case (Inr o1)
  obtain ans w1 where h: "create_handler env io rq o1 w = (ans, w1)" by fastforce
  show ?thesis
    by (cases "json_string (get_prop (lr_body rq) ''requestUuid'')"; cases ans)
      (auto simp: create_route_def Inr idempotency_def h truthy_def Let_def split: option.splits)
qed (simp add: create_route_def)

lemma create_handler_operators [simp]: "sw_operators (snd (create_handler env io rq o1 w)) = sw_operators w"
  by (auto simp: create_handler_def Let_def split: option.splits create_verdict.splits prod.splits)

lemma create_route_operators [simp]: "sw_operators (snd (create_route env io rq w)) = sw_operators w"
proof (cases "create_gates env (rx_now io) rq w")
  case (Inr o1)
  obtain ans w1 where h: "create_handler env io rq o1 w = (ans, w1)" by fastforce
  with create_handler_operators [of env io rq o1 w] have "sw_operators w1 = sw_operators w" by simp
  then show ?thesis by (auto simp: create_route_def Inr idempotency_def h Let_def split: option.splits)
qed (simp add: create_route_def)

lemma sessions_operators [simp]:
  "sw_operators (snd (terminate_route env now inb ip i body w)) = sw_operators w"
  "sw_operators (snd (rotate_route env now random inb ip i body w)) = sw_operators w"
  by (auto simp: terminate_route_def rotate_route_def Let_def split: sum.splits option.splits prod.splits)

lemma sessions_answered [simp]:
  "sw_answered (snd (terminate_route env now inb ip i body w)) = sw_answered w"
  "sw_answered (snd (rotate_route env now random inb ip i body w)) = sw_answered w"
  by (auto simp: terminate_route_def rotate_route_def Let_def split: sum.splits option.splits prod.splits)

lemma session_call_answered:
  assumes "\<not> asks rid c"
  shows "idem_lookup ok t (opid, rid, ''session.create'') (sw_answered (session_call_step env c w)) =
    idem_lookup ok t (opid, rid, ''session.create'') (sw_answered w)"
proof (cases c)
  case (CallCreate io rq)
  with assms have "json_string (get_prop (lr_body rq) ''requestUuid'') \<noteq> Some rid" by (simp add: asks_def)
  then show ?thesis using create_route_answered [of env io rq w]
    by (auto simp: CallCreate session_call_step_def idem_store_other)
qed (simp_all add: session_call_step_def)

interpretation answers: event_machine "session_call_step env" "\<lambda>c. \<not> asks rid c"
    "\<lambda>w. idem_lookup ok t (opid, rid, ''session.create'') (sw_answered w) = stored"
  by unfold_locales (simp add: session_call_answered)

lemma session_calls_answered:
  "\<forall>c \<in> set cs. \<not> asks rid c \<Longrightarrow>
   idem_lookup ok t (opid, rid, ''session.create'') (sw_answered (session_calls env cs w)) =
   idem_lookup ok t (opid, rid, ''session.create'') (sw_answered w)"
  unfolding session_calls_def by (rule answers.run_inv) (simp_all add: list_all_iff)

interpretation operators: event_machine "session_call_step env" "\<lambda>c. True" "\<lambda>w. sw_operators w = ops"
  by unfold_locales (simp add: session_call_step_def split: session_call.splits)

lemma session_calls_operators: "sw_operators (session_calls env cs w) = sw_operators w"
  unfolding session_calls_def by (rule operators.run_inv) (simp_all add: list_all_iff)

lemma body_request_id:
  "CreateSessionBody z body = Some b \<Longrightarrow> json_string (get_prop body ''requestUuid'') = Some (cb_requestUuid b)"
  by (auto simp: CreateSessionBody_def req_str_def json_string_def bind_eq_Some_conv split: json.splits if_splits)

lemma create_route_stores:
  assumes "create_gates env (rx_now io) rq w = Inr o1" "stored_answer io rq o1 w = None" "handler_admits env io rq o1 w b"
    and "op_id o1 \<noteq> []" "cb_requestUuid b \<noteq> []"
  shows "\<exists>body. body \<noteq> JNull \<and> fst (create_route env io rq w) = Some (201, body) \<and>
    (\<exists>rows. sw_answered (snd (create_route env io rq w)) =
      idem_store (ii_writeOk (rx_idem io)) (ii_finishAt (rx_idem io)) (op_id o1, cb_requestUuid b, ''session.create'') (201, body) rows)"
proof -
  have id: "json_string (get_prop (lr_body rq) ''requestUuid'') = Some (cb_requestUuid b)"
    by (rule body_request_id [of "rv_zod env"]) (use assms(3) in \<open>simp add: handler_admits_def\<close>)
  obtain body w1 where h: "create_handler env io rq o1 w = (Some (201, body), w1)" "body \<noteq> JNull"
    using create_handler_admits [OF assms(3)] by blast
  have "idem_lookup (ii_readOk (rx_idem io)) (ii_lookupAt (rx_idem io)) (op_id o1, cb_requestUuid b, ''session.create'')
      (sw_answered w) = None"
    using assms(2,4,5) by (simp add: stored_answer_def id truthy_def)
  then show ?thesis using h assms(4,5)
    by (simp add: create_route_def assms(1) idempotency_def truthy_def id Let_def) blast
qed

section \<open>An operator, a world and a launch\<close>

definition sample_route_env :: route_env where
  "sample_route_env = \<lparr>rv_auth = sample_auth, rv_zod = \<lparr>zd_uuid = (\<lambda>s. s \<noteq> []), zd_url = (\<lambda>_. True)\<rparr>,
     rv_session = sample_session_env, rv_rateOk = (\<lambda>_. True), rv_turnstileSecret = [], rv_siteverify = (\<lambda>_. None)\<rparr>"

definition sample_world :: rgs_world where
  "sample_world = \<lparr>sw_db = \<lparr>db_sessions = [], db_rounds = [], db_bets = [], db_held = [], db_jobs = []\<rparr>,
     sw_operators = sample_operator_db, sw_configs = [], sw_killRow = None, sw_killCache = None, sw_answered = [],
     sw_events = []\<rparr>"

definition sample_launch :: "msec \<Rightarrow> string \<Rightarrow> launch_request" where
  "sample_launch now jurisdiction = \<lparr>lr_inbound = signed_sample ''kid_demo_aa'' now, lr_ip = None,
     lr_body = JObj [(''requestUuid'', JStr ''r1''), (''operatorId'', JStr ''op''), (''playerRef'', JStr ''p''),
       (''currency'', JStr ''EUR''), (''jurisdiction'', JStr jurisdiction)],
     lr_cf_ipcountry = None, lr_x_vercel_ip_country = None, lr_x_forwarded_country = None, lr_turnstileHeader = None\<rparr>"

definition sample_io :: "msec \<Rightarrow> route_io" where
  "sample_io t = \<lparr>rx_now = t, rx_idem = idem_at t, rx_sessionId = ''s1'', rx_random1 = ''aa'', rx_random2 = ''bb''\<rparr>"

definition sample_body :: "string \<Rightarrow> create_body" where
  "sample_body jurisdiction = \<lparr>cb_requestUuid = ''r1'', cb_operatorId = ''op'', cb_playerRef = ''p'', cb_gameCode = ''yantra'',
     cb_currency = ''EUR'', cb_lang = ''en'', cb_jurisdiction = jurisdiction, cb_country = None, cb_mode = None,
     cb_returnUrl = None, cb_clientSeed = None, cb_sessionTtlSeconds = None, cb_rgLimits = None, cb_cfTurnstileToken = None\<rparr>"

lemma sample_operator_gates:
  "operatorAuth sample_auth now sample_operator_db (signed_sample ''kid_demo_aa'' now) = AuthOk sample_operator_row sample_credential"
proof -
  have law: "gcm_lawful (ae_secrets sample_auth)" by (simp add: gcm_lawful_def sample_auth_def TAG_LEN_def)
  have kid: "ir_kid (signed_sample ''kid_demo_aa'' now) = Some ''kid_demo_aa''" by (simp add: signed_sample_def)
  show ?thesis
    by (rule operatorAuth_known(1) [where k = "''kid_demo_aa''" and secret = "''old''"])
      (use secret_roundtrip [OF law] kid in \<open>simp_all add: sample_signed find_kid_def find_operator_def
        sample_operator_db_def sample_operator_row_def sample_credential_def IV_LEN_def\<close>)
qed

lemma sample_gates:
  assumes "sw_operators w = sample_operator_db"
  shows "create_gates sample_route_env now (sample_launch now j) w = Inr sample_operator_row"
  unfolding create_gates_open assms
  by (simp add: sample_route_env_def sample_launch_def sample_operator_gates turnstileVerify_def)
    (simp add: sample_operator_row_def ipAllowList_def geoAllowlist_def)

lemma sample_launch_parses: "1 \<le> length j \<Longrightarrow> length j \<le> 8 \<Longrightarrow>
  CreateSessionBody (rv_zod sample_route_env) (lr_body (sample_launch now j)) = Some (sample_body j)"
  by (simp add: CreateSessionBody_def sample_route_env_def sample_launch_def sample_body_def req_str_def def_str_def opt_str_def
      opt_ttl_def opt_obj_def get_prop_def sized_def)

lemma sample_fresh: "stored_answer (sample_io t) (sample_launch now j) sample_operator_row sample_world = None"
  by (simp add: stored_answer_def sample_world_def idem_lookup_def sample_io_def Let_def)

lemma sample_admits: "handler_admits sample_route_env (sample_io t) (sample_launch now ''INTL'') sample_operator_row sample_world (sample_body ''INTL'')"
proof -
  have "getJurisdiction ''INTL'' = Profile INTL" by (simp add: getJurisdiction_def JURISDICTIONS_def)
  moreover have "jr_allowedCurrencies INTL = []" by (simp add: INTL_def)
  ultimately show ?thesis
    by (simp add: handler_admits_def sample_launch_parses admits_def snapshot_def kill_value_def sample_world_def sample_body_def
        find_config_def operator_currencies_def sample_operator_row_def Let_def)
qed

text \<open>The world with one session, and its token.\<close>

definition sample_world1 :: rgs_world where
  "sample_world1 = sample_world\<lparr>sw_db := \<lparr>db_sessions = [new_row sample_route_env (sample_io 7) sample_operator_row (sample_body ''INTL'')],
     db_rounds = [], db_bets = [], db_held = [], db_jobs = []\<rparr>\<rparr>"

definition sample_claims :: session_claims where
  "sample_claims = \<lparr>sc_sub = ''s1'', sc_sessionId = ''s1'', sc_operatorId = ''op'', sc_playerRef = ''p'', sc_gameCode = ''yantra'',
     sc_currency = ''EUR'', sc_jurisdiction = ''INTL'', sc_lang = ''en'', sc_mode = Real, sc_rgLimits = None\<rparr>"

definition sample_verify :: "string \<Rightarrow> session_claims option" where
  "sample_verify t = (if t = ''tok'' then Some sample_claims else None)"

lemma sample_terminates:
  "\<exists>ans w1. terminate_route sample_route_env 9 (signed_sample ''kid_demo_aa'' 9) None ''s1'' JUndefined sample_world1 = ((200, ans), w1)"
proof -
  have gate: "operator_gates sample_route_env 9 (signed_sample ''kid_demo_aa'' 9) None sample_world1 = Inr sample_operator_row"
    by (simp add: operator_gates_def sample_route_env_def sample_world1_def sample_world_def sample_operator_gates)
      (simp add: ipAllowList_def sample_operator_row_def)
  have reason: "TerminateBody (rv_zod sample_route_env) JUndefined = Some ''operator_request''"
    by (simp add: TerminateBody_def body_or_empty_def opt_str_def def_str_def get_prop_def)
  define row where "row = new_row sample_route_env (sample_io 7) sample_operator_row (sample_body ''INTL'')"
  have row: "se_id row = ''s1''" "se_operatorId row = ''op''" "se_terminatedAt row = None"
    by (simp_all add: row_def new_row_def new_session_def sample_io_def create_input_def sample_operator_row_def Let_def)
  have "find_session (sw_db sample_world1) ''s1'' = Some row"
    by (simp add: find_session_def sample_world1_def row_def [symmetric] row(1))
  then obtain d ev where "terminate (sw_db sample_world1) ''s1'' ''operator_request'' (Some (op_id sample_operator_row)) 9 = (True, d, ev)"
    by (auto simp: terminate_def row scoped_def sample_operator_row_def)
  then show ?thesis by (simp add: terminate_route_def gate reason)
qed

section \<open>Properties\<close>





text \<open>C18. Ending a session is final: once the operator's call to end it has been answered with
  success, then after any further calls every token of that session is refused.\<close>

theorem ended_session_refused:
  assumes "terminate_route env now inb ip i body w = ((200, ans), w1)"
    and "extractToken header query = Some token" "token \<noteq> []" "verify token = Some claims" "sc_sessionId claims = i"
  shows "sessionAuth verify later (sw_db (session_calls env cs w1)) header query = Inl (401, ''session_terminated'')"
proof -
  have "\<exists>t reason. ended i t reason (db_sessions (sw_db w1))"
    using terminate_route_ends [of env now inb ip i body w] assms(1) by simp
  then obtain t reason where "ended i t reason (db_sessions (sw_db (session_calls env cs w1)))"
    using ended_calls by blast
  then show ?thesis using assms(2-5) by (auto simp: sessionAuth_def ended_def find_session_def truthy_def Let_def)
qed

theorem ended_session_refused_witness:
  "\<exists>ans w1. terminate_route sample_route_env 9 (signed_sample ''kid_demo_aa'' 9) None ''s1'' JUndefined sample_world1 = ((200, ans), w1) \<and>
     sessionAuth sample_verify 10 (sw_db (session_calls sample_route_env [CallCreate (sample_io 9) (sample_launch 9 ''INTL'')] w1))
       (Some ''Bearer tok'') None = Inl (401, ''session_terminated'')"
proof -
  have ops: "sw_operators sample_world1 = sample_operator_db"
    by (simp add: sample_world1_def sample_world_def)
  obtain ans w1 where t: "terminate_route sample_route_env 9 (signed_sample ''kid_demo_aa'' 9) None ''s1'' JUndefined sample_world1 = ((200, ans), w1)"
    using sample_terminates by blast
  have tok: "extractToken (Some ''Bearer tok'') None = Some ''tok''"
    by (simp add: extractToken_def bearer_def to_lower_def js_trim_def js_space_def char_of_def bit_0)
  have "sessionAuth sample_verify 10 (sw_db (session_calls sample_route_env [CallCreate (sample_io 9) (sample_launch 9 ''INTL'')] w1))
       (Some ''Bearer tok'') None = Inl (401, ''session_terminated'')"
    by (rule ended_session_refused [OF t tok, where claims = sample_claims]) (simp_all add: sample_verify_def sample_claims_def)
  with t show ?thesis by blast
qed

text \<open>A launch for the jurisdiction \<open>toString\<close> (or \<open>valueOf\<close>) passes the schema, and then makes the
  handler throw: no answer is ever sent, whatever the operator and its lists.\<close>

theorem inherited_jurisdiction_unanswered:
  assumes "create_gates env (rx_now io) rq w = Inr o1" "stored_answer io rq o1 w = None"
    and "CreateSessionBody (rv_zod env) (lr_body rq) = Some b" "cb_operatorId b = op_id o1"
    and "cb_jurisdiction b = ''toString''"
    and "\<not> kp_engaged (fst (snapshot (rx_now io) (sw_killRow w) (sw_killCache w)))" "op_status o1 = OpActive"
    and "find_config (sw_configs w) (op_id o1) (cb_gameCode b) (cb_currency b) = None"
    and "cb_currency b \<in> set (operator_currencies o1)"
  shows "fst (create_route env io rq w) = None"
proof -
  have j: "getJurisdiction ''toString'' = InheritedMember"
    by (simp add: getJurisdiction_def JURISDICTIONS_def object_prototype_names_def)
  obtain gk cache where g: "snapshot (rx_now io) (sw_killRow w) (sw_killCache w) = (gk, cache)" by fastforce
  have "create_refusal gk (sw_configs w) o1 b = Throws"
    using assms(5-9) g by (simp add: create_refusal_def j Let_def)
  then have "fst (create_handler env io rq o1 w) = None"
    using assms(3,4) by (simp add: create_handler_def g Let_def)
  then show ?thesis using create_route_fresh [OF assms(1,2)] by simp
qed

theorem inherited_jurisdiction_unanswered_witness:
  "fst (create_route sample_route_env (sample_io 7) (sample_launch 7 ''toString'') sample_world) = None"
proof (rule inherited_jurisdiction_unanswered [where ?o1.0 = sample_operator_row and b = "sample_body ''toString''"])
  show "create_gates sample_route_env (rx_now (sample_io 7)) (sample_launch 7 ''toString'') sample_world = Inr sample_operator_row"
    using sample_gates [of sample_world 7 "''toString''"] by (simp add: sample_io_def sample_world_def)
  show "stored_answer (sample_io 7) (sample_launch 7 ''toString'') sample_operator_row sample_world = None"
    by (rule sample_fresh)
  show "CreateSessionBody (rv_zod sample_route_env) (lr_body (sample_launch 7 ''toString'')) = Some (sample_body ''toString'')"
    by (rule sample_launch_parses) simp_all
qed (simp_all add: sample_body_def sample_operator_row_def sample_world_def snapshot_def kill_value_def find_config_def
    operator_currencies_def Let_def)

end
