(* ===== verification/OperatorSdk.thy ===== *)
theory OperatorSdk
  imports SessionRoutes
begin

text \<open>
  The kit an operator integrates with (\<^verbatim>\<open>packages/operator-sdk/src/\<close>): the signed request for a
  session and the reading of its answer (\<^verbatim>\<open>createSession.ts\<close>), the check and the shape of wallet
  callbacks (\<^verbatim>\<open>verifyWebhook.ts\<close>) and the renaming of keys (\<^verbatim>\<open>keyCase.ts\<close>). \<open>JSON.stringify\<close>
  and the path of a URL are parameters; the messages of errors are left out.
\<close>

section \<open>Creating a session\<close>

record sdk_env =
  sk_sha256 :: sha_fun
  sk_hmac :: hmac_fun
  sk_stringify :: "json \<Rightarrow> string"
  sk_pathname :: "string \<Rightarrow> string"

record sdk_params =
  sp_endpoint :: string
  sp_apiKeyId :: string
  sp_apiSecret :: string
  sp_payload :: "(string \<times> json) list"
  sp_requestUuid :: "uuid option"

record sdk_call =
  sl_url :: string
  sl_kid :: string
  sl_timestamp :: string
  sl_signature :: string
  sl_value :: json
  sl_body :: string

text \<open>The request; \<open>random\<close> is used when the caller gives no id.\<close>

definition sdk_call_of :: "sdk_env \<Rightarrow> sdk_params \<Rightarrow> int \<Rightarrow> uuid \<Rightarrow> sdk_call" where
  "sdk_call_of env p nowSeconds random =
     (let requestUuid = nullish (sp_requestUuid p) random;
          value = JObj (obj_put (sp_payload p) ''requestUuid'' (JStr requestUuid));
          body = sk_stringify env value
      in \<lparr>sl_url = sp_endpoint p, sl_kid = sp_apiKeyId p, sl_timestamp = show_int nowSeconds,
          sl_signature = signPayload (sk_sha256 env) (sk_hmac env) (sp_apiSecret p) ''POST''
            (sk_pathname env (sp_endpoint p)) (TsNumber nowSeconds) body,
          sl_value = value, sl_body = body\<rparr>)"

datatype sdk_result = SdkAborted | SdkUnreachable | SdkAnswered int "json option"

record sdk_error =
  ke_code :: string
  ke_retryable :: bool
  ke_httpStatus :: "int option"
  ke_responseBody :: "json option"

definition sdk_error :: "string \<Rightarrow> bool \<Rightarrow> int option \<Rightarrow> json option \<Rightarrow> sdk_error" where
  "sdk_error code retryable st body =
     \<lparr>ke_code = code, ke_retryable = retryable, ke_httpStatus = st, ke_responseBody = body\<rparr>"

definition isValidSessionResponse :: "json \<Rightarrow> bool" where
  "isValidSessionResponse v \<longleftrightarrow>
     (\<forall>k \<in> set [''sessionId'', ''sessionToken'', ''launchUrl'', ''expiresAt'', ''serverSeedHash''].
        json_string (get_prop v k) \<noteq> None)"

definition sdk_createSession :: "uuid \<Rightarrow> sdk_result \<Rightarrow> sdk_error + json" where
  "sdk_createSession requestUuid r =
     (case r of
        SdkAborted \<Rightarrow> Inl (sdk_error ''TIMEOUT'' True None None)
      | SdkUnreachable \<Rightarrow> Inl (sdk_error ''NETWORK_ERROR'' True None None)
      | SdkAnswered st None \<Rightarrow> Inl (sdk_error ''INVALID_RESPONSE'' False (Some st) None)
      | SdkAnswered st (Some parsed) \<Rightarrow>
          if 500 \<le> st then Inl (sdk_error ''RGS_SERVER_ERROR'' True (Some st) (Some parsed))
          else if 400 \<le> st then Inl (sdk_error ''RGS_REJECTED'' False (Some st) (Some parsed))
          else if \<not> isValidSessionResponse parsed
          then Inl (sdk_error ''INVALID_RESPONSE'' False (Some st) (Some parsed))
          else (case parsed of JObj kvs \<Rightarrow> Inr (JObj (obj_put kvs ''requestUuid'' (JStr requestUuid)))
                | _ \<Rightarrow> Inr parsed))"

section \<open>Wallet callbacks\<close>

definition ts_falsy :: "timestamp \<Rightarrow> bool" where
  "ts_falsy t = (case t of TsNumber i \<Rightarrow> i = 0 | TsString s \<Rightarrow> s = [])"

record callback_params =
  cp_method :: string
  cp_path :: string
  cp_body :: string
  cp_secret :: string
  cp_timestamp :: timestamp
  cp_signature :: string
  cp_toleranceSeconds :: "int option"
  cp_nowSeconds :: int

text \<open>\<open>None\<close> is the exception for a missing header.\<close>

definition verifyWebhookSignature :: "sha_fun \<Rightarrow> hmac_fun \<Rightarrow> callback_params \<Rightarrow> bool option" where
  "verifyWebhookSignature sha256 hmac p =
     (if ts_falsy (cp_timestamp p) \<or> cp_signature p = [] then None
      else Some (verifyPayload sha256 hmac \<lparr>vo_secret = cp_secret p, vo_method = cp_method p, vo_path = cp_path p,
        vo_timestamp = cp_timestamp p, vo_body = cp_body p, vo_signature = cp_signature p,
        vo_toleranceSeconds = Some (nullish (cp_toleranceSeconds p) 30), vo_nowSeconds = cp_nowSeconds p\<rparr>))"

datatype callback_error = InvalidBody | UnknownEndpoint

definition strings_in :: "string list \<Rightarrow> json \<Rightarrow> bool" where
  "strings_in ks b \<longleftrightarrow> list_all (\<lambda>k. json_string (get_prop b k) \<noteq> None) ks"

definition callback_fields :: "string \<Rightarrow> string list option" where
  "callback_fields endpoint =
     (if endpoint = ''balance'' then Some []
      else if endpoint = ''bet'' then Some [''transactionUuid'', ''amountMicro'', ''roundId'']
      else if endpoint = ''win'' then Some [''transactionUuid'', ''referenceTransactionUuid'', ''amountMicro'', ''roundId'']
      else if endpoint = ''rollback'' then Some [''transactionUuid'', ''referenceTransactionUuid'']
      else None)"

definition parseWalletCallback :: "string \<Rightarrow> json \<Rightarrow> callback_error + (string \<times> json)" where
  "parseWalletCallback endpoint body =
     (if \<not> (case body of JObj _ \<Rightarrow> True | JArr _ \<Rightarrow> True | _ \<Rightarrow> False) then Inl InvalidBody
      else if \<not> strings_in [''requestUuid'', ''operatorId'', ''playerRef'', ''currency'', ''gameCode''] body then Inl InvalidBody
      else (case callback_fields endpoint of
              None \<Rightarrow> Inl UnknownEndpoint
            | Some ks \<Rightarrow> if strings_in ks body then Inr (endpoint, body) else Inl InvalidBody))"

section \<open>Names of keys\<close>

definition upper :: "char \<Rightarrow> bool" where "upper c \<longleftrightarrow> 65 \<le> (of_char c :: nat) \<and> (of_char c :: nat) \<le> 90"
definition lower :: "char \<Rightarrow> bool" where "lower c \<longleftrightarrow> 97 \<le> (of_char c :: nat) \<and> (of_char c :: nat) \<le> 122"

definition toSnake :: "string \<Rightarrow> string" where
  "toSnake key = concat (map (\<lambda>c. if upper c then [CHR ''_'', to_lower c] else [c]) key)"

fun toCamel :: "string \<Rightarrow> string" where
  "toCamel [] = []"
| "toCamel [c] = [c]"
| "toCamel (c # d # cs) = (if c = CHR ''_'' \<and> lower d then to_upper d # toCamel cs else c # toCamel (d # cs))"

text \<open>
  Every object made by \<open>{..}\<close> or by \<open>JSON.parse\<close> is renamed, unless it has a member
  \<open>constructor\<close> of its own; a member \<open>__proto__\<close> of the result is not a member.
\<close>

fun transformKeys :: "(string \<Rightarrow> string) \<Rightarrow> json \<Rightarrow> json" where
  "transformKeys convert (JArr vs) = JArr (map (\<lambda>v. transformKeys convert v) vs)"
| "transformKeys convert (JObj kvs) =
     (if ''constructor'' \<in> fst ` set kvs then JObj kvs
      else JObj (fold (\<lambda>(k, v) out. if convert k = ''__proto__'' then out else obj_put out (convert k) v)
        (map (\<lambda>(k, v). (k, transformKeys convert v)) kvs) []))"
| "transformKeys convert v = v"

definition toSnakeCase :: "json \<Rightarrow> json" where "toSnakeCase = transformKeys toSnake"
definition fromSnakeCase :: "json \<Rightarrow> json" where "fromSnakeCase = transformKeys toCamel"

text \<open>The middleware around a handler: a body that is an object is renamed, and so is the answer.\<close>

definition snakeToCamelMiddleware :: "(json \<Rightarrow> json) \<Rightarrow> json \<Rightarrow> json" where
  "snakeToCamelMiddleware handler body =
     toSnakeCase (handler (case body of JObj _ \<Rightarrow> fromSnakeCase body | JArr _ \<Rightarrow> fromSnakeCase body | _ \<Rightarrow> body))"

section \<open>Facts\<close>

lemma of_char_char_of: "n < 256 \<Longrightarrow> (of_char (char_of (n :: nat) :: char) :: nat) = n"
  by simp

lemma lower_upper: "upper c \<Longrightarrow> lower (to_lower c) \<and> to_upper (to_lower c) = c \<and> to_lower c \<noteq> CHR ''_''"
proof -
  assume u: "upper c"
  define n where "n = (of_char c :: nat)"
  have n: "65 \<le> n" "n \<le> 90" and c: "c = char_of n" using u by (simp_all add: upper_def n_def)
  have l: "to_lower c = char_of (n + 32)" using n by (simp add: to_lower_def n_def)
  have o': "(of_char (char_of (n + 32) :: char) :: nat) = n + 32" using n by simp
  have "char_of (n + 32) \<noteq> CHR ''_''"
  proof
    assume "char_of (n + 32) = CHR ''_''"
    then have "n + 32 = (of_char (CHR ''_'') :: nat)" using o' by simp
    then show False using n by simp
  qed
  then show ?thesis unfolding l using n o' by (simp add: lower_def to_upper_def c)
qed

lemma toCamel_skip: "c \<noteq> CHR ''_'' \<Longrightarrow> toCamel (c # cs) = c # toCamel cs"
  by (cases cs) simp_all

lemma camel_snake: "CHR ''_'' \<notin> set k \<Longrightarrow> toCamel (toSnake k) = k"
proof (induction k)
  case (Cons c k)
  then have r: "toCamel (toSnake k) = k" and c: "c \<noteq> CHR ''_''" by auto
  show ?case
  proof (cases "upper c")
    case True
    then show ?thesis using lower_upper [OF True] r by (simp add: toSnake_def)
  next
    case False
    then show ?thesis using r c by (simp add: toSnake_def toCamel_skip)
  qed
qed (simp add: toSnake_def)

text \<open>Values whose objects have distinct keys without underscores.\<close>

fun camel_keys :: "json \<Rightarrow> bool" where
  "camel_keys (JArr vs) = list_all (\<lambda>v. camel_keys v) vs"
| "camel_keys (JObj kvs) = (distinct (map fst kvs) \<and> list_all (\<lambda>(k, v). CHR ''_'' \<notin> set k \<and> camel_keys v) kvs)"
| "camel_keys v = True"

lemma obj_put_new: "k \<notin> fst ` set o1 \<Longrightarrow> obj_put o1 k v = o1 @ [(k, v)]"
  by (induction o1) auto

lemma fold_rename:
  assumes "distinct (map (\<lambda>kv. f (fst kv)) kvs)" "\<forall>kv \<in> set kvs. f (fst kv) \<noteq> ''__proto__''"
    and "fst ` set acc \<inter> (\<lambda>kv. f (fst kv)) ` set kvs = {}"
  shows "fold (\<lambda>(k, v) out. if f k = ''__proto__'' then out else obj_put out (f k) v) kvs acc =
    acc @ map (\<lambda>(k, v). (f k, v)) kvs"
  using assms
proof (induction kvs arbitrary: acc)
  case (Cons kv kvs)
  obtain k v where kv: "kv = (k, v)" by fastforce
  with Cons.prems have new: "obj_put acc (f k) v = acc @ [(f k, v)]" by (intro obj_put_new) auto
  have "fold (\<lambda>(k, v) out. if f k = ''__proto__'' then out else obj_put out (f k) v) kvs (acc @ [(f k, v)]) =
      (acc @ [(f k, v)]) @ map (\<lambda>(k, v). (f k, v)) kvs"
    by (rule Cons.IH) (use Cons.prems kv in auto)
  then show ?case using Cons.prems by (simp add: kv new)
qed simp

lemma transform_object:
  assumes "''constructor'' \<notin> fst ` set kvs" "distinct (map (\<lambda>kv. f (fst kv)) kvs)" "\<forall>kv \<in> set kvs. f (fst kv) \<noteq> ''__proto__''"
  shows "transformKeys f (JObj kvs) = JObj (map (\<lambda>(k, v). (f k, transformKeys f v)) kvs)"
proof -
  let ?kvs = "map (\<lambda>(k, v). (k, transformKeys f v)) kvs"
  have k: "map (\<lambda>kv. f (fst kv)) ?kvs = map (\<lambda>kv. f (fst kv)) kvs" "(\<forall>kv \<in> set ?kvs. f (fst kv) \<noteq> ''__proto__'') = (\<forall>kv \<in> set kvs. f (fst kv) \<noteq> ''__proto__'')"
    by auto
  have "fold (\<lambda>(k, v) out. if f k = ''__proto__'' then out else obj_put out (f k) v) ?kvs [] = [] @ map (\<lambda>(k, v). (f k, v)) ?kvs"
    by (rule fold_rename) (use assms(2,3) in \<open>simp_all only: k, simp\<close>)
  then show ?thesis using assms(1) by (simp add: o_def case_prod_beta)
qed

lemma snake_special: "CHR ''_'' \<notin> set k \<Longrightarrow> toSnake k = ''constructor'' \<Longrightarrow> k = ''constructor''"
  using camel_snake [of k] by simp

lemma snake_proto: "CHR ''_'' \<notin> set k \<Longrightarrow> toSnake k \<noteq> ''__proto__''"
proof
  assume k: "CHR ''_'' \<notin> set k" "toSnake k = ''__proto__''"
  then have "k = toCamel ''__proto__''" using camel_snake [of k] by simp
  then show False using k(1) by (simp add: lower_def)
qed

lemma snake_inj: "CHR ''_'' \<notin> set k \<Longrightarrow> CHR ''_'' \<notin> set l \<Longrightarrow> toSnake k = toSnake l \<Longrightarrow> k = l"
  using camel_snake by metis

lemma snake_roundtrip: "camel_keys v \<Longrightarrow> fromSnakeCase (toSnakeCase v) = v"
  unfolding fromSnakeCase_def toSnakeCase_def
proof (induction v rule: camel_keys.induct)
  case (1 vs)
  then show ?case by (auto simp: list_all_iff intro!: map_idI)
next
  case (2 kvs)
  then have us: "CHR ''_'' \<notin> set (fst kv)" and ih: "transformKeys toCamel (transformKeys toSnake (snd kv)) = snd kv" if "kv \<in> set kvs" for kv
    using that by (auto simp: list_all_iff)
  have d: "distinct (map fst kvs)" using 2 by simp
  show ?case
  proof (cases "''constructor'' \<in> fst ` set kvs")
    case False
    have dk: "distinct (map (\<lambda>kv. toSnake (fst kv)) kvs)"
    proof -
      have "inj_on toSnake (fst ` set kvs)"
      proof (rule inj_onI)
        fix a b assume "a \<in> fst ` set kvs" "b \<in> fst ` set kvs" "toSnake a = toSnake b"
        moreover from this us have "CHR ''_'' \<notin> set a" "CHR ''_'' \<notin> set b" by (blast, blast)
        ultimately show "a = b" by (blast intro: snake_inj)
      qed
      then have "distinct (map toSnake (map fst kvs))" using d by (subst distinct_map) simp
      then show ?thesis by (simp add: o_def)
    qed
    let ?kvs = "map (\<lambda>(k, v). (toSnake k, transformKeys toSnake v)) kvs"
    have s: "transformKeys toSnake (JObj kvs) = JObj ?kvs"
      by (rule transform_object [OF False dk]) (use us snake_proto in blast)
    have c: "map (\<lambda>kv. toCamel (fst kv)) ?kvs = map fst kvs" using us camel_snake by (auto simp: case_prod_beta)
    have "transformKeys toCamel (JObj ?kvs) = JObj (map (\<lambda>(k, v). (toCamel k, transformKeys toCamel v)) ?kvs)"
    proof (rule transform_object)
      show "''constructor'' \<notin> fst ` set ?kvs" using us False snake_special by (fastforce simp: image_iff)
      show "distinct (map (\<lambda>kv. toCamel (fst kv)) ?kvs)" unfolding c by (rule d)
      show "\<forall>kv \<in> set ?kvs. toCamel (fst kv) \<noteq> ''__proto__''"
        using us camel_snake by (force simp: case_prod_beta)
    qed
    also have "\<dots> = JObj kvs" using us camel_snake ih by (auto simp: case_prod_beta intro!: map_idI)
    finally show ?thesis unfolding s .
  qed simp
qed simp_all

section \<open>The kit against the server\<close>

text \<open>What the server sees of the kit's request.\<close>

definition sdk_inbound :: "sdk_call \<Rightarrow> string \<Rightarrow> inbound_request" where
  "sdk_inbound c originalUrl = \<lparr>ir_kid = Some (sl_kid c), ir_timestamp = Some (sl_timestamp c),
     ir_signature = Some (sl_signature c), ir_method = ''POST'', ir_originalUrl = originalUrl, ir_rawBody = Some (sl_body c)\<rparr>"

lemma sdk_signed:
  assumes "sk_sha256 env = ae_sha256 aenv" "sk_hmac env = ae_hmac aenv" "sp_apiKeyId p \<noteq> []"
    and "takeWhile (\<lambda>c. c \<noteq> CHR ''?'') originalUrl = sk_pathname env (sp_endpoint p)"
    and "\<bar>now div 1000 - t\<bar> \<le> ae_signatureWindowSeconds aenv"
  shows "signed_under aenv (sp_apiSecret p) now (sdk_inbound (sdk_call_of env p t random) originalUrl)"
proof -
  have ts: "signPayload h m k a b (TsNumber t) body = signPayload h m k a b (TsString (show_int t)) body" for h m k a b body
    by (simp add: signPayload_def canonicalString_def)
  show ?thesis using assms
    by (simp add: signed_under_def sdk_inbound_def sdk_call_of_def truthy_def rgs_verifySignature_def rgs_signPayload_eq
        ts Let_def)
qed

lemma create_handler_answer:
  assumes "handler_admits env io rq o1 w b"
  shows "\<exists>created. cs_sessionId created = rx_sessionId io \<and>
    fst (create_handler env io rq o1 w) = Some (201, created_json created)"
proof -
  obtain gk cache where g: "snapshot (rx_now io) (sw_killRow w) (sw_killCache w) = (gk, cache)" by fastforce
  have v: "create_refusal gk (sw_configs w) o1 b = Admitted"
    using assms by (simp add: handler_admits_def create_refusal_Admitted g)
  obtain created d where c: "create_session (rv_session env) (rx_sessionId io) (rx_random1 io) (rx_random2 io) (rx_now io)
      (create_input o1 b) (sw_db w) = (created, d)" by fastforce
  then have "cs_sessionId created = rx_sessionId io"
    by (auto simp: create_session_def new_session_def Let_def)
  moreover have "fst (create_handler env io rq o1 w) = Some (201, created_json created)"
    using assms by (simp add: handler_admits_def create_handler_def g v c)
  ultimately show ?thesis by blast
qed

lemma sdk_reads_created:
  "\<exists>res. sdk_createSession rid (SdkAnswered 201 (Some (created_json c))) = Inr res \<and>
     get_prop res ''sessionId'' = JStr (cs_sessionId c) \<and> get_prop res ''requestUuid'' = JStr rid"
  by (simp add: sdk_createSession_def isValidSessionResponse_def created_json_def get_prop_def json_string_def)

section \<open>Properties\<close>


text \<open>The kit accepts every wallet callback the server's adapter sends: its signature verifies within
  the tolerance, and its body has the shape of its endpoint.\<close>

theorem sdk_accepts_callbacks:
  assumes "rq = http_send env a now oper" "\<bar>here - now div 1000\<bar> \<le> 30"
  shows "verifyWebhookSignature (he_sha256 env) (he_hmac env) \<lparr>cp_method = hr_method rq,
      cp_path = ha_basePath a @ ''/'' @ op_endpoint oper, cp_body = hr_body rq, cp_secret = ha_secret a,
      cp_timestamp = TsString (hr_timestamp rq), cp_signature = hr_signature rq, cp_toleranceSeconds = None,
      cp_nowSeconds = here\<rparr> = Some True \<and>
    parseWalletCallback (op_endpoint oper) (http_body oper) = Inr (op_endpoint oper, http_body oper)"
proof
  show "verifyWebhookSignature (he_sha256 env) (he_hmac env) \<lparr>cp_method = hr_method rq,
      cp_path = ha_basePath a @ ''/'' @ op_endpoint oper, cp_body = hr_body rq, cp_secret = ha_secret a,
      cp_timestamp = TsString (hr_timestamp rq), cp_signature = hr_signature rq, cp_toleranceSeconds = None,
      cp_nowSeconds = here\<rparr> = Some True"
    using assms
    by (simp add: verifyWebhookSignature_def ts_falsy_def http_send_def verifyPayload_iff rgs_signPayload_eq Let_def)
  show "parseWalletCallback (op_endpoint oper) (http_body oper) = Inr (op_endpoint oper, http_body oper)"
    by (cases oper) (simp_all add: parseWalletCallback_def strings_in_def callback_fields_def common_fields_def get_prop_def
        json_string_def)
qed

text \<open>Renaming the keys of a value to snake case and back gives the value, when its keys are distinct
  and free of underscores.\<close>

theorem key_case_roundtrip:
  assumes "camel_keys v"
  shows "fromSnakeCase (toSnakeCase v) = v"
  by (rule snake_roundtrip [OF assms])

theorem key_case_roundtrip_witness:
  "fromSnakeCase (toSnakeCase (JObj [(''requestUuid'', JStr ''r''), (''meta'', JArr [JObj [(''aB'', JNull)]])])) =
     JObj [(''requestUuid'', JStr ''r''), (''meta'', JArr [JObj [(''aB'', JNull)]])]"
  by (rule key_case_roundtrip) simp

theorem sdk_accepts_callbacks_witness:
  "verifyWebhookSignature (he_sha256 sample_http) (he_hmac sample_http) \<lparr>cp_method = hr_method (http_send sample_http sample_adapter 5000 (WBet mock_bet)),
      cp_path = ha_basePath sample_adapter @ ''/bet'', cp_body = hr_body (http_send sample_http sample_adapter 5000 (WBet mock_bet)),
      cp_secret = ha_secret sample_adapter, cp_timestamp = TsString (hr_timestamp (http_send sample_http sample_adapter 5000 (WBet mock_bet))),
      cp_signature = hr_signature (http_send sample_http sample_adapter 5000 (WBet mock_bet)), cp_toleranceSeconds = None,
      cp_nowSeconds = 20\<rparr> = Some True"
  using sdk_accepts_callbacks [OF refl, of 20 5000 sample_http sample_adapter "WBet mock_bet"] by simp

definition sample_sdk :: sdk_env where
  "sample_sdk = \<lparr>sk_sha256 = (\<lambda>_. 0), sk_hmac = (\<lambda>_ _. 0), sk_stringify = (\<lambda>_. ''json''), sk_pathname = (\<lambda>_. ''/v1/session'')\<rparr>"

definition sample_sdk_params :: sdk_params where
  "sample_sdk_params = \<lparr>sp_endpoint = ''https://rgs/v1/session'', sp_apiKeyId = ''kid_demo_aa'', sp_apiSecret = ''old'',
     sp_payload = [(''operatorId'', JStr ''op''), (''playerRef'', JStr ''p''), (''currency'', JStr ''EUR'')],
     sp_requestUuid = Some ''r1''\<rparr>"


end
