(* ===== verification/Webhooks.thy ===== *)
theory Webhooks
  imports Evidence Access Schemas
begin

text \<open>
  Outbound webhooks (\<^verbatim>\<open>apps/rgs-server/src/services/WebhookDispatcher.ts\<close>) and their self-service
  (\<^verbatim>\<open>routes/admin.ts\<close>, the webhook endpoints). An event becomes one delivery row per interested
  subscription, signed when it is queued; the runner claims due rows, posts them and writes the
  result. Claim and result are separate steps, since the request is awaited between them. The
  network, the random generator, the clock and the encryption are parameters.
\<close>

section \<open>Rows\<close>

record subscription_row =
  wb_id :: uuid
  wb_operatorId :: uuid
  wb_url :: string
  wb_eventTypes :: "string list"
  wb_secretCipher :: string
  wb_enabled :: bool
  wb_description :: "string option"
  wb_secretVersion :: string
  wb_failureCount :: int
  wb_lastSuccessAt :: "msec option"
  wb_lastFailureAt :: "msec option"
  wb_lastFailureReason :: "string option"
  wb_createdAt :: msec

datatype delivery_state = DvPending | DvInFlight | DvSucceeded | DvFailedRetry | DvDeadLettered

record delivery_row =
  dl_id :: uuid
  dl_subscriptionId :: uuid
  dl_operatorId :: uuid
  dl_eventId :: uuid
  dl_eventType :: string
  dl_payload :: json
  dl_signature :: string
  dl_attempt :: nat
  dl_nextAttemptAt :: "msec option"
  dl_state :: delivery_state
  dl_httpStatus :: "int option"
  dl_responseBody :: "string option"
  dl_latencyMs :: "int option"
  dl_completedAt :: "msec option"
  dl_deadLetteredAt :: "msec option"
  dl_createdAt :: msec

record webhook_db =
  wd_subs :: "subscription_row list"
  wd_deliveries :: "delivery_row list"

record webhook_env =
  we_hmac :: hmac_fun
  we_secrets :: secret_env
  we_numstr :: "jsnum \<Rightarrow> string"

section \<open>Queueing an event\<close>

definition WH_MAX_ATTEMPTS :: nat where "WH_MAX_ATTEMPTS = 8"
definition BACKOFF_BASE_MS :: msec where "BACKOFF_BASE_MS = 30000"
definition BACKOFF_CAP_MS :: msec where "BACKOFF_CAP_MS = 60 * 60000"

definition backoffFor :: "nat \<Rightarrow> msec" where
  "backoffFor attempt = min (BACKOFF_BASE_MS * 2 ^ (attempt - 1)) BACKOFF_CAP_MS"

record dispatch_input =
  di_operatorId :: uuid
  di_eventType :: string
  di_data :: json
  di_dataVersion :: "int option"
  di_eventId :: "uuid option"
  di_occurredAt :: "msec option"

text \<open>What the runtime gives to one call: an id for the event, and the ids of the new rows.\<close>

record dispatch_io =
  dx_now :: msec
  dx_eventId :: uuid
  dx_ids :: "uuid \<Rightarrow> uuid"

definition interested :: "dispatch_input \<Rightarrow> webhook_db \<Rightarrow> subscription_row list" where
  "interested i d = filter (\<lambda>s. wb_eventTypes s = [] \<or> di_eventType i \<in> set (wb_eventTypes s))
     (filter (\<lambda>s. wb_operatorId s = di_operatorId i \<and> wb_enabled s) (wd_subs d))"

definition envelope :: "dispatch_io \<Rightarrow> dispatch_input \<Rightarrow> json" where
  "envelope io i = JObj
     [(''eventId'', JStr (nullish (di_eventId i) (dx_eventId io))), (''eventType'', JStr (di_eventType i)),
      (''occurredAt'', JStr (toISOString (nullish (di_occurredAt i) (dx_now io)))),
      (''operatorId'', JStr (di_operatorId i)), (''dataVersion'', JNum (of_int (nullish (di_dataVersion i) 1))),
      (''data'', di_data i)]"

text \<open>
  One subscription's row. A secret that does not decrypt, or a payload with a big integer, which
  the column cannot hold, throws and is only logged. The column holds the payload as JSON.
\<close>

definition queue_one :: "webhook_env \<Rightarrow> dispatch_io \<Rightarrow> dispatch_input \<Rightarrow> subscription_row \<Rightarrow> webhook_db \<Rightarrow> webhook_db" where
  "queue_one env io i sub d =
     (case decryptSecret (we_secrets env) (wb_secretCipher sub) of
        None \<Rightarrow> d
      | Some secret \<Rightarrow>
          (let body = webhookCanonicalJson (we_numstr env) (envelope io i);
               signature = sign_hex (we_hmac env) secret body
           in if \<not> no_big (envelope io i) then d
              else d\<lparr>wd_deliveries := wd_deliveries d @
                [\<lparr>dl_id = dx_ids io (wb_id sub), dl_subscriptionId = wb_id sub, dl_operatorId = di_operatorId i,
                  dl_eventId = nullish (di_eventId i) (dx_eventId io), dl_eventType = di_eventType i,
                  dl_payload = json_wire (envelope io i), dl_signature = signature, dl_attempt = 1,
                  dl_nextAttemptAt = Some (dx_now io), dl_state = DvPending, dl_httpStatus = None,
                  dl_responseBody = None, dl_latencyMs = None, dl_completedAt = None, dl_deadLetteredAt = None,
                  dl_createdAt = dx_now io\<rparr>]\<rparr>))"

definition dispatchEvent :: "webhook_env \<Rightarrow> dispatch_io \<Rightarrow> dispatch_input \<Rightarrow> webhook_db \<Rightarrow> webhook_db" where
  "dispatchEvent env io i d = fold (queue_one env io i) (interested i d) d"

section \<open>Delivering\<close>

definition queued :: "delivery_state \<Rightarrow> bool" where
  "queued s \<longleftrightarrow> s = DvPending \<or> s = DvFailedRetry"

text \<open>The batch of a tick: the due rows, earliest first, at most 50.\<close>

definition due_batch :: "msec \<Rightarrow> webhook_db \<Rightarrow> uuid list" where
  "due_batch now d = map dl_id (take 50 (sort_key (\<lambda>x. the (dl_nextAttemptAt x))
     (filter (\<lambda>x. queued (dl_state x) \<and> (case dl_nextAttemptAt x of None \<Rightarrow> False | Some t \<Rightarrow> t \<le> now))
       (wd_deliveries d))))"

definition find_delivery :: "webhook_db \<Rightarrow> uuid \<Rightarrow> delivery_row option" where
  "find_delivery d i = find (\<lambda>x. dl_id x = i) (wd_deliveries d)"

definition find_subscription :: "webhook_db \<Rightarrow> uuid \<Rightarrow> subscription_row option" where
  "find_subscription d i = find (\<lambda>s. wb_id s = i) (wd_subs d)"

definition upd_delivery :: "uuid \<Rightarrow> (delivery_row \<Rightarrow> delivery_row) \<Rightarrow> webhook_db \<Rightarrow> webhook_db" where
  "upd_delivery i f d = d\<lparr>wd_deliveries := update_where (\<lambda>x. dl_id x = i) f (wd_deliveries d)\<rparr>"

definition upd_subscription :: "uuid \<Rightarrow> (subscription_row \<Rightarrow> subscription_row) \<Rightarrow> webhook_db \<Rightarrow> webhook_db" where
  "upd_subscription i f d = d\<lparr>wd_subs := update_where (\<lambda>s. wb_id s = i) f (wd_subs d)\<rparr>"

text \<open>The claim: no row is claimed twice; what was read is kept for the rest of the delivery.\<close>

definition claim_delivery :: "uuid \<Rightarrow> webhook_db \<Rightarrow> (delivery_row \<times> subscription_row) option \<times> webhook_db" where
  "claim_delivery i d =
     (case find (\<lambda>x. dl_id x = i \<and> queued (dl_state x)) (wd_deliveries d) of
        None \<Rightarrow> (None, d)
      | Some _ \<Rightarrow>
          (let d1 = upd_delivery i (\<lambda>x. if queued (dl_state x) then x\<lparr>dl_state := DvInFlight\<rparr> else x) d in
           case find_delivery d1 i of
             None \<Rightarrow> (None, d1)
           | Some x \<Rightarrow>
               (case find_subscription d1 (dl_subscriptionId x) of
                  None \<Rightarrow> (None, d1)
                | Some sub \<Rightarrow> (Some (x, sub), d1))))"

record webhook_request =
  wq_url :: string
  wq_headers :: "(string \<times> string) list"
  wq_body :: string

definition webhook_request_of :: "webhook_env \<Rightarrow> msec \<Rightarrow> delivery_row \<Rightarrow> subscription_row \<Rightarrow> webhook_request" where
  "webhook_request_of env now x sub =
     \<lparr>wq_url = wb_url sub,
      wq_headers = [(''content-type'', ''application/json''), (''X-Yantra-Signature'', dl_signature x),
        (''X-Yantra-Signature-Alg'', ''HMAC-SHA256''), (''X-Yantra-Signature-Version'', wb_secretVersion sub),
        (''X-Yantra-Event-Id'', dl_eventId x), (''X-Yantra-Event-Type'', dl_eventType x),
        (''X-Yantra-Timestamp'', show_int (now div 1000))],
      wq_body = webhookCanonicalJson (we_numstr env) (dl_payload x)\<rparr>"

text \<open>How the request ended; the text is \<open>None\<close> when it could not be read.\<close>

datatype delivery_result = WebhookAnswered int "string option" | WebhookUnanswered string

definition result_status :: "delivery_result \<Rightarrow> int option" where
  "result_status r = (case r of WebhookAnswered st _ \<Rightarrow> Some st | WebhookUnanswered _ \<Rightarrow> None)"

definition result_ok :: "delivery_result \<Rightarrow> bool" where
  "result_ok r = (case result_status r of None \<Rightarrow> False | Some st \<Rightarrow> 200 \<le> st \<and> st < 300)"

definition result_body :: "delivery_result \<Rightarrow> string option" where
  "result_body r = (case r of WebhookAnswered _ t \<Rightarrow> map_option (take 512) t | WebhookUnanswered _ \<Rightarrow> None)"

definition result_error :: "delivery_result \<Rightarrow> string option" where
  "result_error r = (case r of WebhookAnswered _ _ \<Rightarrow> None | WebhookUnanswered e \<Rightarrow> Some (take 256 e))"

definition fail_reason :: "delivery_result \<Rightarrow> string" where
  "fail_reason r = nullish (result_error r)
     (''http_'' @ (case result_status r of None \<Rightarrow> ''unknown'' | Some st \<Rightarrow> show_int st))"

definition finish_delivery :: "msec \<Rightarrow> int \<Rightarrow> delivery_row \<Rightarrow> subscription_row \<Rightarrow> delivery_result \<Rightarrow> webhook_db \<Rightarrow> webhook_db" where
  "finish_delivery now latencyMs x sub r d =
     (if result_ok r
      then upd_subscription (wb_id sub) (\<lambda>s. s\<lparr>wb_failureCount := 0, wb_lastSuccessAt := Some now\<rparr>)
             (upd_delivery (dl_id x) (\<lambda>y. y\<lparr>dl_state := DvSucceeded, dl_httpStatus := result_status r,
                dl_responseBody := result_body r, dl_latencyMs := Some latencyMs, dl_completedAt := Some now\<rparr>) d)
      else (let attempt = dl_attempt x; exceeded = WH_MAX_ATTEMPTS \<le> attempt;
                nextAttemptAt = (if exceeded then None else Some (now + backoffFor attempt))
            in upd_subscription (wb_id sub) (\<lambda>s. s\<lparr>wb_failureCount := wb_failureCount s + 1, wb_lastFailureAt := Some now,
                    wb_lastFailureReason := Some (take 256 (fail_reason r))\<rparr>)
                 (upd_delivery (dl_id x) (\<lambda>y. y\<lparr>dl_state := (if exceeded then DvDeadLettered else DvFailedRetry),
                    dl_httpStatus := result_status r, dl_responseBody := nullish_opt (result_body r) (result_error r),
                    dl_latencyMs := Some latencyMs, dl_attempt := attempt + 1, dl_nextAttemptAt := nextAttemptAt,
                    dl_deadLetteredAt := (if exceeded then Some now else dl_deadLetteredAt y)\<rparr>) d)))"

text \<open>Back into the queue, for a dead letter only.\<close>

definition replay_delivery :: "uuid \<Rightarrow> msec \<Rightarrow> webhook_db \<Rightarrow> bool \<times> webhook_db" where
  "replay_delivery i now d =
     (case find_delivery d i of
        None \<Rightarrow> (False, d)
      | Some x \<Rightarrow>
          if dl_state x \<noteq> DvDeadLettered then (False, d)
          else (True, upd_delivery i (\<lambda>y. y\<lparr>dl_state := DvFailedRetry, dl_attempt := 1, dl_nextAttemptAt := Some now,
                  dl_deadLetteredAt := None, dl_completedAt := None\<rparr>) d))"

section \<open>Self-service\<close>

text \<open>
  The endpoints of an operator's administrator; \<open>role\<close> and \<open>opid\<close> are those of the portal user.
  The details of a schema error and the texts of the warnings are not modelled.
\<close>

definition WEBHOOK_EVENT_ENUM :: "string list" where
  "WEBHOOK_EVENT_ENUM =
     [''round.settled'', ''round.voided'', ''session.terminated'', ''session.rg_limit_tripped'',
      ''reconciliation.discrepancy'', ''credential.rotated'', ''credential.revoked'', ''webhook.test'']"

record subscribe_io =
  sx_now :: msec
  sx_id :: uuid
  sx_secret :: string
  sx_iv :: string

definition WebhookSubscribeBody :: "zod_env \<Rightarrow> json \<Rightarrow> (string \<times> string list \<times> string option) option" where
  "WebhookSubscribeBody z body =
     (case body of JObj kvs \<Rightarrow> do {
        url \<leftarrow> req_str (zd_url z) (get_prop body ''url'');
        eventTypes \<leftarrow> (if get_prop body ''eventTypes'' = JUndefined then Some []
                       else enum_list WEBHOOK_EVENT_ENUM (get_prop body ''eventTypes''));
        description \<leftarrow> opt_str (\<lambda>s. length s \<le> 200) (get_prop body ''description'');
        Some (url, eventTypes, description) }
      | _ \<Rightarrow> None)"

definition subscribe_webhook ::
    "webhook_env \<Rightarrow> zod_env \<Rightarrow> subscribe_io \<Rightarrow> string option \<Rightarrow> uuid \<Rightarrow> json \<Rightarrow> webhook_db \<Rightarrow> http_answer \<times> webhook_db" where
  "subscribe_webhook env z io role opid body d = admin_only role d
     (case WebhookSubscribeBody z (body_or_empty body) of
        None \<Rightarrow> (error_answer 400 ''invalid_body'', d)
      | Some (url, eventTypes, description) \<Rightarrow>
          (let sub = \<lparr>wb_id = sx_id io, wb_operatorId = opid, wb_url = url, wb_eventTypes = eventTypes,
                 wb_secretCipher = encryptSecret (we_secrets env) (sx_iv io) (sx_secret io), wb_enabled = True,
                 wb_description = description, wb_secretVersion = ''v1'', wb_failureCount = 0, wb_lastSuccessAt = None,
                 wb_lastFailureAt = None, wb_lastFailureReason = None, wb_createdAt = sx_now io\<rparr>
           in ((201, JObj [(''id'', JStr (wb_id sub)), (''url'', JStr url), (''eventTypes'', JArr (map JStr eventTypes)),
                 (''secret'', JStr (sx_secret io)), (''secretVersion'', JStr (wb_secretVersion sub)),
                 (''warning'', JStr ''SAVE THE SECRET NOW'')]),
               d\<lparr>wd_subs := wd_subs d @ [sub]\<rparr>)))"

definition subscription_view :: "subscription_row \<Rightarrow> json" where
  "subscription_view s = JObj [(''id'', JStr (wb_id s)), (''url'', JStr (wb_url s)),
     (''eventTypes'', JArr (map JStr (wb_eventTypes s))), (''enabled'', JBool (wb_enabled s)),
     (''description'', jopt JStr (wb_description s)), (''secretVersion'', JStr (wb_secretVersion s)),
     (''failureCount'', jint (wb_failureCount s)), (''lastSuccessAt'', jopt iso_json (wb_lastSuccessAt s)),
     (''lastFailureAt'', jopt iso_json (wb_lastFailureAt s)), (''lastFailureReason'', jopt JStr (wb_lastFailureReason s)),
     (''createdAt'', iso_json (wb_createdAt s))]"

definition list_webhooks :: "string option \<Rightarrow> uuid \<Rightarrow> webhook_db \<Rightarrow> http_answer" where
  "list_webhooks role opid d = fst (admin_only role d
     ((200, JObj [(''subscriptions'', JArr (map subscription_view (newest_first wb_createdAt
        (filter (\<lambda>s. wb_operatorId s = opid) (wd_subs d)))))]), d))"

text \<open>A subscription or a delivery of another operator is answered like a missing one.\<close>

definition own_subscription :: "uuid \<Rightarrow> uuid \<Rightarrow> webhook_db \<Rightarrow> subscription_row option" where
  "own_subscription opid i d =
     (case find_subscription d i of None \<Rightarrow> None | Some s \<Rightarrow> if wb_operatorId s \<noteq> opid then None else Some s)"

definition WebhookPatchBody ::
    "zod_env \<Rightarrow> json \<Rightarrow> (string option \<times> string list option \<times> bool option \<times> string option) option" where
  "WebhookPatchBody z body =
     (case body of JObj kvs \<Rightarrow> do {
        url \<leftarrow> opt_str (zd_url z) (get_prop body ''url'');
        eventTypes \<leftarrow> (if get_prop body ''eventTypes'' = JUndefined then Some None
                       else map_option Some (enum_list WEBHOOK_EVENT_ENUM (get_prop body ''eventTypes'')));
        enabled \<leftarrow> opt_bool (get_prop body ''enabled'');
        description \<leftarrow> opt_str (\<lambda>s. length s \<le> 200) (get_prop body ''description'');
        Some (url, eventTypes, enabled, description) }
      | _ \<Rightarrow> None)"

definition patch_webhook ::
    "zod_env \<Rightarrow> string option \<Rightarrow> uuid \<Rightarrow> uuid \<Rightarrow> json \<Rightarrow> webhook_db \<Rightarrow> http_answer \<times> webhook_db" where
  "patch_webhook z role opid i body d = admin_only role d
     (case WebhookPatchBody z (body_or_empty body) of
        None \<Rightarrow> (error_answer 400 ''invalid_body'', d)
      | Some (url, eventTypes, enabled, description) \<Rightarrow>
          (case own_subscription opid i d of
             None \<Rightarrow> (error_answer 404 ''subscription_not_found'', d)
           | Some s \<Rightarrow>
               (let f = (\<lambda>s. s\<lparr>wb_url := nullish url (wb_url s), wb_eventTypes := nullish eventTypes (wb_eventTypes s),
                          wb_enabled := nullish enabled (wb_enabled s),
                          wb_description := nullish_opt description (wb_description s)\<rparr>); u = f s
                in ((200, JObj [(''id'', JStr (wb_id u)), (''url'', JStr (wb_url u)),
                       (''eventTypes'', JArr (map JStr (wb_eventTypes u))), (''enabled'', JBool (wb_enabled u)),
                       (''description'', jopt JStr (wb_description u))]),
                    upd_subscription (wb_id s) f d))))"

definition delete_webhook :: "string option \<Rightarrow> uuid \<Rightarrow> uuid \<Rightarrow> webhook_db \<Rightarrow> http_answer \<times> webhook_db" where
  "delete_webhook role opid i d = admin_only role d
     (case own_subscription opid i d of
        None \<Rightarrow> (error_answer 404 ''subscription_not_found'', d)
      | Some s \<Rightarrow>
          ((200, JObj [(''ok'', JBool True)]),
           d\<lparr>wd_subs := filter (\<lambda>x. wb_id x \<noteq> wb_id s) (wd_subs d),
             wd_deliveries := filter (\<lambda>x. dl_subscriptionId x \<noteq> wb_id s) (wd_deliveries d)\<rparr>))"

definition next_version :: "string \<Rightarrow> string" where
  "next_version v =
     (if take 1 v = ''v'' \<and> drop 1 v \<noteq> [] \<and> list_all is_dec (drop 1 v)
      then ''v'' @ show_int (the (base_fold 10 0 (drop 1 v)) + 1) else ''v2'')"

definition rotate_webhook_secret ::
    "webhook_env \<Rightarrow> subscribe_io \<Rightarrow> string option \<Rightarrow> uuid \<Rightarrow> uuid \<Rightarrow> webhook_db \<Rightarrow> http_answer \<times> webhook_db" where
  "rotate_webhook_secret env io role opid i d = admin_only role d
     (case own_subscription opid i d of
        None \<Rightarrow> (error_answer 404 ''subscription_not_found'', d)
      | Some s \<Rightarrow>
          (let nextVersion = next_version (wb_secretVersion s)
           in ((200, JObj [(''secret'', JStr (sx_secret io)), (''secretVersion'', JStr nextVersion),
                  (''warning'', JStr ''SAVE THE SECRET NOW'')]),
               upd_subscription (wb_id s) (\<lambda>s. s\<lparr>wb_secretCipher := encryptSecret (we_secrets env) (sx_iv io) (sx_secret io),
                 wb_secretVersion := nextVersion\<rparr>) d)))"

definition replay_webhook :: "msec \<Rightarrow> string option \<Rightarrow> uuid \<Rightarrow> uuid \<Rightarrow> webhook_db \<Rightarrow> http_answer \<times> webhook_db" where
  "replay_webhook now role opid i d = admin_only role d
     (case find_delivery d i of
        None \<Rightarrow> (error_answer 404 ''delivery_not_found'', d)
      | Some x \<Rightarrow>
          if dl_operatorId x \<noteq> opid then (error_answer 404 ''delivery_not_found'', d)
          else (let (ok, d1) = replay_delivery (dl_id x) now d
                in if \<not> ok then (error_answer 409 ''not_dead_lettered'', d1) else ((200, JObj [(''ok'', JBool True)]), d1)))"

fun delivery_state_string :: "delivery_state \<Rightarrow> string" where
  "delivery_state_string DvPending = ''PENDING''"
| "delivery_state_string DvInFlight = ''IN_FLIGHT''"
| "delivery_state_string DvSucceeded = ''SUCCEEDED''"
| "delivery_state_string DvFailedRetry = ''FAILED_RETRY''"
| "delivery_state_string DvDeadLettered = ''DEAD_LETTERED''"

definition delivery_item :: "delivery_row \<Rightarrow> json" where
  "delivery_item x = JObj [(''id'', JStr (dl_id x)), (''subscriptionId'', JStr (dl_subscriptionId x)),
     (''eventId'', JStr (dl_eventId x)), (''eventType'', JStr (dl_eventType x)),
     (''state'', JStr (delivery_state_string (dl_state x))), (''attempt'', jint (int (dl_attempt x))),
     (''httpStatus'', jopt jint (dl_httpStatus x)), (''latencyMs'', jopt jint (dl_latencyMs x)),
     (''nextAttemptAt'', jopt iso_json (dl_nextAttemptAt x)), (''completedAt'', jopt iso_json (dl_completedAt x)),
     (''deadLetteredAt'', jopt iso_json (dl_deadLetteredAt x)), (''createdAt'', iso_json (dl_createdAt x))]"

text \<open>The delivery log, for a query that has passed its schema.\<close>

record delivery_query =
  dq_state :: "delivery_state option"
  dq_subscriptionId :: "uuid option"
  dq_cursor :: "uuid option"
  dq_limit :: nat

definition delivery_log :: "string option \<Rightarrow> uuid \<Rightarrow> delivery_query \<Rightarrow> webhook_db \<Rightarrow> http_answer" where
  "delivery_log role opid q d = fst (admin_only role d
     (let (rows, next) = list_page dl_id (dq_cursor q) (dq_limit q) (newest_first (\<lambda>x. (dl_createdAt x, dl_id x))
            (filter (\<lambda>x. dl_operatorId x = opid \<and> (dq_state q = None \<or> Some (dl_state x) = dq_state q) \<and>
               (\<not> truthy (dq_subscriptionId q) \<or> Some (dl_subscriptionId x) = dq_subscriptionId q)) (wd_deliveries d)))
      in ((200, JObj [(''items'', JArr (map delivery_item rows)), (''nextCursor'', jopt JStr next)]), d)))"

section \<open>Runs\<close>

text \<open>
  The store with the requests that are under way. Events come in any order: a crash forgets the
  requests under way, and nothing else in the program looks at rows in flight.
\<close>

record webhook_world =
  ww_db :: webhook_db
  ww_flights :: "(delivery_row \<times> subscription_row) list"

datatype webhook_event =
    WhDispatch dispatch_io dispatch_input
  | WhClaim uuid
  | WhFinish uuid msec int delivery_result
  | WhReplay uuid msec
  | WhCrash

definition webhook_step :: "webhook_env \<Rightarrow> webhook_event \<Rightarrow> webhook_world \<Rightarrow> webhook_world" where
  "webhook_step env e w =
     (case e of
        WhDispatch io i \<Rightarrow> w\<lparr>ww_db := dispatchEvent env io i (ww_db w)\<rparr>
      | WhClaim i \<Rightarrow>
          (case claim_delivery i (ww_db w) of
             (None, d) \<Rightarrow> w\<lparr>ww_db := d\<rparr>
           | (Some f, d) \<Rightarrow> w\<lparr>ww_db := d, ww_flights := ww_flights w @ [f]\<rparr>)
      | WhFinish i now latencyMs r \<Rightarrow>
          (case find (\<lambda>f. dl_id (fst f) = i) (ww_flights w) of
             None \<Rightarrow> w
           | Some f \<Rightarrow> w\<lparr>ww_db := finish_delivery now latencyMs (fst f) (snd f) r (ww_db w),
                        ww_flights := filter (\<lambda>f. dl_id (fst f) \<noteq> i) (ww_flights w)\<rparr>)
      | WhReplay i now \<Rightarrow> w\<lparr>ww_db := snd (replay_delivery i now (ww_db w))\<rparr>
      | WhCrash \<Rightarrow> w\<lparr>ww_flights := []\<rparr>)"

definition webhook_run :: "webhook_env \<Rightarrow> webhook_event list \<Rightarrow> webhook_world \<Rightarrow> webhook_world" where
  "webhook_run env es w = fold (webhook_step env) es w"

section \<open>Signatures\<close>

text \<open>What a receiver does: the signature of the header against the one of the body as it came.\<close>

definition receiver_accepts :: "hmac_fun \<Rightarrow> string \<Rightarrow> webhook_request \<Rightarrow> bool" where
  "receiver_accepts hmac secret rq \<longleftrightarrow>
     map_of (wq_headers rq) ''X-Yantra-Signature'' = Some (sign_hex hmac secret (wq_body rq))"

definition secret_of :: "webhook_env \<Rightarrow> webhook_db \<Rightarrow> uuid \<Rightarrow> string option" where
  "secret_of env d i =
     (case find_subscription d i of None \<Rightarrow> None | Some s \<Rightarrow> decryptSecret (we_secrets env) (wb_secretCipher s))"

definition row_signed :: "webhook_env \<Rightarrow> webhook_db \<Rightarrow> delivery_row \<Rightarrow> bool" where
  "row_signed env d x \<longleftrightarrow> (\<exists>secret. secret_of env d (dl_subscriptionId x) = Some secret \<and>
     dl_signature x = sign_hex (we_hmac env) secret (webhookCanonicalJson (we_numstr env) (dl_payload x)))"

definition flight_verifies :: "webhook_env \<Rightarrow> delivery_row \<times> subscription_row \<Rightarrow> bool" where
  "flight_verifies env f \<longleftrightarrow> (\<exists>secret. decryptSecret (we_secrets env) (wb_secretCipher (snd f)) = Some secret \<and>
     (\<forall>now. receiver_accepts (we_hmac env) secret (webhook_request_of env now (fst f) (snd f))))"

lemma find_subscription_upd:
  "(\<And>s. wb_id (f s) = wb_id s) \<Longrightarrow>
   find_subscription (upd_subscription j f d) i = (if i = j then map_option f (find_subscription d i) else find_subscription d i)"
  by (simp add: find_subscription_def upd_subscription_def find_update_where_key)

lemma secret_of_simps [simp]:
  "secret_of env (upd_delivery i g d) j = secret_of env d j"
  "secret_of env (d\<lparr>wd_deliveries := xs\<rparr>) j = secret_of env d j"
  by (simp_all add: secret_of_def find_subscription_def upd_delivery_def)

lemma secret_of_upd [simp]:
  "(\<And>s. wb_id (f s) = wb_id s) \<Longrightarrow> (\<And>s. wb_secretCipher (f s) = wb_secretCipher s) \<Longrightarrow>
   secret_of env (upd_subscription i f d) j = secret_of env d j"
  by (simp add: secret_of_def find_subscription_upd split: option.splits)

lemma wd_simps [simp]:
  "wd_deliveries (upd_subscription i f d) = wd_deliveries d"
  "wd_subs (upd_delivery i g d) = wd_subs d"
  "wd_deliveries (upd_delivery i g d) = update_where (\<lambda>x. dl_id x = i) g (wd_deliveries d)"
  by (simp_all add: upd_subscription_def upd_delivery_def)

lemma find_subscription_delivery [simp]: "find_subscription (upd_delivery i g d) j = find_subscription d j"
  by (simp add: find_subscription_def)

lemma row_signed_cong:
  "(\<And>j. secret_of env d' j = secret_of env d j) \<Longrightarrow> row_signed env d' = row_signed env d"
  by (simp add: row_signed_def fun_eq_iff)

definition all_signed :: "webhook_env \<Rightarrow> webhook_db \<Rightarrow> bool" where
  "all_signed env d \<longleftrightarrow> distinct (map wb_id (wd_subs d)) \<and> list_all (row_signed env d) (wd_deliveries d)"

lemma queue_one_signed:
  assumes "all_signed env d" "sub \<in> set (wd_subs d)"
  shows "all_signed env (queue_one env io i sub d) \<and> wd_subs (queue_one env io i sub d) = wd_subs d"
proof -
  have "find_subscription d (wb_id sub) = Some sub"
    unfolding find_subscription_def using assms by (intro find_key_in) (simp_all add: all_signed_def)
  then have s: "secret_of env d (wb_id sub) = decryptSecret (we_secrets env) (wb_secretCipher sub)"
    by (simp add: secret_of_def)
  have c: "row_signed env (d\<lparr>wd_deliveries := xs\<rparr>) = row_signed env d" for xs
    by (rule row_signed_cong) simp
  show ?thesis using assms(1)
    by (simp add: queue_one_def all_signed_def c Let_def split: option.splits)
      (simp add: row_signed_def s webhook_canonical_eq canonical_wire)
qed

lemma dispatch_signed:
  assumes "all_signed env d"
  shows "all_signed env (dispatchEvent env io i d)"
proof -
  have "all_signed env (fold (queue_one env io i) subs d')"
    if "all_signed env d'" "set subs \<subseteq> set (wd_subs d')" for subs d'
    using that
  proof (induction subs arbitrary: d')
    case (Cons s subs)
    from queue_one_signed [OF Cons.prems(1), of s io i] Cons.prems(2) show ?case
      by (auto intro!: Cons.IH)
  qed simp
  from this [OF assms] show ?thesis by (auto simp: dispatchEvent_def interested_def)
qed

lemma update_signed:
  assumes "all_signed env d"
    and "\<And>x. dl_subscriptionId (g x) = dl_subscriptionId x \<and> dl_signature (g x) = dl_signature x \<and> dl_payload (g x) = dl_payload x"
  shows "all_signed env (upd_delivery i g d)"
proof -
  have "row_signed env (upd_delivery i g d) = row_signed env d" by (rule row_signed_cong) simp
  moreover have "row_signed env d (g x) = row_signed env d x" for x using assms(2) by (simp add: row_signed_def)
  ultimately show ?thesis using assms(1) by (auto simp: all_signed_def intro!: list_all_update_where)
qed

lemma subscription_signed:
  assumes "all_signed env d" "\<And>s. wb_id (f s) = wb_id s \<and> wb_secretCipher (f s) = wb_secretCipher s"
  shows "all_signed env (upd_subscription i f d)"
proof -
  have "row_signed env (upd_subscription i f d) = row_signed env d" using assms(2) by (intro row_signed_cong) simp
  moreover have "map wb_id (wd_subs (upd_subscription i f d)) = map wb_id (wd_subs d)"
    using assms(2) by (simp add: upd_subscription_def update_where_def)
  ultimately show ?thesis using assms(1) by (simp add: all_signed_def)
qed

lemma claim_delivery_cases:
  "claim_delivery i d = (None, d) \<or>
   (\<exists>g. (\<forall>x. dl_subscriptionId (g x) = dl_subscriptionId x \<and> dl_signature (g x) = dl_signature x \<and> dl_payload (g x) = dl_payload x) \<and>
     snd (claim_delivery i d) = upd_delivery i g d \<and>
     (\<forall>x sub. fst (claim_delivery i d) = Some (x, sub) \<longrightarrow>
       x \<in> set (wd_deliveries (upd_delivery i g d)) \<and> find_subscription d (dl_subscriptionId x) = Some sub))"
proof (cases "find (\<lambda>x. dl_id x = i \<and> queued (dl_state x)) (wd_deliveries d)")
  case (Some y)
  let ?g = "\<lambda>x. if queued (dl_state x) then x\<lparr>dl_state := DvInFlight\<rparr> else x"
  have "find_subscription (upd_delivery i ?g d) j = find_subscription d j" for j by (simp add: find_subscription_def)
  then show ?thesis using Some
    by (intro disjI2 exI [of _ ?g])
      (auto simp: claim_delivery_def find_delivery_def Let_def split: option.splits dest!: find_SomeD)
qed (simp add: claim_delivery_def)

lemma claim_signed:
  assumes "all_signed env d"
  shows "all_signed env (snd (claim_delivery i d)) \<and>
    (\<forall>f. fst (claim_delivery i d) = Some f \<longrightarrow> flight_verifies env f)"
  using claim_delivery_cases [of i d]
proof
  assume "claim_delivery i d = (None, d)"
  then show ?thesis using assms by simp
next
  assume "\<exists>g. (\<forall>x. dl_subscriptionId (g x) = dl_subscriptionId x \<and> dl_signature (g x) = dl_signature x \<and> dl_payload (g x) = dl_payload x) \<and>
     snd (claim_delivery i d) = upd_delivery i g d \<and>
     (\<forall>x sub. fst (claim_delivery i d) = Some (x, sub) \<longrightarrow>
       x \<in> set (wd_deliveries (upd_delivery i g d)) \<and> find_subscription d (dl_subscriptionId x) = Some sub)"
  then obtain g where g: "\<forall>x. dl_subscriptionId (g x) = dl_subscriptionId x \<and> dl_signature (g x) = dl_signature x \<and> dl_payload (g x) = dl_payload x"
    and d1: "snd (claim_delivery i d) = upd_delivery i g d"
    and f: "\<And>x sub. fst (claim_delivery i d) = Some (x, sub) \<Longrightarrow>
       x \<in> set (wd_deliveries (upd_delivery i g d)) \<and> find_subscription d (dl_subscriptionId x) = Some sub" by blast
  have inv: "all_signed env (upd_delivery i g d)" using g by (intro update_signed [OF assms]) blast
  moreover have "flight_verifies env (x, sub)" if c: "fst (claim_delivery i d) = Some (x, sub)" for x sub
  proof -
    have "row_signed env (upd_delivery i g d) x" using f [OF c] inv by (simp add: all_signed_def list_all_iff)
    moreover have "secret_of env (upd_delivery i g d) (dl_subscriptionId x) = decryptSecret (we_secrets env) (wb_secretCipher sub)"
      using f [OF c] by (simp add: secret_of_def)
    ultimately show ?thesis
      by (auto simp: row_signed_def flight_verifies_def receiver_accepts_def webhook_request_of_def)
  qed
  ultimately show ?thesis by (auto simp: d1)
qed

lemma finish_signed: "all_signed env d \<Longrightarrow> all_signed env (finish_delivery now latencyMs x sub r d)"
  unfolding finish_delivery_def Let_def by (auto intro!: subscription_signed update_signed)

lemma replay_signed: "all_signed env d \<Longrightarrow> all_signed env (snd (replay_delivery i now d))"
  by (auto simp: replay_delivery_def intro!: update_signed split: option.splits)

definition webhook_inv :: "webhook_env \<Rightarrow> webhook_world \<Rightarrow> bool" where
  "webhook_inv env w \<longleftrightarrow> all_signed env (ww_db w) \<and> list_all (flight_verifies env) (ww_flights w)"

lemma webhook_step_inv: "webhook_inv env w \<Longrightarrow> webhook_inv env (webhook_step env e w)"
proof (cases e)
  case (WhClaim i)
  assume w: "webhook_inv env w"
  obtain f d where c: "claim_delivery i (ww_db w) = (f, d)" by fastforce
  from claim_signed [of env "ww_db w" i] w c show ?thesis
    by (cases f) (auto simp: WhClaim webhook_inv_def webhook_step_def)
qed (auto simp: webhook_inv_def webhook_step_def list_all_iff dispatch_signed finish_signed replay_signed split: option.splits)

interpretation webhooks: event_machine "webhook_step env" "\<lambda>e. True" "webhook_inv env"
  by unfold_locales (rule webhook_step_inv)

lemma webhook_run_inv: "webhook_inv env w \<Longrightarrow> webhook_inv env (webhook_run env es w)"
  unfolding webhook_run_def by (rule webhooks.run_inv) (simp_all add: list_all_iff)

section \<open>One delivery\<close>

text \<open>Attempts of one delivery one after another, each a claim and a result; how many requests were sent.\<close>

fun deliver_all :: "uuid \<Rightarrow> (msec \<times> int \<times> delivery_result) list \<Rightarrow> webhook_db \<Rightarrow> nat \<times> webhook_db" where
  "deliver_all i [] d = (0, d)"
| "deliver_all i ((now, latencyMs, r) # rs) d =
     (case claim_delivery i d of
        (None, d1) \<Rightarrow> (0, d1)
      | (Some (x, sub), d1) \<Rightarrow>
          (let (n, d2) = deliver_all i rs (finish_delivery now latencyMs x sub r d1) in (Suc n, d2)))"

text \<open>A delivery with its subscription, and no other of its id.\<close>

definition delivery_at :: "webhook_db \<Rightarrow> uuid \<Rightarrow> delivery_row \<Rightarrow> bool" where
  "delivery_at d i x \<longleftrightarrow> dl_id x = i \<and> filter (\<lambda>y. dl_id y = i) (wd_deliveries d) = [x] \<and>
     find_subscription d (dl_subscriptionId x) \<noteq> None"

lemma filter_find: "filter p xs = [x] \<Longrightarrow> find (\<lambda>y. p y \<and> q y) xs = (if q x then Some x else None)"
  by (induction xs) (auto simp: find_None_iff filter_empty_conv split: if_splits)

lemma filter_update_at:
  "filter (\<lambda>y. dl_id y = i) xs = [x] \<Longrightarrow> dl_id x = i \<Longrightarrow> dl_id (g x) = i \<Longrightarrow>
   filter (\<lambda>y. dl_id y = i) (update_where (\<lambda>y. dl_id y = i) g xs) = [g x]"
  by (induction xs) (auto split: if_splits simp: filter_empty_conv update_where_none)

lemma upd_delivery_at:
  "delivery_at d i x \<Longrightarrow> dl_id (g x) = i \<Longrightarrow> dl_subscriptionId (g x) = dl_subscriptionId x \<Longrightarrow>
   delivery_at (upd_delivery i g d) i (g x)"
  by (simp add: delivery_at_def filter_update_at find_subscription_def)

lemma upd_subscription_at:
  "delivery_at d i x \<Longrightarrow> (\<And>s. wb_id (f s) = wb_id s) \<Longrightarrow> delivery_at (upd_subscription j f d) i x"
  by (auto simp: delivery_at_def find_subscription_upd)

lemma claim_at:
  assumes "delivery_at d i x"
  shows "if queued (dl_state x)
    then \<exists>sub d1. claim_delivery i d = (Some (x\<lparr>dl_state := DvInFlight\<rparr>, sub), d1) \<and> delivery_at d1 i (x\<lparr>dl_state := DvInFlight\<rparr>)
    else claim_delivery i d = (None, d)"
proof (cases "queued (dl_state x)")
  case True
  let ?g = "\<lambda>x. if queued (dl_state x) then x\<lparr>dl_state := DvInFlight\<rparr> else x"
  have at: "delivery_at (upd_delivery i ?g d) i (x\<lparr>dl_state := DvInFlight\<rparr>)"
    using upd_delivery_at [OF assms, of ?g] True assms by (simp add: delivery_at_def)
  then have "find_delivery (upd_delivery i ?g d) i = Some (x\<lparr>dl_state := DvInFlight\<rparr>)"
    unfolding find_delivery_def delivery_at_def using filter_find [where q = "\<lambda>_. True"] by fastforce
  moreover have "find (\<lambda>y. dl_id y = i \<and> queued (dl_state y)) (wd_deliveries d) = Some x"
    using assms True filter_find unfolding delivery_at_def by fastforce
  ultimately show ?thesis using at True
    by (auto simp: claim_delivery_def Let_def delivery_at_def split: option.splits)
next
  case False
  then have "find (\<lambda>y. dl_id y = i \<and> queued (dl_state y)) (wd_deliveries d) = None"
    using assms filter_find unfolding delivery_at_def by fastforce
  with False show ?thesis by (simp add: claim_delivery_def)
qed

text \<open>The row after an attempt.\<close>

definition attempted :: "msec \<Rightarrow> int \<Rightarrow> delivery_result \<Rightarrow> delivery_row \<Rightarrow> delivery_row" where
  "attempted now latencyMs r x =
     (if result_ok r
      then x\<lparr>dl_state := DvSucceeded, dl_httpStatus := result_status r, dl_responseBody := result_body r,
             dl_latencyMs := Some latencyMs, dl_completedAt := Some now\<rparr>
      else x\<lparr>dl_state := (if WH_MAX_ATTEMPTS \<le> dl_attempt x then DvDeadLettered else DvFailedRetry),
             dl_httpStatus := result_status r, dl_responseBody := nullish_opt (result_body r) (result_error r),
             dl_latencyMs := Some latencyMs, dl_attempt := dl_attempt x + 1,
             dl_nextAttemptAt := (if WH_MAX_ATTEMPTS \<le> dl_attempt x then None else Some (now + backoffFor (dl_attempt x))),
             dl_deadLetteredAt := (if WH_MAX_ATTEMPTS \<le> dl_attempt x then Some now else dl_deadLetteredAt x)\<rparr>)"

lemma finish_at:
  assumes "delivery_at d i x"
  shows "delivery_at (finish_delivery now latencyMs x sub r d) i (attempted now latencyMs r x)"
proof -
  have i: "dl_id x = i" using assms by (simp add: delivery_at_def)
  show ?thesis
  proof (cases "result_ok r")
    case True
    then have "finish_delivery now latencyMs x sub r d =
        upd_subscription (wb_id sub) (\<lambda>s. s\<lparr>wb_failureCount := 0, wb_lastSuccessAt := Some now\<rparr>) (upd_delivery i (attempted now latencyMs r) d)"
      by (simp add: finish_delivery_def attempted_def [abs_def] i)
    moreover have "delivery_at (upd_delivery i (attempted now latencyMs r) d) i (attempted now latencyMs r x)"
      by (rule upd_delivery_at [OF assms]) (simp_all add: attempted_def i)
    ultimately show ?thesis by (simp add: upd_subscription_at)
  next
    case False
    define g where "g y = y\<lparr>dl_state := dl_state (attempted now latencyMs r x), dl_httpStatus := result_status r,
       dl_responseBody := nullish_opt (result_body r) (result_error r), dl_latencyMs := Some latencyMs,
       dl_attempt := dl_attempt x + 1, dl_nextAttemptAt := dl_nextAttemptAt (attempted now latencyMs r x),
       dl_deadLetteredAt := (if WH_MAX_ATTEMPTS \<le> dl_attempt x then Some now else dl_deadLetteredAt y)\<rparr>" for y :: delivery_row
    obtain f where f: "\<And>s. wb_id (f s) = wb_id s"
      and fin: "finish_delivery now latencyMs x sub r d = upd_subscription (wb_id sub) f (upd_delivery i g d)"
      by (rule that [of "\<lambda>s. s\<lparr>wb_failureCount := wb_failureCount s + 1, wb_lastFailureAt := Some now,
          wb_lastFailureReason := Some (take 256 (fail_reason r))\<rparr>"])
        (simp_all add: finish_delivery_def attempted_def g_def [abs_def] i False Let_def)
    have "g x = attempted now latencyMs r x" using False by (simp add: g_def attempted_def)
    moreover have "delivery_at (upd_delivery i g d) i (g x)"
      by (rule upd_delivery_at [OF assms]) (simp_all add: g_def i)
    ultimately show ?thesis unfolding fin using upd_subscription_at [OF _ f] by metis
  qed
qed

lemma deliver_all_at:
  assumes "delivery_at d i x" "queued (dl_state x)" "dl_attempt x = a" "1 \<le> a" "a \<le> WH_MAX_ATTEMPTS"
    and "WH_MAX_ATTEMPTS - a < length rs"
  shows "\<exists>n d' x'. deliver_all i rs d = (n, d') \<and> delivery_at d' i x' \<and>
    (let tries = map (\<lambda>(now, latencyMs, r). result_ok r) (take (WH_MAX_ATTEMPTS + 1 - a) rs) in
      if True \<in> set tries then n = Suc (length (takeWhile Not tries)) \<and> dl_state x' = DvSucceeded
      else n = WH_MAX_ATTEMPTS + 1 - a \<and> dl_state x' = DvDeadLettered)"
  using assms
proof (induction rs arbitrary: d x a)
  case (Cons t rs)
  obtain now latencyMs r where t: "t = (now, latencyMs, r)" by (metis prod_cases3)
  obtain sub d1 where c: "claim_delivery i d = (Some (x\<lparr>dl_state := DvInFlight\<rparr>, sub), d1)"
    and at1: "delivery_at d1 i (x\<lparr>dl_state := DvInFlight\<rparr>)" using claim_at [OF Cons.prems(1)] Cons.prems(2) by auto
  define y where "y = attempted now latencyMs r (x\<lparr>dl_state := DvInFlight\<rparr>)"
  define d2 where "d2 = finish_delivery now latencyMs (x\<lparr>dl_state := DvInFlight\<rparr>) sub r d1"
  have at2: "delivery_at d2 i y" unfolding d2_def y_def by (rule finish_at [OF at1])
  have run: "deliver_all i (t # rs) d = (let (n, d') = deliver_all i rs d2 in (Suc n, d'))"
    by (simp add: t c d2_def)
  have stop: "deliver_all i rs d2 = (0, d2)" if "\<not> queued (dl_state y)"
    using claim_at [OF at2] that by (cases rs) auto
  have tries: "take (WH_MAX_ATTEMPTS + 1 - a) (t # rs) = t # take (WH_MAX_ATTEMPTS - a) rs"
    using Cons.prems(5) by (simp add: Suc_diff_le)
  consider (ok) "result_ok r" | (dead) "\<not> result_ok r" "WH_MAX_ATTEMPTS = a" | (retry) "\<not> result_ok r" "a < WH_MAX_ATTEMPTS"
    using Cons.prems(5) by linarith
  then show ?case
  proof cases
    case ok
    then have "dl_state y = DvSucceeded" by (simp add: y_def attempted_def)
    then show ?thesis using at2 run stop ok unfolding tries by (auto simp: queued_def t)
  next
    case dead
    then have "dl_state y = DvDeadLettered" using Cons.prems(3) by (simp add: y_def attempted_def)
    then show ?thesis using at2 run stop dead unfolding tries by (auto simp: queued_def t)
  next
    case retry
    then have y: "dl_state y = DvFailedRetry" "dl_attempt y = Suc a" using Cons.prems(3) by (simp_all add: y_def attempted_def)
    have "\<exists>n d' x'. deliver_all i rs d2 = (n, d') \<and> delivery_at d' i x' \<and>
      (let tries = map (\<lambda>(now, latencyMs, r). result_ok r) (take (WH_MAX_ATTEMPTS + 1 - Suc a) rs) in
        if True \<in> set tries then n = Suc (length (takeWhile Not tries)) \<and> dl_state x' = DvSucceeded
        else n = WH_MAX_ATTEMPTS + 1 - Suc a \<and> dl_state x' = DvDeadLettered)"
      by (rule Cons.IH [OF at2]) (use y retry Cons.prems(4-6) in \<open>auto simp: queued_def\<close>)
    then show ?thesis using retry unfolding run tries by (auto simp: t Let_def Suc_diff_le split: if_splits)
  qed
qed simp

text \<open>The waits double from 30 seconds; the longest is 32 minutes, so the cap of an hour is never reached.\<close>

lemma backoff_values:
  assumes "1 \<le> a" "a < WH_MAX_ATTEMPTS"
  shows "backoffFor a = 30000 * 2 ^ (a - 1) \<and> backoffFor a \<le> 32 * 60000"
proof -
  have "a \<in> {1, 2, 3, 4, 5, 6, 7}" using assms by (auto simp: WH_MAX_ATTEMPTS_def)
  then show ?thesis by (auto simp: backoffFor_def BACKOFF_BASE_MS_def BACKOFF_CAP_MS_def)
qed

section \<open>A delivery that a crash left in flight\<close>

definition new_id :: "uuid \<Rightarrow> webhook_event \<Rightarrow> bool" where
  "new_id i e \<longleftrightarrow> (case e of WhDispatch io _ \<Rightarrow> i \<notin> range (dx_ids io) | _ \<Rightarrow> True)"

definition stranded :: "uuid \<Rightarrow> delivery_row \<Rightarrow> webhook_world \<Rightarrow> bool" where
  "stranded i x w \<longleftrightarrow> filter (\<lambda>y. dl_id y = i) (wd_deliveries (ww_db w)) = [x] \<and> dl_state x = DvInFlight \<and>
     (\<forall>f \<in> set (ww_flights w). dl_id (fst f) \<noteq> i)"

lemma filter_update_other:
  "i \<noteq> j \<Longrightarrow> (\<And>y. dl_id (g y) = dl_id y) \<Longrightarrow>
   filter (\<lambda>y. dl_id y = i) (update_where (\<lambda>y. dl_id y = j) g xs) = filter (\<lambda>y. dl_id y = i) xs"
  by (rule filter_update_where_other) auto

lemma dispatch_other_rows:
  "i \<notin> range (dx_ids io) \<Longrightarrow>
   filter (\<lambda>y. dl_id y = i) (wd_deliveries (dispatchEvent env io inp d)) = filter (\<lambda>y. dl_id y = i) (wd_deliveries d)"
proof -
  assume i: "i \<notin> range (dx_ids io)"
  have one: "filter (\<lambda>y. dl_id y = i) (wd_deliveries (queue_one env io inp s d)) = filter (\<lambda>y. dl_id y = i) (wd_deliveries d)" for s d
    using i by (auto simp: queue_one_def Let_def split: option.splits)
  have "filter (\<lambda>y. dl_id y = i) (wd_deliveries (fold (queue_one env io inp) ss d)) = filter (\<lambda>y. dl_id y = i) (wd_deliveries d)" for ss
    by (induction ss arbitrary: d) (simp_all add: one)
  then show ?thesis by (simp add: dispatchEvent_def)
qed

lemma claim_other_rows:
  "i \<noteq> j \<Longrightarrow> filter (\<lambda>y. dl_id y = i) (wd_deliveries (snd (claim_delivery j d))) = filter (\<lambda>y. dl_id y = i) (wd_deliveries d) \<and>
    (\<forall>f. fst (claim_delivery j d) = Some f \<longrightarrow> dl_id (fst f) = j)"
  by (auto simp: claim_delivery_def find_delivery_def filter_update_other Let_def split: option.splits dest!: find_SomeD)

lemma finish_other_rows:
  "dl_id x \<noteq> i \<Longrightarrow> filter (\<lambda>y. dl_id y = i) (wd_deliveries (finish_delivery now latencyMs x sub r d)) =
     filter (\<lambda>y. dl_id y = i) (wd_deliveries d)"
  by (auto simp: finish_delivery_def filter_update_other Let_def)

lemma stranded_step:
  assumes "stranded i x w" "new_id i e"
  shows "stranded i x (webhook_step env e w)"
proof (cases e)
  case (WhDispatch io inp)
  then show ?thesis using assms by (simp add: stranded_def webhook_step_def new_id_def dispatch_other_rows)
next
  case (WhClaim j)
  show ?thesis
  proof (cases "j = i")
    case True
    have "find (\<lambda>y. dl_id y = i \<and> queued (dl_state y)) (wd_deliveries (ww_db w)) = None"
      using assms(1) filter_find [of "\<lambda>y. dl_id y = i" _ x "\<lambda>y. queued (dl_state y)"] by (simp add: stranded_def queued_def)
    then show ?thesis using assms(1) by (simp add: WhClaim True webhook_step_def claim_delivery_def)
  next
    case False
    obtain f d where c: "claim_delivery j (ww_db w) = (f, d)" by fastforce
    with claim_other_rows [of i j "ww_db w"] False
    have "filter (\<lambda>y. dl_id y = i) (wd_deliveries d) = filter (\<lambda>y. dl_id y = i) (wd_deliveries (ww_db w))"
      "\<forall>g. f = Some g \<longrightarrow> dl_id (fst g) = j" by auto
    then show ?thesis using assms(1) False c by (cases f) (auto simp: WhClaim webhook_step_def stranded_def)
  qed
next
  case (WhFinish j now latencyMs r)
  show ?thesis
  proof (cases "find (\<lambda>f. dl_id (fst f) = j) (ww_flights w)")
    case (Some f)
    then have "dl_id (fst f) \<noteq> i" using assms(1) by (auto simp: stranded_def dest: find_SomeD)
    then show ?thesis using assms(1) Some by (auto simp: WhFinish webhook_step_def stranded_def finish_other_rows)
  qed (use assms(1) in \<open>simp add: WhFinish webhook_step_def\<close>)
next
  case (WhReplay j now)
  show ?thesis
  proof (cases "j = i")
    case True
    have "find_delivery (ww_db w) i = Some x"
      using assms(1) filter_find [of "\<lambda>y. dl_id y = i" _ x "\<lambda>_. True"] by (simp add: stranded_def find_delivery_def)
    then show ?thesis using assms(1) by (simp add: WhReplay True webhook_step_def replay_delivery_def stranded_def)
  next
    case False
    then show ?thesis using assms(1)
      by (auto simp: WhReplay webhook_step_def replay_delivery_def stranded_def filter_update_other split: option.splits)
  qed
next
  case WhCrash
  then show ?thesis using assms(1) by (simp add: webhook_step_def stranded_def)
qed

interpretation stranding: event_machine "webhook_step env" "new_id i" "stranded i x"
  by unfold_locales (rule stranded_step)

lemma stranded_run: "stranded i x w \<Longrightarrow> \<forall>e \<in> set es. new_id i e \<Longrightarrow> stranded i x (webhook_run env es w)"
  unfolding webhook_run_def by (rule stranding.run_inv) (simp_all add: list_all_iff)

lemma stranded_not_due: "stranded i x w \<Longrightarrow> i \<notin> set (due_batch now (ww_db w))"
proof
  assume s: "stranded i x w" and "i \<in> set (due_batch now (ww_db w))"
  then obtain y where "y \<in> set (wd_deliveries (ww_db w))" "dl_id y = i" "queued (dl_state y)"
    by (auto simp: due_batch_def dest!: in_set_takeD)
  then have "y \<in> set (filter (\<lambda>y. dl_id y = i) (wd_deliveries (ww_db w)))" by simp
  with s \<open>queued (dl_state y)\<close> show False by (simp add: stranded_def queued_def)
qed

section \<open>Properties\<close>


text \<open>C11. A delivery ends: a queued row at its first attempt is sent until an attempt succeeds, and
  at most eight times; it ends as succeeded if one of the eight attempts was answered with
  a 2xx status and otherwise as a dead letter, whatever the receiver does.\<close>

theorem webhook_delivery_ends:
  assumes "delivery_at d i x" "queued (dl_state x)" "dl_attempt x = 1" "8 \<le> length rs"
  shows "\<exists>n d' x'. deliver_all i rs d = (n, d') \<and> delivery_at d' i x' \<and>
    (let tries = map (\<lambda>(now, latencyMs, r). result_ok r) (take 8 rs) in
      if True \<in> set tries then n = Suc (length (takeWhile Not tries)) \<and> dl_state x' = DvSucceeded
      else n = 8 \<and> dl_state x' = DvDeadLettered)"
proof -
  have n: "WH_MAX_ATTEMPTS + 1 - 1 = 8" "1 \<le> WH_MAX_ATTEMPTS" "WH_MAX_ATTEMPTS - 1 < length rs"
    using assms(4) by (simp_all add: WH_MAX_ATTEMPTS_def)
  show ?thesis by (rule deliver_all_at [OF assms(1-3) order.refl n(2,3), unfolded n(1)])
qed

text \<open>C39. A process that stops while a webhook is under way loses it: the row stays in flight for
  ever, is in no later batch, and not even a replay brings it back.\<close>

theorem crashed_delivery_stuck:
  assumes "delivery_at (ww_db w) i x" "queued (dl_state x)" "\<forall>e \<in> set es. new_id i e"
  shows "let w' = webhook_run env (WhClaim i # WhCrash # es) w in
    filter (\<lambda>y. dl_id y = i) (wd_deliveries (ww_db w')) = [x\<lparr>dl_state := DvInFlight\<rparr>] \<and>
    i \<notin> set (due_batch now (ww_db w')) \<and> fst (replay_delivery i now (ww_db w')) = False"
proof -
  let ?x = "x\<lparr>dl_state := DvInFlight\<rparr>"
  obtain sub d1 where c: "claim_delivery i (ww_db w) = (Some (?x, sub), d1)" and at1: "delivery_at d1 i ?x"
    using claim_at [OF assms(1)] assms(2) by auto
  then have "stranded i ?x (webhook_step env WhCrash (webhook_step env (WhClaim i) w))"
    by (simp add: webhook_step_def stranded_def delivery_at_def)
  from stranded_run [OF this assms(3)]
  have s: "stranded i ?x (webhook_run env (WhClaim i # WhCrash # es) w)" by (simp add: webhook_run_def)
  then have "find_delivery (ww_db (webhook_run env (WhClaim i # WhCrash # es) w)) i = Some ?x"
    using filter_find [of "\<lambda>y. dl_id y = i" _ ?x "\<lambda>_. True"] by (simp add: stranded_def find_delivery_def)
  with s stranded_not_due [OF s] show ?thesis by (simp add: stranded_def replay_delivery_def Let_def)
qed

text \<open>A webhook that was queued before its subscription's secret was rotated is announced under
  the new version of the secret but still carries the signature of the old one, so a receiver
  that goes by the version refuses it (unless the two keyed hashes collide).\<close>

theorem rotation_breaks_queued_webhooks:
  assumes "delivery_at d i x" "queued (dl_state x)" "row_signed env d x"
    and "find_subscription d (dl_subscriptionId x) = Some s" "wb_operatorId s = opid"
    and "secret_of env d (dl_subscriptionId x) = Some old"
    and "d1 = snd (rotate_webhook_secret env io (Some ''OPERATOR_ADMIN'') opid (dl_subscriptionId x) d)"
  shows "\<exists>y sub d2. claim_delivery i d1 = (Some (y, sub), d2) \<and>
    (let rq = webhook_request_of env now y sub in
      map_of (wq_headers rq) ''X-Yantra-Signature-Version'' = Some (next_version (wb_secretVersion s)) \<and>
      receiver_accepts (we_hmac env) old rq \<and>
      (receiver_accepts (we_hmac env) (sx_secret io) rq \<longleftrightarrow>
        digest_hex (we_hmac env (sx_secret io) (wq_body rq)) = digest_hex (we_hmac env old (wq_body rq))))"
proof -
  let ?f = "\<lambda>s. s\<lparr>wb_secretCipher := encryptSecret (we_secrets env) (sx_iv io) (sx_secret io), wb_secretVersion := next_version (wb_secretVersion s)\<rparr>"
  have id: "wb_id s = dl_subscriptionId x" using assms(4) by (auto simp: find_subscription_def dest: find_SomeD)
  have d1: "d1 = upd_subscription (dl_subscriptionId x) (\<lambda>t. t\<lparr>wb_secretCipher := encryptSecret (we_secrets env) (sx_iv io) (sx_secret io),
      wb_secretVersion := next_version (wb_secretVersion s)\<rparr>) d"
    using assms(4,5,7) by (simp add: rotate_webhook_secret_def admin_only_def requireOperatorAdmin_def requireRole_def truthy_def
        own_subscription_def id Let_def)
  have at1: "delivery_at d1 i x" unfolding d1 by (rule upd_subscription_at [OF assms(1)]) simp
  obtain sub d2 where c: "claim_delivery i d1 = (Some (x\<lparr>dl_state := DvInFlight\<rparr>, sub), d2)"
    using claim_at [OF at1] assms(2) by auto
  from claim_delivery_cases [of i d1] c have "find_subscription d1 (dl_subscriptionId x) = Some sub" by auto
  then have v: "wb_secretVersion sub = next_version (wb_secretVersion s)"
    using assms(4) by (auto simp: d1 find_subscription_upd)
  have "dl_signature x = sign_hex (we_hmac env) old (webhookCanonicalJson (we_numstr env) (dl_payload x))"
    using assms(3,6) by (simp add: row_signed_def)
  then show ?thesis using c v by (auto simp: webhook_request_of_def receiver_accepts_def sign_hex_def Let_def)
qed

text \<open>A subscription, an event and a receiver.\<close>

definition sample_webhook :: webhook_env where
  "sample_webhook = \<lparr>we_hmac = (\<lambda>k _. of_nat (length k)),
     we_secrets = \<lparr>gcm_seal = \<lambda>iv p. (''0123456789abcdef'', p), gcm_open = \<lambda>iv t c. Some c\<rparr>, we_numstr = (\<lambda>_. ''1'')\<rparr>"

definition sample_subscription :: subscription_row where
  "sample_subscription = \<lparr>wb_id = ''sub'', wb_operatorId = ''op'', wb_url = ''http://op/hook'', wb_eventTypes = [],
     wb_secretCipher = encryptSecret (we_secrets sample_webhook) ''123456789012'' ''old'', wb_enabled = True,
     wb_description = None, wb_secretVersion = ''v1'', wb_failureCount = 0, wb_lastSuccessAt = None,
     wb_lastFailureAt = None, wb_lastFailureReason = None, wb_createdAt = 0\<rparr>"

definition sample_dispatch :: dispatch_input where
  "sample_dispatch = \<lparr>di_operatorId = ''op'', di_eventType = ''webhook.test'', di_data = JObj [(''note'', JStr ''n'')],
     di_dataVersion = None, di_eventId = Some ''e1'', di_occurredAt = Some 0\<rparr>"

definition sample_dispatch_io :: dispatch_io where
  "sample_dispatch_io = \<lparr>dx_now = 3, dx_eventId = ''e0'', dx_ids = (\<lambda>i. ''d1'')\<rparr>"

definition sample_webhook_db :: webhook_db where
  "sample_webhook_db = dispatchEvent sample_webhook sample_dispatch_io sample_dispatch
     \<lparr>wd_subs = [sample_subscription], wd_deliveries = []\<rparr>"

lemma sample_secret: "decryptSecret (we_secrets sample_webhook) (encryptSecret (we_secrets sample_webhook) ''123456789012'' k) = Some k"
  by (rule secret_roundtrip) (simp_all add: gcm_lawful_def sample_webhook_def TAG_LEN_def IV_LEN_def)

lemma sample_queued:
  "\<exists>x. delivery_at sample_webhook_db ''d1'' x \<and> queued (dl_state x) \<and> dl_attempt x = 1 \<and> dl_subscriptionId x = ''sub'' \<and>
     row_signed sample_webhook sample_webhook_db x \<and>
     find_subscription sample_webhook_db ''sub'' = Some sample_subscription \<and>
     secret_of sample_webhook sample_webhook_db ''sub'' = Some ''old''"
proof -
  have "all_signed sample_webhook sample_webhook_db"
    unfolding sample_webhook_db_def by (rule dispatch_signed) (simp add: all_signed_def)
  moreover have "\<exists>x. wd_deliveries sample_webhook_db = [x] \<and> dl_id x = ''d1'' \<and> dl_state x = DvPending \<and> dl_attempt x = 1 \<and>
      dl_subscriptionId x = ''sub'' \<and> wd_subs sample_webhook_db = [sample_subscription]"
    by (simp add: sample_webhook_db_def dispatchEvent_def interested_def queue_one_def envelope_def sample_subscription_def
        sample_dispatch_def sample_dispatch_io_def sample_secret Let_def)
  ultimately show ?thesis
    by (auto simp: delivery_at_def queued_def all_signed_def find_subscription_def secret_of_def)
      (simp_all add: sample_subscription_def sample_secret)
qed


theorem webhook_delivery_ends_witness:
  "\<exists>d' x'. deliver_all ''d1'' ((5, 1, WebhookAnswered 500 None) # (40000, 9, WebhookUnanswered ''timeout'') #
      replicate 6 (110000, 2, WebhookAnswered 204 None)) sample_webhook_db = (3, d') \<and>
    delivery_at d' ''d1'' x' \<and> dl_state x' = DvSucceeded"
proof -
  obtain x where x: "delivery_at sample_webhook_db ''d1'' x" "queued (dl_state x)" "dl_attempt x = 1"
    using sample_queued by blast
  show ?thesis
    using webhook_delivery_ends [OF x, of "(5, 1, WebhookAnswered 500 None) # (40000, 9, WebhookUnanswered ''timeout'') #
      replicate 6 (110000, 2, WebhookAnswered 204 None)"]
    by (simp add: result_ok_def result_status_def) (auto simp: numeral_3_eq_3)
qed

theorem crashed_delivery_stuck_witness:
  "\<exists>x. filter (\<lambda>y. dl_id y = ''d1'') (wd_deliveries (ww_db (webhook_run sample_webhook
        [WhClaim ''d1'', WhCrash, WhReplay ''d1'' 90, WhClaim ''d1''] \<lparr>ww_db = sample_webhook_db, ww_flights = []\<rparr>))) =
      [x\<lparr>dl_state := DvInFlight\<rparr>] \<and>
    ''d1'' \<notin> set (due_batch 900000 (ww_db (webhook_run sample_webhook
        [WhClaim ''d1'', WhCrash, WhReplay ''d1'' 90, WhClaim ''d1''] \<lparr>ww_db = sample_webhook_db, ww_flights = []\<rparr>)))"
proof -
  obtain x where x: "delivery_at (ww_db \<lparr>ww_db = sample_webhook_db, ww_flights = []\<rparr>) ''d1'' x" "queued (dl_state x)"
    using sample_queued by auto
  have "\<forall>e \<in> set [WhReplay ''d1'' 90, WhClaim ''d1'']. new_id ''d1'' e" by (simp add: new_id_def)
  from crashed_delivery_stuck [OF x this, of sample_webhook 900000] show ?thesis by (auto simp: Let_def)
qed

theorem rotation_breaks_queued_webhooks_witness:
  "\<exists>d1 y sub d2. d1 = snd (rotate_webhook_secret sample_webhook
        \<lparr>sx_now = 9, sx_id = [], sx_secret = ''newer'', sx_iv = ''123456789012''\<rparr> (Some ''OPERATOR_ADMIN'') ''op'' ''sub'' sample_webhook_db) \<and>
     claim_delivery ''d1'' d1 = (Some (y, sub), d2) \<and>
     map_of (wq_headers (webhook_request_of sample_webhook 10 y sub)) ''X-Yantra-Signature-Version'' = Some ''v2'' \<and>
     \<not> receiver_accepts (we_hmac sample_webhook) ''newer'' (webhook_request_of sample_webhook 10 y sub)"
proof -
  let ?io = "\<lparr>sx_now = 9, sx_id = [], sx_secret = ''newer'', sx_iv = ''123456789012''\<rparr>"
  obtain x where x: "delivery_at sample_webhook_db ''d1'' x" "queued (dl_state x)" "row_signed sample_webhook sample_webhook_db x"
    "find_subscription sample_webhook_db (dl_subscriptionId x) = Some sample_subscription"
    "secret_of sample_webhook sample_webhook_db (dl_subscriptionId x) = Some ''old''" "dl_subscriptionId x = ''sub''"
    using sample_queued by auto
  have op: "wb_operatorId sample_subscription = ''op''" by (simp add: sample_subscription_def)
  have ver: "next_version (wb_secretVersion sample_subscription) = ''v2''"
    by (simp add: next_version_def sample_subscription_def is_dec_def hex_val_def show_int_def dec_digits.simps char_of_def bit_0)
  have hash: "digest_hex (we_hmac sample_webhook ''newer'' b) \<noteq> digest_hex (we_hmac sample_webhook ''old'' b)" for b
    using digest_hex_inj [of 5 3] by (auto simp: sample_webhook_def)
  from rotation_breaks_queued_webhooks [OF x(1-4) op x(5) refl, of ?io 10] show ?thesis
    unfolding ver by (auto simp: hash x(6) Let_def)
qed

end
