(* ===== verification/Reconciliation.thy ===== *)
theory Reconciliation
  imports WalletClient Access Schemas Evidence
begin

text \<open>
  Daily totals and reconciliation (\<^verbatim>\<open>apps/rgs-server/src/services/ReconciliationJob.ts\<close>) and the
  reports built on them (\<^verbatim>\<open>routes/reports.ts\<close>, \<^verbatim>\<open>routes/admin.ts\<close>). The runtime's reading of a
  date text is the parameter \<open>parse_day\<close>. A row of pending work comes with its creation instant.
\<close>

section \<open>Totals of a day\<close>

definition MINOR_DRIFT_THRESHOLD :: jsnum where "MINOR_DRIFT_THRESHOLD = fl (1 / 1000)"

record daily_totals =
  dt_operatorId :: uuid
  dt_date :: string
  dt_currency :: string
  dt_betsCount :: nat
  dt_betsAmountMicro :: micro
  dt_winsCount :: nat
  dt_winsAmountMicro :: micro
  dt_rollbacksCount :: nat
  dt_rollbacksAmountMicro :: micro
  dt_netRevenueMicro :: micro
  dt_failedCallsCount :: nat
  dt_pendingJobsCount :: nat

definition in_day :: "msec \<Rightarrow> msec \<Rightarrow> bool" where
  "in_day dayStart t \<longleftrightarrow> dayStart \<le> t \<and> t < dayStart + DAY_MS"

text \<open>The outbound calls of an operator in a currency within a day.\<close>

definition day_calls :: "uuid \<Rightarrow> string \<Rightarrow> msec \<Rightarrow> wallet_call_row list \<Rightarrow> wallet_call_row list" where
  "day_calls operatorId currency dayStart = filter (\<lambda>r. wc_operatorId r = operatorId \<and> wc_direction r = ''OUTBOUND'' \<and>
     wc_currency r = Some currency \<and> in_day dayStart (wc_createdAt r))"

definition succeeded_calls :: "wallet_endpoint \<Rightarrow> wallet_call_row list \<Rightarrow> wallet_call_row list" where
  "succeeded_calls e = filter (\<lambda>r. wc_endpoint r = e \<and> wc_succeeded r)"

definition sum_amount :: "wallet_call_row list \<Rightarrow> micro" where
  "sum_amount = sum_by (\<lambda>r. nullish (wc_amountMicro r) 0)"

definition computeDailyTotals ::
    "wallet_call_row list \<Rightarrow> (job_row \<times> msec) list \<Rightarrow> uuid \<Rightarrow> string \<Rightarrow> msec \<Rightarrow> daily_totals" where
  "computeDailyTotals calls jobs operatorId currency date =
     (let dayStart = utc_day_start date; day = day_calls operatorId currency dayStart calls;
          bets = succeeded_calls EBET day; wins = succeeded_calls EWIN day; rollbacks = succeeded_calls EROLLBACK day;
          failed = filter (\<lambda>r. \<not> wc_succeeded r) day;
          pending = filter (\<lambda>(j, t). jo_operatorId j = operatorId \<and> jo_completedAt j = None \<and> in_day dayStart t) jobs;
          betsAmount = sum_amount bets; winsAmount = sum_amount wins; rollbacksAmount = sum_amount rollbacks
      in \<lparr>dt_operatorId = operatorId, dt_date = take 10 (toISOString dayStart), dt_currency = currency,
          dt_betsCount = length bets, dt_betsAmountMicro = betsAmount, dt_winsCount = length wins,
          dt_winsAmountMicro = winsAmount, dt_rollbacksCount = length rollbacks, dt_rollbacksAmountMicro = rollbacksAmount,
          dt_netRevenueMicro = betsAmount - winsAmount - rollbacksAmount, dt_failedCallsCount = length failed,
          dt_pendingJobsCount = length pending\<rparr>)"

section \<open>Reconciliation\<close>

record settlement_input =
  st_operatorId :: uuid
  st_date :: string
  st_currency :: string
  st_betsAmountMicro :: micro
  st_winsAmountMicro :: micro
  st_rollbacksAmountMicro :: micro

datatype reconciliation_status = RecMatch | RecMinorDrift | RecMajorDrift

text \<open>A share, which is infinite when our total is zero and theirs is not.\<close>

datatype drift_share = Share jsnum | InfiniteShare

definition pctDrift :: "micro \<Rightarrow> micro \<Rightarrow> drift_share" where
  "pctDrift drift base =
     (if drift = 0 then Share 0 else if base = 0 then InfiniteShare
      else Share (jdiv (fl (of_int \<bar>drift\<bar>)) (fl (of_int \<bar>base\<bar>))))"

definition max_share :: "drift_share \<Rightarrow> drift_share \<Rightarrow> drift_share" where
  "max_share a b = (case (a, b) of (Share x, Share y) \<Rightarrow> Share (max x y) | _ \<Rightarrow> InfiniteShare)"

record reconciliation_diff =
  rd_totalsOurs :: daily_totals
  rd_totalsTheirs :: settlement_input
  rd_bets :: micro
  rd_wins :: micro
  rd_rollbacks :: micro
  rd_net :: micro
  rd_maxDriftPct :: drift_share
  rd_status :: reconciliation_status

definition drift_status :: "drift_share \<Rightarrow> reconciliation_status" where
  "drift_status s =
     (case s of InfiniteShare \<Rightarrow> RecMajorDrift
      | Share x \<Rightarrow> if x = 0 then RecMatch else if x < MINOR_DRIFT_THRESHOLD then RecMinorDrift else RecMajorDrift)"

text \<open>\<open>None\<close> is the exception for a text that is no date.\<close>

definition reconcileAgainstOperator ::
    "(string \<Rightarrow> msec option) \<Rightarrow> wallet_call_row list \<Rightarrow> (job_row \<times> msec) list \<Rightarrow> settlement_input \<Rightarrow> reconciliation_diff option" where
  "reconcileAgainstOperator parse_day calls jobs st =
     (case parse_day (st_date st) of
        None \<Rightarrow> None
      | Some day \<Rightarrow>
          (let ours = computeDailyTotals calls jobs (st_operatorId st) (st_currency st) day;
               bets = st_betsAmountMicro st - dt_betsAmountMicro ours;
               wins = st_winsAmountMicro st - dt_winsAmountMicro ours;
               rollbacks = st_rollbacksAmountMicro st - dt_rollbacksAmountMicro ours;
               net = st_betsAmountMicro st - st_winsAmountMicro st - st_rollbacksAmountMicro st - dt_netRevenueMicro ours;
               share = max_share (pctDrift bets (dt_betsAmountMicro ours)) (max_share (pctDrift wins (dt_winsAmountMicro ours))
                 (pctDrift rollbacks (dt_rollbacksAmountMicro ours)))
           in Some \<lparr>rd_totalsOurs = ours, rd_totalsTheirs = st, rd_bets = bets, rd_wins = wins, rd_rollbacks = rollbacks,
                 rd_net = net, rd_maxDriftPct = share, rd_status = drift_status share\<rparr>))"

section \<open>CSV and the hourly tick\<close>

definition CSV_HEADER :: string where
  "CSV_HEADER = ''date,operator_id,currency,bets_count,bets_amount_micro,wins_count,wins_amount_micro,rollbacks_count,rollbacks_amount_micro,net_revenue_micro,failed_calls,pending_jobs''"

definition totalsToCsvRow :: "daily_totals \<Rightarrow> string" where
  "totalsToCsvRow t = join_comma
     [dt_date t, dt_operatorId t, dt_currency t, show_int (int (dt_betsCount t)), show_int (dt_betsAmountMicro t),
      show_int (int (dt_winsCount t)), show_int (dt_winsAmountMicro t), show_int (int (dt_rollbacksCount t)),
      show_int (dt_rollbacksAmountMicro t), show_int (dt_netRevenueMicro t), show_int (int (dt_failedCallsCount t)),
      show_int (int (dt_pendingJobsCount t))]"

text \<open>The distinct values in the order in which they first occur, as a set of the language keeps them.\<close>

definition js_distinct :: "'a list \<Rightarrow> 'a list" where
  "js_distinct xs = rev (remdups (rev xs))"

text \<open>
  What a tick reports: the totals of yesterday for every active operator and currency, with
  the warnings about pending work and failed calls. (The anchors it writes first are those of
  the audit chain, whose failure is caught.)
\<close>

record tick_report =
  tk_totals :: daily_totals
  tk_pendingWarning :: bool
  tk_failedWarning :: bool

definition reconcile_tick ::
    "msec \<Rightarrow> wallet_call_row list \<Rightarrow> (job_row \<times> msec) list \<Rightarrow> operator_row list \<Rightarrow> game_config_row list \<Rightarrow> tick_report list" where
  "reconcile_tick now calls jobs operators configs =
     (let yesterday = now - DAY_MS in
      concat (map (\<lambda>o1. map (\<lambda>currency. let t = computeDailyTotals calls jobs (op_id o1) currency yesterday in
          \<lparr>tk_totals = t, tk_pendingWarning = (0 < dt_pendingJobsCount t), tk_failedWarning = (0 < dt_failedCallsCount t)\<rparr>)
        (js_distinct (map og_currency (filter (\<lambda>c. og_operatorId c = op_id o1 \<and> og_enabled c) configs))))
      (filter (\<lambda>o1. op_status o1 = OpActive) operators)))"

section \<open>Reports\<close>

text \<open>A text of the form year-month-day, by digits alone.\<close>

definition date_shaped :: "string \<Rightarrow> bool" where
  "date_shaped s \<longleftrightarrow> length s = 10 \<and> s ! 4 = CHR ''-'' \<and> s ! 7 = CHR ''-'' \<and>
     list_all is_dec (take 4 s @ take 2 (drop 5 s) @ drop 8 s)"

definition int_shaped :: "string \<Rightarrow> bool" where
  "int_shaped s \<longleftrightarrow> (let t = (if take 1 s = ''-'' then drop 1 s else s) in t \<noteq> [] \<and> list_all is_dec t)"

datatype report_body = ReportJson json | ReportCsv string

definition json_answer :: "http_answer \<Rightarrow> int \<times> report_body" where
  "json_answer a = (fst a, ReportJson (snd a))"

definition report_error :: "int \<Rightarrow> string \<Rightarrow> int \<times> report_body" where
  "report_error status e = (status, ReportJson (JObj [(''error'', JStr e)]))"

definition csv_text :: "daily_totals list \<Rightarrow> string" where
  "csv_text ts = concat (map (\<lambda>row. row @ [NL]) (CSV_HEADER # map totalsToCsvRow ts))"

definition counts_json :: "daily_totals \<Rightarrow> json" where
  "counts_json t = JObj [(''bets'', jint (int (dt_betsCount t))), (''wins'', jint (int (dt_winsCount t))),
     (''rollbacks'', jint (int (dt_rollbacksCount t))), (''failedCalls'', jint (int (dt_failedCallsCount t))),
     (''pendingJobs'', jint (int (dt_pendingJobsCount t)))]"

definition amounts_json :: "(string \<times> json) list \<Rightarrow> daily_totals \<Rightarrow> json" where
  "amounts_json nets t = JObj ([(''bets'', micro_json (dt_betsAmountMicro t)), (''wins'', micro_json (dt_winsAmountMicro t)),
     (''rollbacks'', micro_json (dt_rollbacksAmountMicro t))] @ nets)"

definition serializeTotals :: "daily_totals \<Rightarrow> json" where
  "serializeTotals t = JObj [(''date'', JStr (dt_date t)), (''currency'', JStr (dt_currency t)), (''counts'', counts_json t),
     (''amountsMicro'', amounts_json [(''net'', micro_json (dt_netRevenueMicro t))] t)]"

text \<open>The currencies of an operator's enabled configurations, or the one asked for.\<close>

definition report_currencies :: "game_config_row list \<Rightarrow> uuid \<Rightarrow> string option \<Rightarrow> string option \<Rightarrow> string list" where
  "report_currencies configs operatorId gameCode currency =
     js_distinct (if truthy currency then [the currency]
       else map og_currency (filter (\<lambda>c. og_operatorId c = operatorId \<and> og_enabled c \<and>
          (\<not> truthy gameCode \<or> Some (og_gameCode c) = gameCode)) configs))"

record daily_query =
  rq_date :: string
  rq_gameCode :: "string option"
  rq_currency :: "string option"
  rq_format :: "string option"

definition DailyQuery :: "json \<Rightarrow> daily_query option" where
  "DailyQuery q =
     (case q of JObj kvs \<Rightarrow> do {
        date \<leftarrow> req_str date_shaped (get_prop q ''date'');
        gameCode \<leftarrow> opt_str (\<lambda>_. True) (get_prop q ''gameCode'');
        currency \<leftarrow> opt_str (\<lambda>_. True) (get_prop q ''currency'');
        format \<leftarrow> opt_str (\<lambda>s. s = ''json'' \<or> s = ''csv'') (get_prop q ''format'');
        Some \<lparr>rq_date = date, rq_gameCode = gameCode, rq_currency = currency, rq_format = format\<rparr> }
      | _ \<Rightarrow> None)"

text \<open>The handler behind the gates; \<open>None\<close> when it throws: a date that is no date has no text.\<close>

definition daily_report ::
    "(string \<Rightarrow> msec option) \<Rightarrow> wallet_call_row list \<Rightarrow> (job_row \<times> msec) list \<Rightarrow> game_config_row list \<Rightarrow> uuid \<Rightarrow> json \<Rightarrow>
     (int \<times> report_body) option" where
  "daily_report parse_day calls jobs configs operatorId query =
     (case DailyQuery query of
        None \<Rightarrow> Some (report_error 400 ''invalid_query'')
      | Some q \<Rightarrow>
          (let distinct1 = report_currencies configs operatorId (rq_gameCode q) (rq_currency q) in
           case parse_day (rq_date q) of
             None \<Rightarrow> if distinct1 \<noteq> [] then None
               else if rq_format q = Some ''csv'' then Some (200, ReportCsv (csv_text []))
               else Some (200, ReportJson (JObj [(''operatorId'', JStr operatorId), (''date'', JStr (rq_date q)),
                      (''gameCode'', jopt JStr (rq_gameCode q)), (''perCurrency'', JArr [])]))
           | Some day \<Rightarrow>
               (let totals = map (\<lambda>c. computeDailyTotals calls jobs operatorId c day) distinct1
                in if rq_format q = Some ''csv'' then Some (200, ReportCsv (csv_text totals))
                   else Some (200, ReportJson (JObj [(''operatorId'', JStr operatorId), (''date'', JStr (rq_date q)),
                      (''gameCode'', jopt JStr (rq_gameCode q)),
                      (''perCurrency'', JArr (map (\<lambda>t. JObj [(''currency'', JStr (dt_currency t)), (''counts'', counts_json t),
                         (''amountsMicro'', amounts_json [(''ggr'', micro_json (dt_netRevenueMicro t)),
                            (''ngr'', micro_json (dt_netRevenueMicro t))] t)]) totals))])))))"

definition ReconcileBody :: "json \<Rightarrow> (string \<times> string \<times> string \<times> string \<times> string) option" where
  "ReconcileBody body =
     (case body of JObj kvs \<Rightarrow> do {
        date \<leftarrow> req_str date_shaped (get_prop body ''date'');
        currency \<leftarrow> req_str (\<lambda>s. s \<noteq> []) (get_prop body ''currency'');
        bets \<leftarrow> req_str int_shaped (get_prop body ''betsAmountMicro'');
        wins \<leftarrow> req_str int_shaped (get_prop body ''winsAmountMicro'');
        rollbacks \<leftarrow> req_str int_shaped (get_prop body ''rollbacksAmountMicro'');
        Some (date, currency, bets, wins, rollbacks) }
      | _ \<Rightarrow> None)"

fun status_string :: "reconciliation_status \<Rightarrow> string" where
  "status_string RecMatch = ''MATCH''"
| "status_string RecMinorDrift = ''MINOR_DRIFT''"
| "status_string RecMajorDrift = ''MAJOR_DRIFT''"

text \<open>An infinite share has no JSON and becomes null.\<close>

definition share_json :: "drift_share \<Rightarrow> json" where
  "share_json s = (case s of Share x \<Rightarrow> JNum x | InfiniteShare \<Rightarrow> JNull)"

definition diff_json :: "reconciliation_diff \<Rightarrow> json" where
  "diff_json x = (let st = rd_totalsTheirs x in JObj
     [(''status'', JStr (status_string (rd_status x))), (''maxDriftPct'', share_json (rd_maxDriftPct x)),
      (''totalsOurs'', serializeTotals (rd_totalsOurs x)),
      (''totalsTheirs'', JObj [(''operatorId'', JStr (st_operatorId st)), (''date'', JStr (st_date st)),
         (''currency'', JStr (st_currency st)), (''betsAmountMicro'', micro_json (st_betsAmountMicro st)),
         (''winsAmountMicro'', micro_json (st_winsAmountMicro st)),
         (''rollbacksAmountMicro'', micro_json (st_rollbacksAmountMicro st))]),
      (''driftMicro'', JObj [(''bets'', micro_json (rd_bets x)), (''wins'', micro_json (rd_wins x)),
         (''rollbacks'', micro_json (rd_rollbacks x)), (''net'', micro_json (rd_net x))])])"

text \<open>The message of the exception is left out.\<close>

definition reconciliation_route ::
    "(string \<Rightarrow> msec option) \<Rightarrow> wallet_call_row list \<Rightarrow> (job_row \<times> msec) list \<Rightarrow> uuid \<Rightarrow> json \<Rightarrow> int \<times> report_body" where
  "reconciliation_route parse_day calls jobs operatorId body =
     (case ReconcileBody body of
        None \<Rightarrow> report_error 400 ''invalid_body''
      | Some (date, currency, bets, wins, rollbacks) \<Rightarrow>
          (case (js_BigInt bets, js_BigInt wins, js_BigInt rollbacks) of
             (Some b, Some w, Some r) \<Rightarrow>
               (case reconcileAgainstOperator parse_day calls jobs \<lparr>st_operatorId = operatorId, st_date = date,
                       st_currency = currency, st_betsAmountMicro = b, st_winsAmountMicro = w, st_rollbacksAmountMicro = r\<rparr> of
                  None \<Rightarrow> report_error 400 ''reconciliation_failed''
                | Some x \<Rightarrow> (200, ReportJson (diff_json x)))
           | _ \<Rightarrow> report_error 400 ''reconciliation_failed''))"

text \<open>
  The portal's reports by day, week and month; a calendar month is the days that share it. The
  text of a date that is none throws by day and by week, and gives a month without days.
\<close>

record period_query =
  pq_date :: "string option"
  pq_currency :: "string option"
  pq_format :: "string option"

definition PeriodQuery :: "json \<Rightarrow> period_query option" where
  "PeriodQuery q =
     (case q of JObj kvs \<Rightarrow> do {
        date \<leftarrow> opt_str date_shaped (get_prop q ''date'');
        currency \<leftarrow> opt_str (sized 8) (get_prop q ''currency'');
        format \<leftarrow> opt_str (\<lambda>s. s = ''json'' \<or> s = ''csv'') (get_prop q ''format'');
        Some \<lparr>pq_date = date, pq_currency = currency, pq_format = format\<rparr> }
      | _ \<Rightarrow> None)"

datatype report_period = Daily | Weekly | Monthly

definition utcDay :: "(string \<Rightarrow> msec option) \<Rightarrow> msec \<Rightarrow> string option \<Rightarrow> msec option" where
  "utcDay parse_day now date = map_option utc_day_start (case date of None \<Rightarrow> Some now | Some s \<Rightarrow> parse_day s)"

definition month_days :: "msec \<Rightarrow> msec list" where
  "month_days day =
     (let (y, m, dom) = civil_from_days (day div DAY_MS); start = day - (dom - 1) * DAY_MS
      in takeWhile (\<lambda>t. fst (snd (civil_from_days (t div DAY_MS))) = m) (map (\<lambda>i. start + int i * DAY_MS) [0..<31]))"

definition report_days :: "report_period \<Rightarrow> msec \<Rightarrow> msec list" where
  "report_days p day =
     (case p of Daily \<Rightarrow> [day]
      | Weekly \<Rightarrow> map (\<lambda>i. day - (6 - int i) * DAY_MS) [0..<7]
      | Monthly \<Rightarrow> month_days day)"

definition collectTotals ::
    "wallet_call_row list \<Rightarrow> (job_row \<times> msec) list \<Rightarrow> uuid \<Rightarrow> msec list \<Rightarrow> string list \<Rightarrow> daily_totals list" where
  "collectTotals calls jobs operatorId dates currencies =
     concat (map (\<lambda>d. map (\<lambda>c. computeDailyTotals calls jobs operatorId c d) currencies) dates)"

definition respondReport :: "daily_totals list \<Rightarrow> string option \<Rightarrow> int \<times> report_body" where
  "respondReport totals format =
     (if format = Some ''csv'' then (200, ReportCsv (csv_text totals))
      else (200, ReportJson (JObj [(''items'', JArr (map serializeTotals totals))])))"

definition period_report ::
    "(string \<Rightarrow> msec option) \<Rightarrow> msec \<Rightarrow> wallet_call_row list \<Rightarrow> (job_row \<times> msec) list \<Rightarrow> game_config_row list \<Rightarrow>
     report_period \<Rightarrow> uuid \<Rightarrow> json \<Rightarrow> (int \<times> report_body) option" where
  "period_report parse_day now calls jobs configs period operatorId query =
     (case PeriodQuery query of
        None \<Rightarrow> Some (report_error 400 ''invalid_query'')
      | Some q \<Rightarrow>
          (case utcDay parse_day now (pq_date q) of
             None \<Rightarrow> if period = Monthly then Some (respondReport [] (pq_format q)) else None
           | Some day \<Rightarrow> Some (respondReport (collectTotals calls jobs operatorId (report_days period day)
               (report_currencies configs operatorId None (pq_currency q))) (pq_format q))))"

section \<open>Facts\<close>

text \<open>A day's calls are those of the seven days of its week, day by day.\<close>

lemma sum_over_days:
  "sum_by (\<lambda>i. sum_by f (filter (\<lambda>r. P r \<and> in_day (start + int i * DAY_MS) (k r)) rs)) [0..<n] =
   sum_by f (filter (\<lambda>r. P r \<and> start \<le> k r \<and> k r < start + int n * DAY_MS) rs)"
proof (induction n)
  case 0
  have "filter (\<lambda>r. P r \<and> start \<le> k r \<and> k r < start + int 0 * DAY_MS) rs = []" by (auto simp: filter_empty_conv)
  then show ?case by simp
next
  case (Suc n)
  define A where "A r \<longleftrightarrow> P r \<and> start \<le> k r \<and> k r < start + int n * DAY_MS" for r
  define B where "B r \<longleftrightarrow> P r \<and> in_day (start + int n * DAY_MS) (k r)" for r
  define C where "C r \<longleftrightarrow> P r \<and> start \<le> k r \<and> k r < start + int (Suc n) * DAY_MS" for r
  have split: "C r \<longleftrightarrow> A r \<or> B r" and disj: "\<not> (A r \<and> B r)" for r
    by (auto simp: A_def B_def C_def in_day_def DAY_MS_def)
  have "sum_by f (filter A rs) + sum_by f (filter B rs) = sum_by f (filter C rs)"
  proof (induction rs)
    case (Cons r rs)
    then show ?case using split [of r] disj [of r] by auto
  qed simp
  then show ?case using Suc.IH unfolding A_def [abs_def] B_def [abs_def] C_def [abs_def] by simp
qed

lemma midnight_shift: "utc_day_start d = d \<Longrightarrow> utc_day_start (d + i * DAY_MS) = d + i * DAY_MS"
  by (simp add: utc_day_start_def)

text \<open>No row of a rollback has an amount.\<close>

definition rollbacks_blank :: "wallet_call_row list \<Rightarrow> bool" where
  "rollbacks_blank rows \<longleftrightarrow> list_all (\<lambda>r. wc_endpoint r = EROLLBACK \<longrightarrow> wc_amountMicro r = None) rows"

lemma new_row_blank: "wc_endpoint (new_call_row i audit io oper) = EROLLBACK \<longrightarrow> wc_amountMicro (new_call_row i audit io oper) = None"
  by (cases oper) (simp_all add: new_call_row_def)

lemma begin_blank: "rollbacks_blank (wl_calls c) \<Longrightarrow> rollbacks_blank (wl_calls (snd (invoke_begin audit io oper c)))"
  using new_row_blank [of "wl_operatorId c" audit io oper]
  by (auto simp: invoke_begin_def insert_call_def rollbacks_blank_def Let_def split: prod.splits option.splits)

lemma finish_blank: "rollbacks_blank (wl_calls c) \<Longrightarrow> rollbacks_blank (wl_calls (invoke_finish env io oper call res c))"
  by (auto simp: invoke_finish_def rollbacks_blank_def Let_def list_all_iff set_update_where split: option.splits)

lemma invoke_blank:
  "rollbacks_blank (wl_calls (fst x)) \<Longrightarrow> rollbacks_blank (wl_calls (fst (snd (invoke env adapter audit io oper x))))"
  using begin_blank [of "fst x" audit io oper]
  by (auto simp: invoke_def Let_def finish_blank split: prod.splits sum.splits)

lemma run_blank:
  "rollbacks_blank (wl_calls (fst (snd x))) \<Longrightarrow> rollbacks_blank (wl_calls (fst (snd (client_run env adapter ios x ops))))"
  by (induction ops arbitrary: x) (simp_all add: client_step_def invoke_blank)

lemma blank_rollback_sum:
  "rollbacks_blank rows \<Longrightarrow> dt_rollbacksAmountMicro (computeDailyTotals rows jobs i c d) = 0"
proof -
  assume b: "rollbacks_blank rows"
  have "nullish (wc_amountMicro r) 0 = 0" if "r \<in> set rows" "wc_endpoint r = EROLLBACK" for r
    using b that by (auto simp: rollbacks_blank_def list_all_iff)
  then have "sum_amount (succeeded_calls EROLLBACK (day_calls i c (utc_day_start d) rows)) = sum_by (\<lambda>_. 0) (succeeded_calls EROLLBACK (day_calls i c (utc_day_start d) rows))"
    unfolding sum_amount_def by (intro sum_by_cong) (auto simp: succeeded_calls_def day_calls_def)
  also have "\<dots> = 0" by (simp add: sum_by_def)
  finally show ?thesis by (simp add: computeDailyTotals_def Let_def)
qed

text \<open>The share of a drift.\<close>

definition exact_amount :: "micro \<Rightarrow> bool" where "exact_amount m \<longleftrightarrow> \<bar>m\<bar> < 2 ^ 53"

lemma share_zero: "pctDrift drift base = Share 0 \<longleftrightarrow> drift = 0"
  by (auto simp: pctDrift_def jdiv_def)

lemma share_small:
  assumes "exact_amount drift" "exact_amount base" "pctDrift drift base = Share x" "x < MINOR_DRIFT_THRESHOLD"
  shows "drift = 0 \<or> \<bar>drift\<bar> * 1000 < \<bar>base\<bar>"
proof (cases "drift = 0")
  case False
  have n: "fl (of_int \<bar>m\<bar>) = (of_int \<bar>m\<bar> :: jsnum)" if "exact_amount m" for m
    using that by (intro fl_of_int) (simp add: exact_amount_def)
  from False have b: "base \<noteq> 0" and x: "x = fl (of_int \<bar>drift\<bar> / of_int \<bar>base\<bar>)"
    using assms(3) unfolding pctDrift_def jdiv_def n [OF assms(1)] n [OF assms(2)] by (auto split: if_splits)
  have "\<not> 1 / 1000 \<le> of_int \<bar>drift\<bar> / (of_int \<bar>base\<bar> :: jsnum)"
    using fl_mono [of "1 / 1000" "of_int \<bar>drift\<bar> / of_int \<bar>base\<bar>"] assms(4) by (auto simp: x MINOR_DRIFT_THRESHOLD_def)
  then have "of_int \<bar>drift\<bar> * 1000 < (of_int \<bar>base\<bar> :: jsnum)" using b by (simp add: field_simps)
  then have "(of_int (\<bar>drift\<bar> * 1000) :: jsnum) < of_int \<bar>base\<bar>" by simp
  then show ?thesis by (simp only: of_int_less_iff) simp
qed simp

lemma share_status:
  "drift_status s = RecMatch \<longleftrightarrow> s = Share 0"
  "drift_status s = RecMinorDrift \<longleftrightarrow> (\<exists>x. s = Share x \<and> x \<noteq> 0 \<and> x < MINOR_DRIFT_THRESHOLD)"
  by (auto simp: drift_status_def split: drift_share.splits)

lemma share_nonneg: "pctDrift drift base = Share x \<Longrightarrow> 0 \<le> x"
  by (auto simp: pctDrift_def jdiv_def fl_nonneg split: if_splits)

lemma max_share_Share: "max_share a b = Share z \<longleftrightarrow> (\<exists>x y. a = Share x \<and> b = Share y \<and> z = max x y)"
  by (auto simp: max_share_def split: drift_share.splits)

lemma reconcile_parts:
  assumes "reconcileAgainstOperator parse_day calls jobs st = Some x"
  shows "rd_bets x = st_betsAmountMicro st - dt_betsAmountMicro (rd_totalsOurs x)"
    and "rd_wins x = st_winsAmountMicro st - dt_winsAmountMicro (rd_totalsOurs x)"
    and "rd_rollbacks x = st_rollbacksAmountMicro st - dt_rollbacksAmountMicro (rd_totalsOurs x)"
    and "rd_net x = rd_bets x - rd_wins x - rd_rollbacks x"
    and "rd_maxDriftPct x = max_share (pctDrift (rd_bets x) (dt_betsAmountMicro (rd_totalsOurs x)))
      (max_share (pctDrift (rd_wins x) (dt_winsAmountMicro (rd_totalsOurs x)))
        (pctDrift (rd_rollbacks x) (dt_rollbacksAmountMicro (rd_totalsOurs x))))"
    and "rd_status x = drift_status (rd_maxDriftPct x)"
    and "\<exists>day. parse_day (st_date st) = Some day \<and>
      rd_totalsOurs x = computeDailyTotals calls jobs (st_operatorId st) (st_currency st) day"
  using assms by (auto simp: reconcileAgainstOperator_def computeDailyTotals_def Let_def split: option.splits)

section \<open>Properties\<close>

text \<open>C12. The verdict of a reconciliation: a match exactly when the three amounts of the operator are
  ours; a minor drift only when every amount that differs differs by less than a thousandth
  of ours, so any larger difference is a major drift; and the drift of the net is that of its
  parts.\<close>

theorem reconciliation_verdict:
  assumes "reconcileAgainstOperator parse_day calls jobs st = Some x"
    and "exact_amount (rd_bets x)" "exact_amount (rd_wins x)" "exact_amount (rd_rollbacks x)"
    and "exact_amount (dt_betsAmountMicro (rd_totalsOurs x))" "exact_amount (dt_winsAmountMicro (rd_totalsOurs x))"
      "exact_amount (dt_rollbacksAmountMicro (rd_totalsOurs x))"
  shows "rd_net x = rd_bets x - rd_wins x - rd_rollbacks x \<and>
    (rd_status x = RecMatch \<longleftrightarrow> st_betsAmountMicro st = dt_betsAmountMicro (rd_totalsOurs x) \<and>
       st_winsAmountMicro st = dt_winsAmountMicro (rd_totalsOurs x) \<and>
       st_rollbacksAmountMicro st = dt_rollbacksAmountMicro (rd_totalsOurs x)) \<and>
    (rd_status x = RecMinorDrift \<longrightarrow>
       (\<forall>(d, b) \<in> {(rd_bets x, dt_betsAmountMicro (rd_totalsOurs x)), (rd_wins x, dt_winsAmountMicro (rd_totalsOurs x)),
          (rd_rollbacks x, dt_rollbacksAmountMicro (rd_totalsOurs x))}. d = 0 \<or> \<bar>d\<bar> * 1000 < \<bar>b\<bar>))"
proof -
  note p = reconcile_parts [OF assms(1)]
  have "rd_status x = RecMatch \<longleftrightarrow> rd_bets x = 0 \<and> rd_wins x = 0 \<and> rd_rollbacks x = 0"
  proof
    assume "rd_status x = RecMatch"
    then obtain a b c where s: "pctDrift (rd_bets x) (dt_betsAmountMicro (rd_totalsOurs x)) = Share a"
        "pctDrift (rd_wins x) (dt_winsAmountMicro (rd_totalsOurs x)) = Share b"
        "pctDrift (rd_rollbacks x) (dt_rollbacksAmountMicro (rd_totalsOurs x)) = Share c" "0 = max a (max b c)"
      unfolding p(6) share_status p(5) max_share_Share by blast
    with share_nonneg [OF s(1)] share_nonneg [OF s(2)] share_nonneg [OF s(3)] have "a = 0" "b = 0" "c = 0"
      by (auto simp: max_def split: if_splits)
    with s(1-3) show "rd_bets x = 0 \<and> rd_wins x = 0 \<and> rd_rollbacks x = 0" by (simp add: share_zero)
  qed (simp add: p(5,6) share_status pctDrift_def max_share_def)
  moreover have "\<forall>(d, b) \<in> {(rd_bets x, dt_betsAmountMicro (rd_totalsOurs x)), (rd_wins x, dt_winsAmountMicro (rd_totalsOurs x)),
      (rd_rollbacks x, dt_rollbacksAmountMicro (rd_totalsOurs x))}. d = 0 \<or> \<bar>d\<bar> * 1000 < \<bar>b\<bar>" if "rd_status x = RecMinorDrift"
  proof -
    from that obtain a b c where s: "pctDrift (rd_bets x) (dt_betsAmountMicro (rd_totalsOurs x)) = Share a"
        "pctDrift (rd_wins x) (dt_winsAmountMicro (rd_totalsOurs x)) = Share b"
        "pctDrift (rd_rollbacks x) (dt_rollbacksAmountMicro (rd_totalsOurs x)) = Share c" "max a (max b c) < MINOR_DRIFT_THRESHOLD"
      unfolding p(6) share_status p(5) max_share_Share by blast
    then have "a < MINOR_DRIFT_THRESHOLD" "b < MINOR_DRIFT_THRESHOLD" "c < MINOR_DRIFT_THRESHOLD" by simp_all
    with share_small [OF assms(2,5) s(1)] share_small [OF assms(3,6) s(2)] share_small [OF assms(4,7) s(3)]
    show ?thesis by blast
  qed
  ultimately show ?thesis using p(1-4) by simp
qed

text \<open>Rollbacks are never counted: the audit row of a rollback has no amount, so our total of them is
  zero whatever the wallet did, and an operator that reports any rolled back amount is told
  of a major drift.\<close>

theorem reported_rollbacks_drift:
  assumes "st_rollbacksAmountMicro st \<noteq> 0" "parse_day (st_date st) = Some day"
    and "calls = wl_calls (fst (snd (client_run env adapter ios (n, new_wallet_client i t m [], s) ops)))"
  shows "\<exists>x. reconcileAgainstOperator parse_day calls jobs st = Some x \<and> rd_status x = RecMajorDrift \<and>
    dt_rollbacksAmountMicro (rd_totalsOurs x) = 0"
proof -
  have "rollbacks_blank calls"
    unfolding assms(3) by (rule run_blank) (simp add: new_wallet_client_def rollbacks_blank_def)
  obtain x where x: "reconcileAgainstOperator parse_day calls jobs st = Some x"
    using assms(2) by (simp add: reconcileAgainstOperator_def Let_def)
  have z: "dt_rollbacksAmountMicro (rd_totalsOurs x) = 0"
    using reconcile_parts(7) [OF x] blank_rollback_sum [OF \<open>rollbacks_blank calls\<close>] by auto
  then have "pctDrift (rd_rollbacks x) (dt_rollbacksAmountMicro (rd_totalsOurs x)) = InfiniteShare"
    using assms(1) reconcile_parts(3) [OF x] by (simp add: pctDrift_def)
  then have "rd_maxDriftPct x = InfiniteShare"
    using reconcile_parts(5) [OF x] by (auto simp: max_share_def split: drift_share.splits)
  then have "rd_status x = RecMajorDrift" using reconcile_parts(6) [OF x] by (simp add: drift_status_def)
  with x z show ?thesis by blast
qed

text \<open>The seven rows of a weekly report add up to the calls of its seven days.\<close>

theorem weekly_report_adds_up:
  assumes "utc_day_start day = day"
  shows "sum_by dt_betsAmountMicro (collectTotals calls jobs i (report_days Weekly day) [c]) =
    sum_amount (filter (\<lambda>r. wc_operatorId r = i \<and> wc_direction r = ''OUTBOUND'' \<and> wc_currency r = Some c \<and>
      wc_endpoint r = EBET \<and> wc_succeeded r \<and> day - 6 * DAY_MS \<le> wc_createdAt r \<and> wc_createdAt r < day + DAY_MS) calls)"
proof -
  let ?P = "\<lambda>r. wc_operatorId r = i \<and> wc_direction r = ''OUTBOUND'' \<and> wc_currency r = Some c \<and> wc_endpoint r = EBET \<and> wc_succeeded r"
  have e: "day - 6 * DAY_MS + int 7 * DAY_MS = day + DAY_MS" by simp
  have start: "utc_day_start (day - (6 - int k) * DAY_MS) = day - 6 * DAY_MS + int k * DAY_MS" for k
    using midnight_shift [OF assms, of "int k - 6"] by (simp add: algebra_simps)
  have "sum_by dt_betsAmountMicro (collectTotals calls jobs i (report_days Weekly day) [c]) =
      sum_by (\<lambda>k. sum_amount (filter (\<lambda>r. ?P r \<and> in_day (day - 6 * DAY_MS + int k * DAY_MS) (wc_createdAt r)) calls)) [0..<7]"
    unfolding collectTotals_def report_days_def
    by (simp add: sum_by_def o_def computeDailyTotals_def start Let_def succeeded_calls_def day_calls_def conj_commute conj_left_commute)
  also have "\<dots> = sum_amount (filter (\<lambda>r. ?P r \<and> day - 6 * DAY_MS \<le> wc_createdAt r \<and> wc_createdAt r < day - 6 * DAY_MS + int 7 * DAY_MS) calls)"
    unfolding sum_amount_def by (rule sum_over_days)
  finally show ?thesis unfolding e conj_assoc .
qed

text \<open>Three calls of one day: a bet, a win and the rollback of the bet.\<close>

definition sample_call :: "wallet_endpoint \<Rightarrow> micro option \<Rightarrow> wallet_call_row" where
  "sample_call e amount = \<lparr>wc_id = [], wc_operatorId = ''op'', wc_direction = ''OUTBOUND'', wc_endpoint = e,
     wc_requestUuid = [], wc_transactionUuid = None, wc_referenceTransactionUuid = None, wc_sessionId = None,
     wc_roundId = None, wc_playerRef = None, wc_amountMicro = amount, wc_currency = Some ''EUR'', wc_requestBody = JNull,
     wc_responseStatus = Some ''RS_OK'', wc_responseBody = JNull, wc_httpStatus = None, wc_latencyMs = None,
     wc_attempt = 1, wc_succeeded = True, wc_createdAt = 5, wc_prevRowHash = None, wc_rowHash = None\<rparr>"

definition sample_calls :: "wallet_call_row list" where
  "sample_calls = [sample_call EBET (Some 2000000), sample_call EWIN (Some 1000000), sample_call EROLLBACK None]"

definition sample_settlement :: settlement_input where
  "sample_settlement = \<lparr>st_operatorId = ''op'', st_date = ''1970-01-01'', st_currency = ''EUR'',
     st_betsAmountMicro = 2000100, st_winsAmountMicro = 1000000, st_rollbacksAmountMicro = 0\<rparr>"

lemma sample_totals:
  "dt_betsAmountMicro (computeDailyTotals sample_calls [] ''op'' ''EUR'' 0) = 2000000"
  "dt_winsAmountMicro (computeDailyTotals sample_calls [] ''op'' ''EUR'' 0) = 1000000"
  "dt_rollbacksAmountMicro (computeDailyTotals sample_calls [] ''op'' ''EUR'' 0) = 0"
  by (simp_all add: computeDailyTotals_def sample_calls_def sample_call_def day_calls_def succeeded_calls_def sum_amount_def
      in_day_def utc_day_start_def DAY_MS_def Let_def)

theorem reconciliation_verdict_witness:
  "\<exists>x. reconcileAgainstOperator (\<lambda>_. Some 0) sample_calls [] sample_settlement = Some x \<and> rd_net x = 100 \<and>
     rd_status x \<noteq> RecMatch"
proof -
  obtain x where x: "reconcileAgainstOperator (\<lambda>_. Some 0) sample_calls [] sample_settlement = Some x"
    by (simp add: reconcileAgainstOperator_def Let_def)
  have ours: "rd_totalsOurs x = computeDailyTotals sample_calls [] ''op'' ''EUR'' 0"
    using reconcile_parts(7) [OF x] by (simp add: sample_settlement_def)
  have d: "rd_bets x = 100" "rd_wins x = 0" "rd_rollbacks x = 0"
    using reconcile_parts(1-3) [OF x] by (simp_all add: ours sample_totals sample_settlement_def)
  have "rd_net x = rd_bets x - rd_wins x - rd_rollbacks x" "rd_status x \<noteq> RecMatch"
    using reconciliation_verdict [OF x] unfolding ours sample_totals d
    by (simp_all add: exact_amount_def sample_settlement_def)
  with x d show ?thesis by auto
qed

definition sample_rollback_call :: wallet_op where
  "sample_rollback_call = WRollback \<lparr>wq_requestUuid = ''r'', wq_operatorId = ''op'', wq_playerRef = ''p'', wq_currency = ''EUR'',
     wq_gameCode = ''dice'', wr_transactionUuid = ''t2'', wr_referenceTransactionUuid = ''t1'', wr_roundId = None, wr_meta = None\<rparr>"

definition sample_call_io :: "nat \<Rightarrow> audit_context \<times> call_io" where
  "sample_call_io n = (\<lparr>ac_sessionId = None, ac_roundId = None, ac_attempt = None\<rparr>,
     \<lparr>io_acquiredAt = 1, io_startedAt = 1, io_answeredAt = 2, io_recordedAt = 2, io_rowId = ''r'', io_insertOk = True,
      io_tipOk = True, io_updateOk = True\<rparr>)"

theorem reported_rollbacks_drift_witness:
  "\<exists>x. reconcileAgainstOperator (\<lambda>_. Some 0) (wl_calls (fst (snd (client_run \<lparr>hv_sha256 = \<lambda>_. 0, hv_numstr = \<lambda>_. ''1''\<rparr>
      (\<lambda>s oper. (plain_response RsOK [] [], s)) sample_call_io (0, new_wallet_client ''op'' None None [], ()) [sample_rollback_call]))))
      [] (sample_settlement\<lparr>st_rollbacksAmountMicro := 5\<rparr>) = Some x \<and> rd_status x = RecMajorDrift"
proof -
  have r: "st_rollbacksAmountMicro (sample_settlement\<lparr>st_rollbacksAmountMicro := 5\<rparr>) \<noteq> 0" by simp
  from reported_rollbacks_drift [where parse_day = "\<lambda>_. Some 0" and jobs = "[]" and
      env = "\<lparr>hv_sha256 = \<lambda>_. 0, hv_numstr = \<lambda>_. ''1''\<rparr>" and adapter = "\<lambda>s oper. (plain_response RsOK [] [], s)" and
      ios = sample_call_io and n = 0 and i = "''op''" and t = None and m = None and s = "()" and ops = "[sample_rollback_call]",
      OF r refl refl] show ?thesis by blast
qed

theorem weekly_report_adds_up_witness:
  "sum_by dt_betsAmountMicro (collectTotals sample_calls [] ''op'' (report_days Weekly 0) [''EUR'']) = 2000000"
proof -
  have "utc_day_start 0 = (0 :: msec)" by (simp add: utc_day_start_def)
  from weekly_report_adds_up [OF this, of sample_calls "[]" "''op''" "''EUR''"] show ?thesis
    by (simp add: sample_calls_def sample_call_def sum_amount_def DAY_MS_def)
qed

end
