(* ===== verification/GameSocket.thy ===== *)
theory GameSocket
  imports BetFlow WalletClient Sessions Schemas "HOL-Library.AList"
begin

text \<open>
  The player's connection (\<^verbatim>\<open>apps/rgs-server/src/socket/gameSocket.ts\<close>): the check of the
  token, the count of players per room, the first balance, and the two messages a player can
  send, in front of the engine. A message arrives as the JSON value the transport has read.
\<close>

section \<open>Connecting\<close>

record socket_data =
  sd_sessionId :: uuid
  sd_operatorId :: uuid
  sd_playerRef :: string
  sd_currency :: string
  sd_gameCode :: string

text \<open>The middleware: the token of the handshake, or else of the query; \<open>Inl\<close> refuses the connection.\<close>

definition socket_auth ::
    "(string \<Rightarrow> session_claims option) \<Rightarrow> msec \<Rightarrow> db \<Rightarrow> string option \<Rightarrow> string option \<Rightarrow> string + socket_data" where
  "socket_auth verify now d handshake query =
     (let token = nullish_opt handshake query in
      if \<not> truthy token then Inl ''missing_session_token''
      else case verify (the token) of
        None \<Rightarrow> Inl ''invalid_session_token''
      | Some claims \<Rightarrow>
          (case find_session d (sc_sessionId claims) of
             None \<Rightarrow> Inl ''session_not_found''
           | Some s \<Rightarrow>
               if se_terminatedAt s \<noteq> None then Inl ''session_terminated''
               else if se_expiresAt s < now then Inl ''session_expired''
               else Inr \<lparr>sd_sessionId = se_id s, sd_operatorId = se_operatorId s, sd_playerRef = se_playerRef s,
                      sd_currency = se_currency s, sd_gameCode = se_gameCode s\<rparr>))"

definition gameRoom :: "uuid \<Rightarrow> string \<Rightarrow> string \<Rightarrow> string" where
  "gameRoom operatorId gameCode currency = ''operator:'' @ operatorId @ '':'' @ gameCode @ '':'' @ currency"

fun game_config_json :: "game_config \<Rightarrow> json" where
  "game_config_json (DiceConfig lo hi) = JObj [(''lowWeight'', JNum lo), (''highWeight'', JNum hi)]"
| "game_config_json (CrashConfig edge m) = JObj [(''houseEdge'', JNum edge), (''maxMultiplier'', JNum m)]"
| "game_config_json (LempiConfig c) = JObj
     [(''houseEdge'', JNum (lc_houseEdge c)), (''maxMultiplier'', JNum (lc_maxMultiplier c)),
      (''multiplierGrowthRate'', JNum (lc_growthRate c)), (''minFlightMs'', JNum (lc_minFlightMs c)),
      (''maxFlightMs'', JNum (lc_maxFlightMs c)), (''botCashoutsEnabled'', JBool (lc_botCashouts c))]"

text \<open>What a socket is told when it has joined; a round in play is told once more.\<close>

definition connect_messages :: "socket_data \<Rightarrow> engine \<Rightarrow> msec \<Rightarrow> (string \<times> json) list" where
  "connect_messages sd e now =
     [(''connected'', JObj [(''sessionId'', JStr (sd_sessionId sd)), (''gameCode'', JStr (sd_gameCode sd)),
         (''currency'', JStr (sd_currency sd)), (''currentPhase'', JStr (phase_string (engine_phase_of e))),
         (''currentRoundId'', jopt JStr (currentRoundId e))]),
      (''game_config'', JObj [(''gameCode'', JStr (sd_gameCode sd)), (''currency'', JStr (sd_currency sd)),
         (''minBetMicro'', JStr (show_int (ec_minBetMicro (en_cfg e)))),
         (''maxBetMicro'', JStr (show_int (ec_maxBetMicro (en_cfg e)))),
         (''bettingWindowMs'', jint (ec_bettingWindowMs (en_cfg e))),
         (''rollingWindowMs'', jint (ec_rollingWindowMs (en_cfg e))), (''cooldownMs'', jint (ec_cooldownMs (en_cfg e))),
         (''config'', game_config_json (en_gameConfig e))])] @
     (case currentRoundSnapshot e now of
        None \<Rightarrow> []
      | Some s \<Rightarrow>
          [(''round_state'', JObj [(''roundId'', JStr (rs_roundId s)), (''nonce'', jint (rs_nonce s)),
             (''roundNumber'', jint (rs_roundNumber s)), (''phase'', JStr (phase_string (rs_phase s))),
             (''phaseDurationMs'', JNum (rs_phaseDurationMs s)), (''phaseRemainingMs'', JNum (rs_phaseRemainingMs s)),
             (''serverSeedHash'', JStr (rs_serverSeedHash s)), (''clientSeed'', JStr (rs_clientSeed s))])])"

section \<open>Players in a room\<close>

type_synonym presence = "(string \<times> (uuid \<times> nat) list) list"

definition sessions_in :: "presence \<Rightarrow> string \<Rightarrow> (uuid \<times> nat) list" where
  "sessions_in p rm = nullish (map_of p rm) []"

definition connectedPlayerCount :: "presence \<Rightarrow> string \<Rightarrow> nat" where
  "connectedPlayerCount p rm = length (sessions_in p rm)"

definition incrementPresence :: "presence \<Rightarrow> string \<Rightarrow> uuid \<Rightarrow> presence" where
  "incrementPresence p rm s =
     (let sessions = sessions_in p rm
      in AList.update rm (AList.update s (nullish (map_of sessions s) 0 + 1) sessions) p)"

definition decrementPresence :: "presence \<Rightarrow> string \<Rightarrow> uuid \<Rightarrow> presence" where
  "decrementPresence p rm s =
     (case map_of p rm of
        None \<Rightarrow> p
      | Some sessions \<Rightarrow>
          (let next = int (nullish (map_of sessions s) 0) - 1 in
           if 0 < next then AList.update rm (AList.update s (nat next) sessions) p
           else (let rest = AList.delete s sessions
                 in if rest = [] then AList.delete rm p else AList.update rm rest p)))"

text \<open>
  The connections: a socket is counted when its handler has found the engine, which it waits
  for, and only then listens for the end of the connection. An end that comes before finds
  nobody listening.
\<close>

record presence_world =
  ps_presence :: presence
  ps_listening :: "(nat \<times> string \<times> uuid) list"

datatype presence_event = Attached nat string uuid | Closed nat

definition presence_step :: "presence_event \<Rightarrow> presence_world \<Rightarrow> presence_world" where
  "presence_step e w =
     (case e of
        Attached k rm s \<Rightarrow>
          w\<lparr>ps_presence := incrementPresence (ps_presence w) rm s, ps_listening := (k, rm, s) # ps_listening w\<rparr>
      | Closed k \<Rightarrow>
          (case find (\<lambda>l. fst l = k) (ps_listening w) of
             None \<Rightarrow> w
           | Some l \<Rightarrow> w\<lparr>ps_presence := decrementPresence (ps_presence w) (fst (snd l)) (snd (snd l)),
                        ps_listening := remove1 l (ps_listening w)\<rparr>))"

definition presence_run :: "presence_event list \<Rightarrow> presence_world" where
  "presence_run es = fold presence_step es \<lparr>ps_presence = [], ps_listening = []\<rparr>"

section \<open>The first balance\<close>

definition INITIAL_BALANCE_MAX_ATTEMPTS :: nat where "INITIAL_BALANCE_MAX_ATTEMPTS = 3"

definition shouldRetryInitialBalance :: "rs_status \<Rightarrow> bool" where
  "shouldRetryInitialBalance st \<longleftrightarrow> st = RsTIMEOUT \<or> st = RsUNKNOWN"

text \<open>The loop from an attempt on, with the attempts that are left; \<open>call\<close> is the wallet client's.\<close>

fun balance_attempts ::
    "(nat \<Rightarrow> 's \<Rightarrow> wallet_response \<times> 's) \<Rightarrow> (nat \<Rightarrow> bool) \<Rightarrow> nat \<Rightarrow> nat \<Rightarrow> 's \<Rightarrow> wallet_response option \<times> 's" where
  "balance_attempts call alive attempt 0 s = (None, s)"
| "balance_attempts call alive attempt (Suc left1) s =
     (if \<not> alive attempt then (None, s)
      else (let (res, s1) = call attempt s in
            if ws_balanceMicro res \<noteq> None then (Some res, s1)
            else if \<not> shouldRetryInitialBalance (ws_status res) \<or> left1 = 0 then (Some res, s1)
            else balance_attempts call alive (Suc attempt) left1 s1))"

definition balance_call ::
    "hash_env \<Rightarrow> ('s \<Rightarrow> wallet_op \<Rightarrow> wallet_response \<times> 's) \<Rightarrow> (nat \<Rightarrow> uuid) \<Rightarrow> (nat \<Rightarrow> call_io) \<Rightarrow> socket_data \<Rightarrow> nat \<Rightarrow>
     wallet_client \<times> 's \<Rightarrow> wallet_response \<times> wallet_client \<times> 's" where
  "balance_call env adapter uuids ios sd attempt =
     invoke env adapter \<lparr>ac_sessionId = Some (sd_sessionId sd), ac_roundId = None, ac_attempt = Some (int attempt)\<rparr>
       (ios attempt)
       (WBalance \<lparr>wq_requestUuid = uuids attempt, wq_operatorId = sd_operatorId sd, wq_playerRef = sd_playerRef sd,
          wq_currency = sd_currency sd, wq_gameCode = sd_gameCode sd\<rparr>)"

definition fetchInitialBalanceWithRetry ::
    "hash_env \<Rightarrow> ('s \<Rightarrow> wallet_op \<Rightarrow> wallet_response \<times> 's) \<Rightarrow> (nat \<Rightarrow> uuid) \<Rightarrow> (nat \<Rightarrow> call_io) \<Rightarrow> (nat \<Rightarrow> bool) \<Rightarrow> nat option \<Rightarrow>
     socket_data \<Rightarrow> wallet_client \<times> 's \<Rightarrow> wallet_response option \<times> wallet_client \<times> 's" where
  "fetchInitialBalanceWithRetry env adapter uuids ios alive maxAttempts sd =
     balance_attempts (balance_call env adapter uuids ios sd) alive 1 (nullish maxAttempts INITIAL_BALANCE_MAX_ATTEMPTS)"

text \<open>What the socket is told in the end; nothing when it has gone.\<close>

definition balance_messages :: "socket_data \<Rightarrow> bool \<Rightarrow> wallet_response option \<Rightarrow> (string \<times> json) list" where
  "balance_messages sd alive r =
     (case r of
        None \<Rightarrow> []
      | Some res \<Rightarrow>
          if \<not> alive then []
          else (case ws_balanceMicro res of
                  Some b \<Rightarrow> [(''balance_update'', JObj [(''playerRef'', JStr (sd_playerRef sd)),
                     (''balanceMicro'', JStr (show_int b)), (''currency'', JStr (nullish (ws_currency res) (sd_currency sd)))])]
                | None \<Rightarrow> [(''balance_unavailable'', JObj [(''status'', JStr (rs_string (ws_status res))),
                     (''message'', jopt JStr (ws_message res))])]))"

section \<open>Messages\<close>

text \<open>
  The amount of a bet: a string, a number or a big integer, turned into a big integer. A string
  that is not an integer makes the conversion throw, out of the schema.
\<close>

datatype bet_amount = AmountRead micro | AmountRefused | AmountThrows

definition read_amount :: "json \<Rightarrow> bet_amount" where
  "read_amount v =
     (case v of
        JBig i \<Rightarrow> AmountRead i
      | JNum x \<Rightarrow> AmountRead (js_round x)
      | JStr s \<Rightarrow> (case js_BigInt s of Some i \<Rightarrow> AmountRead i | None \<Rightarrow> AmountThrows)
      | _ \<Rightarrow> AmountRefused)"

datatype bet_envelope = EnvelopeThrows | EnvelopeRefused | EnvelopeOk micro json "bool option" "bool option"

definition PlaceBetEnvelopeSchema :: "json \<Rightarrow> bet_envelope" where
  "PlaceBetEnvelopeSchema payload =
     (case payload of
        JObj kvs \<Rightarrow>
          (case read_amount (get_prop payload ''amountMicro'') of
             AmountThrows \<Rightarrow> EnvelopeThrows
           | AmountRefused \<Rightarrow> EnvelopeRefused
           | AmountRead a \<Rightarrow>
               (case (opt_bool (get_prop payload ''autoplay''), opt_bool (get_prop payload ''turbo'')) of
                  (Some autoplay, Some turbo) \<Rightarrow> EnvelopeOk a (get_prop payload ''selection'') autoplay turbo
                | _ \<Rightarrow> EnvelopeRefused))
      | _ \<Rightarrow> EnvelopeRefused)"

text \<open>
  The acknowledgement of a bet; \<open>AckNever\<close> is a rejected promise that nothing catches: no
  acknowledgement is sent, and by the default of the runtime the process ends.
\<close>

datatype bet_ack = AckInvalid string | AckPlaced place_result | AckNever

definition place_bet_message :: "'s env \<Rightarrow> msec \<Rightarrow> socket_data \<Rightarrow> json \<Rightarrow> 's world \<Rightarrow> bet_ack \<times> 's world" where
  "place_bet_message env now sd payload w =
     (case PlaceBetEnvelopeSchema payload of
        EnvelopeThrows \<Rightarrow> (AckNever, w)
      | EnvelopeRefused \<Rightarrow> (AckInvalid ''invalid_envelope'', w)
      | EnvelopeOk amount selection autoplay turbo \<Rightarrow>
          (case gp_selectionSchema (en_plugin (wd_engine w)) selection of
             None \<Rightarrow> (AckInvalid ''invalid_selection'', w)
           | Some sel \<Rightarrow>
               (case placeBet env now \<lparr>pp_sessionId = sd_sessionId sd, pp_playerRef = sd_playerRef sd,
                       pp_operatorId = sd_operatorId sd, pp_currency = sd_currency sd, pp_amountMicro = amount,
                       pp_selection = sel, pp_autoplay = autoplay, pp_turbo = turbo\<rparr> w of
                  (PlaceThrew, w1) \<Rightarrow> (AckNever, w1)
                | (r, w1) \<Rightarrow> (AckPlaced r, w1))))"

datatype cashout_ack = CashAckInvalid string | CashAck cashout_result

definition CashOutBody :: "zod_env \<Rightarrow> json \<Rightarrow> (uuid \<times> string option) option" where
  "CashOutBody z payload =
     (case payload of JObj kvs \<Rightarrow> do {
        betId \<leftarrow> req_str (zd_uuid z) (get_prop payload ''betId'');
        slotId \<leftarrow> opt_str (\<lambda>_. True) (get_prop payload ''slotId'');
        Some (betId, slotId) }
      | _ \<Rightarrow> None)"

definition cash_out_message :: "zod_env \<Rightarrow> 's env \<Rightarrow> msec \<Rightarrow> socket_data \<Rightarrow> json \<Rightarrow> 's world \<Rightarrow> cashout_ack \<times> 's world" where
  "cash_out_message z env now sd payload w =
     (case CashOutBody z payload of
        None \<Rightarrow> (CashAckInvalid ''invalid_envelope'', w)
      | Some (betId, slotId) \<Rightarrow>
          (let (r, w1) = cashOut env now \<lparr>cp_sessionId = sd_sessionId sd, cp_playerRef = sd_playerRef sd,
                 cp_operatorId = sd_operatorId sd, cp_currency = sd_currency sd, cp_betId = betId, cp_slotId = slotId,
                 cp_mode = MANUAL, cp_forcedMultiplier = None\<rparr> w
           in (CashAck r, w1)))"

section \<open>Facts\<close>

text \<open>How often a session counts in a room, and the shape of the table.\<close>

definition times_in :: "presence \<Rightarrow> string \<Rightarrow> uuid \<Rightarrow> nat" where
  "times_in p rm s = nullish (map_of (sessions_in p rm) s) 0"

definition counts_ok :: "(uuid \<times> nat) list \<Rightarrow> bool" where
  "counts_ok ss \<longleftrightarrow> distinct (map fst ss) \<and> (\<forall>sn \<in> set ss. 0 < snd sn)"

definition presence_ok :: "presence \<Rightarrow> bool" where
  "presence_ok p \<longleftrightarrow> distinct (map fst p) \<and> (\<forall>rs \<in> set p. snd rs \<noteq> [] \<and> counts_ok (snd rs))"

lemma set_update_subset: "set (AList.update k v al) \<subseteq> insert (k, v) (set al)"
  by (induction al) auto

lemma set_delete_subset: "set (AList.delete k al) \<subseteq> set al"
  by (auto simp: AList.delete_eq)

lemma counts_ok_sessions: "presence_ok p \<Longrightarrow> counts_ok (sessions_in p rm)"
  by (cases "map_of p rm") (simp_all add: sessions_in_def presence_ok_def counts_ok_def, fastforce dest: map_of_SomeD)

lemma counts_ok_update: "counts_ok ss \<Longrightarrow> 0 < n \<Longrightarrow> counts_ok (AList.update s n ss)"
  using set_update_subset [of s n ss] by (fastforce simp: counts_ok_def AList.distinct_update)

lemma counts_ok_delete: "counts_ok ss \<Longrightarrow> counts_ok (AList.delete s ss)"
  using set_delete_subset [of s ss] by (auto simp: counts_ok_def AList.distinct_delete)

lemma presence_ok_update: "presence_ok p \<Longrightarrow> counts_ok ss \<Longrightarrow> ss \<noteq> [] \<Longrightarrow> presence_ok (AList.update rm ss p)"
  using set_update_subset [of rm ss p] by (fastforce simp: presence_ok_def AList.distinct_update)

lemma presence_ok_delete: "presence_ok p \<Longrightarrow> presence_ok (AList.delete rm p)"
  using set_delete_subset [of rm p] by (auto simp: presence_ok_def AList.distinct_delete)

lemma update_nonempty: "AList.update k v al \<noteq> []"
  by (cases al) auto

lemma increment_ok: "presence_ok p \<Longrightarrow> presence_ok (incrementPresence p rm s)"
  by (simp add: incrementPresence_def Let_def presence_ok_update counts_ok_update counts_ok_sessions update_nonempty)

lemma decrement_ok: "presence_ok p \<Longrightarrow> presence_ok (decrementPresence p rm s)"
  using counts_ok_sessions [of p rm]
  by (auto simp: decrementPresence_def sessions_in_def Let_def presence_ok_update counts_ok_update counts_ok_delete
      update_nonempty presence_ok_delete split: option.splits)

lemma increment_times: "times_in (incrementPresence p rm s) rm' s' = times_in p rm' s' + (if (rm', s') = (rm, s) then 1 else 0)"
  by (auto simp: times_in_def incrementPresence_def sessions_in_def Let_def AList.update_conv')

lemma delete_all: "AList.delete s ss = [] \<Longrightarrow> s' \<noteq> s \<Longrightarrow> map_of ss s' = None"
  using AList.delete_conv' [of s ss] by (metis fun_upd_other map_of.simps(1))

lemma decrement_times: "times_in (decrementPresence p rm s) rm' s' = times_in p rm' s' - (if (rm', s') = (rm, s) then 1 else 0)"
  by (auto simp: times_in_def decrementPresence_def sessions_in_def Let_def AList.update_conv' AList.delete_conv'
      nullish_def split: option.splits dest: delete_all)

lemma player_count: "presence_ok p \<Longrightarrow> connectedPlayerCount p rm = card {s. 0 < times_in p rm s}"
proof -
  assume "presence_ok p"
  then have ok: "counts_ok (sessions_in p rm)" by (rule counts_ok_sessions)
  have "{s. 0 < times_in p rm s} = set (map fst (sessions_in p rm))"
  proof (intro set_eqI iffI)
    fix s assume "s \<in> set (map fst (sessions_in p rm))"
    then obtain n where "(s, n) \<in> set (sessions_in p rm)" by auto
    with ok have "map_of (sessions_in p rm) s = Some n" "0 < n" by (auto simp: counts_ok_def)
    then show "s \<in> {s. 0 < times_in p rm s}" by (simp add: times_in_def)
  next
    fix s assume "s \<in> {s. 0 < times_in p rm s}"
    then obtain n where "map_of (sessions_in p rm) s = Some n" by (auto simp: times_in_def nullish_def split: option.splits)
    then show "s \<in> set (map fst (sessions_in p rm))" by (force dest: map_of_SomeD)
  qed
  moreover have "card (set (map fst (sessions_in p rm))) = length (map fst (sessions_in p rm))"
    by (rule distinct_card) (use ok in \<open>simp add: counts_ok_def\<close>)
  ultimately show ?thesis by (simp add: connectedPlayerCount_def)
qed

text \<open>The table counts the sockets that listen.\<close>

definition presence_inv :: "presence_world \<Rightarrow> bool" where
  "presence_inv w \<longleftrightarrow> presence_ok (ps_presence w) \<and>
     (\<forall>rm s. times_in (ps_presence w) rm s = count_where (\<lambda>l. snd l = (rm, s)) (ps_listening w))"

lemma count_where_remove1:
  "l \<in> set ls \<Longrightarrow> count_where P (remove1 l ls) = count_where P ls - (if P l then 1 else 0)"
  by (simp add: count_where_def filter_remove1 length_remove1)

lemma presence_step_inv: "presence_inv w \<Longrightarrow> presence_inv (presence_step e w)"
proof (cases e)
  case (Attached k rm s)
  assume "presence_inv w"
  then show ?thesis by (simp add: Attached presence_inv_def presence_step_def increment_ok increment_times count_where_def)
next
  case (Closed k)
  assume w: "presence_inv w"
  show ?thesis
  proof (cases "find (\<lambda>l. fst l = k) (ps_listening w)")
    case (Some l)
    then have "l \<in> set (ps_listening w)" by (simp add: find_SomeD)
    with w show ?thesis
      by (simp add: Closed Some presence_inv_def presence_step_def decrement_ok decrement_times count_where_remove1 prod_eq_iff)
  qed (simp add: Closed presence_step_def w)
qed

interpretation presence: event_machine presence_step "\<lambda>e. True" presence_inv
  by unfold_locales (rule presence_step_inv)

lemma presence_run_inv: "presence_inv (presence_run es)"
  unfolding presence_run_def
  by (rule presence.run_inv)
    (simp_all add: presence_inv_def presence_ok_def times_in_def sessions_in_def count_where_def list_all_iff)

text \<open>A socket that nobody will close stays in the table.\<close>

lemma listening_stays:
  assumes "(k, x) \<in> set (ps_listening w)" "\<forall>e \<in> set es. e \<noteq> Closed k"
  shows "(k, x) \<in> set (ps_listening (fold presence_step es w))"
  using assms
proof (induction es arbitrary: w)
  case (Cons e es)
  have "(k, x) \<in> set (ps_listening (presence_step e w))"
  proof (cases e)
    case (Closed j)
    then have "j \<noteq> k" using Cons.prems(2) by auto
    then show ?thesis using Cons.prems(1) by (auto simp: presence_step_def Closed split: option.splits dest!: find_SomeD intro: in_set_remove1 [THEN iffD2])
  qed (use Cons.prems(1) in \<open>simp add: presence_step_def\<close>)
  then show ?case using Cons.IH Cons.prems(2) by simp
qed simp

lemma presence_step_listeners:
  "l \<in> set (ps_listening (presence_step e w)) \<Longrightarrow> l \<in> set (ps_listening w) \<or> e = Attached (fst l) (fst (snd l)) (snd (snd l))"
  by (cases e) (auto simp: presence_step_def split: option.splits dest: set_remove1_subset [THEN subsetD])

lemma run_listeners:
  "l \<in> set (ps_listening (fold presence_step es w)) \<Longrightarrow>
     l \<in> set (ps_listening w) \<or> Attached (fst l) (fst (snd l)) (snd (snd l)) \<in> set es"
  by (induction es arbitrary: w) (auto dest: presence_step_listeners)

text \<open>The rows that a bet leaves.\<close>

lemma finish_rows:
  assumes "placeBet_finish env now pb res w = (r, w')"
  shows "(\<exists>st. db_bets (wd_db w') = update_where (\<lambda>b. be_id b = be_id (pb_bet pb)) (\<lambda>b. b\<lparr>be_status := st\<rparr>) (db_bets (wd_db w))) \<and>
    wd_wallet w' = wd_wallet w"
proof -
  have pool: "wd_db (emitPoolUpdate i v) = wd_db v" "wd_wallet (emitPoolUpdate i v) = wd_wallet v" for i and v :: "'a world"
    by (simp_all add: emitPoolUpdate_def Let_def)
  show ?thesis using assms
    by (auto simp: placeBet_finish_def placeBet_accept_def placeBet_uncertain_def pool Let_def upd_bet_def split: if_splits)
qed


text \<open>A bet that reaches the wallet is the only new row, and its columns are those of the request.\<close>

lemma placeBet_appends:
  assumes "find_bet (wd_db w) (uuid_at env w 2) = None" "placeBet env now p w = (r, w')"
  shows "(db_bets (wd_db w') = db_bets (wd_db w) \<and> wd_wallet w' = wd_wallet w) \<or>
    (\<exists>b q a s res. ev_bet env q (wd_wallet w) = (res, wd_wallet w') \<and> db_bets (wd_db w') = db_bets (wd_db w) @ [b] \<and>
       place_gate now p w = Inr a \<and> find_session (wd_db w) (pp_sessionId p) = Some s \<and>
       b = (new_bet p (wd_engine w) (uuid_at env w 2) (ar_id a) (uuid_at env w 0) now)\<lparr>be_status := be_status b\<rparr> \<and>
       wb_amountMicro q = pp_amountMicro p \<and> wq_playerRef q = pp_playerRef p)"
proof -
  obtain x w1 where bg: "placeBet_begin env now p w = (x, w1)" by fastforce
  show ?thesis
  proof (cases x)
    case (Inl r0)
    then show ?thesis using bg begin_refused [of env now p w r0 w1] assms(2) by (simp add: placeBet_def)
  next
    case (Inr pb)
    from bg [unfolded Inr] obtain a where a: "place_gate now p w = Inr a"
      "pb_bet pb = new_bet p (wd_engine w) (uuid_at env w 2) (ar_id a) (uuid_at env w 0) now"
      "wb_amountMicro (pb_request pb) = pp_amountMicro p" "wq_playerRef (pb_request pb) = pp_playerRef p"
      "w1 = on_db (add_bet (pb_bet pb)) (draw 3 w)"
      by (rule begin_called)
    obtain res s where e: "ev_bet env (pb_request pb) (wd_wallet w1) = (res, s)" by fastforce
    have fin: "placeBet_finish env now pb res (w1\<lparr>wd_wallet := s\<rparr>) = (r, w')"
      using assms(2) bg Inr e by (simp add: placeBet_def)
    obtain st where st: "db_bets (wd_db w') = update_where (\<lambda>b. be_id b = be_id (pb_bet pb)) (\<lambda>b. b\<lparr>be_status := st\<rparr>) (db_bets (wd_db w1))"
      and w: "wd_wallet w' = s" using finish_rows [OF fin] by auto
    have fresh: "\<forall>b \<in> set (db_bets (wd_db w)). be_id b \<noteq> be_id (pb_bet pb)"
      using assms(1) by (simp add: find_bet_none a(2) new_bet_def)
    from st have rows: "db_bets (wd_db w') = db_bets (wd_db w) @ [(pb_bet pb)\<lparr>be_status := st\<rparr>]"
      using BetFlow.update_last [of "db_bets (wd_db w)" be_id "be_id (pb_bet pb)" "pb_bet pb" "\<lambda>b. b\<lparr>be_status := st\<rparr>"] fresh a(5) by simp
    obtain se where "find_session (wd_db w) (pp_sessionId p) = Some se" using place_gate_open [OF a(1)] by blast
    moreover have "wd_wallet w1 = wd_wallet w" by (simp add: a(5))
    ultimately show ?thesis using rows a w e
      by (intro disjI2 exI [of _ "(pb_bet pb)\<lparr>be_status := st\<rparr>"] exI [of _ "pb_request pb"] exI [of _ a] exI [of _ se] exI [of _ res]) simp
  qed
qed

lemma find_bet_in: "find_bet d i = Some b \<Longrightarrow> b \<in> set (db_bets d)"
  by (simp add: find_bet_def find_SomeD)

lemma cash_out_call:
  assumes "cashOut env now p w = (r, w')" "wd_wallet w' \<noteq> wd_wallet w"
  shows "\<exists>b q res. find_bet (wd_db w) (cp_betId p) = Some b \<and> be_sessionId b = cp_sessionId p \<and> be_status b = BAccepted \<and>
    ev_win env q (wd_wallet w) = (res, wd_wallet w') \<and> ww_referenceTransactionUuid q = be_betTransactionUuid b \<and>
    wq_playerRef q = be_playerRef b"
proof -
  let ?p = "p\<lparr>cp_mode := MANUAL, cp_forcedMultiplier := None\<rparr>"
  obtain x w1 where bg: "cashOutBet_begin env now ?p w = (x, w1)" by fastforce
  have c: "cashOutBet env now ?p w = (r, w')" using assms by (auto simp: cashOut_def split: if_splits)
  have wal: "wd_wallet w1 = wd_wallet w" if "x = Inl r0" for r0
    using bg that by (auto simp: cashOutBet_begin_def Let_def split: option.splits game_outcome.splits if_splits)
  obtain pc where x: "x = Inr pc"
    using c bg wal assms(2) by (cases x) (auto simp: cashOutBet_def)
  from bg [unfolded x] obtain b where b: "find_bet (wd_db w) (cp_betId p) = Some b" "be_status b = BAccepted"
    "be_sessionId b = cp_sessionId p" "ww_referenceTransactionUuid (pc_request pc) = be_betTransactionUuid b"
    "wq_playerRef (pc_request pc) = be_playerRef b" "w1 = draw 2 w"
    by (rule cashout_called) simp
  obtain res s where e: "ev_win env (pc_request pc) (wd_wallet w) = (res, s)" by fastforce
  have "cashOutBet_finish env now pc res (w1\<lparr>wd_wallet := s\<rparr>) = (r, w')"
    using c bg x b(6) e by (simp add: cashOutBet_def)
  then have "wd_wallet w' = s" by (auto simp: cashOutBet_finish_def emitPoolUpdate_def Let_def)
  with b e show ?thesis by blast
qed

section \<open>Properties\<close>

text \<open>C8. Whatever JSON a player sends, it acts for the session of its own connection. A bet
  message either moves nothing, or asks the wallet once, for the player of the session, and
  adds one bet: of the session, its player, operator and currency, in the round that is
  open, with an amount within the limits and a selection that the game has parsed, while
  the session is live. A cash-out message moves money only for an accepted bet of that same
  session, and credits the player of that bet.\<close>

theorem socket_acts_for_own_session:
  assumes "find_bet (wd_db w) (uuid_at env w 2) = None"
    and "place_bet_message env now sd v w = (ack, w1)" "cash_out_message z env now sd v w = (cack, w2)"
  shows "((db_bets (wd_db w1) = db_bets (wd_db w) \<and> wd_wallet w1 = wd_wallet w) \<or>
      (\<exists>b q a s res. ev_bet env q (wd_wallet w) = (res, wd_wallet w1) \<and> wq_playerRef q = sd_playerRef sd \<and>
         wb_amountMicro q = be_amountMicro b \<and> db_bets (wd_db w1) = db_bets (wd_db w) @ [b] \<and>
         be_sessionId b = sd_sessionId sd \<and> be_playerRef b = sd_playerRef sd \<and> be_operatorId b = sd_operatorId sd \<and>
         be_currency b = sd_currency sd \<and> en_active (wd_engine w) = Some a \<and> ar_phase a = PhBettingOpen \<and>
         be_roundId b = ar_id a \<and> ec_minBetMicro (en_cfg (wd_engine w)) \<le> be_amountMicro b \<and>
         be_amountMicro b \<le> ec_maxBetMicro (en_cfg (wd_engine w)) \<and>
         gp_selectionSchema (en_plugin (wd_engine w)) (get_prop v ''selection'') = Some (be_selection b) \<and>
         find_session (wd_db w) (sd_sessionId sd) = Some s \<and> se_terminatedAt s = None \<and> now < se_expiresAt s)) \<and>
    (wd_wallet w2 = wd_wallet w \<or>
      (\<exists>b q res. b \<in> set (db_bets (wd_db w)) \<and> be_sessionId b = sd_sessionId sd \<and> be_status b = BAccepted \<and>
         ev_win env q (wd_wallet w) = (res, wd_wallet w2) \<and>
         ww_referenceTransactionUuid q = be_betTransactionUuid b \<and> wq_playerRef q = be_playerRef b))"
    (is "?place \<and> ?cash")
proof
  show ?place
  proof (cases "w1 = w")
    case False
    with assms(2) obtain amt sel autoplay turbo r where
      env: "PlaceBetEnvelopeSchema v = EnvelopeOk amt (get_prop v ''selection'') autoplay turbo"
        "gp_selectionSchema (en_plugin (wd_engine w)) (get_prop v ''selection'') = Some sel"
      and pl: "placeBet env now \<lparr>pp_sessionId = sd_sessionId sd, pp_playerRef = sd_playerRef sd,
                 pp_operatorId = sd_operatorId sd, pp_currency = sd_currency sd, pp_amountMicro = amt,
                 pp_selection = sel, pp_autoplay = autoplay, pp_turbo = turbo\<rparr> w = (r, w1)"
      by (auto simp: place_bet_message_def PlaceBetEnvelopeSchema_def
          split: bet_envelope.splits option.splits prod.splits place_result.splits json.splits bet_amount.splits)
    let ?p = "\<lparr>pp_sessionId = sd_sessionId sd, pp_playerRef = sd_playerRef sd,
                 pp_operatorId = sd_operatorId sd, pp_currency = sd_currency sd, pp_amountMicro = amt,
                 pp_selection = sel, pp_autoplay = autoplay, pp_turbo = turbo\<rparr>"
    show ?thesis using placeBet_appends [OF assms(1) pl]
    proof (elim disjE exE conjE)
      fix b q a s res
      assume b: "place_gate now ?p w = Inr a"
        and row: "b = (new_bet ?p (wd_engine w) (uuid_at env w 2) (ar_id a)
                   (uuid_at env w 0) now)\<lparr>be_status := be_status b\<rparr>"
      have cols: "be_sessionId b = sd_sessionId sd" "be_playerRef b = sd_playerRef sd" "be_operatorId b = sd_operatorId sd"
        "be_currency b = sd_currency sd" "be_roundId b = ar_id a" "be_amountMicro b = amt" "be_selection b = sel"
        by (subst row, simp add: new_bet_def)+
      assume "wb_amountMicro q = pp_amountMicro ?p"
        "wq_playerRef q = pp_playerRef ?p"
        "ev_bet env q (wd_wallet w) = (res, wd_wallet w1)" "db_bets (wd_db w1) = db_bets (wd_db w) @ [b]"
      then show ?thesis using place_gate_open [OF b] env cols
        by (intro disjI2 exI [of _ b] exI [of _ q] exI [of _ a]) auto
    qed simp
  qed simp
  show ?cash
  proof (cases "wd_wallet w2 = wd_wallet w")
    case False
    with assms(3) obtain betId slotId r where
      "cashOut env now \<lparr>cp_sessionId = sd_sessionId sd, cp_playerRef = sd_playerRef sd, cp_operatorId = sd_operatorId sd,
         cp_currency = sd_currency sd, cp_betId = betId, cp_slotId = slotId, cp_mode = MANUAL, cp_forcedMultiplier = None\<rparr> w = (r, w2)"
      by (auto simp: cash_out_message_def split: option.splits prod.splits)
    from cash_out_call [OF this False] show ?thesis by (auto dest: find_bet_in)
  qed simp
qed

definition sample_socket :: socket_data where
  "sample_socket = \<lparr>sd_sessionId = ''s'', sd_operatorId = ''op'', sd_playerRef = ''p'', sd_currency = ''LKR'',
     sd_gameCode = ''ketapola-dice''\<rparr>"

definition low_message :: json where
  "low_message = JObj [(''amountMicro'', JBig 100), (''selection'', JObj [(''side'', JStr ''LOW'')])]"

lemma low_message_placed:
  "place_bet_message (env_with res) 5 sample_socket low_message open_world =
     (case placeBet (env_with res) 5 sample_place open_world of
        (PlaceThrew, w1) \<Rightarrow> (AckNever, w1) | (r, w1) \<Rightarrow> (AckPlaced r, w1))"
  by (simp add: place_bet_message_def PlaceBetEnvelopeSchema_def low_message_def get_prop_def read_amount_def opt_bool_def only_keys_def
      open_world_def dice_sample ketapolaDice_def ketapolaDiceSelectionSchema_def sample_socket_def sample_place_def)

theorem socket_acts_for_own_session_witness:
  "\<exists>b. db_bets (wd_db (snd (place_bet_message (env_with timeout_response) 5 sample_socket low_message open_world))) = [b] \<and>
     be_sessionId b = ''s'' \<and> be_selection b = DiceSelection LOW"
proof -
  let ?e = "env_with timeout_response" and ?z = "\<lparr>zd_uuid = (\<lambda>s. True), zd_url = (\<lambda>_. True)\<rparr>"
  obtain ack w1 where m: "place_bet_message ?e 5 sample_socket low_message open_world = (ack, w1)" by fastforce
  obtain cack w2 where c: "cash_out_message ?z ?e 5 sample_socket low_message open_world = (cack, w2)" by fastforce
  have n: "find_bet (wd_db open_world) (uuid_at ?e open_world 2) = None"
    by (simp add: open_world_def dice_world_def find_bet_def)
  have e: "db_bets (wd_db open_world) = []" by (simp add: open_world_def dice_world_def)
  have one: "length (db_bets (wd_db w1)) = 1"
    using m sample_begin [of timeout_response] unfolding low_message_placed
    by (auto simp: placeBet_def env_with_def placeBet_finish_def timeout_response_def ok_response_def
        isSuccessOrDuplicate_def isRejectStatus_def placeBet_uncertain_def Let_def open_world_def dice_world_def)
  have sel: "gp_selectionSchema (en_plugin (wd_engine open_world)) (get_prop low_message ''selection'') = Some (DiceSelection LOW)"
    by (simp add: low_message_def get_prop_def open_world_def dice_sample ketapolaDice_def ketapolaDiceSelectionSchema_def
        only_keys_def)
  have "\<exists>b. db_bets (wd_db w1) = [b] \<and> be_sessionId b = ''s'' \<and> be_selection b = DiceSelection LOW"
    using socket_acts_for_own_session [OF n m c] one by (auto simp: e sel sample_socket_def)
  then show ?thesis by (simp add: m)
qed

text \<open>An amount that is a string, but not of an integer, is not refused: the conversion throws out
  of the schema, inside a handler whose promise nobody waits for. No acknowledgement is
  sent, and nothing in the server catches the rejection.\<close>

theorem malformed_amount_unanswered:
  assumes "get_prop (JObj kvs) ''amountMicro'' = JStr s" "js_BigInt s = None"
  shows "place_bet_message env now sd (JObj kvs) w = (AckNever, w)"
  using assms by (simp add: place_bet_message_def PlaceBetEnvelopeSchema_def read_amount_def)

theorem malformed_amount_unanswered_witness:
  "fst (place_bet_message (env_with ok_response) 5 sample_socket (JObj [(''amountMicro'', JStr ''1.5'')]) open_world) = AckNever"
  by (subst malformed_amount_unanswered [of _ "''1.5''"])
    (simp_all add: get_prop_def js_BigInt_def js_trim_def js_space_def read_base_def hex_val_def)

text \<open>The number of players a room is told is the number of sessions with a socket whose
  end the server listens for, after any interleaving of joins and ends.\<close>

theorem presence_counts_listeners:
  "connectedPlayerCount (ps_presence (presence_run es)) rm =
     card {s. \<exists>k. (k, rm, s) \<in> set (ps_listening (presence_run es))}"
proof -
  let ?w = "presence_run es"
  have "presence_ok (ps_presence ?w)" and
    t: "times_in (ps_presence ?w) rm s = count_where (\<lambda>l. snd l = (rm, s)) (ps_listening ?w)" for s
    using presence_run_inv [of es] by (simp_all add: presence_inv_def)
  then have "connectedPlayerCount (ps_presence ?w) rm = card {s. 0 < count_where (\<lambda>l. snd l = (rm, s)) (ps_listening ?w)}"
    by (simp add: player_count)
  also have "{s. 0 < count_where (\<lambda>l. snd l = (rm, s)) (ps_listening ?w)} = {s. \<exists>k. (k, rm, s) \<in> set (ps_listening ?w)}"
    by (force simp: count_where_def length_greater_0_conv filter_empty_conv)
  finally show ?thesis .
qed

text \<open>A socket that ends while its handler still waits for the engine is counted when the engine
  is found, and nothing that follows takes it out of the count again: as the end has come
  before, no other end of the same socket follows.\<close>

theorem early_end_counts_for_ever:
  assumes "\<forall>e \<in> set later. e \<noteq> Closed k" "\<forall>e \<in> set earlier. \<forall>rm' s'. e \<noteq> Attached k rm' s'"
  shows "presence_run (earlier @ [Closed k]) = presence_run earlier \<and>
    0 < connectedPlayerCount (ps_presence (presence_run (earlier @ [Closed k, Attached k rm s] @ later))) rm"
proof
  have "\<forall>l \<in> set (ps_listening (presence_run earlier)). fst l \<noteq> k"
    using assms(2) by (fastforce simp: presence_run_def dest: run_listeners)
  then have "find (\<lambda>l. fst l = k) (ps_listening (presence_run earlier)) = None" by (auto simp: find_None_iff)
  then show "presence_run (earlier @ [Closed k]) = presence_run earlier"
    by (simp add: presence_run_def presence_step_def)
  let ?es = "earlier @ [Closed k, Attached k rm s] @ later"
  have "(k, rm, s) \<in> set (ps_listening (presence_run ?es))"
    unfolding presence_run_def by (simp, rule listening_stays) (use assms(1) in \<open>simp_all add: presence_step_def\<close>)
  then have "0 < times_in (ps_presence (presence_run ?es)) rm s"
    using presence_run_inv [of ?es] by (force simp: presence_inv_def count_where_def length_greater_0_conv filter_empty_conv)
  then have "map_of (sessions_in (ps_presence (presence_run ?es)) rm) s \<noteq> None"
    by (cases "map_of (sessions_in (ps_presence (presence_run ?es)) rm) s") (simp_all add: times_in_def)
  then show "0 < connectedPlayerCount (ps_presence (presence_run ?es)) rm"
    by (cases "sessions_in (ps_presence (presence_run ?es)) rm") (simp_all add: connectedPlayerCount_def)
qed

theorem early_end_counts_for_ever_witness:
  "0 < connectedPlayerCount (ps_presence (presence_run ([] @ [Closed 0, Attached 0 ''r'' ''s''] @ [Closed 1]))) ''r''"
  using early_end_counts_for_ever [of "[Closed 1]" 0 "[]" "''r''" "''s''"] by simp

end
