(* ===== verification/Mfa.thy ===== *)
theory Mfa
  imports Access "HOL-Library.Word"
begin

unbundle bit_operations_syntax

text \<open>
  The second factor of portal users (\<^verbatim>\<open>apps/rgs-server/src/services/Mfa.ts\<close>): the base 32
  code of secrets, one-time codes of RFC 6238, recovery codes, and the life of an enrolment. Bytes
  are \<open>8 word\<close>, the shift registers of the code are \<open>32 word\<close> as in the source language. HMAC-SHA1,
  SHA-256, the cipher of stored secrets and random bytes are parameters.
\<close>

section \<open>Base 32\<close>

definition BASE32_ALPHABET :: string where "BASE32_ALPHABET = ''ABCDEFGHIJKLMNOPQRSTUVWXYZ234567''"

definition base32_char :: "32 word \<Rightarrow> char" where
  "base32_char v = BASE32_ALPHABET ! unat (v AND 31)"

text \<open>The inner loop: characters while five bits are left.\<close>

fun base32_emit :: "nat \<Rightarrow> 32 word \<Rightarrow> string \<Rightarrow> nat \<times> string" where
  "base32_emit bits v out =
     (if 5 \<le> bits then base32_emit (bits - 5) v (out @ [base32_char (drop_bit (bits - 5) v)]) else (bits, out))"

declare base32_emit.simps [simp del]

fun base32_bytes :: "8 word list \<Rightarrow> nat \<Rightarrow> 32 word \<Rightarrow> string \<Rightarrow> nat \<times> 32 word \<times> string" where
  "base32_bytes [] bits v out = (bits, v, out)"
| "base32_bytes (b # bs) bits v out =
     (let v1 = push_bit 8 v OR ucast b; (bits1, out1) = base32_emit (bits + 8) v1 out
      in base32_bytes bs bits1 v1 out1)"

definition base32Encode :: "8 word list \<Rightarrow> string" where
  "base32Encode buf =
     (let (bits, v, out) = base32_bytes buf 0 0 []
      in if 0 < bits then out @ [base32_char (push_bit (5 - bits) v)] else out)"

fun index_of :: "char \<Rightarrow> string \<Rightarrow> nat option" where
  "index_of c [] = None"
| "index_of c (x # xs) = (if x = c then Some 0 else map_option Suc (index_of c xs))"

fun base32_chars :: "string \<Rightarrow> nat \<Rightarrow> 32 word \<Rightarrow> 8 word list \<Rightarrow> 8 word list" where
  "base32_chars [] bits v out = out"
| "base32_chars (c # cs) bits v out =
     (case index_of c BASE32_ALPHABET of
        None \<Rightarrow> base32_chars cs bits v out
      | Some i \<Rightarrow>
          (let v1 = push_bit 5 v OR of_nat i
           in if 8 \<le> bits + 5
              then base32_chars cs (bits + 5 - 8) v1 (out @ [ucast (drop_bit (bits + 5 - 8) v1 AND 255)])
              else base32_chars cs (bits + 5) v1 out))"

definition base32Decode :: "string \<Rightarrow> 8 word list" where
  "base32Decode s = base32_chars (filter (\<lambda>c. c \<in> set BASE32_ALPHABET) (map to_upper s)) 0 0 []"

section \<open>One-time codes\<close>

record mfa_env =
  mf_secrets :: secret_env
  mf_hmac1 :: "8 word list \<Rightarrow> 8 word list \<Rightarrow> 8 word list"
  mf_sha256 :: sha_fun
  mf_uri :: "string \<Rightarrow> string"

definition TOTP_PERIOD_SECONDS :: int where "TOTP_PERIOD_SECONDS = 30"
definition TOTP_DIGITS :: nat where "TOTP_DIGITS = 6"
definition TOTP_WINDOW :: int where "TOTP_WINDOW = 1"
definition RECOVERY_CODE_COUNT :: nat where "RECOVERY_CODE_COUNT = 8"

definition totpCounter :: "msec \<Rightarrow> int" where
  "totpCounter t = \<lfloor>jdiv (jdiv (of_int t) 1000) (of_int TOTP_PERIOD_SECONDS)\<rfloor>"

text \<open>The counter as eight bytes, the highest first; the write throws when it does not fit.\<close>

definition counter_bytes :: "int \<Rightarrow> 8 word list option" where
  "counter_bytes c =
     (if 0 \<le> c \<and> c < 2 ^ 64 then Some (map (\<lambda>i. word_of_int (c div 2 ^ (8 * (7 - i)))) [0..<8]) else None)"

definition hmacCounter :: "mfa_env \<Rightarrow> 8 word list \<Rightarrow> int \<Rightarrow> 8 word list option" where
  "hmacCounter env secret c = map_option (mf_hmac1 env secret) (counter_bytes c)"

definition truncate_hmac :: "8 word list \<Rightarrow> int" where
  "truncate_hmac hmac =
     (let i = unat (last hmac AND 15);
          code = push_bit 24 (ucast (hmac ! i AND 127)) OR push_bit 16 (ucast (hmac ! (i + 1)))
                 OR push_bit 8 (ucast (hmac ! (i + 2))) OR (ucast (hmac ! (i + 3)) :: 32 word)
      in sint code mod 10 ^ TOTP_DIGITS)"

definition computeTotp :: "mfa_env \<Rightarrow> 8 word list \<Rightarrow> msec \<Rightarrow> int \<Rightarrow> string option" where
  "computeTotp env secret t shift =
     map_option (\<lambda>h. pad_start TOTP_DIGITS (show_int (truncate_hmac h))) (hmacCounter env secret (totpCounter t + shift))"

definition six_digits :: "string \<Rightarrow> bool" where
  "six_digits code \<longleftrightarrow> length code = 6 \<and> list_all is_dec code"

text \<open>\<open>None\<close>: a counter in the window does not fit, and the code throws.\<close>

definition verifyTotp :: "mfa_env \<Rightarrow> 8 word list \<Rightarrow> string \<Rightarrow> msec \<Rightarrow> bool option" where
  "verifyTotp env secret code t =
     (if \<not> six_digits code then Some False
      else map_option (\<lambda>expected. code \<in> set expected)
             (those (map (computeTotp env secret t) [- TOTP_WINDOW..TOTP_WINDOW])))"

text \<open>Recovery codes, from eight draws of six bytes.\<close>

definition generateRecoveryCodes :: "8 word list list \<Rightarrow> string list" where
  "generateRecoveryCodes raws = map (\<lambda>raw. str_slice 0 10 (base32Encode raw)) (take RECOVERY_CODE_COUNT raws)"

fun join_space :: "string list \<Rightarrow> string" where
  "join_space [] = []"
| "join_space [x] = x"
| "join_space (x # y # ys) = x @ CHR '' '' # join_space (y # ys)"

definition hashRecoveryCodes :: "mfa_env \<Rightarrow> string list \<Rightarrow> string" where
  "hashRecoveryCodes env codes = digest_hex (mf_sha256 env (join_space codes))"

section \<open>Enrolment\<close>

text \<open>The row of a portal user, with the columns that only the login reads.\<close>

record user_row = portal_user_row +
  us_passwordHash :: string
  us_displayName :: string
  us_lastLoginAt :: "msec option"
  us_mfaTotpSecretCipher :: "string option"
  us_mfaEnrolledAt :: "msec option"
  us_mfaRecoveryCodesHash :: "string option"
  us_disabledBy :: "string option"

definition find_user :: "user_row list \<Rightarrow> uuid \<Rightarrow> user_row option" where
  "find_user us i = find (\<lambda>u. pu_id u = i) us"

definition upd_user :: "uuid \<Rightarrow> (user_row \<Rightarrow> user_row) \<Rightarrow> user_row list \<Rightarrow> user_row list" where
  "upd_user i f us = update_where (\<lambda>u. pu_id u = i) f us"

record mfa_draws =
  md_secret :: "8 word list"
  md_iv :: string
  md_recovery :: "8 word list list"

record enrolment =
  el_secret :: string
  el_otpauthUrl :: string
  el_recoveryCodes :: "string list"

definition otpauth_url :: "mfa_env \<Rightarrow> string \<Rightarrow> string \<Rightarrow> string \<Rightarrow> string" where
  "otpauth_url env operatorSlug userEmail secret =
     (let issuer = ''Yantra:'' @ operatorSlug
      in ''otpauth://totp/'' @ mf_uri env (issuer @ '':'' @ userEmail) @ ''?secret='' @ secret @ ''&issuer='' @ mf_uri env issuer @
         ''&algorithm=SHA1&digits='' @ show_int (int TOTP_DIGITS) @ ''&period='' @ show_int TOTP_PERIOD_SECONDS)"

definition beginMfaEnrollment ::
    "mfa_env \<Rightarrow> mfa_draws \<Rightarrow> uuid \<Rightarrow> string \<Rightarrow> string \<Rightarrow> user_row list \<Rightarrow> (string + enrolment) \<times> user_row list" where
  "beginMfaEnrollment env dr userId operatorSlug userEmail us =
     (case find_user us userId of
        None \<Rightarrow> (Inl ''user_not_found'', us)
      | Some u \<Rightarrow>
          if us_mfaEnrolledAt u \<noteq> None then (Inl ''mfa_already_enrolled'', us)
          else
            (let secret = base32Encode (md_secret dr); codes = generateRecoveryCodes (md_recovery dr)
             in (Inr \<lparr>el_secret = secret, el_otpauthUrl = otpauth_url env operatorSlug userEmail secret,
                     el_recoveryCodes = codes\<rparr>,
                 upd_user userId (\<lambda>u. u\<lparr>us_mfaTotpSecretCipher := Some (encryptSecret (mf_secrets env) (md_iv dr) secret),
                     us_mfaRecoveryCodesHash := Some (hashRecoveryCodes env codes)\<rparr>) us)))"

text \<open>The secret of a user; \<open>None\<close> when the blob cannot be opened.\<close>

definition totp_secret :: "mfa_env \<Rightarrow> string \<Rightarrow> 8 word list option" where
  "totp_secret env cipher = map_option base32Decode (decryptSecret (mf_secrets env) cipher)"

definition confirmMfaEnrollment ::
    "mfa_env \<Rightarrow> msec \<Rightarrow> uuid \<Rightarrow> string \<Rightarrow> user_row list \<Rightarrow> (string + bool) \<times> user_row list" where
  "confirmMfaEnrollment env now userId code us =
     (case Option.bind (find_user us userId) us_mfaTotpSecretCipher of
        None \<Rightarrow> (Inl ''mfa_not_begun'', us)
      | Some cipher \<Rightarrow>
          (case Option.bind (totp_secret env cipher) (\<lambda>secret. verifyTotp env secret code now) of
             None \<Rightarrow> (Inl ''cipher'', us)
           | Some False \<Rightarrow> (Inr False, us)
           | Some True \<Rightarrow> (Inr True, upd_user userId (\<lambda>u. u\<lparr>us_mfaEnrolledAt := Some now\<rparr>) us)))"

datatype mfa_via = ViaTotp | ViaRecovery

definition verifyMfaCode :: "mfa_env \<Rightarrow> msec \<Rightarrow> uuid \<Rightarrow> string \<Rightarrow> user_row list \<Rightarrow> mfa_via option option" where
  "verifyMfaCode env now userId code us =
     (case find_user us userId of
        None \<Rightarrow> Some None
      | Some u \<Rightarrow>
          (case (us_mfaEnrolledAt u, us_mfaTotpSecretCipher u) of
             (Some _, Some cipher) \<Rightarrow>
               (case Option.bind (totp_secret env cipher) (\<lambda>secret. verifyTotp env secret code now) of
                  None \<Rightarrow> None
                | Some True \<Rightarrow> Some (Some ViaTotp)
                | Some False \<Rightarrow>
                    if truthy (us_mfaRecoveryCodesHash u) \<and>
                       us_mfaRecoveryCodesHash u =
                         Some (digest_hex (mf_sha256 env (filter (\<lambda>c. c \<noteq> CHR ''-'') (map to_upper code))))
                    then Some (Some ViaRecovery) else Some None)
           | _ \<Rightarrow> Some None))"

definition disableMfa :: "uuid \<Rightarrow> user_row list \<Rightarrow> user_row list" where
  "disableMfa userId us =
     upd_user userId (\<lambda>u. u\<lparr>us_mfaTotpSecretCipher := None, us_mfaEnrolledAt := None, us_mfaRecoveryCodesHash := None\<rparr>) us"


section \<open>Facts about the base 32 code\<close>

text \<open>The low bits of a word, the highest first; appending and cutting registers is appending and
  cutting these lists.\<close>

definition low_bits :: "nat \<Rightarrow> 'a::len word \<Rightarrow> bool list" where
  "low_bits n v = map (\<lambda>i. bit v (n - 1 - i)) [0..<n]"

lemma length_low_bits [simp]: "length (low_bits n v) = n"
  by (simp add: low_bits_def)

lemma low_bits_0 [simp]: "low_bits 0 v = []"
  by (simp add: low_bits_def)

lemma low_bits_shift:
  fixes v :: "32 word"
  assumes "n + k \<le> 32" "\<And>i. k \<le> i \<Longrightarrow> \<not> bit x i"
  shows "low_bits (n + k) (push_bit k v OR x) = low_bits n v @ low_bits k x"
proof (rule nth_equalityI)
  fix i assume "i < length (low_bits (n + k) (push_bit k v OR x))"
  then show "low_bits (n + k) (push_bit k v OR x) ! i = (low_bits n v @ low_bits k x) ! i"
    using assms by (cases "i < n") (auto simp: low_bits_def nth_append bit_or_iff bit_push_bit_iff add.commute [of k n])
qed simp

lemma low_bits_drop: "k \<le> n \<Longrightarrow> low_bits k (drop_bit (n - k) v) = take k (low_bits n v)"
  by (rule nth_equalityI) (auto simp: low_bits_def bit_drop_bit_eq intro!: arg_cong [where f = "bit v"])

lemma low_bits_rest: "k \<le> n \<Longrightarrow> low_bits (n - k) v = drop k (low_bits n v)"
  by (rule nth_equalityI) (auto simp: low_bits_def intro!: arg_cong [where f = "bit v"])

lemma low_bits_pad: "n \<le> 5 \<Longrightarrow> low_bits 5 (push_bit (5 - n) (v :: 32 word)) = low_bits n v @ replicate (5 - n) False"
  using low_bits_shift [of n "5 - n" 0 v] by (simp add: low_bits_def map_replicate_const)

lemma low_bits_cong: "(\<And>i. i < n \<Longrightarrow> bit v i = bit w i) \<Longrightarrow> low_bits n v = low_bits n w"
  by (auto simp: low_bits_def)

lemma low_bits_inj: "low_bits n v = low_bits n w \<Longrightarrow> i < n \<Longrightarrow> bit v i = bit w i"
proof -
  assume "low_bits n v = low_bits n w" "i < n"
  then have "low_bits n v ! (n - 1 - i) = low_bits n w ! (n - 1 - i)" by simp
  with \<open>i < n\<close> show ?thesis by (simp add: low_bits_def)
qed

lemma byte_inj:
  fixes v w :: "8 word"
  assumes "low_bits 8 v = low_bits 8 w"
  shows "v = w"
  by (rule bit_word_eqI, rule low_bits_inj [OF assms]) simp

lemma index_of_alphabet: "i < 32 \<Longrightarrow> index_of (BASE32_ALPHABET ! i) BASE32_ALPHABET = Some i"
proof -
  have "list_all (\<lambda>i. index_of (BASE32_ALPHABET ! i) BASE32_ALPHABET = Some i) [0..<32]" by code_simp
  then show "i < 32 \<Longrightarrow> ?thesis" by (simp add: list_all_iff)
qed

lemma mask5_less: "unat (v AND 31 :: 32 word) < 32"
  using word_and_le1 [of v "31 :: 32 word"] by (simp add: word_le_nat_alt)

lemma base32_char_index: "index_of (base32_char v) BASE32_ALPHABET = Some (unat (v AND 31))"
  by (simp add: base32_char_def index_of_alphabet mask5_less)

lemma alphabet_char: "base32_char v \<in> set BASE32_ALPHABET"
proof -
  have "length BASE32_ALPHABET = 32" by (simp add: BASE32_ALPHABET_def)
  then show ?thesis using mask5_less [of v] by (auto simp: base32_char_def)
qed

lemma alphabet_upper: "c \<in> set BASE32_ALPHABET \<Longrightarrow> to_upper c = c"
proof -
  have "list_all (\<lambda>c. to_upper c = c) BASE32_ALPHABET" by code_simp
  then show "c \<in> set BASE32_ALPHABET \<Longrightarrow> ?thesis" by (simp add: list_all_iff)
qed

lemma bit_31: "bit (31 :: 32 word) i \<longleftrightarrow> i < 5"
proof -
  have "bit (31 :: 32 word) i \<longleftrightarrow> bit (mask 5 :: 32 word) i" by (simp add: mask_eq_exp_minus_1)
  then show ?thesis by (simp only: bit_mask_iff) auto
qed

lemma bit_255: "bit (255 :: 32 word) i \<longleftrightarrow> i < 8"
proof -
  have "bit (255 :: 32 word) i \<longleftrightarrow> bit (mask 8 :: 32 word) i" by (simp add: mask_eq_exp_minus_1)
  then show ?thesis by (simp only: bit_mask_iff) auto
qed


lemma low_byte: "low_bits 8 (ucast (x AND 255 :: 32 word) :: 8 word) = low_bits 8 x"
proof (rule low_bits_cong)
  fix i :: nat assume "i < 8"
  then show "bit (ucast (x AND 255) :: 8 word) i = bit x i" by (simp only: bit_ucast_iff bit_and_iff bit_255) simp
qed

text \<open>The encoder cuts the stream of bits into fives, the decoder into eights.\<close>

definition fives :: "32 word list \<Rightarrow> bool list" where "fives ws = concat (map (low_bits 5) ws)"
definition eights :: "8 word list \<Rightarrow> bool list" where "eights bs = concat (map (low_bits 8) bs)"

lemma stream_simps [simp]:
  "fives [] = []" "fives (w # ws) = low_bits 5 w @ fives ws" "fives (ws @ us) = fives ws @ fives us"
  "eights [] = []" "eights (b # bs) = low_bits 8 b @ eights bs" "eights (bs @ cs) = eights bs @ eights cs"
  by (simp_all add: fives_def eights_def)

lemma length_eights [simp]: "length (eights bs) = 8 * length bs"
  by (induction bs) simp_all

lemma eights_inj: "eights bs = eights cs \<Longrightarrow> bs = cs"
proof (induction bs arbitrary: cs)
  case Nil
  then show ?case by (cases cs) (auto simp: length_0_conv [symmetric] simp del: length_0_conv)
next
  case (Cons b bs)
  then show ?case by (cases cs) (auto dest: byte_inj arg_cong [where f = length])
qed

lemma emit_fives:
  assumes "n \<le> 32"
  shows "\<exists>ws. snd (base32_emit n v out) = out @ map base32_char ws \<and> fst (base32_emit n v out) < 5 \<and>
    fst (base32_emit n v out) \<le> n \<and>
    fives ws @ low_bits (fst (base32_emit n v out)) v = low_bits n v"
  using assms
proof (induction n v out rule: base32_emit.induct)
  case (1 n v out)
  show ?case
  proof (cases "5 \<le> n")
    case True
    let ?w = "drop_bit (n - 5) v"
    have "n - 5 \<le> 32" using "1.prems" by simp
    from "1.IH" [OF True this] obtain ws where ws: "snd (base32_emit (n - 5) v (out @ [base32_char ?w])) = (out @ [base32_char ?w]) @ map base32_char ws"
      "fst (base32_emit (n - 5) v (out @ [base32_char ?w])) < 5" "fst (base32_emit (n - 5) v (out @ [base32_char ?w])) \<le> n - 5"
      "fives ws @ low_bits (fst (base32_emit (n - 5) v (out @ [base32_char ?w]))) v = low_bits (n - 5) v" by auto
    have "low_bits n v = low_bits 5 ?w @ low_bits (n - 5) v"
      using True low_bits_drop [of 5 n v] low_bits_rest [of 5 n v] by simp
    with ws True show ?thesis by (intro exI [of _ "?w # ws"]) (simp add: base32_emit.simps [of n])
  next
    case False
    then show ?thesis by (intro exI [of _ "[]"]) (simp add: base32_emit.simps [of n])
  qed
qed

lemma bytes_fives:
  assumes "n < 5" "base32_bytes bs n v out = (n', v', out')"
  shows "\<exists>ws. out' = out @ map base32_char ws \<and> n' < 5 \<and> fives ws @ low_bits n' v' = low_bits n v @ eights bs"
  using assms
proof (induction bs n v out rule: base32_bytes.induct)
  case (1 n v out)
  then show ?case by (intro exI [of _ "[]"]) simp
next
  case (2 b bs n v out)
  let ?v = "push_bit 8 v OR ucast b"
  obtain n1 out1 where e: "base32_emit (n + 8) ?v out = (n1, out1)" by fastforce
  from emit_fives [of "n + 8" ?v out] "2.prems"(1) obtain ws where ws: "out1 = out @ map base32_char ws" "n1 < 5"
    "fives ws @ low_bits n1 ?v = low_bits (n + 8) ?v" by (auto simp: e)
  have byte: "low_bits 8 (ucast b :: 32 word) = low_bits 8 b" by (rule low_bits_cong) (simp add: bit_ucast_iff)
  have high: "\<not> bit (ucast b :: 32 word) i" if "8 \<le> i" for i
    using that bit_imp_le_length [of b i] by (auto simp: bit_ucast_iff)
  have "low_bits (n + 8) ?v = low_bits n v @ low_bits 8 b"
    using low_bits_shift [of n 8 "ucast b" v] "2.prems"(1) high by (simp add: byte)
  moreover obtain us where "out' = out1 @ map base32_char us" "n' < 5" "fives us @ low_bits n' v' = low_bits n1 ?v @ eights bs"
    using "2.IH" [OF refl e [symmetric] refl ws(2)] "2.prems"(2) e by (auto simp: Let_def)
  ultimately show ?case using ws by (intro exI [of _ "ws @ us"]) (metis append.assoc map_append stream_simps(3,5))
qed

lemma encode_fives:
  "\<exists>ws p. base32Encode bs = map base32_char ws \<and> p < 5 \<and> fives ws = eights bs @ replicate p False"
proof -
  obtain n v out where e: "base32_bytes bs 0 0 [] = (n, v, out)" by (metis prod_cases3)
  from bytes_fives [OF _ e] obtain ws where ws: "out = map base32_char ws" "n < 5" "fives ws @ low_bits n v = eights bs" by auto
  show ?thesis
  proof (cases "0 < n")
    case True
    then show ?thesis using ws low_bits_pad [of n v]
      by (intro exI [of _ "ws @ [push_bit (5 - n) v]"] exI [of _ "5 - n"]) (auto simp: base32Encode_def e simp flip: append.assoc)
  next
    case False
    then show ?thesis using ws by (intro exI [of _ ws] exI [of _ 0]) (simp add: base32Encode_def e)
  qed
qed

lemma chars_eights:
  assumes "n < 8"
  shows "\<exists>cs r. base32_chars (map base32_char ws) n v out = out @ cs \<and> length r < 8 \<and> eights cs @ r = low_bits n v @ fives ws"
  using assms
proof (induction ws arbitrary: n v out)
  case Nil
  then show ?case by (intro exI [of _ "[]"] exI [of _ "low_bits n v"]) simp
next
  case (Cons w ws)
  let ?v = "push_bit 5 v OR of_nat (unat (w AND 31))"
  have low: "low_bits 5 (w AND 31) = low_bits 5 w" by (rule low_bits_cong) (simp only: bit_and_iff bit_31 simp_thms)
  have high: "\<not> bit (w AND 31) i" if "5 \<le> i" for i using that by (simp only: bit_and_iff bit_31) simp
  have v: "low_bits (n + 5) ?v = low_bits n v @ low_bits 5 w"
    using low_bits_shift [of n 5 "w AND 31" v] Cons.prems low high by simp
  show ?case
  proof (cases "8 \<le> n + 5")
    case True
    let ?b = "ucast (drop_bit (n + 5 - 8) ?v AND 255) :: 8 word"
    have "low_bits 8 ?b = low_bits 8 (drop_bit (n + 5 - 8) ?v)"
      by (rule low_byte)
    also have "\<dots> = take 8 (low_bits (n + 5) ?v)" using True by (rule low_bits_drop)
    finally have cut: "low_bits (n + 5) ?v = low_bits 8 ?b @ low_bits (n + 5 - 8) ?v"
      using low_bits_rest [OF True, of ?v] by simp
    have less: "n + 5 - 8 < 8" using Cons.prems by simp
    obtain cs r where "base32_chars (map base32_char ws) (n + 5 - 8) ?v (out @ [?b]) = (out @ [?b]) @ cs" "length r < 8"
      "eights cs @ r = low_bits (n + 5 - 8) ?v @ fives ws"
      using Cons.IH [OF less, of ?v "out @ [?b]"] by blast
    then show ?thesis using True v cut
      by (intro exI [of _ "?b # cs"] exI [of _ r]) (simp add: base32_char_index Let_def)
  next
    case False
    then have "n + 5 < 8" by simp
    from Cons.IH [OF this, of ?v out] show ?thesis using False v
      by (simp add: base32_char_index Let_def)
  qed
qed

lemma base32_inverse: "base32Decode (base32Encode bs) = bs"
proof -
  obtain ws p where e: "base32Encode bs = map base32_char ws" "p < 5" "fives ws = eights bs @ replicate p False"
    using encode_fives by blast
  have "filter (\<lambda>c. c \<in> set BASE32_ALPHABET) (map to_upper (map base32_char ws)) = map base32_char ws"
    by (induction ws) (simp_all add: alphabet_char alphabet_upper)
  then obtain cs r where d: "base32Decode (base32Encode bs) = cs" "length r < 8" "eights cs @ r = eights bs @ replicate p False"
    using chars_eights [of 0 ws 0 "[]"] by (auto simp: base32Decode_def e)
  have "8 * length cs + length r = 8 * length bs + p" using arg_cong [OF d(3), of length] by simp
  then have "length cs = length bs" using d(2) e(2) by presburger
  then have "eights cs = eights bs" using d(3) by (simp add: append_eq_append_conv)
  then show ?thesis using d(1) by (simp add: eights_inj)
qed


section \<open>Facts about codes\<close>

lemma length_pad_start: "length s \<le> n \<Longrightarrow> length (pad_start n s) = n"
  by (simp add: pad_start_def)

lemma computeTotp_digits: "computeTotp env secret t k = Some c \<Longrightarrow> six_digits c"
proof -
  assume "computeTotp env secret t k = Some c"
  then obtain h where c: "c = pad_start TOTP_DIGITS (show_int (truncate_hmac h))" by (auto simp: computeTotp_def)
  let ?n = "truncate_hmac h"
  have n: "0 \<le> ?n" "?n < 10 ^ 6" by (simp_all add: truncate_hmac_def TOTP_DIGITS_def Let_def)
  then have "length (dec_digits (nat ?n)) \<le> 6" by (intro length_dec_digits) simp_all
  moreover have "is_dec CHR ''0''" by (simp add: is_dec_def)
  ultimately show ?thesis using n(1) dec_digits_is_dec [of "nat ?n"]
    by (simp add: c six_digits_def TOTP_DIGITS_def show_int_def length_pad_start) (auto simp: pad_start_def list_all_iff)
qed

lemma computeTotp_window:
  assumes "computeTotp env secret t 0 = Some c" "\<bar>totpCounter t - totpCounter now\<bar> \<le> 1"
  shows "Some c \<in> set (map (computeTotp env secret now) [- TOTP_WINDOW..TOTP_WINDOW])"
proof -
  have "Some c = computeTotp env secret now (totpCounter t - totpCounter now)"
    using assms(1) by (auto simp: computeTotp_def)
  moreover have "totpCounter t - totpCounter now \<in> {-1, 0, 1}" using assms(2) by auto
  ultimately show ?thesis by (auto simp: TOTP_WINDOW_def upto.simps)
qed

lemma those_Some: "list_all (\<lambda>x. x \<noteq> None) xs \<Longrightarrow> \<exists>ys. those xs = Some ys \<and> map Some ys = xs"
  by (induction xs) auto

text \<open>A code of a neighbouring period is accepted, and nothing else is.\<close>

lemma verifyTotp_accepts:
  assumes "computeTotp env secret t 0 = Some c" "\<bar>totpCounter t - totpCounter now\<bar> \<le> 1"
    and "1 \<le> totpCounter now" "totpCounter now < 2 ^ 64 - 1"
  shows "verifyTotp env secret c now = Some True"
proof -
  let ?cs = "map (computeTotp env secret now) [- TOTP_WINDOW..TOTP_WINDOW]"
  have "list_all (\<lambda>x. x \<noteq> None) ?cs"
    using assms(3,4) by (simp add: TOTP_WINDOW_def upto.simps computeTotp_def hmacCounter_def counter_bytes_def)
  then obtain ys where ys: "those ?cs = Some ys" "map Some ys = ?cs" using those_Some by blast
  have "Some c \<in> set ?cs" using assms(1,2) by (rule computeTotp_window)
  then have "c \<in> set ys" by (auto simp flip: ys(2))
  then show ?thesis using ys(1) computeTotp_digits [OF assms(1)] by (simp add: verifyTotp_def)
qed

lemma verifyTotp_sound:
  "verifyTotp env secret c now = Some True \<Longrightarrow> \<exists>k \<in> {-1, 0, 1}. computeTotp env secret now k = Some c"
proof -
  assume "verifyTotp env secret c now = Some True"
  then obtain ys where "those (map (computeTotp env secret now) [- TOTP_WINDOW..TOTP_WINDOW]) = Some ys" "c \<in> set ys"
    by (auto simp: verifyTotp_def split: if_splits)
  then show ?thesis by (auto simp: TOTP_WINDOW_def upto.simps split: option.splits)
qed


lemma find_user_upd:
  "(\<And>u. pu_id (f u) = pu_id u) \<Longrightarrow>
     find_user (upd_user i f us) j = (if j = i then map_option f (find_user us j) else find_user us j)"
  by (simp add: find_user_def upd_user_def find_update_where_key)

lemma length_encode: "5 * length (base32Encode bs) < 8 * length bs + 5 \<and> 8 * length bs \<le> 5 * length (base32Encode bs)"
proof -
  obtain ws p where e: "base32Encode bs = map base32_char ws" "p < 5" "fives ws = eights bs @ replicate p False"
    using encode_fives by blast
  have "length (fives ws) = 5 * length ws" by (induction ws) simp_all
  then show ?thesis using e(1,2) arg_cong [OF e(3), of length] by simp
qed

lemma encode_alphabet: "c \<in> set (base32Encode bs) \<Longrightarrow> c \<in> set BASE32_ALPHABET"
  using encode_fives [of bs] by (auto simp: alphabet_char)

lemma recovery_code_plain:
  assumes "code \<in> set (generateRecoveryCodes raws)" "list_all (\<lambda>r. length r = 6) raws"
  shows "length code = 10" "filter (\<lambda>c. c \<noteq> CHR ''-'') (map to_upper code) = code"
proof -
  from assms obtain raw where r: "length raw = 6" "code = str_slice 0 10 (base32Encode raw)"
    by (auto simp: generateRecoveryCodes_def list_all_iff dest: in_set_takeD)
  then show "length code = 10" using length_encode [of raw] by (simp add: str_slice_def)
  have alph: "c \<in> set BASE32_ALPHABET" if "c \<in> set code" for c
    using that r(2) by (auto simp: str_slice_def dest: in_set_takeD encode_alphabet)
  have "CHR ''-'' \<notin> set BASE32_ALPHABET" by (simp add: BASE32_ALPHABET_def)
  then show "filter (\<lambda>c. c \<noteq> CHR ''-'') (map to_upper code) = code"
    using alph by (induction code) (auto simp: alphabet_upper)
qed

lemma length_join_space: "xs \<noteq> [] \<Longrightarrow> length (join_space xs) = sum_list (map length xs) + (length xs - 1)"
  by (induction xs rule: join_space.induct) auto

lemma recovery_set_longer:
  assumes "length raws = 8" "list_all (\<lambda>r. length r = 6) raws"
  shows "10 < length (join_space (generateRecoveryCodes raws))"
proof -
  have "length (generateRecoveryCodes raws) = 8" using assms(1) by (simp add: generateRecoveryCodes_def RECOVERY_CODE_COUNT_def)
  moreover have "\<forall>c \<in> set (generateRecoveryCodes raws). length c = 10" using assms(2) recovery_code_plain(1) by blast
  then have "sum_list (map length (generateRecoveryCodes raws)) = 10 * length (generateRecoveryCodes raws)"
    by (induction "generateRecoveryCodes raws" rule: list.induct) (auto simp: sum_list_triv cong: map_cong)
  ultimately show ?thesis using length_join_space [of "generateRecoveryCodes raws"] by force
qed

section \<open>Properties\<close>

text \<open>C10. The secret a user is shown works: an authenticator that was given it passes the
  confirmation and every later check, with a code of the present period or of a neighbouring
  one, although the server keeps the secret only encrypted and in base 32.\<close>

theorem enrolled_authenticator_passes:
  assumes "gcm_lawful (mf_secrets env)" "length (md_iv dr) = IV_LEN"
    and "beginMfaEnrollment env dr i slug mail us = (Inr el, us1)"
    and "computeTotp env (base32Decode (el_secret el)) t1 0 = Some c1" "\<bar>totpCounter t1 - totpCounter now1\<bar> \<le> 1"
    and "computeTotp env (base32Decode (el_secret el)) t2 0 = Some c2" "\<bar>totpCounter t2 - totpCounter now2\<bar> \<le> 1"
    and "1 \<le> totpCounter now1" "totpCounter now1 < 2 ^ 64 - 1" "1 \<le> totpCounter now2" "totpCounter now2 < 2 ^ 64 - 1"
  shows "\<exists>us2. confirmMfaEnrollment env now1 i c1 us1 = (Inr True, us2) \<and>
     verifyMfaCode env now2 i c2 us2 = Some (Some ViaTotp)"
proof -
  from assms(3) obtain u where u: "find_user us i = Some u" and el: "el_secret el = base32Encode (md_secret dr)"
    and us1: "find_user us1 i = Some (u\<lparr>us_mfaTotpSecretCipher := Some (encryptSecret (mf_secrets env) (md_iv dr) (base32Encode (md_secret dr))),
        us_mfaRecoveryCodesHash := Some (hashRecoveryCodes env (generateRecoveryCodes (md_recovery dr)))\<rparr>)"
    by (auto simp: beginMfaEnrollment_def Let_def find_user_upd split: option.splits if_splits)
  have secret: "totp_secret env (encryptSecret (mf_secrets env) (md_iv dr) (base32Encode (md_secret dr))) = Some (md_secret dr)"
    using assms(1,2) by (simp add: totp_secret_def secret_roundtrip base32_inverse)
  have v: "verifyTotp env (md_secret dr) c1 now1 = Some True" "verifyTotp env (md_secret dr) c2 now2 = Some True"
    using assms(4-11) by (auto simp: el base32_inverse intro: verifyTotp_accepts)
  show ?thesis
    using us1 secret v by (auto simp: confirmMfaEnrollment_def verifyMfaCode_def find_user_upd)
qed

text \<open>The recovery codes handed out at enrolment open nothing: the server keeps one hash of all
  eight together and compares it with the hash of a single code, so that a code of the set is
  refused unless SHA-256 collides.\<close>

theorem recovery_code_refused:
  assumes "find_user us i = Some u" "us_mfaEnrolledAt u = Some e" "us_mfaTotpSecretCipher u = Some cipher"
    and "us_mfaRecoveryCodesHash u = Some (hashRecoveryCodes env (generateRecoveryCodes raws))"
    and "length raws = 8" "list_all (\<lambda>r. length r = 6) raws" "code \<in> set (generateRecoveryCodes raws)"
  shows "verifyMfaCode env now i code us \<in> {None, Some None} \<or>
     code \<noteq> join_space (generateRecoveryCodes raws) \<and>
       mf_sha256 env code = mf_sha256 env (join_space (generateRecoveryCodes raws))"
proof -
  note plain = recovery_code_plain [OF assms(7,6)]
  have "code \<noteq> join_space (generateRecoveryCodes raws)" using plain(1) recovery_set_longer [OF assms(5,6)] by auto
  moreover have "\<not> six_digits code" using plain(1) by (simp add: six_digits_def)
  ultimately show ?thesis using assms(1-4) plain(2)
    by (cases "totp_secret env cipher")
      (auto simp: verifyMfaCode_def verifyTotp_def hashRecoveryCodes_def dest: digest_hex_inj)
qed

definition sample_mfa :: mfa_env where
  "sample_mfa = \<lparr>mf_secrets = \<lparr>gcm_seal = (\<lambda>iv p. (replicate 16 CHR ''t'', p)), gcm_open = (\<lambda>iv tag ct. Some ct)\<rparr>,
     mf_hmac1 = (\<lambda>k m. replicate 20 0), mf_sha256 = (\<lambda>s. 0), mf_uri = (\<lambda>s. s)\<rparr>"

definition sample_mfa_user :: user_row where
  "sample_mfa_user = \<lparr>pu_id = ''u'', pu_operatorId = ''o'', pu_email = ''u@x.io'', pu_role = ''OPERATOR_ADMIN'', pu_disabledAt = None,
     us_passwordHash = [], us_displayName = ''u'', us_lastLoginAt = None, us_mfaTotpSecretCipher = None,
     us_mfaEnrolledAt = None, us_mfaRecoveryCodesHash = None, us_disabledBy = None\<rparr>"

definition sample_mfa_draws :: mfa_draws where
  "sample_mfa_draws = \<lparr>md_secret = [1, 2, 255], md_iv = replicate 12 CHR ''i'', md_recovery = []\<rparr>"

lemma sample_counter: "totpCounter 60000 = 2" "totpCounter 90000 = 3"
proof -
  have "jdiv 60000 1000 = 60" "jdiv 60 30 = 2" "jdiv 90000 1000 = 90" "jdiv 90 30 = 3"
    using fl_of_int [of 60] fl_of_int [of 2] fl_of_int [of 90] fl_of_int [of 3] by (simp_all add: jdiv_def)
  then show "totpCounter 60000 = 2" "totpCounter 90000 = 3" by (simp_all add: totpCounter_def TOTP_PERIOD_SECONDS_def)
qed

theorem enrolled_authenticator_passes_witness:
  "\<exists>c us2. confirmMfaEnrollment sample_mfa 90000 ''u'' c
       (snd (beginMfaEnrollment sample_mfa sample_mfa_draws ''u'' ''demo'' ''u@x.io'' [sample_mfa_user])) = (Inr True, us2) \<and>
     verifyMfaCode sample_mfa 60000 ''u'' c us2 = Some (Some ViaTotp)"
proof -
  obtain el us1 where b: "beginMfaEnrollment sample_mfa sample_mfa_draws ''u'' ''demo'' ''u@x.io'' [sample_mfa_user] = (Inr el, us1)"
    by (auto simp: beginMfaEnrollment_def find_user_def sample_mfa_user_def Let_def)
  obtain c where c: "computeTotp sample_mfa (base32Decode (el_secret el)) 60000 0 = Some c"
    by (simp add: computeTotp_def hmacCounter_def counter_bytes_def sample_counter)
  have "gcm_lawful (mf_secrets sample_mfa)" "length (md_iv sample_mfa_draws) = IV_LEN"
    by (simp_all add: gcm_lawful_def sample_mfa_def TAG_LEN_def sample_mfa_draws_def IV_LEN_def)
  from enrolled_authenticator_passes [OF this b c _ c, of 90000 60000] show ?thesis
    by (auto simp: sample_counter b)
qed

end
