(* ===== verification/Webauthn.thy ===== *)
theory Webauthn
  imports Mfa Schemas
begin

text \<open>
  Security keys of portal users (\<^verbatim>\<open>apps/rgs-server/src/services/Webauthn.ts\<close>): the two
  ceremonies, each a challenge that is stored and an answer that is checked against it, and the
  list of a user's keys. The checks of an attestation and of an assertion and the rendering of
  the browser's options are the library's and parameters.
\<close>

section \<open>Rows\<close>

record webauthn_credential =
  wc_id :: uuid
  wc_userId :: uuid
  wc_credentialId :: string
  wc_publicKey :: string
  wc_counter :: int
  wc_transports :: "string list"
  wc_aaguid :: "string option"
  wc_deviceName :: "string option"
  wc_backedUp :: bool
  wc_createdAt :: msec
  wc_lastUsedAt :: "msec option"

record webauthn_challenge =
  wh_id :: uuid
  wh_userId :: "uuid option"
  wh_email :: "string option"
  wh_challenge :: string
  wh_kind :: string
  wh_expiresAt :: msec

record webauthn_db =
  wa_credentials :: "webauthn_credential list"
  wa_challenges :: "webauthn_challenge list"

section \<open>The library\<close>

text \<open>What a checked attestation says of the new key.\<close>

record registration_info =
  ri_credentialId :: string
  ri_publicKey :: string
  ri_counter :: int
  ri_transports :: "string list"
  ri_aaguid :: "string option"
  ri_backedUp :: bool

datatype 'a lib_answer = LibThrew string | LibRefused | LibOk 'a

text \<open>The environment: the relying party of the configuration, and the library's functions. The
  challenge of the options is drawn by the library and is an argument here; \<open>we_storeError\<close> is the
  message of an exception of the store.\<close>

record webauthn_env =
  we_rpId :: string
  we_rpName :: string
  we_origins :: "string list"
  we_regOptions :: "string \<Rightarrow> string \<Rightarrow> string \<Rightarrow> string \<Rightarrow> string \<Rightarrow> (string \<times> string list) list \<Rightarrow> string \<Rightarrow> json"
  we_authOptions :: "string \<Rightarrow> (string \<times> string list) list option \<Rightarrow> string \<Rightarrow> json"
  we_storeError :: string
  we_verifyReg :: "json \<Rightarrow> string \<Rightarrow> string list \<Rightarrow> string \<Rightarrow> registration_info lib_answer"
  we_verifyAuth :: "json \<Rightarrow> string \<Rightarrow> string list \<Rightarrow> string \<Rightarrow> string \<times> string \<times> int \<times> string list \<Rightarrow> int lib_answer"

text \<open>The configuration from the environment variables.\<close>

definition expectedOrigins :: "string option \<Rightarrow> string list" where
  "expectedOrigins raw =
     (if truthy raw then filter (\<lambda>s. s \<noteq> []) (map js_trim (split_char CHR '','' (the raw)))
      else [''http://localhost:3101'', ''http://localhost:3103''])"

definition CHALLENGE_TTL_MS :: msec where "CHALLENGE_TTL_MS = 5 * 60000"

record ceremony =
  ce_options :: json
  ce_challengeId :: uuid
  ce_expiresAt :: string

definition user_credentials :: "webauthn_db \<Rightarrow> uuid \<Rightarrow> webauthn_credential list" where
  "user_credentials d userId = filter (\<lambda>c. wc_userId c = userId) (wa_credentials d)"

definition find_challenge :: "webauthn_db \<Rightarrow> uuid \<Rightarrow> webauthn_challenge option" where
  "find_challenge d i = find (\<lambda>h. wh_id h = i) (wa_challenges d)"

definition drop_challenge :: "uuid \<Rightarrow> webauthn_db \<Rightarrow> webauthn_db" where
  "drop_challenge i d = d\<lparr>wa_challenges := filter (\<lambda>h. wh_id h \<noteq> i) (wa_challenges d)\<rparr>"

definition add_challenge :: "webauthn_challenge \<Rightarrow> webauthn_db \<Rightarrow> webauthn_db" where
  "add_challenge h d = d\<lparr>wa_challenges := wa_challenges d @ [h]\<rparr>"

section \<open>Registration\<close>

definition beginRegistration ::
    "webauthn_env \<Rightarrow> msec \<Rightarrow> uuid \<Rightarrow> string \<Rightarrow> uuid \<Rightarrow> string \<Rightarrow> string \<Rightarrow> webauthn_db \<Rightarrow> ceremony \<times> webauthn_db" where
  "beginRegistration env now rowId challenge userId userEmail userDisplayName d =
     (let options = we_regOptions env (we_rpName env) (we_rpId env) (filter (\<lambda>c. c \<noteq> CHR ''-'') userId) userEmail
            userDisplayName (map (\<lambda>c. (wc_credentialId c, wc_transports c)) (user_credentials d userId)) challenge
      in (\<lparr>ce_options = options, ce_challengeId = rowId, ce_expiresAt = toISOString (now + CHALLENGE_TTL_MS)\<rparr>,
          add_challenge \<lparr>wh_id = rowId, wh_userId = Some userId, wh_email = Some userEmail, wh_challenge = challenge,
            wh_kind = ''register'', wh_expiresAt = now + CHALLENGE_TTL_MS\<rparr> d))"

text \<open>The key that was added, or \<open>LibRefused\<close>; \<open>LibThrew\<close> is an exception of the library or of an insert
  that repeats a key's identifier.\<close>

definition confirmRegistration ::
    "webauthn_env \<Rightarrow> msec \<Rightarrow> uuid \<Rightarrow> uuid \<Rightarrow> uuid \<Rightarrow> json \<Rightarrow> string option \<Rightarrow> webauthn_db \<Rightarrow>
     string lib_answer \<times> webauthn_db" where
  "confirmRegistration env now rowId userId challengeId response deviceName d =
     (case find_challenge d challengeId of
        None \<Rightarrow> (LibRefused, d)
      | Some h \<Rightarrow>
          if wh_userId h \<noteq> Some userId \<or> wh_kind h \<noteq> ''register'' then (LibRefused, d)
          else if wh_expiresAt h < now then (LibRefused, d)
          else (case we_verifyReg env response (wh_challenge h) (we_origins env) (we_rpId env) of
                  LibThrew e \<Rightarrow> (LibThrew e, d)
                | LibRefused \<Rightarrow> (LibRefused, d)
                | LibOk info \<Rightarrow>
                    if ri_credentialId info \<in> wc_credentialId ` set (wa_credentials d) then (LibThrew (we_storeError env), d)
                    else (LibOk (ri_credentialId info),
                          drop_challenge (wh_id h)
                            (d\<lparr>wa_credentials := wa_credentials d @
                               [\<lparr>wc_id = rowId, wc_userId = userId, wc_credentialId = ri_credentialId info,
                                 wc_publicKey = ri_publicKey info, wc_counter = ri_counter info,
                                 wc_transports = ri_transports info, wc_aaguid = ri_aaguid info,
                                 wc_deviceName = map_option (str_slice 0 100) deviceName, wc_backedUp = ri_backedUp info,
                                 wc_createdAt = now, wc_lastUsedAt = None\<rparr>]\<rparr>))))"

section \<open>Authentication\<close>

text \<open>\<open>userId\<close> is the user of the address, when there is one. \<open>None\<close>: the user has no keys.\<close>

definition beginAuthentication ::
    "webauthn_env \<Rightarrow> msec \<Rightarrow> uuid \<Rightarrow> string \<Rightarrow> uuid option \<Rightarrow> string \<Rightarrow> webauthn_db \<Rightarrow> ceremony option \<times> webauthn_db" where
  "beginAuthentication env now rowId challenge userId email d =
     (let reply = (\<lambda>allow. (Some \<lparr>ce_options = we_authOptions env (we_rpId env) allow challenge, ce_challengeId = rowId,
              ce_expiresAt = toISOString (now + CHALLENGE_TTL_MS)\<rparr>,
            add_challenge \<lparr>wh_id = rowId, wh_userId = userId, wh_email = Some (map to_lower email),
              wh_challenge = challenge, wh_kind = ''authenticate'', wh_expiresAt = now + CHALLENGE_TTL_MS\<rparr> d))
      in case userId of
           None \<Rightarrow> reply None
         | Some i \<Rightarrow>
             (let creds = user_credentials d i
              in if creds = [] then (None, d) else reply (Some (map (\<lambda>c. (wc_credentialId c, wc_transports c)) creds))))"

text \<open>The owner of the key that answered; the query throws on an identifier that is no string.\<close>

definition verifyAuthentication ::
    "webauthn_env \<Rightarrow> msec \<Rightarrow> string \<Rightarrow> uuid \<Rightarrow> json \<Rightarrow> webauthn_db \<Rightarrow> uuid lib_answer \<times> webauthn_db" where
  "verifyAuthentication env now email challengeId response d =
     (case find_challenge d challengeId of
        None \<Rightarrow> (LibRefused, d)
      | Some h \<Rightarrow>
          if wh_kind h \<noteq> ''authenticate'' \<or> map_option (map to_lower) (wh_email h) \<noteq> Some (map to_lower email)
          then (LibRefused, d)
          else if wh_expiresAt h < now then (LibRefused, d)
          else (case get_prop response ''id'' of
                  JStr cid \<Rightarrow>
                    (case find (\<lambda>c. wc_credentialId c = cid) (wa_credentials d) of
                       None \<Rightarrow> (LibRefused, d)
                     | Some c \<Rightarrow>
                         (case we_verifyAuth env response (wh_challenge h) (we_origins env) (we_rpId env)
                                 (wc_credentialId c, wc_publicKey c, wc_counter c, wc_transports c) of
                            LibThrew e \<Rightarrow> (LibThrew e, d)
                          | LibRefused \<Rightarrow> (LibRefused, d)
                          | LibOk newCounter \<Rightarrow>
                              (LibOk (wc_userId c),
                               drop_challenge (wh_id h)
                                 (d\<lparr>wa_credentials := update_where (\<lambda>x. wc_id x = wc_id c)
                                    (\<lambda>x. x\<lparr>wc_counter := newCounter, wc_lastUsedAt := Some now\<rparr>) (wa_credentials d)\<rparr>))))
                | _ \<Rightarrow> (LibThrew (we_storeError env), d)))"

section \<open>Keys of a user\<close>

definition credential_json :: "webauthn_credential \<Rightarrow> json" where
  "credential_json c = JObj
     [(''id'', JStr (wc_id c)), (''credentialId'', JStr (wc_credentialId c)), (''deviceName'', jopt JStr (wc_deviceName c)),
      (''transports'', JArr (map JStr (wc_transports c))), (''aaguid'', jopt JStr (wc_aaguid c)),
      (''backedUp'', JBool (wc_backedUp c)), (''createdAt'', JDate (wc_createdAt c)),
      (''lastUsedAt'', jopt JDate (wc_lastUsedAt c))]"

definition listCredentials :: "webauthn_db \<Rightarrow> uuid \<Rightarrow> json list" where
  "listCredentials d userId = map credential_json (rev (sort_key wc_createdAt (user_credentials d userId)))"

definition deleteCredential :: "uuid \<Rightarrow> uuid \<Rightarrow> webauthn_db \<Rightarrow> bool \<times> webauthn_db" where
  "deleteCredential userId credentialRowId d =
     (case find (\<lambda>c. wc_id c = credentialRowId) (wa_credentials d) of
        None \<Rightarrow> (False, d)
      | Some c \<Rightarrow>
          if wc_userId c \<noteq> userId then (False, d)
          else (True, d\<lparr>wa_credentials := filter (\<lambda>x. wc_id x \<noteq> wc_id c) (wa_credentials d)\<rparr>))"

definition sweepExpiredChallenges :: "msec \<Rightarrow> webauthn_db \<Rightarrow> nat \<times> webauthn_db" where
  "sweepExpiredChallenges now d =
     (count_where (\<lambda>h. wh_expiresAt h < now) (wa_challenges d),
      d\<lparr>wa_challenges := filter (\<lambda>h. \<not> wh_expiresAt h < now) (wa_challenges d)\<rparr>)"

end
