(* ===== verification/PortalUsers.thy ===== *)
theory PortalUsers
  imports Webauthn
begin

text \<open>
  The users of the operator portal: invitations (\<^verbatim>\<open>services/UserInvites.ts\<close>), login
  (\<^verbatim>\<open>routes/admin-auth.ts\<close>), the self-service of users, factors and invitations in
  \<^verbatim>\<open>routes/admin.ts\<close>, and the order in which the two routers try their paths.
\<close>

section \<open>State\<close>

record portal_operator = operator_row +
  pr_name :: string
  pr_environment :: string

record invite_row =
  iv_id :: uuid
  iv_operatorId :: uuid
  iv_email :: string
  iv_role :: string
  iv_tokenHash :: string
  iv_invitedByEmail :: string
  iv_expiresAt :: msec
  iv_acceptedAt :: "msec option"
  iv_revokedAt :: "msec option"
  iv_createdAt :: msec

record portal_db = webauthn_db +
  pd_users :: "user_row list"
  pd_operators :: "portal_operator list"
  pd_invites :: "invite_row list"

text \<open>The tests of addresses and identifiers by the schema package, the password hash, the signing of
  the portal's tokens, and the parameters of the two factors.\<close>

record users_env =
  ue_email :: "string \<Rightarrow> bool"
  ue_uuid :: "string \<Rightarrow> bool"
  ue_hash :: "string \<Rightarrow> string \<Rightarrow> string"
  ue_compare :: "string \<Rightarrow> string \<Rightarrow> bool"
  ue_sign :: "portal_claims \<Rightarrow> msec \<Rightarrow> string"
  ue_mfa :: mfa_env
  ue_webauthn :: webauthn_env

text \<open>What the runtime gives a call: clock, identifiers of new rows, random strings.\<close>

record portal_io =
  io_now :: msec
  io_id :: uuid
  io_token :: string
  io_salt :: string
  io_challenge :: string
  io_mfa :: mfa_draws

section \<open>Invitations\<close>

definition DEFAULT_TTL_MS :: msec where "DEFAULT_TTL_MS = 48 * 60 * 60000"

definition hashToken :: "users_env \<Rightarrow> string \<Rightarrow> string" where
  "hashToken env token = digest_hex (mf_sha256 (ue_mfa env) token)"

text \<open>One sign @ between parts without white space, the second with an inner dot.\<close>

definition address_shaped :: "string \<Rightarrow> bool" where
  "address_shaped e \<longleftrightarrow> list_all (\<lambda>c. \<not> js_space c) e \<and>
     (case split_char CHR ''@'' e of
        [user, host] \<Rightarrow> user \<noteq> [] \<and> list_ex (\<lambda>i. host ! i = CHR ''.'') [1..<length host - 1]
      | _ \<Rightarrow> False)"

definition find_email :: "user_row list \<Rightarrow> string \<Rightarrow> user_row option" where
  "find_email us e = find (\<lambda>u. pu_email u = e) us"

definition open_invite :: "uuid \<Rightarrow> string \<Rightarrow> invite_row \<Rightarrow> bool" where
  "open_invite operatorId e v \<longleftrightarrow>
     iv_operatorId v = operatorId \<and> iv_email v = e \<and> iv_acceptedAt v = None \<and> iv_revokedAt v = None"

record invite_result =
  vr_inviteId :: uuid
  vr_token :: string
  vr_expiresAt :: string

definition createInvite ::
    "users_env \<Rightarrow> portal_io \<Rightarrow> uuid \<Rightarrow> string \<Rightarrow> string \<Rightarrow> string \<Rightarrow> msec option \<Rightarrow> portal_db \<Rightarrow>
     (string + invite_result) \<times> portal_db" where
  "createInvite env io operatorId rawEmail role invitedByEmail ttlMs d =
     (let e = js_trim (map to_lower rawEmail); now = io_now io; expiresAt = now + nullish ttlMs DEFAULT_TTL_MS in
      if \<not> address_shaped e then (Inl ''invalid_email'', d)
      else if find_email (pd_users d) e \<noteq> None then (Inl ''email_already_in_use'', d)
      else (Inr \<lparr>vr_inviteId = io_id io, vr_token = io_token io, vr_expiresAt = toISOString expiresAt\<rparr>,
            d\<lparr>pd_invites := update_where (open_invite operatorId e) (\<lambda>v. v\<lparr>iv_revokedAt := Some now\<rparr>) (pd_invites d) @
              [\<lparr>iv_id = io_id io, iv_operatorId = operatorId, iv_email = e, iv_role = role,
                iv_tokenHash = hashToken env (io_token io), iv_invitedByEmail = invitedByEmail, iv_expiresAt = expiresAt,
                iv_acceptedAt = None, iv_revokedAt = None, iv_createdAt = now\<rparr>]\<rparr>))"

text \<open>Accepting an invitation: the checks, and after the password has been hashed the transaction,
  which looks again for the address but not at the invitation.\<close>

definition acceptInvite_check :: "users_env \<Rightarrow> msec \<Rightarrow> string \<Rightarrow> portal_db \<Rightarrow> string + invite_row" where
  "acceptInvite_check env now token d =
     (case find (\<lambda>v. iv_tokenHash v = hashToken env token) (pd_invites d) of
        None \<Rightarrow> Inl ''invite_not_found''
      | Some v \<Rightarrow>
          if iv_acceptedAt v \<noteq> None then Inl ''invite_already_accepted''
          else if iv_revokedAt v \<noteq> None then Inl ''invite_revoked''
          else if iv_expiresAt v < now then Inl ''invite_expired''
          else Inr v)"

definition acceptInvite_commit ::
    "users_env \<Rightarrow> portal_io \<Rightarrow> string \<Rightarrow> string \<Rightarrow> invite_row \<Rightarrow> portal_db \<Rightarrow> (string + user_row) \<times> portal_db" where
  "acceptInvite_commit env io displayName password v d =
     (if find_email (pd_users d) (iv_email v) \<noteq> None then (Inl ''email_already_in_use'', d)
      else (let u = \<lparr>pu_id = io_id io, pu_operatorId = iv_operatorId v, pu_email = iv_email v, pu_role = iv_role v,
                pu_disabledAt = None, us_passwordHash = ue_hash env (io_salt io) password,
                us_displayName = str_slice 0 100 displayName, us_lastLoginAt = None, us_mfaTotpSecretCipher = None,
                us_mfaEnrolledAt = None, us_mfaRecoveryCodesHash = None, us_disabledBy = None\<rparr>
            in (Inr u, d\<lparr>pd_users := pd_users d @ [u],
                 pd_invites := update_where (\<lambda>x. iv_id x = iv_id v) (\<lambda>x. x\<lparr>iv_acceptedAt := Some (io_now io)\<rparr>)
                   (pd_invites d)\<rparr>)))"

definition acceptInvite ::
    "users_env \<Rightarrow> portal_io \<Rightarrow> string \<Rightarrow> string \<Rightarrow> string \<Rightarrow> portal_db \<Rightarrow> (string + user_row) \<times> portal_db" where
  "acceptInvite env io token displayName password d =
     (case acceptInvite_check env (io_now io) token d of
        Inl e \<Rightarrow> (Inl e, d)
      | Inr v \<Rightarrow> acceptInvite_commit env io displayName password v d)"

definition invite_json :: "invite_row \<Rightarrow> json" where
  "invite_json v = JObj
     [(''id'', JStr (iv_id v)), (''email'', JStr (iv_email v)), (''role'', JStr (iv_role v)),
      (''invitedByEmail'', JStr (iv_invitedByEmail v)), (''expiresAt'', JDate (iv_expiresAt v)),
      (''acceptedAt'', jopt JDate (iv_acceptedAt v)), (''revokedAt'', jopt JDate (iv_revokedAt v)),
      (''createdAt'', JDate (iv_createdAt v))]"

definition listInvites :: "uuid \<Rightarrow> portal_db \<Rightarrow> json list" where
  "listInvites operatorId d =
     map invite_json (rev (sort_key iv_createdAt (filter (\<lambda>v. iv_operatorId v = operatorId) (pd_invites d))))"

definition revokeInvite :: "msec \<Rightarrow> uuid \<Rightarrow> uuid \<Rightarrow> portal_db \<Rightarrow> bool \<times> portal_db" where
  "revokeInvite now operatorId inviteId d =
     (case find (\<lambda>v. iv_id v = inviteId) (pd_invites d) of
        None \<Rightarrow> (False, d)
      | Some v \<Rightarrow>
          if iv_operatorId v \<noteq> operatorId then (False, d)
          else if iv_acceptedAt v \<noteq> None \<or> iv_revokedAt v \<noteq> None then (True, d)
          else (True, d\<lparr>pd_invites := update_where (\<lambda>x. iv_id x = iv_id v) (\<lambda>x. x\<lparr>iv_revokedAt := Some now\<rparr>)
                  (pd_invites d)\<rparr>))"


section \<open>Login\<close>

record login_body =
  lb_email :: string
  lb_password :: string
  lb_mfaCode :: "string option"

definition LoginBody :: "users_env \<Rightarrow> json \<Rightarrow> login_body option" where
  "LoginBody env v =
     (case v of JObj kvs \<Rightarrow> do {
        email \<leftarrow> req_str (ue_email env) (get_prop v ''email'');
        password \<leftarrow> req_str (sized 256) (get_prop v ''password'');
        code \<leftarrow> opt_str six_digits (get_prop v ''mfaCode'');
        Some \<lparr>lb_email = email, lb_password = password, lb_mfaCode = code\<rparr> }
      | _ \<Rightarrow> None)"

definition operator_of :: "portal_db \<Rightarrow> user_row \<Rightarrow> portal_operator option" where
  "operator_of d u = find (\<lambda>r. op_id r = pu_operatorId u) (pd_operators d)"

definition active_operator :: "portal_operator option \<Rightarrow> bool" where
  "active_operator r \<longleftrightarrow> (case r of None \<Rightarrow> False | Some x \<Rightarrow> op_status x \<noteq> OpTerminated)"

definition claims_of :: "user_row \<Rightarrow> portal_claims" where
  "claims_of u = \<lparr>pc_sub = pu_id u, pc_operatorId = pu_operatorId u, pc_role = pu_role u, pc_email = pu_email u\<rparr>"

definition logged_in :: "users_env \<Rightarrow> msec \<Rightarrow> user_row \<Rightarrow> portal_operator \<Rightarrow> (string \<times> json) list \<Rightarrow> json" where
  "logged_in env now u r extra = JObj
     [(''token'', JStr (ue_sign env (claims_of u) now)),
      (''operatorUser'', JObj [(''id'', JStr (pu_id u)), (''email'', JStr (pu_email u)), (''role'', JStr (pu_role u)),
         (''displayName'', JStr (us_displayName u)), (''mfaEnrolled'', JBool (us_mfaEnrolledAt u \<noteq> None))]),
      (''operator'', JObj ([(''id'', JStr (op_id r)), (''slug'', JStr (op_slug r)), (''name'', JStr (pr_name r)),
         (''defaultCurrency'', JStr (op_defaultCurrency r)), (''jurisdiction'', JStr (op_jurisdiction r))] @ extra))]"

definition stamp_login :: "msec \<Rightarrow> uuid \<Rightarrow> portal_db \<Rightarrow> portal_db" where
  "stamp_login now i d = d\<lparr>pd_users := upd_user i (\<lambda>u. u\<lparr>us_lastLoginAt := Some now\<rparr>) (pd_users d)\<rparr>"

text \<open>The second factor of the login: an answer that refuses it, \<open>None\<close> when it passes; the outer
  \<open>None\<close> is an exception.\<close>

definition mfa_gate :: "users_env \<Rightarrow> msec \<Rightarrow> user_row \<Rightarrow> string option \<Rightarrow> portal_db \<Rightarrow> http_answer option option" where
  "mfa_gate env now u code d =
     (let totp = (us_mfaEnrolledAt u \<noteq> None); keys = user_credentials (webauthn_db.truncate d) (pu_id u) in
      if \<not> totp \<and> keys = [] then Some None
      else if \<not> truthy code then
        Some (Some (401, JObj [(''error'', JStr ''mfa_required''),
          (''hint'', JStr ''POST /v1/admin/auth/webauthn:begin for WebAuthn, or resubmit login with mfaCode for TOTP.''),
          (''factors'', JObj [(''totp'', JBool totp), (''webauthn'', JBool (keys \<noteq> []))])]))
      else if \<not> totp then Some (Some (error_answer 401 ''totp_not_enrolled''))
      else (case verifyMfaCode (ue_mfa env) now (pu_id u) (the code) (pd_users d) of
              None \<Rightarrow> None
            | Some None \<Rightarrow> Some (Some (error_answer 401 ''invalid_mfa_code''))
            | Some (Some _) \<Rightarrow> Some None))"

definition login :: "users_env \<Rightarrow> portal_io \<Rightarrow> json \<Rightarrow> portal_db \<Rightarrow> http_answer option \<times> portal_db" where
  "login env io v d =
     (case LoginBody env v of
        None \<Rightarrow> (Some (error_answer 400 ''invalid_body''), d)
      | Some b \<Rightarrow>
          (case find_email (pd_users d) (map to_lower (lb_email b)) of
             None \<Rightarrow> (Some (error_answer 401 ''invalid_credentials''), d)
           | Some u \<Rightarrow>
               if pu_disabledAt u \<noteq> None then (Some (error_answer 403 ''user_disabled''), d)
               else if \<not> ue_compare env (lb_password b) (us_passwordHash u)
               then (Some (error_answer 401 ''invalid_credentials''), d)
               else if \<not> active_operator (operator_of d u) then (Some (error_answer 403 ''operator_inactive''), d)
               else (case mfa_gate env (io_now io) u (lb_mfaCode b) d of
                       None \<Rightarrow> (None, d)
                     | Some (Some a) \<Rightarrow> (Some a, d)
                     | Some None \<Rightarrow>
                         (Some (200, logged_in env (io_now io) u (the (operator_of d u))
                            [(''environment'', JStr (pr_environment (the (operator_of d u))))]),
                          stamp_login (io_now io) (pu_id u) d))))"

record accept_body =
  ab_token :: string
  ab_displayName :: string
  ab_password :: string

definition AcceptInviteBody :: "json \<Rightarrow> accept_body option" where
  "AcceptInviteBody v =
     (case v of JObj kvs \<Rightarrow> do {
        token \<leftarrow> req_str (\<lambda>s. 10 \<le> length s \<and> length s \<le> 200) (get_prop v ''token'');
        displayName \<leftarrow> req_str (sized 100) (get_prop v ''displayName'');
        password \<leftarrow> req_str (\<lambda>s. 10 \<le> length s \<and> length s \<le> 256) (get_prop v ''password'');
        Some \<lparr>ab_token = token, ab_displayName = displayName, ab_password = password\<rparr> }
      | _ \<Rightarrow> None)"

definition accept_route :: "users_env \<Rightarrow> portal_io \<Rightarrow> json \<Rightarrow> portal_db \<Rightarrow> http_answer option \<times> portal_db" where
  "accept_route env io v d =
     (case AcceptInviteBody v of
        None \<Rightarrow> (Some (error_answer 400 ''invalid_body''), d)
      | Some b \<Rightarrow>
          (case acceptInvite env io (ab_token b) (ab_displayName b) (ab_password b) d of
             (Inl e, d1) \<Rightarrow> (Some (error_answer 400 e), d1)
           | (Inr u, d1) \<Rightarrow>
               (Some (201, JObj [(''token'', JStr (ue_sign env (claims_of u) (io_now io))),
                  (''operatorUser'', JObj [(''id'', JStr (pu_id u)), (''email'', JStr (pu_email u)),
                     (''role'', JStr (pu_role u))])]), d1)))"

definition logout :: http_answer where "logout = (200, JObj [(''ok'', JBool True)])"

text \<open>The part of the state that the ceremonies change.\<close>

definition with_webauthn :: "portal_db \<Rightarrow> (webauthn_db \<Rightarrow> 'a \<times> webauthn_db) \<Rightarrow> 'a \<times> portal_db" where
  "with_webauthn d f =
     (let (x, w) = f (webauthn_db.truncate d)
      in (x, d\<lparr>wa_credentials := wa_credentials w, wa_challenges := wa_challenges w\<rparr>))"

definition ceremony_json :: "ceremony \<Rightarrow> json" where
  "ceremony_json c = JObj [(''options'', ce_options c), (''challengeId'', JStr (ce_challengeId c)),
     (''expiresAt'', JStr (ce_expiresAt c))]"

definition WebAuthnBegin :: "users_env \<Rightarrow> json \<Rightarrow> (string \<times> string) option" where
  "WebAuthnBegin env v =
     (case v of JObj kvs \<Rightarrow> do {
        email \<leftarrow> req_str (ue_email env) (get_prop v ''email'');
        password \<leftarrow> req_str (sized 256) (get_prop v ''password'');
        Some (email, password) }
      | _ \<Rightarrow> None)"

definition webauthn_begin :: "users_env \<Rightarrow> portal_io \<Rightarrow> json \<Rightarrow> portal_db \<Rightarrow> http_answer option \<times> portal_db" where
  "webauthn_begin env io v d =
     (case WebAuthnBegin env v of
        None \<Rightarrow> (Some (error_answer 400 ''invalid_body''), d)
      | Some (email, password) \<Rightarrow>
          (case find_email (pd_users d) (map to_lower email) of
             None \<Rightarrow> (Some (error_answer 401 ''invalid_credentials''), d)
           | Some u \<Rightarrow>
               if pu_disabledAt u \<noteq> None then (Some (error_answer 403 ''user_disabled''), d)
               else if \<not> ue_compare env password (us_passwordHash u)
               then (Some (error_answer 401 ''invalid_credentials''), d)
               else (case with_webauthn d (beginAuthentication (ue_webauthn env) (io_now io) (io_id io) (io_challenge io)
                            (map_option pu_id (find_email (pd_users d) (map to_lower (pu_email u)))) (pu_email u)) of
                       (None, d1) \<Rightarrow> (Some (error_answer 400 ''no_webauthn_credentials''), d1)
                     | (Some c, d1) \<Rightarrow> (Some (200, ceremony_json c), d1))))"

definition WebAuthnVerify :: "users_env \<Rightarrow> json \<Rightarrow> (string \<times> uuid \<times> json) option" where
  "WebAuthnVerify env v =
     (case v of JObj kvs \<Rightarrow> do {
        email \<leftarrow> req_str (ue_email env) (get_prop v ''email'');
        challengeId \<leftarrow> req_str (ue_uuid env) (get_prop v ''challengeId'');
        response \<leftarrow> (case get_prop v ''response'' of JObj r \<Rightarrow> Some (JObj r) | _ \<Rightarrow> None);
        Some (email, challengeId, response) }
      | _ \<Rightarrow> None)"

definition webauthn_verify :: "users_env \<Rightarrow> portal_io \<Rightarrow> json \<Rightarrow> portal_db \<Rightarrow> http_answer option \<times> portal_db" where
  "webauthn_verify env io v d =
     (case WebAuthnVerify env v of
        None \<Rightarrow> (Some (error_answer 400 ''invalid_body''), d)
      | Some (email, challengeId, response) \<Rightarrow>
          (case with_webauthn d (verifyAuthentication (ue_webauthn env) (io_now io) (map to_lower email) challengeId response) of
             (LibThrew _, d1) \<Rightarrow> (None, d1)
           | (LibRefused, d1) \<Rightarrow> (Some (error_answer 401 ''verification_failed''), d1)
           | (LibOk i, d1) \<Rightarrow>
               if i = [] then (Some (error_answer 401 ''verification_failed''), d1)
               else (case find_user (pd_users d1) i of
                  None \<Rightarrow> (Some (error_answer 403 ''operator_inactive''), d1)
                | Some u \<Rightarrow>
                    if \<not> active_operator (operator_of d1 u) then (Some (error_answer 403 ''operator_inactive''), d1)
                    else (Some (200, logged_in env (io_now io) u (the (operator_of d1 u)) []),
                          stamp_login (io_now io) (pu_id u) d1))))"

definition me_route :: "user_row \<Rightarrow> portal_operator \<Rightarrow> http_answer" where
  "me_route u r = (200, JObj
     [(''operatorUser'', JObj [(''id'', JStr (pu_id u)), (''email'', JStr (pu_email u)), (''role'', JStr (pu_role u)),
         (''displayName'', JStr (us_displayName u))]),
      (''operator'', JObj [(''id'', JStr (op_id r)), (''slug'', JStr (op_slug r)), (''name'', JStr (pr_name r)),
         (''defaultCurrency'', JStr (op_defaultCurrency r)), (''jurisdiction'', JStr (op_jurisdiction r))])])"


section \<open>Self-service\<close>

text \<open>Who calls: what the portal's token check has found.\<close>

record actor =
  by_user :: user_row
  by_role :: string
  by_operator :: portal_operator

definition by_opId :: "actor \<Rightarrow> uuid" where "by_opId a = op_id (by_operator a)"

definition for_admin :: "actor \<Rightarrow> portal_db \<Rightarrow> http_answer option \<times> portal_db \<Rightarrow> http_answer option \<times> portal_db" where
  "for_admin a d r =
     (case requireOperatorAdmin (Some (by_role a)) of Some (status, e) \<Rightarrow> (Some (error_answer status e), d) | None \<Rightarrow> r)"

definition user_json :: "user_row \<Rightarrow> json" where
  "user_json u = JObj
     [(''id'', JStr (pu_id u)), (''email'', JStr (pu_email u)), (''displayName'', JStr (us_displayName u)),
      (''role'', JStr (pu_role u)), (''lastLoginAt'', jopt JDate (us_lastLoginAt u)),
      (''mfaEnrolledAt'', jopt JDate (us_mfaEnrolledAt u)), (''disabledAt'', jopt JDate (pu_disabledAt u)),
      (''disabledBy'', jopt JStr (us_disabledBy u))]"

definition list_users :: "actor \<Rightarrow> portal_db \<Rightarrow> http_answer option \<times> portal_db" where
  "list_users a d = for_admin a d
     (Some (200, JObj [(''users'', JArr (map user_json (filter (\<lambda>u. pu_operatorId u = by_opId a) (pd_users d))))]), d)"

definition opt_int :: "int \<Rightarrow> int \<Rightarrow> json \<Rightarrow> int option option" where
  "opt_int lo hi v =
     (case v of JUndefined \<Rightarrow> Some None
      | JNum x \<Rightarrow> if is_integer x \<and> of_int lo \<le> x \<and> x \<le> of_int hi then Some (Some \<lfloor>x\<rfloor>) else None
      | _ \<Rightarrow> None)"

definition INVITE_ROLES :: "string list" where
  "INVITE_ROLES = [''OPERATOR_ADMIN'', ''OPERATOR_FINANCE'', ''OPERATOR_SUPPORT'', ''OPERATOR_VIEWER'']"

definition InviteBody :: "users_env \<Rightarrow> json \<Rightarrow> (string \<times> string \<times> msec option) option" where
  "InviteBody env v =
     (case v of JObj kvs \<Rightarrow> do {
        email \<leftarrow> req_str (ue_email env) (get_prop v ''email'');
        role \<leftarrow> req_str (\<lambda>r. r \<in> set INVITE_ROLES) (get_prop v ''role'');
        ttl \<leftarrow> opt_int 60000 (30 * 24 * 60 * 60000) (get_prop v ''ttlMs'');
        Some (email, role, ttl) }
      | _ \<Rightarrow> None)"

definition create_invite_route :: "users_env \<Rightarrow> portal_io \<Rightarrow> actor \<Rightarrow> json \<Rightarrow> portal_db \<Rightarrow> http_answer option \<times> portal_db" where
  "create_invite_route env io a v d = for_admin a d
     (case InviteBody env (body_or_empty v) of
        None \<Rightarrow> (Some (error_answer 400 ''invalid_body''), d)
      | Some (email, role, ttl) \<Rightarrow>
          (case createInvite env io (by_opId a) email role (pu_email (by_user a)) ttl d of
             (Inl e, d1) \<Rightarrow> (Some (error_answer 400 e), d1)
           | (Inr r, d1) \<Rightarrow>
               (Some (201, JObj [(''inviteId'', JStr (vr_inviteId r)), (''token'', JStr (vr_token r)),
                  (''expiresAt'', JStr (vr_expiresAt r)),
                  (''warning'', JStr ''Deliver the token to the invited user out-of-band (email). It is shown once and cannot be re-emitted.'')]), d1)))"

definition list_invites_route :: "actor \<Rightarrow> portal_db \<Rightarrow> http_answer option \<times> portal_db" where
  "list_invites_route a d = for_admin a d
     (Some (200, JObj [(''invites'', JArr (listInvites (by_opId a) d))]), d)"

definition ok_answer :: http_answer where "ok_answer = (200, JObj [(''ok'', JBool True)])"

definition revoke_invite_route :: "msec \<Rightarrow> actor \<Rightarrow> uuid \<Rightarrow> portal_db \<Rightarrow> http_answer option \<times> portal_db" where
  "revoke_invite_route now a inviteId d = for_admin a d
     (case revokeInvite now (by_opId a) inviteId d of
        (False, d1) \<Rightarrow> (Some (error_answer 404 ''invite_not_found''), d1)
      | (True, d1) \<Rightarrow> (Some ok_answer, d1))"

definition disable_user_route :: "msec \<Rightarrow> actor \<Rightarrow> uuid \<Rightarrow> portal_db \<Rightarrow> http_answer option \<times> portal_db" where
  "disable_user_route now a i d = for_admin a d
     (case find_user (pd_users d) i of
        None \<Rightarrow> (Some (error_answer 404 ''user_not_found''), d)
      | Some t \<Rightarrow>
          if pu_operatorId t \<noteq> by_opId a then (Some (error_answer 404 ''user_not_found''), d)
          else if pu_id t = pu_id (by_user a) then (Some (error_answer 400 ''cannot_disable_self''), d)
          else (Some ok_answer,
                d\<lparr>pd_users := upd_user (pu_id t)
                    (\<lambda>u. u\<lparr>pu_disabledAt := Some now, us_disabledBy := Some (pu_email (by_user a))\<rparr>) (pd_users d)\<rparr>))"

definition EM_DASH :: string where "EM_DASH = map char_of [226, 128, 148 :: nat]"

definition mfa_begin_route :: "users_env \<Rightarrow> portal_io \<Rightarrow> actor \<Rightarrow> portal_db \<Rightarrow> http_answer option \<times> portal_db" where
  "mfa_begin_route env io a d =
     (case beginMfaEnrollment (ue_mfa env) (io_mfa io) (pu_id (by_user a)) (op_slug (by_operator a)) (pu_email (by_user a))
            (pd_users d) of
        (Inl e, us) \<Rightarrow>
          (if e = ''mfa_already_enrolled'' then (Some (error_answer 409 e), d\<lparr>pd_users := us\<rparr>) else (None, d\<lparr>pd_users := us\<rparr>))
      | (Inr el, us) \<Rightarrow>
          (Some (200, JObj [(''secret'', JStr (el_secret el)), (''otpauthUrl'', JStr (el_otpauthUrl el)),
             (''recoveryCodes'', JArr (map JStr (el_recoveryCodes el))),
             (''warning'', JStr (''Save the recovery codes now '' @ EM_DASH @
                '' they are shown ONCE. The secret is also shown once; do not screenshot it on untrusted devices.''))]),
           d\<lparr>pd_users := us\<rparr>))"

definition ConfirmBody :: "json \<Rightarrow> string option" where
  "ConfirmBody v = (case v of JObj kvs \<Rightarrow> req_str six_digits (get_prop v ''code'') | _ \<Rightarrow> None)"

definition mfa_confirm_route :: "users_env \<Rightarrow> portal_io \<Rightarrow> actor \<Rightarrow> json \<Rightarrow> portal_db \<Rightarrow> http_answer option \<times> portal_db" where
  "mfa_confirm_route env io a v d =
     (case ConfirmBody (body_or_empty v) of
        None \<Rightarrow> (Some (error_answer 400 ''invalid_body''), d)
      | Some code \<Rightarrow>
          (case confirmMfaEnrollment (ue_mfa env) (io_now io) (pu_id (by_user a)) code (pd_users d) of
             (Inl e, us) \<Rightarrow> (if e = ''mfa_not_begun'' then Some (error_answer 400 e) else None, d\<lparr>pd_users := us\<rparr>)
           | (Inr False, us) \<Rightarrow> (Some (error_answer 401 ''invalid_code''), d\<lparr>pd_users := us\<rparr>)
           | (Inr True, us) \<Rightarrow> (Some ok_answer, d\<lparr>pd_users := us\<rparr>)))"

definition register_begin_route :: "users_env \<Rightarrow> portal_io \<Rightarrow> actor \<Rightarrow> portal_db \<Rightarrow> http_answer option \<times> portal_db" where
  "register_begin_route env io a d =
     (let (c, d1) = with_webauthn d (beginRegistration (ue_webauthn env) (io_now io) (io_id io) (io_challenge io)
            (pu_id (by_user a)) (pu_email (by_user a)) (us_displayName (by_user a)))
      in (Some (200, ceremony_json c), d1))"

definition ConfirmRegister :: "users_env \<Rightarrow> json \<Rightarrow> (uuid \<times> json \<times> string option) option" where
  "ConfirmRegister env v =
     (case v of JObj kvs \<Rightarrow> do {
        challengeId \<leftarrow> req_str (ue_uuid env) (get_prop v ''challengeId'');
        response \<leftarrow> (case get_prop v ''response'' of JObj r \<Rightarrow> Some (JObj r) | _ \<Rightarrow> None);
        deviceName \<leftarrow> opt_str (\<lambda>s. length s \<le> 100) (get_prop v ''deviceName'');
        Some (challengeId, response, deviceName) }
      | _ \<Rightarrow> None)"

definition register_confirm_route :: "users_env \<Rightarrow> portal_io \<Rightarrow> actor \<Rightarrow> json \<Rightarrow> portal_db \<Rightarrow> http_answer option \<times> portal_db" where
  "register_confirm_route env io a v d =
     (case ConfirmRegister env (body_or_empty v) of
        None \<Rightarrow> (Some (error_answer 400 ''invalid_body''), d)
      | Some (challengeId, response, deviceName) \<Rightarrow>
          (case with_webauthn d (confirmRegistration (ue_webauthn env) (io_now io) (io_id io) (pu_id (by_user a)) challengeId
                  response deviceName) of
             (LibThrew e, d1) \<Rightarrow> (Some (error_answer 400 e), d1)
           | (LibRefused, d1) \<Rightarrow> (Some (error_answer 400 ''verification_failed''), d1)
           | (LibOk cid, d1) \<Rightarrow> (Some (200, JObj [(''ok'', JBool True), (''credentialId'', JStr cid)]), d1)))"

definition list_keys_route :: "actor \<Rightarrow> portal_db \<Rightarrow> http_answer option \<times> portal_db" where
  "list_keys_route a d =
     (Some (200, JObj [(''credentials'', JArr (listCredentials (webauthn_db.truncate d) (pu_id (by_user a))))]), d)"

definition delete_key_route :: "actor \<Rightarrow> uuid \<Rightarrow> portal_db \<Rightarrow> http_answer option \<times> portal_db" where
  "delete_key_route a i d =
     (case with_webauthn d (deleteCredential (pu_id (by_user a)) i) of
        (False, d1) \<Rightarrow> (Some (error_answer 404 ''credential_not_found''), d1)
      | (True, d1) \<Rightarrow> (Some ok_answer, d1))"

definition mfa_disable_route :: "actor \<Rightarrow> json \<Rightarrow> portal_db \<Rightarrow> http_answer option \<times> portal_db" where
  "mfa_disable_route a v d = for_admin a d
     (let target = (case get_prop v ''userId'' of JStr s \<Rightarrow> if s = [] then pu_id (by_user a) else s | _ \<Rightarrow> pu_id (by_user a)) in
      case find_user (pd_users d) target of
        None \<Rightarrow> (Some (error_answer 404 ''user_not_found''), d)
      | Some u \<Rightarrow>
          if pu_operatorId u \<noteq> by_opId a then (Some (error_answer 404 ''user_not_found''), d)
          else (Some ok_answer, d\<lparr>pd_users := disableMfa target (pd_users d)\<rparr>))"

section \<open>Routing\<close>

datatype http_method = GET | POST | DELETE

datatype users_route = Login | AcceptInvite | Logout | KeyBegin | KeyVerify | Me
  | ListUsers | CreateInvite | ListInvites | RevokeInvite | DisableUser | MfaBegin | MfaConfirm
  | RegisterBegin | RegisterConfirm | ListKeys | DeleteKey | MfaDisable

text \<open>The two routers, in the order of their declarations; the other routes of the second have other
  first segments.\<close>

definition auth_routes :: "(http_method \<times> string \<times> users_route) list" where
  "auth_routes =
     [(POST, ''/login'', Login), (POST, ''/invites:accept'', AcceptInvite), (POST, ''/logout'', Logout),
      (POST, ''/webauthn:begin'', KeyBegin), (POST, ''/webauthn:verify'', KeyVerify), (GET, ''/me'', Me)]"

definition admin_user_routes :: "(http_method \<times> string \<times> users_route) list" where
  "admin_user_routes =
     [(GET, ''/users'', ListUsers), (POST, ''/invites'', CreateInvite), (GET, ''/invites'', ListInvites),
      (POST, ''/invites/:id/revoke'', RevokeInvite), (POST, ''/users/:id/disable'', DisableUser),
      (POST, ''/mfa:begin'', MfaBegin), (POST, ''/mfa:confirm'', MfaConfirm),
      (POST, ''/webauthn/register:begin'', RegisterBegin), (POST, ''/webauthn/register:confirm'', RegisterConfirm),
      (GET, ''/webauthn/credentials'', ListKeys), (DELETE, ''/webauthn/credentials/:id'', DeleteKey),
      (POST, ''/mfa:disable'', MfaDisable)]"

text \<open>The framework takes the first route whose pattern matches. \<open>matches\<close> is the framework's: the
  parameters of a path that matches a pattern.\<close>

definition route_of ::
    "(string \<Rightarrow> string \<Rightarrow> (string \<times> string) list option) \<Rightarrow> (http_method \<times> string \<times> users_route) list \<Rightarrow>
     http_method \<Rightarrow> string \<Rightarrow> (users_route \<times> (string \<times> string) list) option" where
  "route_of matches routes m path =
     (case find (\<lambda>(m1, pat, r). m1 = m \<and> matches pat path \<noteq> None) routes of
        None \<Rightarrow> None
      | Some (_, pat, r) \<Rightarrow> Some (r, the (matches pat path)))"

text \<open>A request to either router. For the second, and for \<open>/me\<close>, the token has been checked; \<open>Inl\<close> is
  the answer of that check when it fails.\<close>

record users_request =
  uq_auth :: bool
  uq_method :: http_method
  uq_path :: string
  uq_body :: json
  uq_actor :: "http_answer + actor"

definition route_id :: "(string \<times> string) list \<Rightarrow> uuid" where
  "route_id ps = nullish (map_of ps ''id'') []"

definition run_route ::
    "users_env \<Rightarrow> portal_io \<Rightarrow> users_route \<Rightarrow> (string \<times> string) list \<Rightarrow> http_answer + actor \<Rightarrow> json \<Rightarrow> portal_db \<Rightarrow>
     http_answer option \<times> portal_db" where
  "run_route env io r ps who v d =
     (let actor_route = (\<lambda>h. case who of Inl e \<Rightarrow> (Some e, d) | Inr a \<Rightarrow> h a) in
      case r of
        Login \<Rightarrow> login env io v d
      | AcceptInvite \<Rightarrow> accept_route env io v d
      | Logout \<Rightarrow> (Some logout, d)
      | KeyBegin \<Rightarrow> webauthn_begin env io v d
      | KeyVerify \<Rightarrow> webauthn_verify env io v d
      | Me \<Rightarrow> actor_route (\<lambda>a. (Some (me_route (by_user a) (by_operator a)), d))
      | ListUsers \<Rightarrow> actor_route (\<lambda>a. list_users a d)
      | CreateInvite \<Rightarrow> actor_route (\<lambda>a. create_invite_route env io a v d)
      | ListInvites \<Rightarrow> actor_route (\<lambda>a. list_invites_route a d)
      | RevokeInvite \<Rightarrow> actor_route (\<lambda>a. revoke_invite_route (io_now io) a (route_id ps) d)
      | DisableUser \<Rightarrow> actor_route (\<lambda>a. disable_user_route (io_now io) a (route_id ps) d)
      | MfaBegin \<Rightarrow> actor_route (\<lambda>a. mfa_begin_route env io a d)
      | MfaConfirm \<Rightarrow> actor_route (\<lambda>a. mfa_confirm_route env io a v d)
      | RegisterBegin \<Rightarrow> actor_route (\<lambda>a. register_begin_route env io a d)
      | RegisterConfirm \<Rightarrow> actor_route (\<lambda>a. register_confirm_route env io a v d)
      | ListKeys \<Rightarrow> actor_route (\<lambda>a. list_keys_route a d)
      | DeleteKey \<Rightarrow> actor_route (\<lambda>a. delete_key_route a (route_id ps) d)
      | MfaDisable \<Rightarrow> actor_route (\<lambda>a. mfa_disable_route a v d))"

text \<open>No route: the framework answers with a page of its own.\<close>

definition portal_call ::
    "users_env \<Rightarrow> (string \<Rightarrow> string \<Rightarrow> (string \<times> string) list option) \<Rightarrow> portal_io \<Rightarrow> users_request \<Rightarrow> portal_db \<Rightarrow>
     http_answer option \<times> portal_db" where
  "portal_call env matches io rq d =
     (case route_of matches (if uq_auth rq then auth_routes else admin_user_routes) (uq_method rq) (uq_path rq) of
        None \<Rightarrow> (Some (404, JUndefined), d)
      | Some (r, ps) \<Rightarrow> run_route env io r ps (uq_actor rq) (uq_body rq) d)"


section \<open>No second factor is ever enrolled\<close>

text \<open>What is documented of the patterns: the name of a last parameter does not decide what is matched.\<close>

definition word_char :: "char \<Rightarrow> bool" where
  "word_char c \<longleftrightarrow> is_dec c \<or> is_upper c \<or> is_upper (to_upper c) \<or> c = CHR ''_''"

definition plain_path :: "string \<Rightarrow> bool" where
  "plain_path s \<longleftrightarrow> list_all (\<lambda>c. word_char c \<or> c = CHR ''/'') s"

definition names_irrelevant :: "(string \<Rightarrow> string \<Rightarrow> (string \<times> string) list option) \<Rightarrow> bool" where
  "names_irrelevant matches \<longleftrightarrow>
     (\<forall>pre n m path. plain_path pre \<and> n \<noteq> [] \<and> m \<noteq> [] \<and> list_all word_char n \<and> list_all word_char m \<longrightarrow>
        (matches (pre @ '':'' @ n) path = None) = (matches (pre @ '':'' @ m) path = None))"

lemma names_shadow:
  assumes "names_irrelevant matches"
  shows "(matches ''/mfa:confirm'' path = None) = (matches ''/mfa:begin'' path = None)"
    "(matches ''/mfa:disable'' path = None) = (matches ''/mfa:begin'' path = None)"
    "(matches ''/webauthn/register:confirm'' path = None) = (matches ''/webauthn/register:begin'' path = None)"
    "(matches ''/webauthn:verify'' path = None) = (matches ''/webauthn:begin'' path = None)"
proof -
  note n = assms [unfolded names_irrelevant_def, rule_format]
  note chars = plain_path_def word_char_def is_dec_def is_upper_def to_upper_def Let_def
  show "(matches ''/mfa:confirm'' path = None) = (matches ''/mfa:begin'' path = None)"
    using n [of "''/mfa''" "''confirm''" "''begin''" path] by (simp add: chars)
  show "(matches ''/mfa:disable'' path = None) = (matches ''/mfa:begin'' path = None)"
    using n [of "''/mfa''" "''disable''" "''begin''" path] by (simp add: chars)
  show "(matches ''/webauthn/register:confirm'' path = None) = (matches ''/webauthn/register:begin'' path = None)"
    using n [of "''/webauthn/register''" "''confirm''" "''begin''" path] by (simp add: chars)
  show "(matches ''/webauthn:verify'' path = None) = (matches ''/webauthn:begin'' path = None)"
    using n [of "''/webauthn''" "''verify''" "''begin''" path] by (simp add: chars)
qed

lemma route_shadowed:
  assumes "r \<notin> (\<lambda>x. snd (snd x)) ` set us" "list_all (\<lambda>(m1, p1, r1). r1 = r \<longrightarrow> m1 = meth \<and> p1 = shadowed) rs"
    and "(meth, earlier, route) \<in> set us" "(matches shadowed path = None) = (matches earlier path = None)"
  shows "route_of matches (us @ rs) m path \<noteq> Some (r, ps)"
proof
  assume "route_of matches (us @ rs) m path = Some (r, ps)"
  then obtain p1 where f: "find (\<lambda>(m1, pat, r). m1 = m \<and> matches pat path \<noteq> None) (us @ rs) = Some (m, p1, r)"
    by (auto simp: route_of_def split: option.splits dest: find_SomeD)
  have "find (\<lambda>(m1, pat, r). m1 = m \<and> matches pat path \<noteq> None) us = None"
    using f assms(1) by (force simp: find_append_row split: option.splits dest: find_SomeD)
  then have none: "(m, p2, r2) \<in> set us \<Longrightarrow> matches p2 path = None" for p2 r2
    by (auto simp: find_None_iff)
  have "(m, p1, r) \<in> set rs" "matches p1 path \<noteq> None"
    using find_SomeD [OF f] assms(1) by force+
  then show False using assms(2-4) none [of earlier route] by (auto simp: list_all_iff)
qed

lemma route_absent: "r \<notin> (\<lambda>x. snd (snd x)) ` set us \<Longrightarrow> route_of matches us m path \<noteq> Some (r, ps)"
  by (force simp: route_of_def split: option.splits dest: find_SomeD)

lemma routes_shadowed:
  assumes "names_irrelevant matches"
  shows "route_of matches admin_user_routes m path \<noteq> Some (MfaConfirm, ps)"
    "route_of matches admin_user_routes m path \<noteq> Some (RegisterConfirm, ps)"
    "route_of matches admin_user_routes m path \<noteq> Some (MfaDisable, ps)"
    "route_of matches auth_routes m path \<noteq> Some (KeyVerify, ps)"
    "route_of matches auth_routes m path \<noteq> Some (MfaConfirm, ps)"
    "route_of matches auth_routes m path \<noteq> Some (RegisterConfirm, ps)"
proof -
  note sh = names_shadow [OF assms, of path]
  show "route_of matches admin_user_routes m path \<noteq> Some (MfaConfirm, ps)"
    using route_shadowed [where matches = matches and r = MfaConfirm and us = "take 6 admin_user_routes" and rs = "drop 6 admin_user_routes"
        and meth = POST and shadowed = "''/mfa:confirm''" and earlier = "''/mfa:begin''" and route = MfaBegin and path = path and m = m and ps = ps] sh(1)
    by (simp add: admin_user_routes_def)
  show "route_of matches admin_user_routes m path \<noteq> Some (RegisterConfirm, ps)"
    using route_shadowed [where matches = matches and r = RegisterConfirm and us = "take 8 admin_user_routes" and rs = "drop 8 admin_user_routes"
        and meth = POST and shadowed = "''/webauthn/register:confirm''" and earlier = "''/webauthn/register:begin''" and route = RegisterBegin and path = path and m = m and ps = ps] sh(3)
    by (simp add: admin_user_routes_def)
  show "route_of matches admin_user_routes m path \<noteq> Some (MfaDisable, ps)"
    using route_shadowed [where matches = matches and r = MfaDisable and us = "take 6 admin_user_routes" and rs = "drop 6 admin_user_routes"
        and meth = POST and shadowed = "''/mfa:disable''" and earlier = "''/mfa:begin''" and route = MfaBegin and path = path and m = m and ps = ps] sh(2)
    by (simp add: admin_user_routes_def)
  show "route_of matches auth_routes m path \<noteq> Some (KeyVerify, ps)"
    using route_shadowed [where matches = matches and r = KeyVerify and us = "take 4 auth_routes" and rs = "drop 4 auth_routes"
        and meth = POST and shadowed = "''/webauthn:verify''" and earlier = "''/webauthn:begin''" and route = KeyBegin and path = path and m = m and ps = ps] sh(4)
    by (simp add: auth_routes_def)
qed (rule route_absent, simp add: auth_routes_def)+

definition none_enrolled :: "user_row list \<Rightarrow> bool" where
  "none_enrolled us \<longleftrightarrow> list_all (\<lambda>u. us_mfaEnrolledAt u = None) us"

definition unenrolled :: "portal_db \<Rightarrow> bool" where
  "unenrolled d \<longleftrightarrow> none_enrolled (pd_users d) \<and> wa_credentials d = []"

lemma none_enrolled_upd [simp]:
  "none_enrolled us \<Longrightarrow> (\<And>u. us_mfaEnrolledAt u = None \<Longrightarrow> us_mfaEnrolledAt (f u) = None) \<Longrightarrow> none_enrolled (upd_user i f us)"
  by (auto simp: none_enrolled_def upd_user_def set_update_where list_all_iff)

lemma none_enrolled_snoc [simp]: "none_enrolled (us @ [u]) \<longleftrightarrow> none_enrolled us \<and> us_mfaEnrolledAt u = None"
  by (auto simp: none_enrolled_def)

lemma with_webauthn_frame:
  "with_webauthn d f = (x, d1) \<Longrightarrow> pd_users d1 = pd_users d \<and> pd_invites d1 = pd_invites d \<and> pd_operators d1 = pd_operators d \<and>
     wa_credentials d1 = wa_credentials (snd (f (webauthn_db.truncate d)))"
  by (auto simp: with_webauthn_def split: prod.splits)

lemma no_keys_frame:
  "wa_credentials w = [] \<Longrightarrow> wa_credentials (snd (beginAuthentication env now i c u e w)) = []"
  "wa_credentials w = [] \<Longrightarrow> wa_credentials (snd (verifyAuthentication env now e i v w)) = []"
  "wa_credentials w = [] \<Longrightarrow> wa_credentials (snd (beginRegistration env now i c j e n w)) = []"
  "wa_credentials w = [] \<Longrightarrow> wa_credentials (snd (deleteCredential j i w)) = []"
  by (auto simp: beginAuthentication_def verifyAuthentication_def beginRegistration_def deleteCredential_def Let_def
      add_challenge_def drop_challenge_def split: option.splits json.splits)

lemma truncate_keys [simp]: "wa_credentials (webauthn_db.truncate d) = wa_credentials d"
  by (simp add: webauthn_db.truncate_def)

lemma for_admin_inv: "P d \<Longrightarrow> P (snd r) \<Longrightarrow> P (snd (for_admin a d r))"
  by (auto simp: for_admin_def split: option.splits)

lemma login_unenrolled: "unenrolled d \<Longrightarrow> unenrolled (snd (login env io v d))"
  by (auto simp: login_def stamp_login_def unenrolled_def split: option.splits)

lemma accept_unenrolled: "unenrolled d \<Longrightarrow> unenrolled (snd (accept_route env io v d))"
  by (auto simp: accept_route_def acceptInvite_def acceptInvite_commit_def unenrolled_def Let_def
      split: option.splits sum.splits prod.splits if_splits)

lemma key_begin_unenrolled: "unenrolled d \<Longrightarrow> unenrolled (snd (webauthn_begin env io v d))"
  by (auto simp: webauthn_begin_def unenrolled_def no_keys_frame dest!: with_webauthn_frame split: option.splits prod.splits)

lemma key_verify_unenrolled: "unenrolled d \<Longrightarrow> unenrolled (snd (webauthn_verify env io v d))"
  by (auto simp: webauthn_verify_def stamp_login_def unenrolled_def no_keys_frame
      dest!: with_webauthn_frame split: option.splits prod.splits lib_answer.splits)

lemma create_invite_unenrolled: "unenrolled d \<Longrightarrow> unenrolled (snd (create_invite_route env io a v d))"
  unfolding create_invite_route_def
  by (rule for_admin_inv)
    (auto simp: createInvite_def unenrolled_def Let_def split: option.splits sum.splits prod.splits if_splits)

lemma revoke_invite_unenrolled: "unenrolled d \<Longrightarrow> unenrolled (snd (revoke_invite_route now a i d))"
  unfolding revoke_invite_route_def
  by (rule for_admin_inv) (auto simp: revokeInvite_def unenrolled_def split: option.splits prod.splits bool.splits if_splits)

lemma disable_user_unenrolled: "unenrolled d \<Longrightarrow> unenrolled (snd (disable_user_route now a i d))"
  unfolding disable_user_route_def
  by (rule for_admin_inv) (auto simp: unenrolled_def split: option.splits)

lemma mfa_begin_unenrolled: "unenrolled d \<Longrightarrow> unenrolled (snd (mfa_begin_route env io a d))"
  by (auto simp: mfa_begin_route_def beginMfaEnrollment_def unenrolled_def Let_def split: option.splits sum.splits prod.splits if_splits
     )

lemma register_begin_unenrolled: "unenrolled d \<Longrightarrow> unenrolled (snd (register_begin_route env io a d))"
  by (auto simp: register_begin_route_def unenrolled_def no_keys_frame dest!: with_webauthn_frame split: prod.splits)

lemma delete_key_unenrolled: "unenrolled d \<Longrightarrow> unenrolled (snd (delete_key_route a i d))"
  by (auto simp: delete_key_route_def unenrolled_def no_keys_frame dest!: with_webauthn_frame split: prod.splits bool.splits)

lemma mfa_disable_unenrolled: "unenrolled d \<Longrightarrow> unenrolled (snd (mfa_disable_route a v d))"
  unfolding mfa_disable_route_def
  by (rule for_admin_inv)
    (auto simp: unenrolled_def disableMfa_def Let_def split: option.splits)

lemma read_routes_frame:
  "snd (list_users a d) = d" "snd (list_invites_route a d) = d" "snd (list_keys_route a d) = d"
  by (simp_all add: list_users_def list_invites_route_def list_keys_route_def for_admin_def split: option.splits prod.splits)

lemmas routes_unenrolled = login_unenrolled accept_unenrolled key_begin_unenrolled key_verify_unenrolled
  create_invite_unenrolled revoke_invite_unenrolled disable_user_unenrolled mfa_begin_unenrolled
  register_begin_unenrolled delete_key_unenrolled mfa_disable_unenrolled read_routes_frame

lemma run_route_unenrolled:
  assumes "unenrolled d" "r \<noteq> MfaConfirm" "r \<noteq> RegisterConfirm"
  shows "unenrolled (snd (run_route env io r ps who v d))"
  using assms by (cases r; cases who) (simp_all add: run_route_def routes_unenrolled)

definition portal_step ::
    "users_env \<Rightarrow> (string \<Rightarrow> string \<Rightarrow> (string \<times> string) list option) \<Rightarrow> portal_io \<times> users_request \<Rightarrow> portal_db \<Rightarrow> portal_db" where
  "portal_step env matches e d = snd (portal_call env matches (fst e) (snd e) d)"

lemma portal_step_unenrolled:
  assumes "names_irrelevant matches" "unenrolled d"
  shows "unenrolled (portal_step env matches e d)"
proof -
  note sh = routes_shadowed [OF assms(1)]
  show ?thesis
  proof (cases "route_of matches (if uq_auth (snd e) then auth_routes else admin_user_routes) (uq_method (snd e)) (uq_path (snd e))")
    case (Some x)
    obtain r ps where x: "x = (r, ps)" by fastforce
    then have "r \<noteq> MfaConfirm" "r \<noteq> RegisterConfirm" using Some sh by (auto split: if_splits)
    then show ?thesis using Some x assms(2) by (simp add: portal_step_def portal_call_def run_route_unenrolled)
  qed (simp add: portal_step_def portal_call_def assms(2))
qed


section \<open>Users come from invitations\<close>

definition user_key :: "user_row \<Rightarrow> uuid \<times> uuid \<times> string \<times> string" where
  "user_key u = (pu_id u, pu_operatorId u, pu_email u, pu_role u)"

definition invited :: "invite_row list \<Rightarrow> uuid \<times> uuid \<times> string \<times> string \<Rightarrow> bool" where
  "invited vs k = list_ex (\<lambda>v. (iv_operatorId v, iv_email v, iv_role v) = snd k \<and> iv_acceptedAt v \<noteq> None) vs"

definition roles_ok :: "invite_row list \<Rightarrow> bool" where
  "roles_ok vs \<longleftrightarrow> list_all (\<lambda>v. iv_role v \<in> set INVITE_ROLES) vs"

text \<open>The users of the beginning, unchanged in identity, operator, address and role, and then the
  invited ones, no two with the same address.\<close>

definition users_inv :: "(uuid \<times> uuid \<times> string \<times> string) list \<Rightarrow> portal_db \<Rightarrow> bool" where
  "users_inv base d \<longleftrightarrow> distinct (map pu_email (pd_users d)) \<and> roles_ok (pd_invites d) \<and>
     (\<exists>news. map user_key (pd_users d) = base @ news \<and> list_all (invited (pd_invites d)) news)"

lemma upd_user_keys [simp]:
  "(\<And>u. user_key (f u) = user_key u) \<Longrightarrow> map user_key (upd_user i f us) = map user_key us"
  by (induction us) (auto simp: upd_user_def)

lemma upd_user_emails [simp]:
  "(\<And>u. pu_email (f u) = pu_email u) \<Longrightarrow> map pu_email (upd_user i f us) = map pu_email us"
  by (induction us) (auto simp: upd_user_def)

lemma invited_mono:
  "(\<And>v. v \<in> set vs \<Longrightarrow> iv_acceptedAt v \<noteq> None \<Longrightarrow> \<exists>v' \<in> set vs'. iv_operatorId v' = iv_operatorId v \<and>
      iv_email v' = iv_email v \<and> iv_role v' = iv_role v \<and> iv_acceptedAt v' \<noteq> None) \<Longrightarrow>
    list_all (invited vs) ks \<Longrightarrow> list_all (invited vs') ks"
  unfolding list_all_iff invited_def list_ex_iff by fastforce

lemma invited_update:
  assumes "list_all (invited vs) ks"
    and "\<And>v. iv_operatorId (f v) = iv_operatorId v" "\<And>v. iv_email (f v) = iv_email v" "\<And>v. iv_role (f v) = iv_role v"
    and "\<And>v. iv_acceptedAt v \<noteq> None \<Longrightarrow> iv_acceptedAt (f v) \<noteq> None"
  shows "list_all (invited (update_where p f vs)) ks"
  using assms(1)
proof (rule invited_mono [rotated])
  fix v assume "v \<in> set vs" "iv_acceptedAt v \<noteq> None"
  then show "\<exists>v' \<in> set (update_where p f vs). iv_operatorId v' = iv_operatorId v \<and>
      iv_email v' = iv_email v \<and> iv_role v' = iv_role v \<and> iv_acceptedAt v' \<noteq> None"
    using assms(2-5) by (intro bexI [of _ "if p v then f v else v"]) (auto simp: set_update_where)
qed

lemma users_inv_frame:
  assumes "users_inv base d" "map user_key (pd_users d1) = map user_key (pd_users d)"
    and "map pu_email (pd_users d1) = map pu_email (pd_users d)" "pd_invites d1 = pd_invites d"
  shows "users_inv base d1"
  using assms by (simp add: users_inv_def)

lemma users_inv_invites:
  assumes "users_inv base d" "roles_ok vs"
    and "\<And>v. v \<in> set (pd_invites d) \<Longrightarrow> iv_acceptedAt v \<noteq> None \<Longrightarrow> \<exists>v' \<in> set vs. iv_operatorId v' = iv_operatorId v \<and>
      iv_email v' = iv_email v \<and> iv_role v' = iv_role v \<and> iv_acceptedAt v' \<noteq> None"
  shows "users_inv base (d\<lparr>pd_invites := vs\<rparr>)"
  using assms(1,2) invited_mono [OF assms(3)] by (auto simp: users_inv_def)

lemma roles_ok_update: "roles_ok vs \<Longrightarrow> (\<And>v. iv_role (f v) = iv_role v) \<Longrightarrow> roles_ok (update_where p f vs)"
  by (auto simp: roles_ok_def list_all_iff set_update_where)

lemma create_invite_users:
  assumes "users_inv base d" "role \<in> set INVITE_ROLES"
  shows "users_inv base (snd (createInvite env io op e role by1 ttl d))"
proof -
  let ?old = "update_where (open_invite op (js_trim (map to_lower e))) (\<lambda>v. v\<lparr>iv_revokedAt := Some (io_now io)\<rparr>) (pd_invites d)"
  have "roles_ok ?old" using assms(1) by (intro roles_ok_update) (simp_all add: users_inv_def)
  moreover have "v \<in> set ?old" if "v \<in> set (pd_invites d)" "iv_acceptedAt v \<noteq> None" for v
    using that by (auto simp: set_update_where open_invite_def image_iff intro!: bexI [of _ v])
  ultimately show ?thesis using assms
    by (auto simp: createInvite_def Let_def roles_ok_def intro!: users_inv_invites)
qed

lemma revoke_invite_users:
  "users_inv base d \<Longrightarrow> users_inv base (snd (revokeInvite now op i d))"
  by (auto simp: revokeInvite_def users_inv_def split: option.splits intro!: invited_update roles_ok_update)

lemma commit_users:
  assumes "users_inv base d" "v \<in> set (pd_invites d)" "acceptInvite_commit env io name pw v d = (Inr u, d1)"
  shows "users_inv base d1"
proof -
  from assms(1) obtain news where n: "distinct (map pu_email (pd_users d))" "roles_ok (pd_invites d)"
    "map user_key (pd_users d) = base @ news" "list_all (invited (pd_invites d)) news" by (auto simp: users_inv_def)
  let ?vs = "update_where (\<lambda>x. iv_id x = iv_id v) (\<lambda>x. x\<lparr>iv_acceptedAt := Some (io_now io)\<rparr>) (pd_invites d)"
  have d1: "pd_users d1 = pd_users d @ [u]" "pd_invites d1 = ?vs"
    and u: "pu_operatorId u = iv_operatorId v" "pu_email u = iv_email v" "pu_role u = iv_role v"
    and fresh: "pu_email u \<notin> pu_email ` set (pd_users d)"
    using assms(3) by (auto simp: acceptInvite_commit_def find_email_def find_None_iff Let_def split: if_splits)
  have "list_all (invited ?vs) news"
    using n(4) by (rule invited_update) simp_all
  moreover have "invited ?vs (user_key u)"
    using assms(2) by (auto simp: invited_def list_ex_iff set_update_where user_key_def u
        intro!: bexI [of _ "v\<lparr>iv_acceptedAt := Some (io_now io)\<rparr>"])
  ultimately show ?thesis using n fresh
    by (auto simp: users_inv_def d1 roles_ok_update intro!: exI [of _ "news @ [user_key u]"])
qed

lemma accept_users: "users_inv base d \<Longrightarrow> users_inv base (snd (acceptInvite env io token name pw d))"
proof -
  assume d: "users_inv base d"
  show ?thesis
  proof (cases "acceptInvite_check env (io_now io) token d")
    case (Inr v)
    then have v: "v \<in> set (pd_invites d)"
      by (auto simp: acceptInvite_check_def split: option.splits if_splits dest: find_SomeD)
    obtain x d1 where c: "acceptInvite_commit env io name pw v d = (x, d1)" by fastforce
    show ?thesis
    proof (cases x)
      case (Inl e)
      then have "d1 = d" using c by (auto simp: acceptInvite_commit_def Let_def split: if_splits)
      then show ?thesis using d Inr c by (simp add: acceptInvite_def)
    next
      case (Inr u)
      then show ?thesis using commit_users [OF d v] c \<open>acceptInvite_check _ _ _ _ = Inr v\<close> by (simp add: acceptInvite_def)
    qed
  qed (simp add: acceptInvite_def d)
qed


lemma users_inv_users:
  "users_inv base d \<Longrightarrow> (\<And>u. user_key (f u) = user_key u) \<Longrightarrow> users_inv base (d\<lparr>pd_users := upd_user i f (pd_users d)\<rparr>)"
  by (rule users_inv_frame) (simp_all add: user_key_def)

lemma with_webauthn_users: "users_inv base d \<Longrightarrow> with_webauthn d f = (x, d1) \<Longrightarrow> users_inv base d1"
  using users_inv_frame [of base d d1] with_webauthn_frame [of d f x d1] by simp

lemma stamp_login_users: "users_inv base d \<Longrightarrow> users_inv base (stamp_login now i d)"
  unfolding stamp_login_def by (rule users_inv_users) (simp_all add: user_key_def)

lemma login_users: "users_inv base d \<Longrightarrow> users_inv base (snd (login env io v d))"
  by (auto simp: login_def stamp_login_users split: option.splits)

lemma accept_route_users: "users_inv base d \<Longrightarrow> users_inv base (snd (accept_route env io v d))"
proof -
  assume d: "users_inv base d"
  show ?thesis
  proof (cases "AcceptInviteBody v")
    case (Some b)
    obtain x d1 where c: "acceptInvite env io (ab_token b) (ab_displayName b) (ab_password b) d = (x, d1)" by fastforce
    have "users_inv base d1" using accept_users [OF d, of env io "ab_token b" "ab_displayName b" "ab_password b"] c by simp
    then show ?thesis using c Some by (cases x) (simp_all add: accept_route_def)
  qed (simp add: accept_route_def d)
qed

lemma key_begin_users: "users_inv base d \<Longrightarrow> users_inv base (snd (webauthn_begin env io v d))"
  by (auto simp: webauthn_begin_def split: option.splits prod.splits dest: with_webauthn_users)

lemma key_verify_users: "users_inv base d \<Longrightarrow> users_inv base (snd (webauthn_verify env io v d))"
  by (auto simp: webauthn_verify_def split: option.splits prod.splits lib_answer.splits
      intro!: stamp_login_users dest: with_webauthn_users)

lemma create_route_users: "users_inv base d \<Longrightarrow> users_inv base (snd (create_invite_route env io a v d))"
  unfolding create_invite_route_def
proof (rule for_admin_inv)
  assume d: "users_inv base d"
  show "users_inv base (snd (case InviteBody env (body_or_empty v) of
        None \<Rightarrow> (Some (error_answer 400 ''invalid_body''), d)
      | Some (email, role, ttl) \<Rightarrow>
          (case createInvite env io (by_opId a) email role (pu_email (by_user a)) ttl d of
             (Inl e, d1) \<Rightarrow> (Some (error_answer 400 e), d1)
           | (Inr r, d1) \<Rightarrow>
               (Some (201, JObj [(''inviteId'', JStr (vr_inviteId r)), (''token'', JStr (vr_token r)),
                  (''expiresAt'', JStr (vr_expiresAt r)),
                  (''warning'', JStr ''Deliver the token to the invited user out-of-band (email). It is shown once and cannot be re-emitted.'')]), d1))))"
  proof (cases "InviteBody env (body_or_empty v)")
    case (Some b)
    obtain email role ttl where b: "b = (email, role, ttl)" by (cases b)
    then have "role \<in> set INVITE_ROLES"
      using Some by (auto simp: InviteBody_def req_str_def split: json.splits if_splits bind_splits)
    then have "users_inv base (snd (createInvite env io (by_opId a) email role (pu_email (by_user a)) ttl d))"
      by (rule create_invite_users [OF d])
    then show ?thesis by (auto simp: Some b split: prod.splits sum.splits)
  qed (simp add: d)
qed

lemma revoke_route_users: "users_inv base d \<Longrightarrow> users_inv base (snd (revoke_invite_route now a i d))"
  unfolding revoke_invite_route_def
proof (rule for_admin_inv)
  assume "users_inv base d"
  then have "users_inv base (snd (revokeInvite now (by_opId a) i d))" by (rule revoke_invite_users)
  then show "users_inv base (snd (case revokeInvite now (by_opId a) i d of
        (False, d1) \<Rightarrow> (Some (error_answer 404 ''invite_not_found''), d1) | (True, d1) \<Rightarrow> (Some ok_answer, d1)))"
    by (auto split: prod.splits bool.splits)
qed

lemma disable_user_users: "users_inv base d \<Longrightarrow> users_inv base (snd (disable_user_route now a i d))"
  unfolding disable_user_route_def
  by (rule for_admin_inv) (auto simp: user_key_def split: option.splits intro!: users_inv_users)

lemma mfa_begin_users: "users_inv base d \<Longrightarrow> users_inv base (snd (mfa_begin_route env io a d))"
  by (auto simp: mfa_begin_route_def beginMfaEnrollment_def user_key_def Let_def split: option.splits sum.splits prod.splits if_splits
      intro!: users_inv_users)

lemma mfa_confirm_users: "users_inv base d \<Longrightarrow> users_inv base (snd (mfa_confirm_route env io a v d))"
  by (auto simp: mfa_confirm_route_def confirmMfaEnrollment_def user_key_def
      split: option.splits sum.splits prod.splits bool.splits intro!: users_inv_users)

lemma register_users:
  "users_inv base d \<Longrightarrow> users_inv base (snd (register_begin_route env io a d))"
  "users_inv base d \<Longrightarrow> users_inv base (snd (register_confirm_route env io a v d))"
  "users_inv base d \<Longrightarrow> users_inv base (snd (delete_key_route a i d))"
  by (auto simp: register_begin_route_def register_confirm_route_def delete_key_route_def
      split: option.splits prod.splits lib_answer.splits bool.splits dest: with_webauthn_users)

lemma mfa_disable_users: "users_inv base d \<Longrightarrow> users_inv base (snd (mfa_disable_route a v d))"
  unfolding mfa_disable_route_def
  by (rule for_admin_inv) (auto simp: disableMfa_def user_key_def Let_def split: option.splits intro!: users_inv_users)

lemmas routes_users = login_users accept_route_users key_begin_users key_verify_users create_route_users revoke_route_users
  disable_user_users mfa_begin_users mfa_confirm_users register_users mfa_disable_users read_routes_frame

lemma run_route_users: "users_inv base d \<Longrightarrow> users_inv base (snd (run_route env io r ps who v d))"
  by (cases r; cases who) (simp_all add: run_route_def routes_users)

lemma portal_step_users: "users_inv base d \<Longrightarrow> users_inv base (portal_step env matches e d)"
  by (auto simp: portal_step_def portal_call_def run_route_users split: option.splits)

interpretation portal_users: event_machine "portal_step env matches" "\<lambda>e. True" "users_inv base"
  by unfold_locales (rule portal_step_users)

interpretation enrolment: event_machine "portal_step env matches" "\<lambda>e. names_irrelevant matches" unenrolled
  by unfold_locales (rule portal_step_unenrolled)

lemma unenrolled_gate_open:
  assumes "unenrolled d" "u \<in> set (pd_users d)"
  shows "mfa_gate env now u code d = Some None"
proof -
  have "us_mfaEnrolledAt u = None" "user_credentials (webauthn_db.truncate d) (pu_id u) = []"
    using assms by (auto simp: unenrolled_def none_enrolled_def list_all_iff user_credentials_def)
  then show ?thesis by (simp add: mfa_gate_def Let_def)
qed

section \<open>Samples\<close>

definition sample_users_env :: users_env where
  "sample_users_env = \<lparr>ue_email = (\<lambda>s. s \<noteq> []), ue_uuid = (\<lambda>s. s \<noteq> []), ue_hash = (\<lambda>salt pw. salt @ pw),
     ue_compare = (\<lambda>pw h. h = ''x'' @ pw), ue_sign = (\<lambda>c t. pc_sub c),
     ue_mfa = \<lparr>mf_secrets = \<lparr>gcm_seal = (\<lambda>iv p. (replicate 16 CHR ''t'', p)), gcm_open = (\<lambda>iv tag ct. Some ct)\<rparr>,
       mf_hmac1 = (\<lambda>k m. replicate 20 0), mf_sha256 = (\<lambda>s. word_of_nat (length s)), mf_uri = (\<lambda>s. s)\<rparr>,
     ue_webauthn = \<lparr>we_rpId = ''localhost'', we_rpName = ''Yantra'', we_origins = expectedOrigins None,
       we_regOptions = (\<lambda>_ _ _ _ _ _ c. JStr c), we_authOptions = (\<lambda>_ _ c. JStr c), we_storeError = ''error'',
       we_verifyReg = (\<lambda>_ _ _ _. LibRefused), we_verifyAuth = (\<lambda>_ _ _ _ _. LibOk 1)\<rparr>\<rparr>"

definition sample_user :: "uuid \<Rightarrow> string \<Rightarrow> user_row" where
  "sample_user i e = \<lparr>pu_id = i, pu_operatorId = ''o'', pu_email = e, pu_role = ''OPERATOR_ADMIN'', pu_disabledAt = None,
     us_passwordHash = ''xpw'', us_displayName = i, us_lastLoginAt = None, us_mfaTotpSecretCipher = None,
     us_mfaEnrolledAt = None, us_mfaRecoveryCodesHash = None, us_disabledBy = None\<rparr>"

definition sample_portal_operator :: portal_operator where
  "sample_portal_operator = \<lparr>op_id = ''o'', op_slug = ''demo'', op_status = OpActive, op_testMode = False, op_jurisdiction = ''INTL'',
     op_defaultCurrency = ''LKR'', op_allowedCurrencies = [], op_walletCallbackUrl = [], op_ipAllowList = [],
     op_allowedCountries = [], op_suspendedReason = None, pr_name = ''Demo'', pr_environment = ''SANDBOX''\<rparr>"

definition sample_portal_db :: portal_db where
  "sample_portal_db = \<lparr>wa_credentials = [], wa_challenges = [], pd_users = [sample_user ''a'' ''a@x.io''],
     pd_operators = [sample_portal_operator], pd_invites = []\<rparr>"

text \<open>A matcher for patterns with at most one parameter, at their end.\<close>

definition sample_matches :: "string \<Rightarrow> string \<Rightarrow> (string \<times> string) list option" where
  "sample_matches pat path =
     (let pre = takeWhile (\<lambda>c. c \<noteq> CHR '':'') pat; name = tl (dropWhile (\<lambda>c. c \<noteq> CHR '':'') pat); rest = drop (length pre) path in
      if pre = pat then (if path = pat then Some [] else None)
      else if take (length pre) path = pre \<and> rest \<noteq> [] \<and> CHR ''/'' \<notin> set rest then Some [(name, rest)] else None)"

lemma sample_matches_names: "names_irrelevant sample_matches"
proof -
  have pre: "takeWhile (\<lambda>c. c \<noteq> CHR '':'') (pre @ '':'' @ n) = pre" if "plain_path pre" for pre n
  proof -
    have "c \<noteq> CHR '':''" if "c \<in> set pre" for c
      using that \<open>plain_path pre\<close>
      by (auto simp: plain_path_def list_all_iff word_char_def is_dec_def is_upper_def to_upper_def Let_def)
    then show ?thesis by (simp add: takeWhile_append)
  qed
  show ?thesis unfolding names_irrelevant_def
    by (intro allI impI) (simp only: sample_matches_def pre Let_def, simp)
qed

definition confirm_request :: users_request where
  "confirm_request = \<lparr>uq_auth = False, uq_method = POST, uq_path = ''/mfa:confirm'',
     uq_body = JObj [(''code'', JStr ''000000'')],
     uq_actor = Inr \<lparr>by_user = sample_user ''a'' ''a@x.io'', by_role = ''OPERATOR_ADMIN'', by_operator = sample_portal_operator\<rparr>\<rparr>"

definition sample_portal_io :: portal_io where
  "sample_portal_io = \<lparr>io_now = 60000, io_id = ''n'', io_token = ''0123456789'', io_salt = ''x'', io_challenge = ''c'',
     io_mfa = \<lparr>md_secret = [0], md_iv = replicate 12 CHR ''i'', md_recovery = []\<rparr>\<rparr>"

section \<open>Properties\<close>

text \<open>C40. No user ever enrols a second factor. The routes of the two routers carry a colon inside a
  segment, which the framework takes for a parameter: the path of a confirmation is caught by
  the earlier route of the beginning, and so is the verification of a key. Whatever requests are
  sent, in whatever order, from a state without enrolled users and keys, none has one
  afterwards, and the gate of the login lets every user through without a code.\<close>

theorem second_factor_never_enrolled:
  assumes "names_irrelevant matches" "unenrolled d"
  shows "unenrolled (fold (portal_step env matches) es d) \<and>
    (u \<in> set (pd_users (fold (portal_step env matches) es d)) \<longrightarrow>
      mfa_gate env now u code (fold (portal_step env matches) es d) = Some None)"
proof -
  have "unenrolled (fold (portal_step env matches) es d)"
    using assms by (intro enrolment.run_inv) (simp_all add: list_all_iff)
  then show ?thesis using unenrolled_gate_open by blast
qed

theorem second_factor_never_enrolled_witness:
  "unenrolled (fold (portal_step sample_users_env sample_matches) [(sample_portal_io, confirm_request)] sample_portal_db)"
  using second_factor_never_enrolled [OF sample_matches_names, of sample_portal_db sample_users_env "[(sample_portal_io, confirm_request)]"]
  by (simp add: sample_portal_db_def unenrolled_def none_enrolled_def sample_user_def)

text \<open>C9. Users come from invitations only. After any sequence of requests the users of the beginning are
  still there with their operator, address and role, and every other one has accepted an
  invitation of exactly his operator, address and role, none of them a role of the provider's
  staff; no address is used twice.\<close>

theorem users_only_by_invitation:
  assumes "distinct (map pu_email (pd_users d))" "roles_ok (pd_invites d)"
  shows "\<exists>news. map user_key (pd_users (fold (portal_step env matches) es d)) = map user_key (pd_users d) @ news \<and>
     distinct (map pu_email (pd_users (fold (portal_step env matches) es d))) \<and>
     (\<forall>(i, operatorId, email, role) \<in> set news. \<not> isStaffRole role \<and>
        (\<exists>v \<in> set (pd_invites (fold (portal_step env matches) es d)). iv_operatorId v = operatorId \<and> iv_email v = email \<and>
           iv_role v = role \<and> iv_acceptedAt v \<noteq> None))"
proof -
  let ?d = "fold (portal_step env matches) es d"
  have "users_inv (map user_key (pd_users d)) ?d"
    using assms by (intro portal_users.run_inv) (simp_all add: users_inv_def list_all_iff)
  then obtain news where n: "map user_key (pd_users ?d) = map user_key (pd_users d) @ news"
    "distinct (map pu_email (pd_users ?d))" "roles_ok (pd_invites ?d)" "list_all (invited (pd_invites ?d)) news"
    by (auto simp: users_inv_def)
  have staff: "\<not> isStaffRole r" if "r \<in> set INVITE_ROLES" for r
    using that by (auto simp: INVITE_ROLES_def isStaffRole_def STAFF_ROLES_def)
  show ?thesis using n
    by (intro exI [of _ news]) (fastforce simp: list_all_iff invited_def list_ex_iff roles_ok_def dest: staff)
qed

theorem users_only_by_invitation_witness:
  "\<exists>news. map user_key (pd_users (fold (portal_step sample_users_env sample_matches) [(sample_portal_io, confirm_request)] sample_portal_db)) =
     (''a'', ''o'', ''a@x.io'', ''OPERATOR_ADMIN'') # news"
  using users_only_by_invitation [of sample_portal_db sample_users_env sample_matches "[(sample_portal_io, confirm_request)]"]
  by (auto simp: sample_portal_db_def sample_user_def roles_ok_def user_key_def)

text \<open>A key logs its owner in, whoever the challenge was for: the owner's password is never checked,
  and an owner who was disabled is let in as well.\<close>

theorem key_login_of_another_user:
  assumes "WebAuthnVerify env v = Some (e, cid, resp)" "find_challenge (webauthn_db.truncate d) cid = Some h"
    and "wh_kind h = ''authenticate''" "map_option (map to_lower) (wh_email h) = Some (map to_lower (map to_lower e))"
    and "io_now io \<le> wh_expiresAt h" "get_prop resp ''id'' = JStr k"
    and "find (\<lambda>c. wc_credentialId c = k) (wa_credentials d) = Some c"
    and "we_verifyAuth (ue_webauthn env) resp (wh_challenge h) (we_origins (ue_webauthn env)) (we_rpId (ue_webauthn env))
        (wc_credentialId c, wc_publicKey c, wc_counter c, wc_transports c) = LibOk n"
    and "find_user (pd_users d) (wc_userId c) = Some u" "active_operator (operator_of d u)" "wc_userId c \<noteq> []"
  shows "\<exists>body d1. webauthn_verify env io v d = (Some (200, body), d1) \<and>
     get_prop body ''token'' = JStr (ue_sign env (claims_of u) (io_now io))"
proof -
  let ?w = "drop_challenge (wh_id h) ((webauthn_db.truncate d)\<lparr>wa_credentials := update_where (\<lambda>x. wc_id x = wc_id c)
      (\<lambda>x. x\<lparr>wc_counter := n, wc_lastUsedAt := Some (io_now io)\<rparr>) (wa_credentials d)\<rparr>)"
  have "verifyAuthentication (ue_webauthn env) (io_now io) (map to_lower e) cid resp (webauthn_db.truncate d) = (LibOk (wc_userId c), ?w)"
    using assms(2-8) by (simp add: verifyAuthentication_def)
  then have "with_webauthn d (verifyAuthentication (ue_webauthn env) (io_now io) (map to_lower e) cid resp) =
      (LibOk (wc_userId c), d\<lparr>wa_credentials := wa_credentials ?w, wa_challenges := wa_challenges ?w\<rparr>)"
    by (simp add: with_webauthn_def)
  then show ?thesis using assms(1,9-11)
    by (auto simp: webauthn_verify_def operator_of_def logged_in_def get_prop_def split: option.splits)
qed

text \<open>An invitation that is revoked while the password of its acceptance is hashed is accepted.\<close>

theorem revoked_invite_accepted:
  assumes "acceptInvite_check env now token d = Inr v" "distinct (map iv_id (pd_invites d))"
    and "revokeInvite now2 (iv_operatorId v) (iv_id v) d = (ok, d1)" "find_email (pd_users d) (iv_email v) = None"
  shows "\<exists>u d2. ok \<and> acceptInvite_commit env io name pw v d1 = (Inr u, d2) \<and> u \<in> set (pd_users d2) \<and> pu_role u = iv_role v \<and>
     (\<exists>v' \<in> set (pd_invites d2). iv_id v' = iv_id v \<and> iv_revokedAt v' = Some now2 \<and> iv_acceptedAt v' = Some (io_now io))"
proof -
  have v: "v \<in> set (pd_invites d)" "iv_acceptedAt v = None" "iv_revokedAt v = None"
    using assms(1) by (auto simp: acceptInvite_check_def split: option.splits if_splits dest: find_SomeD)
  obtain x where x: "find (\<lambda>x. iv_id x = iv_id v) (pd_invites d) = Some x"
    using v(1) by (cases "find (\<lambda>x. iv_id x = iv_id v) (pd_invites d)") (auto simp: find_None_iff)
  then have "x = v" using v(1) assms(2) by (auto dest!: find_SomeD simp: distinct_map dest: inj_onD)
  then have d1: "ok" "d1 = d\<lparr>pd_invites := update_where (\<lambda>x. iv_id x = iv_id v) (\<lambda>x. x\<lparr>iv_revokedAt := Some now2\<rparr>) (pd_invites d)\<rparr>"
    using assms(3) v x by (auto simp: revokeInvite_def)
  then have "find_email (pd_users d1) (iv_email v) = None" using assms(4) by simp
  then obtain u d2 where c: "acceptInvite_commit env io name pw v d1 = (Inr u, d2)" "pd_users d2 = pd_users d1 @ [u]"
    "pu_role u = iv_role v"
    "pd_invites d2 = update_where (\<lambda>x. iv_id x = iv_id v) (\<lambda>x. x\<lparr>iv_acceptedAt := Some (io_now io)\<rparr>) (pd_invites d1)"
    by (simp add: acceptInvite_commit_def Let_def)
  have "v\<lparr>iv_revokedAt := Some now2\<rparr> \<in> set (pd_invites d1)"
    unfolding d1(2) using v(1) by (auto simp: set_update_where)
  then have "v\<lparr>iv_revokedAt := Some now2, iv_acceptedAt := Some (io_now io)\<rparr> \<in> set (pd_invites d2)"
    unfolding c(4) set_update_where by (rule image_eqI [rotated]) simp
  then show ?thesis using c d1(1)
    by (intro exI [of _ u] exI [of _ d2] conjI bexI [of _ "v\<lparr>iv_revokedAt := Some now2, iv_acceptedAt := Some (io_now io)\<rparr>"]) simp_all
qed

end
