(* ===== verification/Spec2Isabelle.thy ===== *)
theory Spec2Isabelle
  imports PendingJobs MockWallet InternalWallet BetFlow Registry OperatorSdk Webhooks Reconciliation GameSocket PortalUsers
begin

text \<open>
  A verification library for the Yantra remote gaming server: the server
  \<^verbatim>\<open>apps/rgs-server\<close>, the games \<^verbatim>\<open>games/*\<close>, the shared packages \<^verbatim>\<open>packages/*\<close> and the
  wallet of the mock operator \<^verbatim>\<open>apps/mock-operator\<close>.

  \<^bold>\<open>The program.\<close> An operator (a casino) launches sessions for its players; an engine per
  operator, game and currency runs rounds: betting opens, the outcome is drawn from a committed
  seed, bets are settled. Every movement of money is a signed call to the operator's wallet,
  audited in a hash chain; an answer that does not come back leaves a durable job. What was
  played can be proved, disputed, reported and reconciled afterwards, and operators hear of it
  through signed webhooks.

  \<^bold>\<open>Foundations.\<close>
  \<^item> \<open>Prelude\<close>: identifiers, money in micro-units, tables as lists of rows, the locale
    \<open>event_machine\<close> (a step, the events allowed, an invariant; facts about all runs).
  \<^item> \<open>JsNum\<close>: the numbers of the language, binary64 with its rounding; \<open>Json\<close>: values, ISO
    instants and the canonical encoder; \<open>Schemas\<close>: the schema combinators of the routes.
  \<^item> \<open>Db\<close>: the rows of \<^verbatim>\<open>prisma/schema.prisma\<close> and the operations on them.

  \<^bold>\<open>Games.\<close> \<open>RngCore\<close> (\<^verbatim>\<open>packages/rng-core\<close>: seeds, HMAC bytes, their use), \<open>GameContract\<close>
  (\<^verbatim>\<open>packages/game-contract\<close>: the plugin record; the locales \<open>settlement_rules\<close> and
  \<open>provably_fair\<close>), \<open>KetapolaDice\<close> and \<open>CrashGames\<close> (the three plugins; each interprets
  both locales on its own settlement and verification functions), \<open>Registry\<close> (the game
  registry, build attestation, certificate coverage and \<^verbatim>\<open>services/EngineRegistry.ts\<close>, split
  where it awaits).

  \<^bold>\<open>Wallets.\<close> \<open>WalletSpec\<close> (\<^verbatim>\<open>packages/wallet-spec\<close>: signing, verification, amounts),
  \<open>WalletTypes\<close> (the adapter's interface; the locales \<open>wallet_rules\<close>, a wallet that executes
  a transaction once, and \<open>durable_wallet\<close>, one that remembers it for ever), \<open>InternalWallet\<close> and
  \<open>MockWallet\<close> (the two stores, interpreting the locales), \<open>WalletHttp\<close> (the HTTP adapter
  against the operator's server, a refinement of the store), \<open>CircuitBreaker\<close>, \<open>WalletClient\<close>
  (the audited client over any adapter, interpreting the locales again), \<open>PendingJobs\<close>
  (the retry queue).

  \<^bold>\<open>Rounds.\<close> \<open>RGLimits\<close> and \<open>Jurisdiction\<close> (what a stake must respect), \<open>Engine\<close>
  (\<^verbatim>\<open>services/GameEngine.ts\<close>: every handler and phase, those that await the wallet split in
  two), \<open>Settlement\<close> (what settling, resuming and voiding guarantee), \<open>BetFlow\<close> (placing and
  cashing out, with interleavings), \<open>Fairness\<close> (commit, reveal and replay), \<open>GameSocket\<close>
  (\<^verbatim>\<open>socket/gameSocket.ts\<close>: what a player's connection may do, who is counted as present).

  \<^bold>\<open>Access and sessions.\<close> \<open>Operators\<close> (stored secrets, credentials and their rotation, request
  authentication), \<open>NetAccess\<close> (IP and country lists), \<open>Access\<close> (role gates, portal and
  session tokens, bot challenge, idempotency), \<open>KillSwitch\<close>, \<open>Sessions\<close> and \<open>SessionRoutes\<close>
  (\<^verbatim>\<open>services/SessionService.ts\<close>, \<^verbatim>\<open>routes/session.ts\<close>), \<open>OperatorSdk\<close>
  (\<^verbatim>\<open>packages/operator-sdk\<close>, against the server's routes), \<open>Mfa\<close>, \<open>Webauthn\<close> and \<open>PortalUsers\<close>
  (\<^verbatim>\<open>services/Mfa.ts\<close>, \<^verbatim>\<open>services/Webauthn.ts\<close>, \<^verbatim>\<open>services/UserInvites.ts\<close>,
  \<^verbatim>\<open>routes/admin-auth.ts\<close>: codes, keys, invitations, login, and the order in which routes are
  tried).

  \<^bold>\<open>Evidence.\<close> \<open>AuditChain\<close> (hash chains and their daily anchors; the locale
  \<open>chained_rows\<close>, interpreted on wallet calls and on rounds), \<open>Evidence\<close> (round pages,
  statements, replay bundles, dispute packs), \<open>Reconciliation\<close> (daily totals, reports, the
  comparison with an operator's settlement), \<open>Webhooks\<close> (\<^verbatim>\<open>services/WebhookDispatcher.ts\<close>
  and its self-service).

  \<^bold>\<open>Conventions.\<close> A handler is a function from a state, what the runtime gives it (clock,
  identifiers, random strings) and its arguments to an answer and the state after it. An
  \<open>Inl\<close> or \<open>None\<close> is an exception or a refusal, as its definition says; an HTTP answer is
  a status and a body; a handler that never answers gives \<open>None\<close>. Where a handler awaits
  another service in the middle it is split there, and theorems about interleavings put other
  steps between the halves; each half reads the clock once. Loops over rows are folds; loops
  that wait for time (the engine's main loop, the pollers of jobs, webhooks and reports) are
  sequences of their turns, so that no fuel is needed: a flight of a live round is the list of
  the clock readings it is given, and the bound of a delivery or a job is the budget in
  the code (8 and 12 attempts).

  \<^bold>\<open>What the lemmas show.\<close> Invariants over all runs (types of sessions, signatures of webhooks,
  accounting of engines, conservation of money), functional behaviour on every branch (bet
  placement, limits, gates, reconciliation), round trips (proofs, bundles, amounts, key
  names, secrets), refinements (remote wallet, kit and server), termination and liveness of
  deliveries and jobs, bounds of payouts and delays, and, as theorems too, the places where the
  code does not do what it means to. The last section of this theory joins the engine and
  the session routes.

  \<^bold>\<open>Parameters.\<close> SHA-256, HMAC, AES-GCM, random strings, \<open>exp\<close> and \<open>log\<close>,
  \<open>JSON.stringify\<close> and \<open>JSON.parse\<close>, URL and date parsing, token signing, the schema
  package's tests for UUIDs and URLs, the matching of paths by the web framework, the checks of
  security keys, password hashes, the rate limiter, \<open>fetch\<close> and the store's query
  engine are not in the repository: they are arguments of the definitions, with the facts
  used of them as hypotheses.

  \<^bold>\<open>Not modelled.\<close> The user interfaces (\<^verbatim>\<open>apps/game-client\<close>, \<^verbatim>\<open>apps/operator-portal\<close>,
  \<^verbatim>\<open>apps/provider-admin\<close>, the mock operator's lobby), which render what the server
  sends; the provider's platform routes, the audit log and the certificate store behind them;
  the signing keys of launch tokens; the parts of the portal's routes that are plain queries;
  the clock monitor; seeds, scripts and test harnesses; metrics, logs and the wiring of the process.
  Transactions of the store are atomic steps here; its isolation between statements is modelled
  where a handler awaits a remote service, not between two statements of one handler,
  except for the audit chain, whose race is.
\<close>


section \<open>The engine's session and the session routes\<close>

lemma find_session_next_nonce:
  "db_sessions d' = next_nonce s (db_sessions d) \<Longrightarrow> find_session d (se_id s) = Some s \<Longrightarrow>
   find_session d' (se_id s) = Some (s\<lparr>se_nonce := se_nonce s + 1\<rparr>)"
proof -
  have "find (\<lambda>r. se_id r = i) (next_nonce s xs) = map_option (\<lambda>x. if se_id x = se_id s then x\<lparr>se_nonce := se_nonce x + 1\<rparr> else x)
      (find (\<lambda>r. se_id r = i) xs)" for i xs
    by (induction xs) (simp_all add: next_nonce_def)
  then show "db_sessions d' = next_nonce s (db_sessions d) \<Longrightarrow> find_session d (se_id s) = Some s \<Longrightarrow> ?thesis"
    by (simp add: find_session_def)
qed

lemma rotate_route_reveals:
  assumes "operator_gates renv later inb ip rw = Inr o1" "RotateSeedBody (rv_zod renv) body = Some cs"
    and "find_session (sw_db rw) i = Some s" "se_operatorId s = op_id o1" "se_terminatedAt s = None"
  shows "\<exists>hash rw'. rotate_route renv later random inb ip i body rw =
    ((200, JObj [(''sessionId'', JStr i), (''revealedServerSeed'', JStr (se_serverSeed s)), (''newServerSeedHash'', JStr hash)]), rw')"
  using assms by (simp add: rotate_route_def getActive_def scoped_def rotateSeed_def Let_def)

text \<open>C38. The operator of a round can learn its outcome while bets are open: the call that rotates the seed
  of a session takes the engine's own session, too, and answers with the seed of the round
  in play; the other two inputs of the draw have been published when the round was opened.\<close>

theorem rotate_seed_reveals_round_in_play:
  assumes "engine_session w = Some s" "now < se_expiresAt s" "find_session (wd_db w) (se_id s) = Some s"
    and "find_round (wd_db w) (uuid_at env w 0) = None" "w1 = openBetting env now m w"
    and "sw_db rw = wd_db w1" "operator_gates renv later inb ip rw = Inr o1" "op_id o1 = ec_operatorId (en_cfg (wd_engine w))"
    and "RotateSeedBody (rv_zod renv) body = Some cs"
  shows "\<exists>a ans rw'. en_active (wd_engine w1) = Some a \<and> ar_phase a = PhBettingOpen \<and>
    rotate_route renv later random inb ip (se_id s) body rw = ((200, ans), rw') \<and>
    get_prop ans ''revealedServerSeed'' = JStr (ar_serverSeed a) \<and>
    get_prop (em_payload (last (wd_out w1))) ''clientSeed'' = JStr (ar_clientSeed a) \<and>
    get_prop (em_payload (last (wd_out w1))) ''nonce'' = jint (ar_nonce a)"
proof -
  obtain a where a: "en_active (wd_engine w1) = Some a" "open_round a s"
    "db_sessions (wd_db w1) = next_nonce s (db_sessions (wd_db w))"
    using openBetting_live [OF assms(1,2,4), of m] unfolding assms(5) by blast
  have out: "get_prop (em_payload (last (wd_out w1))) ''clientSeed'' = JStr (ar_clientSeed a)"
    "get_prop (em_payload (last (wd_out w1))) ''nonce'' = jint (ar_nonce a)"
    using a(1) unfolding assms(5) by (auto simp: openBetting_def emit_def emit_to_def set_active_def get_prop_def Let_def split: prod.splits)
  have s: "se_operatorId s = op_id o1" "se_terminatedAt s = None"
    using assms(1,8) by (auto simp: engine_session_def dest: find_SomeD)
  from find_session_next_nonce [OF a(3) assms(3)] have "find_session (sw_db rw) (se_id s) = Some (s\<lparr>se_nonce := se_nonce s + 1\<rparr>)"
    unfolding assms(6) .
  from rotate_route_reveals [OF assms(7,9) this, of random] s obtain h rw' where
    "rotate_route renv later random inb ip (se_id s) body rw = ((200, JObj [(''sessionId'', JStr (se_id s)),
       (''revealedServerSeed'', JStr (se_serverSeed s)), (''newServerSeedHash'', JStr h)]), rw')" by auto
  with a(1,2) out show ?thesis by (simp add: open_round_def get_prop_def)
qed

theorem rotate_seed_reveals_round_in_play_witness:
  "\<exists>a ans rw'. en_active (wd_engine (openBetting (env_with ok_response) 1 1 fair_world)) = Some a \<and>
    rotate_route sample_route_env 9 ''new'' (signed_sample ''kid_demo_aa'' 9) None ''e'' JUndefined
      (sample_world\<lparr>sw_db := wd_db (openBetting (env_with ok_response) 1 1 fair_world)\<rparr>) = ((200, ans), rw') \<and>
    get_prop ans ''revealedServerSeed'' = JStr (ar_serverSeed a)"
proof -
  have r: "engine_session fair_world = Some engine_row" "(1::int) < se_expiresAt engine_row"
    "find_round (wd_db fair_world) (uuid_at (env_with ok_response) fair_world 0) = None"
    using fair_ready by (simp_all add: ready_def fair_clock_def)
  have f: "find_session (wd_db fair_world) (se_id engine_row) = Some engine_row"
    by (simp add: fair_world_def find_session_def dice_sample)
  let ?rw = "sample_world\<lparr>sw_db := wd_db (openBetting (env_with ok_response) 1 1 fair_world)\<rparr>"
  have g: "operator_gates sample_route_env 9 (signed_sample ''kid_demo_aa'' 9) None ?rw = Inr sample_operator_row"
    by (simp add: operator_gates_def sample_route_env_def sample_world_def sample_operator_gates)
      (simp add: ipAllowList_def sample_operator_row_def)
  have b: "RotateSeedBody (rv_zod sample_route_env) JUndefined = Some None"
    by (simp add: RotateSeedBody_def body_or_empty_def opt_str_def get_prop_def)
  have i: "se_id engine_row = ''e''" "op_id sample_operator_row = ec_operatorId (en_cfg (wd_engine fair_world))"
    by (simp_all add: engine_row_def sample_operator_row_def fair_world_def dice_sample)
  have db: "sw_db ?rw = wd_db (openBetting (env_with ok_response) 1 1 fair_world)" by simp
  from rotate_seed_reveals_round_in_play [OF r(1,2) f r(3) refl db g i(2) b, of "''new''"] show ?thesis
    unfolding i(1) by blast
qed
end
